(* ===== verification/Prelude.thy ===== *)
theory Prelude
  imports
    Main
    "HOL-Library.Word"
    "HOL-Library.Char_ord"
    "HOL-Library.List_Lexorder"
    "HOL-Library.Product_Lexorder"
    "HOL-Library.FSet"
begin

section \<open>Shared vocabulary of the development\<close>

text \<open>
  The pieces of Rust that every component uses: fixed-width integers with saturating
  arithmetic, \<open>std::cmp::Ordering\<close> with \<open>then_with\<close>, \<open>Iterator::max_by\<close> and
  \<open>min_by\<close>, and strings as UTF-8 byte lists (a HOL \<^typ>\<open>char\<close> is one byte, so the
  lexicographic order of \<^typ>\<open>string\<close> is the byte order of Rust's \<open>String\<close> and
  \<^const>\<open>length\<close> is \<open>str::len\<close>). The locale \<open>keyed_comparison\<close> is the contract between
  a comparator and the code that picks an extreme element with it.
\<close>

named_theorems rust_arith \<open>unsigned values of saturating machine arithmetic\<close>
named_theorems rust_eval \<open>definitions unfolded to evaluate a closed term\<close>

subsection \<open>Machine integers\<close>

type_synonym u8 = "8 word"
type_synonym u16 = "16 word"
type_synonym u32 = "32 word"
type_synonym u64 = "64 word"

text \<open>\<open>usize\<close> values are lengths and positions; they are \<^typ>\<open>nat\<close>, with the 64-bit bound named.\<close>

definition usize_max :: nat where
  "usize_max = 2 ^ 64 - 1"

definition sat_add :: "'a::len word \<Rightarrow> 'a word \<Rightarrow> 'a word" where
  "sat_add a b = (if unat a + unat b < 2 ^ LENGTH('a) then a + b else - 1)"

definition sat_sub :: "'a::len word \<Rightarrow> 'a word \<Rightarrow> 'a word" where
  "sat_sub a b = (if b \<le> a then a - b else 0)"

definition sat_mul :: "'a::len word \<Rightarrow> 'a word \<Rightarrow> 'a word" where
  "sat_mul a b = (if unat a * unat b < 2 ^ LENGTH('a) then a * b else - 1)"

definition abs_diff :: "'a::len word \<Rightarrow> 'a word \<Rightarrow> 'a word" where
  "abs_diff a b = (if a \<le> b then b - a else a - b)"

lemma unat_max_word: "unat (- 1 :: 'a::len word) = 2 ^ LENGTH('a) - 1"
  by (simp add: unsigned_minus_1_eq_mask mask_eq_exp_minus_1)

lemma unat_le_max: "unat (a :: 'a::len word) \<le> 2 ^ LENGTH('a) - 1"
proof -
  have "unat a < 2 ^ LENGTH('a)" by (rule unsigned_less)
  then show ?thesis by linarith
qed

lemma unat_sat_add [rust_arith]:
  fixes a b :: "'a::len word"
  shows "unat (sat_add a b) = min (unat a + unat b) (2 ^ LENGTH('a) - 1)"
  by (auto simp: sat_add_def unat_max_word unat_word_ariths)

lemma unat_sat_sub [rust_arith]: "unat (sat_sub a b) = unat a - unat b"
  by (auto simp: sat_sub_def unat_sub word_le_nat_alt)

lemma unat_sat_mul [rust_arith]:
  fixes a b :: "'a::len word"
  shows "unat (sat_mul a b) = min (unat a * unat b) (2 ^ LENGTH('a) - 1)"
  by (auto simp: sat_mul_def unat_max_word unat_word_ariths)

lemma unat_abs_diff [rust_arith]:
  "unat (abs_diff a b) = (if unat a \<le> unat b then unat b - unat a else unat a - unat b)"
  by (auto simp: abs_diff_def unat_sub word_le_nat_alt)

lemma abs_diff_commute: "abs_diff a b = abs_diff b a"
  by (auto simp: abs_diff_def)

lemma sat_add_ge [simp]: "a \<le> sat_add a b"
  using unat_le_max [of a] by (auto simp: word_le_nat_alt rust_arith)

lemma sat_add_gt: "0 < b \<Longrightarrow> a \<noteq> - 1 \<Longrightarrow> a < sat_add a b"
  for a b :: "'a::len word"
  using unat_le_max [of a] unat_max_word [where 'a = 'a]
  by (auto simp: word_less_nat_alt word_unat_eq_iff rust_arith)

lemma sat_add_1_neq_0 [simp]: "sat_add n 1 \<noteq> (0 :: 'a::len word)"
proof -
  have "1 < (2 :: nat) ^ LENGTH('a)" by (rule one_less_power) simp_all
  then have "0 < min (unat n + unat (1 :: 'a word)) (2 ^ LENGTH('a) - 1)" by simp
  then show ?thesis by (metis less_irrefl unat_0 unat_sat_add)
qed

lemma sat_add_mono: "a \<le> a' \<Longrightarrow> sat_add a b \<le> sat_add a' b"
  by (auto simp: word_le_nat_alt rust_arith)

lemma sat_sub_le: "a \<le> b \<Longrightarrow> sat_sub a b = 0" "\<not> a \<le> b \<Longrightarrow> sat_sub a b = a - b"
  by (auto simp: sat_sub_def)

lemma unat_foldl_sat_add:
  "unat (foldl sat_add a xs) = min (unat a + sum_list (map unat xs)) (2 ^ LENGTH('a) - 1)"
  for a :: "'a::len word"
  using unat_le_max [of a] by (induction xs arbitrary: a) (auto simp: rust_arith min_def)

lemma sat_sub_0 [simp]: "sat_sub a a = 0" "sat_sub a 0 = a" "sat_sub 0 a = 0"
  by (auto simp: sat_sub_def)

subsection \<open>Ordering, comparators and extreme elements\<close>

datatype ordering = Less | Equal | Greater

definition cmp :: "'a::linorder \<Rightarrow> 'a \<Rightarrow> ordering" where
  "cmp a b = (if a < b then Less else if a = b then Equal else Greater)"

fun then_with :: "ordering \<Rightarrow> ordering \<Rightarrow> ordering" where
  "then_with Equal next_cmp = next_cmp"
| "then_with Less next_cmp = Less"
| "then_with Greater next_cmp = Greater"

fun reverse_ordering :: "ordering \<Rightarrow> ordering" where
  "reverse_ordering Less = Greater"
| "reverse_ordering Equal = Equal"
| "reverse_ordering Greater = Less"

lemma cmp_iff [simp]:
  "cmp a b = Less \<longleftrightarrow> a < b" "cmp a b = Equal \<longleftrightarrow> a = b" "cmp a b = Greater \<longleftrightarrow> b < a"
  by (auto simp: cmp_def)

lemma cmp_swap: "cmp a b = reverse_ordering (cmp b a)"
  by (auto simp: cmp_def)

lemma then_with_swap:
  "then_with (reverse_ordering a) (reverse_ordering b) = reverse_ordering (then_with a b)"
  by (cases a) auto

lemma then_with_eq_Equal [simp]: "then_with a b = Equal \<longleftrightarrow> a = Equal \<and> b = Equal"
  by (cases a) auto

lemma then_with_Equal_right [simp]: "then_with a Equal = a"
  by (cases a) auto

lemma then_with_not_Equal: "a \<noteq> Equal \<Longrightarrow> then_with a b = a"
  by (cases a) auto

text \<open>Chaining two key comparisons compares the pairs of keys lexicographically.\<close>

lemma then_with_cmp: "then_with (cmp a b) (cmp c d) = cmp (a, c) (b, d)"
  by (auto simp: cmp_def less_prod_def)

lemma reverse_ordering_eq [simp]:
  "reverse_ordering a = Less \<longleftrightarrow> a = Greater" "reverse_ordering a = Equal \<longleftrightarrow> a = Equal"
  "reverse_ordering a = Greater \<longleftrightarrow> a = Less" "reverse_ordering (reverse_ordering a) = a"
  by (cases a; simp)+

text \<open>
  \<open>Iterator::max_by\<close> keeps the accumulated element only where it compares \<open>Greater\<close> (the
  last of several maxima wins); \<open>Iterator::min_by\<close> replaces it only where it compares
  \<open>Greater\<close> (the first of several minima wins).
\<close>

definition max_by :: "('a \<Rightarrow> 'a \<Rightarrow> ordering) \<Rightarrow> 'a list \<Rightarrow> 'a option" where
  "max_by c xs = (case xs of [] \<Rightarrow> None
     | x # ys \<Rightarrow> Some (foldl (\<lambda>a b. if c a b = Greater then a else b) x ys))"

definition min_by :: "('a \<Rightarrow> 'a \<Rightarrow> ordering) \<Rightarrow> 'a list \<Rightarrow> 'a option" where
  "min_by c xs = (case xs of [] \<Rightarrow> None
     | x # ys \<Rightarrow> Some (foldl (\<lambda>a b. if c a b = Greater then b else a) x ys))"

definition min_opt :: "'a::linorder list \<Rightarrow> 'a option" where
  "min_opt xs = min_by cmp xs"

definition max_opt :: "'a::linorder list \<Rightarrow> 'a option" where
  "max_opt xs = max_by cmp xs"

lemma fold_choice_mem: "foldl (\<lambda>a b. if P a b then a else b) x ys \<in> insert x (set ys)"
proof (induction ys arbitrary: x)
  case (Cons y ys)
  then show ?case using Cons.IH [of "if P x y then x else y"] by auto
qed simp

lemma fold_choice_mem': "foldl (\<lambda>a b. if P a b then b else a) x ys \<in> insert x (set ys)"
proof (induction ys arbitrary: x)
  case (Cons y ys)
  then show ?case using Cons.IH [of "if P x y then y else x"] by auto
qed simp

lemma max_by_mem: "max_by c xs = Some x \<Longrightarrow> x \<in> set xs"
  using fold_choice_mem [of "\<lambda>a b. c a b = Greater"]
  by (auto simp: max_by_def split: list.splits)

lemma min_by_mem: "min_by c xs = Some x \<Longrightarrow> x \<in> set xs"
  using fold_choice_mem' [of "\<lambda>a b. c a b = Greater"]
  by (auto simp: min_by_def split: list.splits)

lemma max_by_None [simp]: "max_by c xs = None \<longleftrightarrow> xs = []"
  by (auto simp: max_by_def split: list.splits)

lemma min_by_None [simp]: "min_by c xs = None \<longleftrightarrow> xs = []"
  by (auto simp: min_by_def split: list.splits)

lemma extreme_Nil [simp]: "max_by c [] = None" "min_by c [] = None"
  by (simp_all add: max_by_def min_by_def)

text \<open>
  A comparator that agrees with a linearly ordered key wherever the keys differ. It may break
  ties in any way, even inconsistently: the extreme element it picks still has an extreme key.
\<close>

locale keyed_comparison =
  fixes compare :: "'a \<Rightarrow> 'a \<Rightarrow> ordering"
    and key :: "'a \<Rightarrow> 'k::linorder"
  assumes compare_less: "key x < key y \<Longrightarrow> compare x y = Less"
    and compare_greater: "key y < key x \<Longrightarrow> compare x y = Greater"
begin

lemma fold_max_key:
  "\<forall>y \<in> insert x (set ys). key y \<le> key (foldl (\<lambda>a b. if compare a b = Greater then a else b) x ys)"
proof (induction ys arbitrary: x)
  case Nil
  then show ?case by simp
next
  case (Cons y ys)
  let ?z = "if compare x y = Greater then x else y"
  have "key x \<le> key ?z" "key y \<le> key ?z"
    using compare_less [of x y] compare_greater [of y x] by (auto intro: leI)
  with Cons.IH [of ?z] show ?case by (auto intro: order_trans)
qed

lemma max_by_key: "max_by compare xs = Some x \<Longrightarrow> y \<in> set xs \<Longrightarrow> key y \<le> key x"
  using fold_max_key by (fastforce simp: max_by_def split: list.splits)

lemma fold_min_key:
  "\<forall>y \<in> insert x (set ys). key (foldl (\<lambda>a b. if compare a b = Greater then b else a) x ys) \<le> key y"
proof (induction ys arbitrary: x)
  case Nil
  then show ?case by simp
next
  case (Cons y ys)
  let ?z = "if compare x y = Greater then y else x"
  have "key ?z \<le> key x" "key ?z \<le> key y"
    using compare_less [of x y] compare_greater [of y x] by (auto intro: leI)
  with Cons.IH [of ?z] show ?case by (auto intro: order_trans)
qed

lemma min_by_key: "min_by compare xs = Some x \<Longrightarrow> y \<in> set xs \<Longrightarrow> key x \<le> key y"
  using fold_min_key by (fastforce simp: min_by_def split: list.splits)

end

interpretation cmp_key: keyed_comparison cmp "\<lambda>x. x"
  by unfold_locales auto

lemma min_opt_Some: "min_opt xs = Some x \<longleftrightarrow> x \<in> set xs \<and> (\<forall>y \<in> set xs. x \<le> y)"
proof
  assume "min_opt xs = Some x"
  then show "x \<in> set xs \<and> (\<forall>y \<in> set xs. x \<le> y)"
    by (auto simp: min_opt_def dest: min_by_mem cmp_key.min_by_key)
next
  assume *: "x \<in> set xs \<and> (\<forall>y \<in> set xs. x \<le> y)"
  then obtain z where z: "min_opt xs = Some z" by (cases "min_opt xs") (auto simp: min_opt_def)
  then have "z \<in> set xs" "z \<le> x" using *
    by (auto simp: min_opt_def dest: min_by_mem cmp_key.min_by_key)
  with * z show "min_opt xs = Some x" by force
qed

lemma max_opt_Some: "max_opt xs = Some x \<longleftrightarrow> x \<in> set xs \<and> (\<forall>y \<in> set xs. y \<le> x)"
proof
  assume "max_opt xs = Some x"
  then show "x \<in> set xs \<and> (\<forall>y \<in> set xs. y \<le> x)"
    by (auto simp: max_opt_def dest: max_by_mem cmp_key.max_by_key)
next
  assume *: "x \<in> set xs \<and> (\<forall>y \<in> set xs. y \<le> x)"
  then obtain z where z: "max_opt xs = Some z" by (cases "max_opt xs") (auto simp: max_opt_def)
  then have "z \<in> set xs" "x \<le> z" using *
    by (auto simp: max_opt_def dest: max_by_mem cmp_key.max_by_key)
  with * z show "max_opt xs = Some x" by force
qed

lemma min_opt_None [simp]: "min_opt xs = None \<longleftrightarrow> xs = []"
  by (simp add: min_opt_def)

lemma max_opt_None [simp]: "max_opt xs = None \<longleftrightarrow> xs = []"
  by (simp add: max_opt_def)

lemma find_Some_mem: "find P xs = Some x \<Longrightarrow> x \<in> set xs \<and> P x"
  by (induction xs) (auto split: if_splits)

lemma map_filter_mem: "y \<in> set (List.map_filter f xs) \<longleftrightarrow> (\<exists>x \<in> set xs. f x = Some y)"
  by (induction xs) (auto simp: map_filter_simps split: option.splits)

subsection \<open>Step relations and their invariants\<close>

text \<open>
  The states a component can reach from its initial state, and the contract by which a component
  shows that a predicate holds in all of them. Each state machine of the development interprets
  the locale on its own step relation.
\<close>

inductive reach :: "('s \<Rightarrow> 's \<Rightarrow> bool) \<Rightarrow> 's \<Rightarrow> 's \<Rightarrow> bool" for step_rel s0 where
  start: "reach step_rel s0 s0"
| step: "reach step_rel s0 a \<Longrightarrow> step_rel a b \<Longrightarrow> reach step_rel s0 b"

lemma reach_mono:
  assumes "reach step_rel s0 a" and "\<And>a b. step_rel a b \<Longrightarrow> step_rel' a b"
  shows "reach step_rel' s0 a"
  using assms(1) by (induction rule: reach.induct) (auto intro: reach.intros assms(2))

locale step_invariant =
  fixes step_rel :: "'s \<Rightarrow> 's \<Rightarrow> bool" and s0 :: 's and inv :: "'s \<Rightarrow> bool"
  assumes initial: "inv s0"
    and preserved: "step_rel a b \<Longrightarrow> inv a \<Longrightarrow> inv b"
begin

lemma holds: "reach step_rel s0 a \<Longrightarrow> inv a"
  by (induction rule: reach.induct) (auto intro: initial preserved)

end

end
