(* ===== verification/Rust_Strings.thy ===== *)
theory Rust_Strings
  imports Prelude
begin

section \<open>Strings as UTF-8 bytes\<close>

text \<open>
  The \<open>str\<close> methods the sources call: ASCII case folding, \<open>trim\<close>, \<open>starts_with\<close>,
  \<open>char::is_control\<close>, byte classes and decimal formatting. A string is the list of its UTF-8
  bytes. \<open>trim\<close> strips the encodings of the 25 code points with the Unicode property
  White\_Space; UTF-8 is self-synchronising, so matching whole encodings at either end of valid
  UTF-8 removes exactly the characters Rust removes.
\<close>

subsection \<open>ASCII case\<close>

definition is_ascii_upper :: "char \<Rightarrow> bool" where
  "is_ascii_upper c \<longleftrightarrow> CHR ''A'' \<le> c \<and> c \<le> CHR ''Z''"

definition is_ascii_lower :: "char \<Rightarrow> bool" where
  "is_ascii_lower c \<longleftrightarrow> CHR ''a'' \<le> c \<and> c \<le> CHR ''z''"

definition is_ascii_digit :: "char \<Rightarrow> bool" where
  "is_ascii_digit c \<longleftrightarrow> CHR ''0'' \<le> c \<and> c \<le> CHR ''9''"

definition is_ascii_alphanumeric :: "char \<Rightarrow> bool" where
  "is_ascii_alphanumeric c \<longleftrightarrow> is_ascii_upper c \<or> is_ascii_lower c \<or> is_ascii_digit c"

text \<open>\<open>u8::to_ascii_lowercase\<close> sets bit 5 of an upper-case letter.\<close>

definition ascii_lower :: "char \<Rightarrow> char" where
  "ascii_lower c = (if is_ascii_upper c
     then (case c of Char b0 b1 b2 b3 b4 b5 b6 b7 \<Rightarrow> Char b0 b1 b2 b3 b4 True b6 b7) else c)"

definition to_ascii_lowercase :: "string \<Rightarrow> string" where
  "to_ascii_lowercase s = map ascii_lower s"

definition eq_ignore_ascii_case :: "string \<Rightarrow> string \<Rightarrow> bool" where
  "eq_ignore_ascii_case a b \<longleftrightarrow> to_ascii_lowercase a = to_ascii_lowercase b"

lemmas ascii_class_defs [rust_eval] =
  is_ascii_upper_def is_ascii_lower_def is_ascii_digit_def is_ascii_alphanumeric_def
  ascii_lower_def to_ascii_lowercase_def eq_ignore_ascii_case_def

lemma all_chars: "list_all P (Enum.enum :: char list) \<Longrightarrow> P c"
  using enum_UNIV [where 'a = char] by (metis UNIV_I list_all_iff)

lemma ascii_lower_not_upper: "\<not> is_ascii_upper (ascii_lower c)"
  by (rule all_chars [of "\<lambda>c. \<not> is_ascii_upper (ascii_lower c)"]) code_simp

lemma ascii_lower_upper: "is_ascii_upper c \<longrightarrow> is_ascii_lower (ascii_lower c)"
  by (rule all_chars [of "\<lambda>c. is_ascii_upper c \<longrightarrow> is_ascii_lower (ascii_lower c)"]) code_simp

lemma ascii_lower_idem [simp]: "ascii_lower (ascii_lower c) = ascii_lower c"
  using ascii_lower_not_upper [of c] by (simp add: ascii_lower_def [of "ascii_lower c"])

lemma ascii_lower_fixed: "\<not> is_ascii_upper c \<Longrightarrow> ascii_lower c = c"
  by (simp add: ascii_lower_def)

lemma alphanumeric_ascii_lower: "is_ascii_alphanumeric c \<Longrightarrow> is_ascii_alphanumeric (ascii_lower c)"
  using ascii_lower_upper [of c] ascii_lower_fixed [of c]
  by (cases "is_ascii_upper c") (auto simp: is_ascii_alphanumeric_def)

lemma to_ascii_lowercase_idem [simp]:
  "to_ascii_lowercase (to_ascii_lowercase s) = to_ascii_lowercase s"
  by (simp add: to_ascii_lowercase_def)

lemma length_to_ascii_lowercase [simp]: "length (to_ascii_lowercase s) = length s"
  by (simp add: to_ascii_lowercase_def)

lemma to_ascii_lowercase_Nil [simp]:
  "to_ascii_lowercase [] = []" "to_ascii_lowercase s = [] \<longleftrightarrow> s = []"
  by (simp_all add: to_ascii_lowercase_def)

lemma eq_ignore_ascii_case_refl [simp]: "eq_ignore_ascii_case s s"
  by (simp add: eq_ignore_ascii_case_def)

lemma eq_ignore_ascii_case_sym: "eq_ignore_ascii_case a b \<longleftrightarrow> eq_ignore_ascii_case b a"
  by (auto simp: eq_ignore_ascii_case_def)

lemma eq_ignore_ascii_case_trans:
  "eq_ignore_ascii_case a b \<Longrightarrow> eq_ignore_ascii_case b c \<Longrightarrow> eq_ignore_ascii_case a c"
  by (simp add: eq_ignore_ascii_case_def)

lemma eq_ignore_ascii_case_lower [simp]:
  "eq_ignore_ascii_case (to_ascii_lowercase a) b \<longleftrightarrow> eq_ignore_ascii_case a b"
  "eq_ignore_ascii_case a (to_ascii_lowercase b) \<longleftrightarrow> eq_ignore_ascii_case a b"
  by (simp_all add: eq_ignore_ascii_case_def)

subsection \<open>Whitespace and control characters\<close>

definition ws_encodings :: "string list" where
  "ws_encodings =
    [[CHR 0x20], [CHR 0x09], [CHR 0x0A], [CHR 0x0B], [CHR 0x0C], [CHR 0x0D],
     [CHR 0xC2, CHR 0x85], [CHR 0xC2, CHR 0xA0], [CHR 0xE1, CHR 0x9A, CHR 0x80],
     [CHR 0xE2, CHR 0x80, CHR 0x80], [CHR 0xE2, CHR 0x80, CHR 0x81],
     [CHR 0xE2, CHR 0x80, CHR 0x82], [CHR 0xE2, CHR 0x80, CHR 0x83],
     [CHR 0xE2, CHR 0x80, CHR 0x84], [CHR 0xE2, CHR 0x80, CHR 0x85],
     [CHR 0xE2, CHR 0x80, CHR 0x86], [CHR 0xE2, CHR 0x80, CHR 0x87],
     [CHR 0xE2, CHR 0x80, CHR 0x88], [CHR 0xE2, CHR 0x80, CHR 0x89],
     [CHR 0xE2, CHR 0x80, CHR 0x8A], [CHR 0xE2, CHR 0x80, CHR 0xA8],
     [CHR 0xE2, CHR 0x80, CHR 0xA9], [CHR 0xE2, CHR 0x80, CHR 0xAF],
     [CHR 0xE2, CHR 0x81, CHR 0x9F], [CHR 0xE3, CHR 0x80, CHR 0x80]]"

definition leading_token :: "string list \<Rightarrow> string \<Rightarrow> string option" where
  "leading_token ws s = find (\<lambda>w. w \<noteq> [] \<and> take (length w) s = w) ws"

lemma leading_token_Some:
  assumes "leading_token ws s = Some w"
  shows "w \<noteq> []" and "take (length w) s = w" and "s \<noteq> []"
  using assms by (auto simp: leading_token_def find_Some_iff)

function strip_leading :: "string list \<Rightarrow> string \<Rightarrow> string" where
  "strip_leading ws s = (case leading_token ws s of None \<Rightarrow> s
     | Some w \<Rightarrow> strip_leading ws (drop (length w) s))"
  by pat_completeness auto
termination
  by (relation "measure (\<lambda>(ws, s). length s)")
    (use leading_token_Some(1,3) in fastforce)+

declare strip_leading.simps [simp del]

definition trim_start :: "string \<Rightarrow> string" where
  "trim_start s = strip_leading ws_encodings s"

definition trim_end :: "string \<Rightarrow> string" where
  "trim_end s = rev (strip_leading (map rev ws_encodings) (rev s))"

definition trim :: "string \<Rightarrow> string" where
  "trim s = trim_end (trim_start s)"

lemma strip_leading_None [simp]: "leading_token ws (strip_leading ws s) = None"
  by (induction ws s rule: strip_leading.induct)
    (subst strip_leading.simps, auto split: option.splits)

lemma strip_leading_fixed: "leading_token ws s = None \<Longrightarrow> strip_leading ws s = s"
  by (simp add: strip_leading.simps [of ws s])

lemma strip_leading_suffix: "\<exists>p. s = p @ strip_leading ws s"
proof (induction ws s rule: strip_leading.induct)
  case (1 ws s)
  show ?case
  proof (cases "leading_token ws s")
    case None
    then show ?thesis by (simp add: strip_leading.simps [of ws s])
  next
    case (Some w)
    with "1.IH" obtain p where "drop (length w) s = p @ strip_leading ws (drop (length w) s)" by blast
    with Some show ?thesis
      by (metis append.assoc append_take_drop_id option.simps(5) strip_leading.simps)
  qed
qed

lemma leading_token_prefix: "leading_token ws (s @ t) = None \<Longrightarrow> leading_token ws s = None"
  by (auto simp: leading_token_def find_None_iff)

lemma trim_end_prefix: "\<exists>p. s = trim_end s @ p"
proof -
  obtain p where "rev s = p @ strip_leading (map rev ws_encodings) (rev s)"
    using strip_leading_suffix by blast
  then have "rev (rev s) = rev (p @ strip_leading (map rev ws_encodings) (rev s))" by simp
  then show ?thesis by (simp add: trim_end_def) blast
qed

lemma trim_idem [simp]: "trim (trim s) = trim s"
proof -
  obtain p where "trim_start s = trim s @ p" using trim_end_prefix by (auto simp: trim_def)
  then have "leading_token ws_encodings (trim s) = None"
    by (metis leading_token_prefix strip_leading_None trim_start_def)
  then have "trim_start (trim s) = trim s" by (simp add: trim_start_def strip_leading_fixed)
  then show ?thesis by (simp add: trim_def trim_end_def strip_leading_fixed)
qed

lemma length_trim: "length (trim s) \<le> length s"
proof -
  obtain p q where "s = p @ trim_start s" "trim_start s = trim s @ q"
    using strip_leading_suffix trim_end_prefix by (metis trim_def trim_start_def)
  then show ?thesis by (metis length_append le_add1 le_add2 order_trans)
qed

text \<open>
  A one-byte test that settles most calls: a byte that begins no encoding stops the scan.
\<close>

definition ws_byte :: "char \<Rightarrow> bool" where
  "ws_byte c \<longleftrightarrow> c \<in> set (concat ws_encodings)"

lemma leading_token_Cons: "\<not> (\<exists>w \<in> set ws. c \<in> set w) \<Longrightarrow> leading_token ws (c # s) = None"
  by (auto simp: leading_token_def find_None_iff take_Cons' split: if_splits)
    (metis list.set_intros(1))

lemma trim_fixed:
  assumes "\<forall>c \<in> set s. \<not> ws_byte c"
  shows "trim s = s"
proof -
  have "leading_token ws_encodings s = None"
    using assms by (cases s) (auto simp: ws_byte_def leading_token_Cons, simp add: leading_token_def ws_encodings_def)
  moreover have "leading_token (map rev ws_encodings) (rev s) = None"
    using assms
    by (cases "rev s") (auto simp: ws_byte_def leading_token_Cons simp flip: set_rev [of s], simp add: leading_token_def ws_encodings_def)
  ultimately show ?thesis by (simp add: trim_def trim_start_def trim_end_def strip_leading_fixed)
qed

fun has_control :: "string \<Rightarrow> bool" where
  "has_control [] \<longleftrightarrow> False"
| "has_control (c # s) \<longleftrightarrow> c < CHR 0x20 \<or> c = CHR 0x7F
     \<or> (c = CHR 0xC2 \<and> (case s of [] \<Rightarrow> False | d # _ \<Rightarrow> CHR 0x80 \<le> d \<and> d \<le> CHR 0x9F))
     \<or> has_control s"

subsection \<open>Characters of a UTF-8 string\<close>

text \<open>
  \<open>chars().take(n)\<close> and \<open>chars().count()\<close> count the bytes that are not continuation bytes.
\<close>

definition is_continuation :: "char \<Rightarrow> bool" where
  "is_continuation c \<longleftrightarrow> CHR 0x80 \<le> c \<and> c \<le> CHR 0xBF"

fun take_chars :: "nat \<Rightarrow> string \<Rightarrow> string" where
  "take_chars n [] = []"
| "take_chars n (c # s) =
     (if is_continuation c then c # take_chars n s
      else if n = 0 then [] else c # take_chars (n - 1) s)"

definition count_chars :: "string \<Rightarrow> nat" where
  "count_chars s = length (filter (\<lambda>c. \<not> is_continuation c) s)"

text \<open>
  \<open>String::from_utf8_lossy\<close>: the longest well-formed sequence at the head is kept, and each maximal
  ill-formed one becomes U+FFFD. \<open>utf8_step\<close> tells which it is and how many bytes it has.
\<close>

definition second_byte_ok :: "char \<Rightarrow> char \<Rightarrow> bool" where
  "second_byte_ok b c =
     (if b = CHR 0xE0 then CHR 0xA0 \<le> c \<and> c \<le> CHR 0xBF
      else if b = CHR 0xED then CHR 0x80 \<le> c \<and> c \<le> CHR 0x9F
      else if b = CHR 0xF0 then CHR 0x90 \<le> c \<and> c \<le> CHR 0xBF
      else if b = CHR 0xF4 then CHR 0x80 \<le> c \<and> c \<le> CHR 0x8F
      else is_continuation c)"

definition utf8_length :: "char \<Rightarrow> nat" where
  "utf8_length b =
     (if b < CHR 0x80 then 1
      else if CHR 0xC2 \<le> b \<and> b \<le> CHR 0xDF then 2
      else if CHR 0xE0 \<le> b \<and> b \<le> CHR 0xEF then 3
      else if CHR 0xF0 \<le> b \<and> b \<le> CHR 0xF4 then 4
      else 0)"

definition utf8_step :: "char \<Rightarrow> string \<Rightarrow> bool \<times> nat" where
  "utf8_step b s =
     (let n = utf8_length b in
      if n \<le> 1 then (n = 1, 1)
      else (case s of
          [] \<Rightarrow> (False, 1)
        | c # r \<Rightarrow>
            if \<not> second_byte_ok b c then (False, 1)
            else
              let k = min (n - 2) (length (takeWhile is_continuation r))
              in (k = n - 2, k + 2)))"

function from_utf8_lossy :: "string \<Rightarrow> string" where
  "from_utf8_lossy [] = []"
| "from_utf8_lossy (b # s) =
     (case utf8_step b s of (ok, n) \<Rightarrow>
        (if ok then take n (b # s) else [CHR 0xEF, CHR 0xBF, CHR 0xBD])
          @ from_utf8_lossy (drop (n - 1) s))"
  by pat_completeness auto
termination by (relation "measure length") auto

declare from_utf8_lossy.simps(2) [simp del]

subsection \<open>Substrings and decimal formatting\<close>

definition starts_with :: "string \<Rightarrow> string \<Rightarrow> bool" where
  "starts_with s p \<longleftrightarrow> take (length p) s = p"

fun contains_str :: "string \<Rightarrow> string \<Rightarrow> bool" where
  "contains_str [] p \<longleftrightarrow> p = []"
| "contains_str (c # s) p \<longleftrightarrow> starts_with (c # s) p \<or> contains_str s p"

definition ends_with :: "string \<Rightarrow> string \<Rightarrow> bool" where
  "ends_with s p \<longleftrightarrow> length p \<le> length s \<and> drop (length s - length p) s = p"

definition digit_char :: "nat \<Rightarrow> char" where
  "digit_char n = ''0123456789'' ! n"

fun show_nat :: "nat \<Rightarrow> string" where
  "show_nat n = (if n < 10 then [digit_char n] else show_nat (n div 10) @ [digit_char (n mod 10)])"

declare show_nat.simps [simp del]

lemmas rust_string_defs [rust_eval] = starts_with_def digit_char_def

end
