(* ===== verification/Model_Rules.thy ===== *)
theory Model_Rules
  imports Rust_Strings
begin

section \<open>Model rules and safe error codes\<close>

text \<open>
  The allow and exclude patterns of \<open>catalog/rules.rs\<close> and the error-code filters of
  \<open>error.rs\<close>: the small string predicates that routing, quota and automation share.
\<close>

subsection \<open>Patterns (\<open>catalog/rules.rs\<close>)\<close>

record ModelRules =
  rules_allowed :: "string fset"
  rules_excluded :: "string fset"

text \<open>\<open>str::get(..n)\<close>: \<open>None\<close> past the end or inside a multi-byte character.\<close>

definition str_prefix :: "string \<Rightarrow> nat \<Rightarrow> string option" where
  "str_prefix s n =
     (if n > length s then None
      else if n < length s \<and> CHR 0x80 \<le> s ! n \<and> s ! n \<le> CHR 0xBF then None
      else Some (take n s))"

definition strip_star :: "string \<Rightarrow> string option" where
  "strip_star s = (if s \<noteq> [] \<and> last s = CHR ''*'' then Some (butlast s) else None)"

definition rule_matches :: "string \<Rightarrow> string \<Rightarrow> bool" where
  "rule_matches rule0 model =
     (let rule = trim rule0 in
      if rule = ''*'' then True
      else case strip_star rule of
        None \<Rightarrow> eq_ignore_ascii_case rule model
      | Some pre \<Rightarrow> (case str_prefix model (length pre) of
            None \<Rightarrow> False | Some value \<Rightarrow> eq_ignore_ascii_case value pre))"

definition allows :: "ModelRules \<Rightarrow> string \<Rightarrow> bool" where
  "allows rules model \<longleftrightarrow>
     \<not> fBex (rules_excluded rules) (\<lambda>rule. rule_matches rule model)
     \<and> (rules_allowed rules = {||} \<or> fBex (rules_allowed rules) (\<lambda>rule. rule_matches rule model))"

definition default_rules :: ModelRules where
  "default_rules = \<lparr>rules_allowed = {||}, rules_excluded = {||}\<rparr>"

lemma allows_default [simp]: "allows default_rules model"
  by (simp add: allows_def default_rules_def)

lemma str_prefix_case:
  assumes "eq_ignore_ascii_case m m'"
  shows "rel_option eq_ignore_ascii_case (str_prefix m n) (str_prefix m' n)"
proof -
  have len: "length m = length m'"
    using assms by (metis eq_ignore_ascii_case_def length_to_ascii_lowercase)
  have nth: "ascii_lower (m ! n) = ascii_lower (m' ! n)" if "n < length m"
    using assms that len by (metis eq_ignore_ascii_case_def nth_map to_ascii_lowercase_def)
  have cont: "CHR 0x80 \<le> c \<and> c \<le> CHR 0xBF \<longleftrightarrow> CHR 0x80 \<le> ascii_lower c \<and> ascii_lower c \<le> CHR 0xBF" for c
    by (rule all_chars [of "\<lambda>c. (CHR 0x80 \<le> c \<and> c \<le> CHR 0xBF) \<longleftrightarrow> (CHR 0x80 \<le> ascii_lower c \<and> ascii_lower c \<le> CHR 0xBF)"]) code_simp
  have "eq_ignore_ascii_case (take n m) (take n m')"
    using assms by (metis eq_ignore_ascii_case_def take_map to_ascii_lowercase_def)
  then show ?thesis using len nth cont [of "m ! n"] cont [of "m' ! n"]
    by (auto simp: str_prefix_def)
qed

lemma rule_matches_case:
  assumes "eq_ignore_ascii_case m m'"
  shows "rule_matches rule m = rule_matches rule m'"
  using assms str_prefix_case [OF assms]
  by (auto simp: rule_matches_def Let_def eq_ignore_ascii_case_def split: option.splits)
    (metis eq_ignore_ascii_case_def option.rel_distinct option.rel_inject(2))+

lemma allows_case: "eq_ignore_ascii_case m m' \<Longrightarrow> allows rules m = allows rules m'"
  using rule_matches_case by (simp add: allows_def)

lemma allows_excluded:
  "rule |\<in>| rules_excluded rules \<Longrightarrow> rule_matches rule model \<Longrightarrow> \<not> allows rules model"
  by (auto simp: allows_def)

subsection \<open>Error codes (\<open>error.rs\<close>)\<close>

definition valid_error_code :: "string \<Rightarrow> bool" where
  "valid_error_code v \<longleftrightarrow> v \<noteq> [] \<and> length v \<le> 64
     \<and> list_all (\<lambda>c. is_ascii_alphanumeric c \<or> c = CHR ''-'' \<or> c = CHR ''_'' \<or> c = CHR ''.'') v"

definition safe_error_code :: "string \<Rightarrow> string" where
  "safe_error_code v = (let v = trim v in if valid_error_code v then v else ''redacted'')"

definition normalize_error_code :: "string \<Rightarrow> string option" where
  "normalize_error_code v =
     (let v = trim v in if valid_error_code v then Some (to_ascii_lowercase v) else None)"

lemma valid_redacted: "valid_error_code ''redacted''"
  by (simp add: valid_error_code_def rust_eval)

lemma safe_error_code_valid: "valid_error_code (safe_error_code v)"
  by (simp add: safe_error_code_def Let_def valid_redacted)

lemma safe_chars_not_ws:
  "is_ascii_alphanumeric c \<or> c = CHR ''-'' \<or> c = CHR ''_'' \<or> c = CHR ''.'' \<longrightarrow> \<not> ws_byte c"
  by (rule all_chars [of "\<lambda>c. is_ascii_alphanumeric c \<or> c = CHR ''-'' \<or> c = CHR ''_'' \<or> c = CHR ''.''
    \<longrightarrow> \<not> ws_byte c"]) code_simp

lemma valid_error_code_trim: "valid_error_code v \<Longrightarrow> trim v = v"
  by (rule trim_fixed) (use safe_chars_not_ws in \<open>auto simp: valid_error_code_def list_all_iff\<close>)

lemma safe_error_code_idem: "safe_error_code (safe_error_code v) = safe_error_code v"
  using safe_error_code_valid [of v]
  by (simp add: safe_error_code_def [of "safe_error_code v"] Let_def valid_error_code_trim)

lemma valid_error_code_lower: "valid_error_code v \<Longrightarrow> valid_error_code (to_ascii_lowercase v)"
  by (auto simp: valid_error_code_def list_all_iff to_ascii_lowercase_def ascii_lower_fixed
      is_ascii_upper_def intro: alphanumeric_ascii_lower)

subsection \<open>Properties\<close>

lemma Nil_eq_lower: "[] = to_ascii_lowercase s \<longleftrightarrow> s = []"
  by (cases s) (simp_all add: to_ascii_lowercase_def)

lemma last_lower_star: "s \<noteq> [] \<Longrightarrow> last (to_ascii_lowercase s) = CHR ''*'' \<longleftrightarrow> last s = CHR ''*''"
proof -
  have "ascii_lower c = CHR ''*'' \<longleftrightarrow> c = CHR ''*''" for c
    by (rule all_chars [of "\<lambda>c. ascii_lower c = CHR ''*'' \<longleftrightarrow> c = CHR ''*''"]) code_simp
  then show "s \<noteq> [] \<Longrightarrow> last (to_ascii_lowercase s) = CHR ''*'' \<longleftrightarrow> last s = CHR ''*''"
    by (simp add: to_ascii_lowercase_def last_map)
qed

lemma str_prefix_ascii:
  "list_all (\<lambda>c. c < CHR 0x80) s \<Longrightarrow> str_prefix s n = (if n \<le> length s then Some (take n s) else None)"
  by (auto simp: str_prefix_def list_all_length leD)

text \<open>
  On an ASCII model name a rule matches exactly when, both lowercased, the name
  equals the trimmed rule, or starts with what precedes a final star.
\<close>

lemma rule_matches_reference:
  assumes "list_all (\<lambda>c. c < CHR 0x80) model"
  shows "rule_matches rule model \<longleftrightarrow>
    (let r = to_ascii_lowercase (trim rule); m = to_ascii_lowercase model
     in if r \<noteq> [] \<and> last r = CHR ''*'' then starts_with m (butlast r) else m = r)"
proof (cases "strip_star (trim rule)")
  case None
  then have "trim rule = [] \<or> last (trim rule) \<noteq> CHR ''*''" by (auto simp: strip_star_def split: if_splits)
  then show ?thesis
    using None last_lower_star [of "trim rule"]
    by (auto simp: rule_matches_def Let_def eq_ignore_ascii_case_def Nil_eq_lower)
next
  case (Some pre)
  then have pre: "trim rule \<noteq> []" "last (trim rule) = CHR ''*''" "pre = butlast (trim rule)"
    by (auto simp: strip_star_def split: if_splits)
  have star: "rule_matches rule model \<longleftrightarrow> (case str_prefix model (length pre) of
      None \<Rightarrow> False | Some value \<Rightarrow> eq_ignore_ascii_case value pre)"
    using Some str_prefix_ascii [OF assms] by (auto simp: rule_matches_def Let_def strip_star_def)
  have "butlast (to_ascii_lowercase (trim rule)) = to_ascii_lowercase pre"
    by (simp add: pre(3) to_ascii_lowercase_def map_butlast)
  then show ?thesis
    using star pre last_lower_star [of "trim rule"] str_prefix_ascii [OF assms]
    by (auto simp: Let_def starts_with_def eq_ignore_ascii_case_def to_ascii_lowercase_def take_map
        dest: map_eq_imp_length_eq)
qed

text \<open>
  Whatever text an error carries, the stored code is a valid one of at most 64 safe
  characters; sanitising again changes nothing, a valid code is kept as it is, and a normalised code
  is valid, lowercase and survives sanitising.
\<close>

lemma error_codes_sanitised:
  "valid_error_code (safe_error_code v) \<and> safe_error_code (safe_error_code v) = safe_error_code v
    \<and> (valid_error_code v \<longrightarrow> safe_error_code v = v)
    \<and> (\<forall>w. normalize_error_code v = Some w \<longrightarrow>
        valid_error_code w \<and> to_ascii_lowercase w = w \<and> safe_error_code w = w \<and> normalize_error_code w = Some w)"
proof -
  have keep: "safe_error_code w = w" if "valid_error_code w" for w
    using that by (simp add: safe_error_code_def valid_error_code_trim Let_def)
  have "valid_error_code w \<and> to_ascii_lowercase w = w \<and> normalize_error_code w = Some w"
    if "normalize_error_code v = Some w" for w
  proof -
    have "valid_error_code w" "to_ascii_lowercase w = w"
      using that valid_error_code_lower [of "trim v"] by (auto simp: normalize_error_code_def Let_def split: if_splits)
    then show ?thesis by (simp add: normalize_error_code_def valid_error_code_trim Let_def)
  qed
  then show ?thesis using keep safe_error_code_valid safe_error_code_idem by blast
qed

end
