(* ===== verification/Rust_Numbers.thy ===== *)
theory Rust_Numbers
  imports Rust_Strings
begin

section \<open>Numbers in text, and doubles\<close>

text \<open>
  What the sources use of Rust's numeric parsing and of \<open>f64\<close>. A double is a signed dyadic
  \<open>\<plusminus>m * 2^e\<close>, an infinity or a NaN, and every operation that rounds rounds to nearest, ties to
  even, as IEEE 754 prescribes; \<open>str::parse::<f64>\<close> is correctly rounded.
\<close>

subsection \<open>Integers in text\<close>

definition digits_value :: "string \<Rightarrow> nat" where
  "digits_value s = foldl (\<lambda>n c. 10 * n + (of_char c - 48)) 0 s"

text \<open>\<open>str::parse::<i32>\<close>: an optional sign and at least one digit, within range.\<close>

definition parse_i32 :: "string \<Rightarrow> int option" where
  "parse_i32 s =
     (let (negative, ds) = (case s of
            [] \<Rightarrow> (False, [])
          | c # r \<Rightarrow> if c = CHR ''-'' then (True, r) else if c = CHR ''+'' then (False, r) else (False, s));
          v = (if negative then - int (digits_value ds) else int (digits_value ds))
      in if ds = [] \<or> \<not> list_all is_ascii_digit ds \<or> v < - (2 ^ 31) \<or> v \<ge> 2 ^ 31 then None else Some v)"

text \<open>\<open>str::parse::<u64>\<close>: an optional plus sign and at least one digit, within range.\<close>

definition parse_u64 :: "string \<Rightarrow> u64 option" where
  "parse_u64 s =
     (let ds = (case s of [] \<Rightarrow> [] | c # r \<Rightarrow> if c = CHR ''+'' then r else s)
      in if ds = [] \<or> \<not> list_all is_ascii_digit ds \<or> digits_value ds \<ge> 2 ^ 64 then None
         else Some (of_nat (digits_value ds)))"

subsection \<open>Doubles\<close>

datatype f64 = NaN | Infinity bool | Finite bool nat int

fun bit_width :: "nat \<Rightarrow> nat" where
  "bit_width n = (if n = 0 then 0 else Suc (bit_width (n div 2)))"

declare bit_width.simps [simp del]

text \<open>\<open>round53 p e\<close> is the double nearest to \<open>p * 2^e\<close>, ties to even.\<close>

definition round53 :: "nat \<Rightarrow> int \<Rightarrow> nat \<times> int" where
  "round53 p e =
     (if bit_width p \<le> 53 then (p, e)
      else
        let k = bit_width p - 53; q = p div 2 ^ k; r = p mod 2 ^ k; half = 2 ^ (k - 1)
        in (if r > half \<or> (r = half \<and> odd q) then q + 1 else q, e + int k))"

text \<open>\<open>f64::round\<close> on a non-negative value: halves away from zero.\<close>

definition round_half_up :: "nat \<times> int \<Rightarrow> nat" where
  "round_half_up me = (case me of (m, e) \<Rightarrow>
     if e \<ge> 0 then m * 2 ^ nat e else (m + 2 ^ nat (- e - 1)) div 2 ^ nat (- e))"

definition dyadic_le :: "nat \<Rightarrow> int \<Rightarrow> nat \<Rightarrow> bool" where
  "dyadic_le m e n \<longleftrightarrow> (if e \<ge> 0 then m * 2 ^ nat e \<le> n else m \<le> n * 2 ^ nat (- e))"

lemma bit_width_0 [simp]: "bit_width 0 = 0"
  by (simp add: bit_width.simps)

lemma bit_width_ge: "0 < n \<Longrightarrow> 2 ^ (bit_width n - 1) \<le> n"
proof (induction n rule: bit_width.induct)
  case (1 n)
  show ?case
  proof (cases "n div 2 = 0")
    case True
    with "1.prems" have "n = 1" by simp
    then show ?thesis by (simp add: bit_width.simps)
  next
    case False
    with 1 have "2 ^ (bit_width (n div 2) - 1) \<le> n div 2" by simp
    moreover have "bit_width (n div 2) = Suc (bit_width (n div 2) - 1)"
      using False by (simp add: bit_width.simps [of "n div 2"])
    then have "bit_width n - 1 = Suc (bit_width (n div 2) - 1)"
      using "1.prems" by (simp add: bit_width.simps [of n])
    ultimately show ?thesis by simp
  qed
qed

lemma bit_width_le: "n < 2 ^ k \<Longrightarrow> bit_width n \<le> k"
proof (rule ccontr)
  assume "n < 2 ^ k" "\<not> bit_width n \<le> k"
  then have "0 < n" "k \<le> bit_width n - 1" by (cases n; simp)+
  then have "2 ^ k \<le> n" by (meson bit_width_ge le_trans one_le_numeral power_increasing)
  with \<open>n < 2 ^ k\<close> show False by simp
qed

lemma round53_le:
  assumes "p \<le> n * 2 ^ s" and "n < 2 ^ 14"
  shows "(case round53 p (- int s) of (q, e) \<Rightarrow> e \<le> 0 \<and> q \<le> n * 2 ^ nat (- e))"
proof (cases "bit_width p \<le> 53")
  case True
  with assms show ?thesis by (simp add: round53_def)
next
  case False
  define k where "k = bit_width p - 53"
  have "0 < p" using False by (cases p) auto
  then have "2 ^ (52 + k) \<le> p" using bit_width_ge [of p] False by (simp add: k_def)
  also have "p < 2 ^ (14 + s)"
    using assms by (simp add: power_add) (metis le_less_trans mult_less_cancel2 zero_less_numeral zero_less_power)
  finally have "52 + k < 14 + s" by (simp add: power_strict_increasing_iff)
  then have ks: "k \<le> s" by simp
  have split: "n * 2 ^ s = (n * 2 ^ (s - k)) * 2 ^ k"
    using ks by (simp add: power_add [symmetric] mult.assoc)
  define q where "q = p div 2 ^ k"
  define r where "r = p mod 2 ^ k"
  have p: "p = q * 2 ^ k + r" unfolding q_def r_def by (rule div_mult_mod_eq [symmetric])
  have q: "q \<le> n * 2 ^ (s - k)"
    using div_le_mono [OF assms(1), of "2 ^ k"] by (simp add: q_def split)
  have "q + 1 \<le> n * 2 ^ (s - k)" if "0 < r"
  proof -
    have "q * 2 ^ k < (n * 2 ^ (s - k)) * 2 ^ k" using p that assms(1) split by linarith
    then show ?thesis by simp
  qed
  moreover have "nat (int s - int k) = s - k" by (simp add: nat_diff_distrib)
  moreover have "(0::nat) < 2 ^ (k - 1)" by simp
  ultimately show ?thesis using False q ks
    by (auto simp: round53_def Let_def k_def [symmetric] q_def [symmetric] r_def [symmetric])
qed

lemma round_half_up_le:
  assumes "e \<le> 0" and "m \<le> n * 2 ^ nat (- e)"
  shows "round_half_up (m, e) \<le> n"
proof (cases "e = 0")
  case True
  with assms show ?thesis by (simp add: round_half_up_def)
next
  case False
  define s where "s = nat (- e)"
  have s: "nat (- e - 1) = s - 1" "0 < s" using assms False by (auto simp: s_def)
  have half: "(2::nat) ^ (s - 1) < 2 ^ s" using s(2) by simp
  have "m \<le> n * 2 ^ s" using assms(2) by (simp add: s_def)
  with half have "m + 2 ^ (s - 1) < (n + 1) * 2 ^ s" unfolding add_mult_distrib by linarith
  then have "(m + 2 ^ (s - 1)) div 2 ^ s < n + 1" by (simp add: div_less_iff_less_mult)
  then show ?thesis using False assms(1) s by (simp add: round_half_up_def s_def)
qed

subsection \<open>Doubles in text\<close>

text \<open>\<open>round_quotient a b e\<close> is \<open>a / (b * 2^e)\<close> rounded to the nearest integer, ties to even.\<close>

definition round_quotient :: "nat \<Rightarrow> nat \<Rightarrow> int \<Rightarrow> nat" where
  "round_quotient a b e =
     (let n = a * 2 ^ nat (- e); d = b * 2 ^ nat e; q = n div d; r = n mod d
      in if 2 * r > d \<or> (2 * r = d \<and> odd q) then q + 1 else q)"

text \<open>
  The double nearest to the positive rational \<open>a / b\<close>: the exponent leaves 53 bits, or is that of
  the subnormal numbers, and a result of \<open>2^1024\<close> or more is infinite.
\<close>

definition f64_of_ratio :: "bool \<Rightarrow> nat \<Rightarrow> nat \<Rightarrow> f64" where
  "f64_of_ratio negative a b =
     (if a = 0 then Finite negative 0 0
      else
        let e0 = int (bit_width a) - int (bit_width b) - 53;
            e1 = (if a * 2 ^ nat (- e0) \<ge> b * 2 ^ nat e0 * 2 ^ 53 then e0 + 1 else e0);
            e = max (- 1074) e1;
            m = round_quotient a b e
        in if e \<ge> 0 \<and> m * 2 ^ nat e \<ge> 2 ^ 1024 then Infinity negative else Finite negative m e)"

definition split_exponent :: "string \<Rightarrow> (string \<times> int) option" where
  "split_exponent s =
     (let mantissa = takeWhile (\<lambda>c. c \<noteq> CHR ''e'' \<and> c \<noteq> CHR ''E'') s;
          rest = drop (length mantissa) s
      in if rest = [] then Some (mantissa, 0)
         else
           let (negative, ds) = (case tl rest of
                 [] \<Rightarrow> (False, [])
               | c # r \<Rightarrow> if c = CHR ''-'' then (True, r) else if c = CHR ''+'' then (False, r) else (False, tl rest))
           in if ds = [] \<or> \<not> list_all is_ascii_digit ds then None
              else Some (mantissa, if negative then - int (digits_value ds) else int (digits_value ds)))"

text \<open>
  \<open>str::parse::<f64>\<close>: an optional sign, then \<open>inf\<close>, \<open>infinity\<close> or \<open>nan\<close> in any case, or digits with
  at most one point and at least one digit, and an optional exponent.
\<close>

definition parse_f64 :: "string \<Rightarrow> f64 option" where
  "parse_f64 s0 =
     (let (negative, s) = (case s0 of
            [] \<Rightarrow> (False, [])
          | c # r \<Rightarrow> if c = CHR ''-'' then (True, r) else if c = CHR ''+'' then (False, r) else (False, s0))
      in if eq_ignore_ascii_case s ''inf'' \<or> eq_ignore_ascii_case s ''infinity'' then Some (Infinity negative)
         else if eq_ignore_ascii_case s ''nan'' then Some NaN
         else (case split_exponent s of
             None \<Rightarrow> None
           | Some (mantissa, exponent) \<Rightarrow>
               let whole = takeWhile (\<lambda>c. c \<noteq> CHR ''.'') mantissa;
                   fractional = drop (Suc (length whole)) mantissa;
                   digits = digits_value (whole @ fractional);
                   power = exponent - int (length fractional)
               in if (whole = [] \<and> fractional = []) \<or> \<not> list_all is_ascii_digit whole
                     \<or> \<not> list_all is_ascii_digit fractional then None
                  else Some (f64_of_ratio negative (digits * 10 ^ nat power) (10 ^ nat (- power)))))"

text \<open>\<open>f64::ceil\<close> of a positive value, as an integer.\<close>

definition dyadic_ceil :: "nat \<times> int \<Rightarrow> nat" where
  "dyadic_ceil me = (case me of (m, e) \<Rightarrow>
     if e \<ge> 0 then m * 2 ^ nat e else (m + (2 ^ nat (- e) - 1)) div 2 ^ nat (- e))"

lemma dyadic_ceil_pos: "0 < m \<Longrightarrow> 0 < dyadic_ceil (m, e)"
  by (auto simp: dyadic_ceil_def div_greater_zero_iff)

lemma round53_pos: "0 < p \<Longrightarrow> 0 < fst (round53 p e)"
proof -
  assume p: "0 < p"
  have "0 < p div 2 ^ (bit_width p - 53)" if "\<not> bit_width p \<le> 53"
  proof -
    have "(2::nat) ^ (bit_width p - 53) \<le> 2 ^ (bit_width p - 1)" using that by (intro power_increasing) simp_all
    also have "\<dots> \<le> p" by (rule bit_width_ge [OF p])
    finally show ?thesis by (simp add: div_greater_zero_iff)
  qed
  then show ?thesis using p by (simp add: round53_def Let_def)
qed

subsection \<open>Bytes\<close>

fun from_le_bytes :: "string \<Rightarrow> u64" where
  "from_le_bytes [] = 0"
| "from_le_bytes (b # bs) = of_char b + 256 * from_le_bytes bs"

end
