(* ===== verification/Quota_Windows.thy ===== *)
theory Quota_Windows
  imports Model_Rules Rust_Numbers
begin

section \<open>Quota windows and subscriptions (\<open>quota/windows.rs\<close>)\<close>

text \<open>
  Normalisation of a provider's quota observation. A percentage is an IEEE double, modelled
  bit-exactly with the round-to-nearest-even product the multiplication by \<open>100.0\<close> performs. The digest \<open>hex::encode(Sha256::digest(_))\<close> comes
  from third-party crates and is the parameter \<open>sha256_hex\<close> of the functions that use it.
\<close>

subsection \<open>Percentages\<close>

datatype QuotaNormalizationError = InvalidPercentage | MismatchedWindowKind | InvalidSupplementalWindow

definition percent_to_basis_points :: "f64 \<Rightarrow> QuotaNormalizationError + u16" where
  "percent_to_basis_points value = (case value of
      Finite negative m e \<Rightarrow>
        if (negative \<and> m \<noteq> 0) \<or> \<not> dyadic_le m e 100 then Inl InvalidPercentage
        else Inr (of_nat (min 65535 (round_half_up (round53 (m * 100) e))))
    | NaN \<Rightarrow> Inl InvalidPercentage
    | Infinity _ \<Rightarrow> Inl InvalidPercentage)"

lemma scaled_percent_le:
  assumes "dyadic_le m e 100"
  shows "round_half_up (round53 (m * 100) e) \<le> 10000"
proof (cases "e \<ge> 0")
  case True
  then have m: "m * 2 ^ nat e \<le> 100" using assms by (simp add: dyadic_le_def)
  then have "m \<le> 100" by (metis le_trans mult_le_mono2 mult.right_neutral one_le_numeral one_le_power)
  then have "m * 100 < 2 ^ 53" by simp
  then have "round53 (m * 100) e = (m * 100, e)" using bit_width_le by (simp add: round53_def)
  then show ?thesis using m True by (simp add: round_half_up_def)
next
  case False
  then have "m * 100 \<le> 10000 * 2 ^ nat (- e)" using assms by (simp add: dyadic_le_def)
  from round53_le [OF this] False show ?thesis
    by (auto intro: round_half_up_le split: prod.splits)
qed

lemma percent_to_basis_points_bound:
  assumes "percent_to_basis_points v = Inr bp"
  shows "bp \<le> 10000"
proof -
  obtain neg m e where v: "dyadic_le m e 100"
    and bp: "bp = of_nat (min 65535 (round_half_up (round53 (m * 100) e)))"
    using assms by (auto simp: percent_to_basis_points_def split: f64.splits if_splits)
  have "min 65535 (round_half_up (round53 (m * 100) e)) \<le> 10000" using scaled_percent_le [OF v] by simp
  then have "unat bp \<le> 10000" by (simp add: bp unat_of_nat)
  then show ?thesis by (simp add: word_le_nat_alt)
qed

subsection \<open>Windows\<close>

datatype QuotaWindowKind = Primary | Secondary

instantiation QuotaWindowKind :: linorder
begin

definition less_eq_QuotaWindowKind :: "QuotaWindowKind \<Rightarrow> QuotaWindowKind \<Rightarrow> bool" where
  "less_eq_QuotaWindowKind a b \<longleftrightarrow> a = Primary \<or> b = Secondary"

definition less_QuotaWindowKind :: "QuotaWindowKind \<Rightarrow> QuotaWindowKind \<Rightarrow> bool" where
  "less_QuotaWindowKind a b \<longleftrightarrow> a = Primary \<and> b = Secondary"

instance
  by standard
    (auto simp: less_eq_QuotaWindowKind_def less_QuotaWindowKind_def; metis QuotaWindowKind.exhaust)+

end

datatype ResetTime = AbsoluteUnixSeconds u64 | AbsoluteUnixMilliseconds u64 | RelativeSeconds u64

fun reset_normalize_ms :: "ResetTime \<Rightarrow> u64 \<Rightarrow> u64" where
  "reset_normalize_ms (AbsoluteUnixSeconds seconds) observed_at_ms = sat_mul seconds 1000"
| "reset_normalize_ms (AbsoluteUnixMilliseconds milliseconds) observed_at_ms = milliseconds"
| "reset_normalize_ms (RelativeSeconds seconds) observed_at_ms =
     sat_add observed_at_ms (sat_mul seconds 1000)"

record QuotaWindowInput =
  qi_kind :: QuotaWindowKind
  qi_available_percent :: "f64 option"
  qi_explicitly_full :: "bool option"
  qi_reset :: "ResetTime option"
  qi_window_minutes :: "u32 option"
  qi_provider_cycle_id :: "string option"
  qi_observed_at_ms :: u64

record QuotaWindow =
  qw_kind :: QuotaWindowKind
  qw_provider_cycle_id :: "string option"
  qw_window_start_ms :: "u64 option"
  qw_available_basis_points :: "u16 option"
  qw_explicitly_full :: "bool option"
  qw_reset_at_ms :: "u64 option"
  qw_window_minutes :: "u32 option"
  qw_observed_at_ms :: u64
  qw_full_transition_fingerprint :: "string option"
  qw_exhaustion_transition_fingerprint :: "string option"

definition DEFAULT_FULL_THRESHOLD_BASIS_POINTS :: u16 where
  "DEFAULT_FULL_THRESHOLD_BASIS_POINTS = 9950"

fun debug_kind :: "QuotaWindowKind \<Rightarrow> string" where
  "debug_kind Primary = ''Primary''"
| "debug_kind Secondary = ''Secondary''"

definition option_default :: "'a \<Rightarrow> 'a option \<Rightarrow> 'a" where
  "option_default d x = (case x of None \<Rightarrow> d | Some v \<Rightarrow> v)"

definition fingerprint_text ::
  "QuotaWindowKind \<Rightarrow> u64 option \<Rightarrow> u32 option \<Rightarrow> string option \<Rightarrow> u64 \<Rightarrow> string" where
  "fingerprint_text kind reset_at_ms window_minutes provider_cycle_id observed_at_ms =
     debug_kind kind @ [CHR 0x00] @ show_nat (unat (option_default 0 reset_at_ms))
     @ [CHR 0x00] @ show_nat (unat (option_default 0 window_minutes))
     @ [CHR 0x00] @ trim (option_default [] provider_cycle_id)
     @ [CHR 0x00] @ show_nat (unat observed_at_ms)"

definition transition_fingerprint :: "(string \<Rightarrow> string) \<Rightarrow>
    QuotaWindowKind \<Rightarrow> u64 option \<Rightarrow> u32 option \<Rightarrow> string option \<Rightarrow> u64 \<Rightarrow> string" where
  "transition_fingerprint sha256_hex kind reset_at_ms window_minutes provider_cycle_id observed_at_ms =
     sha256_hex (fingerprint_text kind reset_at_ms window_minutes provider_cycle_id observed_at_ms)"

definition exhaustion_transition_fingerprint :: "(string \<Rightarrow> string) \<Rightarrow>
    QuotaWindowKind \<Rightarrow> u64 option \<Rightarrow> u32 option \<Rightarrow> string option \<Rightarrow> u64 \<Rightarrow> string" where
  "exhaustion_transition_fingerprint sha256_hex kind reset_at_ms window_minutes provider_cycle_id observed_at_ms =
     sha256_hex (''exhausted'' @ [CHR 0x00]
       @ fingerprint_text kind reset_at_ms window_minutes provider_cycle_id observed_at_ms)"

definition full_state :: "bool option \<Rightarrow> u16 option \<Rightarrow> bool" where
  "full_state explicitly_full available_basis_points = (case explicitly_full of
      Some full \<Rightarrow> full
    | None \<Rightarrow> (case available_basis_points of None \<Rightarrow> False
        | Some value \<Rightarrow> value \<ge> DEFAULT_FULL_THRESHOLD_BASIS_POINTS))"

definition is_fully_available :: "QuotaWindow \<Rightarrow> bool" where
  "is_fully_available w = full_state (qw_explicitly_full w) (qw_available_basis_points w)"

definition is_exhausted :: "QuotaWindow \<Rightarrow> bool" where
  "is_exhausted w \<longleftrightarrow> qw_available_basis_points w = Some 0"

definition is_empty_provider_placeholder :: "QuotaWindow \<Rightarrow> bool" where
  "is_empty_provider_placeholder w \<longleftrightarrow>
     qw_kind w = Secondary \<and> qw_available_basis_points w = Some 10000
     \<and> option_default 0 (qw_window_minutes w) = 0
     \<and> (case qw_reset_at_ms w of None \<Rightarrow> True | Some reset_at_ms \<Rightarrow> reset_at_ms \<le> qw_observed_at_ms w)"

definition carry_fingerprint ::
  "(QuotaWindow \<Rightarrow> bool) \<Rightarrow> (QuotaWindow \<Rightarrow> string option) \<Rightarrow> QuotaWindow option \<Rightarrow> string \<Rightarrow> string" where
  "carry_fingerprint in_state stored previous fresh = (case previous of
      None \<Rightarrow> fresh
    | Some p \<Rightarrow> if in_state p then (case stored p of Some fp \<Rightarrow> fp | None \<Rightarrow> fresh) else fresh)"

definition window_normalize :: "(string \<Rightarrow> string) \<Rightarrow> QuotaWindowInput \<Rightarrow> QuotaWindow option
    \<Rightarrow> QuotaNormalizationError + QuotaWindow" where
  "window_normalize sha256_hex input previous =
     (case (case qi_available_percent input of None \<Rightarrow> Inr None
            | Some percent \<Rightarrow> (case percent_to_basis_points percent of
                Inl err \<Rightarrow> Inl err | Inr bp \<Rightarrow> Inr (Some bp))) of
        Inl err \<Rightarrow> Inl err
      | Inr available_basis_points \<Rightarrow>
        let fully_available = full_state (qi_explicitly_full input) available_basis_points;
            reset_at_ms = map_option (\<lambda>reset. reset_normalize_ms reset (qi_observed_at_ms input)) (qi_reset input);
            full_fp = (if fully_available
              then Some (carry_fingerprint is_fully_available qw_full_transition_fingerprint previous
                (transition_fingerprint sha256_hex (qi_kind input) reset_at_ms (qi_window_minutes input)
                  (qi_provider_cycle_id input) (qi_observed_at_ms input)))
              else None);
            exhausted = (available_basis_points = Some 0);
            exhaustion_fp = (if exhausted
              then Some (carry_fingerprint is_exhausted qw_exhaustion_transition_fingerprint previous
                (exhaustion_transition_fingerprint sha256_hex (qi_kind input) reset_at_ms (qi_window_minutes input)
                  (qi_provider_cycle_id input) (qi_observed_at_ms input)))
              else None)
        in Inr \<lparr>qw_kind = qi_kind input, qw_provider_cycle_id = qi_provider_cycle_id input,
             qw_window_start_ms = (case qi_window_minutes input of None \<Rightarrow> None
               | Some minutes \<Rightarrow> map_option (\<lambda>reset. sat_sub reset (ucast minutes * 60000)) reset_at_ms),
             qw_available_basis_points = available_basis_points,
             qw_explicitly_full = qi_explicitly_full input, qw_reset_at_ms = reset_at_ms,
             qw_window_minutes = qi_window_minutes input, qw_observed_at_ms = qi_observed_at_ms input,
             qw_full_transition_fingerprint = full_fp,
             qw_exhaustion_transition_fingerprint = exhaustion_fp\<rparr>)"

record QuotaTransition =
  qt_window_kind :: QuotaWindowKind
  qt_fingerprint :: string
  qt_transitioned_at_ms :: u64

definition full_transition_from ::
  "(string \<Rightarrow> string) \<Rightarrow> QuotaWindow \<Rightarrow> QuotaWindow option \<Rightarrow> QuotaTransition option" where
  "full_transition_from sha256_hex w previous = (case previous of None \<Rightarrow> None
    | Some p \<Rightarrow>
        if qw_kind p = qw_kind w \<and> \<not> is_fully_available p \<and> is_fully_available w
        then Some \<lparr>qt_window_kind = qw_kind w,
          qt_fingerprint = (case qw_full_transition_fingerprint w of Some fp \<Rightarrow> fp
            | None \<Rightarrow> transition_fingerprint sha256_hex (qw_kind w) (qw_reset_at_ms w)
                (qw_window_minutes w) None (qw_observed_at_ms w)),
          qt_transitioned_at_ms = qw_observed_at_ms w\<rparr>
        else None)"

definition exhaustion_transition :: "(string \<Rightarrow> string) \<Rightarrow> QuotaWindow \<Rightarrow> QuotaTransition option" where
  "exhaustion_transition sha256_hex w =
     (if is_exhausted w
      then Some \<lparr>qt_window_kind = qw_kind w,
        qt_fingerprint = (case qw_exhaustion_transition_fingerprint w of Some fp \<Rightarrow> fp
          | None \<Rightarrow> exhaustion_transition_fingerprint sha256_hex (qw_kind w) (qw_reset_at_ms w)
              (qw_window_minutes w) (qw_provider_cycle_id w) (qw_observed_at_ms w)),
        qt_transitioned_at_ms = qw_observed_at_ms w\<rparr>
      else None)"

definition exhaustion_transition_from ::
  "(string \<Rightarrow> string) \<Rightarrow> QuotaWindow \<Rightarrow> QuotaWindow option \<Rightarrow> QuotaTransition option" where
  "exhaustion_transition_from sha256_hex w previous = (case previous of None \<Rightarrow> None
    | Some p \<Rightarrow>
        if qw_kind p = qw_kind w \<and> \<not> is_exhausted p \<and> is_exhausted w
        then Some \<lparr>qt_window_kind = qw_kind w,
          qt_fingerprint = (case qw_exhaustion_transition_fingerprint w of Some fp \<Rightarrow> fp
            | None \<Rightarrow> exhaustion_transition_fingerprint sha256_hex (qw_kind w) (qw_reset_at_ms w)
                (qw_window_minutes w) (qw_provider_cycle_id w) (qw_observed_at_ms w)),
          qt_transitioned_at_ms = qw_observed_at_ms w\<rparr>
        else None)"

subsection \<open>Subscriptions and snapshots\<close>

datatype SubscriptionStatus = SubUnknown | SubActive | SubExpired | SubForbidden

record SubscriptionInput =
  si_plan_type :: "string option"
  si_active_until_ms :: "u64 option"
  si_forbidden :: bool
  si_observed_at_ms :: u64

record Subscription =
  sub_plan_type :: "string option"
  sub_active_until_ms :: "u64 option"
  sub_status :: SubscriptionStatus
  sub_updated_at_ms :: "u64 option"

definition normalize_subscription_plan :: "string \<Rightarrow> string" where
  "normalize_subscription_plan value0 =
     (let value = to_ascii_lowercase (trim value0);
          compact = filter is_ascii_alphanumeric value
      in if compact \<in> set [''free'', ''freeplan'', ''freetier'', ''chatgptfree'', ''chatgptfreeplan'',
              ''chatgptfreetier''] then ''free''
         else if compact \<in> set [''plus'', ''plusplan'', ''chatgptplus'', ''chatgptplusplan''] then ''plus''
         else if compact \<in> set [''pro'', ''proplan'', ''chatgptpro'', ''chatgptproplan''] then ''pro''
         else if compact \<in> set [''business'', ''businessplan'', ''team'', ''teamplan'', ''chatgptbusiness'',
              ''chatgptbusinessplan'', ''chatgptteam'', ''chatgptteamplan''] then ''business''
         else if compact \<in> set [''enterprise'', ''enterpriseplan'', ''chatgptenterprise'',
              ''chatgptenterpriseplan''] then ''enterprise''
         else value)"

definition filter_option :: "('a \<Rightarrow> bool) \<Rightarrow> 'a option \<Rightarrow> 'a option" where
  "filter_option P x = (case x of None \<Rightarrow> None | Some v \<Rightarrow> if P v then Some v else None)"

definition subscription_normalize :: "SubscriptionInput \<Rightarrow> Subscription" where
  "subscription_normalize input =
     (let plan_type = filter_option (\<lambda>v. v \<noteq> [])
            (map_option normalize_subscription_plan (si_plan_type input));
          status =
            (if si_forbidden input then SubForbidden
             else if (case si_active_until_ms input of None \<Rightarrow> False
                      | Some active_until \<Rightarrow> active_until \<le> si_observed_at_ms input) then SubExpired
             else if plan_type \<noteq> None \<or> si_active_until_ms input \<noteq> None then SubActive
             else SubUnknown)
      in \<lparr>sub_plan_type = plan_type, sub_active_until_ms = si_active_until_ms input,
          sub_status = status, sub_updated_at_ms = Some (si_observed_at_ms input)\<rparr>)"

definition is_free_plan :: "Subscription \<Rightarrow> bool" where
  "is_free_plan s = (case sub_plan_type s of None \<Rightarrow> False
     | Some plan \<Rightarrow> normalize_subscription_plan plan = ''free'')"

record QuotaErrorState =
  qe_code :: string
  qe_occurred_at_ms :: u64

definition quota_error_new :: "string \<Rightarrow> u64 \<Rightarrow> QuotaErrorState" where
  "quota_error_new code occurred_at_ms =
     \<lparr>qe_code = safe_error_code code, qe_occurred_at_ms = occurred_at_ms\<rparr>"

datatype DefaultServiceTier = Standard | Fast

record SupplementalQuotaWindow =
  sw_id :: string
  sw_label :: string
  sw_service_tier :: "DefaultServiceTier option"
  sw_window :: QuotaWindow

record QuotaSnapshot =
  qs_primary :: "QuotaWindow option"
  qs_secondary :: "QuotaWindow option"
  qs_supplemental :: "SupplementalQuotaWindow list"
  qs_limit_reached :: bool
  qs_reset_credits_available :: "u32 option"
  qs_direct_balance_micro_usd :: "u64 option"
  qs_updated_at_ms :: "u64 option"
  qs_error :: "QuotaErrorState option"

definition quota_snapshot_default :: QuotaSnapshot where
  "quota_snapshot_default = \<lparr>qs_primary = None, qs_secondary = None, qs_supplemental = [],
     qs_limit_reached = False, qs_reset_credits_available = None, qs_direct_balance_micro_usd = None,
     qs_updated_at_ms = None, qs_error = None\<rparr>"

fun snapshot_window :: "QuotaSnapshot \<Rightarrow> QuotaWindowKind \<Rightarrow> QuotaWindow option" where
  "snapshot_window q Primary = qs_primary q"
| "snapshot_window q Secondary = qs_secondary q"

definition snapshot_windows :: "QuotaSnapshot \<Rightarrow> QuotaWindow list" where
  "snapshot_windows q =
     (case qs_primary q of None \<Rightarrow> [] | Some w \<Rightarrow> [w]) @ (case qs_secondary q of None \<Rightarrow> [] | Some w \<Rightarrow> [w])"

definition limiting_reset_at_ms :: "QuotaSnapshot \<Rightarrow> u64 option" where
  "limiting_reset_at_ms q =
     map_option snd (min_by (\<lambda>l r. cmp l r)
       (List.map_filter (\<lambda>w. case (qw_available_basis_points w, qw_reset_at_ms w) of
          (Some available, Some reset_at_ms) \<Rightarrow> Some (available, reset_at_ms) | _ \<Rightarrow> None)
         (snapshot_windows q)))"

subsection \<open>Properties of the transitions\<close>

lemma window_normalize_fields:
  assumes "window_normalize H input previous = Inr w"
  shows "qw_kind w = qi_kind input" "qw_explicitly_full w = qi_explicitly_full input"
    "qw_observed_at_ms w = qi_observed_at_ms input" "qw_provider_cycle_id w = qi_provider_cycle_id input"
    "qw_window_minutes w = qi_window_minutes input"
  using assms by (auto simp: window_normalize_def Let_def split: sum.splits)

lemma window_normalize_full_fp:
  assumes "window_normalize H input previous = Inr w"
  shows "qw_full_transition_fingerprint w = (if is_fully_available w
    then Some (carry_fingerprint is_fully_available qw_full_transition_fingerprint previous
      (transition_fingerprint H (qw_kind w) (qw_reset_at_ms w) (qw_window_minutes w)
        (qw_provider_cycle_id w) (qw_observed_at_ms w))) else None)"
  using assms by (auto simp: window_normalize_def is_fully_available_def Let_def split: sum.splits)

lemma window_normalize_exhaustion_fp:
  assumes "window_normalize H input previous = Inr w"
  shows "qw_exhaustion_transition_fingerprint w = (if is_exhausted w
    then Some (carry_fingerprint is_exhausted qw_exhaustion_transition_fingerprint previous
      (exhaustion_transition_fingerprint H (qw_kind w) (qw_reset_at_ms w) (qw_window_minutes w)
        (qw_provider_cycle_id w) (qw_observed_at_ms w))) else None)"
  using assms by (auto simp: window_normalize_def is_exhausted_def Let_def split: sum.splits)

lemma full_fingerprint_carried:
  assumes "window_normalize H input (Some p) = Inr w" and "is_fully_available w"
    and "is_fully_available p" and "qw_full_transition_fingerprint p = Some fp"
  shows "qw_full_transition_fingerprint w = Some fp"
  using assms window_normalize_full_fp [OF assms(1)] by (simp add: carry_fingerprint_def)

lemma exhaustion_fingerprint_carried:
  assumes "window_normalize H input (Some p) = Inr w" and "is_exhausted w"
    and "is_exhausted p" and "qw_exhaustion_transition_fingerprint p = Some fp"
  shows "qw_exhaustion_transition_fingerprint w = Some fp"
  using assms window_normalize_exhaustion_fp [OF assms(1)] by (simp add: carry_fingerprint_def)

text \<open>A full window is never exhausted unless the provider says so explicitly.\<close>

lemma full_not_exhausted: "qw_explicitly_full w = None \<Longrightarrow> is_fully_available w \<Longrightarrow> \<not> is_exhausted w"
  by (auto simp: is_fully_available_def full_state_def is_exhausted_def DEFAULT_FULL_THRESHOLD_BASIS_POINTS_def)

text \<open>A sequence of observations of one window, each normalised against the one before it.\<close>

fun observe_windows :: "(string \<Rightarrow> string) \<Rightarrow> QuotaWindow \<Rightarrow> QuotaWindowInput list
    \<Rightarrow> QuotaNormalizationError + QuotaWindow list" where
  "observe_windows H w [] = Inr []"
| "observe_windows H w (input # inputs) = (case window_normalize H input (Some w) of
      Inl err \<Rightarrow> Inl err
    | Inr w' \<Rightarrow> (case observe_windows H w' inputs of Inl err \<Rightarrow> Inl err | Inr ws \<Rightarrow> Inr (w' # ws)))"

lemma observe_full_stable:
  assumes "observe_windows H w inputs = Inr ws" and "is_fully_available w"
    and "qw_full_transition_fingerprint w = Some fp" and "\<forall>v \<in> set ws. is_fully_available v"
  shows "\<forall>v \<in> set ws. qw_full_transition_fingerprint v = Some fp"
  using assms
proof (induction inputs arbitrary: w ws)
  case (Cons input inputs)
  obtain w' ws' where w': "window_normalize H input (Some w) = Inr w'"
    and ws': "observe_windows H w' inputs = Inr ws'" "ws = w' # ws'"
    using Cons.prems(1) by (auto split: sum.splits)
  then have "qw_full_transition_fingerprint w' = Some fp"
    using Cons.prems full_fingerprint_carried by auto
  then show ?case using Cons.IH [OF ws'(1)] Cons.prems ws' by simp
qed simp

lemma observe_exhausted_stable:
  assumes "observe_windows H w inputs = Inr ws" and "is_exhausted w"
    and "qw_exhaustion_transition_fingerprint w = Some fp" and "\<forall>v \<in> set ws. is_exhausted v"
  shows "\<forall>v \<in> set ws. qw_exhaustion_transition_fingerprint v = Some fp"
  using assms
proof (induction inputs arbitrary: w ws)
  case (Cons input inputs)
  obtain w' ws' where w': "window_normalize H input (Some w) = Inr w'"
    and ws': "observe_windows H w' inputs = Inr ws'" "ws = w' # ws'"
    using Cons.prems(1) by (auto split: sum.splits)
  then have "qw_exhaustion_transition_fingerprint w' = Some fp"
    using Cons.prems exhaustion_fingerprint_carried by auto
  then show ?case using Cons.IH [OF ws'(1)] Cons.prems ws' by simp
qed simp

lemma full_transition_edge:
  assumes "window_normalize H input (Some p) = Inr w"
  shows "full_transition_from H w (Some p) =
    (if qw_kind p = qw_kind w \<and> \<not> is_fully_available p \<and> is_fully_available w
     then Some \<lparr>qt_window_kind = qw_kind w,
       qt_fingerprint = the (qw_full_transition_fingerprint w),
       qt_transitioned_at_ms = qw_observed_at_ms w\<rparr> else None)"
  using window_normalize_full_fp [OF assms]
  by (auto simp: full_transition_from_def split: option.splits)

lemma exhaustion_transition_edge:
  assumes "window_normalize H input (Some p) = Inr w"
    and "exhaustion_transition_from H w (Some p) = Some t"
  shows "exhaustion_transition H w = Some t"
  using assms(2) by (auto simp: exhaustion_transition_from_def exhaustion_transition_def split: if_splits)

lemma normalize_plan_nonempty: "trim v \<noteq> [] \<Longrightarrow> normalize_subscription_plan v \<noteq> []"
  by (simp add: normalize_subscription_plan_def Let_def)

end
