(* ===== verification/Quota_Refresh.thy ===== *)
theory Quota_Refresh
  imports Quota_Windows
begin

section \<open>Quota refresh data (\<open>quota/refresh.rs\<close>)\<close>

text \<open>
  What a provider adapter returns, its normalisation against the previous snapshot and the
  classification of HTTP failures. \<open>serde_json\<close> is third-party: parsing, JSON pointers and
  string access are the parameters \<open>from_slice\<close>, \<open>pointer\<close> and \<open>as_str\<close>.
\<close>

definition MAX_SUPPLEMENTAL_WINDOWS :: nat where
  "MAX_SUPPLEMENTAL_WINDOWS = 32"

record SupplementalQuotaWindowInput =
  swi_id :: string
  swi_label :: string
  swi_service_tier :: "DefaultServiceTier option"
  swi_window :: QuotaWindowInput

record QuotaRefreshData =
  rd_primary :: "QuotaWindowInput option"
  rd_secondary :: "QuotaWindowInput option"
  rd_supplemental :: "SupplementalQuotaWindowInput list"
  rd_limit_reached :: bool
  rd_subscription :: "SubscriptionInput option"
  rd_reset_credits_available :: "u32 option"
  rd_direct_balance_micro_usd :: "u64 option"
  rd_observed_at_ms :: u64

record QuotaRefreshResult =
  rr_quota :: QuotaRefreshData
  rr_allowed :: "bool option"
  rr_reported_limit_reached :: "bool option"

subsection \<open>Normalisation\<close>

definition trimmed_nonempty :: "string option \<Rightarrow> string option" where
  "trimmed_nonempty v = filter_option (\<lambda>s. s \<noteq> []) (map_option trim v)"

definition subscription_plan_changed :: "string option \<Rightarrow> string option \<Rightarrow> bool" where
  "subscription_plan_changed previous observed =
     (case trimmed_nonempty observed of
        None \<Rightarrow> False
      | Some observed \<Rightarrow> (case trimmed_nonempty previous of
          None \<Rightarrow> True
        | Some previous \<Rightarrow> normalize_subscription_plan previous \<noteq> normalize_subscription_plan observed))"

definition preserve_subscription_metadata :: "QuotaRefreshData \<Rightarrow> Subscription \<Rightarrow> QuotaRefreshData" where
  "preserve_subscription_metadata data previous =
     (case rd_subscription data of
        None \<Rightarrow> data
      | Some s \<Rightarrow>
          let s = (if si_plan_type s = None then s\<lparr>si_plan_type := sub_plan_type previous\<rparr> else s);
              s = (if si_active_until_ms s = None
                      \<and> \<not> subscription_plan_changed (sub_plan_type previous) (si_plan_type s)
                   then s\<lparr>si_active_until_ms := sub_active_until_ms previous\<rparr> else s)
          in data\<lparr>rd_subscription := Some s\<rparr>)"

definition normalize_window :: "(string \<Rightarrow> string) \<Rightarrow> QuotaWindowInput option \<Rightarrow> QuotaWindowKind
    \<Rightarrow> QuotaWindow option \<Rightarrow> QuotaNormalizationError + QuotaWindow option" where
  "normalize_window sha256_hex input expected previous =
     (case input of
        None \<Rightarrow> Inr None
      | Some input \<Rightarrow>
          if qi_kind input \<noteq> expected then Inl MismatchedWindowKind
          else (case window_normalize sha256_hex input previous of
              Inl err \<Rightarrow> Inl err
            | Inr window \<Rightarrow> Inr (if is_empty_provider_placeholder window then None else Some window)))"

definition valid_supplemental_id :: "string \<Rightarrow> bool" where
  "valid_supplemental_id sid \<longleftrightarrow> sid \<noteq> [] \<and> length sid \<le> 64
     \<and> list_all (\<lambda>c. is_ascii_alphanumeric c \<or> c = CHR '':'' \<or> c = CHR ''-'' \<or> c = CHR ''_'' \<or> c = CHR ''.'') sid"

definition valid_supplemental_label :: "string \<Rightarrow> bool" where
  "valid_supplemental_label label \<longleftrightarrow> label \<noteq> [] \<and> length label \<le> 128 \<and> \<not> has_control label"

fun supplemental_loop :: "(string \<Rightarrow> string) \<Rightarrow> SupplementalQuotaWindow list \<Rightarrow> string fset
    \<Rightarrow> SupplementalQuotaWindowInput list \<Rightarrow> QuotaNormalizationError + SupplementalQuotaWindow list" where
  "supplemental_loop sha256_hex previous ids [] = Inr []"
| "supplemental_loop sha256_hex previous ids (input # inputs) =
     (let sid = trim (swi_id input); label = trim (swi_label input) in
      if \<not> valid_supplemental_id sid \<or> sid |\<in>| ids \<or> \<not> valid_supplemental_label label
      then Inl InvalidSupplementalWindow
      else (case window_normalize sha256_hex (swi_window input)
                   (map_option sw_window (find (\<lambda>candidate. sw_id candidate = sid) previous)) of
          Inl err \<Rightarrow> Inl err
        | Inr window \<Rightarrow> (case supplemental_loop sha256_hex previous (finsert sid ids) inputs of
            Inl err \<Rightarrow> Inl err
          | Inr rest \<Rightarrow> Inr (\<lparr>sw_id = sid, sw_label = label, sw_service_tier = swi_service_tier input,
              sw_window = window\<rparr> # rest))))"

definition normalize_supplemental :: "(string \<Rightarrow> string) \<Rightarrow> SupplementalQuotaWindowInput list
    \<Rightarrow> SupplementalQuotaWindow list \<Rightarrow> QuotaNormalizationError + SupplementalQuotaWindow list" where
  "normalize_supplemental sha256_hex inputs previous =
     (if length inputs > MAX_SUPPLEMENTAL_WINDOWS then Inl InvalidSupplementalWindow
      else supplemental_loop sha256_hex previous {||} inputs)"

definition refresh_normalize :: "(string \<Rightarrow> string) \<Rightarrow> QuotaRefreshData \<Rightarrow> QuotaSnapshot
    \<Rightarrow> QuotaNormalizationError + (QuotaSnapshot \<times> Subscription option)" where
  "refresh_normalize sha256_hex data previous =
     (case normalize_window sha256_hex (rd_primary data) Primary (qs_primary previous) of
        Inl err \<Rightarrow> Inl err
      | Inr primary \<Rightarrow>
     (case normalize_window sha256_hex (rd_secondary data) Secondary (qs_secondary previous) of
        Inl err \<Rightarrow> Inl err
      | Inr secondary \<Rightarrow>
     (case normalize_supplemental sha256_hex (rd_supplemental data) (qs_supplemental previous) of
        Inl err \<Rightarrow> Inl err
      | Inr supplemental \<Rightarrow>
          Inr (\<lparr>qs_primary = primary, qs_secondary = secondary, qs_supplemental = supplemental,
                qs_limit_reached = rd_limit_reached data,
                qs_reset_credits_available = rd_reset_credits_available data,
                qs_direct_balance_micro_usd = rd_direct_balance_micro_usd data,
                qs_updated_at_ms = Some (rd_observed_at_ms data), qs_error = None\<rparr>,
               map_option subscription_normalize (rd_subscription data)))))"

subsection \<open>Failures\<close>

record QuotaRefreshFailure =
  rf_code :: string
  rf_retryable :: bool
  rf_http_status :: "u16 option"

definition refresh_failure_new :: "string \<Rightarrow> bool \<Rightarrow> QuotaRefreshFailure" where
  "refresh_failure_new code retryable =
     \<lparr>rf_code = safe_error_code code, rf_retryable = retryable, rf_http_status = None\<rparr>"

definition with_http_status :: "QuotaRefreshFailure \<Rightarrow> u16 \<Rightarrow> QuotaRefreshFailure" where
  "with_http_status failure status = failure\<lparr>rf_http_status := Some status\<rparr>"

definition error_code_pointers :: "string list" where
  "error_code_pointers = [''/detail/code'', ''/detail/error/code'', ''/error/code'', ''/code'',
     ''/error/type'', ''/type'']"

definition provider_error_code :: "(string \<Rightarrow> 'json option) \<Rightarrow> ('json \<Rightarrow> string \<Rightarrow> 'json option)
    \<Rightarrow> ('json \<Rightarrow> string option) \<Rightarrow> string \<Rightarrow> string option" where
  "provider_error_code from_slice pointer as_str body =
     (case from_slice body of
        None \<Rightarrow> None
      | Some v \<Rightarrow>
          (case List.map_filter normalize_error_code
                 (List.map_filter (\<lambda>p. Option.bind (pointer v p) as_str) error_code_pointers) of
             [] \<Rightarrow> None | code # _ \<Rightarrow> Some code))"

definition default_failure_code :: "u16 \<Rightarrow> string" where
  "default_failure_code status =
     (if status = 401 then ''quota_unauthorized''
      else if status = 403 then ''quota_forbidden''
      else if status = 429 then ''quota_rate_limited''
      else if 500 \<le> status \<and> status \<le> 599 then ''quota_upstream''
      else ''quota_http_status'')"

definition classify_quota_http_failure :: "(string \<Rightarrow> 'json option)
    \<Rightarrow> ('json \<Rightarrow> string \<Rightarrow> 'json option) \<Rightarrow> ('json \<Rightarrow> string option)
    \<Rightarrow> u16 \<Rightarrow> string \<Rightarrow> QuotaRefreshFailure" where
  "classify_quota_http_failure from_slice pointer as_str status body =
     (let retryable = (status = 429 \<or> status \<ge> 500);
          code = (case provider_error_code from_slice pointer as_str body of
              Some code \<Rightarrow> code | None \<Rightarrow> default_failure_code status)
      in with_http_status (refresh_failure_new code retryable) status)"

subsection \<open>Properties\<close>

lemma supplemental_loop_ids:
  assumes "supplemental_loop H previous ids inputs = Inr ws"
  shows "distinct (map sw_id ws) \<and> set (map sw_id ws) \<inter> fset ids = {} \<and> length ws = length inputs
    \<and> (\<forall>w \<in> set ws. valid_supplemental_id (sw_id w) \<and> valid_supplemental_label (sw_label w))"
  using assms
proof (induction H previous ids inputs arbitrary: ws rule: supplemental_loop.induct)
  case (2 H previous ids input inputs)
  let ?id = "trim (swi_id input)"
  obtain window rest where
    ok: "valid_supplemental_id ?id" "?id |\<notin>| ids" "valid_supplemental_label (trim (swi_label input))"
    and win: "window_normalize H (swi_window input)
      (map_option sw_window (find (\<lambda>candidate. sw_id candidate = ?id) previous)) = Inr window"
    and rest: "supplemental_loop H previous (finsert ?id ids) inputs = Inr rest"
    and ws: "ws = \<lparr>sw_id = ?id, sw_label = trim (swi_label input),
      sw_service_tier = swi_service_tier input, sw_window = window\<rparr> # rest"
    using "2.prems" by (auto simp: Let_def split: if_splits sum.splits)
  from ok win rest have "distinct (map sw_id rest) \<and> set (map sw_id rest) \<inter> fset (finsert ?id ids) = {}
      \<and> length rest = length inputs
      \<and> (\<forall>w \<in> set rest. valid_supplemental_id (sw_id w) \<and> valid_supplemental_label (sw_label w))"
    by (intro "2.IH") auto
  with ok show ?case by (auto simp: ws)
qed simp

lemma normalize_supplemental_wf:
  assumes "normalize_supplemental H inputs previous = Inr ws"
  shows "length ws \<le> MAX_SUPPLEMENTAL_WINDOWS \<and> distinct (map sw_id ws)
    \<and> (\<forall>w \<in> set ws. valid_supplemental_id (sw_id w) \<and> valid_supplemental_label (sw_label w))"
  using assms supplemental_loop_ids by (fastforce simp: normalize_supplemental_def split: if_splits)

lemma normalize_window_kind:
  "normalize_window H input k previous = Inr (Some w) \<Longrightarrow> qw_kind w = k \<and> \<not> is_empty_provider_placeholder w"
  by (auto simp: normalize_window_def window_normalize_fields split: option.splits if_splits sum.splits)

lemma window_normalize_bound:
  assumes "window_normalize H input previous = Inr w" and "qw_available_basis_points w = Some bp"
  shows "bp \<le> 10000"
  using assms
  by (auto simp: window_normalize_def Let_def split: sum.splits option.splits dest: percent_to_basis_points_bound)

lemma normalize_window_bound:
  "normalize_window H input k previous = Inr (Some w) \<Longrightarrow> qw_available_basis_points w = Some bp \<Longrightarrow> bp \<le> 10000"
  by (auto simp: normalize_window_def split: option.splits if_splits sum.splits intro: window_normalize_bound)

text \<open>The shape of every snapshot that normalisation produces.\<close>

definition snapshot_wf :: "QuotaSnapshot \<Rightarrow> bool" where
  "snapshot_wf q \<longleftrightarrow>
     (\<forall>k w. snapshot_window q k = Some w \<longrightarrow> qw_kind w = k \<and> \<not> is_empty_provider_placeholder w
        \<and> (\<forall>bp. qw_available_basis_points w = Some bp \<longrightarrow> bp \<le> 10000))
     \<and> length (qs_supplemental q) \<le> MAX_SUPPLEMENTAL_WINDOWS \<and> distinct (map sw_id (qs_supplemental q))
     \<and> (\<forall>w \<in> set (qs_supplemental q). valid_supplemental_id (sw_id w) \<and> valid_supplemental_label (sw_label w))"

lemma refresh_normalize_wf:
  assumes "refresh_normalize H data previous = Inr (q, sub)"
  shows "snapshot_wf q"
proof -
  obtain p s sup where p: "normalize_window H (rd_primary data) Primary (qs_primary previous) = Inr p"
    and s: "normalize_window H (rd_secondary data) Secondary (qs_secondary previous) = Inr s"
    and sup: "normalize_supplemental H (rd_supplemental data) (qs_supplemental previous) = Inr sup"
    and q: "qs_primary q = p" "qs_secondary q = s" "qs_supplemental q = sup"
    using assms by (auto simp: refresh_normalize_def split: sum.splits)
  have "qw_kind w = k \<and> \<not> is_empty_provider_placeholder w
      \<and> (\<forall>bp. qw_available_basis_points w = Some bp \<longrightarrow> bp \<le> 10000)"
    if "snapshot_window q k = Some w" for k w
    using that p s q by (cases k) (auto dest: normalize_window_kind normalize_window_bound)
  with normalize_supplemental_wf [OF sup] q show ?thesis by (simp add: snapshot_wf_def)
qed

lemma classify_code_valid:
  "valid_error_code (rf_code (classify_quota_http_failure from_slice pointer as_str status body))"
  by (simp add: classify_quota_http_failure_def with_http_status_def refresh_failure_new_def
      safe_error_code_valid Let_def)

lemma preserve_keeps_other_fields:
  "rd_primary (preserve_subscription_metadata d prev) = rd_primary d"
  "rd_secondary (preserve_subscription_metadata d prev) = rd_secondary d"
  "rd_supplemental (preserve_subscription_metadata d prev) = rd_supplemental d"
  "rd_limit_reached (preserve_subscription_metadata d prev) = rd_limit_reached d"
  "rd_observed_at_ms (preserve_subscription_metadata d prev) = rd_observed_at_ms d"
  by (auto simp: preserve_subscription_metadata_def Let_def split: option.splits)

end
