(* ===== verification/Accounts.thy ===== *)
theory Accounts
  imports Quota_Refresh
begin

section \<open>Account state (\<open>accounts/record.rs\<close>, \<open>accounts/quota_state.rs\<close>)\<close>

text \<open>
  The authentication and health state of an account and the pure reducers that every runtime
  shares: what a model-discovery failure, a finished request or a quota refresh does to it.
  Source functions that mutate several \<open>&mut\<close> arguments return them as a tuple.
\<close>

datatype AccountAuthMode = OAuth | ApiKey | ImportedToken

datatype ReauthReason = InvalidGrant | ReusedRefreshToken | ExpiredRefreshToken
  | InvalidatedRefreshToken | AccessTokenExpired

datatype ProviderAccountFailure = Authentication | BlockedFailure

datatype AccountAuthState = AuthUnknown | AuthActive | DegradedAccessOnly | Refreshing | AuthError
  | RequiresReauth ReauthReason

datatype AccountHealthState = HsUnknown | HsHealthy | HsDegraded | HsUnhealthy | HsBlocked

definition provider_account_failure :: "string \<Rightarrow> ProviderAccountFailure option" where
  "provider_account_failure code =
     (if code \<in> set [''invalid_grant'', ''invalid_refresh_token'', ''refresh_token_expired'',
           ''refresh_token_invalidated'', ''token_invalidated'', ''token_revoked'']
      then Some Authentication
      else if code \<in> set [''account_deactivated'', ''account_disabled'', ''deactivated_workspace'',
           ''organization_deactivated'', ''organization_disabled'', ''project_deactivated'',
           ''workspace_disabled'', ''workspace_expired'', ''workspace_terminated'']
      then Some BlockedFailure
      else None)"

fun requires_fresh_login :: "AccountAuthState \<Rightarrow> bool" where
  "requires_fresh_login (RequiresReauth reason) \<longleftrightarrow> reason \<noteq> ReusedRefreshToken"
| "requires_fresh_login _ \<longleftrightarrow> False"

definition automatic_quota_monitoring_eligible :: "bool \<Rightarrow> AccountAuthState \<Rightarrow> bool" where
  "automatic_quota_monitoring_eligible enabled auth_state \<longleftrightarrow> enabled \<and> \<not> requires_fresh_login auth_state"

subsection \<open>Model discovery\<close>

definition apply_model_discovery_failure ::
  "AccountAuthState \<Rightarrow> AccountHealthState \<Rightarrow> string option \<Rightarrow> string \<Rightarrow> bool
   \<Rightarrow> AccountAuthState \<times> AccountHealthState \<times> string option" where
  "apply_model_discovery_failure auth_state health last_error_code code retryable =
     (let last_error_code = Some code in
      if code \<in> set [''models_unauthorized'', ''models_invalid_access_token'', ''models_invalid_account_id'']
      then (if \<not> requires_fresh_login auth_state then AuthError else auth_state, HsUnhealthy, last_error_code)
      else if code = ''models_forbidden''
      then (auth_state, if health \<noteq> HsBlocked \<and> health \<noteq> HsUnhealthy then HsDegraded else health, last_error_code)
      else if retryable then (auth_state, HsDegraded, last_error_code)
      else (auth_state, HsUnhealthy, last_error_code))"

definition recover_model_discovery_state ::
  "AccountAuthState \<Rightarrow> AccountHealthState \<Rightarrow> string option
   \<Rightarrow> (AccountAuthState \<times> AccountHealthState \<times> string option) \<times> bool" where
  "recover_model_discovery_state auth_state health last_error_code =
     (let recovered = (case last_error_code of None \<Rightarrow> False | Some code \<Rightarrow> starts_with code ''models_'') in
      if \<not> recovered then ((auth_state, health, last_error_code), False)
      else if \<not> requires_fresh_login auth_state
      then ((if auth_state = AuthError then AuthActive else auth_state, HsHealthy, None), True)
      else ((auth_state, health, None), True))"

subsection \<open>Request outcomes\<close>

datatype AccountAccessState = Refreshable | AccessOnly | AccessFailed

record AccountUsageState =
  us_auth_state :: AccountAuthState
  us_health :: AccountHealthState
  us_last_error_code :: "string option"
  us_last_used_at_ms :: "u64 option"

record AccountUsageObservation =
  ob_success :: bool
  ob_http_status :: u16
  ob_error_category :: "string option"
  ob_affects_account :: bool

record AccountUsageUpdate =
  uu_state :: AccountUsageState
  uu_reset_runtime_failures :: bool
  uu_refresh_quota :: bool

definition degrade :: "bool \<Rightarrow> AccountUsageState \<Rightarrow> AccountUsageState" where
  "degrade explicit_state state = (if \<not> explicit_state then state\<lparr>us_health := HsDegraded\<rparr> else state)"

definition usage_failure_state ::
  "AccountUsageState \<Rightarrow> AccountUsageObservation \<Rightarrow> AccountAccessState option \<Rightarrow> AccountUsageState" where
  "usage_failure_state state observation access_state =
     (let explicit_state = (requires_fresh_login (us_auth_state state) \<or> us_health state = HsBlocked);
          failure_category = filter_option (\<lambda>category. category \<noteq> ''upstream_status'') (ob_error_category observation)
      in if ob_http_status observation = 401 then
           (if access_state = Some Refreshable then
              (degrade explicit_state state)\<lparr>us_last_error_code :=
                Some (option_default ''upstream_unauthorized'' failure_category)\<rparr>
            else if access_state = Some AccessOnly then
              state\<lparr>us_auth_state := (if \<not> requires_fresh_login (us_auth_state state) then AuthError else us_auth_state state),
                us_health := HsUnhealthy,
                us_last_error_code := Some (option_default ''upstream_unauthorized'' failure_category)\<rparr>
            else if \<not> explicit_state then
              state\<lparr>us_auth_state := AuthError, us_health := HsUnhealthy,
                us_last_error_code := Some ''credential_access_expiry_failed''\<rparr>
            else state)
         else if ob_http_status observation = 403 then
           (let category = option_default ''upstream_forbidden'' failure_category;
                state' = (if category \<in> set [''upstream_quota_exhausted'', ''upstream_usage_not_included'',
                     ''upstream_region_unsupported'', ''upstream_edge_challenge'']
                   then degrade explicit_state state else state\<lparr>us_health := HsBlocked\<rparr>)
            in state'\<lparr>us_last_error_code := Some category\<rparr>)
         else if ob_http_status observation = 429 then
           (degrade explicit_state state)\<lparr>us_last_error_code :=
             Some (option_default ''upstream_rate_limited'' failure_category)\<rparr>
         else
           (degrade explicit_state state)\<lparr>us_last_error_code :=
             Some (option_default ''upstream_failure'' (ob_error_category observation))\<rparr>)"

definition reduce_account_usage ::
  "AccountUsageState \<Rightarrow> AccountUsageObservation \<Rightarrow> u64 \<Rightarrow> AccountAccessState option
   \<Rightarrow> AccountAuthState option \<Rightarrow> AccountUsageUpdate" where
  "reduce_account_usage state observation observed_at_ms access_state successful_auth_state =
     (if ob_success observation then
        let state = state\<lparr>us_last_used_at_ms := Some observed_at_ms, us_health := HsHealthy,
              us_last_error_code := None\<rparr>;
            state = (if (case us_auth_state state of AuthError \<Rightarrow> True | RequiresReauth _ \<Rightarrow> True | _ \<Rightarrow> False)
              then (case successful_auth_state of None \<Rightarrow> state
                | Some auth_state \<Rightarrow> state\<lparr>us_auth_state := auth_state\<rparr>)
              else state)
        in \<lparr>uu_state = state, uu_reset_runtime_failures = True, uu_refresh_quota = False\<rparr>
      else if \<not> ob_affects_account observation then
        \<lparr>uu_state = state, uu_reset_runtime_failures = False, uu_refresh_quota = False\<rparr>
      else
        let failure_category = filter_option (\<lambda>category. category \<noteq> ''upstream_status'') (ob_error_category observation)
        in \<lparr>uu_state = usage_failure_state state observation access_state,
            uu_reset_runtime_failures = True,
            uu_refresh_quota = (ob_http_status observation = 429
              \<or> (ob_http_status observation = 401 \<and> access_state = Some Refreshable)
              \<or> (ob_http_status observation = 403 \<and> failure_category = Some ''upstream_quota_exhausted''))\<rparr>)"

subsection \<open>Identity and account records\<close>

record AccountIdentity =
  ai_stable_index :: string
  ai_identity_hash :: string
  ai_organization_hash :: "string option"

definition required :: "string \<Rightarrow> string + string" where
  "required value0 = (let v = trim value0 in
     if v = [] then Inl ''stable identity parts must not be empty'' else Inr v)"

definition from_hashed_parts :: "(string \<Rightarrow> string) \<Rightarrow> string \<Rightarrow> string \<Rightarrow> string \<Rightarrow> string \<Rightarrow> string
    \<Rightarrow> string option \<Rightarrow> string + AccountIdentity" where
  "from_hashed_parts sha256_hex source_kind base_url_scope identity_hash secret_fingerprint_hash namespace organization_hash =
     (case required source_kind of Inl e \<Rightarrow> Inl e | Inr source_kind \<Rightarrow>
     (case required base_url_scope of Inl e \<Rightarrow> Inl e | Inr base_url_scope \<Rightarrow>
     (case required identity_hash of Inl e \<Rightarrow> Inl e | Inr identity_hash \<Rightarrow>
     (case required secret_fingerprint_hash of Inl e \<Rightarrow> Inl e | Inr secret_fingerprint_hash \<Rightarrow>
     (case required namespace of Inl e \<Rightarrow> Inl e | Inr namespace \<Rightarrow>
        Inr \<lparr>ai_stable_index = sha256_hex
               (to_ascii_lowercase source_kind @ [CHR 0x00] @ to_ascii_lowercase base_url_scope @ [CHR 0x00]
                @ to_ascii_lowercase identity_hash @ [CHR 0x00] @ to_ascii_lowercase secret_fingerprint_hash
                @ [CHR 0x00] @ to_ascii_lowercase namespace),
             ai_identity_hash = to_ascii_lowercase identity_hash,
             ai_organization_hash = map_option to_ascii_lowercase (trimmed_nonempty organization_hash)\<rparr>)))))"

record AccountRecord =
  ar_id :: string
  ar_label :: string
  ar_identity :: AccountIdentity
  ar_auth_mode :: AccountAuthMode
  ar_auth_state :: AccountAuthState
  ar_health :: AccountHealthState
  ar_source_id :: string
  ar_secret_refs :: "string list"
  ar_subscription :: Subscription
  ar_quota :: QuotaSnapshot
  ar_token_generation :: u64
  ar_token_updated_at_ms :: "u64 option"
  ar_tags :: "string fset"
  ar_enabled :: bool
  ar_in_pool :: bool
  ar_draining :: bool
  ar_created_at_ms :: u64
  ar_last_used_at_ms :: "u64 option"
  ar_last_error_code :: "string option"

definition is_automatic_quota_monitoring_eligible :: "AccountRecord \<Rightarrow> bool" where
  "is_automatic_quota_monitoring_eligible a =
     automatic_quota_monitoring_eligible (ar_enabled a) (ar_auth_state a)"

definition is_wake_eligible :: "AccountRecord \<Rightarrow> bool" where
  "is_wake_eligible a \<longleftrightarrow> ar_enabled a \<and> ar_in_pool a \<and> \<not> ar_draining a
     \<and> ar_auth_state a = AuthActive \<and> ar_health a = HsHealthy"

subsection \<open>Quota reduction (\<open>accounts/quota_state.rs\<close>)\<close>

datatype AccountQuotaOutcome = Updated "QuotaTransition list" | Failed string bool

record AccountQuotaUpdate =
  qup_quota :: QuotaSnapshot
  qup_subscription :: Subscription
  qup_health :: AccountHealthState
  qup_last_error_code :: "string option"
  qup_outcome :: AccountQuotaOutcome
  qup_exhaustion_transitions :: "QuotaTransition list"

definition is_auth_owned_error :: "string \<Rightarrow> bool" where
  "is_auth_owned_error code \<longleftrightarrow> provider_account_failure code = Some Authentication
     \<or> code \<in> set [''credential_access_expiry_failed'', ''upstream_unauthorized'']
     \<or> starts_with code ''auth_''"

definition collect_transitions :: "(QuotaWindow \<Rightarrow> QuotaWindow option \<Rightarrow> QuotaTransition option)
    \<Rightarrow> QuotaSnapshot \<Rightarrow> QuotaSnapshot \<Rightarrow> QuotaTransition list" where
  "collect_transitions transition_from quota previous_quota =
     List.map_filter (\<lambda>kind. Option.bind (snapshot_window quota kind)
         (\<lambda>window. transition_from window (snapshot_window previous_quota kind)))
       [Primary, Secondary]"

definition reduce_account_quota :: "(string \<Rightarrow> string) \<Rightarrow> QuotaSnapshot \<Rightarrow> Subscription
    \<Rightarrow> AccountHealthState \<Rightarrow> string option \<Rightarrow> QuotaRefreshFailure + QuotaRefreshResult \<Rightarrow> u64
    \<Rightarrow> QuotaNormalizationError + AccountQuotaUpdate" where
  "reduce_account_quota sha256_hex previous_quota previous_subscription previous_health
       previous_last_error_code result failure_observed_at_ms =
     (case result of
        Inr data \<Rightarrow>
          (case refresh_normalize sha256_hex
                  (preserve_subscription_metadata (rr_quota data) previous_subscription) previous_quota of
             Inl err \<Rightarrow> Inl err
           | Inr (quota, subscription) \<Rightarrow>
              let health = (if rr_allowed data = Some False \<and> rr_reported_limit_reached data \<noteq> Some True
                    then HsBlocked else HsHealthy);
                  quota_owned_error = (case previous_last_error_code of None \<Rightarrow> False
                    | Some code \<Rightarrow> starts_with code ''quota_''
                        \<or> (case qs_error previous_quota of None \<Rightarrow> False | Some error \<Rightarrow> qe_code error = code));
                  auth_owned_error = (case previous_last_error_code of None \<Rightarrow> False
                    | Some code \<Rightarrow> is_auth_owned_error code);
                  (health, last_error_code) =
                    (if health = HsBlocked then (health, Some ''quota_forbidden'')
                     else if previous_last_error_code \<noteq> None \<and> \<not> quota_owned_error \<and> \<not> auth_owned_error
                     then (previous_health, previous_last_error_code)
                     else (health, None))
              in Inr \<lparr>qup_quota = quota,
                   qup_subscription = (case subscription of Some s \<Rightarrow> s | None \<Rightarrow> previous_subscription),
                   qup_health = health, qup_last_error_code = last_error_code,
                   qup_outcome = Updated (collect_transitions (full_transition_from sha256_hex) quota previous_quota),
                   qup_exhaustion_transitions =
                     collect_transitions (exhaustion_transition_from sha256_hex) quota previous_quota\<rparr>)
      | Inl failure \<Rightarrow>
          let quota = previous_quota\<lparr>qs_error := Some (quota_error_new (rf_code failure) failure_observed_at_ms)\<rparr>;
              (health, last_error_code) = (case provider_account_failure (rf_code failure) of
                  Some Authentication \<Rightarrow> (HsUnhealthy, Some (rf_code failure))
                | Some BlockedFailure \<Rightarrow> (HsBlocked, Some (rf_code failure))
                | None \<Rightarrow> if rf_http_status failure = Some 401 then (HsUnhealthy, Some (rf_code failure))
                    else (previous_health, previous_last_error_code))
          in Inr \<lparr>qup_quota = quota, qup_subscription = previous_subscription,
               qup_health = health, qup_last_error_code = last_error_code,
               qup_outcome = Failed (rf_code failure) (rf_retryable failure),
               qup_exhaustion_transitions = []\<rparr>)"

subsection \<open>Properties\<close>

lemma degrade_simps [simp]:
  "us_auth_state (degrade b s) = us_auth_state s"
  "us_health (degrade b s) = (if b then us_health s else HsDegraded)"
  "us_last_used_at_ms (degrade b s) = us_last_used_at_ms s"
  by (auto simp: degrade_def)

lemma usage_failure_keeps_login:
  "requires_fresh_login (us_auth_state s) \<Longrightarrow>
    us_auth_state (usage_failure_state s obs access) = us_auth_state s"
  by (auto simp: usage_failure_state_def Let_def)

lemma usage_failure_never_heals:
  "us_health (usage_failure_state s obs access) \<in> {us_health s, HsDegraded, HsUnhealthy, HsBlocked}
   \<and> (us_health s = HsBlocked \<longrightarrow> us_health (usage_failure_state s obs access) \<in> {HsBlocked, HsUnhealthy})"
  by (auto simp: usage_failure_state_def Let_def)

lemma usage_failure_last_used [simp]:
  "us_last_used_at_ms (usage_failure_state s obs access) = us_last_used_at_ms s"
  by (auto simp: usage_failure_state_def Let_def)

lemma reduce_quota_success:
  assumes "reduce_account_quota H pq ps ph pe (Inr data) t = Inr u"
  obtains sub where
    "refresh_normalize H (preserve_subscription_metadata (rr_quota data) ps) pq = Inr (qup_quota u, sub)"
    and "qup_outcome u = Updated (collect_transitions (full_transition_from H) (qup_quota u) pq)"
    and "qup_exhaustion_transitions u = collect_transitions (exhaustion_transition_from H) (qup_quota u) pq"
    and "qup_health u \<in> {HsBlocked, HsHealthy, ph}"
  using assms by (auto simp: reduce_account_quota_def Let_def split: sum.splits prod.splits if_splits)

lemma collect_transitions_mem:
  "t \<in> set (collect_transitions f q p) \<longleftrightarrow>
    (\<exists>k w. snapshot_window q k = Some w \<and> f w (snapshot_window p k) = Some t)"
proof -
  have "t \<in> set (collect_transitions f q p) \<longleftrightarrow>
      (\<exists>k \<in> set [Primary, Secondary]. \<exists>w. snapshot_window q k = Some w \<and> f w (snapshot_window p k) = Some t)"
    unfolding collect_transitions_def map_filter_mem by (simp add: bind_eq_Some_conv)
  moreover have "k \<in> set [Primary, Secondary]" for k by (cases k) auto
  ultimately show ?thesis by blast
qed

end
