(* ===== verification/Ordered_Maps.thy ===== *)
theory Ordered_Maps
  imports Prelude
begin

section \<open>Ordered maps\<close>

text \<open>
  \<open>std::collections::BTreeMap\<close> as a type of its own: a list of key/value pairs with strictly
  increasing keys, which is the order in which the sources iterate. The same type stands for
  \<open>HashMap\<close> where the code's result does not depend on the iteration order. The locale
  \<open>map_contract\<close> states what a client may rely on; the operations are interpreted in it.
\<close>

typedef (overloaded) ('k::linorder, 'v) btree_map =
  "{xs :: ('k \<times> 'v) list. sorted_wrt (<) (map fst xs)}"
  morphisms bt_entries Bt_Map
  by (rule exI [of _ "[]"]) simp

setup_lifting type_definition_btree_map

fun ins_entry :: "'k::linorder \<Rightarrow> 'v \<Rightarrow> ('k \<times> 'v) list \<Rightarrow> ('k \<times> 'v) list" where
  "ins_entry k v [] = [(k, v)]"
| "ins_entry k v (e # es) =
     (if fst e < k then e # ins_entry k v es
      else if k < fst e then (k, v) # e # es else (k, v) # es)"

lemma set_ins_entry_keys: "fst ` set (ins_entry k v es) = insert k (fst ` set es)"
  by (induction es) (auto simp: not_less)

lemma ball_ins_entry_keys:
  "(\<forall>e \<in> set (ins_entry k v es). Q (fst e)) \<longleftrightarrow> Q k \<and> (\<forall>e \<in> set es. Q (fst e))"
  using set_ins_entry_keys [of k v es] by (metis (no_types, lifting) image_iff insert_iff)

lemma sorted_ins_entry:
  "sorted_wrt (<) (map fst es) \<Longrightarrow> sorted_wrt (<) (map fst (ins_entry k v es))"
proof (induction es)
  case (Cons e es)
  then show ?case using ball_ins_entry_keys [of k v es "\<lambda>x. fst e < x"]
    by (auto simp: not_less intro: order.strict_trans)
qed simp

lift_definition bt_empty :: "('k::linorder, 'v) btree_map" is "[]" by simp

lift_definition bt_get :: "('k::linorder, 'v) btree_map \<Rightarrow> 'k \<Rightarrow> 'v option" is map_of .

lift_definition bt_insert ::
  "'k::linorder \<Rightarrow> 'v \<Rightarrow> ('k, 'v) btree_map \<Rightarrow> ('k, 'v) btree_map" is ins_entry
  by (rule sorted_ins_entry)

lift_definition bt_retain ::
  "('k::linorder \<Rightarrow> 'v \<Rightarrow> bool) \<Rightarrow> ('k, 'v) btree_map \<Rightarrow> ('k, 'v) btree_map"
  is "\<lambda>P es. filter (\<lambda>e. P (fst e) (snd e)) es"
  by (simp add: sorted_wrt_map sorted_wrt_filter)

definition bt_remove :: "'k::linorder \<Rightarrow> ('k, 'v) btree_map \<Rightarrow> ('k, 'v) btree_map" where
  "bt_remove k m = bt_retain (\<lambda>k' _. k' \<noteq> k) m"

definition bt_values :: "('k::linorder, 'v) btree_map \<Rightarrow> 'v list" where
  "bt_values m = map snd (bt_entries m)"

definition bt_keys :: "('k::linorder, 'v) btree_map \<Rightarrow> 'k list" where
  "bt_keys m = map fst (bt_entries m)"

definition bt_len :: "('k::linorder, 'v) btree_map \<Rightarrow> nat" where
  "bt_len m = length (bt_entries m)"

definition bt_contains :: "('k::linorder, 'v) btree_map \<Rightarrow> 'k \<Rightarrow> bool" where
  "bt_contains m k \<longleftrightarrow> bt_get m k \<noteq> None"

text \<open>\<open>get_mut\<close> followed by an assignment: the entry is rewritten in place when present.\<close>

definition bt_update ::
  "'k::linorder \<Rightarrow> ('v \<Rightarrow> 'v) \<Rightarrow> ('k, 'v) btree_map \<Rightarrow> ('k, 'v) btree_map" where
  "bt_update k f m = (case bt_get m k of None \<Rightarrow> m | Some v \<Rightarrow> bt_insert k (f v) m)"

text \<open>\<open>entry(k).or_default()\<close> followed by an assignment through the returned reference.\<close>

definition bt_upsert ::
  "'k::linorder \<Rightarrow> 'v \<Rightarrow> ('v \<Rightarrow> 'v) \<Rightarrow> ('k, 'v) btree_map \<Rightarrow> ('k, 'v) btree_map" where
  "bt_upsert k d f m = bt_insert k (f (case bt_get m k of None \<Rightarrow> d | Some v \<Rightarrow> v)) m"

subsection \<open>Laws\<close>

lemma map_of_ins_entry: "map_of (ins_entry k v es) = (map_of es)(k \<mapsto> v)"
  by (induction es) (auto simp: fun_eq_iff)

lemma sorted_keys_distinct: "sorted_wrt (<) ks \<Longrightarrow> distinct (ks :: 'k::linorder list)"
  by (induction ks) auto

lemma map_of_retain:
  assumes "distinct (map fst es)"
  shows "map_of (filter (\<lambda>e. P (fst e) (snd e)) es) k =
    (case map_of es k of None \<Rightarrow> None | Some v \<Rightarrow> if P k v then Some v else None)"
  using assms by (induction es) (auto simp: map_of_eq_None_iff split: option.splits)

lemma bt_get_empty [simp]: "bt_get bt_empty k = None"
  by transfer simp

lemma bt_get_insert [simp]: "bt_get (bt_insert k v m) k' = (if k' = k then Some v else bt_get m k')"
  by transfer (simp add: map_of_ins_entry)

lemma bt_get_retain [simp]:
  "bt_get (bt_retain P m) k =
    (case bt_get m k of None \<Rightarrow> None | Some v \<Rightarrow> if P k v then Some v else None)"
  by transfer (simp add: map_of_retain sorted_keys_distinct)

lemma bt_get_remove [simp]: "bt_get (bt_remove k m) k' = (if k' = k then None else bt_get m k')"
  by (auto simp: bt_remove_def split: option.splits)

lemma bt_get_update [simp]:
  "bt_get (bt_update k f m) k' = (if k' = k then map_option f (bt_get m k) else bt_get m k')"
  by (auto simp: bt_update_def split: option.splits)

lemma bt_get_upsert [simp]:
  "bt_get (bt_upsert k d f m) k' =
    (if k' = k then Some (f (case bt_get m k of None \<Rightarrow> d | Some v \<Rightarrow> v)) else bt_get m k')"
  by (simp add: bt_upsert_def)

lemma bt_entries_iff: "(k, v) \<in> set (bt_entries m) \<longleftrightarrow> bt_get m k = Some v"
  by transfer (metis map_of_eq_Some_iff sorted_keys_distinct)

lemma bt_entries_ex:
  "(\<exists>e \<in> set (bt_entries m). Q (fst e) (snd e)) \<longleftrightarrow> (\<exists>k v. bt_get m k = Some v \<and> Q k v)"
proof
  assume "\<exists>e \<in> set (bt_entries m). Q (fst e) (snd e)"
  then obtain k v where "(k, v) \<in> set (bt_entries m)" "Q k v" by auto
  then show "\<exists>k v. bt_get m k = Some v \<and> Q k v" by (auto simp: bt_entries_iff)
next
  assume "\<exists>k v. bt_get m k = Some v \<and> Q k v"
  then obtain k v where "(k, v) \<in> set (bt_entries m)" "Q k v" by (auto simp: bt_entries_iff)
  then show "\<exists>e \<in> set (bt_entries m). Q (fst e) (snd e)" by force
qed

lemma bt_values_iff: "v \<in> set (bt_values m) \<longleftrightarrow> (\<exists>k. bt_get m k = Some v)"
  by (force simp: bt_values_def bt_entries_iff [symmetric])

lemma bt_keys_iff: "k \<in> set (bt_keys m) \<longleftrightarrow> bt_get m k \<noteq> None"
  by (force simp: bt_keys_def bt_entries_iff [symmetric])

lemma bt_contains_iff [simp]: "bt_contains m k \<longleftrightarrow> (\<exists>v. bt_get m k = Some v)"
  by (auto simp: bt_contains_def)

lemma bt_entries_sorted: "sorted_wrt (<) (map fst (bt_entries m))"
  using bt_entries [of m] by simp

lemma bt_entries_distinct: "distinct (map fst (bt_entries m))"
  by (rule sorted_keys_distinct [OF bt_entries_sorted])

lemma bt_map_eqI:
  assumes "\<And>k. bt_get m k = bt_get m' k"
  shows "m = m'"
proof -
  have "set (bt_entries m) = set (bt_entries m')"
    using assms by (auto simp: bt_entries_iff)
  moreover have "inj_on fst (set (bt_entries m'))"
    using bt_entries_distinct [of m'] by (simp add: distinct_map)
  ultimately have "bt_entries m = bt_entries m'"
    using map_sorted_distinct_set_unique [of fst "bt_entries m" "bt_entries m'"]
      bt_entries_sorted bt_entries_distinct
    by (metis Un_absorb strict_sorted_iff)
  then show ?thesis by (simp add: bt_entries_inject)
qed

lemma bt_entries_simps [simp]:
  "bt_entries bt_empty = []"
  "bt_entries (bt_insert k v m) = ins_entry k v (bt_entries m)"
  "bt_entries (bt_retain P m) = filter (\<lambda>e. P (fst e) (snd e)) (bt_entries m)"
  by (transfer, simp)+

subsection \<open>Sizes\<close>

lemma bt_keys_set: "set (bt_keys m) = dom (bt_get m)"
  by (auto simp: bt_keys_iff)

lemma bt_dom_simps:
  "dom (bt_get bt_empty) = {}"
  "dom (bt_get (bt_insert k v m)) = insert k (dom (bt_get m))"
  "dom (bt_get (bt_remove k m)) = dom (bt_get m) - {k}"
  "dom (bt_get (bt_upsert k d f m)) = insert k (dom (bt_get m))"
  by (auto split: if_splits)

lemma bt_len_card: "bt_len m = card (dom (bt_get m))"
proof -
  have "distinct (bt_keys m)" by (simp add: bt_keys_def bt_entries_distinct)
  then have "length (bt_keys m) = card (set (bt_keys m))" by (simp add: distinct_card)
  then show ?thesis by (simp add: bt_keys_set) (simp add: bt_len_def bt_keys_def)
qed

lemma bt_finite [simp]: "finite (dom (bt_get m))"
  by (metis List.finite_set bt_keys_set)

lemma bt_len_mono: "dom (bt_get m) \<subseteq> dom (bt_get m') \<Longrightarrow> bt_len m \<le> bt_len m'"
  by (simp add: bt_len_card card_mono)

lemma bt_len_retain: "bt_len (bt_retain P m) \<le> bt_len m"
  by (rule bt_len_mono) (auto split: option.splits if_splits)

lemma bt_retain_same_len:
  assumes "bt_len (bt_retain P m) = bt_len m"
  shows "bt_retain P m = m"
proof (rule bt_map_eqI)
  have "dom (bt_get (bt_retain P m)) \<subseteq> dom (bt_get m)" by (auto split: option.splits if_splits)
  then have "dom (bt_get (bt_retain P m)) = dom (bt_get m)"
    using assms by (intro card_subset_eq) (simp_all add: bt_len_card)
  then show "bt_get (bt_retain P m) k = bt_get m k" for k
    by (auto simp: set_eq_iff domIff split: option.splits if_splits)
qed

lemma bt_len_insert: "bt_len (bt_insert k v m) = (if bt_get m k = None then Suc (bt_len m) else bt_len m)"
proof -
  have "dom (bt_get (bt_insert k v m)) = insert k (dom (bt_get m))" by (auto split: if_splits)
  then show ?thesis by (auto simp: bt_len_card card_insert_if domIff)
qed

lemma bt_len_remove: "bt_len (bt_remove k m) = (if bt_get m k = None then bt_len m else bt_len m - 1)"
proof -
  have "dom (bt_get (bt_remove k m)) = dom (bt_get m) - {k}" by (auto split: if_splits)
  then show ?thesis by (auto simp: bt_len_card card_Diff_singleton_if domIff)
qed

lemma bt_len_0 [simp]: "bt_len bt_empty = 0" "bt_len m = 0 \<longleftrightarrow> m = bt_empty"
proof -
  show "bt_len (bt_empty :: ('a, 'b) btree_map) = 0" by (simp add: bt_len_def)
  show "bt_len m = 0 \<longleftrightarrow> m = bt_empty"
    by (auto simp: bt_len_def) (metis bt_entries_inject bt_entries_simps(1))
qed

subsection \<open>Sums over the entries\<close>

definition bt_sum :: "('k::linorder \<Rightarrow> 'v \<Rightarrow> nat) \<Rightarrow> ('k, 'v) btree_map \<Rightarrow> nat" where
  "bt_sum f m = sum_list (map (\<lambda>e. f (fst e) (snd e)) (bt_entries m))"

lemma bt_sum_dom: "bt_sum f m = (\<Sum>k \<in> dom (bt_get m). f k (the (bt_get m k)))"
proof -
  have d: "distinct (bt_entries m)" using bt_entries_distinct by (metis distinct_map)
  have e: "set (bt_entries m) = (\<lambda>k. (k, the (bt_get m k))) ` dom (bt_get m)"
    by (force simp: bt_entries_iff image_iff dom_def)
  have "bt_sum f m = (\<Sum>e \<in> set (bt_entries m). f (fst e) (snd e))"
    using d by (simp add: bt_sum_def sum_list_distinct_conv_sum_set)
  also have "\<dots> = (\<Sum>k \<in> dom (bt_get m). f k (the (bt_get m k)))"
    unfolding e by (subst sum.reindex) (auto simp: inj_on_def)
  finally show ?thesis .
qed

lemma bt_sum_empty [simp]: "bt_sum f bt_empty = 0"
  by (simp add: bt_sum_def)

lemma bt_sum_remove:
  "bt_sum f m = bt_sum f (bt_remove k m) + (case bt_get m k of None \<Rightarrow> 0 | Some v \<Rightarrow> f k v)"
proof (cases "bt_get m k")
  case None
  then have "bt_remove k m = m" by (intro bt_map_eqI) simp
  with None show ?thesis by simp
next
  case (Some v)
  then have "dom (bt_get m) = insert k (dom (bt_get (bt_remove k m)))" by (auto split: if_splits)
  moreover have "k \<notin> dom (bt_get (bt_remove k m))" by auto
  moreover have "(\<Sum>x \<in> dom (bt_get (bt_remove k m)). f x (the (bt_get m x))) = bt_sum f (bt_remove k m)"
    by (auto simp: bt_sum_dom intro!: sum.cong split: if_splits)
  ultimately show ?thesis using Some by (simp add: bt_sum_dom [of f m])
qed

lemma bt_sum_insert: "bt_sum f (bt_insert k v m) = bt_sum f (bt_remove k m) + f k v"
proof -
  have "bt_remove k (bt_insert k v m) = bt_remove k m" by (intro bt_map_eqI) simp
  then show ?thesis by (simp add: bt_sum_remove [of f "bt_insert k v m" k])
qed

lemma bt_sum_pos: "bt_get m k = Some v \<Longrightarrow> f k v \<le> bt_sum f m"
  by (simp add: bt_sum_remove [of f m k])

lemma bt_keys_hd: "bt_keys m = k # ks \<Longrightarrow> \<exists>v. bt_get m k = Some v"
  using bt_keys_iff [of k m] by auto

lemma bt_keys_Nil [simp]: "bt_keys m = [] \<longleftrightarrow> m = bt_empty"
  by (metis bt_keys_def bt_len_0(2) bt_len_def length_0_conv map_is_Nil_conv)

text \<open>
  What a capacity-bounded store needs of a map: the size effect of an insertion and of a removal.
  The affinity cache evicts before it inserts; the refresh queue refuses instead.
\<close>

locale bounded_store =
  fixes get :: "'m \<Rightarrow> 'k \<Rightarrow> 'v option"
    and ins :: "'k \<Rightarrow> 'v \<Rightarrow> 'm \<Rightarrow> 'm"
    and del :: "'k \<Rightarrow> 'm \<Rightarrow> 'm"
    and size_of :: "'m \<Rightarrow> nat"
  assumes get_ins: "get (ins k v m) k' = (if k' = k then Some v else get m k')"
    and get_del: "get (del k m) k' = (if k' = k then None else get m k')"
    and size_ins: "size_of (ins k v m) = (if get m k = None then Suc (size_of m) else size_of m)"
    and size_del: "size_of (del k m) = (if get m k = None then size_of m else size_of m - 1)"
begin

lemma ins_within: "size_of m \<le> n \<Longrightarrow> get m k \<noteq> None \<or> size_of m < n \<Longrightarrow> size_of (ins k v m) \<le> n"
  by (auto simp: size_ins)

lemma evict_ins_within:
  assumes "size_of m \<le> n" and "0 < n" and "get m k' \<noteq> None"
  shows "size_of (ins k v (del k' m)) \<le> n"
  using assms by (auto simp: size_ins size_del)

lemma get_evict_ins: "get (ins k v (del k' m)) k = Some v"
  by (simp add: get_ins)

end

interpretation bt: bounded_store bt_get bt_insert bt_remove bt_len
  by unfold_locales (auto simp: bt_len_insert bt_len_remove)

end
