(* ===== verification/Candidate.thy ===== *)
theory Candidate
  imports Accounts Ordered_Maps
begin

section \<open>Candidates (\<open>scheduler/candidate.rs\<close>, \<open>capacity.rs\<close>, \<open>cooldown.rs\<close>)\<close>

text \<open>
  A runtime candidate is one upstream the gateway can send a request to: an API source or an
  OAuth account. This theory models its quota and health classification, its cooldowns and the
  layered predicates configured / catalog-visible / visible / eligible.
\<close>

subsection \<open>Quota capacity (\<open>capacity.rs\<close>)\<close>

datatype CandidateQuota = QUnknown | Available u64 | Exhausted | Stale

definition QUOTA_STALE_AFTER_MS :: u64 where
  "QUOTA_STALE_AFTER_MS = 20 * 60 * 1000"

definition quota_from_snapshot :: "QuotaSnapshot \<Rightarrow> u64 \<Rightarrow> u64 \<Rightarrow> CandidateQuota" where
  "quota_from_snapshot quota now_ms stale_after_ms =
     (if qs_limit_reached quota then Exhausted
      else if (case qs_updated_at_ms quota of None \<Rightarrow> False
               | Some updated_at \<Rightarrow> sat_sub now_ms updated_at > stale_after_ms) then Stale
      else (case min_opt (map ucast (List.map_filter qw_available_basis_points (snapshot_windows quota))) of
          None \<Rightarrow> QUnknown
        | Some remaining \<Rightarrow> if remaining = 0 then Exhausted else Available remaining))"

fun quota_is_eligible :: "CandidateQuota \<Rightarrow> bool" where
  "quota_is_eligible QUnknown \<longleftrightarrow> True"
| "quota_is_eligible (Available n) \<longleftrightarrow> 1 \<le> n"
| "quota_is_eligible Exhausted \<longleftrightarrow> False"
| "quota_is_eligible Stale \<longleftrightarrow> False"

fun quota_compare_preference :: "CandidateQuota \<Rightarrow> CandidateQuota \<Rightarrow> ordering" where
  "quota_compare_preference (Available left) (Available right) = cmp left right"
| "quota_compare_preference (Available _) _ = Greater"
| "quota_compare_preference _ (Available _) = Less"
| "quota_compare_preference _ _ = Equal"

subsection \<open>Cooldowns (\<open>cooldown.rs\<close>)\<close>

datatype CooldownReason = Transient | RateLimit | Mandatory

definition cooldown_applies :: "string \<Rightarrow> string \<Rightarrow> bool" where
  "cooldown_applies candidate_model model \<longleftrightarrow>
     candidate_model = ''*'' \<or> eq_ignore_ascii_case candidate_model model"

definition active_retry_at :: "(string, u64) btree_map \<Rightarrow> string \<Rightarrow> u64 \<Rightarrow> u64 option" where
  "active_retry_at cooldowns model now_ms =
     max_opt (map snd (filter (\<lambda>e. snd e > now_ms \<and> cooldown_applies (fst e) model) (bt_entries cooldowns)))"

definition has_expired_cooldown :: "(string, u64) btree_map \<Rightarrow> string \<Rightarrow> u64 \<Rightarrow> bool" where
  "has_expired_cooldown cooldowns model now_ms =
     list_ex (\<lambda>e. snd e \<le> now_ms \<and> cooldown_applies (fst e) model) (bt_entries cooldowns)"

subsection \<open>Health and candidates (\<open>candidate.rs\<close>)\<close>

datatype WireApi = Responses | ChatCompletions | Messages | Gemini

datatype CandidateKind = ApiSource | OAuthAccount

datatype CandidateHealth = ChUnknown | ChHealthy | ChDegraded | ChUnhealthy | ChReauthRequired
  | ChCheckpoint | ChCaptcha | ChBlocked | ChExpired

definition health_is_eligible :: "CandidateHealth \<Rightarrow> bool" where
  "health_is_eligible h \<longleftrightarrow> h \<in> {ChUnknown, ChHealthy, ChDegraded}"

definition account_candidate_health ::
  "AccountAuthState \<Rightarrow> AccountHealthState \<Rightarrow> SubscriptionStatus \<Rightarrow> string option \<Rightarrow> CandidateHealth" where
  "account_candidate_health auth_state health subscription_status last_error_code =
     (if requires_fresh_login auth_state then ChReauthRequired
      else if auth_state = AuthError then ChUnhealthy
      else if last_error_code = Some ''checkpoint''
           \<or> last_error_code = Some ''upstream_account_verification_required'' then ChCheckpoint
      else if last_error_code = Some ''captcha'' then ChCaptcha
      else if subscription_status = SubForbidden then ChBlocked
      else (case health of
          HsUnknown \<Rightarrow> ChUnknown
        | HsHealthy \<Rightarrow> ChHealthy
        | HsDegraded \<Rightarrow> ChDegraded
        | HsUnhealthy \<Rightarrow> ChUnhealthy
        | HsBlocked \<Rightarrow> ChBlocked))"

record CandidateScope =
  sc_source_ids :: "string fset option"
  sc_account_ids :: "string fset option"
  sc_model_rules :: ModelRules

definition scope_default :: CandidateScope where
  "scope_default = \<lparr>sc_source_ids = None, sc_account_ids = None, sc_model_rules = default_rules\<rparr>"

record RuntimeCandidate =
  rc_id :: string
  rc_kind :: CandidateKind
  rc_source_id :: string
  rc_account_id :: "string option"
  rc_protocol :: WireApi
  rc_enabled :: bool
  rc_draining :: bool
  rc_priority :: int
  rc_weight :: u32
  rc_models :: "string fset"
  rc_model_rules :: ModelRules
  rc_health :: CandidateHealth
  rc_quota :: CandidateQuota
  rc_quota_updated_at_ms :: "u64 option"
  rc_quota_reset_at_ms :: "u64 option"
  rc_cooldowns :: "(string, u64) btree_map"
  rc_last_used_at :: "u64 option"
  rc_consecutive_failures :: u32
  rc_secret_available :: bool

definition scope_includes :: "CandidateScope \<Rightarrow> RuntimeCandidate \<Rightarrow> bool" where
  "scope_includes scope candidate =
     (if sc_source_ids scope = None \<and> sc_account_ids scope = None then True
      else (case sc_source_ids scope of None \<Rightarrow> False | Some ids \<Rightarrow> rc_source_id candidate |\<in>| ids)
        \<or> (case rc_account_id candidate of None \<Rightarrow> False
           | Some aid \<Rightarrow> (case sc_account_ids scope of None \<Rightarrow> False | Some ids \<Rightarrow> aid |\<in>| ids)))"

definition supports_model :: "RuntimeCandidate \<Rightarrow> string \<Rightarrow> bool" where
  "supports_model candidate model =
     fBex (rc_models candidate) (\<lambda>candidate_model. eq_ignore_ascii_case candidate_model model)"

definition is_configured :: "RuntimeCandidate \<Rightarrow> string \<Rightarrow> WireApi list \<Rightarrow> CandidateScope \<Rightarrow> bool" where
  "is_configured c model allowed_protocols scope \<longleftrightarrow>
     rc_enabled c \<and> \<not> rc_draining c \<and> rc_secret_available c
     \<and> rc_protocol c \<in> set allowed_protocols \<and> supports_model c model
     \<and> allows (rc_model_rules c) model \<and> scope_includes scope c \<and> allows (sc_model_rules scope) model"

definition is_catalog_visible :: "RuntimeCandidate \<Rightarrow> string \<Rightarrow> WireApi list \<Rightarrow> CandidateScope \<Rightarrow> bool" where
  "is_catalog_visible c model allowed_protocols scope \<longleftrightarrow>
     is_configured c model allowed_protocols scope \<and> health_is_eligible (rc_health c)"

definition is_visible :: "RuntimeCandidate \<Rightarrow> string \<Rightarrow> WireApi list \<Rightarrow> CandidateScope \<Rightarrow> bool" where
  "is_visible c model allowed_protocols scope \<longleftrightarrow>
     is_catalog_visible c model allowed_protocols scope
     \<and> (quota_is_eligible (rc_quota c) \<or> (rc_kind c = OAuthAccount \<and> rc_quota c = Stale))"

definition candidate_is_eligible ::
  "RuntimeCandidate \<Rightarrow> string \<Rightarrow> WireApi list \<Rightarrow> CandidateScope \<Rightarrow> u64 \<Rightarrow> bool" where
  "candidate_is_eligible c model allowed_protocols scope now_ms \<longleftrightarrow>
     is_visible c model allowed_protocols scope \<and> active_retry_at (rc_cooldowns c) model now_ms = None"

definition retry_at_if_configured ::
  "RuntimeCandidate \<Rightarrow> string \<Rightarrow> WireApi list \<Rightarrow> CandidateScope \<Rightarrow> u64 \<Rightarrow> u64 option" where
  "retry_at_if_configured c model allowed_protocols scope now_ms =
     (if is_catalog_visible c model allowed_protocols scope
      then active_retry_at (rc_cooldowns c) model now_ms else None)"

lemmas candidate_defs [rust_eval] =
  scope_includes_def supports_model_def is_configured_def is_catalog_visible_def is_visible_def
  candidate_is_eligible_def retry_at_if_configured_def health_is_eligible_def scope_default_def
  active_retry_at_def has_expired_cooldown_def cooldown_applies_def

subsection \<open>Properties\<close>

lemma active_times_mem:
  "t \<in> set (map snd (filter (\<lambda>e. snd e > now \<and> cooldown_applies (fst e) model) (bt_entries cd))) \<longleftrightarrow>
    now < t \<and> (\<exists>m. bt_get cd m = Some t \<and> cooldown_applies m model)"
proof -
  let ?Q = "\<lambda>m u. u > now \<and> cooldown_applies m model \<and> u = t"
  have "t \<in> set (map snd (filter (\<lambda>e. snd e > now \<and> cooldown_applies (fst e) model) (bt_entries cd))) \<longleftrightarrow>
      (\<exists>e \<in> set (bt_entries cd). ?Q (fst e) (snd e))" by auto
  also have "\<dots> \<longleftrightarrow> (\<exists>m u. bt_get cd m = Some u \<and> ?Q m u)" by (rule bt_entries_ex)
  finally show ?thesis by blast
qed

lemma nil_iff_mem: "xs = [] \<longleftrightarrow> (\<forall>x. x \<notin> set xs)"
  by (cases xs) auto

lemma active_retry_at_None:
  "active_retry_at cd model now = None \<longleftrightarrow>
    (\<forall>m t. bt_get cd m = Some t \<longrightarrow> cooldown_applies m model \<longrightarrow> t \<le> now)"
  unfolding active_retry_at_def max_opt_None nil_iff_mem active_times_mem by (meson not_le)

lemma active_retry_at_Some:
  "active_retry_at cd model now = Some t \<longleftrightarrow>
    (\<exists>m. bt_get cd m = Some t \<and> cooldown_applies m model) \<and> now < t
    \<and> (\<forall>m t'. bt_get cd m = Some t' \<longrightarrow> cooldown_applies m model \<longrightarrow> t' \<le> t)"
  unfolding active_retry_at_def max_opt_Some Ball_def active_times_mem
  by (meson le_less_trans less_imp_le not_le order_trans)

text \<open>At its retry time a cooldown no longer blocks, and no earlier time unblocks the model.\<close>

lemma active_retry_at_expires:
  assumes "active_retry_at cd model now = Some t"
  shows "active_retry_at cd model t = None"
    and "now \<le> u \<Longrightarrow> u < t \<Longrightarrow> active_retry_at cd model u \<noteq> None"
  using assms unfolding active_retry_at_Some by (auto simp: active_retry_at_None not_le)

lemma has_expired_cooldown_iff:
  "has_expired_cooldown cd model now \<longleftrightarrow>
    (\<exists>m t. bt_get cd m = Some t \<and> t \<le> now \<and> cooldown_applies m model)"
  unfolding has_expired_cooldown_def list_ex_iff by (rule bt_entries_ex)

lemma supports_model_case: "eq_ignore_ascii_case m m' \<Longrightarrow> supports_model c m = supports_model c m'"
  by (simp add: supports_model_def eq_ignore_ascii_case_def)

lemma is_configured_case:
  "eq_ignore_ascii_case m m' \<Longrightarrow> is_configured c m ps scope = is_configured c m' ps scope"
  using supports_model_case allows_case by (simp add: is_configured_def)

lemma cooldown_applies_case:
  "eq_ignore_ascii_case m m' \<Longrightarrow> cooldown_applies x m = cooldown_applies x m'"
  by (simp add: cooldown_applies_def eq_ignore_ascii_case_def)

lemma candidate_is_eligible_case:
  assumes "eq_ignore_ascii_case m m'"
  shows "candidate_is_eligible c m ps scope now = candidate_is_eligible c m' ps scope now"
  using is_configured_case [OF assms] cooldown_applies_case [OF assms]
  by (simp add: candidate_is_eligible_def is_visible_def is_catalog_visible_def active_retry_at_def)

text \<open>A snapshot never yields a zero balance: zero is \<^const>\<open>Exhausted\<close>.\<close>

lemma quota_from_snapshot_positive: "quota_from_snapshot q now stale = Available n \<Longrightarrow> 0 < n"
  by (auto simp: quota_from_snapshot_def word_gt_0 split: if_splits option.splits)

lemma quota_compare_swap:
  "quota_compare_preference a b = reverse_ordering (quota_compare_preference b a)"
  by (cases a; cases b) (auto intro: cmp_swap)

end
