(* ===== verification/Affinity.thy ===== *)
theory Affinity
  imports Ordered_Maps Rust_Strings
begin

section \<open>The affinity cache (\<open>scheduler/affinity.rs\<close>)\<close>

text \<open>
  A bounded, expiring map from an affinity key (a response id or a prompt-cache key) to the
  candidate that owns it. Every read prunes first, so reads return the pruned cache together
  with their answer. The bindings are a \<open>HashMap\<close> in the source; eviction picks a unique
  minimum of \<open>(last_touched_at, key)\<close>, so its iteration order is never observable.
\<close>

record Binding =
  b_candidate_id :: string
  b_ttl_ms :: u64
  b_expires_at :: u64
  b_last_touched_at :: u64

record AffinityCache =
  ac_bindings :: "(string, Binding) btree_map"
  ac_max_entries :: nat
  ac_ttl_ms :: u64

subsection \<open>Operations\<close>

definition affinity_new :: "nat \<Rightarrow> u64 \<Rightarrow> AffinityCache" where
  "affinity_new max_entries ttl_ms =
     \<lparr>ac_bindings = bt_empty, ac_max_entries = max_entries, ac_ttl_ms = ttl_ms\<rparr>"

definition affinity_prune :: "u64 \<Rightarrow> AffinityCache \<Rightarrow> AffinityCache" where
  "affinity_prune now_ms c =
     c\<lparr>ac_bindings := bt_retain (\<lambda>_ b. b_expires_at b > now_ms) (ac_bindings c)\<rparr>"

definition affinity_get :: "string \<Rightarrow> u64 \<Rightarrow> AffinityCache \<Rightarrow> AffinityCache \<times> string option" where
  "affinity_get key now_ms c =
     (let c = affinity_prune now_ms c
      in (c, map_option b_candidate_id (bt_get (ac_bindings c) key)))"

definition affinity_refresh :: "string \<Rightarrow> u64 \<Rightarrow> AffinityCache \<Rightarrow> AffinityCache \<times> bool" where
  "affinity_refresh key now_ms c =
     (let c = affinity_prune now_ms c in
      case bt_get (ac_bindings c) key of
        None \<Rightarrow> (c, False)
      | Some b \<Rightarrow>
          (c\<lparr>ac_bindings := bt_insert key
               (b\<lparr>b_expires_at := sat_add now_ms (b_ttl_ms b), b_last_touched_at := now_ms\<rparr>)
               (ac_bindings c)\<rparr>, True))"

definition compare_touched :: "string \<times> Binding \<Rightarrow> string \<times> Binding \<Rightarrow> ordering" where
  "compare_touched l r = then_with (cmp (b_last_touched_at (snd l)) (b_last_touched_at (snd r)))
     (cmp (fst l) (fst r))"

definition affinity_evict_oldest :: "AffinityCache \<Rightarrow> AffinityCache" where
  "affinity_evict_oldest c =
     (case min_by compare_touched (bt_entries (ac_bindings c)) of
        None \<Rightarrow> c
      | Some (key, _) \<Rightarrow> c\<lparr>ac_bindings := bt_remove key (ac_bindings c)\<rparr>)"

definition affinity_make_room :: "string \<Rightarrow> AffinityCache \<Rightarrow> AffinityCache" where
  "affinity_make_room key c =
     (if \<not> bt_contains (ac_bindings c) key \<and> bt_len (ac_bindings c) \<ge> ac_max_entries c
      then affinity_evict_oldest c else c)"

definition affinity_bind_for ::
  "string \<Rightarrow> string \<Rightarrow> u64 \<Rightarrow> u64 \<Rightarrow> AffinityCache \<Rightarrow> AffinityCache" where
  "affinity_bind_for key candidate_id now_ms ttl_ms c =
     (if ac_max_entries c = 0 \<or> ttl_ms = 0 then c
      else
        let c = affinity_make_room key (affinity_prune now_ms c)
        in c\<lparr>ac_bindings := bt_insert key
              \<lparr>b_candidate_id = candidate_id, b_ttl_ms = ttl_ms,
               b_expires_at = sat_add now_ms ttl_ms, b_last_touched_at = now_ms\<rparr>
              (ac_bindings c)\<rparr>)"

definition affinity_bind :: "string \<Rightarrow> string \<Rightarrow> u64 \<Rightarrow> AffinityCache \<Rightarrow> AffinityCache" where
  "affinity_bind key candidate_id now_ms c =
     affinity_bind_for key candidate_id now_ms (ac_ttl_ms c) c"

definition affinity_bind_if_unbound_or_same ::
  "string \<Rightarrow> string \<Rightarrow> u64 \<Rightarrow> AffinityCache \<Rightarrow> AffinityCache \<times> bool" where
  "affinity_bind_if_unbound_or_same key candidate_id now_ms c0 =
     (case affinity_get key now_ms c0 of
        (c, Some current) \<Rightarrow>
          if current = candidate_id then affinity_refresh key now_ms c else (c, False)
      | (c, None) \<Rightarrow> (affinity_bind key candidate_id now_ms c, True))"

definition affinity_restore ::
  "string \<Rightarrow> string \<Rightarrow> u64 \<Rightarrow> u64 \<Rightarrow> AffinityCache \<Rightarrow> AffinityCache" where
  "affinity_restore key candidate_id expires_at now_ms c =
     (if ac_max_entries c = 0 \<or> expires_at \<le> now_ms then c
      else
        let c = affinity_make_room key (affinity_prune now_ms c)
        in c\<lparr>ac_bindings := bt_insert key
              \<lparr>b_candidate_id = candidate_id, b_ttl_ms = ac_ttl_ms c,
               b_expires_at = expires_at, b_last_touched_at = now_ms\<rparr>
              (ac_bindings c)\<rparr>)"

definition affinity_contains :: "string \<Rightarrow> u64 \<Rightarrow> AffinityCache \<Rightarrow> AffinityCache \<times> bool" where
  "affinity_contains key now_ms c =
     (let c = affinity_prune now_ms c in (c, bt_contains (ac_bindings c) key))"

definition affinity_invalidate :: "string \<Rightarrow> AffinityCache \<Rightarrow> AffinityCache \<times> bool" where
  "affinity_invalidate key c =
     (c\<lparr>ac_bindings := bt_remove key (ac_bindings c)\<rparr>, bt_contains (ac_bindings c) key)"

definition affinity_invalidate_candidate :: "string \<Rightarrow> AffinityCache \<Rightarrow> AffinityCache \<times> nat" where
  "affinity_invalidate_candidate candidate_id c =
     (let previous_len = bt_len (ac_bindings c);
          c' = c\<lparr>ac_bindings := bt_retain (\<lambda>_ b. b_candidate_id b \<noteq> candidate_id) (ac_bindings c)\<rparr>
      in (c', previous_len - bt_len (ac_bindings c')))"

definition affinity_clear :: "AffinityCache \<Rightarrow> AffinityCache" where
  "affinity_clear c = c\<lparr>ac_bindings := bt_empty\<rparr>"

definition affinity_len :: "AffinityCache \<Rightarrow> nat" where
  "affinity_len c = bt_len (ac_bindings c)"

definition affinity_is_empty :: "AffinityCache \<Rightarrow> bool" where
  "affinity_is_empty c \<longleftrightarrow> affinity_len c = 0"

lemmas affinity_defs [rust_eval] =
  affinity_new_def affinity_prune_def affinity_get_def affinity_refresh_def compare_touched_def
  affinity_evict_oldest_def affinity_make_room_def affinity_bind_for_def affinity_bind_def
  affinity_bind_if_unbound_or_same_def affinity_restore_def affinity_contains_def
  affinity_invalidate_def affinity_invalidate_candidate_def affinity_clear_def
  affinity_len_def affinity_is_empty_def

subsection \<open>The abstract view: who owns a key at a time\<close>

text \<open>
  The cache promises a partial function from keys to owners at each time: a binding that has
  expired is no owner. Reads do not change it, and the writes change it as follows.
\<close>

definition owner_at :: "AffinityCache \<Rightarrow> u64 \<Rightarrow> string \<Rightarrow> string option" where
  "owner_at c now_ms key =
     (case bt_get (ac_bindings c) key of None \<Rightarrow> None
      | Some b \<Rightarrow> if b_expires_at b > now_ms then Some (b_candidate_id b) else None)"

lemma owner_at_prune: "now \<le> t \<Longrightarrow> owner_at (affinity_prune now c) t key = owner_at c t key"
  by (auto simp: owner_at_def affinity_prune_def split: option.splits)

lemma prune_fields [simp]:
  "ac_max_entries (affinity_prune t c) = ac_max_entries c" "ac_ttl_ms (affinity_prune t c) = ac_ttl_ms c"
  by (simp_all add: affinity_prune_def)

lemma affinity_get_owner [simp]: "snd (affinity_get key now c) = owner_at c now key"
  by (auto simp: affinity_get_def affinity_prune_def owner_at_def Let_def split: option.splits)

lemma affinity_get_state [simp]: "fst (affinity_get key now c) = affinity_prune now c"
  by (simp add: affinity_get_def Let_def)

lemma affinity_get_pair: "affinity_get key now c = (affinity_prune now c, owner_at c now key)"
  by (rule prod_eqI) simp_all

lemma affinity_contains_owner: "snd (affinity_contains key now c) \<longleftrightarrow> owner_at c now key \<noteq> None"
  by (auto simp: affinity_contains_def affinity_prune_def owner_at_def Let_def split: option.splits)

lemma evict_fields [simp]:
  "ac_max_entries (affinity_evict_oldest c) = ac_max_entries c"
  "ac_ttl_ms (affinity_evict_oldest c) = ac_ttl_ms c"
  "ac_max_entries (affinity_make_room k c) = ac_max_entries c"
  "ac_ttl_ms (affinity_make_room k c) = ac_ttl_ms c"
  by (auto simp: affinity_evict_oldest_def affinity_make_room_def split: option.splits)

interpretation touched: keyed_comparison compare_touched "\<lambda>e. (b_last_touched_at (snd e), fst e)"
  by unfold_locales (simp_all add: compare_touched_def then_with_cmp)

lemma evict_oldest_cases:
  assumes "ac_bindings c \<noteq> bt_empty"
  obtains k b where "bt_get (ac_bindings c) k = Some b"
    and "affinity_evict_oldest c = c\<lparr>ac_bindings := bt_remove k (ac_bindings c)\<rparr>"
    and "\<forall>k' b'. bt_get (ac_bindings c) k' = Some b' \<longrightarrow>
           (b_last_touched_at b, k) \<le> (b_last_touched_at b', k')"
proof -
  have "bt_entries (ac_bindings c) \<noteq> []"
    using assms by (metis bt_len_0(2) bt_len_def list.size(3))
  then obtain k b where kb: "min_by compare_touched (bt_entries (ac_bindings c)) = Some (k, b)"
    by (cases "min_by compare_touched (bt_entries (ac_bindings c))") auto
  show thesis
  proof (rule that [of k b])
    show "bt_get (ac_bindings c) k = Some b"
      using min_by_mem [OF kb] by (simp add: bt_entries_iff)
    show "affinity_evict_oldest c = c\<lparr>ac_bindings := bt_remove k (ac_bindings c)\<rparr>"
      using kb by (simp add: affinity_evict_oldest_def)
    show "\<forall>k' b'. bt_get (ac_bindings c) k' = Some b' \<longrightarrow>
           (b_last_touched_at b, k) \<le> (b_last_touched_at b', k')"
      using touched.min_by_key [OF kb] by (fastforce simp: bt_entries_iff [symmetric])
  qed
qed

subsection \<open>Capacity\<close>

definition affinity_bounded :: "AffinityCache \<Rightarrow> bool" where
  "affinity_bounded c \<longleftrightarrow> affinity_len c \<le> ac_max_entries c"

lemma bounded_new: "affinity_bounded (affinity_new n ttl)"
  by (simp add: affinity_bounded_def affinity_len_def affinity_new_def)

lemma new_limits [simp]: "ac_max_entries (affinity_new n ttl) = n" "ac_ttl_ms (affinity_new n ttl) = ttl"
  by (simp_all add: affinity_new_def)

lemma len_prune: "affinity_len (affinity_prune t c) \<le> affinity_len c"
  by (simp add: affinity_len_def affinity_prune_def bt_len_retain)

lemma bounded_prune: "affinity_bounded c \<Longrightarrow> affinity_bounded (affinity_prune t c)"
  using len_prune [of t c] by (simp add: affinity_bounded_def)

lemma room_after_make_room:
  assumes "affinity_bounded c" and "0 < ac_max_entries c"
  shows "bt_len (bt_insert key b (ac_bindings (affinity_make_room key c))) \<le> ac_max_entries c"
proof (cases "\<not> bt_contains (ac_bindings c) key \<and> bt_len (ac_bindings c) \<ge> ac_max_entries c")
  case True
  then have "ac_bindings c \<noteq> bt_empty" using assms(2) by auto
  then obtain k' b' where "bt_get (ac_bindings c) k' = Some b'"
    and "affinity_evict_oldest c = c\<lparr>ac_bindings := bt_remove k' (ac_bindings c)\<rparr>"
    by (rule evict_oldest_cases)
  then show ?thesis
    using True assms bt.evict_ins_within [of "ac_bindings c" "ac_max_entries c" k' key b]
    by (simp add: affinity_make_room_def affinity_bounded_def affinity_len_def)
next
  case False
  then show ?thesis using assms bt.ins_within [of "ac_bindings c" "ac_max_entries c" key b]
    by (auto simp: affinity_make_room_def affinity_bounded_def affinity_len_def)
qed

lemma bounded_bind_for: "affinity_bounded c \<Longrightarrow> affinity_bounded (affinity_bind_for k i t ttl c)"
  using room_after_make_room [OF bounded_prune]
  by (auto simp: affinity_bind_for_def affinity_bounded_def affinity_len_def Let_def)

lemma bounded_restore: "affinity_bounded c \<Longrightarrow> affinity_bounded (affinity_restore k i e t c)"
  using room_after_make_room [OF bounded_prune]
  by (auto simp: affinity_restore_def affinity_bounded_def affinity_len_def Let_def)

lemma bounded_refresh: "affinity_bounded c \<Longrightarrow> affinity_bounded (fst (affinity_refresh k t c))"
  using bounded_prune [of c t]
  by (auto simp: affinity_refresh_def affinity_bounded_def affinity_len_def bt_len_insert Let_def
      split: option.splits)

lemma bounded_sticky:
  "affinity_bounded c \<Longrightarrow> affinity_bounded (fst (affinity_bind_if_unbound_or_same k i t c))"
  using bounded_prune [of c t]
  by (auto simp: affinity_bind_if_unbound_or_same_def affinity_get_pair affinity_bind_def
      bounded_refresh bounded_bind_for split: option.splits)

lemma bounded_invalidate: "affinity_bounded c \<Longrightarrow> affinity_bounded (fst (affinity_invalidate k c))"
  by (auto simp: affinity_invalidate_def affinity_bounded_def affinity_len_def bt_len_remove)

lemma bounded_invalidate_candidate:
  "affinity_bounded c \<Longrightarrow> affinity_bounded (fst (affinity_invalidate_candidate i c))"
  using bt_len_retain order_trans
  by (fastforce simp: affinity_invalidate_candidate_def affinity_bounded_def affinity_len_def Let_def)

lemmas affinity_bounded_intros =
  bounded_prune bounded_bind_for bounded_restore bounded_refresh bounded_sticky
  bounded_invalidate bounded_invalidate_candidate

subsection \<open>Effect of the writes on ownership\<close>

lemma owner_bind_for:
  assumes "0 < ac_max_entries c" and "0 < ttl"
  shows "owner_at (affinity_bind_for key i now ttl c) t key =
    (if t < sat_add now ttl then Some i else None)"
  using assms by (auto simp: affinity_bind_for_def owner_at_def Let_def)

lemma owner_restore:
  assumes "0 < ac_max_entries c" and "now < expires"
  shows "owner_at (affinity_restore key i expires now c) t key = (if t < expires then Some i else None)"
  using assms by (auto simp: affinity_restore_def owner_at_def Let_def)

lemma owner_make_room_other:
  assumes "bt_contains (ac_bindings c) key \<or> affinity_len c < ac_max_entries c"
  shows "owner_at (affinity_make_room key c) t k = owner_at c t k"
  using assms by (auto simp: affinity_make_room_def affinity_len_def)

lemma owner_bind_for_other:
  assumes "k \<noteq> key" and "now \<le> t"
    and "bt_contains (ac_bindings (affinity_prune now c)) key
         \<or> affinity_len (affinity_prune now c) < ac_max_entries c"
  shows "owner_at (affinity_bind_for key i now ttl c) t k = owner_at c t k"
proof -
  have "owner_at (affinity_bind_for key i now ttl c) t k =
      (if ac_max_entries c = 0 \<or> ttl = 0 then owner_at c t k
       else owner_at (affinity_make_room key (affinity_prune now c)) t k)"
    using assms(1) by (auto simp: affinity_bind_for_def owner_at_def Let_def)
  then show ?thesis using assms(2,3) by (simp add: owner_make_room_other owner_at_prune)
qed

lemma owner_refresh:
  assumes "owner_at c now key = Some i" and "bt_get (ac_bindings c) key = Some b"
  shows "snd (affinity_refresh key now c)"
    and "owner_at (fst (affinity_refresh key now c)) t key =
      (if t < sat_add now (b_ttl_ms b) then Some i else None)"
  using assms by (auto simp: affinity_refresh_def affinity_prune_def owner_at_def Let_def split: if_splits)

lemma owner_invalidate_candidate:
  "owner_at (fst (affinity_invalidate_candidate i c)) t k =
    (if owner_at c t k = Some i then None else owner_at c t k)"
  by (auto simp: affinity_invalidate_candidate_def owner_at_def Let_def split: option.splits)

text \<open>The candidates a cache refers to; used to show that no binding outlives its candidate.\<close>

definition bound_ids :: "AffinityCache \<Rightarrow> string set" where
  "bound_ids c = {b_candidate_id b | k b. bt_get (ac_bindings c) k = Some b}"

lemma bound_ids_new [simp]: "bound_ids (affinity_new n ttl) = {}"
  by (simp add: bound_ids_def affinity_new_def)

lemma bound_ids_prune: "bound_ids (affinity_prune t c) \<subseteq> bound_ids c"
  by (fastforce simp: bound_ids_def affinity_prune_def split: option.splits if_splits)

lemma bound_ids_make_room: "bound_ids (affinity_make_room k c) \<subseteq> bound_ids c"
  by (fastforce simp: bound_ids_def affinity_make_room_def affinity_evict_oldest_def
      split: option.splits if_splits)

lemma bound_ids_insert:
  fixes c :: AffinityCache
  shows "bound_ids (c\<lparr>ac_bindings := bt_insert k b (ac_bindings c)\<rparr>) \<subseteq> insert (b_candidate_id b) (bound_ids c)"
  by (auto simp: bound_ids_def split: if_splits)

lemma bound_ids_put:
  assumes "b_candidate_id b = i"
  shows "bound_ids ((affinity_make_room k (affinity_prune t c))\<lparr>ac_bindings :=
    bt_insert k b (ac_bindings (affinity_make_room k (affinity_prune t c)))\<rparr>) \<subseteq> insert i (bound_ids c)"
  using bound_ids_insert [where c = "affinity_make_room k (affinity_prune t c)" and b = b and k = k] assms
    bound_ids_make_room [of k "affinity_prune t c"] bound_ids_prune [of t c]
  by blast

lemma bound_ids_bind_for: "bound_ids (affinity_bind_for k i t ttl c) \<subseteq> insert i (bound_ids c)"
  unfolding affinity_bind_for_def Let_def by (simp add: subset_insertI bound_ids_put)

lemma bound_ids_restore: "bound_ids (affinity_restore k i e t c) \<subseteq> insert i (bound_ids c)"
  unfolding affinity_restore_def Let_def by (simp add: subset_insertI bound_ids_put)

lemma bound_ids_refresh: "bound_ids (fst (affinity_refresh k t c)) \<subseteq> bound_ids c"
  by (fastforce simp: affinity_refresh_def affinity_prune_def bound_ids_def Let_def
      split: option.splits if_splits)

lemma bound_ids_sticky:
  "bound_ids (fst (affinity_bind_if_unbound_or_same k i t c)) \<subseteq> insert i (bound_ids c)"
  using bound_ids_prune [of t c] bound_ids_refresh [of k t "affinity_prune t c"]
    bound_ids_bind_for [of k i t "ac_ttl_ms c" "affinity_prune t c"]
  by (auto simp: affinity_bind_if_unbound_or_same_def affinity_get_pair affinity_bind_def split: option.splits)

lemma bound_ids_invalidate: "bound_ids (fst (affinity_invalidate k c)) \<subseteq> bound_ids c"
  by (auto simp: bound_ids_def affinity_invalidate_def split: if_splits)

lemma bound_ids_invalidate_candidate:
  "bound_ids (fst (affinity_invalidate_candidate i c)) = bound_ids c - {i}"
  by (auto simp: bound_ids_def affinity_invalidate_candidate_def Let_def split: option.splits if_splits)

lemmas bound_ids_subsets =
  bound_ids_prune bound_ids_bind_for bound_ids_restore bound_ids_refresh bound_ids_sticky
  bound_ids_invalidate

text \<open>
  What every operation promises to the owner of a cache: the capacity holds, the limits stay,
  and new references are only to the candidates the operation was given.
\<close>

definition cache_step :: "string set \<Rightarrow> AffinityCache \<Rightarrow> AffinityCache \<Rightarrow> bool" where
  "cache_step ids c c' \<longleftrightarrow>
     (affinity_bounded c \<longrightarrow> affinity_bounded c') \<and> ac_max_entries c' = ac_max_entries c
     \<and> ac_ttl_ms c' = ac_ttl_ms c \<and> bound_ids c' \<subseteq> bound_ids c \<union> ids"

lemma limits_simps [simp]:
  "ac_max_entries (affinity_bind_for k i t ttl c) = ac_max_entries c"
  "ac_ttl_ms (affinity_bind_for k i t ttl c) = ac_ttl_ms c"
  "ac_max_entries (affinity_restore k i e t c) = ac_max_entries c"
  "ac_ttl_ms (affinity_restore k i e t c) = ac_ttl_ms c"
  "ac_max_entries (fst (affinity_refresh k t c)) = ac_max_entries c"
  "ac_ttl_ms (fst (affinity_refresh k t c)) = ac_ttl_ms c"
  "ac_max_entries (fst (affinity_invalidate_candidate i c)) = ac_max_entries c"
  "ac_ttl_ms (fst (affinity_invalidate_candidate i c)) = ac_ttl_ms c"
  by (auto simp: affinity_bind_for_def affinity_restore_def affinity_refresh_def
      affinity_invalidate_candidate_def Let_def split: option.splits)

lemma cache_step_refl: "cache_step ids c c"
  by (simp add: cache_step_def)

lemma cache_step_prune: "cache_step ids c (affinity_prune t c)"
  using bounded_prune bound_ids_prune by (fastforce simp: cache_step_def)

lemma cache_step_refresh: "cache_step ids c (fst (affinity_refresh k t c))"
  using bounded_refresh bound_ids_refresh by (fastforce simp: cache_step_def)

lemma affinity_prune_idem [simp]: "affinity_prune t (affinity_prune t c) = affinity_prune t c"
  by (simp add: affinity_prune_def) (intro arg_cong [where f = "\<lambda>b. c\<lparr>ac_bindings := b\<rparr>"] bt_map_eqI,
      auto split: option.split)

lemma affinity_refresh_prune [simp]: "affinity_refresh k t (affinity_prune t c) = affinity_refresh k t c"
  by (simp add: affinity_refresh_def)

lemma cache_step_bind: "i \<in> ids \<Longrightarrow> cache_step ids c (affinity_bind k i t c)"
  using bounded_bind_for bound_ids_bind_for by (fastforce simp: cache_step_def affinity_bind_def)

lemma cache_step_sticky: "i \<in> ids \<Longrightarrow> cache_step ids c (fst (affinity_bind_if_unbound_or_same k i t c))"
  using bounded_sticky [of c k i t] bound_ids_sticky [of k i t c]
  by (auto simp: cache_step_def affinity_bind_if_unbound_or_same_def affinity_get_pair affinity_bind_def
      split: option.splits)

lemma cache_step_restore: "i \<in> ids \<Longrightarrow> cache_step ids c (affinity_restore k i e t c)"
  using bounded_restore bound_ids_restore by (fastforce simp: cache_step_def)

lemma cache_step_contains: "cache_step ids c (fst (affinity_contains k t c))"
  using cache_step_prune by (simp add: affinity_contains_def Let_def)

lemma cache_step_invalidate: "cache_step ids c (fst (affinity_invalidate k c))"
  using bounded_invalidate [of c k] bound_ids_invalidate [of k c]
  by (auto simp: cache_step_def affinity_invalidate_def)

lemma cache_step_invalidate_candidate: "cache_step ids c (fst (affinity_invalidate_candidate i c))"
  using bounded_invalidate_candidate by (auto simp: cache_step_def bound_ids_invalidate_candidate)

lemmas cache_step_intros =
  cache_step_refl cache_step_prune cache_step_refresh cache_step_bind cache_step_sticky
  cache_step_restore cache_step_contains cache_step_invalidate cache_step_invalidate_candidate

end
