(* ===== verification/Activity.thy ===== *)
theory Activity
  imports Ordered_Maps Rust_Strings
begin

section \<open>In-flight accounting (\<open>scheduler/activity.rs\<close>)\<close>

text \<open>
  Per candidate and lane the scheduler counts requests in flight, the models they use, and the
  dispatches that drive fair rotation. The central fact is an accounting invariant: the counter
  of a lane is the sum of its per-model counters, so a candidate has no active model exactly
  when it has nothing in flight.
\<close>

datatype InFlightLane = Text | Image

instantiation InFlightLane :: linorder
begin

definition less_eq_InFlightLane :: "InFlightLane \<Rightarrow> InFlightLane \<Rightarrow> bool" where
  "less_eq_InFlightLane a b \<longleftrightarrow> a = Text \<or> b = Image"

definition less_InFlightLane :: "InFlightLane \<Rightarrow> InFlightLane \<Rightarrow> bool" where
  "less_InFlightLane a b \<longleftrightarrow> a = Text \<and> b = Image"

instance
  by standard
    (auto simp: less_eq_InFlightLane_def less_InFlightLane_def; metis InFlightLane.exhaust)+

end

record SchedulerActivity =
  sa_text_in_flight :: "(string, u32) btree_map"
  sa_image_in_flight :: "(string, u32) btree_map"
  sa_active_models :: "(string \<times> InFlightLane, (string, u32) btree_map) btree_map"
  sa_text_dispatches :: "(string, u64) btree_map"
  sa_image_dispatches :: "(string, u64) btree_map"

subsection \<open>Operations\<close>

definition activity_default :: SchedulerActivity where
  "activity_default = \<lparr>sa_text_in_flight = bt_empty, sa_image_in_flight = bt_empty,
     sa_active_models = bt_empty, sa_text_dispatches = bt_empty, sa_image_dispatches = bt_empty\<rparr>"

fun in_flight_map :: "InFlightLane \<Rightarrow> SchedulerActivity \<Rightarrow> (string, u32) btree_map" where
  "in_flight_map Text a = sa_text_in_flight a"
| "in_flight_map Image a = sa_image_in_flight a"

fun in_flight_map_mut :: "InFlightLane \<Rightarrow> ((string, u32) btree_map \<Rightarrow> (string, u32) btree_map)
    \<Rightarrow> SchedulerActivity \<Rightarrow> SchedulerActivity" where
  "in_flight_map_mut Text f a = a\<lparr>sa_text_in_flight := f (sa_text_in_flight a)\<rparr>"
| "in_flight_map_mut Image f a = a\<lparr>sa_image_in_flight := f (sa_image_in_flight a)\<rparr>"

fun dispatch_map :: "InFlightLane \<Rightarrow> SchedulerActivity \<Rightarrow> (string, u64) btree_map" where
  "dispatch_map Text a = sa_text_dispatches a"
| "dispatch_map Image a = sa_image_dispatches a"

fun dispatch_map_mut :: "InFlightLane \<Rightarrow> ((string, u64) btree_map \<Rightarrow> (string, u64) btree_map)
    \<Rightarrow> SchedulerActivity \<Rightarrow> SchedulerActivity" where
  "dispatch_map_mut Text f a = a\<lparr>sa_text_dispatches := f (sa_text_dispatches a)\<rparr>"
| "dispatch_map_mut Image f a = a\<lparr>sa_image_dispatches := f (sa_image_dispatches a)\<rparr>"

definition clear_dispatches :: "SchedulerActivity \<Rightarrow> SchedulerActivity" where
  "clear_dispatches a = a\<lparr>sa_text_dispatches := bt_empty, sa_image_dispatches := bt_empty\<rparr>"

definition activity_remove_candidate :: "string \<Rightarrow> SchedulerActivity \<Rightarrow> SchedulerActivity" where
  "activity_remove_candidate candidate_id a =
     a\<lparr>sa_text_in_flight := bt_remove candidate_id (sa_text_in_flight a),
       sa_image_in_flight := bt_remove candidate_id (sa_image_in_flight a),
       sa_active_models := bt_retain (\<lambda>k _. fst k \<noteq> candidate_id) (sa_active_models a),
       sa_text_dispatches := bt_remove candidate_id (sa_text_dispatches a),
       sa_image_dispatches := bt_remove candidate_id (sa_image_dispatches a)\<rparr>"

definition activity_reserve ::
  "string \<Rightarrow> string \<Rightarrow> InFlightLane \<Rightarrow> SchedulerActivity \<Rightarrow> SchedulerActivity" where
  "activity_reserve candidate_id model lane a =
     (let a = in_flight_map_mut lane (bt_upsert candidate_id 0 (\<lambda>n. sat_add n 1)) a;
          a = dispatch_map_mut lane (bt_upsert candidate_id 0 (\<lambda>n. sat_add n 1)) a
      in a\<lparr>sa_active_models :=
            bt_upsert (candidate_id, lane) bt_empty
              (bt_upsert (to_ascii_lowercase model) 0 (\<lambda>n. sat_add n 1)) (sa_active_models a)\<rparr>)"

definition release_active_model ::
  "string \<Rightarrow> string option \<Rightarrow> InFlightLane \<Rightarrow> SchedulerActivity \<Rightarrow> SchedulerActivity" where
  "release_active_model candidate_id model lane a =
     (let lane_key = (candidate_id, lane);
          model_key = (case model of
              Some m \<Rightarrow> Some (to_ascii_lowercase m)
            | None \<Rightarrow> (case bt_get (sa_active_models a) lane_key of
                None \<Rightarrow> None
              | Some models \<Rightarrow> (case bt_keys models of [] \<Rightarrow> None | k # _ \<Rightarrow> Some k)))
      in case model_key of None \<Rightarrow> a
       | Some k \<Rightarrow>
          (case bt_get (sa_active_models a) lane_key of None \<Rightarrow> a
           | Some models \<Rightarrow>
              (case bt_get models k of None \<Rightarrow> a
               | Some count \<Rightarrow>
                  let models = (if count \<le> 1 then bt_remove k models
                                else bt_insert k (count - 1) models)
                  in if models = bt_empty
                     then a\<lparr>sa_active_models := bt_remove lane_key (sa_active_models a)\<rparr>
                     else a\<lparr>sa_active_models := bt_insert lane_key models (sa_active_models a)\<rparr>)))"

definition activity_release ::
  "string \<Rightarrow> string option \<Rightarrow> InFlightLane \<Rightarrow> SchedulerActivity \<Rightarrow> SchedulerActivity \<times> bool" where
  "activity_release candidate_id model lane a =
     (case bt_get (in_flight_map lane a) candidate_id of
        None \<Rightarrow> (a, False)
      | Some n \<Rightarrow>
          let a = in_flight_map_mut lane
                (if n \<le> 1 then bt_remove candidate_id else bt_insert candidate_id (n - 1)) a
          in (release_active_model candidate_id model lane a, True))"

definition activity_in_flight_count :: "SchedulerActivity \<Rightarrow> string \<Rightarrow> InFlightLane \<Rightarrow> u32" where
  "activity_in_flight_count a candidate_id lane =
     (case bt_get (in_flight_map lane a) candidate_id of None \<Rightarrow> 0 | Some n \<Rightarrow> n)"

definition activity_active_request_count :: "SchedulerActivity \<Rightarrow> string \<Rightarrow> u32" where
  "activity_active_request_count a candidate_id =
     foldl sat_add 0
       (concat (map (\<lambda>e. bt_values (snd e))
         (filter (\<lambda>e. fst (fst e) = candidate_id) (bt_entries (sa_active_models a)))))"

definition activity_active_models_for :: "SchedulerActivity \<Rightarrow> string \<Rightarrow> (string \<times> u32) list" where
  "activity_active_models_for a candidate_id =
     filter (\<lambda>(model, count). model \<noteq> [] \<and> 0 < count)
       (bt_entries
         (foldl (\<lambda>acc e. if fst (fst e) \<noteq> candidate_id then acc
             else foldl (\<lambda>acc (model, n). bt_upsert model 0 (\<lambda>count. sat_add count n) acc)
               acc (bt_entries (snd e)))
           bt_empty (bt_entries (sa_active_models a))))"

definition activity_dispatch_count :: "SchedulerActivity \<Rightarrow> string \<Rightarrow> InFlightLane \<Rightarrow> u64" where
  "activity_dispatch_count a candidate_id lane =
     (case bt_get (dispatch_map lane a) candidate_id of None \<Rightarrow> 0 | Some n \<Rightarrow> n)"

subsection \<open>Lane projections\<close>

lemma in_flight_map_mut_simps [simp]:
  "in_flight_map l' (in_flight_map_mut l f a) = (if l' = l then f (in_flight_map l a) else in_flight_map l' a)"
  "dispatch_map l' (in_flight_map_mut l f a) = dispatch_map l' a"
  "sa_active_models (in_flight_map_mut l f a) = sa_active_models a"
  by (cases l; cases l'; simp)+

lemma dispatch_map_mut_simps [simp]:
  "dispatch_map l' (dispatch_map_mut l g a) = (if l' = l then g (dispatch_map l a) else dispatch_map l' a)"
  "in_flight_map l' (dispatch_map_mut l g a) = in_flight_map l' a"
  "sa_active_models (dispatch_map_mut l g a) = sa_active_models a"
  by (cases l; cases l'; simp)+

lemma lane_map_active_update [simp]:
  "in_flight_map l (a\<lparr>sa_active_models := m\<rparr>) = in_flight_map l a"
  "dispatch_map l (a\<lparr>sa_active_models := m\<rparr>) = dispatch_map l a"
  by (cases l; simp)+

lemma release_active_model_frame [simp]:
  "in_flight_map l (release_active_model c m l' a) = in_flight_map l a"
  "dispatch_map l (release_active_model c m l' a) = dispatch_map l a"
  by (auto simp: release_active_model_def Let_def split: option.splits list.splits)

lemma clear_dispatches_frame [simp]:
  "in_flight_map l (clear_dispatches a) = in_flight_map l a"
  "sa_active_models (clear_dispatches a) = sa_active_models a"
  "activity_dispatch_count (clear_dispatches a) c l = 0"
  by (cases l; simp add: clear_dispatches_def activity_dispatch_count_def)+

lemma in_flight_reserve:
  "activity_in_flight_count (activity_reserve c m l a) c' l' =
    (if c' = c \<and> l' = l then sat_add (activity_in_flight_count a c l) 1
     else activity_in_flight_count a c' l')"
  by (auto simp: activity_reserve_def activity_in_flight_count_def Let_def split: option.splits)

lemma in_flight_release:
  assumes "snd (activity_release c m l a)"
  shows "activity_in_flight_count (fst (activity_release c m l a)) c' l' =
    (if c' = c \<and> l' = l then sat_sub (activity_in_flight_count a c l) 1
     else activity_in_flight_count a c' l')"
  using assms
  by (auto simp: activity_release_def activity_in_flight_count_def sat_sub_le Let_def
      split: option.splits if_splits)

lemma in_flight_map_reserve [simp]:
  "in_flight_map l' (activity_reserve c m l a) =
    (if l' = l then bt_upsert c 0 (\<lambda>n. sat_add n 1) (in_flight_map l a) else in_flight_map l' a)"
  by (simp add: activity_reserve_def Let_def)

subsection \<open>The accounting invariant\<close>

definition lane_models :: "SchedulerActivity \<Rightarrow> string \<Rightarrow> InFlightLane \<Rightarrow> (string, u32) btree_map" where
  "lane_models a c l = (case bt_get (sa_active_models a) (c, l) of None \<Rightarrow> bt_empty | Some m \<Rightarrow> m)"

lemma lane_models_mut [simp]: "lane_models (in_flight_map_mut l f a) = lane_models a"
  by (simp add: lane_models_def fun_eq_iff)

definition lane_total :: "SchedulerActivity \<Rightarrow> string \<Rightarrow> InFlightLane \<Rightarrow> nat" where
  "lane_total a c l = bt_sum (\<lambda>_ n. unat n) (lane_models a c l)"

text \<open>Every stored counter is positive and every lane's counters add up to its requests in flight.\<close>

definition activity_balanced :: "SchedulerActivity \<Rightarrow> bool" where
  "activity_balanced a \<longleftrightarrow>
     (\<forall>c l. unat (activity_in_flight_count a c l) = lane_total a c l)
     \<and> (\<forall>l c. bt_get (in_flight_map l a) c \<noteq> Some 0)
     \<and> (\<forall>c l m. bt_get (lane_models a c l) m \<noteq> Some 0)"

lemma lane_models_reserve:
  "lane_models (activity_reserve c m l a) c' l' =
    (if c' = c \<and> l' = l
     then bt_upsert (to_ascii_lowercase m) 0 (\<lambda>n. sat_add n 1) (lane_models a c l)
     else lane_models a c' l')"
  by (auto simp: lane_models_def activity_reserve_def Let_def split: option.splits)

lemma unat_sat_add_1: "unat a < 2 ^ LENGTH('a) - 1 \<Longrightarrow> unat (sat_add a 1) = Suc (unat (a :: 'a::len word))"
  by (simp add: rust_arith)

lemma bt_sum_upsert_1:
  fixes m :: "(string, u32) btree_map"
  assumes "bt_sum (\<lambda>_ n. unat n) m < 2 ^ 32 - 1"
  shows "bt_sum (\<lambda>_ n. unat n) (bt_upsert k 0 (\<lambda>n. sat_add n 1) m) = Suc (bt_sum (\<lambda>_ n. unat n) m)"
proof -
  let ?v = "case bt_get m k of None \<Rightarrow> 0 | Some v \<Rightarrow> v"
  have "unat ?v \<le> bt_sum (\<lambda>_ n. unat n) m"
    using bt_sum_pos [of m k _ "\<lambda>_ n. unat n"] by (auto split: option.splits)
  with assms have "unat (sat_add ?v 1) = Suc (unat ?v)" by (intro unat_sat_add_1) simp
  then show ?thesis using bt_sum_remove [of "\<lambda>_ n. unat n" m k]
    by (auto simp: bt_upsert_def bt_sum_insert split: option.splits)
qed

lemma balanced_reserve:
  assumes "activity_balanced a" and "unat (activity_in_flight_count a c l) < 2 ^ 32 - 1"
  shows "activity_balanced (activity_reserve c m l a)"
proof -
  have tot: "lane_total a c l < 2 ^ 32 - 1" using assms by (simp add: activity_balanced_def)
  have "unat (activity_in_flight_count (activity_reserve c m l a) c' l') =
      lane_total (activity_reserve c m l a) c' l'" for c' l'
    using assms tot bt_sum_upsert_1 [of "lane_models a c l"]
    by (auto simp: activity_balanced_def in_flight_reserve lane_total_def lane_models_reserve unat_sat_add_1)
  then show ?thesis using assms(1) by (auto simp: activity_balanced_def lane_models_reserve)
qed

text \<open>
  The key a release takes out of a lane: the named model, or the first active one when the
  caller does not name it.
\<close>

definition release_key :: "SchedulerActivity \<Rightarrow> string \<Rightarrow> string option \<Rightarrow> InFlightLane \<Rightarrow> string \<Rightarrow> bool" where
  "release_key a c model l k \<longleftrightarrow> (case model of
      Some m \<Rightarrow> to_ascii_lowercase m = k
    | None \<Rightarrow> (\<exists>ks. bt_keys (lane_models a c l) = k # ks))"

lemma lane_models_release:
  assumes k: "release_key a c model l k" and n: "bt_get (lane_models a c l) k = Some n"
  shows "lane_models (release_active_model c model l a) c' l' =
    (if c' = c \<and> l' = l
     then (if n \<le> 1 then bt_remove k else bt_insert k (n - 1)) (lane_models a c l)
     else lane_models a c' l')"
proof -
  obtain models where models: "bt_get (sa_active_models a) (c, l) = Some models"
    using n by (auto simp: lane_models_def split: option.splits)
  then show ?thesis using k n
    by (auto simp: release_key_def release_active_model_def lane_models_def Let_def
        split: option.splits list.splits)
qed

lemma lane_models_activity_release:
  assumes rel: "snd (activity_release c model l a)" and k: "release_key a c model l k"
    and v: "bt_get (lane_models a c l) k = Some v"
  shows "lane_models (fst (activity_release c model l a)) c' l' =
    (if c' = c \<and> l' = l then (if v \<le> 1 then bt_remove k else bt_insert k (v - 1)) (lane_models a c l)
     else lane_models a c' l')"
proof -
  obtain n where n: "bt_get (in_flight_map l a) c = Some n"
    using rel by (auto simp: activity_release_def split: option.splits)
  let ?b = "in_flight_map_mut l (if n \<le> 1 then bt_remove c else bt_insert c (n - 1)) a"
  have key: "release_key ?b c model l k" using k by (simp add: release_key_def split: option.splits)
  have "fst (activity_release c model l a) = release_active_model c model l ?b"
    using n by (simp add: activity_release_def Let_def)
  then show ?thesis using lane_models_release [OF key] v by simp
qed

lemma bt_sum_release:
  fixes m :: "(string, u32) btree_map"
  assumes n: "bt_get m k = Some n" and "n \<noteq> 0"
  shows "Suc (bt_sum (\<lambda>_ n. unat n) ((if n \<le> 1 then bt_remove k else bt_insert k (n - 1)) m)) =
    bt_sum (\<lambda>_ n. unat n) m"
proof -
  have pos: "0 < unat n" using assms(2) by (simp add: unat_gt_0)
  have "unat n = 1" if "n \<le> 1" using that pos by (simp add: word_le_nat_alt)
  moreover have "unat (n - 1) = unat n - 1" using assms(2) by (simp add: unat_minus_one)
  ultimately show ?thesis using pos n bt_sum_remove [of "\<lambda>_ n. unat n" m k]
    by (auto simp: bt_sum_insert)
qed

lemma balanced_release:
  assumes bal: "activity_balanced a" and rel: "snd (activity_release c model l a)"
    and known: "\<forall>m. model = Some m \<longrightarrow> bt_get (lane_models a c l) (to_ascii_lowercase m) \<noteq> None"
  shows "activity_balanced (fst (activity_release c model l a))"
proof -
  obtain n where n: "bt_get (in_flight_map l a) c = Some n"
    using rel by (auto simp: activity_release_def split: option.splits)
  let ?b = "in_flight_map_mut l (if n \<le> 1 then bt_remove c else bt_insert c (n - 1)) a"
  have rel_eq: "fst (activity_release c model l a) = release_active_model c model l ?b"
    using n by (simp add: activity_release_def Let_def)
  have n0: "n \<noteq> 0" using bal n by (auto simp: activity_balanced_def)
  then have "0 < lane_total a c l"
    using bal n by (metis activity_balanced_def activity_in_flight_count_def option.simps(5) unat_gt_0)
  then have "lane_models a c l \<noteq> bt_empty" by (auto simp: lane_total_def)
  then obtain k v where k: "release_key a c model l k" and v: "bt_get (lane_models a c l) k = Some v"
    using known by (cases model; cases "bt_keys (lane_models a c l)")
      (auto simp: release_key_def dest: bt_keys_hd)
  have v0: "v \<noteq> 0" using bal v by (auto simp: activity_balanced_def)
  have lm: "lane_models (fst (activity_release c model l a)) c' l' =
    (if c' = c \<and> l' = l then (if v \<le> 1 then bt_remove k else bt_insert k (v - 1)) (lane_models a c l)
     else lane_models a c' l')" for c' l'
    by (rule lane_models_activity_release [OF rel k v])
  have cnt: "unat (activity_in_flight_count (fst (activity_release c model l a)) c' l') =
      lane_total (fst (activity_release c model l a)) c' l'" for c' l'
    using bal bt_sum_release [OF v v0] n n0
    by (auto simp: in_flight_release [OF rel] rust_arith activity_balanced_def lane_total_def lm)
  have pos: "bt_get (in_flight_map l' (fst (activity_release c model l a))) c' \<noteq> Some 0" for l' c'
    using bal n by (auto simp: rel_eq activity_balanced_def)
  have posm: "bt_get (lane_models (fst (activity_release c model l a)) c' l') m \<noteq> Some 0" for c' l' m
    using bal v by (auto simp: lm activity_balanced_def)
  from cnt pos posm show ?thesis by (simp add: activity_balanced_def)
qed

lemma balanced_clear_dispatches [simp]: "activity_balanced (clear_dispatches a) = activity_balanced a"
  by (simp add: activity_balanced_def activity_in_flight_count_def lane_total_def lane_models_def)

lemma in_flight_map_remove [simp]:
  "in_flight_map l (activity_remove_candidate c a) = bt_remove c (in_flight_map l a)"
  by (cases l) (simp_all add: activity_remove_candidate_def)

lemma lane_models_remove:
  "lane_models (activity_remove_candidate c a) c' l = (if c' = c then bt_empty else lane_models a c' l)"
  by (auto simp: lane_models_def activity_remove_candidate_def split: option.splits)

lemma balanced_remove_candidate: "activity_balanced a \<Longrightarrow> activity_balanced (activity_remove_candidate c a)"
  by (auto simp: activity_balanced_def activity_in_flight_count_def lane_total_def lane_models_remove)

lemma activity_default_simps [simp]:
  "in_flight_map l activity_default = bt_empty" "dispatch_map l activity_default = bt_empty"
  "sa_active_models activity_default = bt_empty"
  by (cases l; simp add: activity_default_def)+

lemma balanced_default: "activity_balanced activity_default"
  by (simp add: activity_balanced_def activity_in_flight_count_def lane_total_def lane_models_def)

subsection \<open>Active requests\<close>

lemma sum_list_concat_filter:
  "sum_list (map f (concat (map g (filter P xs)))) = sum_list (map (\<lambda>x. if P x then sum_list (map f (g x)) else 0) xs)"
  by (induction xs) auto

lemma unat_active_request_count:
  "unat (activity_active_request_count a c) = min (lane_total a c Text + lane_total a c Image) (2 ^ 32 - 1)"
proof -
  let ?f = "\<lambda>k ms. if fst k = c then bt_sum (\<lambda>_ n. unat n) ms else 0"
  let ?D = "dom (bt_get (sa_active_models a))"
  let ?g = "\<lambda>k. ?f k (the (bt_get (sa_active_models a) k))"
  have "unat (activity_active_request_count a c) = min (bt_sum ?f (sa_active_models a)) (2 ^ 32 - 1)"
    by (simp add: activity_active_request_count_def unat_foldl_sat_add sum_list_concat_filter bt_sum_def
        bt_values_def comp_def cong: if_cong)
  also have "bt_sum ?f (sa_active_models a) = sum ?g (?D \<inter> {(c, Text), (c, Image)})"
    unfolding bt_sum_dom
    by (rule sum.mono_neutral_right) (auto, metis InFlightLane.exhaust)
  also have "\<dots> = sum (\<lambda>k. lane_total a (fst k) (snd k)) {(c, Text), (c, Image)}"
    by (rule sum.mono_neutral_cong_left)
      (auto simp: lane_total_def lane_models_def split: option.splits)
  also have "\<dots> = lane_total a c Text + lane_total a c Image" by simp
  finally show ?thesis .
qed

lemma active_request_count_idle:
  assumes "activity_balanced a"
  shows "activity_active_request_count a c = 0 \<longleftrightarrow>
    activity_in_flight_count a c Text = 0 \<and> activity_in_flight_count a c Image = 0"
proof -
  have "activity_active_request_count a c = 0 \<longleftrightarrow> unat (activity_active_request_count a c) = 0"
    by (simp add: unat_eq_zero)
  also have "\<dots> \<longleftrightarrow> lane_total a c Text = 0 \<and> lane_total a c Image = 0"
    by (auto simp: unat_active_request_count)
  also have "\<dots> \<longleftrightarrow> activity_in_flight_count a c Text = 0 \<and> activity_in_flight_count a c Image = 0"
    using assms by (metis activity_balanced_def unat_eq_zero)
  finally show ?thesis .
qed

end
