(* ===== verification/Scheduler.thy ===== *)
theory Scheduler
  imports Candidate Affinity Activity
begin

section \<open>The pool scheduler (\<open>scheduler/selection.rs\<close>, \<open>selection/routing_policy.rs\<close>, \<open>selection/snapshot.rs\<close>)\<close>

text \<open>
  The scheduler owns the candidates of the pool and decides which one serves the next request.
  This theory holds its state and every operation, in the order of the source; an operation that
  mutates \<open>self\<close> returns the new state, paired with its result where it has one. The invariants
  and the selection theorems are in the theories that follow.
  \<open>str::to_lowercase\<close> (full Unicode case mapping) and \<open>slice::sort_by\<close> (whose result is
  unspecified for a comparator that is no total order) are parameters.
\<close>

subsection \<open>Constants and data\<close>

definition RESPONSE_AFFINITY_MAX_ENTRIES :: nat where "RESPONSE_AFFINITY_MAX_ENTRIES = 16384"
definition RESPONSE_AFFINITY_TTL_MS :: u64 where "RESPONSE_AFFINITY_TTL_MS = 30 * 24 * 60 * 60 * 1000"
definition PROMPT_AFFINITY_MAX_ENTRIES :: nat where "PROMPT_AFFINITY_MAX_ENTRIES = 16384"
definition PROMPT_AFFINITY_TTL_MS :: u64 where "PROMPT_AFFINITY_TTL_MS = 60 * 60 * 1000"
definition PROMPT_AFFINITY_MAX_IN_FLIGHT_SKEW :: u32 where "PROMPT_AFFINITY_MAX_IN_FLIGHT_SKEW = 1"
definition PROMPT_AFFINITY_QUOTA_SLACK_BPS :: u64 where "PROMPT_AFFINITY_QUOTA_SLACK_BPS = 500"
definition MAX_OAUTH_IMAGE_IN_FLIGHT :: u32 where "MAX_OAUTH_IMAGE_IN_FLIGHT = 1"
definition PROVIDER_STORM_WINDOW_MS :: u64 where "PROVIDER_STORM_WINDOW_MS = 10000"
definition PROVIDER_STORM_OPEN_MS :: u64 where "PROVIDER_STORM_OPEN_MS = 30000"
definition PROVIDER_STORM_THRESHOLD :: nat where "PROVIDER_STORM_THRESHOLD = 3"
definition API_SOURCE_PRIMARY_PRIORITY :: int where "API_SOURCE_PRIMARY_PRIORITY = 1000000"
definition API_SOURCE_RESERVE_PRIORITY :: int where "API_SOURCE_RESERVE_PRIORITY = - 1000000"
definition QUOTA_NOISE_TIE_BPS :: u64 where "QUOTA_NOISE_TIE_BPS = 1"
definition QUOTA_RESET_TIE_BPS :: u64 where "QUOTA_RESET_TIE_BPS = 100"

lemmas scheduler_constants =
  RESPONSE_AFFINITY_MAX_ENTRIES_def RESPONSE_AFFINITY_TTL_MS_def PROMPT_AFFINITY_MAX_ENTRIES_def
  PROMPT_AFFINITY_TTL_MS_def PROMPT_AFFINITY_MAX_IN_FLIGHT_SKEW_def PROMPT_AFFINITY_QUOTA_SLACK_BPS_def
  MAX_OAUTH_IMAGE_IN_FLIGHT_def PROVIDER_STORM_WINDOW_MS_def PROVIDER_STORM_OPEN_MS_def
  PROVIDER_STORM_THRESHOLD_def API_SOURCE_PRIMARY_PRIORITY_def API_SOURCE_RESERVE_PRIORITY_def
  QUOTA_NOISE_TIE_BPS_def QUOTA_RESET_TIE_BPS_def

datatype RoutingStrategy = Adaptive | QuotaHighest | SubscriptionExpiry | SubscriptionPlan

datatype SelectionReason = SrResponseAffinity | SrPromptCacheAffinity | SrOnlyEligible | SrRoutingTier
  | SrSourceRole | SrParallelLoad | SrSourceLoad | SrPoolPolicy | SrQuotaHeadroom
  | SrSubscriptionExpiry | SrSubscriptionPlan | SrManualPriority | SrFairRotation
  | SrFallbackAttempt | SrStableTieBreak

record RoutingDiagnostics =
  dg_reason :: SelectionReason
  dg_eligible_candidates :: u32
  dg_quota_remaining_basis_points :: "u64 option"
  dg_in_flight_before :: u32
  dg_dispatches_before :: u64
  dg_endpoint_kind :: "string option"

record Selection =
  sl_candidate_id :: string
  sl_response_affinity_hit :: bool
  sl_half_open_probe :: bool
  sl_diagnostics :: RoutingDiagnostics

record SelectionRequest =
  rq_model :: string
  rq_allowed_protocols :: "WireApi list"
  rq_scope :: CandidateScope
  rq_tried :: "string fset"
  rq_response_affinity_key :: "string option"
  rq_prompt_affinity_key :: "string option"
  rq_now_ms :: u64

record CooldownRequest =
  cr_scope :: string
  cr_policy_model :: string
  cr_allowed_protocols :: "WireApi list"
  cr_request_scope :: CandidateScope
  cr_retry_at_ms :: u64
  cr_reason :: CooldownReason
  cr_now_ms :: u64

record ModelRetryRuntime =
  mr_model :: string
  mr_retry_at_ms :: u64

record ActiveModelRuntime =
  am_model :: string
  am_request_count :: u32

record CandidateRuntimeSnapshot =
  cs_candidate_id :: string
  cs_kind :: CandidateKind
  cs_available :: bool
  cs_in_flight :: u32
  cs_active_request_count :: u32
  cs_active_models :: "ActiveModelRuntime list"
  cs_model_retries :: "ModelRetryRuntime list"
  cs_last_used_at_ms :: "u64 option"
  cs_next_retry_at_ms :: "u64 option"
  cs_half_open :: bool
  cs_dispatches :: u64

record StormBreaker =
  sb_failures :: "u64 list"
  sb_open_until_ms :: u64

record PoolScheduler =
  ps_candidates :: "(string, RuntimeCandidate) btree_map"
  ps_cooldown_reasons :: "(string \<times> string, CooldownReason) btree_map"
  ps_response_affinity :: AffinityCache
  ps_prompt_affinity :: AffinityCache
  ps_activity :: SchedulerActivity
  ps_half_open :: "(string \<times> string) fset"
  ps_routing_strategy :: RoutingStrategy
  ps_quota_stale_after_ms :: u64
  ps_subscription_expires_at_ms :: "(string, u64) btree_map"
  ps_subscription_plans :: "(string, string) btree_map"
  ps_subscription_plan_ranks :: "(string, nat) btree_map"
  ps_protected_candidate :: "(string \<times> u64) option"
  ps_execution_fences :: "(string, u32) btree_map"
  ps_capability_blocks :: "(string \<times> string) fset"
  ps_provider_storm_breakers :: "(string \<times> string, StormBreaker) btree_map"
  ps_provider_storm_breaker_enabled :: bool
  ps_cooldown_after_failures :: u32
  ps_keep_last_candidate_available :: bool
  ps_retired_candidates :: "string fset"

subsection \<open>Construction and configuration\<close>

definition scheduler_new :: PoolScheduler where
  "scheduler_new =
     \<lparr>ps_candidates = bt_empty, ps_cooldown_reasons = bt_empty,
      ps_response_affinity = affinity_new RESPONSE_AFFINITY_MAX_ENTRIES RESPONSE_AFFINITY_TTL_MS,
      ps_prompt_affinity = affinity_new PROMPT_AFFINITY_MAX_ENTRIES PROMPT_AFFINITY_TTL_MS,
      ps_activity = activity_default, ps_half_open = {||}, ps_routing_strategy = Adaptive,
      ps_quota_stale_after_ms = QUOTA_STALE_AFTER_MS, ps_subscription_expires_at_ms = bt_empty,
      ps_subscription_plans = bt_empty, ps_subscription_plan_ranks = bt_empty,
      ps_protected_candidate = None, ps_execution_fences = bt_empty, ps_capability_blocks = {||},
      ps_provider_storm_breakers = bt_empty, ps_provider_storm_breaker_enabled = False,
      ps_cooldown_after_failures = 1, ps_keep_last_candidate_available = False,
      ps_retired_candidates = {||}\<rparr>"

definition set_cooldown_policy :: "u8 \<Rightarrow> bool \<Rightarrow> PoolScheduler \<Rightarrow> PoolScheduler" where
  "set_cooldown_policy cooldown_after_failures keep_last_candidate_available s =
     s\<lparr>ps_cooldown_after_failures := ucast (max cooldown_after_failures 1),
       ps_keep_last_candidate_available := keep_last_candidate_available\<rparr>"

definition set_provider_storm_breaker_enabled :: "bool \<Rightarrow> PoolScheduler \<Rightarrow> PoolScheduler" where
  "set_provider_storm_breaker_enabled enabled s =
     (let s = s\<lparr>ps_provider_storm_breaker_enabled := enabled\<rparr>
      in if \<not> enabled then s\<lparr>ps_provider_storm_breakers := bt_empty\<rparr> else s)"

definition set_routing_strategy :: "RoutingStrategy \<Rightarrow> PoolScheduler \<Rightarrow> PoolScheduler" where
  "set_routing_strategy strategy s =
     (if ps_routing_strategy s \<noteq> strategy
      then s\<lparr>ps_routing_strategy := strategy, ps_activity := clear_dispatches (ps_activity s)\<rparr>
      else s)"

definition set_quota_stale_after_ms :: "u64 \<Rightarrow> PoolScheduler \<Rightarrow> PoolScheduler" where
  "set_quota_stale_after_ms stale_after_ms s = s\<lparr>ps_quota_stale_after_ms := max stale_after_ms 1\<rparr>"

definition set_candidate_subscription_expiry ::
  "string \<Rightarrow> u64 option \<Rightarrow> PoolScheduler \<Rightarrow> PoolScheduler \<times> bool" where
  "set_candidate_subscription_expiry candidate_id expires_at_ms s =
     (if \<not> bt_contains (ps_candidates s) candidate_id then (s, False)
      else (case expires_at_ms of
          Some expires_at_ms \<Rightarrow> s\<lparr>ps_subscription_expires_at_ms :=
              bt_insert candidate_id expires_at_ms (ps_subscription_expires_at_ms s)\<rparr>
        | None \<Rightarrow> s\<lparr>ps_subscription_expires_at_ms :=
              bt_remove candidate_id (ps_subscription_expires_at_ms s)\<rparr>, True))"

definition set_subscription_plan_order :: "string list \<Rightarrow> PoolScheduler \<Rightarrow> PoolScheduler" where
  "set_subscription_plan_order order s =
     s\<lparr>ps_subscription_plan_ranks :=
         foldl (\<lambda>m (rank, plan). bt_insert plan rank m) bt_empty (enumerate 0 order)\<rparr>"

definition subscription_plan_key :: "(string \<Rightarrow> string) \<Rightarrow> string option \<Rightarrow> string" where
  "subscription_plan_key to_lowercase plan_type =
     (case trimmed_nonempty plan_type of Some plan \<Rightarrow> to_lowercase plan | None \<Rightarrow> ''unknown'')"

definition set_candidate_subscription_plan ::
  "(string \<Rightarrow> string) \<Rightarrow> string \<Rightarrow> string option \<Rightarrow> PoolScheduler \<Rightarrow> PoolScheduler \<times> bool" where
  "set_candidate_subscription_plan to_lowercase candidate_id plan_type s =
     (if \<not> bt_contains (ps_candidates s) candidate_id then (s, False)
      else (s\<lparr>ps_subscription_plans :=
              bt_insert candidate_id (subscription_plan_key to_lowercase plan_type) (ps_subscription_plans s)\<rparr>, True))"

fun plan_order_loop :: "(string \<Rightarrow> string) \<Rightarrow> string fset \<Rightarrow> string list \<Rightarrow> string + string list" where
  "plan_order_loop to_lowercase seen [] = Inr []"
| "plan_order_loop to_lowercase seen (value0 # values) =
     (let v = to_lowercase (trim value0) in
      if v = [] \<or> length v > 64 \<or> has_control v then Inl ''subscription plan group is invalid''
      else (case plan_order_loop to_lowercase (finsert v seen) values of
          Inl err \<Rightarrow> Inl err
        | Inr rest \<Rightarrow> Inr (if v |\<in>| seen then rest else v # rest)))"

definition normalize_subscription_plan_order :: "(string \<Rightarrow> string) \<Rightarrow> string list \<Rightarrow> string + string list" where
  "normalize_subscription_plan_order to_lowercase values =
     (if length values > 64 then Inl ''subscription plan order contains too many groups''
      else plan_order_loop to_lowercase {||} values)"

subsection \<open>Activity shorthands\<close>

definition in_flight_count :: "PoolScheduler \<Rightarrow> string \<Rightarrow> InFlightLane \<Rightarrow> u32" where
  "in_flight_count s candidate_id lane = activity_in_flight_count (ps_activity s) candidate_id lane"

definition active_request_count :: "PoolScheduler \<Rightarrow> string \<Rightarrow> u32" where
  "active_request_count s candidate_id = activity_active_request_count (ps_activity s) candidate_id"

definition active_models_for :: "PoolScheduler \<Rightarrow> string \<Rightarrow> ActiveModelRuntime list" where
  "active_models_for s candidate_id =
     map (\<lambda>(model, request_count). \<lparr>am_model = model, am_request_count = request_count\<rparr>)
       (activity_active_models_for (ps_activity s) candidate_id)"

definition runtime_activity_for :: "PoolScheduler \<Rightarrow> string \<Rightarrow> u32 \<times> u32 \<times> ActiveModelRuntime list" where
  "runtime_activity_for s candidate_id =
     (in_flight_count s candidate_id Text, active_request_count s candidate_id, active_models_for s candidate_id)"

definition dispatch_count :: "PoolScheduler \<Rightarrow> string \<Rightarrow> InFlightLane \<Rightarrow> u64" where
  "dispatch_count s candidate_id lane = activity_dispatch_count (ps_activity s) candidate_id lane"

definition rotation_dispatch_count :: "PoolScheduler \<Rightarrow> RuntimeCandidate \<Rightarrow> InFlightLane \<Rightarrow> u64" where
  "rotation_dispatch_count s candidate lane =
     (let dispatches = dispatch_count s (rc_id candidate) lane
      in if rc_kind candidate = ApiSource
         then sat_sub dispatches (ucast (in_flight_count s (rc_id candidate) lane))
         else dispatches)"

subsection \<open>Adding and removing candidates\<close>

definition upsert :: "RuntimeCandidate \<Rightarrow> PoolScheduler \<Rightarrow> PoolScheduler" where
  "upsert candidate s =
     s\<lparr>ps_retired_candidates := ps_retired_candidates s |-| {|rc_id candidate|},
       ps_cooldown_reasons := bt_retain (\<lambda>k _. fst k \<noteq> rc_id candidate
           \<or> bt_contains (rc_cooldowns candidate) (snd k)) (ps_cooldown_reasons s),
       ps_candidates := bt_insert (rc_id candidate) candidate (ps_candidates s)\<rparr>"

definition remove_now :: "string \<Rightarrow> PoolScheduler \<Rightarrow> PoolScheduler \<times> RuntimeCandidate option" where
  "remove_now candidate_id s =
     (let s = s\<lparr>ps_retired_candidates := ps_retired_candidates s |-| {|candidate_id|},
            ps_response_affinity := fst (affinity_invalidate_candidate candidate_id (ps_response_affinity s)),
            ps_prompt_affinity := fst (affinity_invalidate_candidate candidate_id (ps_prompt_affinity s)),
            ps_activity := activity_remove_candidate candidate_id (ps_activity s),
            ps_half_open := ffilter (\<lambda>h. fst h \<noteq> candidate_id) (ps_half_open s),
            ps_subscription_expires_at_ms := bt_remove candidate_id (ps_subscription_expires_at_ms s),
            ps_subscription_plans := bt_remove candidate_id (ps_subscription_plans s),
            ps_execution_fences := bt_remove candidate_id (ps_execution_fences s),
            ps_capability_blocks := ffilter (\<lambda>b. fst b \<noteq> candidate_id) (ps_capability_blocks s),
            ps_cooldown_reasons := bt_retain (\<lambda>k _. fst k \<noteq> candidate_id) (ps_cooldown_reasons s)\<rparr>;
          s = (case bt_get (ps_candidates s) candidate_id of
              None \<Rightarrow> s
            | Some candidate \<Rightarrow> s\<lparr>ps_provider_storm_breakers :=
                bt_retain (\<lambda>k _. fst k \<noteq> rc_source_id candidate) (ps_provider_storm_breakers s)\<rparr>);
          s = (case ps_protected_candidate s of
              None \<Rightarrow> s
            | Some (protected_id, _) \<Rightarrow>
                if protected_id = candidate_id then s\<lparr>ps_protected_candidate := None\<rparr> else s)
      in (s\<lparr>ps_candidates := bt_remove candidate_id (ps_candidates s)\<rparr>,
          bt_get (ps_candidates s) candidate_id))"

definition remove_candidate :: "string \<Rightarrow> PoolScheduler \<Rightarrow> PoolScheduler \<times> RuntimeCandidate option" where
  "remove_candidate candidate_id s =
     (case bt_get (ps_candidates s) candidate_id of
        None \<Rightarrow> (s, None)
      | Some existing \<Rightarrow>
          if active_request_count s candidate_id > 0
          then (s\<lparr>ps_response_affinity := fst (affinity_invalidate_candidate candidate_id (ps_response_affinity s)),
                  ps_prompt_affinity := fst (affinity_invalidate_candidate candidate_id (ps_prompt_affinity s)),
                  ps_candidates := bt_update candidate_id (\<lambda>c. c\<lparr>rc_enabled := False, rc_draining := True\<rparr>)
                    (ps_candidates s),
                  ps_retired_candidates := finsert candidate_id (ps_retired_candidates s)\<rparr>,
                Some existing)
          else remove_now candidate_id s)"

definition finalize_retired_if_idle :: "string \<Rightarrow> PoolScheduler \<Rightarrow> PoolScheduler" where
  "finalize_retired_if_idle candidate_id s =
     (if candidate_id |\<in>| ps_retired_candidates s \<and> active_request_count s candidate_id = 0
      then fst (remove_now candidate_id s) else s)"

definition set_protected_candidate :: "string option \<Rightarrow> u64 \<Rightarrow> PoolScheduler \<Rightarrow> PoolScheduler \<times> bool" where
  "set_protected_candidate candidate_id reserve_basis_points s =
     (case candidate_id of
        None \<Rightarrow> (s\<lparr>ps_protected_candidate := None\<rparr>, True)
      | Some candidate_id \<Rightarrow>
          if \<not> bt_contains (ps_candidates s) candidate_id then (s, False)
          else (s\<lparr>ps_protected_candidate := Some (candidate_id, reserve_basis_points)\<rparr>, True))"

subsection \<open>Availability updates\<close>

definition update_candidate_availability_at ::
  "string \<Rightarrow> bool \<Rightarrow> CandidateHealth \<Rightarrow> CandidateQuota \<Rightarrow> u64 option \<Rightarrow> PoolScheduler \<Rightarrow> PoolScheduler \<times> bool" where
  "update_candidate_availability_at candidate_id enabled health quota quota_updated_at_ms s =
     (case bt_get (ps_candidates s) candidate_id of
        None \<Rightarrow> (s, False)
      | Some c \<Rightarrow>
          let quota_changed = (rc_quota c \<noteq> quota);
              quota_timestamp_changed = (quota_updated_at_ms \<noteq> None \<and> rc_quota_updated_at_ms c \<noteq> quota_updated_at_ms);
              c' = c\<lparr>rc_enabled := enabled, rc_health := health, rc_quota := quota,
                    rc_quota_updated_at_ms := (if quota_changed \<or> quota_timestamp_changed
                      then quota_updated_at_ms else rc_quota_updated_at_ms c)\<rparr>;
              s = s\<lparr>ps_candidates := bt_insert candidate_id c' (ps_candidates s)\<rparr>
          in (if quota_changed then s\<lparr>ps_activity := clear_dispatches (ps_activity s)\<rparr> else s, True))"

definition update_candidate_availability ::
  "string \<Rightarrow> bool \<Rightarrow> CandidateHealth \<Rightarrow> CandidateQuota \<Rightarrow> PoolScheduler \<Rightarrow> PoolScheduler \<times> bool" where
  "update_candidate_availability candidate_id enabled health quota s =
     update_candidate_availability_at candidate_id enabled health quota None s"

definition update_candidate_quota_at ::
  "string \<Rightarrow> CandidateQuota \<Rightarrow> u64 option \<Rightarrow> u64 option \<Rightarrow> PoolScheduler \<Rightarrow> PoolScheduler \<times> bool" where
  "update_candidate_quota_at candidate_id quota quota_updated_at_ms quota_reset_at_ms s =
     (case bt_get (ps_candidates s) candidate_id of
        None \<Rightarrow> (s, False)
      | Some c \<Rightarrow>
          let changed = (rc_quota c \<noteq> quota \<or> rc_quota_updated_at_ms c \<noteq> quota_updated_at_ms
                \<or> rc_quota_reset_at_ms c \<noteq> quota_reset_at_ms);
              c' = c\<lparr>rc_quota := quota, rc_quota_updated_at_ms := quota_updated_at_ms,
                    rc_quota_reset_at_ms := quota_reset_at_ms\<rparr>;
              s = s\<lparr>ps_candidates := bt_insert candidate_id c' (ps_candidates s)\<rparr>
          in (if changed then s\<lparr>ps_activity := clear_dispatches (ps_activity s)\<rparr> else s, True))"

definition set_execution_fence :: "string \<Rightarrow> bool \<Rightarrow> PoolScheduler \<Rightarrow> PoolScheduler \<times> bool" where
  "set_execution_fence candidate_id fenced s =
     (if \<not> bt_contains (ps_candidates s) candidate_id then (s, False)
      else if fenced then
        (s\<lparr>ps_execution_fences := bt_upsert candidate_id 0 (\<lambda>n. sat_add n 1) (ps_execution_fences s)\<rparr>, True)
      else (case bt_get (ps_execution_fences s) candidate_id of
          None \<Rightarrow> (s, True)
        | Some count \<Rightarrow>
            (s\<lparr>ps_execution_fences := (if count \<le> 1 then bt_remove candidate_id (ps_execution_fences s)
                 else bt_insert candidate_id (count - 1) (ps_execution_fences s))\<rparr>, True)))"

definition block_capability :: "string \<Rightarrow> string \<Rightarrow> PoolScheduler \<Rightarrow> PoolScheduler \<times> bool" where
  "block_capability candidate_id model s =
     (if bt_contains (ps_candidates s) candidate_id
      then (s\<lparr>ps_capability_blocks := finsert (candidate_id, to_ascii_lowercase model) (ps_capability_blocks s)\<rparr>,
            (candidate_id, to_ascii_lowercase model) |\<notin>| ps_capability_blocks s)
      else (s, False))"

definition clear_capability_blocks :: "string \<Rightarrow> PoolScheduler \<Rightarrow> PoolScheduler \<times> bool" where
  "clear_capability_blocks candidate_id s =
     (let previous = fcard (ps_capability_blocks s);
          blocks = ffilter (\<lambda>b. fst b \<noteq> candidate_id) (ps_capability_blocks s)
      in (s\<lparr>ps_capability_blocks := blocks\<rparr>, fcard blocks \<noteq> previous))"

definition record_provider_rate_limit :: "string \<Rightarrow> string \<Rightarrow> u64 \<Rightarrow> PoolScheduler \<Rightarrow> PoolScheduler \<times> bool" where
  "record_provider_rate_limit candidate_id model now_ms s =
     (if \<not> ps_provider_storm_breaker_enabled s then (s, False)
      else (case filter_option (\<lambda>c. rc_kind c = ApiSource) (bt_get (ps_candidates s) candidate_id) of
          None \<Rightarrow> (s, False)
        | Some candidate \<Rightarrow>
            let key = (rc_source_id candidate, to_ascii_lowercase model);
                breaker = option_default \<lparr>sb_failures = [], sb_open_until_ms = 0\<rparr>
                  (bt_get (ps_provider_storm_breakers s) key);
                failures = dropWhile (\<lambda>observed. sat_sub now_ms observed > PROVIDER_STORM_WINDOW_MS)
                  (sb_failures breaker) @ [now_ms];
                open_until = (if length failures \<ge> PROVIDER_STORM_THRESHOLD
                  then sat_add now_ms PROVIDER_STORM_OPEN_MS else sb_open_until_ms breaker)
            in (s\<lparr>ps_provider_storm_breakers :=
                   bt_insert key \<lparr>sb_failures = failures, sb_open_until_ms = open_until\<rparr>
                     (ps_provider_storm_breakers s)\<rparr>,
                open_until > now_ms)))"

definition set_candidate_health :: "string \<Rightarrow> CandidateHealth \<Rightarrow> PoolScheduler \<Rightarrow> PoolScheduler \<times> bool" where
  "set_candidate_health candidate_id health s =
     (if bt_contains (ps_candidates s) candidate_id
      then (s\<lparr>ps_candidates := bt_update candidate_id (\<lambda>c. c\<lparr>rc_health := health\<rparr>) (ps_candidates s)\<rparr>, True)
      else (s, False))"

end
