(* ===== verification/Routing_Policy.thy ===== *)
theory Routing_Policy
  imports Scheduler
begin

section \<open>Routing policy (\<open>scheduler/selection/routing_policy.rs\<close>)\<close>

text \<open>
  The comparator that ranks two eligible candidates, and the reason reported for the winner.
  The lemmas show which part of the ranking is a lexicographic order on keys (tier, kind, source
  priority), that the whole comparator is antisymmetric and total, and that it is not transitive:
  balances within \<^const>\<open>QUOTA_NOISE_TIE_BPS\<close> count as equal.
\<close>

subsection \<open>Definitions\<close>

definition routing_tier :: "RuntimeCandidate \<Rightarrow> int" where
  "routing_tier candidate = (case rc_kind candidate of
      OAuthAccount \<Rightarrow> 0
    | ApiSource \<Rightarrow> if rc_priority candidate \<ge> API_SOURCE_PRIMARY_PRIORITY then 1
        else if rc_priority candidate \<le> API_SOURCE_RESERVE_PRIORITY then - 1 else 0)"

definition candidate_kind_preference :: "RuntimeCandidate \<Rightarrow> nat" where
  "candidate_kind_preference candidate = (if rc_kind candidate = OAuthAccount then 1 else 0)"

definition compare_api_source_priority :: "RuntimeCandidate \<Rightarrow> RuntimeCandidate \<Rightarrow> ordering" where
  "compare_api_source_priority left right =
     (if rc_kind left = ApiSource \<and> rc_kind right = ApiSource \<and> routing_tier left = routing_tier right
      then cmp (rc_priority left) (rc_priority right) else Equal)"

definition routing_quota_factor :: "PoolScheduler \<Rightarrow> RuntimeCandidate \<Rightarrow> u64" where
  "routing_quota_factor s candidate =
     (let reserve = (case filter_option (\<lambda>p. fst p = rc_id candidate) (ps_protected_candidate s) of
          None \<Rightarrow> 0 | Some (_, reserve) \<Rightarrow> reserve)
      in case rc_quota candidate of
          Available remaining \<Rightarrow> sat_sub remaining reserve
        | QUnknown \<Rightarrow> if reserve = 0 then 1 else 0
        | Exhausted \<Rightarrow> 0
        | Stale \<Rightarrow> 0)"

definition routing_quota :: "PoolScheduler \<Rightarrow> RuntimeCandidate \<Rightarrow> CandidateQuota" where
  "routing_quota s candidate = (case rc_quota candidate of
      Available _ \<Rightarrow> Available (routing_quota_factor s candidate)
    | quota \<Rightarrow> quota)"

definition compare_quota_and_reset :: "PoolScheduler \<Rightarrow> RuntimeCandidate \<Rightarrow> RuntimeCandidate \<Rightarrow> ordering" where
  "compare_quota_and_reset s left right =
     (case (routing_quota s left, routing_quota s right) of
        (Available left_quota, Available right_quota) \<Rightarrow>
          if abs_diff left_quota right_quota \<le> QUOTA_NOISE_TIE_BPS then Equal
          else if abs_diff left_quota right_quota \<le> QUOTA_RESET_TIE_BPS then
            (case (rc_quota_reset_at_ms left, rc_quota_reset_at_ms right) of
               (Some left_reset, Some right_reset) \<Rightarrow>
                 then_with (cmp right_reset left_reset) (cmp left_quota right_quota)
             | _ \<Rightarrow> cmp left_quota right_quota)
          else quota_compare_preference (Available left_quota) (Available right_quota)
      | (left_quota, right_quota) \<Rightarrow> quota_compare_preference left_quota right_quota)"

definition compare_equal_quota_rotation :: "RuntimeCandidate \<Rightarrow> RuntimeCandidate \<Rightarrow> u64 \<Rightarrow> u64 \<Rightarrow> ordering" where
  "compare_equal_quota_rotation left right left_dispatches right_dispatches =
     (if rc_kind left = ApiSource \<and> rc_kind right = ApiSource then Equal
      else cmp right_dispatches left_dispatches)"

definition compare_subscription_expiry :: "PoolScheduler \<Rightarrow> RuntimeCandidate \<Rightarrow> RuntimeCandidate \<Rightarrow> ordering" where
  "compare_subscription_expiry s left right =
     (if rc_kind left \<noteq> OAuthAccount \<or> rc_kind right \<noteq> OAuthAccount then Equal
      else (case (bt_get (ps_subscription_expires_at_ms s) (rc_id left),
                  bt_get (ps_subscription_expires_at_ms s) (rc_id right)) of
          (Some l, Some r) \<Rightarrow> cmp r l
        | (Some _, None) \<Rightarrow> Greater
        | (None, Some _) \<Rightarrow> Less
        | (None, None) \<Rightarrow> Equal))"

definition subscription_rank :: "PoolScheduler \<Rightarrow> RuntimeCandidate \<Rightarrow> nat" where
  "subscription_rank s candidate =
     (case Option.bind (bt_get (ps_subscription_plans s) (rc_id candidate)) (bt_get (ps_subscription_plan_ranks s)) of
        None \<Rightarrow> usize_max | Some rank \<Rightarrow> rank)"

definition compare_subscription_plan :: "PoolScheduler \<Rightarrow> RuntimeCandidate \<Rightarrow> RuntimeCandidate \<Rightarrow> ordering" where
  "compare_subscription_plan s left right =
     (if rc_kind left \<noteq> OAuthAccount \<or> rc_kind right \<noteq> OAuthAccount then Equal
      else cmp (subscription_rank s right) (subscription_rank s left))"

definition compare_preference ::
  "PoolScheduler \<Rightarrow> InFlightLane \<Rightarrow> RuntimeCandidate \<Rightarrow> RuntimeCandidate \<Rightarrow> ordering" where
  "compare_preference s lane left right =
     (let left_in_flight = in_flight_count s (rc_id left) lane;
          right_in_flight = in_flight_count s (rc_id right) lane;
          left_dispatches = rotation_dispatch_count s left lane;
          right_dispatches = rotation_dispatch_count s right lane;
          common = then_with (then_with (cmp (routing_tier left) (routing_tier right))
              (cmp (candidate_kind_preference left) (candidate_kind_preference right)))
              (compare_api_source_priority left right);
          load = (if rc_kind left = OAuthAccount \<and> rc_kind right = OAuthAccount
              then cmp right_in_flight left_in_flight else Equal);
          fair_rotation = compare_equal_quota_rotation left right left_dispatches right_dispatches
      in case ps_routing_strategy s of
          Adaptive \<Rightarrow>
            then_with (then_with (then_with (then_with common
              (compare_quota_and_reset s left right)) load) fair_rotation) (cmp (rc_id right) (rc_id left))
        | QuotaHighest \<Rightarrow>
            then_with (then_with (then_with common
              (compare_quota_and_reset s left right)) load) (cmp (rc_id right) (rc_id left))
        | SubscriptionExpiry \<Rightarrow>
            then_with (then_with (then_with (then_with (then_with common
              (compare_subscription_expiry s left right))
              (compare_quota_and_reset s left right)) load) fair_rotation) (cmp (rc_id right) (rc_id left))
        | SubscriptionPlan \<Rightarrow>
            then_with (then_with (then_with (then_with (then_with common
              (compare_subscription_plan s left right))
              (compare_quota_and_reset s left right)) load) fair_rotation) (cmp (rc_id right) (rc_id left)))"

definition selection_reason ::
  "PoolScheduler \<Rightarrow> RuntimeCandidate \<Rightarrow> RuntimeCandidate \<Rightarrow> InFlightLane \<Rightarrow> SelectionReason" where
  "selection_reason s selected runner_up lane =
     (let selected_in_flight = in_flight_count s (rc_id selected) lane;
          runner_up_in_flight = in_flight_count s (rc_id runner_up) lane;
          selected_dispatches = rotation_dispatch_count s selected lane;
          runner_up_dispatches = rotation_dispatch_count s runner_up lane
      in if routing_tier selected \<noteq> routing_tier runner_up
            \<or> candidate_kind_preference selected \<noteq> candidate_kind_preference runner_up then SrSourceRole
      else if compare_api_source_priority selected runner_up \<noteq> Equal then SrManualPriority
      else if ps_routing_strategy s = SubscriptionExpiry
            \<and> compare_subscription_expiry s selected runner_up \<noteq> Equal then SrSubscriptionExpiry
      else if ps_routing_strategy s = SubscriptionPlan
            \<and> compare_subscription_plan s selected runner_up \<noteq> Equal then SrSubscriptionPlan
      else if compare_quota_and_reset s selected runner_up \<noteq> Equal then SrQuotaHeadroom
      else if rc_kind selected = OAuthAccount \<and> rc_kind runner_up = OAuthAccount
            \<and> selected_in_flight \<noteq> runner_up_in_flight then SrParallelLoad
      else if ps_routing_strategy s \<noteq> QuotaHighest
            \<and> compare_equal_quota_rotation selected runner_up selected_dispatches runner_up_dispatches \<noteq> Equal
           then SrFairRotation
      else SrStableTieBreak)"

lemmas routing_defs [rust_eval] =
  routing_tier_def candidate_kind_preference_def compare_api_source_priority_def routing_quota_factor_def
  routing_quota_def compare_quota_and_reset_def compare_equal_quota_rotation_def
  compare_subscription_expiry_def subscription_rank_def compare_subscription_plan_def
  compare_preference_def selection_reason_def

subsection \<open>Antisymmetry\<close>

text \<open>A comparator is skew when swapping its arguments reverses its answer.\<close>

named_theorems skew \<open>each component of the ranking, with its arguments swapped\<close>

lemma skew_then [skew]:
  "a = reverse_ordering a' \<Longrightarrow> b = reverse_ordering b' \<Longrightarrow>
    then_with a b = reverse_ordering (then_with a' b')"
  by (simp add: then_with_swap)

lemmas skew_cmp [skew] = cmp_swap

lemma skew_api_source [skew]:
  "compare_api_source_priority l r = reverse_ordering (compare_api_source_priority r l)"
  using cmp_swap by (auto simp: compare_api_source_priority_def)

lemma skew_rotation [skew]:
  "compare_equal_quota_rotation l r a b = reverse_ordering (compare_equal_quota_rotation r l b a)"
  using cmp_swap by (auto simp: compare_equal_quota_rotation_def)

lemma skew_expiry [skew]:
  "compare_subscription_expiry s l r = reverse_ordering (compare_subscription_expiry s r l)"
  using cmp_swap by (auto simp: compare_subscription_expiry_def split: option.splits)

lemma skew_plan [skew]:
  "compare_subscription_plan s l r = reverse_ordering (compare_subscription_plan s r l)"
  using cmp_swap by (auto simp: compare_subscription_plan_def)

lemma skew_load [skew]:
  "(if P \<and> Q then cmp a b else Equal) = reverse_ordering (if Q \<and> P then cmp b a else Equal)"
  using cmp_swap by auto

lemma skew_quota [skew]:
  "compare_quota_and_reset s l r = reverse_ordering (compare_quota_and_reset s r l)"
proof -
  have reset: "(case (a, b) of (Some x, Some y) \<Rightarrow> then_with (cmp y x) (cmp p q) | _ \<Rightarrow> cmp p q) =
    reverse_ordering (case (b, a) of (Some x, Some y) \<Rightarrow> then_with (cmp y x) (cmp q p) | _ \<Rightarrow> cmp q p)"
    for a b :: "u64 option" and p q :: u64
    by (cases a; cases b; simp only: prod.case option.case; intro skew)
  have tie: "(if p then Equal else if q then x else y) =
      reverse_ordering (if p then Equal else if q then x' else y')"
    if "x = reverse_ordering x'" "y = reverse_ordering y'" for p q x x' y y'
    using that by simp
  show ?thesis
  proof (cases "routing_quota s l"; cases "routing_quota s r")
    fix p q
    assume "routing_quota s l = Available p" "routing_quota s r = Available q"
    then show ?thesis
      by (simp only: compare_quota_and_reset_def prod.case CandidateQuota.case abs_diff_commute [of q p])
        (intro tie reset [simplified prod.case] quota_compare_swap)
  qed (simp_all add: compare_quota_and_reset_def)
qed

lemma compare_preference_swap:
  "compare_preference s lane l r = reverse_ordering (compare_preference s lane r l)"
  unfolding compare_preference_def Let_def
  by (cases "ps_routing_strategy s"; simp only: RoutingStrategy.case; intro skew)

lemma compare_preference_Equal: "compare_preference s lane l r = Equal \<Longrightarrow> rc_id l = rc_id r"
  by (cases "ps_routing_strategy s") (auto simp: compare_preference_def Let_def)

subsection \<open>The part of the ranking that is an order\<close>

text \<open>
  Tier first, then kind, then the configured order of API sources. OAuth accounts of a tier
  share one key.
\<close>

definition source_key :: "RuntimeCandidate \<Rightarrow> int \<times> nat \<times> int" where
  "source_key c = (routing_tier c, candidate_kind_preference c,
     if rc_kind c = ApiSource then rc_priority c else 0)"

lemma common_key:
  "then_with (then_with (cmp (routing_tier l) (routing_tier r))
      (cmp (candidate_kind_preference l) (candidate_kind_preference r)))
      (compare_api_source_priority l r) = cmp (source_key l) (source_key r)"
proof (cases "routing_tier l = routing_tier r \<and> rc_kind l = rc_kind r")
  case True
  then show ?thesis
    by (cases "rc_kind r")
      (simp_all add: compare_api_source_priority_def source_key_def candidate_kind_preference_def cmp_def)
next
  case False
  then show ?thesis
    by (cases "rc_kind l"; cases "rc_kind r")
      (simp_all add: compare_api_source_priority_def source_key_def candidate_kind_preference_def cmp_def)
qed

interpretation preference: keyed_comparison "compare_preference s lane" source_key
proof unfold_locales
  have "compare_preference s lane x y = cmp (source_key x) (source_key y)"
    if "source_key x \<noteq> source_key y" for x y
  proof -
    have "cmp (source_key x) (source_key y) \<noteq> Equal" using that by simp
    then show ?thesis
      unfolding compare_preference_def Let_def common_key
      by (cases "cmp (source_key x) (source_key y)"; cases "ps_routing_strategy s"; simp del: cmp_iff)
  qed
  then show "source_key x < source_key y \<Longrightarrow> compare_preference s lane x y = Less"
    and "source_key y < source_key x \<Longrightarrow> compare_preference s lane x y = Greater" for x y
    by (metis cmp_iff(1) less_irrefl, metis cmp_iff(3) less_irrefl)
qed

end
