(* ===== verification/Selection.thy ===== *)
theory Selection
  imports Routing_Policy
begin

section \<open>Selection, leases and cooldowns (\<open>scheduler/selection.rs\<close>)\<close>

text \<open>
  The request path of the scheduler: which candidates are eligible, which one is selected, the
  leases taken and released around an upstream call, and the cooldowns that failures set. The
  functions that read an affinity cache prune it, so they return the new state with their answer.
\<close>

subsection \<open>Eligibility\<close>

definition half_open_scope :: "RuntimeCandidate \<Rightarrow> string \<Rightarrow> u64 \<Rightarrow> string option" where
  "half_open_scope candidate model now_ms =
     (case filter_option (\<lambda>retry_at_ms. retry_at_ms \<le> now_ms) (bt_get (rc_cooldowns candidate) ''*'') of
        Some _ \<Rightarrow> Some ''*''
      | None \<Rightarrow> if has_expired_cooldown (rc_cooldowns candidate) model now_ms
                then Some (to_ascii_lowercase model) else None)"

definition provider_storm_open :: "PoolScheduler \<Rightarrow> RuntimeCandidate \<Rightarrow> string \<Rightarrow> u64 \<Rightarrow> bool" where
  "provider_storm_open s candidate model now_ms \<longleftrightarrow>
     ps_provider_storm_breaker_enabled s
     \<and> (case bt_get (ps_provider_storm_breakers s) (rc_source_id candidate, to_ascii_lowercase model) of
          None \<Rightarrow> False | Some breaker \<Rightarrow> sb_open_until_ms breaker > now_ms)"

definition quota_reserve_allows :: "PoolScheduler \<Rightarrow> RuntimeCandidate \<Rightarrow> u64 \<Rightarrow> bool" where
  "quota_reserve_allows s candidate now_ms =
     (case filter_option (\<lambda>p. fst p = rc_id candidate) (ps_protected_candidate s) of
        None \<Rightarrow> True
      | Some (_, reserve) \<Rightarrow>
          (case rc_quota candidate of
             Available remaining \<Rightarrow>
               if (case rc_quota_updated_at_ms candidate of None \<Rightarrow> False
                   | Some updated_at_ms \<Rightarrow> sat_sub now_ms updated_at_ms > ps_quota_stale_after_ms s)
               then False else remaining > reserve
           | _ \<Rightarrow> False))"

definition is_eligible ::
  "PoolScheduler \<Rightarrow> RuntimeCandidate \<Rightarrow> string \<Rightarrow> WireApi list \<Rightarrow> CandidateScope \<Rightarrow> u64 \<Rightarrow> bool" where
  "is_eligible s candidate model allowed_protocols scope now_ms \<longleftrightarrow>
     rc_id candidate |\<notin>| ps_retired_candidates s
     \<and> \<not> bt_contains (ps_execution_fences s) (rc_id candidate)
     \<and> (rc_id candidate, to_ascii_lowercase model) |\<notin>| ps_capability_blocks s
     \<and> \<not> provider_storm_open s candidate model now_ms
     \<and> quota_reserve_allows s candidate now_ms
     \<and> candidate_is_eligible candidate model allowed_protocols scope now_ms
     \<and> (case half_open_scope candidate model now_ms of None \<Rightarrow> True
        | Some scope \<Rightarrow> (rc_id candidate, scope) |\<notin>| ps_half_open s)"

definition is_runtime_available :: "PoolScheduler \<Rightarrow> RuntimeCandidate \<Rightarrow> u64 \<Rightarrow> bool" where
  "is_runtime_available s candidate now_ms =
     fBex (rc_models candidate)
       (\<lambda>model. is_eligible s candidate model [rc_protocol candidate] scope_default now_ms)"

definition lane_allows :: "PoolScheduler \<Rightarrow> RuntimeCandidate \<Rightarrow> InFlightLane \<Rightarrow> bool" where
  "lane_allows s candidate lane =
     (if rc_kind candidate \<noteq> OAuthAccount \<or> lane = Text then True
      else in_flight_count s (rc_id candidate) Image < MAX_OAUTH_IMAGE_IN_FLIGHT)"

definition is_half_open_probe :: "PoolScheduler \<Rightarrow> string \<Rightarrow> string \<Rightarrow> u64 \<Rightarrow> bool" where
  "is_half_open_probe s candidate_id model now_ms =
     (case bt_get (ps_candidates s) candidate_id of None \<Rightarrow> False
      | Some candidate \<Rightarrow> half_open_scope candidate model now_ms \<noteq> None)"

text \<open>The filter that \<open>select_for\<close> and \<open>eligible_count\<close> apply to every candidate.\<close>

definition request_admits :: "PoolScheduler \<Rightarrow> SelectionRequest \<Rightarrow> InFlightLane \<Rightarrow> RuntimeCandidate \<Rightarrow> bool" where
  "request_admits s request lane candidate \<longleftrightarrow>
     rc_id candidate |\<notin>| rq_tried request
     \<and> lane_allows s candidate lane
     \<and> is_eligible s candidate (rq_model request) (rq_allowed_protocols request) (rq_scope request)
         (rq_now_ms request)"

definition eligible_count :: "PoolScheduler \<Rightarrow> SelectionRequest \<Rightarrow> InFlightLane \<Rightarrow> nat" where
  "eligible_count s request lane = length (filter (request_admits s request lane) (bt_values (ps_candidates s)))"

definition diagnostics ::
  "PoolScheduler \<Rightarrow> string \<Rightarrow> SelectionReason \<Rightarrow> nat \<Rightarrow> InFlightLane \<Rightarrow> RoutingDiagnostics option" where
  "diagnostics s candidate_id reason eligible_candidates lane =
     (case bt_get (ps_candidates s) candidate_id of None \<Rightarrow> None
      | Some candidate \<Rightarrow> Some
          \<lparr>dg_reason = reason,
           dg_eligible_candidates =
             (if eligible_candidates < 2 ^ 32 then of_nat eligible_candidates else - 1),
           dg_quota_remaining_basis_points =
             (case rc_quota candidate of Available remaining \<Rightarrow> Some remaining | _ \<Rightarrow> None),
           dg_in_flight_before = in_flight_count s candidate_id lane,
           dg_dispatches_before = dispatch_count s candidate_id lane,
           dg_endpoint_kind = None\<rparr>)"

definition prompt_affinity_allows ::
  "PoolScheduler \<Rightarrow> RuntimeCandidate \<Rightarrow> RuntimeCandidate \<Rightarrow> InFlightLane \<Rightarrow> bool \<Rightarrow> bool" where
  "prompt_affinity_allows s preferred baseline lane explicit_prompt_cache_key =
     (if routing_tier preferred \<noteq> routing_tier baseline
         \<or> candidate_kind_preference preferred \<noteq> candidate_kind_preference baseline
         \<or> in_flight_count s (rc_id preferred) lane
             > sat_add (in_flight_count s (rc_id baseline) lane) PROMPT_AFFINITY_MAX_IN_FLIGHT_SKEW
      then False
      else if rc_kind preferred = ApiSource \<and> rc_kind baseline = ApiSource
         \<and> rc_priority preferred < rc_priority baseline then False
      else if explicit_prompt_cache_key then True
      else (case (routing_quota s preferred, routing_quota s baseline) of
          (Available p, Available b) \<Rightarrow> sat_add p PROMPT_AFFINITY_QUOTA_SLACK_BPS \<ge> b
        | (Available _, QUnknown) \<Rightarrow> True
        | (QUnknown, QUnknown) \<Rightarrow> True
        | _ \<Rightarrow> False))"

subsection \<open>Selection\<close>

definition select_response_affinity ::
  "SelectionRequest \<Rightarrow> string \<Rightarrow> string \<Rightarrow> InFlightLane \<Rightarrow> PoolScheduler \<Rightarrow> PoolScheduler \<times> Selection option" where
  "select_response_affinity request key candidate_id lane s =
     (if (case bt_get (ps_candidates s) candidate_id of None \<Rightarrow> False
          | Some candidate \<Rightarrow>
              candidate_id |\<notin>| rq_tried request \<and> lane_allows s candidate lane
              \<and> is_eligible s candidate (rq_model request) (rq_allowed_protocols request)
                  (rq_scope request) (rq_now_ms request))
      then
        let s = s\<lparr>ps_response_affinity :=
              fst (affinity_refresh key (rq_now_ms request) (ps_response_affinity s))\<rparr>
        in (s, map_option (\<lambda>diagnostics.
              \<lparr>sl_candidate_id = candidate_id, sl_response_affinity_hit = True,
               sl_half_open_probe = is_half_open_probe s candidate_id (rq_model request) (rq_now_ms request),
               sl_diagnostics = diagnostics\<rparr>)
              (diagnostics s candidate_id SrResponseAffinity (eligible_count s request lane) lane))
      else (s, None))"

definition select_by_policy ::
  "SelectionRequest \<Rightarrow> string option \<Rightarrow> InFlightLane \<Rightarrow> PoolScheduler \<Rightarrow> Selection option" where
  "select_by_policy request prompt_affinity_candidate lane s =
     (let explicit_prompt_cache_key = (case rq_prompt_affinity_key request of None \<Rightarrow> False
            | Some key \<Rightarrow> starts_with key ''cache:'');
          eligible = filter (request_admits s request lane) (bt_values (ps_candidates s))
      in case max_by (compare_preference s lane) eligible of
           None \<Rightarrow> None
         | Some baseline \<Rightarrow>
             let selected = option_default baseline
                   (filter_option (\<lambda>preferred. rc_id preferred \<noteq> rc_id baseline
                       \<and> prompt_affinity_allows s preferred baseline lane explicit_prompt_cache_key)
                     (Option.bind prompt_affinity_candidate
                       (\<lambda>candidate_id. find (\<lambda>candidate. rc_id candidate = candidate_id) eligible)));
                 prompt_affinity_hit = (rc_id selected \<noteq> rc_id baseline);
                 runner_up = max_by (compare_preference s lane)
                   (filter (\<lambda>candidate. rc_id candidate \<noteq> rc_id selected) eligible);
                 reason = (if prompt_affinity_hit then SrPromptCacheAffinity
                   else if rq_tried request \<noteq> {||} then SrFallbackAttempt
                   else (case runner_up of None \<Rightarrow> SrOnlyEligible
                     | Some runner_up \<Rightarrow> selection_reason s selected runner_up lane))
             in map_option (\<lambda>diagnostics.
                  \<lparr>sl_candidate_id = rc_id selected, sl_response_affinity_hit = False,
                   sl_half_open_probe =
                     is_half_open_probe s (rc_id selected) (rq_model request) (rq_now_ms request),
                   sl_diagnostics = diagnostics\<rparr>)
                  (diagnostics s (rc_id selected) reason (length eligible) lane))"

definition prompt_affinity_owner :: "SelectionRequest \<Rightarrow> PoolScheduler \<Rightarrow> PoolScheduler \<times> string option" where
  "prompt_affinity_owner request s =
     (case rq_prompt_affinity_key request of
        None \<Rightarrow> (s, None)
      | Some key \<Rightarrow>
          (case affinity_get key (rq_now_ms request) (ps_prompt_affinity s) of
             (cache, owner) \<Rightarrow> (s\<lparr>ps_prompt_affinity := cache\<rparr>, owner)))"

definition select_for :: "SelectionRequest \<Rightarrow> InFlightLane \<Rightarrow> PoolScheduler \<Rightarrow> PoolScheduler \<times> Selection option" where
  "select_for request lane s0 =
     (let (s, response_owner) = (case rq_response_affinity_key request of
            None \<Rightarrow> (s0, None)
          | Some key \<Rightarrow>
              (case affinity_get key (rq_now_ms request) (ps_response_affinity s0) of
                 (cache, owner) \<Rightarrow> (s0\<lparr>ps_response_affinity := cache\<rparr>, map_option (Pair key) owner)))
      in case response_owner of
           Some (key, candidate_id) \<Rightarrow> select_response_affinity request key candidate_id lane s
         | None \<Rightarrow>
             let (s, prompt_affinity_candidate) = prompt_affinity_owner request s
             in (s, select_by_policy request prompt_affinity_candidate lane s))"

definition select :: "SelectionRequest \<Rightarrow> PoolScheduler \<Rightarrow> PoolScheduler \<times> Selection option" where
  "select request s = select_for request Text s"

definition select_image :: "SelectionRequest \<Rightarrow> PoolScheduler \<Rightarrow> PoolScheduler \<times> Selection option" where
  "select_image request s = select_for request Image s"

subsection \<open>Runtime order\<close>

text \<open>\<open>sort_by\<close> is the standard library's stable sort, a parameter (its result is unspecified for
  a comparator that is not a total order); \<open>sort_by_key\<close> on retry times is \<^const>\<open>sort_key\<close>.\<close>

definition compare_runtime ::
  "PoolScheduler \<Rightarrow> RuntimeCandidate \<times> bool \<times> u32 \<Rightarrow> RuntimeCandidate \<times> bool \<times> u32 \<Rightarrow> ordering" where
  "compare_runtime s l r =
     (case (l, r) of ((left, left_available, left_in_flight), (right, right_available, right_in_flight)) \<Rightarrow>
        then_with (then_with (cmp (right_in_flight > 0) (left_in_flight > 0))
          (cmp right_available left_available)) (compare_preference s Text right left))"

definition runtime_snapshot :: "PoolScheduler \<Rightarrow> u64 \<Rightarrow> RuntimeCandidate \<times> bool \<times> u32 \<Rightarrow> CandidateRuntimeSnapshot" where
  "runtime_snapshot s now_ms e = (case e of (candidate, available, in_flight) \<Rightarrow>
     \<lparr>cs_candidate_id = rc_id candidate, cs_kind = rc_kind candidate, cs_available = available,
      cs_in_flight = in_flight, cs_active_request_count = active_request_count s (rc_id candidate),
      cs_active_models = active_models_for s (rc_id candidate),
      cs_model_retries = sort_key mr_retry_at_ms
        (map (\<lambda>(model, retry_at_ms). \<lparr>mr_model = model, mr_retry_at_ms = retry_at_ms\<rparr>)
          (filter (\<lambda>(model, retry_at_ms). model \<noteq> ''*'' \<and> retry_at_ms > now_ms)
            (bt_entries (rc_cooldowns candidate)))),
      cs_last_used_at_ms = rc_last_used_at candidate,
      cs_next_retry_at_ms = min_opt (filter (\<lambda>retry_at_ms. retry_at_ms > now_ms) (bt_values (rc_cooldowns candidate))),
      cs_half_open = fBex (ps_half_open s) (\<lambda>h. fst h = rc_id candidate),
      cs_dispatches = dispatch_count s (rc_id candidate) Text\<rparr>)"

type_synonym 'a sort_fn = "('a \<Rightarrow> 'a \<Rightarrow> ordering) \<Rightarrow> 'a list \<Rightarrow> 'a list"

definition runtime_order ::
  "(RuntimeCandidate \<times> bool \<times> u32) sort_fn \<Rightarrow> PoolScheduler \<Rightarrow> u64 \<Rightarrow> CandidateRuntimeSnapshot list" where
  "runtime_order sort_by s now_ms =
     map (runtime_snapshot s now_ms)
       (sort_by (compare_runtime s)
         (map (\<lambda>candidate. (candidate, is_runtime_available s candidate now_ms,
             in_flight_count s (rc_id candidate) Text)) (bt_values (ps_candidates s))))"

subsection \<open>Retry hints\<close>

fun aggregate_cooldown_reason :: "CooldownReason \<Rightarrow> CooldownReason \<Rightarrow> CooldownReason" where
  "aggregate_cooldown_reason Mandatory _ = Mandatory"
| "aggregate_cooldown_reason _ Mandatory = Mandatory"
| "aggregate_cooldown_reason Transient _ = Transient"
| "aggregate_cooldown_reason _ Transient = Transient"
| "aggregate_cooldown_reason _ _ = RateLimit"

definition cooldown_reason_for :: "PoolScheduler \<Rightarrow> RuntimeCandidate \<Rightarrow> string \<Rightarrow> u64 \<Rightarrow> CooldownReason" where
  "cooldown_reason_for s candidate model now_ms =
     option_default Transient
       (foldl (\<lambda>reason (candidate_model, retry_at).
            if retry_at \<le> now_ms \<or> (candidate_model \<noteq> ''*'' \<and> \<not> eq_ignore_ascii_case candidate_model model)
            then reason
            else Some (aggregate_cooldown_reason (option_default RateLimit reason)
              (option_default Transient (bt_get (ps_cooldown_reasons s) (rc_id candidate, candidate_model)))))
          None (bt_entries (rc_cooldowns candidate)))"

definition request_retry_at :: "SelectionRequest \<Rightarrow> RuntimeCandidate \<Rightarrow> u64 option" where
  "request_retry_at request candidate =
     retry_at_if_configured candidate (rq_model request) (rq_allowed_protocols request) (rq_scope request)
       (rq_now_ms request)"

definition earliest_retry_at :: "SelectionRequest \<Rightarrow> PoolScheduler \<Rightarrow> PoolScheduler \<times> u64 option" where
  "earliest_retry_at request s =
     (case rq_response_affinity_key request of
        Some key \<Rightarrow>
          (case affinity_get key (rq_now_ms request) (ps_response_affinity s) of
             (cache, owner) \<Rightarrow>
               let s = s\<lparr>ps_response_affinity := cache\<rparr> in
               (s, case owner of None \<Rightarrow> None
                   | Some candidate_id \<Rightarrow>
                       if candidate_id |\<in>| rq_tried request then None
                       else (case bt_get (ps_candidates s) candidate_id of None \<Rightarrow> None
                         | Some candidate \<Rightarrow>
                             if quota_reserve_allows s candidate (rq_now_ms request)
                             then request_retry_at request candidate else None)))
      | None \<Rightarrow>
          (s, min_opt (List.map_filter (request_retry_at request)
                (filter (\<lambda>candidate. quota_reserve_allows s candidate (rq_now_ms request))
                  (filter (\<lambda>candidate. rc_id candidate |\<notin>| rq_tried request) (bt_values (ps_candidates s)))))))"

fun applicable_cooldown_loop ::
  "PoolScheduler \<Rightarrow> SelectionRequest \<Rightarrow> u64 option \<Rightarrow> CooldownReason \<Rightarrow> RuntimeCandidate list \<Rightarrow>
   (u64 \<times> CooldownReason) option" where
  "applicable_cooldown_loop s request retry_at reason [] = map_option (\<lambda>t. (t, reason)) retry_at"
| "applicable_cooldown_loop s request retry_at reason (candidate # candidates) =
     (if rc_id candidate |\<in>| rq_tried request
         \<or> \<not> quota_reserve_allows s candidate (rq_now_ms request)
         \<or> \<not> is_catalog_visible candidate (rq_model request) (rq_allowed_protocols request) (rq_scope request)
      then applicable_cooldown_loop s request retry_at reason candidates
      else (case request_retry_at request candidate of
          None \<Rightarrow> None
        | Some candidate_retry_at \<Rightarrow>
            applicable_cooldown_loop s request
              (Some (case retry_at of None \<Rightarrow> candidate_retry_at | Some current \<Rightarrow> min current candidate_retry_at))
              (aggregate_cooldown_reason reason
                (cooldown_reason_for s candidate (rq_model request) (rq_now_ms request)))
              candidates))"

definition all_applicable_cooldown ::
  "SelectionRequest \<Rightarrow> PoolScheduler \<Rightarrow> PoolScheduler \<times> (u64 \<times> CooldownReason) option" where
  "all_applicable_cooldown request s =
     (case rq_response_affinity_key request of
        Some key \<Rightarrow>
          (case affinity_get key (rq_now_ms request) (ps_response_affinity s) of
             (cache, owner) \<Rightarrow>
               let s = s\<lparr>ps_response_affinity := cache\<rparr> in
               (s, case owner of None \<Rightarrow> None
                   | Some candidate_id \<Rightarrow>
                       if candidate_id |\<in>| rq_tried request then None
                       else (case bt_get (ps_candidates s) candidate_id of None \<Rightarrow> None
                         | Some candidate \<Rightarrow>
                             if \<not> quota_reserve_allows s candidate (rq_now_ms request) then None
                             else map_option (\<lambda>retry_at. (retry_at,
                                 cooldown_reason_for s candidate (rq_model request) (rq_now_ms request)))
                               (request_retry_at request candidate))))
      | None \<Rightarrow> (s, applicable_cooldown_loop s request None RateLimit (bt_values (ps_candidates s))))"

end
