(* ===== verification/Leases.thy ===== *)
theory Leases
  imports Selection
begin

section \<open>Affinity bindings, leases and cooldowns (\<open>scheduler/selection.rs\<close>)\<close>

text \<open>
  The writes that follow a selection: binding a response or prompt-cache key to a candidate,
  taking and returning a lease, recording the outcome of the call, and setting or clearing a
  cooldown. Each operation answers the Boolean (or option) of the source beside the new state.
\<close>

subsection \<open>Affinity bindings\<close>

definition bind_response_affinity :: "string \<Rightarrow> string \<Rightarrow> u64 \<Rightarrow> PoolScheduler \<Rightarrow> PoolScheduler \<times> bool" where
  "bind_response_affinity key candidate_id now_ms s =
     (if \<not> bt_contains (ps_candidates s) candidate_id then (s, False)
      else (s\<lparr>ps_response_affinity := affinity_bind key candidate_id now_ms (ps_response_affinity s)\<rparr>, True))"

definition bind_prompt_affinity :: "string \<Rightarrow> string \<Rightarrow> u64 \<Rightarrow> PoolScheduler \<Rightarrow> PoolScheduler \<times> bool" where
  "bind_prompt_affinity key candidate_id now_ms s =
     (if \<not> bt_contains (ps_candidates s) candidate_id then (s, False)
      else (s\<lparr>ps_prompt_affinity := affinity_bind key candidate_id now_ms (ps_prompt_affinity s)\<rparr>, True))"

definition bind_prompt_affinity_sticky :: "string \<Rightarrow> string \<Rightarrow> u64 \<Rightarrow> PoolScheduler \<Rightarrow> PoolScheduler \<times> bool" where
  "bind_prompt_affinity_sticky key candidate_id now_ms s =
     (if \<not> bt_contains (ps_candidates s) candidate_id then (s, False)
      else (case affinity_bind_if_unbound_or_same key candidate_id now_ms (ps_prompt_affinity s) of
          (cache, bound) \<Rightarrow> (s\<lparr>ps_prompt_affinity := cache\<rparr>, bound)))"

definition restore_response_affinity ::
  "string \<Rightarrow> string \<Rightarrow> u64 \<Rightarrow> u64 \<Rightarrow> PoolScheduler \<Rightarrow> PoolScheduler \<times> bool" where
  "restore_response_affinity key candidate_id expires_at_ms now_ms s =
     (if \<not> bt_contains (ps_candidates s) candidate_id \<or> expires_at_ms \<le> now_ms then (s, False)
      else (s\<lparr>ps_response_affinity :=
              affinity_restore key candidate_id expires_at_ms now_ms (ps_response_affinity s)\<rparr>, True))"

definition restore_prompt_affinity ::
  "string \<Rightarrow> string \<Rightarrow> u64 \<Rightarrow> u64 \<Rightarrow> PoolScheduler \<Rightarrow> PoolScheduler \<times> bool" where
  "restore_prompt_affinity key candidate_id expires_at_ms now_ms s =
     (if \<not> bt_contains (ps_candidates s) candidate_id \<or> expires_at_ms \<le> now_ms then (s, False)
      else (s\<lparr>ps_prompt_affinity :=
              affinity_restore key candidate_id expires_at_ms now_ms (ps_prompt_affinity s)\<rparr>, True))"

definition has_response_affinity :: "string \<Rightarrow> u64 \<Rightarrow> PoolScheduler \<Rightarrow> PoolScheduler \<times> bool" where
  "has_response_affinity key now_ms s =
     (case affinity_contains key now_ms (ps_response_affinity s) of
        (cache, found) \<Rightarrow> (s\<lparr>ps_response_affinity := cache\<rparr>, found))"

definition has_prompt_affinity :: "string \<Rightarrow> u64 \<Rightarrow> PoolScheduler \<Rightarrow> PoolScheduler \<times> bool" where
  "has_prompt_affinity key now_ms s =
     (case affinity_contains key now_ms (ps_prompt_affinity s) of
        (cache, found) \<Rightarrow> (s\<lparr>ps_prompt_affinity := cache\<rparr>, found))"

definition invalidate_response_affinity :: "string \<Rightarrow> PoolScheduler \<Rightarrow> PoolScheduler \<times> bool" where
  "invalidate_response_affinity key s =
     (case affinity_invalidate key (ps_response_affinity s) of
        (cache, found) \<Rightarrow> (s\<lparr>ps_response_affinity := cache\<rparr>, found))"

subsection \<open>Leases\<close>

definition reserve_for_lane ::
  "string \<Rightarrow> string \<Rightarrow> u64 \<Rightarrow> InFlightLane \<Rightarrow> PoolScheduler \<Rightarrow> PoolScheduler \<times> bool" where
  "reserve_for_lane candidate_id model now_ms lane s =
     (case bt_get (ps_candidates s) candidate_id of
        None \<Rightarrow> (s, False)
      | Some candidate \<Rightarrow>
          if \<not> lane_allows s candidate lane then (s, False)
          else
            let half_open_key = (if model = [] then None
                  else map_option (Pair candidate_id) (half_open_scope candidate model now_ms))
            in (case half_open_key of
                 None \<Rightarrow> (s\<lparr>ps_activity := activity_reserve candidate_id model lane (ps_activity s)\<rparr>, True)
               | Some key \<Rightarrow>
                   if key |\<in>| ps_half_open s then (s, False)
                   else (s\<lparr>ps_half_open := finsert key (ps_half_open s),
                           ps_activity := activity_reserve candidate_id model lane (ps_activity s)\<rparr>, True)))"

definition reserve_for :: "string \<Rightarrow> string \<Rightarrow> u64 \<Rightarrow> PoolScheduler \<Rightarrow> PoolScheduler \<times> bool" where
  "reserve_for candidate_id model now_ms s = reserve_for_lane candidate_id model now_ms Text s"

definition reserve_image_for :: "string \<Rightarrow> string \<Rightarrow> u64 \<Rightarrow> PoolScheduler \<Rightarrow> PoolScheduler \<times> bool" where
  "reserve_image_for candidate_id model now_ms s = reserve_for_lane candidate_id model now_ms Image s"

definition release_for_lane ::
  "string \<Rightarrow> string option \<Rightarrow> InFlightLane \<Rightarrow> PoolScheduler \<Rightarrow> PoolScheduler \<times> bool" where
  "release_for_lane candidate_id model lane s =
     (let s = (case model of
            Some model \<Rightarrow> s\<lparr>ps_half_open := ps_half_open s
                |-| {|(candidate_id, to_ascii_lowercase model)|} |-| {|(candidate_id, ''*'')|}\<rparr>
          | None \<Rightarrow> s\<lparr>ps_half_open := ffilter (\<lambda>h. fst h \<noteq> candidate_id) (ps_half_open s)\<rparr>)
      in case activity_release candidate_id model lane (ps_activity s) of
           (activity, released) \<Rightarrow>
             let s = s\<lparr>ps_activity := activity\<rparr>
             in (if released then finalize_retired_if_idle candidate_id s else s, released))"

definition release_for :: "string \<Rightarrow> string option \<Rightarrow> PoolScheduler \<Rightarrow> PoolScheduler \<times> bool" where
  "release_for candidate_id model s = release_for_lane candidate_id model Text s"

definition release_image_for :: "string \<Rightarrow> string option \<Rightarrow> PoolScheduler \<Rightarrow> PoolScheduler \<times> bool" where
  "release_image_for candidate_id model s = release_for_lane candidate_id model Image s"

subsection \<open>Outcomes\<close>

definition record_success_with_metrics ::
  "string \<Rightarrow> string \<Rightarrow> u64 \<Rightarrow> u64 option \<Rightarrow> u64 \<Rightarrow> PoolScheduler \<Rightarrow> PoolScheduler \<times> bool" where
  "record_success_with_metrics candidate_id model now_ms output_tokens latency_ms s =
     (case bt_get (ps_candidates s) candidate_id of
        None \<Rightarrow> (s, False)
      | Some candidate \<Rightarrow>
          let provider_key = (rc_source_id candidate, to_ascii_lowercase model);
              cooldowns = bt_retain (\<lambda>candidate_model retry_at_ms.
                  \<not> cooldown_applies candidate_model model \<or> retry_at_ms > now_ms) (rc_cooldowns candidate);
              recovered = (\<not> list_ex (\<lambda>retry_at_ms. retry_at_ms > now_ms) (bt_values cooldowns));
              candidate = candidate\<lparr>rc_cooldowns := cooldowns, rc_last_used_at := Some now_ms\<rparr>;
              candidate = (if recovered
                then candidate\<lparr>rc_health := ChHealthy, rc_consecutive_failures := 0\<rparr> else candidate)
          in (s\<lparr>ps_half_open := ps_half_open s |-| {|(candidate_id, to_ascii_lowercase model)|},
                ps_candidates := bt_insert candidate_id candidate (ps_candidates s),
                ps_cooldown_reasons := bt_retain (\<lambda>k _. fst k \<noteq> candidate_id
                    \<or> bt_contains (rc_cooldowns candidate) (snd k)) (ps_cooldown_reasons s),
                ps_provider_storm_breakers := bt_remove provider_key (ps_provider_storm_breakers s)\<rparr>,
              recovered))"

definition record_success :: "string \<Rightarrow> string \<Rightarrow> u64 \<Rightarrow> PoolScheduler \<Rightarrow> PoolScheduler \<times> bool" where
  "record_success candidate_id model now_ms s = record_success_with_metrics candidate_id model now_ms None 0 s"

definition record_failure :: "string \<Rightarrow> PoolScheduler \<Rightarrow> PoolScheduler \<times> u32 option" where
  "record_failure candidate_id s =
     (case bt_get (ps_candidates s) candidate_id of
        None \<Rightarrow> (s, None)
      | Some candidate \<Rightarrow>
          let failures = sat_add (rc_consecutive_failures candidate) 1
          in (s\<lparr>ps_candidates := bt_insert candidate_id (candidate\<lparr>rc_consecutive_failures := failures\<rparr>)
                (ps_candidates s)\<rparr>, Some failures))"

definition reset_failures :: "string \<Rightarrow> PoolScheduler \<Rightarrow> PoolScheduler \<times> bool" where
  "reset_failures candidate_id s =
     (case bt_get (ps_candidates s) candidate_id of
        None \<Rightarrow> (s, False)
      | Some candidate \<Rightarrow>
          (s\<lparr>ps_candidates := bt_insert candidate_id (candidate\<lparr>rc_consecutive_failures := 0\<rparr>)
               (ps_candidates s)\<rparr>, True))"

subsection \<open>Cooldowns\<close>

definition is_last_applicable_candidate ::
  "PoolScheduler \<Rightarrow> string \<Rightarrow> string \<Rightarrow> WireApi list \<Rightarrow> CandidateScope \<Rightarrow> u64 \<Rightarrow> bool" where
  "is_last_applicable_candidate s candidate_id model allowed_protocols request_scope now_ms =
     (if \<not> bt_contains (ps_candidates s) candidate_id then False
      else length (filter (\<lambda>candidate. is_eligible s candidate model allowed_protocols request_scope now_ms)
             (bt_values (ps_candidates s))) \<le> 1)"

definition transient_cooldown_allowed ::
  "PoolScheduler \<Rightarrow> string \<Rightarrow> string \<Rightarrow> WireApi list \<Rightarrow> CandidateScope \<Rightarrow> u64 \<Rightarrow> bool" where
  "transient_cooldown_allowed s candidate_id model allowed_protocols request_scope now_ms =
     (case bt_get (ps_candidates s) candidate_id of
        None \<Rightarrow> False
      | Some candidate \<Rightarrow>
          if rc_consecutive_failures candidate < ps_cooldown_after_failures s then False
          else if \<not> ps_keep_last_candidate_available s then True
          else \<not> is_last_applicable_candidate s candidate_id model allowed_protocols request_scope now_ms)"

definition cooldown_scope :: "CooldownRequest \<Rightarrow> string" where
  "cooldown_scope request =
     (if cr_scope request = ''*'' then ''*'' else to_ascii_lowercase (cr_scope request))"

definition should_store_reason :: "PoolScheduler \<Rightarrow> string \<Rightarrow> CooldownRequest \<Rightarrow> bool" where
  "should_store_reason s candidate_id request =
     (let scope = cooldown_scope request;
          previous = Option.bind (bt_get (ps_candidates s) candidate_id)
            (\<lambda>candidate. bt_get (rc_cooldowns candidate) scope);
          previous_reason = bt_get (ps_cooldown_reasons s) (candidate_id, scope)
      in case previous of None \<Rightarrow> True
         | Some current \<Rightarrow>
             cr_retry_at_ms request > current
             \<or> (cr_retry_at_ms request = current \<and> cr_reason request = RateLimit
                 \<and> previous_reason \<noteq> Some Mandatory)
             \<or> (cr_reason request = Mandatory \<and> previous_reason \<noteq> Some Mandatory))"

definition set_cooldown_with_reason_inner ::
  "string \<Rightarrow> CooldownRequest \<Rightarrow> bool \<Rightarrow> PoolScheduler \<Rightarrow> PoolScheduler \<times> bool" where
  "set_cooldown_with_reason_inner candidate_id request enforce_policy s =
     (if enforce_policy \<and> cr_reason request = Transient
         \<and> \<not> transient_cooldown_allowed s candidate_id (cr_policy_model request)
              (cr_allowed_protocols request) (cr_request_scope request) (cr_now_ms request)
      then (s, False)
      else (case bt_get (ps_candidates s) candidate_id of
          None \<Rightarrow> (s, False)
        | Some candidate \<Rightarrow>
            let scope = cooldown_scope request;
                retry_at = (case bt_get (rc_cooldowns candidate) scope of
                  None \<Rightarrow> cr_retry_at_ms request
                | Some current \<Rightarrow> max current (cr_retry_at_ms request))
            in (s\<lparr>ps_candidates := bt_insert candidate_id
                    (candidate\<lparr>rc_cooldowns := bt_insert scope retry_at (rc_cooldowns candidate)\<rparr>)
                    (ps_candidates s),
                  ps_cooldown_reasons := (if should_store_reason s candidate_id request
                    then bt_insert (candidate_id, scope) (cr_reason request) (ps_cooldown_reasons s)
                    else ps_cooldown_reasons s),
                  ps_half_open := (if scope = ''*''
                    then ffilter (\<lambda>h. fst h \<noteq> candidate_id) (ps_half_open s)
                    else ps_half_open s |-| {|(candidate_id, scope)|})\<rparr>, True)))"

definition set_cooldown_with_reason ::
  "string \<Rightarrow> string \<Rightarrow> u64 \<Rightarrow> CooldownReason \<Rightarrow> PoolScheduler \<Rightarrow> PoolScheduler \<times> bool" where
  "set_cooldown_with_reason candidate_id model retry_at_ms reason s =
     set_cooldown_with_reason_inner candidate_id
       \<lparr>cr_scope = model, cr_policy_model = model, cr_allowed_protocols = [],
        cr_request_scope = scope_default, cr_retry_at_ms = retry_at_ms, cr_reason = reason, cr_now_ms = 0\<rparr>
       False s"

definition set_cooldown :: "string \<Rightarrow> string \<Rightarrow> u64 \<Rightarrow> PoolScheduler \<Rightarrow> PoolScheduler \<times> bool" where
  "set_cooldown candidate_id model retry_at_ms s =
     set_cooldown_with_reason candidate_id model retry_at_ms Transient s"

definition set_cooldown_with_reason_for_model_at ::
  "string \<Rightarrow> CooldownRequest \<Rightarrow> PoolScheduler \<Rightarrow> PoolScheduler \<times> bool" where
  "set_cooldown_with_reason_for_model_at candidate_id request s =
     set_cooldown_with_reason_inner candidate_id request True s"

definition clear_cooldown :: "string \<Rightarrow> string \<Rightarrow> PoolScheduler \<Rightarrow> PoolScheduler \<times> bool" where
  "clear_cooldown candidate_id model s =
     (case bt_get (ps_candidates s) candidate_id of
        None \<Rightarrow> (s, False)
      | Some candidate \<Rightarrow>
          let cooldowns = bt_retain (\<lambda>candidate_model _. \<not> eq_ignore_ascii_case candidate_model model)
                (rc_cooldowns candidate);
              removed = (bt_len cooldowns \<noteq> bt_len (rc_cooldowns candidate));
              s = s\<lparr>ps_candidates := bt_insert candidate_id (candidate\<lparr>rc_cooldowns := cooldowns\<rparr>)
                    (ps_candidates s)\<rparr>
          in (if removed
              then s\<lparr>ps_cooldown_reasons := bt_retain (\<lambda>k _. fst k \<noteq> candidate_id
                       \<or> \<not> eq_ignore_ascii_case (snd k) model) (ps_cooldown_reasons s)\<rparr>
              else s, removed))"

end
