(* ===== verification/Scheduler_Invariant.thy ===== *)
theory Scheduler_Invariant
  imports Leases
begin

section \<open>The scheduler as a state machine\<close>

text \<open>
  Every operation of the scheduler except taking and returning a lease is a rule of
  \<open>pool_step\<close>; the arguments are arbitrary, since the gateway, the account refresher and the
  settings screen call them in any order. The invariant \<open>pool_wf\<close> says that nothing the
  scheduler stores beside the candidates outlives its candidate, and that both affinity caches
  stay within their capacity.
\<close>

inductive pool_step :: "(string \<Rightarrow> string) \<Rightarrow> PoolScheduler \<Rightarrow> PoolScheduler \<Rightarrow> bool" for to_lowercase where
  cooldown_policy: "pool_step to_lowercase s (set_cooldown_policy n keep s)"
| storm_enabled: "pool_step to_lowercase s (set_provider_storm_breaker_enabled enabled s)"
| strategy: "pool_step to_lowercase s (set_routing_strategy strategy s)"
| stale_after: "pool_step to_lowercase s (set_quota_stale_after_ms ms s)"
| expiry: "pool_step to_lowercase s (fst (set_candidate_subscription_expiry i e s))"
| plan_order: "pool_step to_lowercase s (set_subscription_plan_order order s)"
| plan: "pool_step to_lowercase s (fst (set_candidate_subscription_plan to_lowercase i p s))"
| upsert: "pool_step to_lowercase s (upsert c s)"
| remove: "pool_step to_lowercase s (fst (remove_candidate i s))"
| protected: "pool_step to_lowercase s (fst (set_protected_candidate p reserve s))"
| availability: "pool_step to_lowercase s (fst (update_candidate_availability_at i enabled h q t s))"
| quota: "pool_step to_lowercase s (fst (update_candidate_quota_at i q t r s))"
| fence: "pool_step to_lowercase s (fst (set_execution_fence i fenced s))"
| block: "pool_step to_lowercase s (fst (block_capability i m s))"
| unblock: "pool_step to_lowercase s (fst (clear_capability_blocks i s))"
| rate_limit: "pool_step to_lowercase s (fst (record_provider_rate_limit i m t s))"
| health: "pool_step to_lowercase s (fst (set_candidate_health i h s))"
| select: "pool_step to_lowercase s (fst (select_for request lane s))"
| retry_hint: "pool_step to_lowercase s (fst (earliest_retry_at request s))"
| cooldown_hint: "pool_step to_lowercase s (fst (all_applicable_cooldown request s))"
| bind_response: "pool_step to_lowercase s (fst (bind_response_affinity k i t s))"
| bind_prompt: "pool_step to_lowercase s (fst (bind_prompt_affinity k i t s))"
| bind_sticky: "pool_step to_lowercase s (fst (bind_prompt_affinity_sticky k i t s))"
| restore_response: "pool_step to_lowercase s (fst (restore_response_affinity k i e t s))"
| restore_prompt: "pool_step to_lowercase s (fst (restore_prompt_affinity k i e t s))"
| has_response: "pool_step to_lowercase s (fst (has_response_affinity k t s))"
| has_prompt: "pool_step to_lowercase s (fst (has_prompt_affinity k t s))"
| invalidate: "pool_step to_lowercase s (fst (invalidate_response_affinity k s))"
| success: "pool_step to_lowercase s (fst (record_success_with_metrics i m t tokens latency s))"
| failure: "pool_step to_lowercase s (fst (record_failure i s))"
| reset: "pool_step to_lowercase s (fst (reset_failures i s))"
| cooldown: "pool_step to_lowercase s (fst (set_cooldown_with_reason_inner i r enforce s))"
| clear: "pool_step to_lowercase s (fst (clear_cooldown i m s))"

subsection \<open>Nothing outlives its candidate\<close>

definition candidate_ids :: "PoolScheduler \<Rightarrow> string set" where
  "candidate_ids s = dom (bt_get (ps_candidates s))"

text \<open>The candidates that some table of the scheduler mentions.\<close>

definition referenced_ids :: "PoolScheduler \<Rightarrow> string set" where
  "referenced_ids s =
     fset (ps_retired_candidates s) \<union> fst ` fset (ps_half_open s) \<union> dom (bt_get (ps_execution_fences s))
     \<union> fst ` fset (ps_capability_blocks s) \<union> dom (bt_get (ps_subscription_expires_at_ms s))
     \<union> dom (bt_get (ps_subscription_plans s)) \<union> fst ` set_option (ps_protected_candidate s)
     \<union> bound_ids (ps_response_affinity s) \<union> bound_ids (ps_prompt_affinity s)"

definition candidates_wf :: "PoolScheduler \<Rightarrow> bool" where
  "candidates_wf s \<longleftrightarrow>
     (\<forall>i c. bt_get (ps_candidates s) i = Some c \<longrightarrow> rc_id c = i)
     \<and> (\<forall>i c. bt_get (ps_candidates s) i = Some c \<longrightarrow> i |\<in>| ps_retired_candidates s \<longrightarrow> rc_draining c)
     \<and> (\<forall>i scope. bt_get (ps_cooldown_reasons s) (i, scope) \<noteq> None \<longrightarrow>
          (\<exists>c t. bt_get (ps_candidates s) i = Some c \<and> bt_get (rc_cooldowns c) scope = Some t))"

definition caches_wf :: "PoolScheduler \<Rightarrow> bool" where
  "caches_wf s \<longleftrightarrow>
     affinity_bounded (ps_response_affinity s) \<and> affinity_bounded (ps_prompt_affinity s)
     \<and> ac_max_entries (ps_response_affinity s) = RESPONSE_AFFINITY_MAX_ENTRIES
     \<and> ac_max_entries (ps_prompt_affinity s) = PROMPT_AFFINITY_MAX_ENTRIES
     \<and> (\<forall>i. bt_get (ps_execution_fences s) i \<noteq> Some 0)"

definition pool_wf :: "PoolScheduler \<Rightarrow> bool" where
  "pool_wf s \<longleftrightarrow> candidates_wf s \<and> referenced_ids s \<subseteq> candidate_ids s \<and> caches_wf s"

subsection \<open>Frames of the operations\<close>

text \<open>
  Most operations touch only configuration: \<open>same_tables\<close> relates two states that agree on all
  that the invariants read.
\<close>

definition same_tables :: "PoolScheduler \<Rightarrow> PoolScheduler \<Rightarrow> bool" where
  "same_tables s s' \<longleftrightarrow>
     ps_candidates s' = ps_candidates s \<and> ps_cooldown_reasons s' = ps_cooldown_reasons s
     \<and> ps_response_affinity s' = ps_response_affinity s \<and> ps_prompt_affinity s' = ps_prompt_affinity s
     \<and> ps_half_open s' = ps_half_open s \<and> ps_execution_fences s' = ps_execution_fences s
     \<and> ps_subscription_expires_at_ms s' = ps_subscription_expires_at_ms s
     \<and> ps_subscription_plans s' = ps_subscription_plans s
     \<and> ps_protected_candidate s' = ps_protected_candidate s
     \<and> ps_capability_blocks s' = ps_capability_blocks s
     \<and> ps_retired_candidates s' = ps_retired_candidates s"

lemmas pool_wf_defs =
  pool_wf_def candidates_wf_def referenced_ids_def candidate_ids_def caches_wf_def

lemma candidate_ids_frame [simp]:
  "candidate_ids (s\<lparr>ps_response_affinity := a\<rparr>) = candidate_ids s"
  "candidate_ids (s\<lparr>ps_prompt_affinity := a\<rparr>) = candidate_ids s"
  "candidate_ids (s\<lparr>ps_half_open := h\<rparr>) = candidate_ids s"
  "candidate_ids (s\<lparr>ps_activity := act\<rparr>) = candidate_ids s"
  "candidate_ids (s\<lparr>ps_cooldown_reasons := r\<rparr>) = candidate_ids s"
  by (simp_all add: candidate_ids_def)

lemma pool_wf_same: "same_tables s s' \<Longrightarrow> pool_wf s \<Longrightarrow> pool_wf s'"
  by (simp add: same_tables_def pool_wf_defs)

lemma same_tables_config:
  "same_tables s (set_cooldown_policy n keep s)"
  "same_tables s (set_provider_storm_breaker_enabled enabled s)"
  "same_tables s (set_routing_strategy strategy s)"
  "same_tables s (set_quota_stale_after_ms ms s)"
  "same_tables s (set_subscription_plan_order order s)"
  "same_tables s (fst (record_provider_rate_limit i m t s))"
  by (auto simp: same_tables_def set_cooldown_policy_def set_provider_storm_breaker_enabled_def
      set_routing_strategy_def set_quota_stale_after_ms_def set_subscription_plan_order_def
      record_provider_rate_limit_def Let_def split: option.splits)

text \<open>
  Changing one candidate in place keeps the invariant when its id stays, it keeps draining, and
  every recorded reason still names one of its cooldowns.
\<close>

lemma candidates_wf_put:
  assumes "candidates_wf s" and "bt_get (ps_candidates s) i = Some c"
    and "rc_id c' = rc_id c" and "rc_draining c' = rc_draining c"
    and "ps_candidates s' = bt_insert i c' (ps_candidates s)"
    and "ps_retired_candidates s' = ps_retired_candidates s"
    and "\<forall>scope. bt_get (ps_cooldown_reasons s') (i, scope) \<noteq> None \<longrightarrow> bt_get (rc_cooldowns c') scope \<noteq> None"
    and "\<forall>j scope. j \<noteq> i \<longrightarrow> bt_get (ps_cooldown_reasons s') (j, scope) \<noteq> None \<longrightarrow>
        bt_get (ps_cooldown_reasons s) (j, scope) \<noteq> None"
  shows "candidates_wf s'"
  unfolding candidates_wf_def
proof (intro conjI allI impI)
  show "rc_id d = j" if "bt_get (ps_candidates s') j = Some d" for j d
    using that assms by (auto simp: candidates_wf_def split: if_splits)
  show "rc_draining d" if "bt_get (ps_candidates s') j = Some d" "j |\<in>| ps_retired_candidates s'" for j d
    using that assms by (auto simp: candidates_wf_def split: if_splits)
  show "\<exists>d t. bt_get (ps_candidates s') j = Some d \<and> bt_get (rc_cooldowns d) scope = Some t"
    if "bt_get (ps_cooldown_reasons s') (j, scope) \<noteq> None" for j scope
    using that assms by (cases "j = i") (auto simp: candidates_wf_def)
qed

lemma candidate_ids_put:
  assumes "bt_get (ps_candidates s) i = Some c" and "ps_candidates s' = bt_insert i c' (ps_candidates s)"
  shows "candidate_ids s' = candidate_ids s"
  using assms by (auto simp: candidate_ids_def split: if_splits)

lemma cooldown_reason_known:
  "candidates_wf s \<Longrightarrow> bt_get (ps_candidates s) i = Some c \<Longrightarrow>
    bt_get (ps_cooldown_reasons s) (i, scope) = Some r \<Longrightarrow> \<exists>t. bt_get (rc_cooldowns c) scope = Some t"
  unfolding candidates_wf_def by (metis option.distinct(1) option.inject)

lemma pool_wfI:
  "candidates_wf s \<Longrightarrow> referenced_ids s \<subseteq> candidate_ids s \<Longrightarrow> caches_wf s \<Longrightarrow> pool_wf s"
  by (simp add: pool_wf_def)

lemma pool_wf_put:
  assumes "pool_wf s" and "bt_get (ps_candidates s) i = Some c"
    and "rc_id c' = rc_id c" "rc_draining c' = rc_draining c" "rc_cooldowns c' = rc_cooldowns c"
  shows "pool_wf (s\<lparr>ps_candidates := bt_insert i c' (ps_candidates s)\<rparr>)" (is "pool_wf ?s")
proof (rule pool_wfI)
  show "candidates_wf ?s"
    by (rule candidates_wf_put [OF _ assms(2-4)])
      (use assms(1) cooldown_reason_known [OF _ assms(2)] in \<open>auto simp: pool_wf_def assms(5)\<close>)
  have "candidate_ids ?s = candidate_ids s" by (rule candidate_ids_put [OF assms(2)]) simp
  then show "referenced_ids ?s \<subseteq> candidate_ids ?s"
    using assms(1) by (simp add: pool_wf_def referenced_ids_def)
  show "caches_wf ?s" using assms(1) by (simp add: pool_wf_def caches_wf_def)
qed

lemma pool_wf_activity [simp]: "pool_wf (s\<lparr>ps_activity := a\<rparr>) = pool_wf s"
  by (simp add: pool_wf_defs)

lemma pool_wf_candidate_updates:
  assumes "pool_wf s"
  shows "pool_wf (fst (update_candidate_availability_at i enabled h q t s))"
    and "pool_wf (fst (update_candidate_quota_at i q t r s))"
    and "pool_wf (fst (record_failure i s))"
    and "pool_wf (fst (reset_failures i s))"
  using assms pool_wf_put [OF assms]
  by (auto simp: update_candidate_availability_at_def update_candidate_quota_at_def record_failure_def
      reset_failures_def Let_def split: option.splits)

lemma bt_update_known: "bt_get m k = Some v \<Longrightarrow> bt_update k f m = bt_insert k (f v) m"
  by (rule bt_map_eqI) auto

lemma pool_wf_health: "pool_wf s \<Longrightarrow> pool_wf (fst (set_candidate_health i h s))"
  by (auto simp: set_candidate_health_def bt_update_known pool_wf_put)

text \<open>Operations that only touch the side tables.\<close>

lemma pool_wf_tables:
  assumes "pool_wf s" and "ps_candidates s' = ps_candidates s"
    and "ps_cooldown_reasons s' = ps_cooldown_reasons s" and "ps_retired_candidates s' = ps_retired_candidates s"
    and "referenced_ids s' \<subseteq> candidate_ids s" and "caches_wf s'"
  shows "pool_wf s'"
  using assms by (simp add: pool_wf_def candidates_wf_def candidate_ids_def)

lemma candidate_ids_iff: "i \<in> candidate_ids s \<longleftrightarrow> bt_get (ps_candidates s) i \<noteq> None"
  by (auto simp: candidate_ids_def)

lemma pool_wf_expiry:
  assumes "pool_wf s"
  shows "pool_wf (fst (set_candidate_subscription_expiry i e s))"
  by (rule pool_wf_tables [OF assms])
    (use assms in \<open>auto simp: set_candidate_subscription_expiry_def pool_wf_def caches_wf_def referenced_ids_def
      candidate_ids_iff bt_dom_simps split: option.splits\<close>)

lemma pool_wf_plan:
  assumes "pool_wf s"
  shows "pool_wf (fst (set_candidate_subscription_plan low i p s))"
  by (rule pool_wf_tables [OF assms])
    (use assms in \<open>auto simp: set_candidate_subscription_plan_def pool_wf_def caches_wf_def referenced_ids_def
      candidate_ids_iff bt_dom_simps\<close>)

lemma pool_wf_protected:
  assumes "pool_wf s"
  shows "pool_wf (fst (set_protected_candidate pc reserve s))"
  by (rule pool_wf_tables [OF assms])
    (use assms in \<open>auto simp: set_protected_candidate_def pool_wf_def caches_wf_def referenced_ids_def candidate_ids_iff
      split: option.splits\<close>)

lemma pool_wf_block:
  assumes "pool_wf s"
  shows "pool_wf (fst (block_capability i m s))"
  by (rule pool_wf_tables [OF assms])
    (use assms in \<open>auto simp: block_capability_def pool_wf_def caches_wf_def referenced_ids_def candidate_ids_iff\<close>)

lemma pool_wf_unblock:
  assumes "pool_wf s"
  shows "pool_wf (fst (clear_capability_blocks i s))"
  by (rule pool_wf_tables [OF assms])
    (use assms in \<open>auto simp: clear_capability_blocks_def pool_wf_def caches_wf_def referenced_ids_def Let_def\<close>)

lemma word_gt_1_minus: "\<not> n \<le> 1 \<Longrightarrow> n - 1 \<noteq> (0 :: 'a::len word)"
  by (metis eq_iff_diff_eq_0 order_refl)

lemma pool_wf_fences:
  assumes "pool_wf s" and "\<forall>j n. bt_get fences j = Some n \<longrightarrow> j \<in> candidate_ids s \<and> n \<noteq> 0"
  shows "pool_wf (s\<lparr>ps_execution_fences := fences\<rparr>)"
  by (rule pool_wf_tables [OF assms(1)]) (use assms in \<open>auto simp: pool_wf_def referenced_ids_def caches_wf_def\<close>)

lemma pool_wf_fence:
  assumes "pool_wf s"
  shows "pool_wf (fst (set_execution_fence i fenced s))"
proof (cases "bt_get (ps_candidates s) i")
  case (Some c)
  have fences: "\<forall>j n. bt_get (ps_execution_fences s) j = Some n \<longrightarrow> j \<in> candidate_ids s"
      "\<forall>j. bt_get (ps_execution_fences s) j \<noteq> Some 0"
    using assms by (auto simp: pool_wf_def referenced_ids_def caches_wf_def)
  have "i \<in> candidate_ids s" using Some by (simp add: candidate_ids_iff)
  then show ?thesis
    using fences Some assms unfolding set_execution_fence_def
    by (auto simp: word_gt_1_minus split: option.split if_splits intro!: pool_wf_fences)
qed (simp add: set_execution_fence_def assms)

text \<open>A step of one of the caches that was given known candidates.\<close>

lemma pool_wf_response:
  assumes "pool_wf s" and "cache_step (candidate_ids s) (ps_response_affinity s) cache"
  shows "pool_wf (s\<lparr>ps_response_affinity := cache\<rparr>)"
  by (rule pool_wf_tables [OF assms(1)])
    (use assms in \<open>auto simp: pool_wf_def referenced_ids_def caches_wf_def cache_step_def\<close>)

lemma pool_wf_prompt:
  assumes "pool_wf s" and "cache_step (candidate_ids s) (ps_prompt_affinity s) cache"
  shows "pool_wf (s\<lparr>ps_prompt_affinity := cache\<rparr>)"
  by (rule pool_wf_tables [OF assms(1)])
    (use assms in \<open>auto simp: pool_wf_def referenced_ids_def caches_wf_def cache_step_def\<close>)

lemmas pool_wf_cache = pool_wf_response pool_wf_prompt

lemma pool_wf_affinity_ops:
  assumes "pool_wf s"
  shows "pool_wf (fst (bind_response_affinity k i t s))"
    and "pool_wf (fst (bind_prompt_affinity k i t s))"
    and "pool_wf (fst (bind_prompt_affinity_sticky k i t s))"
    and "pool_wf (fst (restore_response_affinity k i e t s))"
    and "pool_wf (fst (restore_prompt_affinity k i e t s))"
    and "pool_wf (fst (has_response_affinity k t s))"
    and "pool_wf (fst (has_prompt_affinity k t s))"
    and "pool_wf (fst (invalidate_response_affinity k s))"
  using assms
  by (auto simp: bind_response_affinity_def bind_prompt_affinity_def bind_prompt_affinity_sticky_def
      restore_response_affinity_def restore_prompt_affinity_def has_response_affinity_def
      has_prompt_affinity_def invalidate_response_affinity_def candidate_ids_iff case_prod_beta
      intro!: pool_wf_cache cache_step_intros)

lemma pool_wf_select: "pool_wf s \<Longrightarrow> pool_wf (fst (select_for request lane s))"
  by (auto simp: select_for_def select_response_affinity_def prompt_affinity_owner_def affinity_get_pair Let_def
      split: option.split intro!: pool_wf_cache cache_step_intros)

lemma pool_wf_hints:
  assumes "pool_wf s"
  shows "pool_wf (fst (earliest_retry_at request s))" and "pool_wf (fst (all_applicable_cooldown request s))"
  using assms
  by (auto simp: earliest_retry_at_def all_applicable_cooldown_def affinity_get_pair Let_def
      split: option.split intro!: pool_wf_cache cache_step_intros)

text \<open>Operations that rewrite a candidate's cooldowns together with the recorded reasons.\<close>

lemma pool_wf_cooldowns:
  assumes wf: "pool_wf s" and c: "bt_get (ps_candidates s) i = Some c"
    and c': "rc_id c' = rc_id c" "rc_draining c' = rc_draining c"
    and s': "ps_candidates s' = bt_insert i c' (ps_candidates s)"
      "ps_retired_candidates s' = ps_retired_candidates s"
      "referenced_ids s' \<subseteq> referenced_ids s" "caches_wf s'"
    and reasons: "\<forall>scope. bt_get (ps_cooldown_reasons s') (i, scope) \<noteq> None \<longrightarrow> bt_get (rc_cooldowns c') scope \<noteq> None"
    and others: "\<forall>j scope. j \<noteq> i \<longrightarrow> bt_get (ps_cooldown_reasons s') (j, scope) \<noteq> None \<longrightarrow>
        bt_get (ps_cooldown_reasons s) (j, scope) \<noteq> None"
  shows "pool_wf s'"
proof (rule pool_wfI)
  show "candidates_wf s'"
    using wf by (intro candidates_wf_put [OF _ c c' s'(1,2) reasons others]) (simp add: pool_wf_def)
  show "referenced_ids s' \<subseteq> candidate_ids s'"
    using wf s'(3) candidate_ids_put [OF c s'(1)] by (auto simp: pool_wf_def)
qed (rule s'(4))

lemma pool_wf_storm [simp]: "pool_wf (s\<lparr>ps_provider_storm_breakers := b\<rparr>) = pool_wf s"
  by (simp add: pool_wf_defs)

lemma pool_wf_success: 
  assumes "pool_wf s"
  shows "pool_wf (fst (record_success_with_metrics i m t tokens latency s))"
proof (cases "bt_get (ps_candidates s) i")
  case (Some c)
  have "caches_wf s" using assms by (simp add: pool_wf_def)
  then show ?thesis
    unfolding record_success_with_metrics_def Some option.case Let_def fst_conv
    by (intro pool_wf_cooldowns [OF assms Some])
      (auto simp: referenced_ids_def caches_wf_def split: option.splits)
qed (simp add: record_success_with_metrics_def assms)

lemma pool_wf_cooldown:
  assumes "pool_wf s"
  shows "pool_wf (fst (set_cooldown_with_reason_inner i r enforce s))"
proof (cases "bt_get (ps_candidates s) i")
  case (Some c)
  have "caches_wf s" "candidates_wf s" using assms by (simp_all add: pool_wf_def)
  then show ?thesis
    unfolding set_cooldown_with_reason_inner_def Some option.case Let_def
    using cooldown_reason_known [OF _ Some] assms
    by (auto intro!: pool_wf_cooldowns [OF assms Some, where c' = "c\<lparr>rc_cooldowns :=
          bt_insert (cooldown_scope r) t (rc_cooldowns c)\<rparr>" for t]
        simp: referenced_ids_def caches_wf_def split: if_splits)
qed (simp add: set_cooldown_with_reason_inner_def assms)

lemma pool_wf_clear:
  assumes "pool_wf s"
  shows "pool_wf (fst (clear_cooldown i m s))"
proof (cases "bt_get (ps_candidates s) i")
  case (Some c)
  let ?cd = "bt_retain (\<lambda>candidate_model _. \<not> eq_ignore_ascii_case candidate_model m) (rc_cooldowns c)"
  have wf: "caches_wf s" "candidates_wf s" using assms by (simp_all add: pool_wf_def)
  have put: "pool_wf s'"
    if "ps_candidates s' = bt_insert i (c\<lparr>rc_cooldowns := ?cd\<rparr>) (ps_candidates s)"
      and "ps_retired_candidates s' = ps_retired_candidates s" "referenced_ids s' \<subseteq> referenced_ids s" "caches_wf s'"
      and "\<forall>scope. bt_get (ps_cooldown_reasons s') (i, scope) \<noteq> None \<longrightarrow> bt_get ?cd scope \<noteq> None"
      and "\<forall>j scope. j \<noteq> i \<longrightarrow> bt_get (ps_cooldown_reasons s') (j, scope) \<noteq> None \<longrightarrow>
        bt_get (ps_cooldown_reasons s) (j, scope) \<noteq> None" for s'
    using that by (intro pool_wf_cooldowns [OF assms Some]) auto
  show ?thesis
  proof (cases "bt_len ?cd = bt_len (rc_cooldowns c)")
    case True
    then have "?cd = rc_cooldowns c" by (rule bt_retain_same_len)
    then show ?thesis
      using cooldown_reason_known [OF wf(2) Some] wf(1)
      unfolding clear_cooldown_def Some option.case Let_def
      by (auto intro!: put simp: referenced_ids_def caches_wf_def)
  next
    case False
    then show ?thesis
      using cooldown_reason_known [OF wf(2) Some] wf(1)
      unfolding clear_cooldown_def Some option.case Let_def
      by (auto intro!: put simp: referenced_ids_def caches_wf_def split: option.splits if_splits)
  qed
qed (simp add: clear_cooldown_def assms)

text \<open>Adding and removing candidates.\<close>

lemma pool_wf_upsert:
  assumes "pool_wf s"
  shows "pool_wf (upsert c s)"
proof (rule pool_wfI)
  have wf: "candidates_wf s" using assms by (simp add: pool_wf_def)
  show "candidates_wf (upsert c s)"
    unfolding candidates_wf_def
  proof (intro conjI allI impI)
    show "rc_id d = i" if "bt_get (ps_candidates (upsert c s)) i = Some d" for i d
      using that wf by (auto simp: upsert_def candidates_wf_def split: if_splits)
    show "rc_draining d" if "bt_get (ps_candidates (upsert c s)) i = Some d"
      "i |\<in>| ps_retired_candidates (upsert c s)" for i d
      using that wf by (auto simp: upsert_def candidates_wf_def)
    show "\<exists>d t. bt_get (ps_candidates (upsert c s)) i = Some d \<and> bt_get (rc_cooldowns d) scope = Some t"
      if "bt_get (ps_cooldown_reasons (upsert c s)) (i, scope) \<noteq> None" for i scope
      using that wf by (cases "i = rc_id c") (auto simp: upsert_def candidates_wf_def split: option.splits if_splits)
  qed
  show "referenced_ids (upsert c s) \<subseteq> candidate_ids (upsert c s)"
  proof -
    have "referenced_ids (upsert c s) \<subseteq> referenced_ids s" by (auto simp: upsert_def referenced_ids_def)
    moreover have "candidate_ids s \<subseteq> candidate_ids (upsert c s)"
      by (auto simp: upsert_def candidate_ids_def bt_dom_simps simp del: bt_get_insert)
    ultimately show ?thesis using assms by (auto simp: pool_wf_def)
  qed
  show "caches_wf (upsert c s)" using assms by (simp add: upsert_def pool_wf_def caches_wf_def)
qed

lemma remove_now_fields:
  "ps_candidates (fst (remove_now i s)) = bt_remove i (ps_candidates s)"
  "ps_retired_candidates (fst (remove_now i s)) = ps_retired_candidates s |-| {|i|}"
  "ps_cooldown_reasons (fst (remove_now i s)) = bt_retain (\<lambda>k _. fst k \<noteq> i) (ps_cooldown_reasons s)"
  "ps_activity (fst (remove_now i s)) = activity_remove_candidate i (ps_activity s)"
  "ps_half_open (fst (remove_now i s)) = ffilter (\<lambda>h. fst h \<noteq> i) (ps_half_open s)"
  "ps_execution_fences (fst (remove_now i s)) = bt_remove i (ps_execution_fences s)"
  "ps_capability_blocks (fst (remove_now i s)) = ffilter (\<lambda>b. fst b \<noteq> i) (ps_capability_blocks s)"
  "ps_subscription_expires_at_ms (fst (remove_now i s)) = bt_remove i (ps_subscription_expires_at_ms s)"
  "ps_subscription_plans (fst (remove_now i s)) = bt_remove i (ps_subscription_plans s)"
  "ps_response_affinity (fst (remove_now i s)) = fst (affinity_invalidate_candidate i (ps_response_affinity s))"
  "ps_prompt_affinity (fst (remove_now i s)) = fst (affinity_invalidate_candidate i (ps_prompt_affinity s))"
  "ps_protected_candidate (fst (remove_now i s)) = filter_option (\<lambda>p. fst p \<noteq> i) (ps_protected_candidate s)"
  by (auto simp: remove_now_def Let_def filter_option_def split: option.splits)

lemma remove_now_references: "referenced_ids (fst (remove_now i s)) \<subseteq> referenced_ids s - {i}"
  unfolding referenced_ids_def remove_now_fields bound_ids_invalidate_candidate bt_dom_simps
  by (auto simp: filter_option_def split: option.splits if_splits)

lemma pool_wf_remove_now:
  assumes "pool_wf s"
  shows "pool_wf (fst (remove_now i s))"
proof (rule pool_wfI)
  show "candidates_wf (fst (remove_now i s))"
    using assms unfolding candidates_wf_def remove_now_fields pool_wf_def
    by (auto split: option.splits if_splits)
  show "referenced_ids (fst (remove_now i s)) \<subseteq> candidate_ids (fst (remove_now i s))"
    using assms remove_now_references [of i s]
    by (auto simp: pool_wf_def candidate_ids_def remove_now_fields bt_dom_simps)
  show "caches_wf (fst (remove_now i s))"
    using assms cache_step_invalidate_candidate [of UNIV _ i]
    by (auto simp: pool_wf_def caches_wf_def remove_now_fields cache_step_def)
qed

lemma pool_wf_retire:
  assumes "pool_wf s" and c: "bt_get (ps_candidates s) i = Some c"
  shows "pool_wf (s\<lparr>ps_response_affinity := fst (affinity_invalidate_candidate i (ps_response_affinity s)),
    ps_prompt_affinity := fst (affinity_invalidate_candidate i (ps_prompt_affinity s)),
    ps_candidates := bt_update i (\<lambda>c. c\<lparr>rc_enabled := False, rc_draining := True\<rparr>) (ps_candidates s),
    ps_retired_candidates := finsert i (ps_retired_candidates s)\<rparr>)" (is "pool_wf ?s")
proof (rule pool_wfI)
  show "candidates_wf ?s"
    using assms unfolding pool_wf_def candidates_wf_def by (fastforce simp: bt_update_known split: if_splits)
  show "referenced_ids ?s \<subseteq> candidate_ids ?s"
    using assms by (auto simp: bt_update_known pool_wf_def referenced_ids_def candidate_ids_def bt_dom_simps
        bound_ids_invalidate_candidate)
  show "caches_wf ?s"
    using assms cache_step_invalidate_candidate [of UNIV _ i] by (auto simp: pool_wf_def caches_wf_def cache_step_def)
qed

lemma pool_wf_remove: "pool_wf s \<Longrightarrow> pool_wf (fst (remove_candidate i s))"
  by (auto simp: remove_candidate_def pool_wf_retire pool_wf_remove_now split: option.split)

lemma pool_wf_finalize: "pool_wf s \<Longrightarrow> pool_wf (finalize_retired_if_idle i s)"
  by (simp add: finalize_retired_if_idle_def pool_wf_remove_now)

text \<open>Leases.\<close>

lemma pool_wf_half_open:
  assumes "pool_wf s" and "fst ` fset half \<subseteq> candidate_ids s"
  shows "pool_wf (s\<lparr>ps_half_open := half\<rparr>)"
  by (rule pool_wf_tables [OF assms(1)]) (use assms in \<open>auto simp: pool_wf_def referenced_ids_def caches_wf_def\<close>)

lemma half_open_known:
  assumes "pool_wf s" and "(i, scope) |\<in>| ps_half_open s"
  shows "i \<in> candidate_ids s"
proof -
  have "i \<in> fst ` fset (ps_half_open s)" using assms(2) by (rule image_eqI [rotated]) simp
  then show ?thesis using assms(1) by (auto simp only: pool_wf_def referenced_ids_def)
qed

lemma pool_wf_reserve:
  assumes "pool_wf s"
  shows "pool_wf (fst (reserve_for_lane i m t lane s))"
  using assms
  by (auto simp: reserve_for_lane_def Let_def split: option.split
      intro!: pool_wf_half_open candidate_ids_iff [THEN iffD2]
      dest!: half_open_known [OF assms] candidate_ids_iff [THEN iffD1])

lemma pool_wf_release:
  assumes "pool_wf s"
  shows "pool_wf (fst (release_for_lane i m lane s))"
  using assms
  by (auto dest!: half_open_known [OF assms] simp: release_for_lane_def Let_def case_prod_beta split: option.split
      intro!: pool_wf_finalize pool_wf_half_open)

lemmas pool_wf_intros =
  pool_wf_expiry pool_wf_plan pool_wf_protected pool_wf_block pool_wf_unblock pool_wf_fence
  pool_wf_affinity_ops pool_wf_select pool_wf_hints pool_wf_candidate_updates pool_wf_health
  pool_wf_success pool_wf_cooldown pool_wf_clear pool_wf_upsert pool_wf_remove

lemma pool_wf_step: "pool_step low s s' \<Longrightarrow> pool_wf s \<Longrightarrow> pool_wf s'"
  by (induction rule: pool_step.induct)
    (blast intro: pool_wf_intros pool_wf_same [OF same_tables_config(1)] pool_wf_same [OF same_tables_config(2)]
      pool_wf_same [OF same_tables_config(3)] pool_wf_same [OF same_tables_config(4)]
      pool_wf_same [OF same_tables_config(5)] pool_wf_same [OF same_tables_config(6)])+

lemma pool_wf_new: "pool_wf scheduler_new"
  by (simp add: pool_wf_defs scheduler_new_def bounded_new bt_dom_simps)

end
