(* ===== verification/Runtime_Selection.thy ===== *)
theory Runtime_Selection
  imports Scheduler_Invariant "HOL-Library.Multiset"
begin

section \<open>Selection and leases at the runtime level (\<open>runtime/selection.rs\<close>, \<open>runtime.rs\<close>)\<close>

text \<open>
  The runtime selects a candidate and reserves it under one scheduler lock, hands out a
  \<open>CandidateLease\<close>, and returns the lease when it is dropped. The durable affinity store
  (\<open>ResponseAffinityStore\<close>, a database outside this crate) is a parameter: its \<open>find\<close>. What
  the runtime tells the outside world (activity callbacks, persisted bindings, wake-ups) is the
  list of effects each function returns.
\<close>

subsection \<open>Data\<close>

record ResponseAffinityBinding =
  rb_key :: string
  rb_candidate_id :: string
  rb_expires_at_ms :: u64

record RuntimeActivitySnapshot =
  ra_revision :: u64
  ra_candidate_id :: string
  ra_in_flight :: u32
  ra_active_request_count :: u32
  ra_active_models :: "ActiveModelRuntime list"

record CandidateLease =
  cl_candidate_id :: string
  cl_model :: string
  cl_lane :: InFlightLane
  cl_released :: bool

datatype RuntimeEffect =
    ActivityChanged RuntimeActivitySnapshot
  | PersistAffinity ResponseAffinityBinding
  | DeleteAffinity string
  | NotifyAvailability

record GatewayRuntime =
  gr_scheduler :: PoolScheduler
  gr_activity_revision :: u64
  gr_has_affinity_store :: bool
  gr_source_recovery_delays_ms :: "(string, u64) btree_map"
  gr_max_retry_candidates :: nat

type_synonym find_fn = "string \<Rightarrow> u64 \<Rightarrow> string + ResponseAffinityBinding option"

subsection \<open>Taking a lease\<close>

definition activity_snapshot :: "string \<Rightarrow> GatewayRuntime \<Rightarrow> GatewayRuntime \<times> RuntimeActivitySnapshot" where
  "activity_snapshot candidate_id rt =
     (case runtime_activity_for (gr_scheduler rt) candidate_id of
        (in_flight, request_count, models) \<Rightarrow>
          (rt\<lparr>gr_activity_revision := gr_activity_revision rt + 1\<rparr>,
           \<lparr>ra_revision = gr_activity_revision rt + 1, ra_candidate_id = candidate_id,
            ra_in_flight = in_flight, ra_active_request_count = request_count,
            ra_active_models = models\<rparr>))"

definition restore_from_store ::
  "(string \<Rightarrow> u64 \<Rightarrow> PoolScheduler \<Rightarrow> PoolScheduler \<times> bool) \<Rightarrow>
   (string \<Rightarrow> string \<Rightarrow> u64 \<Rightarrow> u64 \<Rightarrow> PoolScheduler \<Rightarrow> PoolScheduler \<times> bool) \<Rightarrow>
   find_fn \<Rightarrow> string option \<Rightarrow> u64 \<Rightarrow> GatewayRuntime \<Rightarrow> GatewayRuntime" where
  "restore_from_store has restore find_binding affinity_key now_ms rt =
     (case affinity_key of
        None \<Rightarrow> rt
      | Some key \<Rightarrow>
          if \<not> gr_has_affinity_store rt then rt
          else (case has key now_ms (gr_scheduler rt) of
              (s, cached) \<Rightarrow>
                if cached then rt\<lparr>gr_scheduler := s\<rparr>
                else (case find_binding key now_ms of
                    Inr (Some binding) \<Rightarrow>
                      rt\<lparr>gr_scheduler := fst (restore (rb_key binding) (rb_candidate_id binding)
                          (rb_expires_at_ms binding) now_ms s)\<rparr>
                  | _ \<Rightarrow> rt\<lparr>gr_scheduler := s\<rparr>)))"

definition select_and_reserve_locked ::
  "SelectionRequest \<Rightarrow> InFlightLane \<Rightarrow> PoolScheduler \<Rightarrow> PoolScheduler \<times> (Selection \<times> CandidateLease) option" where
  "select_and_reserve_locked request lane s =
     (case select_for request lane s of
        (s, None) \<Rightarrow> (s, None)
      | (s, Some selection) \<Rightarrow>
          (case reserve_for_lane (sl_candidate_id selection) (rq_model request) (rq_now_ms request) lane s of
             (s, reserved) \<Rightarrow>
               (s, if reserved
                   then Some (selection, \<lparr>cl_candidate_id = sl_candidate_id selection,
                     cl_model = rq_model request, cl_lane = lane, cl_released = False\<rparr>)
                   else None)))"

definition persist_response_affinity :: "string \<Rightarrow> string \<Rightarrow> u64 \<Rightarrow> GatewayRuntime \<Rightarrow> RuntimeEffect list" where
  "persist_response_affinity key candidate_id now_ms rt =
     (if gr_has_affinity_store rt
      then [PersistAffinity \<lparr>rb_key = key, rb_candidate_id = candidate_id,
              rb_expires_at_ms = sat_add now_ms RESPONSE_AFFINITY_TTL_MS\<rparr>]
      else [])"

definition persist_prompt_affinity :: "string \<Rightarrow> string \<Rightarrow> u64 \<Rightarrow> GatewayRuntime \<Rightarrow> RuntimeEffect list" where
  "persist_prompt_affinity key candidate_id now_ms rt =
     (if gr_has_affinity_store rt
      then [PersistAffinity \<lparr>rb_key = key, rb_candidate_id = candidate_id,
              rb_expires_at_ms = sat_add now_ms PROMPT_AFFINITY_TTL_MS\<rparr>]
      else [])"

definition try_select_and_reserve_for ::
  "find_fn \<Rightarrow> SelectionRequest \<Rightarrow> InFlightLane \<Rightarrow> GatewayRuntime \<Rightarrow>
   GatewayRuntime \<times> (Selection \<times> CandidateLease) option \<times> RuntimeEffect list" where
  "try_select_and_reserve_for find_binding request lane rt =
     (let now_ms = rq_now_ms request;
          rt = restore_from_store has_response_affinity restore_response_affinity find_binding
                 (rq_response_affinity_key request) now_ms rt;
          rt = restore_from_store has_prompt_affinity restore_prompt_affinity find_binding
                 (rq_prompt_affinity_key request) now_ms rt
      in case select_and_reserve_locked request lane (gr_scheduler rt) of
           (s, None) \<Rightarrow> (rt\<lparr>gr_scheduler := s\<rparr>, None, [])
         | (s, Some (selection, lease)) \<Rightarrow>
             (case activity_snapshot (sl_candidate_id selection) (rt\<lparr>gr_scheduler := s\<rparr>) of
                (rt, activity) \<Rightarrow>
                  (rt, Some (selection, lease),
                   ActivityChanged activity #
                   (case rq_response_affinity_key request of
                      Some key \<Rightarrow> if sl_response_affinity_hit selection
                        then persist_response_affinity key (sl_candidate_id selection) now_ms rt else []
                    | None \<Rightarrow> []))))"

subsection \<open>Returning a lease\<close>

definition lease_release ::
  "CandidateLease \<Rightarrow> GatewayRuntime \<Rightarrow> GatewayRuntime \<times> CandidateLease \<times> RuntimeEffect list" where
  "lease_release lease rt =
     (if cl_released lease then (rt, lease, [])
      else
        let lease = lease\<lparr>cl_released := True\<rparr>
        in case release_for_lane (cl_candidate_id lease) (Some (cl_model lease)) (cl_lane lease) (gr_scheduler rt) of
             (s, released) \<Rightarrow>
               if \<not> released then (rt\<lparr>gr_scheduler := s\<rparr>, lease, [])
               else (case activity_snapshot (cl_candidate_id lease) (rt\<lparr>gr_scheduler := s\<rparr>) of
                   (rt, activity) \<Rightarrow> (rt, lease, [NotifyAvailability, ActivityChanged activity])))"

subsection \<open>Affinity bindings of a finished request (\<open>runtime/session_state.rs\<close>)\<close>

text \<open>\<open>sha256_hex\<close>, the lower-case hexadecimal SHA-256 digest, is a parameter.\<close>

definition response_affinity_key :: "(string \<Rightarrow> string) \<Rightarrow> string option \<Rightarrow> string option" where
  "response_affinity_key sha256_hex response_id =
     (case response_id of None \<Rightarrow> None
      | Some response_id \<Rightarrow>
          let response_id = trim response_id
          in if response_id = [] then None else Some (sha256_hex (''response'' @ [CHR 0x00] @ response_id)))"

definition prompt_affinity_key ::
  "(string \<Rightarrow> string) \<Rightarrow> string \<Rightarrow> string \<Rightarrow> string option \<Rightarrow> string option \<Rightarrow> string option" where
  "prompt_affinity_key sha256_hex local_key_id model prompt_cache_key client_context_id =
     (let cache = map_option (Pair ''cache'') (trimmed_nonempty prompt_cache_key);
          material = (case cache of Some m \<Rightarrow> Some m
            | None \<Rightarrow> map_option (Pair ''session'') (trimmed_nonempty client_context_id))
      in case material of None \<Rightarrow> None
         | Some (material_kind, value) \<Rightarrow>
             Some ((if material_kind = ''cache'' then ''cache:'' else ''session:'') @
               sha256_hex (''prompt'' @ [CHR 0x00] @ local_key_id @ [CHR 0x00] @ to_ascii_lowercase model
                 @ [CHR 0x00] @ material_kind @ [CHR 0x00] @ value)))"

definition runtime_bind_prompt_affinity ::
  "string option \<Rightarrow> string \<Rightarrow> u64 \<Rightarrow> GatewayRuntime \<Rightarrow> GatewayRuntime \<times> RuntimeEffect list" where
  "runtime_bind_prompt_affinity key candidate_id now_ms rt =
     (case key of None \<Rightarrow> (rt, [])
      | Some key \<Rightarrow>
          (case bind_prompt_affinity_sticky key candidate_id now_ms (gr_scheduler rt) of
             (s, bound) \<Rightarrow>
               (rt\<lparr>gr_scheduler := s\<rparr>,
                if bound then persist_prompt_affinity key candidate_id now_ms rt else [])))"

definition runtime_bind_response_affinity ::
  "(string \<Rightarrow> string) \<Rightarrow> string option \<Rightarrow> string \<Rightarrow> u64 \<Rightarrow> GatewayRuntime \<Rightarrow> GatewayRuntime \<times> RuntimeEffect list" where
  "runtime_bind_response_affinity sha256_hex response_id candidate_id now_ms rt =
     (case response_affinity_key sha256_hex response_id of None \<Rightarrow> (rt, [])
      | Some key \<Rightarrow>
          (case bind_response_affinity key candidate_id now_ms (gr_scheduler rt) of
             (s, bound) \<Rightarrow>
               (rt\<lparr>gr_scheduler := s\<rparr>,
                if bound then persist_response_affinity key candidate_id now_ms rt else [])))"

definition runtime_invalidate_response_affinity ::
  "string option \<Rightarrow> GatewayRuntime \<Rightarrow> GatewayRuntime \<times> bool \<times> RuntimeEffect list" where
  "runtime_invalidate_response_affinity key rt =
     (case key of None \<Rightarrow> (rt, False, [])
      | Some key \<Rightarrow>
          (case invalidate_response_affinity key (gr_scheduler rt) of
             (s, invalidated) \<Rightarrow>
               (rt\<lparr>gr_scheduler := s\<rparr>, invalidated,
                if invalidated \<and> gr_has_affinity_store rt then [DeleteAffinity key] else [])))"

end
