(* ===== verification/Lease_System.thy ===== *)
theory Lease_System
  imports Runtime_Selection
begin

section \<open>Leases and the scheduler together\<close>

text \<open>
  The state machine of a running gateway: the scheduler and the multiset of leases that have been
  handed out and not yet dropped. A lease is taken by selecting and reserving under the lock and
  returned at any later time; in between, any operation of the pool may happen, including removing
  the candidate the lease is for. The invariant \<open>leases_match\<close> says that the scheduler's counters
  are exactly the outstanding leases. The counters are \<open>u32\<close> and saturate, so a lease is only
  taken while fewer than \<open>2 ^ 32 - 1\<close> are outstanding.
\<close>

inductive gateway_step ::
  "(string \<Rightarrow> string) \<Rightarrow> PoolScheduler \<times> CandidateLease multiset \<Rightarrow> PoolScheduler \<times> CandidateLease multiset \<Rightarrow> bool"
  for to_lowercase where
  pool: "pool_step to_lowercase s s' \<Longrightarrow> gateway_step to_lowercase (s, leases) (s', leases)"
| acquire: "select_and_reserve_locked request lane s = (s', Some (selection, lease)) \<Longrightarrow>
    size leases < 2 ^ 32 - 1 \<Longrightarrow>
    gateway_step to_lowercase (s, leases) (s', add_mset lease leases)"
| refused: "select_and_reserve_locked request lane s = (s', None) \<Longrightarrow>
    gateway_step to_lowercase (s, leases) (s', leases)"
| drop: "gateway_step to_lowercase (s, add_mset lease leases)
    (fst (release_for_lane (cl_candidate_id lease) (Some (cl_model lease)) (cl_lane lease) s), leases)"

inductive_cases gateway_stepE: "gateway_step low a b"

abbreviation reachable :: "(string \<Rightarrow> string) \<Rightarrow> PoolScheduler \<times> CandidateLease multiset \<Rightarrow> bool" where
  "reachable to_lowercase \<equiv> reach (gateway_step to_lowercase) (scheduler_new, {#})"

subsection \<open>Counting leases\<close>

definition leases_on :: "CandidateLease multiset \<Rightarrow> string \<Rightarrow> InFlightLane \<Rightarrow> nat" where
  "leases_on leases c l = size (filter_mset (\<lambda>x. cl_candidate_id x = c \<and> cl_lane x = l) leases)"

definition leases_for_model :: "CandidateLease multiset \<Rightarrow> string \<Rightarrow> InFlightLane \<Rightarrow> string \<Rightarrow> nat" where
  "leases_for_model leases c l m =
     size (filter_mset (\<lambda>x. cl_candidate_id x = c \<and> cl_lane x = l \<and> to_ascii_lowercase (cl_model x) = m) leases)"

lemma leases_on_add:
  "leases_on (add_mset x L) c l = (if cl_candidate_id x = c \<and> cl_lane x = l then Suc (leases_on L c l) else leases_on L c l)"
  by (simp add: leases_on_def)

lemma leases_for_model_add:
  "leases_for_model (add_mset x L) c l m =
    (if cl_candidate_id x = c \<and> cl_lane x = l \<and> to_ascii_lowercase (cl_model x) = m
     then Suc (leases_for_model L c l m) else leases_for_model L c l m)"
  by (simp add: leases_for_model_def)

lemma leases_on_le: "leases_on L c l \<le> size L"
  by (simp add: leases_on_def size_filter_mset_lesseq)

definition model_counter :: "SchedulerActivity \<Rightarrow> string \<Rightarrow> InFlightLane \<Rightarrow> string \<Rightarrow> nat" where
  "model_counter a c l m = (case bt_get (lane_models a c l) m of None \<Rightarrow> 0 | Some n \<Rightarrow> unat n)"

definition counters_match :: "SchedulerActivity \<Rightarrow> CandidateLease multiset \<Rightarrow> bool" where
  "counters_match a leases \<longleftrightarrow> activity_balanced a
     \<and> (\<forall>c l. unat (activity_in_flight_count a c l) = leases_on leases c l)
     \<and> (\<forall>c l m. model_counter a c l m = leases_for_model leases c l m)"

definition leases_match :: "PoolScheduler \<Rightarrow> CandidateLease multiset \<Rightarrow> bool" where
  "leases_match s leases \<longleftrightarrow> counters_match (ps_activity s) leases
     \<and> (\<forall>c l. 0 < leases_on leases c l \<longrightarrow> c \<in> candidate_ids s)
     \<and> (\<forall>c. c |\<in>| ps_retired_candidates s \<longrightarrow> (\<exists>l. 0 < leases_on leases c l))"

subsection \<open>Reserving and releasing\<close>

lemma model_counter_le: "activity_balanced a \<Longrightarrow> model_counter a c l m \<le> unat (activity_in_flight_count a c l)"
  using bt_sum_pos [of "lane_models a c l" m _ "\<lambda>_ n. unat n"]
  by (auto simp: activity_balanced_def lane_total_def model_counter_def split: option.splits)

lemma counters_reserve:
  assumes match: "counters_match a leases" and room: "size leases < 2 ^ 32 - 1"
    and lease: "cl_candidate_id x = c" "cl_model x = m" "cl_lane x = l"
  shows "counters_match (activity_reserve c m l a) (add_mset x leases)"
proof -
  have bal: "activity_balanced a" and cnt: "unat (activity_in_flight_count a c' l') = leases_on leases c' l'"
    and mc: "model_counter a c' l' m' = leases_for_model leases c' l' m'" for c' l' m'
    using match by (simp_all add: counters_match_def)
  have bound: "unat (activity_in_flight_count a c l) < 2 ^ 32 - 1"
    using leases_on_le [of leases c l] room cnt by simp
  have mbound: "model_counter a c l m' < 2 ^ 32 - 1" for m'
    using model_counter_le [OF bal, of c l m'] bound by simp
  have "unat (activity_in_flight_count (activity_reserve c m l a) c' l') = leases_on (add_mset x leases) c' l'" for c' l'
    using cnt bound by (auto simp: in_flight_reserve leases_on_add lease unat_sat_add_1)
  moreover have "model_counter (activity_reserve c m l a) c' l' m' = leases_for_model (add_mset x leases) c' l' m'" for c' l' m'
    using mc [of c' l' m'] mbound [of m']
    by (auto simp: model_counter_def lane_models_reserve leases_for_model_add lease unat_sat_add_1 split: option.splits)
  ultimately show ?thesis using balanced_reserve [OF bal bound] by (simp add: counters_match_def)
qed

lemma counters_release:
  assumes match: "counters_match a (add_mset x leases)"
    and lease: "cl_candidate_id x = c" "cl_model x = m" "cl_lane x = l"
  shows "snd (activity_release c (Some m) l a)"
    and "counters_match (fst (activity_release c (Some m) l a)) leases"
proof -
  let ?k = "to_ascii_lowercase m"
  have bal: "activity_balanced a"
    and cnt: "unat (activity_in_flight_count a c' l') = leases_on (add_mset x leases) c' l'"
    and mc: "model_counter a c' l' m' = leases_for_model (add_mset x leases) c' l' m'" for c' l' m'
    using match by (simp_all add: counters_match_def)
  have "0 < unat (activity_in_flight_count a c l)" using cnt [of c l] by (simp add: leases_on_add lease)
  then show rel: "snd (activity_release c (Some m) l a)"
    by (auto simp: activity_release_def activity_in_flight_count_def Let_def split: option.splits)
  have "0 < model_counter a c l ?k" using mc [of c l ?k] by (simp add: leases_for_model_add lease)
  then obtain v where v: "bt_get (lane_models a c l) ?k = Some v" and v0: "v \<noteq> 0"
    by (auto simp: model_counter_def unat_gt_0 split: option.splits)
  have vs: "unat v = Suc (leases_for_model leases c l ?k)"
    using mc [of c l ?k] v by (simp add: model_counter_def leases_for_model_add lease)
  have lm: "lane_models (fst (activity_release c (Some m) l a)) c' l' =
    (if c' = c \<and> l' = l then (if v \<le> 1 then bt_remove ?k else bt_insert ?k (v - 1)) (lane_models a c l)
     else lane_models a c' l')" for c' l'
    using lane_models_activity_release [OF rel _ v] by (simp add: release_key_def)
  have one: "v \<le> 1 \<longleftrightarrow> leases_for_model leases c l ?k = 0" using vs by (simp add: word_le_nat_alt)
  have pred: "unat (v - 1) = leases_for_model leases c l ?k" using vs v0 by (simp add: unat_minus_one)
  have "model_counter (fst (activity_release c (Some m) l a)) c' l' m' = leases_for_model leases c' l' m'" for c' l' m'
    using mc [of c' l' m'] one pred
    by (auto simp: model_counter_def lm leases_for_model_add lease split: if_splits)
  moreover have "unat (activity_in_flight_count (fst (activity_release c (Some m) l a)) c' l') = leases_on leases c' l'" for c' l'
    using cnt [of c' l'] by (auto simp: in_flight_release [OF rel] rust_arith leases_on_add lease)
  moreover have "activity_balanced (fst (activity_release c (Some m) l a))"
    using balanced_release [OF bal rel] v by simp
  ultimately show "counters_match (fst (activity_release c (Some m) l a)) leases"
    by (simp add: counters_match_def)
qed

lemma counters_idle:
  assumes "counters_match a leases"
  shows "activity_active_request_count a c = 0 \<longleftrightarrow> (\<forall>l. leases_on leases c l = 0)"
proof -
  have "activity_in_flight_count a c l = 0 \<longleftrightarrow> leases_on leases c l = 0" for l
  proof -
    have "unat (activity_in_flight_count a c l) = leases_on leases c l"
      using assms by (simp add: counters_match_def)
    then show ?thesis by (metis unat_eq_zero)
  qed
  moreover have "(\<forall>l. leases_on leases c l = 0) \<longleftrightarrow> leases_on leases c Text = 0 \<and> leases_on leases c Image = 0"
    by (metis InFlightLane.exhaust)
  ultimately show ?thesis
    using active_request_count_idle [of a c] assms by (simp add: counters_match_def)
qed

lemma counters_clear [simp]: "counters_match (clear_dispatches a) leases = counters_match a leases"
  by (simp add: counters_match_def model_counter_def lane_models_def activity_in_flight_count_def)

lemma counters_remove:
  assumes "counters_match a leases" and "\<forall>l. leases_on leases c l = 0"
  shows "counters_match (activity_remove_candidate c a) leases"
proof -
  have "leases_for_model leases c l m =
      size (filter_mset (\<lambda>x. to_ascii_lowercase (cl_model x) = m)
        (filter_mset (\<lambda>x. cl_candidate_id x = c \<and> cl_lane x = l) leases))" for l m
    unfolding leases_for_model_def filter_filter_mset by (intro arg_cong [where f = size] filter_mset_cong) auto
  then have "leases_for_model leases c l m \<le> leases_on leases c l" for l m
    by (simp add: leases_on_def size_filter_mset_lesseq)
  then have "leases_for_model leases c l m = 0" for l m using assms(2) by (metis le_zero_eq)
  then show ?thesis
    using assms balanced_remove_candidate
    by (auto simp: counters_match_def activity_in_flight_count_def model_counter_def lane_models_remove)
qed

subsection \<open>What the other operations leave alone\<close>

text \<open>
  Every operation of the pool except removal keeps the lease counters, keeps every candidate and
  retires none.
\<close>

definition lease_frame :: "PoolScheduler \<Rightarrow> PoolScheduler \<Rightarrow> bool" where
  "lease_frame s s' \<longleftrightarrow>
     (ps_activity s' = ps_activity s \<or> ps_activity s' = clear_dispatches (ps_activity s))
     \<and> (\<forall>i. bt_get (ps_candidates s) i \<noteq> None \<longrightarrow> bt_get (ps_candidates s') i \<noteq> None)
     \<and> ps_retired_candidates s' |\<subseteq>| ps_retired_candidates s"

lemma lease_frame_config:
  "lease_frame s (set_cooldown_policy n keep s)"
  "lease_frame s (set_provider_storm_breaker_enabled enabled s)"
  "lease_frame s (set_routing_strategy strategy s)"
  "lease_frame s (set_quota_stale_after_ms ms s)"
  "lease_frame s (set_subscription_plan_order order s)"
  "lease_frame s (fst (set_candidate_subscription_expiry i e s))"
  "lease_frame s (fst (set_candidate_subscription_plan low i p s))"
  "lease_frame s (fst (set_protected_candidate pc reserve s))"
  "lease_frame s (fst (record_provider_rate_limit i m t s))"
  by (auto simp: lease_frame_def set_cooldown_policy_def set_provider_storm_breaker_enabled_def
      set_routing_strategy_def set_quota_stale_after_ms_def set_subscription_plan_order_def
      record_provider_rate_limit_def set_candidate_subscription_expiry_def
      set_candidate_subscription_plan_def set_protected_candidate_def Let_def split: option.splits)

lemma lease_frame_candidates:
  "lease_frame s (upsert c s)"
  "lease_frame s (fst (update_candidate_availability_at i enabled h q t s))"
  "lease_frame s (fst (update_candidate_quota_at i q t r s))"
  "lease_frame s (fst (set_candidate_health i h s))"
  "lease_frame s (fst (record_success_with_metrics i m now tokens latency s))"
  "lease_frame s (fst (record_failure i s))"
  "lease_frame s (fst (reset_failures i s))"
  "lease_frame s (fst (set_cooldown_with_reason_inner i cr enforce s))"
  "lease_frame s (fst (clear_cooldown i m s))"
  by (auto simp: lease_frame_def upsert_def update_candidate_availability_at_def
      update_candidate_quota_at_def set_candidate_health_def record_success_with_metrics_def
      record_failure_def reset_failures_def set_cooldown_with_reason_inner_def clear_cooldown_def
      Let_def split: option.splits)

lemma lease_frame_tables:
  "lease_frame s (fst (set_execution_fence i fenced s))"
  "lease_frame s (fst (block_capability i m s))"
  "lease_frame s (fst (clear_capability_blocks i s))"
  "lease_frame s (fst (earliest_retry_at request s))"
  "lease_frame s (fst (all_applicable_cooldown request s))"
  by (auto simp: lease_frame_def set_execution_fence_def block_capability_def clear_capability_blocks_def
      earliest_retry_at_def all_applicable_cooldown_def case_prod_beta Let_def split: option.splits)

lemma lease_frame_affinity:
  "lease_frame s (fst (bind_response_affinity k i t s))"
  "lease_frame s (fst (bind_prompt_affinity k i t s))"
  "lease_frame s (fst (bind_prompt_affinity_sticky k i t s))"
  "lease_frame s (fst (restore_response_affinity k i e t s))"
  "lease_frame s (fst (restore_prompt_affinity k i e t s))"
  "lease_frame s (fst (has_response_affinity k t s))"
  "lease_frame s (fst (has_prompt_affinity k t s))"
  "lease_frame s (fst (invalidate_response_affinity k s))"
  by (auto simp: lease_frame_def bind_response_affinity_def bind_prompt_affinity_def
      bind_prompt_affinity_sticky_def restore_response_affinity_def restore_prompt_affinity_def
      has_response_affinity_def has_prompt_affinity_def invalidate_response_affinity_def case_prod_beta)

lemma lease_frame_select: "lease_frame s (fst (select_for request lane s))"
  by (auto simp: lease_frame_def select_for_def select_response_affinity_def prompt_affinity_owner_def
      affinity_get_pair Let_def split: option.splits)

lemma pool_step_frame:
  "pool_step low s s' \<Longrightarrow> lease_frame s s' \<or> (\<exists>i. s' = fst (remove_candidate i s))"
  by (induction rule: pool_step.induct)
    (blast intro: lease_frame_config lease_frame_candidates lease_frame_tables lease_frame_affinity
      lease_frame_select)+

lemma leases_match_frame: "lease_frame s s' \<Longrightarrow> leases_match s leases \<Longrightarrow> leases_match s' leases"
  unfolding lease_frame_def leases_match_def by (auto simp: candidate_ids_iff)

subsection \<open>The invariant\<close>

lemma leases_match_remove_now:
  assumes "leases_match s leases" and "\<forall>l. leases_on leases i l = 0"
  shows "leases_match (fst (remove_now i s)) leases"
  using assms counters_remove [of "ps_activity s" leases i]
  unfolding leases_match_def candidate_ids_iff remove_now_fields
  by (auto simp: bt_get_remove)

lemma leases_match_remove:
  assumes match: "leases_match s leases"
  shows "leases_match (fst (remove_candidate i s)) leases"
proof (cases "bt_get (ps_candidates s) i")
  case (Some c)
  have idle: "active_request_count s i = 0 \<longleftrightarrow> (\<forall>l. leases_on leases i l = 0)"
    using counters_idle match by (simp add: active_request_count_def leases_match_def)
  show ?thesis
  proof (cases "active_request_count s i = 0")
    case True
    then show ?thesis using Some idle leases_match_remove_now [OF match] by (simp add: remove_candidate_def)
  next
    case False
    then show ?thesis
      using Some idle match by (auto simp: remove_candidate_def word_neq_0_conv leases_match_def candidate_ids_iff)
  qed
qed (simp add: remove_candidate_def match)

text \<open>The two outcomes of a reservation.\<close>

lemma reserve_cases:
  assumes "reserve_for_lane i m t lane s = (s', reserved)"
  shows "\<not> reserved \<Longrightarrow> s' = s"
    and "reserved \<Longrightarrow> ps_activity s' = activity_reserve i m lane (ps_activity s)
      \<and> ps_candidates s' = ps_candidates s \<and> ps_retired_candidates s' = ps_retired_candidates s
      \<and> i \<in> candidate_ids s"
  using assms by (auto simp: reserve_for_lane_def Let_def candidate_ids_iff split: option.splits if_splits)

lemma leases_match_reserve:
  assumes match: "leases_match s leases" and room: "size leases < 2 ^ 32 - 1"
    and res: "reserve_for_lane i m t lane s = (s', True)"
    and lease: "cl_candidate_id x = i" "cl_model x = m" "cl_lane x = lane"
  shows "leases_match s' (add_mset x leases)"
proof -
  note eff = reserve_cases(2) [OF res]
  have "counters_match (ps_activity s') (add_mset x leases)"
    using match eff counters_reserve [OF _ room lease] by (simp add: leases_match_def)
  then show ?thesis
    using match eff by (auto simp: leases_match_def leases_on_add lease candidate_ids_iff)
qed

lemma release_effect:
  assumes "activity_release i m lane (ps_activity s) = (a, True)"
  obtains s1 where "fst (release_for_lane i m lane s) = finalize_retired_if_idle i s1"
    and "snd (release_for_lane i m lane s)" and "ps_activity s1 = a" and "ps_candidates s1 = ps_candidates s"
    and "ps_retired_candidates s1 = ps_retired_candidates s"
  using assms that by (cases m) (auto simp: release_for_lane_def Let_def)

lemma leases_match_release:
  assumes match: "leases_match s (add_mset x leases)"
  shows "leases_match (fst (release_for_lane (cl_candidate_id x) (Some (cl_model x)) (cl_lane x) s)) leases"
    and "snd (release_for_lane (cl_candidate_id x) (Some (cl_model x)) (cl_lane x) s)"
proof -
  let ?i = "cl_candidate_id x"
  let ?rel = "activity_release ?i (Some (cl_model x)) (cl_lane x) (ps_activity s)"
  have cm: "counters_match (ps_activity s) (add_mset x leases)" using match by (simp add: leases_match_def)
  have "?rel = (fst ?rel, True)" using counters_release(1) [OF cm] by (simp add: prod_eq_iff)
  then obtain s1 where s1: "fst (release_for_lane ?i (Some (cl_model x)) (cl_lane x) s) = finalize_retired_if_idle ?i s1"
    and rel: "snd (release_for_lane ?i (Some (cl_model x)) (cl_lane x) s)"
    and act: "ps_activity s1 = fst ?rel" and cand: "ps_candidates s1 = ps_candidates s"
    and ret: "ps_retired_candidates s1 = ps_retired_candidates s" by (rule release_effect)
  show "snd (release_for_lane ?i (Some (cl_model x)) (cl_lane x) s)" by (rule rel)
  have cm1: "counters_match (ps_activity s1) leases" using counters_release(2) [OF cm] act by simp
  have known: "c \<in> candidate_ids s1" if "0 < leases_on leases c l" for c l
    using match that cand by (auto simp: leases_match_def leases_on_add candidate_ids_iff split: if_splits)
  have retired: "\<exists>l. 0 < leases_on leases c l" if "c |\<in>| ps_retired_candidates s1" "c \<noteq> ?i" for c
    using match that ret unfolding leases_match_def leases_on_add by metis
  have idle: "active_request_count s1 ?i = 0 \<longleftrightarrow> (\<forall>l. leases_on leases ?i l = 0)"
    using counters_idle [OF cm1] by (simp add: active_request_count_def)
  show "leases_match (fst (release_for_lane ?i (Some (cl_model x)) (cl_lane x) s)) leases"
  proof (cases "?i |\<in>| ps_retired_candidates s1 \<and> active_request_count s1 ?i = 0")
    case True
    then have none: "\<forall>l. leases_on leases ?i l = 0" using idle by simp
    have gone: "c \<noteq> ?i" if "0 < leases_on leases c l" for c l using none that by auto
    have fin: "finalize_retired_if_idle ?i s1 = fst (remove_now ?i s1)"
      using True by (simp add: finalize_retired_if_idle_def)
    show ?thesis
      unfolding s1 fin leases_match_def
    proof (intro conjI allI impI)
      show "counters_match (ps_activity (fst (remove_now ?i s1))) leases"
        unfolding remove_now_fields by (rule counters_remove [OF cm1 none])
      show "c \<in> candidate_ids (fst (remove_now ?i s1))" if "0 < leases_on leases c l" for c l
        using known [OF that] gone [OF that] by (simp add: candidate_ids_iff remove_now_fields)
      show "\<exists>l. 0 < leases_on leases c l" if "c |\<in>| ps_retired_candidates (fst (remove_now ?i s1))" for c
        using that by (intro retired) (simp_all add: remove_now_fields)
    qed
  next
    case False
    then have fin: "finalize_retired_if_idle ?i s1 = s1" by (auto simp: finalize_retired_if_idle_def)
    have "\<exists>l. 0 < leases_on leases c l" if "c |\<in>| ps_retired_candidates s1" for c
      using False idle retired [OF that] that by (cases "c = ?i") auto
    then show ?thesis using cm1 known unfolding s1 fin leases_match_def by blast
  qed
qed

text \<open>When the last lease of a retired candidate is dropped, the candidate goes.\<close>

lemma release_last_lease:
  assumes match: "leases_match s (add_mset x leases)" and ret: "cl_candidate_id x |\<in>| ps_retired_candidates s"
    and last: "\<forall>l. leases_on leases (cl_candidate_id x) l = 0"
  shows "bt_get (ps_candidates (fst (release_for_lane (cl_candidate_id x) (Some (cl_model x)) (cl_lane x) s)))
    (cl_candidate_id x) = None"
proof -
  let ?i = "cl_candidate_id x"
  let ?rel = "activity_release ?i (Some (cl_model x)) (cl_lane x) (ps_activity s)"
  have cm: "counters_match (ps_activity s) (add_mset x leases)" using match by (simp add: leases_match_def)
  have "?rel = (fst ?rel, True)" using counters_release(1) [OF cm] by (simp add: prod_eq_iff)
  then obtain s1 where s1: "fst (release_for_lane ?i (Some (cl_model x)) (cl_lane x) s) = finalize_retired_if_idle ?i s1"
    and act: "ps_activity s1 = fst ?rel" and ret1: "ps_retired_candidates s1 = ps_retired_candidates s"
    by (rule release_effect)
  have "active_request_count s1 ?i = 0"
    using counters_idle [OF counters_release(2) [OF cm]] last by (simp add: active_request_count_def act)
  then show ?thesis using ret ret1 by (simp add: s1 finalize_retired_if_idle_def remove_now_fields)
qed

lemma locked_cases:
  assumes "select_and_reserve_locked request lane s = (s', result)"
  obtains (none) "result = None" "lease_frame s s'" "pool_wf s \<longrightarrow> pool_wf s'"
  | (some) selection lease s1 where "result = Some (selection, lease)" "lease_frame s s1"
      "pool_wf s \<longrightarrow> pool_wf s1" "select_for request lane s = (s1, Some selection)"
      "reserve_for_lane (sl_candidate_id selection) (rq_model request) (rq_now_ms request) lane s1 = (s', True)"
      "lease = \<lparr>cl_candidate_id = sl_candidate_id selection, cl_model = rq_model request, cl_lane = lane,
        cl_released = False\<rparr>"
proof -
  obtain s1 sel where sel: "select_for request lane s = (s1, sel)" by force
  have frame: "lease_frame s s1" "pool_wf s \<longrightarrow> pool_wf s1"
    using lease_frame_select [of s request lane] pool_wf_select [of s request lane] sel by simp_all
  show thesis
  proof (cases sel)
    case None
    then show thesis using assms sel frame by (intro none) (auto simp: select_and_reserve_locked_def)
  next
    case (Some selection)
    obtain s2 ok where res: "reserve_for_lane (sl_candidate_id selection) (rq_model request) (rq_now_ms request) lane s1 = (s2, ok)"
      by force
    show thesis
    proof (cases ok)
      case True
      then show thesis using assms sel frame Some res
        by (intro some [of selection _ s1]) (auto simp: select_and_reserve_locked_def)
    next
      case False
      then show thesis using assms sel frame Some res reserve_cases(1) [OF res]
        by (intro none) (auto simp: select_and_reserve_locked_def)
    qed
  qed
qed

lemma gateway_invariant:
  "gateway_step low a b \<Longrightarrow> pool_wf (fst a) \<and> leases_match (fst a) (snd a) \<Longrightarrow>
    pool_wf (fst b) \<and> leases_match (fst b) (snd b)"
proof (induction rule: gateway_step.induct)
  case (pool s s' leases)
  then show ?case using pool_step_frame [OF pool(1)] pool_wf_step [OF pool(1)]
    by (auto intro: leases_match_frame leases_match_remove)
next
  case (acquire request lane s s' selection lease leases)
  from acquire(1) show ?case
  proof (cases rule: locked_cases)
    case (some sel lease' s1)
    have "pool_wf s'"
      using some acquire(3) pool_wf_reserve [of s1 "sl_candidate_id sel" "rq_model request" "rq_now_ms request" lane]
      by simp
    then show ?thesis
      using acquire some leases_match_frame [OF some(2)]
        leases_match_reserve [of s1 leases "sl_candidate_id sel" "rq_model request" "rq_now_ms request" lane s' lease']
      by simp
  qed simp
next
  case (refused request lane s s' leases)
  from refused(1) show ?case
    by (cases rule: locked_cases) (use refused leases_match_frame in auto)
next
  case (drop s lease leases)
  then show ?case using leases_match_release(1) [of s lease leases] pool_wf_release by simp
qed

lemma leases_match_new: "leases_match scheduler_new {#}"
  by (simp add: leases_match_def counters_match_def scheduler_new_def leases_on_def leases_for_model_def
      model_counter_def lane_models_def activity_in_flight_count_def balanced_default)

interpretation gateway: step_invariant "gateway_step low" "(scheduler_new, {#})"
    "\<lambda>a. pool_wf (fst a) \<and> leases_match (fst a) (snd a)"
  by unfold_locales (simp_all add: pool_wf_new leases_match_new gateway_invariant)

lemma reachable_invariant: "reachable low (s, leases) \<Longrightarrow> pool_wf s \<and> leases_match s leases"
  using gateway.holds [of low "(s, leases)"] by simp

end
