(* ===== verification/Selection_Correct.thy ===== *)
theory Selection_Correct
  imports Lease_System
begin

section \<open>Correctness of selection\<close>

text \<open>
  What a caller of \<open>select\<close> can rely on: the answer is an admitted candidate, there is an answer
  whenever a candidate is admitted, the answer is of the highest routing class, and reserving it
  under the same lock succeeds.
\<close>

subsection \<open>The caches do not decide eligibility\<close>

lemma affinity_update_frame [simp]:
  "request_admits (s\<lparr>ps_response_affinity := a\<rparr>) = request_admits s"
  "request_admits (s\<lparr>ps_prompt_affinity := a\<rparr>) = request_admits s"
  by (simp_all add: fun_eq_iff request_admits_def lane_allows_def is_eligible_def provider_storm_open_def
      quota_reserve_allows_def in_flight_count_def cong: option.case_cong CandidateQuota.case_cong)

lemma prompt_affinity_owner_frame:
  "ps_candidates (fst (prompt_affinity_owner request s)) = ps_candidates s"
  "request_admits (fst (prompt_affinity_owner request s)) = request_admits s"
  "ps_half_open (fst (prompt_affinity_owner request s)) = ps_half_open s"
  by (auto simp: prompt_affinity_owner_def affinity_get_pair split: option.splits)

subsection \<open>The policy part\<close>

lemma policy_cases:
  assumes "select_by_policy request owner lane s = Some sel"
  obtains baseline c where
    "max_by (compare_preference s lane)
       (filter (request_admits s request lane) (bt_values (ps_candidates s))) = Some baseline"
    and "c \<in> set (filter (request_admits s request lane) (bt_values (ps_candidates s)))"
    and "sl_candidate_id sel = rc_id c" and "\<not> sl_response_affinity_hit sel"
    and "c = baseline \<or> (\<exists>e. prompt_affinity_allows s c baseline lane e)"
proof -
  let ?eligible = "filter (request_admits s request lane) (bt_values (ps_candidates s))"
  obtain baseline where b: "max_by (compare_preference s lane) ?eligible = Some baseline"
    using assms by (auto simp: select_by_policy_def Let_def split: option.splits)
  define e where "e = (case rq_prompt_affinity_key request of None \<Rightarrow> False | Some key \<Rightarrow> starts_with key ''cache:'')"
  define pref where "pref = filter_option (\<lambda>p. rc_id p \<noteq> rc_id baseline \<and> prompt_affinity_allows s p baseline lane e)
    (Option.bind owner (\<lambda>i. find (\<lambda>c. rc_id c = i) ?eligible))"
  define c where "c = option_default baseline pref"
  have c: "c = baseline \<or> c \<in> set ?eligible \<and> prompt_affinity_allows s c baseline lane e"
  proof (cases pref)
    case (Some p)
    then have "p \<in> set ?eligible \<and> prompt_affinity_allows s p baseline lane e"
      unfolding pref_def by (cases owner) (auto simp: filter_option_def dest!: find_Some_mem split: option.splits if_splits)
    then show ?thesis using Some by (simp add: c_def option_default_def)
  qed (simp add: c_def option_default_def)
  have sel: "sl_candidate_id sel = rc_id c \<and> \<not> sl_response_affinity_hit sel"
    using assms b unfolding select_by_policy_def Let_def
    by (auto simp: c_def pref_def e_def)
  show thesis using that [OF b] c sel max_by_mem [OF b] by blast
qed

lemma policy_None:
  assumes "pool_wf s"
  shows "select_by_policy request owner lane s = None \<longleftrightarrow>
    (\<forall>i c. bt_get (ps_candidates s) i = Some c \<longrightarrow> \<not> request_admits s request lane c)"
proof -
  let ?eligible = "filter (request_admits s request lane) (bt_values (ps_candidates s))"
  have known: "diagnostics s (rc_id c) r n lane \<noteq> None" if "c \<in> set ?eligible" for c r n
    using that assms by (fastforce simp: diagnostics_def bt_values_iff pool_wf_def candidates_wf_def)
  have "select_by_policy request owner lane s \<noteq> None" if "?eligible \<noteq> []"
  proof -
    from that obtain b where b: "max_by (compare_preference s lane) ?eligible = Some b"
      by (metis max_by_None not_None_eq)
    let ?p = "\<lambda>e. filter_option (\<lambda>p. rc_id p \<noteq> rc_id b \<and> prompt_affinity_allows s p b lane e)
      (Option.bind owner (\<lambda>i. find (\<lambda>c. rc_id c = i) ?eligible))"
    have "option_default b (?p e) \<in> set ?eligible" for e
      using max_by_mem [OF b]
      by (cases owner) (auto simp: option_default_def filter_option_def dest!: find_Some_mem split: option.splits)
    then show ?thesis using b known by (simp add: select_by_policy_def Let_def)
  qed
  moreover have "select_by_policy request owner lane s = None" if "?eligible = []"
    using that by (simp add: select_by_policy_def Let_def max_by_def)
  moreover have "?eligible = [] \<longleftrightarrow>
      (\<forall>i c. bt_get (ps_candidates s) i = Some c \<longrightarrow> \<not> request_admits s request lane c)"
    unfolding filter_empty_conv by (auto simp: bt_values_iff)
  ultimately show ?thesis by blast
qed

text \<open>A prompt-cache owner replaces the best candidate only within the same routing class.\<close>

lemma prompt_affinity_same_key:
  assumes "prompt_affinity_allows s p b lane e" and "source_key p \<le> source_key b"
  shows "source_key p = source_key b"
  using assms
  by (cases "rc_kind p"; cases "rc_kind b")
    (auto simp: prompt_affinity_allows_def source_key_def candidate_kind_preference_def less_eq_prod_def split: if_splits)

lemma policy_best:
  assumes "select_by_policy request owner lane s = Some sel"
  obtains c where "c \<in> set (bt_values (ps_candidates s))" and "request_admits s request lane c"
    and "sl_candidate_id sel = rc_id c" and "\<not> sl_response_affinity_hit sel"
    and "\<forall>d \<in> set (bt_values (ps_candidates s)). request_admits s request lane d \<longrightarrow> source_key d \<le> source_key c"
proof -
  from assms obtain baseline c where
    b: "max_by (compare_preference s lane)
       (filter (request_admits s request lane) (bt_values (ps_candidates s))) = Some baseline"
    and c: "c \<in> set (filter (request_admits s request lane) (bt_values (ps_candidates s)))"
    and sel: "sl_candidate_id sel = rc_id c" "\<not> sl_response_affinity_hit sel"
    and pref: "c = baseline \<or> (\<exists>e. prompt_affinity_allows s c baseline lane e)" by (rule policy_cases)
  have "source_key c = source_key baseline"
    using pref prompt_affinity_same_key preference.max_by_key [OF b c] by blast
  then show thesis
    using that [of c] c sel preference.max_by_key [OF b] by auto
qed

subsection \<open>The whole selection\<close>

lemma select_for_cases:
  assumes "select_for request lane s = (s', Some sel)"
  obtains (response) key owner c where "rq_response_affinity_key request = Some key"
      "owner_at (ps_response_affinity s) (rq_now_ms request) key = Some owner"
      "bt_get (ps_candidates s) owner = Some c" "owner |\<notin>| rq_tried request" "lane_allows s c lane"
      "is_eligible s c (rq_model request) (rq_allowed_protocols request) (rq_scope request) (rq_now_ms request)"
      "sl_candidate_id sel = owner" "sl_response_affinity_hit sel"
  | (policy) s1 where "select_by_policy request (snd (prompt_affinity_owner request s1)) lane s' = Some sel"
      "s' = fst (prompt_affinity_owner request s1)" "ps_candidates s1 = ps_candidates s"
      "request_admits s1 = request_admits s" "ps_half_open s1 = ps_half_open s"
proof -
  have elig [simp]: "is_eligible (s\<lparr>ps_response_affinity := a\<rparr>) = is_eligible s"
    "lane_allows (s\<lparr>ps_response_affinity := a\<rparr>) = lane_allows s" for a
    by (simp_all add: fun_eq_iff lane_allows_def is_eligible_def provider_storm_open_def
        quota_reserve_allows_def in_flight_count_def cong: option.case_cong CandidateQuota.case_cong)
  show thesis
  proof (cases "rq_response_affinity_key request")
    case None
    then show thesis using assms
      by (intro policy [of s]) (auto simp: select_for_def Let_def case_prod_beta)
  next
    case (Some key)
    let ?s1 = "s\<lparr>ps_response_affinity := affinity_prune (rq_now_ms request) (ps_response_affinity s)\<rparr>"
    show thesis
    proof (cases "owner_at (ps_response_affinity s) (rq_now_ms request) key")
      case None
      then show thesis using assms Some
        by (intro policy [of ?s1]) (auto simp: select_for_def affinity_get_pair Let_def case_prod_beta)
    next
      case owner: (Some owner)
      then obtain c where "bt_get (ps_candidates s) owner = Some c" using assms Some
        by (auto simp: select_for_def affinity_get_pair select_response_affinity_def split: option.splits if_splits)
      with owner show thesis using assms Some
        by (intro response [of key owner c])
          (auto simp: select_for_def affinity_get_pair select_response_affinity_def Let_def split: if_splits)
    qed
  qed
qed

lemma values_candidate:
  "pool_wf s \<Longrightarrow> c \<in> set (bt_values (ps_candidates s)) \<Longrightarrow> bt_get (ps_candidates s) (rc_id c) = Some c"
  unfolding bt_values_iff pool_wf_def candidates_wf_def by metis

lemma select_admitted:
  assumes "pool_wf s" and "select_for request lane s = (s', Some sel)"
  obtains c where "bt_get (ps_candidates s) (sl_candidate_id sel) = Some c" and "rc_id c = sl_candidate_id sel"
    and "request_admits s request lane c"
  using assms(2)
proof (cases rule: select_for_cases)
  case (response key owner c)
  then have "rc_id c = owner" using assms(1) by (simp add: pool_wf_def candidates_wf_def)
  with response show thesis using that [of c] by (simp add: request_admits_def)
next
  case (policy s1)
  from policy(1) show thesis
  proof (rule policy_best)
    fix c
    assume c: "c \<in> set (bt_values (ps_candidates s'))" "request_admits s' request lane c" "sl_candidate_id sel = rc_id c"
    have same: "ps_candidates s' = ps_candidates s" "request_admits s' = request_admits s"
      using policy(2-4) by (simp_all add: prompt_affinity_owner_frame)
    show thesis
    proof (rule that [of c])
      show "bt_get (ps_candidates s) (sl_candidate_id sel) = Some c"
        using c(1) values_candidate [OF assms(1)] unfolding same c(3) by blast
      show "request_admits s request lane c" using c(2) unfolding same .
    qed (rule c(3) [symmetric])
  qed
qed

lemma select_for_effect:
  assumes "select_for request lane s = (s', r)"
  shows "ps_candidates s' = ps_candidates s" "ps_half_open s' = ps_half_open s" "ps_activity s' = ps_activity s"
  using assms
  by (auto simp: select_for_def select_response_affinity_def prompt_affinity_owner_def affinity_get_pair Let_def
      split: option.splits if_splits)

lemma reserve_admitted:
  assumes "bt_get (ps_candidates s) i = Some c" and "rc_id c = i"
    and "request_admits s request lane c"
  shows "snd (reserve_for_lane i (rq_model request) (rq_now_ms request) lane s)"
  using assms
  by (auto simp: reserve_for_lane_def request_admits_def is_eligible_def Let_def split: option.splits)

lemma reserve_cong:
  assumes "ps_candidates s' = ps_candidates s" "ps_half_open s' = ps_half_open s" "ps_activity s' = ps_activity s"
  shows "snd (reserve_for_lane i m t lane s') = snd (reserve_for_lane i m t lane s)"
  using assms by (auto simp: reserve_for_lane_def lane_allows_def in_flight_count_def Let_def split: option.splits)

text \<open>A request that admits a candidate gets a lease.\<close>

lemma locked_live:
  assumes wf: "pool_wf s" and c: "bt_get (ps_candidates s) i = Some c" and adm: "request_admits s request lane c"
    and key: "rq_response_affinity_key request = None"
  shows "\<exists>s' sel lease. select_and_reserve_locked request lane s = (s', Some (sel, lease))
    \<and> cl_candidate_id lease = sl_candidate_id sel \<and> cl_lane lease = lane \<and> cl_model lease = rq_model request"
proof -
  let ?s1 = "fst (prompt_affinity_owner request s)"
  have sel: "select_for request lane s = (?s1, select_by_policy request (snd (prompt_affinity_owner request s)) lane ?s1)"
    using key by (simp add: select_for_def Let_def case_prod_beta)
  have wf1: "pool_wf ?s1" using pool_wf_select [OF wf, of request lane] sel by simp
  have "select_by_policy request (snd (prompt_affinity_owner request s)) lane ?s1 \<noteq> None"
    using policy_None [OF wf1] c adm by (auto simp: prompt_affinity_owner_frame)
  then obtain selection where some: "select_for request lane s = (?s1, Some selection)" using sel by auto
  obtain d where d: "bt_get (ps_candidates s) (sl_candidate_id selection) = Some d"
    "rc_id d = sl_candidate_id selection" "request_admits s request lane d"
    by (rule select_admitted [OF wf some])
  have "snd (reserve_for_lane (sl_candidate_id selection) (rq_model request) (rq_now_ms request) lane ?s1)"
    using reserve_admitted [OF d] reserve_cong [OF select_for_effect [OF some]] by simp
  then show ?thesis
    by (cases "reserve_for_lane (sl_candidate_id selection) (rq_model request) (rq_now_ms request) lane ?s1")
      (simp add: select_and_reserve_locked_def some)
qed

end
