(* ===== verification/Samples.thy ===== *)
theory Samples
  imports Selection_Correct
begin

section \<open>Sample data\<close>

text \<open>
  Small concrete candidates, requests and pools on which the properties of the scheduler are
  applied, and the evaluation lemmas they need.
\<close>

definition sample_candidate :: "string \<Rightarrow> CandidateKind \<Rightarrow> CandidateQuota \<Rightarrow> u64 option \<Rightarrow> RuntimeCandidate" where
  "sample_candidate i kind quota reset_at =
     \<lparr>rc_id = i, rc_kind = kind, rc_source_id = i, rc_account_id = None, rc_protocol = Responses,
      rc_enabled = True, rc_draining = False, rc_priority = 0, rc_weight = 1, rc_models = {|''m''|},
      rc_model_rules = default_rules, rc_health = ChHealthy, rc_quota = quota, rc_quota_updated_at_ms = None,
      rc_quota_reset_at_ms = reset_at, rc_cooldowns = bt_empty, rc_last_used_at = None,
      rc_consecutive_failures = 0, rc_secret_available = True\<rparr>"

definition sample_request :: SelectionRequest where
  "sample_request = \<lparr>rq_model = ''m'', rq_allowed_protocols = [Responses], rq_scope = scope_default,
     rq_tried = {||}, rq_response_affinity_key = None, rq_prompt_affinity_key = None, rq_now_ms = 5\<rparr>"

definition sample_pool :: "RuntimeCandidate \<Rightarrow> PoolScheduler" where
  "sample_pool c = upsert c scheduler_new"

definition sample_oauth :: RuntimeCandidate where
  "sample_oauth = sample_candidate ''a'' OAuthAccount QUnknown None"

definition sample_oauth_pool :: PoolScheduler where
  "sample_oauth_pool = sample_pool sample_oauth"

lemma sample_reachable: "reachable low (sample_pool c, {#})"
  unfolding sample_pool_def by (rule reach.step [OF reach.start]) (intro gateway_step.pool pool_step.upsert)

lemma sample_pool_get: "bt_get (ps_candidates (sample_pool c)) (rc_id c) = Some c"
  by (simp add: sample_pool_def upsert_def)

lemmas sample_eval =
  request_admits_def is_eligible_def upsert_def scheduler_new_def sample_pool_def
  sample_candidate_def sample_request_def rust_eval lane_allows_def provider_storm_open_def
  quota_reserve_allows_def half_open_scope_def allows_def default_rules_def filter_option_def

lemma sample_oauth_reachable: "reachable low (sample_oauth_pool, {#})"
  unfolding sample_oauth_pool_def by (rule sample_reachable)

lemma sample_oauth_get: "bt_get (ps_candidates sample_oauth_pool) ''a'' = Some sample_oauth"
  using sample_pool_get [of sample_oauth] by (simp add: sample_oauth_pool_def sample_oauth_def sample_candidate_def)

lemma sample_admitted: "request_admits sample_oauth_pool sample_request Text sample_oauth"
  by (simp add: sample_eval sample_oauth_pool_def sample_oauth_def)

lemma sample_locked:
  "\<exists>s' sel lease. select_and_reserve_locked sample_request Text sample_oauth_pool = (s', Some (sel, lease))
    \<and> cl_candidate_id lease = sl_candidate_id sel \<and> cl_lane lease = Text"
proof -
  have "pool_wf sample_oauth_pool" using reachable_invariant [OF sample_oauth_reachable] by simp
  moreover have "rq_response_affinity_key sample_request = None" by (simp add: sample_request_def)
  ultimately show ?thesis using locked_live [OF _ sample_oauth_get sample_admitted] by blast
qed

lemma sample_selected:
  "\<exists>s' sel. select_for sample_request Text sample_oauth_pool = (s', Some sel) \<and> \<not> sl_response_affinity_hit sel
    \<and> sl_candidate_id sel = ''a''"
proof -
  obtain s' sel lease where "select_and_reserve_locked sample_request Text sample_oauth_pool = (s', Some (sel, lease))"
    using sample_locked by blast
  then obtain s1 where sel: "select_for sample_request Text sample_oauth_pool = (s1, Some sel)"
    by (cases rule: locked_cases) auto
  have hit: "\<not> sl_response_affinity_hit sel"
    using sel by (cases rule: select_for_cases) (auto simp: sample_request_def elim: policy_best)
  have "pool_wf sample_oauth_pool" using reachable_invariant [OF sample_oauth_reachable] by simp
  then obtain d where "bt_get (ps_candidates sample_oauth_pool) (sl_candidate_id sel) = Some d"
    using sel by (rule select_admitted)
  then have "sl_candidate_id sel = ''a''"
    by (auto simp: sample_oauth_pool_def sample_oauth_def sample_pool_def upsert_def scheduler_new_def
        sample_candidate_def split: if_splits)
  with sel hit show ?thesis by blast
qed

lemma sample_lease:
  "\<exists>s lease. reachable low (s, {#lease#}) \<and> cl_candidate_id lease = ''a'' \<and> cl_lane lease = Text"
proof -
  obtain s' sel lease where locked: "select_and_reserve_locked sample_request Text sample_oauth_pool = (s', Some (sel, lease))"
    and lease: "cl_candidate_id lease = sl_candidate_id sel" "cl_lane lease = Text"
    using sample_locked by blast
  have "sl_candidate_id sel = ''a''"
    using locked sample_selected by (cases rule: locked_cases) auto
  moreover have "reachable low (s', {#lease#})"
    by (rule reach.step [OF sample_oauth_reachable]) (rule gateway_step.acquire [OF locked], simp)
  ultimately show ?thesis using lease by auto
qed

text \<open>The same lease after its candidate has been removed.\<close>

lemma sample_retired:
  "\<exists>s lease. reachable low (s, {#lease#}) \<and> cl_candidate_id lease = ''a'' \<and> ''a'' |\<in>| ps_retired_candidates s"
proof -
  obtain s lease where r: "reachable low (s, {#lease#})" and l: "cl_candidate_id lease = ''a''" "cl_lane lease = Text"
    using sample_lease by blast
  have match: "leases_match s {#lease#}" using reachable_invariant [OF r] by simp
  have on: "leases_on {#lease#} ''a'' Text = 1" using l by (simp add: leases_on_def)
  obtain c where "bt_get (ps_candidates s) ''a'' = Some c"
    using match on unfolding leases_match_def candidate_ids_iff by (metis not_None_eq zero_less_one)
  moreover have "active_request_count s ''a'' \<noteq> 0"
    using counters_idle [of "ps_activity s" "{#lease#}" "''a''"] match on
    unfolding active_request_count_def leases_match_def by (metis zero_neq_one)
  ultimately have "''a'' |\<in>| ps_retired_candidates (fst (remove_candidate ''a'' s))"
    by (simp add: remove_candidate_def word_neq_0_conv)
  moreover have "reachable low (fst (remove_candidate ''a'' s), {#lease#})"
    by (rule reach.step [OF r]) (intro gateway_step.pool pool_step.remove)
  ultimately show ?thesis using l(1) by blast
qed

end
