(* ===== verification/Pool_Properties.thy ===== *)
theory Pool_Properties
  imports Samples
begin

section \<open>Probes, cooldowns and ranking\<close>

text \<open>
  Properties of the pool scheduler beyond its leases: what a half-open probe excludes, what a
  cooldown blocks and when it is refused, what the retry hints mean, how the storm breaker opens,
  and which laws the ranking of candidates obeys.
\<close>

subsection \<open>Helper lemmas\<close>

lemma eligible_no_cooldown:
  "is_eligible s c model protocols scope now \<Longrightarrow> active_retry_at (rc_cooldowns c) model now = None"
  by (simp add: is_eligible_def candidate_is_eligible_def is_visible_def)

lemma eligible_no_probe:
  "is_eligible s c model protocols scope now \<Longrightarrow> half_open_scope c model now = Some p \<Longrightarrow>
   (rc_id c, p) |\<notin>| ps_half_open s"
  by (simp add: is_eligible_def)

lemma reserve_probe:
  assumes "reserve_for_lane i model now lane s = (s', True)" "bt_get (ps_candidates s) i = Some c"
    "model \<noteq> []" "half_open_scope c model now = Some p"
  shows "(i, p) |\<in>| ps_half_open s'" "ps_candidates s' = ps_candidates s"
  using assms by (auto simp: reserve_for_lane_def split: if_splits)

text \<open>
  What ends a probe before its marker may be taken again: the end of a request on the candidate for the
  marked model, or for any model when the marker is for all of them, a success or a new cooldown of that
  scope, or the candidate leaving the pool.
\<close>

definition ends_probe ::
  "string \<Rightarrow> string \<Rightarrow> PoolScheduler \<times> CandidateLease multiset \<Rightarrow> PoolScheduler \<times> CandidateLease multiset \<Rightarrow> bool" where
  "ends_probe i p a b \<longleftrightarrow> (i, p) |\<notin>| ps_half_open (fst b) \<and>
     ((\<exists>lease. lease \<in># snd a \<and> cl_candidate_id lease = i \<and> p \<in> {to_ascii_lowercase (cl_model lease), ''*''}
         \<and> fst b = fst (release_for_lane i (Some (cl_model lease)) (cl_lane lease) (fst a)))
      \<or> (\<exists>m t tokens latency. p = to_ascii_lowercase m \<and> fst b = fst (record_success_with_metrics i m t tokens latency (fst a)))
      \<or> (\<exists>r enforce. cooldown_scope r \<in> {p, ''*''} \<and> fst b = fst (set_cooldown_with_reason_inner i r enforce (fst a)))
      \<or> bt_get (ps_candidates (fst b)) i = None)"

lemma half_open_config:
  "same_tables s s' \<Longrightarrow> ps_half_open s' = ps_half_open s"
  "ps_half_open (fst (set_candidate_subscription_expiry i e s)) = ps_half_open s"
  "ps_half_open (fst (set_candidate_subscription_plan low i plan s)) = ps_half_open s"
  "ps_half_open (upsert c s) = ps_half_open s"
  "ps_half_open (fst (set_protected_candidate protected reserve s)) = ps_half_open s"
  "ps_half_open (fst (update_candidate_availability_at i enabled h q u s)) = ps_half_open s"
  "ps_half_open (fst (update_candidate_quota_at i q u v s)) = ps_half_open s"
  "ps_half_open (fst (set_execution_fence i fenced s)) = ps_half_open s"
  "ps_half_open (fst (block_capability i m s)) = ps_half_open s"
  "ps_half_open (fst (clear_capability_blocks i s)) = ps_half_open s"
  "ps_half_open (fst (set_candidate_health i h s)) = ps_half_open s"
  "ps_half_open (fst (record_failure i s)) = ps_half_open s"
  "ps_half_open (fst (reset_failures i s)) = ps_half_open s"
  "ps_half_open (fst (clear_cooldown i m s)) = ps_half_open s"
  by (auto simp: same_tables_def set_candidate_subscription_expiry_def set_candidate_subscription_plan_def upsert_def set_protected_candidate_def
      update_candidate_availability_at_def update_candidate_quota_at_def set_execution_fence_def block_capability_def clear_capability_blocks_def
      set_candidate_health_def record_failure_def reset_failures_def clear_cooldown_def Let_def split: option.split)

lemma half_open_affinity:
  "ps_half_open (fst (select_for request lane s)) = ps_half_open s"
  "ps_half_open (fst (earliest_retry_at request s)) = ps_half_open s"
  "ps_half_open (fst (all_applicable_cooldown request s)) = ps_half_open s"
  "ps_half_open (fst (bind_response_affinity k i t s)) = ps_half_open s"
  "ps_half_open (fst (bind_prompt_affinity k i t s)) = ps_half_open s"
  "ps_half_open (fst (bind_prompt_affinity_sticky k i t s)) = ps_half_open s"
  "ps_half_open (fst (restore_response_affinity k i e t s)) = ps_half_open s"
  "ps_half_open (fst (restore_prompt_affinity k i e t s)) = ps_half_open s"
  "ps_half_open (fst (has_response_affinity k t s)) = ps_half_open s"
  "ps_half_open (fst (has_prompt_affinity k t s)) = ps_half_open s"
  "ps_half_open (fst (invalidate_response_affinity k s)) = ps_half_open s"
  using select_for_effect(2) [of request lane s]
  by (auto simp: earliest_retry_at_def all_applicable_cooldown_def bind_response_affinity_def bind_prompt_affinity_def
      bind_prompt_affinity_sticky_def restore_response_affinity_def restore_prompt_affinity_def has_response_affinity_def
      has_prompt_affinity_def invalidate_response_affinity_def affinity_get_pair Let_def case_prod_beta split: option.split prod.splits)
    (metis fst_conv prod.collapse)+

lemma pool_step_half_open:
  assumes "pool_step low s s'" "(i, p) |\<in>| ps_half_open s" "(i, p) |\<notin>| ps_half_open s'"
  shows "(\<exists>m t tokens latency. p = to_ascii_lowercase m \<and> s' = fst (record_success_with_metrics i m t tokens latency s))
    \<or> (\<exists>r enforce. cooldown_scope r \<in> {p, ''*''} \<and> s' = fst (set_cooldown_with_reason_inner i r enforce s))
    \<or> bt_get (ps_candidates s') i = None"
  using assms(1)
proof (cases rule: pool_step.cases)
  case (remove j)
  then show ?thesis using assms(2,3)
    by (auto simp: remove_candidate_def remove_now_fields split: option.splits if_splits)
next
  case (success j m t tokens latency)
  have "j = i \<and> to_ascii_lowercase m = p"
    using assms(2,3) unfolding success by (auto simp: record_success_with_metrics_def Let_def split: option.splits)
  then show ?thesis using success by blast
next
  case (cooldown j r enforce)
  have "j = i \<and> cooldown_scope r \<in> {p, ''*''}"
    using assms(2,3) unfolding cooldown by (auto simp: set_cooldown_with_reason_inner_def Let_def split: option.splits if_splits)
  then show ?thesis using cooldown by blast
qed (use assms(2,3) in \<open>simp_all add: half_open_config(2-) half_open_config(1) [OF same_tables_config(1)] half_open_config(1) [OF same_tables_config(2)]
    half_open_config(1) [OF same_tables_config(3)] half_open_config(1) [OF same_tables_config(4)]
    half_open_config(1) [OF same_tables_config(5)] half_open_config(1) [OF same_tables_config(6)] half_open_affinity\<close>)

lemma reserve_half_open: "ps_half_open s |\<subseteq>| ps_half_open (fst (reserve_for_lane i model now lane s))"
  by (auto simp: reserve_for_lane_def Let_def split: option.split)

lemma locked_half_open:
  assumes "select_and_reserve_locked request lane s = (s', result)"
  shows "ps_half_open s |\<subseteq>| ps_half_open s'"
proof -
  obtain s1 sel where sel: "select_for request lane s = (s1, sel)" by force
  have same: "ps_half_open s1 = ps_half_open s" by (rule select_for_effect(2) [OF sel])
  show ?thesis
  proof (cases sel)
    case None
    then show ?thesis using assms sel same by (auto simp: select_and_reserve_locked_def)
  next
    case (Some selection)
    let ?r = "reserve_for_lane (sl_candidate_id selection) (rq_model request) (rq_now_ms request) lane s1"
    have "s' = fst ?r" using assms sel Some by (auto simp: select_and_reserve_locked_def split: prod.splits if_splits)
    then show ?thesis using reserve_half_open [of s1] same by simp
  qed
qed

lemma release_half_open:
  assumes "(i, p) |\<in>| ps_half_open s" "(i, p) |\<notin>| ps_half_open (fst (release_for_lane j (Some m) lane s))"
  shows "j = i \<and> (p \<in> {to_ascii_lowercase m, ''*''} \<or> bt_get (ps_candidates (fst (release_for_lane j (Some m) lane s))) i = None)"
  using assms
  by (auto simp: release_for_lane_def finalize_retired_if_idle_def remove_now_fields Let_def split: prod.splits if_splits)

lemma probe_kept:
  assumes "reach (\<lambda>a b. gateway_step low a b \<and> \<not> ends_probe i p a b) a b" "(i, p) |\<in>| ps_half_open (fst a)"
  shows "(i, p) |\<in>| ps_half_open (fst b)"
  using assms
proof (induction rule: reach.induct)
  case (step b c)
  then have b: "(i, p) |\<in>| ps_half_open (fst b)" and g: "gateway_step low b c" and e: "\<not> ends_probe i p b c" by blast+
  show ?case
  proof (rule ccontr)
    assume c: "(i, p) |\<notin>| ps_half_open (fst c)"
    from g show False
    proof (cases rule: gateway_step.cases)
      case (pool s s' leases)
      then show False using pool_step_half_open [of low s s' i p] b c e by (auto simp: ends_probe_def)
    next
      case (acquire request lane s s' selection lease leases)
      then show False using locked_half_open b c by fastforce
    next
      case (refused request lane s s' leases)
      then show False using locked_half_open b c by fastforce
    next
      case (drop s lease leases)
      then show False using release_half_open [of i p s "cl_candidate_id lease" "cl_model lease" "cl_lane lease"] b c e
        by (auto simp: ends_probe_def)
    qed
  qed
qed

lemma cooldown_accepted:
  assumes "set_cooldown_with_reason_inner i request enforce s = (s', True)"
  obtains c t reasons probes where "bt_get (ps_candidates s) i = Some c"
    "s' = s\<lparr>ps_candidates := bt_insert i (c\<lparr>rc_cooldowns := bt_insert (cooldown_scope request) t (rc_cooldowns c)\<rparr>)
        (ps_candidates s), ps_cooldown_reasons := reasons, ps_half_open := probes\<rparr>"
    "cr_retry_at_ms request \<le> t" "\<forall>old. bt_get (rc_cooldowns c) (cooldown_scope request) = Some old \<longrightarrow> old \<le> t"
    "\<forall>j m. j \<noteq> i \<longrightarrow> ((j, m) |\<in>| probes \<longleftrightarrow> (j, m) |\<in>| ps_half_open s)"
    "enforce \<and> cr_reason request = Transient \<longrightarrow> transient_cooldown_allowed s i (cr_policy_model request)
        (cr_allowed_protocols request) (cr_request_scope request) (cr_now_ms request)"
proof -
  obtain c where c: "bt_get (ps_candidates s) i = Some c"
    using assms by (auto simp: set_cooldown_with_reason_inner_def split: if_splits option.splits)
  show thesis
    by (rule that [where t = "case bt_get (rc_cooldowns c) (cooldown_scope request) of
          None \<Rightarrow> cr_retry_at_ms request | Some current \<Rightarrow> max current (cr_retry_at_ms request)"
        and reasons = "if should_store_reason s i request
          then bt_insert (i, cooldown_scope request) (cr_reason request) (ps_cooldown_reasons s)
          else ps_cooldown_reasons s"
        and probes = "if cooldown_scope request = ''*'' then ffilter (\<lambda>h. fst h \<noteq> i) (ps_half_open s)
          else ps_half_open s |-| {|(i, cooldown_scope request)|}", OF c])
      (use assms c in \<open>auto simp: set_cooldown_with_reason_inner_def Let_def split: if_splits option.splits\<close>)
qed

lemma eligible_frame:
  assumes "\<forall>m. (rc_id d, m) |\<in>| probes \<longleftrightarrow> (rc_id d, m) |\<in>| ps_half_open s"
  shows "is_eligible (s\<lparr>ps_candidates := cs, ps_cooldown_reasons := reasons, ps_half_open := probes\<rparr>) d
    = is_eligible s d"
proof (intro ext)
  fix model protocols scope now
  let ?s = "s\<lparr>ps_candidates := cs, ps_cooldown_reasons := reasons, ps_half_open := probes\<rparr>"
  have "provider_storm_open ?s d model now = provider_storm_open s d model now"
    "quota_reserve_allows ?s d now = quota_reserve_allows s d now"
    by (simp_all add: provider_storm_open_def quota_reserve_allows_def split: option.split CandidateQuota.split)
  then show "is_eligible ?s d model protocols scope now = is_eligible s d model protocols scope now"
    using assms by (cases "half_open_scope d model now") (simp_all add: is_eligible_def)
qed

lemma values_ids:
  assumes "pool_wf s"
  shows "map rc_id (bt_values (ps_candidates s)) = bt_keys (ps_candidates s)"
proof -
  have "rc_id c = i" if "(i, c) \<in> set (bt_entries (ps_candidates s))" for i c
    using assms that unfolding bt_entries_iff by (auto simp: pool_wf_def candidates_wf_def)
  then show ?thesis by (auto simp: bt_values_def bt_keys_def)
qed

lemma distinct_values: "pool_wf s \<Longrightarrow> distinct (bt_values (ps_candidates s))"
  using values_ids [of s] sorted_keys_distinct [OF bt_entries_sorted, of "ps_candidates s"]
  by (metis bt_keys_def distinct_map)

lemma two_eligible:
  assumes "pool_wf s" "\<not> length (filter P (bt_values (ps_candidates s))) \<le> 1"
  shows "\<exists>e \<in> set (bt_values (ps_candidates s)). P e \<and> rc_id e \<noteq> i"
proof (rule ccontr)
  let ?xs = "filter P (bt_values (ps_candidates s))"
  assume "\<not> (\<exists>e \<in> set (bt_values (ps_candidates s)). P e \<and> rc_id e \<noteq> i)"
  then have all: "rc_id e = i" if "e \<in> set ?xs" for e using that by auto
  have ids: "bt_get (ps_candidates s) (rc_id e) = Some e" if "e \<in> set (bt_values (ps_candidates s))" for e
    using values_candidate [OF assms(1)] that by blast
  have "distinct (bt_values (ps_candidates s))"
    using distinct_values [OF assms(1)] by simp
  then have "distinct ?xs" by simp
  moreover have "e = e'" if "e \<in> set ?xs" "e' \<in> set ?xs" for e e'
    using all [OF that(1)] all [OF that(2)] ids [of e] ids [of e'] that by simp
  ultimately have "length ?xs \<le> 1"
    by (metis One_nat_def card.empty card_le_Suc0_iff_eq distinct_card List.finite_set)
  then show False using assms(2) by simp
qed

lemma retry_ahead: "request_retry_at request c = Some t \<Longrightarrow> rq_now_ms request < t"
  by (auto simp: request_retry_at_def retry_at_if_configured_def active_retry_at_Some split: if_splits)

definition usable_for :: "PoolScheduler \<Rightarrow> SelectionRequest \<Rightarrow> RuntimeCandidate \<Rightarrow> bool" where
  "usable_for s request c \<longleftrightarrow> rc_id c |\<notin>| rq_tried request \<and> quota_reserve_allows s c (rq_now_ms request)
     \<and> is_catalog_visible c (rq_model request) (rq_allowed_protocols request) (rq_scope request)"

text \<open>What the loop over the candidates has gathered: the least retry time of those it may use.\<close>

lemma cooldown_loop_spec:
  "(case applicable_cooldown_loop s request acc reason cs of
      None \<Rightarrow> (acc = None \<and> (\<forall>c \<in> set cs. \<not> usable_for s request c)) \<or> (\<exists>c \<in> set cs. usable_for s request c \<and> request_retry_at request c = None)
    | Some (t, _) \<Rightarrow> (acc = Some t \<or> (\<exists>c \<in> set cs. usable_for s request c \<and> request_retry_at request c = Some t))
        \<and> (\<forall>t'. acc = Some t' \<longrightarrow> t \<le> t')
        \<and> (\<forall>c \<in> set cs. usable_for s request c \<longrightarrow> (\<exists>t'. request_retry_at request c = Some t' \<and> t \<le> t')))"
proof (induction cs arbitrary: acc reason)
  case (Cons c cs)
  show ?case
  proof (cases "usable_for s request c")
    case False
    then have "applicable_cooldown_loop s request acc reason (c # cs) = applicable_cooldown_loop s request acc reason cs"
      by (auto simp: usable_for_def)
    then show ?thesis using Cons.IH [of acc reason] False by (auto split: option.splits)
  next
    case True
    show ?thesis
    proof (cases "request_retry_at request c")
      case None
      then show ?thesis using True by (auto simp: usable_for_def)
    next
      case (Some t0)
      let ?acc = "Some (case acc of None \<Rightarrow> t0 | Some current \<Rightarrow> min current t0)"
      let ?reason = "aggregate_cooldown_reason reason (cooldown_reason_for s c (rq_model request) (rq_now_ms request))"
      have "applicable_cooldown_loop s request acc reason (c # cs) = applicable_cooldown_loop s request ?acc ?reason cs"
        using True Some by (auto simp: usable_for_def)
      then show ?thesis
        using Cons.IH [of ?acc ?reason] True Some
        by (auto split: option.splits simp: min_def split: if_splits) 
    qed
  qed
qed (auto split: option.splits)

lemma storm_window:
  "t1 \<le> t2 \<Longrightarrow> t2 \<le> t3 \<Longrightarrow> t3 - t1 \<le> w \<Longrightarrow>
   sat_sub t2 t1 \<le> w \<and> sat_sub t3 t1 \<le> w \<and> sat_sub t3 t2 \<le> (w :: u64)"
  by (simp add: word_le_nat_alt rust_arith unat_sub) linarith

lemma storm_record:
  assumes "ps_provider_storm_breaker_enabled s" "bt_get (ps_candidates s) i = Some c" "rc_kind c = ApiSource"
    and "option_default \<lparr>sb_failures = [], sb_open_until_ms = 0\<rparr>
      (bt_get (ps_provider_storm_breakers s) (rc_source_id c, to_ascii_lowercase model))
      = \<lparr>sb_failures = fs, sb_open_until_ms = 0\<rparr>"
    and "\<forall>f \<in> set fs. sat_sub now f \<le> PROVIDER_STORM_WINDOW_MS"
  shows "fst (record_provider_rate_limit i model now s) =
    s\<lparr>ps_provider_storm_breakers := bt_insert (rc_source_id c, to_ascii_lowercase model) \<lparr>sb_failures = fs @ [now],
      sb_open_until_ms = (if 2 \<le> length fs then sat_add now PROVIDER_STORM_OPEN_MS else 0)\<rparr>
      (ps_provider_storm_breakers s)\<rparr>"
proof -
  have "dropWhile (\<lambda>f. sat_sub now f > PROVIDER_STORM_WINDOW_MS) fs = fs"
    using assms(5) by (cases fs) (auto simp: not_less)
  then show ?thesis
    using assms(1-4) by (simp add: record_provider_rate_limit_def filter_option_def Let_def PROVIDER_STORM_THRESHOLD_def)
qed

lemma sample_ids: "rc_id (sample_candidate ''a'' OAuthAccount QUnknown None) \<noteq> rc_id (sample_candidate ''b'' OAuthAccount QUnknown None)"
  by (simp add: sample_candidate_def)

definition cyclic_pool :: PoolScheduler where
  "cyclic_pool = upsert (sample_candidate ''c'' OAuthAccount (Available 102) None)
     (upsert (sample_candidate ''b'' OAuthAccount (Available 101) None)
       (upsert (sample_candidate ''a'' OAuthAccount (Available 100) None) scheduler_new))"

lemma idle_counts:
  assumes "ps_activity s = activity_default"
  shows "in_flight_count s i lane = 0" "dispatch_count s i lane = 0"
  using assms
  by (cases lane; simp add: in_flight_count_def dispatch_count_def activity_in_flight_count_def
      activity_dispatch_count_def activity_default_def)+

lemma compare_idle_accounts:
  assumes "ps_activity s = activity_default" "ps_routing_strategy s = Adaptive" "ps_protected_candidate s = None"
  shows "compare_preference s Text (sample_candidate i OAuthAccount (Available p) None)
      (sample_candidate j OAuthAccount (Available q) None) =
    (if abs_diff p q \<le> 1 then cmp j i else then_with (cmp p q) (cmp j i))"
  using idle_counts [OF assms(1)] assms(2,3)
  by (simp add: compare_preference_def compare_quota_and_reset_def routing_quota_def routing_quota_factor_def
      routing_tier_def candidate_kind_preference_def compare_api_source_priority_def compare_equal_quota_rotation_def
      rotation_dispatch_count_def sample_candidate_def filter_option_def QUOTA_NOISE_TIE_BPS_def cmp_def Let_def)

lemma cyclic_pool_idle:
  "ps_activity cyclic_pool = activity_default" "ps_routing_strategy cyclic_pool = Adaptive"
  "ps_protected_candidate cyclic_pool = None"
  by (simp_all add: cyclic_pool_def upsert_def scheduler_new_def)

lemmas cyclic_compare = compare_idle_accounts [OF cyclic_pool_idle]

lemma runtime_snapshot_id: "cs_candidate_id (runtime_snapshot s now e) = rc_id (fst e)"
  by (simp add: runtime_snapshot_def split: prod.split)

text \<open>A candidate whose cooldown for the model has expired.\<close>

definition sample_cooled :: RuntimeCandidate where
  "sample_cooled = sample_oauth\<lparr>rc_cooldowns := bt_insert ''m'' 10 bt_empty\<rparr>"

definition sample_probe_pool :: PoolScheduler where
  "sample_probe_pool = sample_pool sample_cooled"

lemma sample_cooled_get: "bt_get (ps_candidates sample_probe_pool) ''a'' = Some sample_cooled"
  using sample_pool_get [of sample_cooled]
  by (simp add: sample_probe_pool_def sample_cooled_def sample_oauth_def sample_candidate_def)

lemma sample_cooled_scope: "half_open_scope sample_cooled ''m'' 11 = Some ''m''"
  by (simp add: half_open_scope_def sample_cooled_def sample_oauth_def sample_candidate_def filter_option_def
      has_expired_cooldown_def cooldown_applies_def rust_eval)

lemma sample_probe: "\<exists>s'. reserve_for_lane ''a'' ''m'' 11 Text sample_probe_pool = (s', True)"
  using sample_cooled_get sample_cooled_scope
  by (simp add: reserve_for_lane_def lane_allows_def sample_probe_pool_def sample_pool_def upsert_def scheduler_new_def)

lemma reserve_for_plain:
  "bt_get (ps_candidates s) i = Some c \<Longrightarrow> half_open_scope c model now = None \<Longrightarrow>
   reserve_for i model now s = (s\<lparr>ps_activity := activity_reserve i model Text (ps_activity s)\<rparr>, True)"
  by (simp add: reserve_for_def reserve_for_lane_def lane_allows_def)

lemma reserve_for_probe:
  "bt_get (ps_candidates s) i = Some c \<Longrightarrow> model \<noteq> [] \<Longrightarrow> half_open_scope c model now = Some p \<Longrightarrow>
   reserve_for i model now s = (if (i, p) |\<in>| ps_half_open s then (s, False)
     else (s\<lparr>ps_half_open := finsert (i, p) (ps_half_open s),
             ps_activity := activity_reserve i model Text (ps_activity s)\<rparr>, True))"
  by (simp add: reserve_for_def reserve_for_lane_def lane_allows_def)

lemma release_for_live:
  "i |\<notin>| ps_retired_candidates s \<Longrightarrow> 0 < activity_in_flight_count (ps_activity s) i Text \<Longrightarrow>
   release_for i (Some model) s =
     (s\<lparr>ps_half_open := ps_half_open s |-| {|(i, to_ascii_lowercase model)|} |-| {|(i, ''*'')|},
        ps_activity := fst (activity_release i (Some model) Text (ps_activity s))\<rparr>, True)"
  by (auto simp: release_for_def release_for_lane_def activity_release_def activity_in_flight_count_def
      finalize_retired_if_idle_def Let_def split: option.splits)

lemma sample_cooldown:
  "bt_get (ps_candidates s) ''a'' = Some sample_oauth \<Longrightarrow>
   set_cooldown ''a'' ''m'' 10 s = (s\<lparr>ps_candidates := bt_insert ''a'' sample_cooled (ps_candidates s),
     ps_cooldown_reasons := ps_cooldown_reasons (fst (set_cooldown ''a'' ''m'' 10 s)), ps_half_open := ps_half_open s |-| {|(''a'', ''m'')|}\<rparr>, True)"
  by (simp add: set_cooldown_def set_cooldown_with_reason_def set_cooldown_with_reason_inner_def sample_cooled_def
      cooldown_scope_def rust_eval sample_oauth_def sample_candidate_def Let_def)

lemma sample_oauth_scope: "half_open_scope sample_oauth ''m'' 5 = None"
  by (simp add: half_open_scope_def sample_oauth_def sample_candidate_def filter_option_def has_expired_cooldown_def)

lemma sample_pool_idle:
  "ps_activity sample_oauth_pool = activity_default" "ps_half_open sample_oauth_pool = {||}"
  "ps_retired_candidates sample_oauth_pool = {||}"
  by (simp_all add: sample_oauth_pool_def sample_pool_def upsert_def scheduler_new_def)

lemma sample_counts:
  defines "a \<equiv> activity_reserve ''a'' ''m'' Text"
  shows "activity_in_flight_count (a (a activity_default)) ''a'' Text = 2"
    "activity_in_flight_count (a (fst (activity_release ''a'' (Some ''m'') Text (a (a activity_default))))) ''a'' Text = 2"
proof -
  have none: "activity_in_flight_count activity_default ''a'' Text = 0"
    by (simp add: activity_in_flight_count_def activity_default_def)
  show two: "activity_in_flight_count (a (a activity_default)) ''a'' Text = 2"
    by (simp add: a_def in_flight_reserve none sat_add_def)
  have "snd (activity_release ''a'' (Some ''m'') Text (a (a activity_default)))"
    using two by (auto simp: activity_release_def activity_in_flight_count_def Let_def split: option.splits)
  then have "activity_in_flight_count (fst (activity_release ''a'' (Some ''m'') Text (a (a activity_default)))) ''a'' Text = 1"
    using two by (simp add: in_flight_release sat_sub_def)
  then show "activity_in_flight_count (a (fst (activity_release ''a'' (Some ''m'') Text (a (a activity_default))))) ''a'' Text = 2"
    unfolding a_def by (simp add: in_flight_reserve sat_add_def)
qed

definition sample_kept_pool :: PoolScheduler where
  "sample_kept_pool = sample_oauth_pool\<lparr>ps_keep_last_candidate_available := True\<rparr>"

definition sample_transient :: CooldownRequest where
  "sample_transient = \<lparr>cr_scope = ''m'', cr_policy_model = ''m'', cr_allowed_protocols = [Responses],
     cr_request_scope = scope_default, cr_retry_at_ms = 10, cr_reason = Transient, cr_now_ms = 5\<rparr>"

lemma sample_kept_wf: "pool_wf sample_kept_pool"
proof -
  have "pool_wf sample_oauth_pool" using reachable_invariant [OF sample_oauth_reachable] by simp
  then show ?thesis
    by (rule pool_wf_same [rotated]) (simp add: same_tables_def sample_kept_pool_def)
qed

lemma sample_kept_eligible: "is_eligible sample_kept_pool sample_oauth ''m'' [Responses] scope_default 5"
  by (simp add: sample_eval sample_kept_pool_def sample_oauth_pool_def sample_oauth_def)

definition sample_storm_pool :: PoolScheduler where
  "sample_storm_pool = (sample_pool (sample_candidate ''a'' ApiSource QUnknown None))\<lparr>ps_provider_storm_breaker_enabled := True\<rparr>"

lemma sample_storm_get: "bt_get (ps_candidates sample_storm_pool) ''a'' = Some (sample_candidate ''a'' ApiSource QUnknown None)"
  using sample_pool_get [of "sample_candidate ''a'' ApiSource QUnknown None"]
  by (simp add: sample_storm_pool_def sample_candidate_def)

subsection \<open>Properties\<close>

text \<open>
  C18 (safety). Once a request has reserved a candidate as a half-open probe, no other request whose
  probe has the same scope is admitted to that candidate or can reserve it, in either lane, whatever the
  gateway does in the meantime, until one of these clears the mark: a request on that candidate and
  scope ends, whichever it is, a success is recorded or a new cooldown is set for the scope, or the
  candidate leaves the pool.
\<close>

theorem half_open_probe_exclusive:
  assumes "reserve_for_lane i model now lane s = (s', True)" "bt_get (ps_candidates s) i = Some c"
    and "model \<noteq> []" "half_open_scope c model now = Some p"
    and "reach (\<lambda>a b. gateway_step low a b \<and> \<not> ends_probe i p a b) (s', leases) (t, leases')"
    and "bt_get (ps_candidates t) i = Some d" "rc_id d = i" "model' \<noteq> []" "half_open_scope d model' now' = Some p"
  shows "\<not> is_eligible t d model' protocols scope now' \<and> reserve_for_lane i model' now' lane' t = (t, False)"
proof -
  have marked: "(i, p) |\<in>| ps_half_open t"
    using probe_kept [OF assms(5)] reserve_probe(1) [OF assms(1-4)] by simp
  have "\<not> is_eligible t d model' protocols scope now'"
    using marked eligible_no_probe [OF _ assms(9)] assms(7) by blast
  moreover have "reserve_for_lane i model' now' lane' t = (t, False)"
    using marked assms(6,8,9) by (simp add: reserve_for_lane_def)
  ultimately show ?thesis ..
qed

theorem half_open_probe_exclusive_witness:
  "\<exists>s'. reserve_for_lane ''a'' ''m'' 11 Text sample_probe_pool = (s', True)
     \<and> \<not> is_eligible (set_routing_strategy Adaptive s') sample_cooled ''m'' [Responses] scope_default 11"
proof -
  obtain s' where s': "reserve_for_lane ''a'' ''m'' 11 Text sample_probe_pool = (s', True)" using sample_probe by blast
  let ?t = "set_routing_strategy Adaptive s'"
  have id: "rc_id sample_cooled = ''a''" by (simp add: sample_cooled_def sample_oauth_def sample_candidate_def)
  have marked: "(''a'', ''m'') |\<in>| ps_half_open s'" "ps_candidates s' = ps_candidates sample_probe_pool"
    using reserve_probe [OF s' sample_cooled_get _ sample_cooled_scope] by simp_all
  have "gateway_step id (s', {#}) (?t, {#})" by (rule gateway_step.pool, rule pool_step.strategy)
  moreover have "\<not> ends_probe ''a'' ''m'' (s', {#}) (?t, {#})" using marked by (simp add: ends_probe_def set_routing_strategy_def)
  ultimately have r: "reach (\<lambda>a b. gateway_step id a b \<and> \<not> ends_probe ''a'' ''m'' a b) (s', {#}) (?t, {#})"
    by (blast intro: reach.intros)
  have "bt_get (ps_candidates ?t) ''a'' = Some sample_cooled"
    using marked(2) sample_cooled_get by (simp add: set_routing_strategy_def)
  then show ?thesis
    using half_open_probe_exclusive [OF s' sample_cooled_get _ sample_cooled_scope r _ id _ sample_cooled_scope] s' by auto
qed

text \<open>
  A cooldown that was accepted never shortens one already set for its scope, and until
  its retry time the candidate is not eligible for any model the scope covers, whatever else the
  request asks for.
\<close>

lemma cooldown_blocks_until_retry:
  assumes "set_cooldown_with_reason_inner i request enforce s = (s', True)" "cooldown_applies (cooldown_scope request) model"
    and "now < cr_retry_at_ms request"
  shows "\<exists>c c'. bt_get (ps_candidates s) i = Some c \<and> bt_get (ps_candidates s') i = Some c'
    \<and> \<not> is_eligible s' c' model protocols scope now
    \<and> (\<forall>old. bt_get (rc_cooldowns c) (cooldown_scope request) = Some old \<longrightarrow>
         (\<exists>new. bt_get (rc_cooldowns c') (cooldown_scope request) = Some new \<and> old \<le> new))"
proof -
  obtain c t reasons probes where c: "bt_get (ps_candidates s) i = Some c"
    and s': "s' = s\<lparr>ps_candidates := bt_insert i (c\<lparr>rc_cooldowns := bt_insert (cooldown_scope request) t (rc_cooldowns c)\<rparr>)
        (ps_candidates s), ps_cooldown_reasons := reasons, ps_half_open := probes\<rparr>"
    and t: "cr_retry_at_ms request \<le> t" "\<forall>old. bt_get (rc_cooldowns c) (cooldown_scope request) = Some old \<longrightarrow> old \<le> t"
    using assms(1) by (rule cooldown_accepted) blast
  let ?c' = "c\<lparr>rc_cooldowns := bt_insert (cooldown_scope request) t (rc_cooldowns c)\<rparr>"
  have "now < t" using assms(3) t(1) by simp
  then have "active_retry_at (rc_cooldowns ?c') model now \<noteq> None"
    using assms(2) by (auto simp: active_retry_at_None not_le)
  then have "\<not> is_eligible s' ?c' model protocols scope now" by (metis eligible_no_cooldown)
  then show ?thesis using c t(2) by (auto simp: s')
qed

text \<open>
  C19 (liveness). With the policy that keeps the last candidate available, a transient failure never
  takes the last one away: when some candidate is eligible for the failed request, one still is after
  the cooldown has been set or refused.
\<close>

theorem transient_cooldown_keeps_a_candidate:
  assumes "ps_keep_last_candidate_available s" "cr_reason request = Transient" "pool_wf s"
    and "set_cooldown_with_reason_for_model_at i request s = (s', accepted)"
    and "is_eligible s d (cr_policy_model request) (cr_allowed_protocols request) (cr_request_scope request) (cr_now_ms request)"
    and "d \<in> set (bt_values (ps_candidates s))"
  shows "\<exists>e \<in> set (bt_values (ps_candidates s')).
    is_eligible s' e (cr_policy_model request) (cr_allowed_protocols request) (cr_request_scope request) (cr_now_ms request)"
proof (cases accepted)
  case False
  then have "s' = s"
    using assms(4)
    by (auto simp: set_cooldown_with_reason_for_model_at_def set_cooldown_with_reason_inner_def Let_def
        split: if_splits option.splits)
  then show ?thesis using assms(5,6) by blast
next
  case True
  let ?e = "\<lambda>s e. is_eligible s e (cr_policy_model request) (cr_allowed_protocols request) (cr_request_scope request) (cr_now_ms request)"
  obtain c t reasons probes where c: "bt_get (ps_candidates s) i = Some c"
    and s': "s' = s\<lparr>ps_candidates := bt_insert i (c\<lparr>rc_cooldowns := bt_insert (cooldown_scope request) t (rc_cooldowns c)\<rparr>)
        (ps_candidates s), ps_cooldown_reasons := reasons, ps_half_open := probes\<rparr>"
    and probes: "\<forall>j m. j \<noteq> i \<longrightarrow> ((j, m) |\<in>| probes \<longleftrightarrow> (j, m) |\<in>| ps_half_open s)"
    and allowed: "transient_cooldown_allowed s i (cr_policy_model request)
        (cr_allowed_protocols request) (cr_request_scope request) (cr_now_ms request)"
    using assms(2,4) True unfolding set_cooldown_with_reason_for_model_at_def by (auto elim: cooldown_accepted)
  have "\<not> length (filter (?e s) (bt_values (ps_candidates s))) \<le> 1"
    using allowed c assms(1)
    by (auto simp: transient_cooldown_allowed_def is_last_applicable_candidate_def split: if_splits)
  then obtain e where e: "e \<in> set (bt_values (ps_candidates s))" "?e s e" "rc_id e \<noteq> i"
    using two_eligible [OF assms(3)] by blast
  moreover have "bt_get (ps_candidates s) (rc_id e) = Some e" using values_candidate [OF assms(3)] e(1) by blast
  then have "e \<in> set (bt_values (ps_candidates s'))" using e(3) by (auto simp: s' bt_values_iff intro!: exI [of _ "rc_id e"])
  moreover have "?e s' e = ?e s e" unfolding s' by (subst eligible_frame) (use probes e(3) in auto)
  ultimately show ?thesis by blast
qed

theorem transient_cooldown_keeps_a_candidate_witness:
  "\<exists>s' accepted. set_cooldown_with_reason_for_model_at ''a'' sample_transient sample_kept_pool = (s', accepted)
     \<and> (\<exists>e \<in> set (bt_values (ps_candidates s')). is_eligible s' e ''m'' [Responses] scope_default 5)"
proof -
  obtain s' accepted where s': "set_cooldown_with_reason_for_model_at ''a'' sample_transient sample_kept_pool = (s', accepted)"
    by (cases "set_cooldown_with_reason_for_model_at ''a'' sample_transient sample_kept_pool")
  have "sample_oauth \<in> set (bt_values (ps_candidates sample_kept_pool))"
    using sample_oauth_get by (auto simp: sample_kept_pool_def bt_values_iff)
  then show ?thesis
    using transient_cooldown_keeps_a_candidate [OF _ _ sample_kept_wf s'] sample_kept_eligible s'
    by (auto simp: sample_transient_def sample_kept_pool_def)
qed

text \<open>
  The retry hint of a request that is not tied to an earlier response is given only
  when every candidate it could use is cooling down: it is the earliest of their retry times, each
  still ahead. When one of them is not cooling down, or there is none, there is no hint.
\<close>

lemma cooldown_hint_is_earliest_retry:
  assumes "rq_response_affinity_key request = None"
  shows "(case snd (all_applicable_cooldown request s) of
      None \<Rightarrow> (\<forall>c \<in> set (bt_values (ps_candidates s)). \<not> usable_for s request c)
        \<or> (\<exists>c \<in> set (bt_values (ps_candidates s)). usable_for s request c \<and> request_retry_at request c = None)
    | Some (t, reason) \<Rightarrow>
        (\<exists>c \<in> set (bt_values (ps_candidates s)). usable_for s request c \<and> request_retry_at request c = Some t)
        \<and> (\<forall>c \<in> set (bt_values (ps_candidates s)). usable_for s request c \<longrightarrow> (\<exists>t'. request_retry_at request c = Some t' \<and> t \<le> t' \<and> rq_now_ms request < t')))"
proof -
  have "snd (all_applicable_cooldown request s) =
      applicable_cooldown_loop s request None RateLimit (bt_values (ps_candidates s))"
    using assms(1) by (simp add: all_applicable_cooldown_def)
  then show ?thesis
    using cooldown_loop_spec [where s = s and request = request and acc = None and reason = RateLimit and cs = "bt_values (ps_candidates s)"] retry_ahead [of request]
    by (fastforce split: option.splits)
qed

text \<open>
  The storm breaker of an API source and model opens with the third rate limit
  within one window, not before; it then stays open for the configured time, closes no other source
  or model, and is forgotten on the next success.
\<close>

lemma storm_breaker_opens_at_three:
  assumes "ps_provider_storm_breaker_enabled s" "bt_get (ps_candidates s) i = Some c" "rc_kind c = ApiSource"
    and "bt_get (ps_provider_storm_breakers s) (rc_source_id c, to_ascii_lowercase model) = None"
    and "t1 \<le> t2" "t2 \<le> t3" "t3 - t1 \<le> PROVIDER_STORM_WINDOW_MS"
    and "s1 = fst (record_provider_rate_limit i model t1 s)" "s2 = fst (record_provider_rate_limit i model t2 s1)"
    and "s3 = fst (record_provider_rate_limit i model t3 s2)"
  shows "\<not> provider_storm_open s1 c model t \<and> \<not> provider_storm_open s2 c model t
    \<and> (provider_storm_open s3 c model t \<longleftrightarrow> t < sat_add t3 PROVIDER_STORM_OPEN_MS)
    \<and> (rc_source_id d \<noteq> rc_source_id c \<or> \<not> eq_ignore_ascii_case model' model \<longrightarrow>
         provider_storm_open s3 d model' t = provider_storm_open s d model' t)
    \<and> \<not> provider_storm_open (fst (record_success i model t4 s3)) c model t"
proof -
  let ?key = "(rc_source_id c, to_ascii_lowercase model)"
  have window: "sat_sub t2 t1 \<le> PROVIDER_STORM_WINDOW_MS" "sat_sub t3 t1 \<le> PROVIDER_STORM_WINDOW_MS"
      "sat_sub t3 t2 \<le> PROVIDER_STORM_WINDOW_MS"
    using storm_window [OF assms(5-7)] by simp_all
  have s1: "s1 = s\<lparr>ps_provider_storm_breakers := bt_insert ?key
      \<lparr>sb_failures = [t1], sb_open_until_ms = 0\<rparr> (ps_provider_storm_breakers s)\<rparr>"
    unfolding assms(8) using assms(4) by (subst storm_record [OF assms(1-3), of _ "[]"]) (simp_all add: option_default_def)
  have s2: "s2 = s1\<lparr>ps_provider_storm_breakers := bt_insert ?key
      \<lparr>sb_failures = [t1, t2], sb_open_until_ms = 0\<rparr> (ps_provider_storm_breakers s1)\<rparr>"
    unfolding assms(9) using assms(1-3) window
    by (subst storm_record [where c = c and fs = "[t1]"]) (simp_all add: s1 option_default_def)
  have s3: "s3 = s2\<lparr>ps_provider_storm_breakers := bt_insert ?key
      \<lparr>sb_failures = [t1, t2, t3], sb_open_until_ms = sat_add t3 PROVIDER_STORM_OPEN_MS\<rparr>
      (ps_provider_storm_breakers s2)\<rparr>"
    unfolding assms(10) using assms(1-3) window
    by (subst storm_record [where c = c and fs = "[t1, t2]"]) (simp_all add: s1 s2 option_default_def)
  have "bt_get (ps_candidates s3) i = Some c" using assms(2) by (simp add: s1 s2 s3)
  then have "\<not> provider_storm_open (fst (record_success i model t4 s3)) c model t"
    by (simp add: record_success_def record_success_with_metrics_def provider_storm_open_def Let_def)
  then show ?thesis
    using assms(1) by (auto simp: s1 s2 s3 provider_storm_open_def eq_ignore_ascii_case_def)
qed

text \<open>
  The ranking of two candidates is consistent under swapping them, and ties only
  candidates with the same identifier, so that two stored candidates are always ranked strictly.
\<close>

lemma ranking_strict_on_pair:
  "compare_preference s lane l r = reverse_ordering (compare_preference s lane r l)
    \<and> (rc_id l \<noteq> rc_id r \<longrightarrow> compare_preference s lane l r \<noteq> Equal)"
  using compare_preference_swap compare_preference_Equal by blast

text \<open>
  C23 (safety). The ranking is not transitive, because balances within one basis point count as
  equal: in a reachable pool of three accounts, the comparator that \<open>runtime_order\<close> passes to
  \<open>sort_by\<close> puts the first before the second, the second before the third and the third before the
  first. The documentation of \<open>sort_by\<close> requires a total order and allows a panic otherwise.
\<close>

theorem runtime_order_comparator_cycles:
  "reachable low (cyclic_pool, {#}) \<and> (\<exists>a b c. {a, b, c} \<subseteq> set (bt_values (ps_candidates cyclic_pool))
     \<and> compare_runtime cyclic_pool (a, True, 0) (b, True, 0) = Less
     \<and> compare_runtime cyclic_pool (b, True, 0) (c, True, 0) = Less
     \<and> compare_runtime cyclic_pool (c, True, 0) (a, True, 0) = Less)"
proof -
  let ?a = "sample_candidate ''a'' OAuthAccount (Available 100) None"
  let ?b = "sample_candidate ''b'' OAuthAccount (Available 101) None"
  let ?c = "sample_candidate ''c'' OAuthAccount (Available 102) None"
  have step: "reachable low (upsert c s, {#})" if "reachable low (s, {#})" for s and c :: RuntimeCandidate
    by (rule reach.step [OF that]) (intro gateway_step.pool pool_step.upsert)
  have "reachable low (cyclic_pool, {#})" unfolding cyclic_pool_def by (intro step reach.start)
  moreover have "{?a, ?b, ?c} \<subseteq> set (bt_values (ps_candidates cyclic_pool))"
    by (simp add: cyclic_pool_def upsert_def scheduler_new_def bt_values_def sample_candidate_def)
  moreover have "compare_runtime cyclic_pool (?a, True, 0) (?b, True, 0) = Less"
    "compare_runtime cyclic_pool (?b, True, 0) (?c, True, 0) = Less"
    "compare_runtime cyclic_pool (?c, True, 0) (?a, True, 0) = Less"
    by (simp_all add: compare_runtime_def cyclic_compare abs_diff_def cmp_def) (simp add: word_le_nat_alt)
  ultimately show ?thesis by blast
qed

text \<open>
  Whatever permutation \<open>sort_by\<close> returns, the runtime overview lists every
  candidate of the pool exactly once, with its current in-flight count, and a candidate reported
  available is eligible for one of its own models.
\<close>

lemma runtime_order_lists_pool:
  assumes "pool_wf s" "\<forall>compare xs. mset (sort_by compare xs) = mset xs"
  shows "distinct (map cs_candidate_id (runtime_order sort_by s now))
    \<and> set (map cs_candidate_id (runtime_order sort_by s now)) = candidate_ids s
    \<and> (\<forall>r \<in> set (runtime_order sort_by s now). cs_in_flight r = in_flight_count s (cs_candidate_id r) Text
        \<and> (cs_available r \<longrightarrow> (\<exists>c model. bt_get (ps_candidates s) (cs_candidate_id r) = Some c
            \<and> model |\<in>| rc_models c \<and> is_eligible s c model [rc_protocol c] scope_default now)))"
proof -
  let ?e = "\<lambda>c. (c, is_runtime_available s c now, in_flight_count s (rc_id c) Text)"
  let ?xs = "map ?e (bt_values (ps_candidates s))"
  have perm: "mset (map cs_candidate_id (runtime_order sort_by s now)) = mset (bt_keys (ps_candidates s))"
  proof -
    have "mset (map cs_candidate_id (runtime_order sort_by s now)) =
        image_mset (\<lambda>e. rc_id (fst e)) (mset (sort_by (compare_runtime s) ?xs))"
      by (simp add: runtime_order_def comp_def runtime_snapshot_id)
    also have "\<dots> = mset (map rc_id (bt_values (ps_candidates s)))"
      using assms(2) by (simp add: multiset.map_comp comp_def)
    finally show ?thesis by (simp only: values_ids [OF assms(1)])
  qed
  have "set (sort_by (compare_runtime s) ?xs) = set ?xs" using assms(2) mset_eq_setD by blast
  then have "\<exists>c \<in> set (bt_values (ps_candidates s)). r = runtime_snapshot s now (?e c)"
    if "r \<in> set (runtime_order sort_by s now)" for r
    using that by (auto simp: runtime_order_def)
  then have rows: "cs_in_flight r = in_flight_count s (cs_candidate_id r) Text
        \<and> (cs_available r \<longrightarrow> (\<exists>c model. bt_get (ps_candidates s) (cs_candidate_id r) = Some c
            \<and> model |\<in>| rc_models c \<and> is_eligible s c model [rc_protocol c] scope_default now))"
    if "r \<in> set (runtime_order sort_by s now)" for r
    using that values_candidate [OF assms(1)] by (fastforce simp: runtime_snapshot_def is_runtime_available_def)
  have "distinct (bt_keys (ps_candidates s))"
    using sorted_keys_distinct [OF bt_entries_sorted, of "ps_candidates s"] by (simp add: bt_keys_def)
  then have "distinct (map cs_candidate_id (runtime_order sort_by s now))"
    using perm mset_eq_imp_distinct_iff by blast
  moreover have "set (map cs_candidate_id (runtime_order sort_by s now)) = candidate_ids s"
    using mset_eq_setD [OF perm] by (auto simp: bt_keys_iff candidate_ids_iff)
  ultimately show ?thesis using rows by blast
qed

text \<open>
  C24 (safety). The single-probe rule does not survive the release of an older lease: an account
  serves one request, is put in a cooldown for the model, and after its expiry takes one probe. When
  the older request ends, its release clears the marker of the running probe, and a second probe is
  reserved while the first is still in flight.
\<close>

theorem older_release_admits_second_probe:
  "\<exists>s1 s2 s3 s4 s5. reserve_for ''a'' ''m'' 5 sample_oauth_pool = (s1, True)
    \<and> set_cooldown ''a'' ''m'' 10 s1 = (s2, True)
    \<and> is_half_open_probe s2 ''a'' ''m'' 11 \<and> reserve_for ''a'' ''m'' 11 s2 = (s3, True)
    \<and> snd (reserve_for ''a'' ''m'' 11 s3) = False
    \<and> release_for ''a'' (Some ''m'') s3 = (s4, True)
    \<and> is_half_open_probe s4 ''a'' ''m'' 11 \<and> reserve_for ''a'' ''m'' 11 s4 = (s5, True)
    \<and> in_flight_count s5 ''a'' Text = 2"
proof -
  let ?low = "to_ascii_lowercase ''m''"
  have low: "?low = ''m''" by code_simp
  let ?a = "activity_reserve ''a'' ''m'' Text"
  let ?s1 = "sample_oauth_pool\<lparr>ps_activity := ?a activity_default\<rparr>"
  let ?s2 = "?s1\<lparr>ps_candidates := bt_insert ''a'' sample_cooled (ps_candidates ?s1),
     ps_cooldown_reasons := ps_cooldown_reasons (fst (set_cooldown ''a'' ''m'' 10 ?s1)), ps_half_open := {||}\<rparr>"
  have s2: "set_cooldown ''a'' ''m'' 10 ?s1 = (?s2, True)"
    by (subst sample_cooldown) (simp_all add: sample_oauth_get sample_pool_idle)
  let ?s3 = "?s2\<lparr>ps_half_open := {|(''a'', ''m'')|}, ps_activity := ?a (?a activity_default)\<rparr>"
  let ?a4 = "fst (activity_release ''a'' (Some ''m'') Text (?a (?a activity_default)))"
  let ?s4 = "?s3\<lparr>ps_half_open := {||}, ps_activity := ?a4\<rparr>"
  let ?s5 = "?s4\<lparr>ps_half_open := {|(''a'', ''m'')|}, ps_activity := ?a ?a4\<rparr>"
  have count: "activity_in_flight_count (?a (?a activity_default)) ''a'' Text = 2"
      "activity_in_flight_count (?a ?a4) ''a'' Text = 2"
    using sample_counts by simp_all
  have "reserve_for ''a'' ''m'' 5 sample_oauth_pool = (?s1, True)"
    using reserve_for_plain [OF sample_oauth_get sample_oauth_scope] by (simp add: sample_pool_idle)
  moreover have "reserve_for ''a'' ''m'' 11 ?s2 = (?s3, True)" "reserve_for ''a'' ''m'' 11 ?s3 = (?s3, False)"
      "reserve_for ''a'' ''m'' 11 ?s4 = (?s5, True)"
    by (simp_all add: reserve_for_probe [OF _ _ sample_cooled_scope])
  moreover have "release_for ''a'' (Some ''m'') ?s3 = (?s4, True)"
    using count(1) by (subst release_for_live) (simp_all add: sample_pool_idle low)
  moreover have "is_half_open_probe ?s2 ''a'' ''m'' 11" "is_half_open_probe ?s4 ''a'' ''m'' 11"
    by (simp_all add: is_half_open_probe_def sample_cooled_scope)
  moreover have "in_flight_count ?s5 ''a'' Text = 2" using count(2) by (simp add: in_flight_count_def)
  ultimately show ?thesis using s2 by (intro exI conjI) auto
qed

end
