(* ===== verification/State_Properties.thy ===== *)
theory State_Properties
  imports Affinity Accounts
begin

section \<open>Affinity ownership, quota transitions and account state\<close>

text \<open>
  Properties of the stores below the scheduler: the affinity cache implements the map from keys to
  live owners it promises, a quota window reports each full period once, refreshing a quota keeps
  its snapshot well formed, and the account reducers keep what only a login may change.
\<close>

subsection \<open>Helper lemmas\<close>

lemma owner_insert_other:
  "k \<noteq> key \<Longrightarrow> owner_at (c\<lparr>ac_bindings := bt_insert key b (ac_bindings c)\<rparr>) t k = owner_at c t k"
  by (simp add: owner_at_def)

lemma owner_refresh_other:
  "k \<noteq> key \<Longrightarrow> now \<le> t \<Longrightarrow> owner_at (fst (affinity_refresh key now c)) t k = owner_at c t k"
  by (auto simp: affinity_refresh_def Let_def owner_insert_other owner_at_prune split: option.splits)

lemma refresh_live: "owner_at c now key = Some i \<Longrightarrow> snd (affinity_refresh key now c)"
  by (auto simp: affinity_refresh_def affinity_prune_def owner_at_def Let_def split: option.splits if_splits)

lemma make_room_cases:
  assumes "affinity_bounded c" "0 < ac_max_entries c"
  obtains (kept) "affinity_make_room key c = c"
  | (evicted) k b where "bt_get (ac_bindings c) k = Some b" "bt_get (ac_bindings c) key = None"
      "affinity_len c = ac_max_entries c"
      "affinity_make_room key c = c\<lparr>ac_bindings := bt_remove k (ac_bindings c)\<rparr>"
      "\<forall>k' b'. bt_get (ac_bindings c) k' = Some b' \<longrightarrow> (b_last_touched_at b, k) \<le> (b_last_touched_at b', k')"
proof (cases "\<not> bt_contains (ac_bindings c) key \<and> bt_len (ac_bindings c) \<ge> ac_max_entries c")
  case True
  then have "ac_bindings c \<noteq> bt_empty" using assms(2) by auto
  then show thesis
    by (rule evict_oldest_cases)
      (rule evicted, use True assms(1) in \<open>auto simp: affinity_make_room_def affinity_bounded_def affinity_len_def\<close>)
next
  case False
  then show thesis by (intro kept) (auto simp: affinity_make_room_def)
qed

lemma snapshot_window_error: "snapshot_window (q\<lparr>qs_error := e\<rparr>) = snapshot_window q"
proof
  fix k
  show "snapshot_window (q\<lparr>qs_error := e\<rparr>) k = snapshot_window q k" by (cases k) simp_all
qed

lemma reduce_quota_failure_total: "\<exists>u. reduce_account_quota H previous sub health e (Inl failure) t = Inr u"
  by (auto simp: reduce_account_quota_def Let_def split: prod.split)

subsection \<open>Samples\<close>

definition sample_input :: "bool \<Rightarrow> u64 \<Rightarrow> QuotaWindowInput" where
  "sample_input full t = \<lparr>qi_kind = Primary, qi_available_percent = None, qi_explicitly_full = Some full,
     qi_reset = None, qi_window_minutes = None, qi_provider_cycle_id = None, qi_observed_at_ms = t\<rparr>"

definition sample_window :: QuotaWindow where
  "sample_window = \<lparr>qw_kind = Primary, qw_provider_cycle_id = None, qw_window_start_ms = None,
     qw_available_basis_points = None, qw_explicitly_full = Some False, qw_reset_at_ms = None,
     qw_window_minutes = None, qw_observed_at_ms = 10, qw_full_transition_fingerprint = None,
     qw_exhaustion_transition_fingerprint = None\<rparr>"

lemma sample_normalize:
  "\<exists>v. window_normalize H (sample_input True t) previous = Inr v \<and> is_fully_available v"
  by (simp add: window_normalize_def sample_input_def is_fully_available_def full_state_def Let_def)

definition sample_subscription :: Subscription where
  "sample_subscription = \<lparr>sub_plan_type = None, sub_active_until_ms = None, sub_status = SubUnknown, sub_updated_at_ms = None\<rparr>"

lemma sample_snapshot_wf: "snapshot_wf quota_snapshot_default"
proof -
  have "snapshot_window quota_snapshot_default k = None" for k by (cases k) (simp_all add: quota_snapshot_default_def)
  then show ?thesis by (simp add: snapshot_wf_def) (simp add: quota_snapshot_default_def)
qed

subsection \<open>Properties\<close>

text \<open>
  C20 (refinement). Binding a key implements the update of the owner map: from now on the key belongs
  to the new owner until its time to live runs out, and the capacity holds. Every other key keeps
  its owner, except that, when the cache was full of live bindings and the key was not among them,
  the single least recently touched binding is given up.
\<close>

theorem affinity_bind_refines_owner_map:
  assumes "0 < ac_max_entries c" "0 < ac_ttl_ms c" "affinity_bounded c" "now \<le> t"
  shows "affinity_bounded (affinity_bind key i now c)
    \<and> owner_at (affinity_bind key i now c) t key = (if t < sat_add now (ac_ttl_ms c) then Some i else None)
    \<and> ((\<forall>k. k \<noteq> key \<longrightarrow> owner_at (affinity_bind key i now c) t k = owner_at c t k)
      \<or> (owner_at c now key = None \<and> affinity_len (affinity_prune now c) = ac_max_entries c
         \<and> (\<exists>old b. bt_get (ac_bindings (affinity_prune now c)) old = Some b
             \<and> (\<forall>k' b'. bt_get (ac_bindings (affinity_prune now c)) k' = Some b' \<longrightarrow>
                  (b_last_touched_at b, old) \<le> (b_last_touched_at b', k'))
             \<and> (\<forall>k. k \<noteq> key \<longrightarrow> owner_at (affinity_bind key i now c) t k = (if k = old then None else owner_at c t k)))))"
proof -
  let ?p = "affinity_prune now c"
  have bind: "owner_at (affinity_bind key i now c) t k = owner_at (affinity_make_room key ?p) t k" if "k \<noteq> key" for k
    using assms(1,2) that by (simp add: affinity_bind_def affinity_bind_for_def Let_def owner_insert_other word_gt_0)
  have pruned: "owner_at ?p t k = owner_at c t k" for k using owner_at_prune [OF assms(4)] .
  have "affinity_bounded (affinity_bind key i now c)"
    using bounded_bind_for [OF assms(3)] by (simp add: affinity_bind_def)
  moreover have "owner_at (affinity_bind key i now c) t key = (if t < sat_add now (ac_ttl_ms c) then Some i else None)"
    using owner_bind_for [OF assms(1,2)] by (simp add: affinity_bind_def)
  moreover have "(\<forall>k. k \<noteq> key \<longrightarrow> owner_at (affinity_bind key i now c) t k = owner_at c t k)
      \<or> (owner_at c now key = None \<and> affinity_len ?p = ac_max_entries c
         \<and> (\<exists>old b. bt_get (ac_bindings ?p) old = Some b
             \<and> (\<forall>k' b'. bt_get (ac_bindings ?p) k' = Some b' \<longrightarrow> (b_last_touched_at b, old) \<le> (b_last_touched_at b', k'))
             \<and> (\<forall>k. k \<noteq> key \<longrightarrow> owner_at (affinity_bind key i now c) t k = (if k = old then None else owner_at c t k))))"
  proof (rule make_room_cases [OF bounded_prune [OF assms(3), of now], of key])
    show "0 < ac_max_entries ?p" using assms(1) by simp
  next
    assume "affinity_make_room key ?p = ?p"
    then show ?thesis using bind pruned by simp
  next
    fix k b
    assume e: "bt_get (ac_bindings ?p) k = Some b" "bt_get (ac_bindings ?p) key = None" "affinity_len ?p = ac_max_entries ?p"
      "affinity_make_room key ?p = ?p\<lparr>ac_bindings := bt_remove k (ac_bindings ?p)\<rparr>"
      "\<forall>k' b'. bt_get (ac_bindings ?p) k' = Some b' \<longrightarrow> (b_last_touched_at b, k) \<le> (b_last_touched_at b', k')"
    have "owner_at (affinity_bind key i now c) t j = (if j = k then None else owner_at c t j)" if "j \<noteq> key" for j
    proof -
      have "owner_at (?p\<lparr>ac_bindings := bt_remove k (ac_bindings ?p)\<rparr>) t j = (if j = k then None else owner_at ?p t j)"
        by (simp add: owner_at_def)
      then show ?thesis using bind [OF that] pruned e(4) by simp
    qed
    moreover have "owner_at c now key = None"
      using e(2) owner_at_prune [of now now c key] by (simp add: owner_at_def)
    ultimately show ?thesis using e(1,3,5) by auto
  qed
  ultimately show ?thesis by blast
qed

theorem affinity_bind_refines_owner_map_witness:
  "owner_at (affinity_bind ''k'' ''a'' 5 (affinity_new 1 100)) 7 ''k'' = Some ''a''"
proof -
  have "(7::u64) < sat_add 5 100" by (simp add: sat_add_def)
  then show ?thesis
    using affinity_bind_refines_owner_map [of "affinity_new 1 100" 5 7 "''k''" "''a''"] bounded_new [of 1 100] by simp
qed

text \<open>
  A sticky binding never takes a key from a live owner: when another candidate owns the
  key it is refused and no owner changes; when the candidate owns it already it succeeds and no other
  key changes owner; when nobody owns it the candidate does, for the time to live of the cache.
\<close>

lemma sticky_binding_keeps_live_owner:
  assumes "0 < ac_max_entries c" "0 < ac_ttl_ms c" "now \<le> t"
    and "affinity_bind_if_unbound_or_same key i now c = (c', ok)"
  shows "(case owner_at c now key of
      None \<Rightarrow> ok \<and> owner_at c' t key = (if t < sat_add now (ac_ttl_ms c) then Some i else None)
    | Some j \<Rightarrow> (ok \<longleftrightarrow> j = i) \<and> (\<forall>k. k \<noteq> key \<or> j \<noteq> i \<longrightarrow> owner_at c' t k = owner_at c t k))"
proof (cases "owner_at c now key")
  case None
  then have "ok" "c' = affinity_bind key i now (affinity_prune now c)"
    using assms(4) by (auto simp: affinity_bind_if_unbound_or_same_def affinity_get_pair)
  then show ?thesis
    using None owner_bind_for [of "affinity_prune now c" "ac_ttl_ms c" key i now t] assms(1,2)
    by (simp add: affinity_bind_def)
next
  case (Some j)
  have pruned: "owner_at (affinity_prune now c) t k = owner_at c t k" for k using owner_at_prune [OF assms(3)] .
  show ?thesis
  proof (cases "j = i")
    case True
    then have c': "affinity_refresh key now (affinity_prune now c) = (c', ok)"
      using Some assms(4) by (simp add: affinity_bind_if_unbound_or_same_def affinity_get_pair)
    have ok using refresh_live [OF Some] c' by (metis affinity_refresh_prune snd_conv)
    moreover have "owner_at c' t k = owner_at c t k" if "k \<noteq> key" for k
      using owner_refresh_other [OF that assms(3), of "affinity_prune now c"] c' pruned by simp
    ultimately show ?thesis using Some True by simp
  next
    case False
    then have "c' = affinity_prune now c" "\<not> ok"
      using Some assms(4) by (auto simp: affinity_bind_if_unbound_or_same_def affinity_get_pair)
    then show ?thesis using Some False pruned by simp
  qed
qed

text \<open>
  A full period of a quota window is reported once. When a window that was not full is
  observed full and stays full over any number of further observations, the first one emits a
  transition, no later one does, and all of them carry its fingerprint, so that a restart or a
  repeated refresh cannot make the same period look new.
\<close>

lemma full_period_reported_once:
  assumes "window_normalize H input (Some w) = Inr v" "\<not> is_fully_available w" "qw_kind w = qi_kind input"
    and "observe_windows H v inputs = Inr vs" "\<forall>u \<in> set (v # vs). is_fully_available u"
  shows "\<exists>t. full_transition_from H v (Some w) = Some t
    \<and> (\<forall>u \<in> set (v # vs). qw_full_transition_fingerprint u = Some (qt_fingerprint t))
    \<and> (\<forall>p u. (p, u) \<in> set (zip (v # vs) vs) \<longrightarrow> full_transition_from H u (Some p) = None)"
proof -
  obtain fp where fp: "qw_full_transition_fingerprint v = Some fp"
    using window_normalize_full_fp [OF assms(1)] assms(5) by simp
  have "full_transition_from H v (Some w) =
      Some \<lparr>qt_window_kind = qw_kind v, qt_fingerprint = fp, qt_transitioned_at_ms = qw_observed_at_ms v\<rparr>"
    using full_transition_edge [OF assms(1)] window_normalize_fields(1) [OF assms(1)] assms(2,3,5) fp by simp
  moreover have "\<forall>u \<in> set (v # vs). qw_full_transition_fingerprint u = Some fp"
    using observe_full_stable [OF assms(4) _ fp] fp assms(5) by simp
  moreover have "full_transition_from H u (Some p) = None" if "(p, u) \<in> set (zip (v # vs) vs)" for p u
  proof -
    have "p \<in> set (v # vs)" using that by (rule set_zip_leftD)
    then show ?thesis using assms(5) by (auto simp: full_transition_from_def)
  qed
  ultimately show ?thesis by auto
qed

text \<open>
  C22 (invariant). Refreshing a quota keeps the snapshot well formed: each window sits in the slot of
  its kind with a balance of at most 10000 basis points and is no empty placeholder, supplemental
  windows are bounded, distinct and safely named. A failed refresh keeps every window, reports the
  sanitised failure code and no transition, and never makes the account healthy.
\<close>

theorem quota_reduction_keeps_snapshot:
  assumes "snapshot_wf previous"
    and "reduce_account_quota H previous sub health last_error result t = Inr u"
  shows "snapshot_wf (qup_quota u)
    \<and> (\<forall>failure. result = Inl failure \<longrightarrow>
        snapshot_window (qup_quota u) = snapshot_window previous \<and> qs_supplemental (qup_quota u) = qs_supplemental previous
        \<and> (\<exists>e. qs_error (qup_quota u) = Some e \<and> valid_error_code (qe_code e))
        \<and> qup_exhaustion_transitions u = [] \<and> qup_subscription u = sub
        \<and> qup_health u \<in> {health, HsUnhealthy, HsBlocked})"
proof (cases result)
  case (Inl failure)
  have "snapshot_wf (previous\<lparr>qs_error := e\<rparr>)" for e
    using assms(1) by (simp add: snapshot_wf_def snapshot_window_error)
  then show ?thesis
    using assms(2) Inl
    by (auto simp: reduce_account_quota_def Let_def snapshot_window_error quota_error_new_def safe_error_code_valid
        split: option.splits ProviderAccountFailure.splits if_splits prod.splits)
next
  case (Inr data)
  then show ?thesis using assms(2) reduce_quota_success refresh_normalize_wf by (metis Inl_Inr_False)
qed

theorem quota_reduction_keeps_snapshot_witness:
  "\<exists>u. reduce_account_quota (\<lambda>x. x) quota_snapshot_default sample_subscription HsHealthy None
     (Inl (refresh_failure_new ''quota_upstream'' True)) 5 = Inr u \<and> snapshot_wf (qup_quota u)"
proof -
  obtain u where u: "reduce_account_quota (\<lambda>x. x) quota_snapshot_default sample_subscription HsHealthy None
     (Inl (refresh_failure_new ''quota_upstream'' True)) 5 = Inr u"
    using reduce_quota_failure_total by blast
  then show ?thesis using quota_reduction_keeps_snapshot [OF sample_snapshot_wf u] by blast
qed

text \<open>
  A failed request never makes an account healthier: it never leaves the account
  healthy unless it already was, a blocked account stays blocked or becomes unhealthy, an account
  that needs a fresh login still does, and the time of last use does not move. A failure that is not
  the account's changes nothing.
\<close>

lemma failed_usage_never_heals:
  assumes "\<not> ob_success observation" "u = reduce_account_usage state observation now access auth"
  shows "(us_health (uu_state u) = HsHealthy \<longrightarrow> us_health state = HsHealthy)
    \<and> (us_health state = HsBlocked \<longrightarrow> us_health (uu_state u) \<in> {HsBlocked, HsUnhealthy})
    \<and> (requires_fresh_login (us_auth_state state) \<longrightarrow> us_auth_state (uu_state u) = us_auth_state state)
    \<and> us_last_used_at_ms (uu_state u) = us_last_used_at_ms state
    \<and> (\<not> ob_affects_account observation \<longrightarrow> uu_state u = state)"
proof -
  have "uu_state u = (if ob_affects_account observation then usage_failure_state state observation access else state)"
    using assms(1) by (simp add: assms(2) reduce_account_usage_def Let_def)
  then show ?thesis
    using usage_failure_never_heals [of state observation access] usage_failure_keeps_login [of state observation access]
    by auto
qed

end
