(* ===== verification/Quota_Queue.thy ===== *)
theory Quota_Queue
  imports Ordered_Maps Rust_Strings
begin

section \<open>The quota refresh queue (\<open>quota/queue.rs\<close>)\<close>

text \<open>
  A bounded queue of accounts whose quota is to be refreshed, ordered by due time. The entries are
  a hash map; beside them a binary heap holds \<open>(due, generation, account)\<close> triples, which go stale
  when an entry is rescheduled, claimed or removed and are discarded lazily or by compaction. The
  heap is modelled by the ascending list of its elements, which is all that \<open>push\<close>, \<open>peek\<close>,
  \<open>pop\<close> and \<open>len\<close> of \<open>BinaryHeap<Reverse<_>>\<close> can observe. An operation that reaches one
  of the \<open>expect\<close> calls of the source on a missing value returns \<open>None\<close>: the lemmas show
  that this never happens.
\<close>

subsection \<open>Data\<close>

definition MAX_ACCOUNT_ID_BYTES :: nat where "MAX_ACCOUNT_ID_BYTES = 256"

datatype QuotaRefreshQueueError = InvalidCapacity | InvalidAccountId | CapacityExceeded

datatype QueueStatus = Pending | InFlight

record QueueEntry =
  en_status :: QueueStatus
  en_due_at_ms :: u64
  en_generation :: u64
  en_dirty_due_at_ms :: "u64 option"

text \<open>The derived order of \<open>HeapEntry\<close> is the lexicographic one of its fields.\<close>

type_synonym HeapEntry = "u64 \<times> u64 \<times> string"

record QuotaRefreshPermit =
  pm_account_id :: string
  pm_due_at_ms :: u64
  pm_claimed_at_ms :: u64
  pm_generation :: u64

record QuotaRefreshQueue =
  qq_max_entries :: nat
  qq_next_generation :: u64
  qq_entries :: "(string, QueueEntry) btree_map"
  qq_heap :: "HeapEntry list"

subsection \<open>Operations\<close>

definition queue_new :: "nat \<Rightarrow> QuotaRefreshQueueError + QuotaRefreshQueue" where
  "queue_new max_entries =
     (if max_entries = 0 then Inl InvalidCapacity
      else Inr \<lparr>qq_max_entries = max_entries, qq_next_generation = 1, qq_entries = bt_empty, qq_heap = []\<rparr>)"

definition queue_len :: "QuotaRefreshQueue \<Rightarrow> nat" where
  "queue_len q = bt_len (qq_entries q)"

definition queue_is_empty :: "QuotaRefreshQueue \<Rightarrow> bool" where
  "queue_is_empty q \<longleftrightarrow> queue_len q = 0"

definition is_in_flight :: "string \<Rightarrow> QuotaRefreshQueue \<Rightarrow> bool" where
  "is_in_flight account_id q =
     (case bt_get (qq_entries q) account_id of None \<Rightarrow> False | Some entry \<Rightarrow> en_status entry = InFlight)"

definition validated_account_id :: "string \<Rightarrow> QuotaRefreshQueueError + string" where
  "validated_account_id account_id =
     (let trimmed = trim account_id in
      if trimmed = [] \<or> length trimmed > MAX_ACCOUNT_ID_BYTES \<or> trimmed \<noteq> account_id \<or> has_control trimmed
      then Inl InvalidAccountId else Inr trimmed)"

definition take_generation :: "QuotaRefreshQueue \<Rightarrow> QuotaRefreshQueue \<times> u64" where
  "take_generation q =
     (q\<lparr>qq_next_generation := max (qq_next_generation q + 1) 1\<rparr>, qq_next_generation q)"

definition pending_entries :: "(string, QueueEntry) btree_map \<Rightarrow> HeapEntry list" where
  "pending_entries entries =
     map (\<lambda>(account_id, entry). (en_due_at_ms entry, en_generation entry, account_id))
       (filter (\<lambda>(_, entry). en_status entry = Pending) (bt_entries entries))"

definition heap_limit :: "nat \<Rightarrow> nat" where
  "heap_limit max_entries = min (max_entries * 2) usize_max"

definition compact_if_needed :: "QuotaRefreshQueue \<Rightarrow> QuotaRefreshQueue" where
  "compact_if_needed q =
     (if length (qq_heap q) \<le> heap_limit (qq_max_entries q) then q
      else q\<lparr>qq_heap := sort (pending_entries (qq_entries q))\<rparr>)"

definition queue_insert ::
  "string \<Rightarrow> u64 \<Rightarrow> QuotaRefreshQueue \<Rightarrow> QuotaRefreshQueue \<times> (QuotaRefreshQueueError + bool)" where
  "queue_insert account_id due_at_ms q =
     (if bt_len (qq_entries q) \<ge> qq_max_entries q then (q, Inl CapacityExceeded)
      else (case take_generation q of
          (q, generation) \<Rightarrow>
            (compact_if_needed
               (q\<lparr>qq_entries := bt_insert account_id
                    \<lparr>en_status = Pending, en_due_at_ms = due_at_ms, en_generation = generation,
                     en_dirty_due_at_ms = None\<rparr> (qq_entries q),
                  qq_heap := insort (due_at_ms, generation, account_id) (qq_heap q)\<rparr>),
             Inr True)))"

definition schedule :: "string \<Rightarrow> u64 \<Rightarrow> QuotaRefreshQueue \<Rightarrow> QuotaRefreshQueue option" where
  "schedule account_id due_at_ms q =
     (case take_generation q of
        (q, generation) \<Rightarrow>
          (case bt_get (qq_entries q) account_id of
             None \<Rightarrow> None
           | Some entry \<Rightarrow> Some (compact_if_needed
               (q\<lparr>qq_entries := bt_insert account_id
                    (entry\<lparr>en_status := Pending, en_due_at_ms := due_at_ms, en_generation := generation,
                       en_dirty_due_at_ms := None\<rparr>) (qq_entries q),
                  qq_heap := insort (due_at_ms, generation, account_id) (qq_heap q)\<rparr>))))"

definition queue_upsert ::
  "string \<Rightarrow> u64 \<Rightarrow> QuotaRefreshQueue \<Rightarrow> (QuotaRefreshQueue \<times> (QuotaRefreshQueueError + bool)) option" where
  "queue_upsert account_id due_at_ms q =
     (case validated_account_id account_id of
        Inl err \<Rightarrow> Some (q, Inl err)
      | Inr account_id \<Rightarrow>
          (case bt_get (qq_entries q) account_id of
             None \<Rightarrow> Some (queue_insert account_id due_at_ms q)
           | Some entry \<Rightarrow>
               if en_status entry = InFlight then
                 Some (q\<lparr>qq_entries := bt_insert account_id
                          (entry\<lparr>en_dirty_due_at_ms := Some due_at_ms\<rparr>) (qq_entries q)\<rparr>,
                       Inr (en_dirty_due_at_ms entry \<noteq> Some due_at_ms))
               else if en_due_at_ms entry = due_at_ms \<and> en_dirty_due_at_ms entry = None
               then Some (q, Inr False)
               else map_option (\<lambda>q. (q, Inr True)) (schedule account_id due_at_ms q)))"

definition mark_dirty ::
  "string \<Rightarrow> u64 \<Rightarrow> QuotaRefreshQueue \<Rightarrow> (QuotaRefreshQueue \<times> (QuotaRefreshQueueError + bool)) option" where
  "mark_dirty account_id due_at_ms q =
     (case validated_account_id account_id of
        Inl err \<Rightarrow> Some (q, Inl err)
      | Inr account_id \<Rightarrow>
          (case bt_get (qq_entries q) account_id of
             None \<Rightarrow> Some (queue_insert account_id due_at_ms q)
           | Some entry \<Rightarrow>
               let current_due = (case en_status entry of
                     Pending \<Rightarrow> Some (en_due_at_ms entry) | InFlight \<Rightarrow> en_dirty_due_at_ms entry)
               in if (case current_due of None \<Rightarrow> False | Some current \<Rightarrow> current \<le> due_at_ms)
                  then Some (q, Inr False)
                  else if en_status entry = InFlight then
                    Some (q\<lparr>qq_entries := bt_insert account_id
                             (entry\<lparr>en_dirty_due_at_ms := Some due_at_ms\<rparr>) (qq_entries q)\<rparr>, Inr True)
                  else map_option (\<lambda>q. (q, Inr True)) (schedule account_id due_at_ms q)))"

text \<open>A heap triple is live when it still describes a pending entry.\<close>

definition heap_entry_live :: "(string, QueueEntry) btree_map \<Rightarrow> HeapEntry \<Rightarrow> bool" where
  "heap_entry_live entries e =
     (case e of (due_at_ms, generation, account_id) \<Rightarrow>
        (case bt_get entries account_id of None \<Rightarrow> False
         | Some state \<Rightarrow> en_status state = Pending \<and> en_generation state = generation
             \<and> en_due_at_ms state = due_at_ms))"

definition discard_stale :: "QuotaRefreshQueue \<Rightarrow> QuotaRefreshQueue" where
  "discard_stale q = q\<lparr>qq_heap := dropWhile (\<lambda>e. \<not> heap_entry_live (qq_entries q) e) (qq_heap q)\<rparr>"

text \<open>The loop runs at most once per permit still wanted, so it recurses on that number.\<close>

fun claim_loop :: "u64 \<Rightarrow> nat \<Rightarrow> QuotaRefreshQueue \<Rightarrow> (QuotaRefreshQueue \<times> QuotaRefreshPermit list) option" where
  "claim_loop now_ms 0 q = Some (q, [])"
| "claim_loop now_ms (Suc wanted) q =
     (let q = discard_stale q in
      case qq_heap q of
        [] \<Rightarrow> Some (q, [])
      | (due_at_ms, generation, account_id) # heap \<Rightarrow>
          if due_at_ms > now_ms then Some (q, [])
          else (case bt_get (qq_entries q) account_id of
              None \<Rightarrow> None
            | Some entry \<Rightarrow>
                map_option (\<lambda>(q, permits). (q,
                    \<lparr>pm_account_id = account_id, pm_due_at_ms = due_at_ms, pm_claimed_at_ms = now_ms,
                     pm_generation = generation\<rparr> # permits))
                  (claim_loop now_ms wanted
                    (q\<lparr>qq_heap := heap,
                       qq_entries := bt_insert account_id (entry\<lparr>en_status := InFlight\<rparr>) (qq_entries q)\<rparr>))))"

definition claim_due :: "u64 \<Rightarrow> nat \<Rightarrow> QuotaRefreshQueue \<Rightarrow> (QuotaRefreshQueue \<times> QuotaRefreshPermit list) option" where
  "claim_due now_ms max_claims q = claim_loop now_ms max_claims q"

definition queue_complete :: "QuotaRefreshPermit \<Rightarrow> QuotaRefreshQueue \<Rightarrow> (QuotaRefreshQueue \<times> bool) option" where
  "queue_complete permit q =
     (case bt_get (qq_entries q) (pm_account_id permit) of
        None \<Rightarrow> Some (q, False)
      | Some entry \<Rightarrow>
          if en_status entry \<noteq> InFlight \<or> en_generation entry \<noteq> pm_generation permit then Some (q, False)
          else (case en_dirty_due_at_ms entry of
              Some due_at_ms \<Rightarrow> map_option (\<lambda>q. (q, True)) (schedule (pm_account_id permit) due_at_ms q)
            | None \<Rightarrow> Some (q\<lparr>qq_entries := bt_remove (pm_account_id permit) (qq_entries q)\<rparr>, True)))"

definition reschedule :: "QuotaRefreshPermit \<Rightarrow> u64 \<Rightarrow> QuotaRefreshQueue \<Rightarrow> (QuotaRefreshQueue \<times> bool) option" where
  "reschedule permit due_at_ms q =
     (case bt_get (qq_entries q) (pm_account_id permit) of
        None \<Rightarrow> Some (q, False)
      | Some entry \<Rightarrow>
          if en_status entry \<noteq> InFlight \<or> en_generation entry \<noteq> pm_generation permit then Some (q, False)
          else map_option (\<lambda>q. (q, True)) (schedule (pm_account_id permit)
            (case en_dirty_due_at_ms entry of None \<Rightarrow> due_at_ms | Some dirty_due \<Rightarrow> min dirty_due due_at_ms) q))"

definition queue_remove :: "string \<Rightarrow> QuotaRefreshQueue \<Rightarrow> QuotaRefreshQueue \<times> bool" where
  "queue_remove account_id q =
     (q\<lparr>qq_entries := bt_remove account_id (qq_entries q)\<rparr>, bt_contains (qq_entries q) account_id)"

definition next_due :: "QuotaRefreshQueue \<Rightarrow> QuotaRefreshQueue \<times> u64 option" where
  "next_due q =
     (let q = discard_stale q
      in (q, case qq_heap q of [] \<Rightarrow> None | e # _ \<Rightarrow> Some (fst e)))"

subsection \<open>The invariant\<close>

definition pending_set :: "QuotaRefreshQueue \<Rightarrow> HeapEntry set" where
  "pending_set q = {e. heap_entry_live (qq_entries q) e}"

definition queue_wf :: "QuotaRefreshQueue \<Rightarrow> bool" where
  "queue_wf q \<longleftrightarrow> sorted (qq_heap q) \<and> pending_set q \<subseteq> set (qq_heap q)
     \<and> length (qq_heap q) \<le> heap_limit (qq_max_entries q)
     \<and> bt_len (qq_entries q) \<le> qq_max_entries q
     \<and> 0 < qq_max_entries q \<and> qq_max_entries q \<le> usize_max"

lemma pending_entries_set: "set (pending_entries entries) = {e. heap_entry_live entries e}"
proof -
  have "e \<in> set (pending_entries entries) \<longleftrightarrow>
      (\<exists>x \<in> set (bt_entries entries). en_status (snd x) = Pending
         \<and> e = (en_due_at_ms (snd x), en_generation (snd x), fst x))" for e
    by (force simp: pending_entries_def)
  also have "\<dots> e \<longleftrightarrow> (\<exists>k v. bt_get entries k = Some v \<and> en_status v = Pending
         \<and> e = (en_due_at_ms v, en_generation v, k))" for e by (rule bt_entries_ex)
  also have "\<dots> e \<longleftrightarrow> heap_entry_live entries e" for e
    by (auto simp: heap_entry_live_def split: prod.splits option.splits)
  finally show ?thesis by auto
qed

lemma pending_entries_length: "length (pending_entries entries) \<le> bt_len entries"
  by (simp add: pending_entries_def bt_len_def)

lemma pending_set_finite [simp]: "finite (pending_set q)"
  unfolding pending_set_def pending_entries_set [symmetric] by simp

lemma heap_limit_ge: "n \<le> usize_max \<Longrightarrow> n \<le> heap_limit n"
  by (simp add: heap_limit_def)

lemma live_insert:
  "heap_entry_live (bt_insert i e m) (d, g, a) \<longleftrightarrow>
    (if a = i then en_status e = Pending \<and> en_generation e = g \<and> en_due_at_ms e = d
     else heap_entry_live m (d, g, a))"
  by (simp add: heap_entry_live_def)

lemma live_remove: "heap_entry_live (bt_remove i m) (d, g, a) \<longleftrightarrow> a \<noteq> i \<and> heap_entry_live m (d, g, a)"
  by (simp add: heap_entry_live_def)

lemma live_account: "heap_entry_live m (d, g, a) \<Longrightarrow> \<exists>e. bt_get m a = Some e \<and> en_status e = Pending
    \<and> en_generation e = g \<and> en_due_at_ms e = d"
  by (auto simp: heap_entry_live_def split: option.splits)

lemma wf_compact:
  assumes "sorted (qq_heap q)" and "pending_set q \<subseteq> set (qq_heap q)"
    and "bt_len (qq_entries q) \<le> qq_max_entries q" and "0 < qq_max_entries q" and "qq_max_entries q \<le> usize_max"
  shows "queue_wf (compact_if_needed q)"
  using assms pending_entries_length [of "qq_entries q"] heap_limit_ge [OF assms(5)]
  by (auto simp: queue_wf_def compact_if_needed_def pending_set_def pending_entries_set)

lemma compact_fields [simp]:
  "qq_entries (compact_if_needed q) = qq_entries q" "qq_max_entries (compact_if_needed q) = qq_max_entries q"
  "qq_next_generation (compact_if_needed q) = qq_next_generation q"
  "pending_set (compact_if_needed q) = pending_set q"
  by (simp_all add: compact_if_needed_def pending_set_def)

text \<open>Writing an entry as pending together with pushing its triple.\<close>

lemma wf_push:
  assumes wf: "queue_wf q" and len: "bt_len (bt_insert i e (qq_entries q)) \<le> qq_max_entries q"
    and q': "qq_entries q' = bt_insert i e (qq_entries q)" "qq_max_entries q' = qq_max_entries q"
      "qq_heap q' = insort (en_due_at_ms e, en_generation e, i) (qq_heap q)"
  shows "queue_wf (compact_if_needed q')"
proof (rule wf_compact)
  show "pending_set q' \<subseteq> set (qq_heap q')"
  proof
    fix x assume "x \<in> pending_set q'"
    then show "x \<in> set (qq_heap q')"
      using wf by (cases x) (auto simp: pending_set_def q' live_insert queue_wf_def set_insort_key split: if_splits)
  qed
qed (use wf len in \<open>auto simp: queue_wf_def q' sorted_insort\<close>)

lemma wf_insert: "queue_wf q \<Longrightarrow> queue_wf (fst (queue_insert i d q))"
  by (auto simp: queue_insert_def take_generation_def bt_len_insert
      intro!: wf_push [where i = i and e = "\<lparr>en_status = Pending, en_due_at_ms = d,
        en_generation = qq_next_generation q, en_dirty_due_at_ms = None\<rparr>" and q = q])

lemma schedule_Some:
  assumes "queue_wf q" and "bt_get (qq_entries q) i = Some e"
  obtains q' where "schedule i d q = Some q'" and "queue_wf q'"
    and "qq_entries q' = bt_insert i (e\<lparr>en_status := Pending, en_due_at_ms := d,
        en_generation := qq_next_generation q, en_dirty_due_at_ms := None\<rparr>) (qq_entries q)"
    and "qq_max_entries q' = qq_max_entries q"
proof -
  let ?e = "e\<lparr>en_status := Pending, en_due_at_ms := d, en_generation := qq_next_generation q, en_dirty_due_at_ms := None\<rparr>"
  let ?q = "q\<lparr>qq_next_generation := max (qq_next_generation q + 1) 1, qq_entries := bt_insert i ?e (qq_entries q),
    qq_heap := insort (d, qq_next_generation q, i) (qq_heap q)\<rparr>"
  have "schedule i d q = Some (compact_if_needed ?q)" using assms by (simp add: schedule_def take_generation_def)
  moreover have "queue_wf (compact_if_needed ?q)"
    using assms by (intro wf_push [where q = q and i = i and e = ?e]) (auto simp: bt_len_insert queue_wf_def)
  ultimately show thesis using that by simp
qed

text \<open>Writing or dropping an entry that is not pending only makes triples stale.\<close>

lemma wf_stale:
  assumes "queue_wf q" and "bt_get (qq_entries q) i = Some e" and "en_status e' = InFlight"
  shows "queue_wf (q\<lparr>qq_entries := bt_insert i e' (qq_entries q)\<rparr>)"
proof -
  have "pending_set (q\<lparr>qq_entries := bt_insert i e' (qq_entries q)\<rparr>) \<subseteq> pending_set q"
    using assms(3) by (auto simp: pending_set_def live_insert split: if_splits)
  then show ?thesis using assms by (auto simp: queue_wf_def bt_len_insert)
qed

lemma wf_remove: "queue_wf q \<Longrightarrow> queue_wf (q\<lparr>qq_entries := bt_remove i (qq_entries q)\<rparr>)"
proof -
  have "pending_set (q\<lparr>qq_entries := bt_remove i (qq_entries q)\<rparr>) \<subseteq> pending_set q"
    by (auto simp: pending_set_def live_remove)
  then show "queue_wf q \<Longrightarrow> ?thesis" by (auto simp: queue_wf_def bt_len_remove)
qed

lemma discard_fields [simp]:
  "qq_entries (discard_stale q) = qq_entries q" "qq_max_entries (discard_stale q) = qq_max_entries q"
  "pending_set (discard_stale q) = pending_set q"
  by (simp_all add: discard_stale_def pending_set_def)

lemma dropWhile_keeps: "x \<in> set xs \<Longrightarrow> \<not> P x \<Longrightarrow> x \<in> set (dropWhile P xs)"
  by (induction xs) auto

lemma wf_discard: "queue_wf q \<Longrightarrow> queue_wf (discard_stale q)"
  unfolding queue_wf_def discard_fields
  using length_dropWhile_le [of "\<lambda>e. \<not> heap_entry_live (qq_entries q) e" "qq_heap q"]
  by (auto simp: discard_stale_def pending_set_def sorted_dropWhile intro!: dropWhile_keeps)

text \<open>After discarding, the heap's head is the smallest pending triple.\<close>

lemma discard_head:
  assumes "queue_wf q"
  shows "qq_heap (discard_stale q) = [] \<longleftrightarrow> pending_set q = {}"
    and "qq_heap (discard_stale q) = e # heap \<Longrightarrow> e \<in> pending_set q \<and> (\<forall>x \<in> pending_set q. e \<le> x)"
proof -
  have wf: "queue_wf (discard_stale q)" by (rule wf_discard [OF assms])
  then have sub: "pending_set q \<subseteq> set (qq_heap (discard_stale q))" and sorted: "sorted (qq_heap (discard_stale q))"
    by (simp_all add: queue_wf_def)
  have live: "heap_entry_live (qq_entries q) (hd (qq_heap (discard_stale q)))" if "qq_heap (discard_stale q) \<noteq> []"
    using that hd_dropWhile [of "\<lambda>e. \<not> heap_entry_live (qq_entries q) e" "qq_heap q"]
    by (simp add: discard_stale_def)
  then have "hd (qq_heap (discard_stale q)) \<in> pending_set q" if "qq_heap (discard_stale q) \<noteq> []"
    using that by (simp add: pending_set_def)
  then show "qq_heap (discard_stale q) = [] \<longleftrightarrow> pending_set q = {}"
    using sub by auto
  show "e \<in> pending_set q \<and> (\<forall>x \<in> pending_set q. e \<le> x)" if "qq_heap (discard_stale q) = e # heap"
    using that sub sorted live by (auto simp: pending_set_def)
qed

subsection \<open>Claiming refines a sorted selection\<close>

text \<open>
  The reference: the pending triples in ascending order. Claiming takes the longest prefix that is
  due, up to the limit, whatever stale triples the heap holds.
\<close>

definition permit_triple :: "QuotaRefreshPermit \<Rightarrow> HeapEntry" where
  "permit_triple p = (pm_due_at_ms p, pm_generation p, pm_account_id p)"

lemma sorted_list_of_set_head:
  assumes "finite A" and "e \<in> A" and "\<forall>x \<in> A. e \<le> (x :: 'a::linorder)"
  shows "sorted_list_of_set A = e # sorted_list_of_set (A - {e})"
proof -
  have "Min A = e" using assms by (intro Min_eqI) auto
  then show ?thesis using sorted_list_of_set_nonempty [OF assms(1)] assms(2) by auto
qed

lemma pending_claim:
  assumes "bt_get (qq_entries q) a = Some entry" and "en_status entry = Pending"
    and "en_generation entry = g" and "en_due_at_ms entry = d"
  shows "pending_set (q\<lparr>qq_heap := h, qq_entries := bt_insert a (entry\<lparr>en_status := InFlight\<rparr>) (qq_entries q)\<rparr>) =
    pending_set q - {(d, g, a)}"
  using assms by (auto simp: pending_set_def live_insert heap_entry_live_def split: if_splits option.splits)

lemma wf_claim:
  assumes wf: "queue_wf q" and heap: "qq_heap q = (d, g, a) # heap" and e: "bt_get (qq_entries q) a = Some entry"
    and st: "en_status entry = Pending" "en_generation entry = g" "en_due_at_ms entry = d"
  shows "queue_wf (q\<lparr>qq_heap := heap, qq_entries := bt_insert a (entry\<lparr>en_status := InFlight\<rparr>) (qq_entries q)\<rparr>)"
  using wf unfolding queue_wf_def pending_claim [OF e st]
  by (auto simp: heap bt_len_insert e)

lemma claim_loop_spec:
  assumes "queue_wf q"
  shows "\<exists>q' permits. claim_loop now n q = Some (q', permits) \<and> queue_wf q'
    \<and> qq_max_entries q' = qq_max_entries q
    \<and> map permit_triple permits = takeWhile (\<lambda>e. fst e \<le> now) (take n (sorted_list_of_set (pending_set q)))
    \<and> pending_set q' = pending_set q - set (map permit_triple permits)
    \<and> (\<forall>a. bt_get (qq_entries q') a = (if a \<in> set (map pm_account_id permits)
          then map_option (\<lambda>e. e\<lparr>en_status := InFlight\<rparr>) (bt_get (qq_entries q) a) else bt_get (qq_entries q) a))"
  using assms
proof (induction n arbitrary: q)
  case 0
  then show ?case by simp
next
  case (Suc n)
  let ?q = "discard_stale q"
  have wf: "queue_wf ?q" by (rule wf_discard [OF Suc.prems])
  show ?case
  proof (cases "qq_heap ?q")
    case Nil
    then have "pending_set q = {}" using discard_head(1) [OF Suc.prems] by simp
    then show ?thesis using Nil wf by (simp add: Let_def)
  next
    case (Cons e heap)
    obtain d g a where e: "e = (d, g, a)" by (cases e)
    have min: "e \<in> pending_set q" "\<forall>x \<in> pending_set q. e \<le> x" using discard_head(2) [OF Suc.prems Cons] by auto
    note head = sorted_list_of_set_head [OF pending_set_finite min]
    show ?thesis
    proof (cases "d \<le> now")
      case False
      then have "now < d" by (metis not_le)
      then have "claim_loop now (Suc n) q = Some (?q, [])" using Cons by (simp add: Let_def e)
      moreover have "takeWhile (\<lambda>e. fst e \<le> now) (take (Suc n) (sorted_list_of_set (pending_set q))) = []"
        using False unfolding head by (simp add: e)
      ultimately show ?thesis using wf by (intro exI [of _ ?q] exI [of _ "[]"]) simp
    next
      case True
      obtain entry where entry: "bt_get (qq_entries q) a = Some entry" "en_status entry = Pending"
          "en_generation entry = g" "en_due_at_ms entry = d"
        using min(1) live_account [of "qq_entries q" d g a] by (auto simp: pending_set_def e)
      let ?q1 = "?q\<lparr>qq_heap := heap, qq_entries := bt_insert a (entry\<lparr>en_status := InFlight\<rparr>) (qq_entries q)\<rparr>"
      have pend: "pending_set ?q1 = pending_set q - {e}"
        using pending_claim [of ?q a entry g d heap] entry by (simp add: e)
      have "queue_wf ?q1" using wf_claim [OF wf, of d g a heap entry] Cons entry by (simp add: e)
      from Suc.IH [OF this] obtain q' permits where
        rest: "claim_loop now n ?q1 = Some (q', permits)" "queue_wf q'" "qq_max_entries q' = qq_max_entries ?q1"
          "map permit_triple permits = takeWhile (\<lambda>e. fst e \<le> now) (take n (sorted_list_of_set (pending_set ?q1)))"
          "pending_set q' = pending_set ?q1 - set (map permit_triple permits)"
          "\<forall>b. bt_get (qq_entries q') b = (if b \<in> set (map pm_account_id permits)
            then map_option (\<lambda>e. e\<lparr>en_status := InFlight\<rparr>) (bt_get (qq_entries ?q1) b) else bt_get (qq_entries ?q1) b)"
        by blast
      let ?p = "\<lparr>pm_account_id = a, pm_due_at_ms = d, pm_claimed_at_ms = now, pm_generation = g\<rparr>"
      have pe: "permit_triple ?p = e" by (simp add: permit_triple_def e)
      have notlt: "\<not> now < d" using True by (metis not_le)
      have "claim_loop now (Suc n) q = Some (q', ?p # permits)"
        using Cons notlt entry rest(1) by (simp add: Let_def e)
      moreover have "map permit_triple (?p # permits) =
          takeWhile (\<lambda>e. fst e \<le> now) (take (Suc n) (sorted_list_of_set (pending_set q)))"
        unfolding head using rest(4) True by (simp add: pe pend) (simp add: e)
      moreover have "pending_set q' = pending_set q - set (map permit_triple (?p # permits))"
        unfolding rest(5) pend by (auto simp: pe)
      moreover have "bt_get (qq_entries q') b = (if b \<in> set (map pm_account_id (?p # permits))
          then map_option (\<lambda>e. e\<lparr>en_status := InFlight\<rparr>) (bt_get (qq_entries q) b) else bt_get (qq_entries q) b)" for b
        using rest(6) entry(1) by (cases "b = a") simp_all
      ultimately show ?thesis
        using rest(2,3) by (intro exI [of _ q'] exI [of _ "?p # permits"] conjI) simp_all
    qed
  qed
qed

lemma pending_entries_distinct: "distinct (pending_entries entries)"
proof -
  let ?es = "filter (\<lambda>(_, entry). en_status entry = Pending) (bt_entries entries)"
  have "distinct (map fst ?es)" by (rule distinct_map_filter) (rule bt_entries_distinct)
  also have "map fst ?es = map (snd \<circ> snd) (pending_entries entries)"
    by (auto simp: pending_entries_def)
  finally show ?thesis by (simp add: distinct_map)
qed

lemma claimed_known:
  assumes "map permit_triple permits = takeWhile P (take n (sorted_list_of_set (pending_set q)))"
    and "a \<in> set (map pm_account_id permits)"
  shows "\<exists>e. bt_get (qq_entries q) a = Some e"
proof -
  obtain p where p: "p \<in> set permits" "a = pm_account_id p" using assms(2) by auto
  then have "permit_triple p \<in> set (map permit_triple permits)" by simp
  then have "permit_triple p \<in> pending_set q"
    unfolding assms(1) by (auto dest!: set_takeWhileD in_set_takeD)
  then show ?thesis using p(2) live_account by (fastforce simp: pending_set_def permit_triple_def)
qed

subsection \<open>The queue as a state machine\<close>

inductive queue_step :: "QuotaRefreshQueue \<Rightarrow> QuotaRefreshQueue \<Rightarrow> bool" where
  upsert: "queue_upsert a d q = Some (q', r) \<Longrightarrow> queue_step q q'"
| dirty: "mark_dirty a d q = Some (q', r) \<Longrightarrow> queue_step q q'"
| claim: "claim_due now n q = Some (q', permits) \<Longrightarrow> queue_step q q'"
| complete: "queue_complete permit q = Some (q', b) \<Longrightarrow> queue_step q q'"
| resched: "reschedule permit d q = Some (q', b) \<Longrightarrow> queue_step q q'"
| remove: "queue_step q (fst (queue_remove a q))"
| next_due: "queue_step q (fst (next_due q))"

lemma total_upsert:
  assumes "queue_wf q"
  shows "\<exists>q' r. queue_upsert a d q = Some (q', r) \<and> queue_wf q'"
proof (cases "validated_account_id a")
  case (Inr b)
  show ?thesis
  proof (cases "bt_get (qq_entries q) b")
    case None
    then show ?thesis using Inr wf_insert [OF assms, of b d]
      by (cases "queue_insert b d q") (simp add: queue_upsert_def)
  next
    case (Some e)
    obtain q1 where "schedule b d q = Some q1" "queue_wf q1" using schedule_Some [OF assms Some] by blast
    then show ?thesis using Inr Some assms wf_stale [OF assms Some]
      by (auto simp: queue_upsert_def)
  qed
qed (simp add: queue_upsert_def assms)

lemma total_dirty:
  assumes "queue_wf q"
  shows "\<exists>q' r. mark_dirty a d q = Some (q', r) \<and> queue_wf q'"
proof (cases "validated_account_id a")
  case (Inr b)
  show ?thesis
  proof (cases "bt_get (qq_entries q) b")
    case None
    then show ?thesis using Inr wf_insert [OF assms, of b d]
      by (cases "queue_insert b d q") (simp add: mark_dirty_def)
  next
    case (Some e)
    obtain q1 where "schedule b d q = Some q1" "queue_wf q1" using schedule_Some [OF assms Some] by blast
    then show ?thesis using Inr Some assms wf_stale [OF assms Some]
      by (auto simp: mark_dirty_def Let_def)
  qed
qed (simp add: mark_dirty_def assms)

lemma total_claim: "queue_wf q \<Longrightarrow> \<exists>q' permits. claim_due now n q = Some (q', permits) \<and> queue_wf q'"
  using claim_loop_spec [of q now n] by (auto simp: claim_due_def)

lemma total_complete:
  assumes "queue_wf q"
  shows "\<exists>q' b. queue_complete p q = Some (q', b) \<and> queue_wf q'"
proof (cases "bt_get (qq_entries q) (pm_account_id p)")
  case (Some e)
  have "\<exists>q1. schedule (pm_account_id p) d q = Some q1 \<and> queue_wf q1" for d
    using schedule_Some [OF assms Some] by metis
  then show ?thesis using Some assms wf_remove [OF assms]
    by (fastforce simp: queue_complete_def split: option.split)
qed (auto simp: queue_complete_def assms)

lemma total_reschedule:
  assumes "queue_wf q"
  shows "\<exists>q' b. reschedule p d q = Some (q', b) \<and> queue_wf q'"
proof (cases "bt_get (qq_entries q) (pm_account_id p)")
  case (Some e)
  have "\<exists>q1. schedule (pm_account_id p) d q = Some q1 \<and> queue_wf q1" for d
    using schedule_Some [OF assms Some] by metis
  then show ?thesis using Some assms by (fastforce simp: reschedule_def split: option.split)
qed (auto simp: reschedule_def assms)

lemmas queue_total = total_upsert total_dirty total_claim total_complete total_reschedule

lemma queue_step_wf: "queue_step q q' \<Longrightarrow> queue_wf q \<Longrightarrow> queue_wf q'"
proof (induction rule: queue_step.induct)
  case (upsert a d q q' r)
  then show ?case using total_upsert [of q a d] by auto
next
  case (dirty a d q q' r)
  then show ?case using total_dirty [of q a d] by auto
next
  case (claim now n q q' permits)
  then show ?case using total_claim [of q now n] by auto
next
  case (complete permit q q' b)
  then show ?case using total_complete [of q permit] by auto
next
  case (resched permit d q q' b)
  then show ?case using total_reschedule [of q permit d] by auto
next
  case (remove q a)
  then show ?case by (simp add: queue_remove_def wf_remove)
next
  case (next_due q)
  then show ?case by (simp add: next_due_def Let_def wf_discard)
qed

definition queue_initial :: "nat \<Rightarrow> QuotaRefreshQueue" where
  "queue_initial n = \<lparr>qq_max_entries = n, qq_next_generation = 1, qq_entries = bt_empty, qq_heap = []\<rparr>"

lemma queue_wf_initial: "0 < n \<Longrightarrow> n \<le> usize_max \<Longrightarrow> queue_wf (queue_initial n)"
  by (simp add: queue_wf_def queue_initial_def pending_set_def heap_entry_live_def)

interpretation refresh_queue: step_invariant queue_step "queue_initial n"
    "\<lambda>q. 0 < n \<and> n \<le> usize_max \<longrightarrow> queue_wf q"
  by unfold_locales (auto intro: queue_wf_initial queue_step_wf)

subsection \<open>Sample queues\<close>

definition sample_queue :: QuotaRefreshQueue where
  "sample_queue = \<lparr>qq_max_entries = 1, qq_next_generation = 2,
     qq_entries = bt_insert ''a'' \<lparr>en_status = Pending, en_due_at_ms = 10, en_generation = 1,
       en_dirty_due_at_ms = None\<rparr> bt_empty,
     qq_heap = [(10, 1, ''a'')]\<rparr>"

definition sample_flight :: QuotaRefreshQueue where
  "sample_flight = \<lparr>qq_max_entries = 1, qq_next_generation = 1,
     qq_entries = bt_insert ''a'' \<lparr>en_status = InFlight, en_due_at_ms = 10, en_generation = 1,
       en_dirty_due_at_ms = None\<rparr> bt_empty,
     qq_heap = []\<rparr>"

lemma queue_new_1: "queue_new 1 = Inr (queue_initial 1)"
  by (simp add: queue_new_def queue_initial_def)

lemma usize_ge_1: "1 \<le> usize_max"
  by (simp add: usize_max_def)

lemma sample_pending: "pending_entries (qq_entries sample_queue) = [(10, 1, ''a'')]"
  by (simp add: pending_entries_def sample_queue_def)

lemma sample_id: "validated_account_id ''a'' = Inr ''a''"
  by code_simp

lemma sample_queue_reach: "reach queue_step (queue_initial 1) sample_queue"
proof -
  have "queue_upsert ''a'' 10 (queue_initial 1) = Some (sample_queue, Inr True)"
    by (simp add: queue_upsert_def sample_id queue_initial_def queue_insert_def take_generation_def
        compact_if_needed_def heap_limit_def usize_max_def sample_queue_def)
  then show ?thesis by (intro reach.step [OF reach.start] queue_step.upsert)
qed

subsection \<open>Properties\<close>

text \<open>
  C11 (invariant). Starting from a new queue with a positive capacity and applying any sequence of
  operations, no \<open>expect\<close> of the source can fail, the queue never holds more accounts than its
  capacity, and the heap never holds more than twice as many triples.
\<close>

theorem refresh_queue_total_and_bounded:
  assumes "queue_new n = Inr q0" and "n \<le> usize_max" and "reach queue_step q0 q"
  shows "queue_upsert a d q \<noteq> None \<and> mark_dirty a d q \<noteq> None \<and> claim_due now k q \<noteq> None
    \<and> queue_complete p q \<noteq> None \<and> reschedule p d q \<noteq> None
    \<and> queue_len q \<le> qq_max_entries q \<and> length (qq_heap q) \<le> 2 * qq_max_entries q"
proof -
  have q0: "q0 = queue_initial n" and n: "0 < n"
    using assms(1) by (auto simp: queue_new_def queue_initial_def split: if_splits)
  then have wf: "queue_wf q" using refresh_queue.holds [of n q] assms(2,3) by simp
  then have "queue_len q \<le> qq_max_entries q" "length (qq_heap q) \<le> 2 * qq_max_entries q"
    by (simp_all add: queue_wf_def queue_len_def heap_limit_def)
  moreover have "queue_upsert a d q \<noteq> None" "mark_dirty a d q \<noteq> None" "claim_due now k q \<noteq> None"
      "queue_complete p q \<noteq> None" "reschedule p d q \<noteq> None"
    using queue_total [OF wf] by (metis option.distinct(1))+
  ultimately show ?thesis by blast
qed

theorem refresh_queue_total_and_bounded_witness:
  "claim_due 10 1 sample_queue \<noteq> None \<and> queue_len sample_queue \<le> 1"
  using refresh_queue_total_and_bounded [OF queue_new_1 usize_ge_1 sample_queue_reach]
  by (simp add: sample_queue_def)

text \<open>
  C12 (equivalence). Claiming due refreshes is equivalent to sorting the pending accounts by due
  time, generation and id and taking the due ones among the first \<open>n\<close>: stale heap triples,
  compaction and lazy deletion are never visible. The claimed accounts become in flight, and no
  other account changes.
\<close>

theorem claim_due_is_sorted_selection:
  assumes "queue_new n = Inr q0" and "n \<le> usize_max" and "reach queue_step q0 q"
  shows "\<exists>q' permits. claim_due now k q = Some (q', permits)
    \<and> map permit_triple permits = takeWhile (\<lambda>e. fst e \<le> now) (take k (sort (pending_entries (qq_entries q))))
    \<and> (\<forall>a. is_in_flight a q' \<longleftrightarrow> is_in_flight a q \<or> a \<in> set (map pm_account_id permits))
    \<and> (\<forall>a. a \<notin> set (map pm_account_id permits) \<longrightarrow> bt_get (qq_entries q') a = bt_get (qq_entries q) a)"
proof -
  have q0: "q0 = queue_initial n" and n: "0 < n"
    using assms(1) by (auto simp: queue_new_def queue_initial_def split: if_splits)
  then have wf: "queue_wf q" using refresh_queue.holds [of n q] assms(2,3) by simp
  have sorted: "sorted_list_of_set (pending_set q) = sort (pending_entries (qq_entries q))"
    by (simp add: pending_set_def pending_entries_set [symmetric] pending_entries_distinct
        sorted_list_of_set_sort_remdups distinct_remdups_id)
  obtain q' permits where c: "claim_due now k q = Some (q', permits)"
    and m: "map permit_triple permits = takeWhile (\<lambda>e. fst e \<le> now) (take k (sorted_list_of_set (pending_set q)))"
    and g: "\<forall>a. bt_get (qq_entries q') a = (if a \<in> set (map pm_account_id permits)
          then map_option (\<lambda>e. e\<lparr>en_status := InFlight\<rparr>) (bt_get (qq_entries q) a) else bt_get (qq_entries q) a)"
    using claim_loop_spec [OF wf, of now k] unfolding claim_due_def by blast
  have known: "\<exists>e. bt_get (qq_entries q) a = Some e" if "a \<in> set (map pm_account_id permits)" for a
    using claimed_known [OF m that] .
  have "is_in_flight a q' \<longleftrightarrow> is_in_flight a q \<or> a \<in> set (map pm_account_id permits)" for a
    using g known [of a] by (auto simp: is_in_flight_def)
  then show ?thesis using c m g unfolding sorted by auto
qed

theorem claim_due_is_sorted_selection_witness:
  "\<exists>q' permits. claim_due 10 5 sample_queue = Some (q', permits) \<and> map permit_triple permits = [(10, 1, ''a'')]"
  using claim_due_is_sorted_selection [OF queue_new_1 usize_ge_1 sample_queue_reach, of 10 5] by (auto simp: sample_pending)

text \<open>
  The next due time is the earliest due time of a pending account, and there is
  none exactly when no account is pending.
\<close>

lemma next_due_is_earliest_pending:
  assumes "queue_new n = Inr q0" and "n \<le> usize_max" and "reach queue_step q0 q"
  shows "snd (next_due q) = min_opt (map fst (pending_entries (qq_entries q)))"
proof -
  have q0: "q0 = queue_initial n" and n: "0 < n"
    using assms(1) by (auto simp: queue_new_def queue_initial_def split: if_splits)
  then have wf: "queue_wf q" using refresh_queue.holds [of n q] assms(2,3) by simp
  have set: "set (map fst (pending_entries (qq_entries q))) = fst ` pending_set q"
    by (simp add: pending_set_def pending_entries_set)
  show ?thesis
  proof (cases "qq_heap (discard_stale q)")
    case Nil
    then have "pending_set q = {}" using discard_head(1) [OF wf] by simp
    moreover have "set (pending_entries (qq_entries q)) = pending_set q"
      by (simp add: pending_set_def pending_entries_set)
    ultimately have "pending_entries (qq_entries q) = []" by (metis set_empty)
    then show ?thesis using Nil by (simp add: next_due_def Let_def min_opt_def min_by_def)
  next
    case (Cons e heap)
    have "e \<in> pending_set q" "\<forall>x \<in> pending_set q. e \<le> x" using discard_head(2) [OF wf Cons] by auto
    then have "min_opt (map fst (pending_entries (qq_entries q))) = Some (fst e)"
      unfolding min_opt_Some set by (fastforce simp: less_eq_prod_def)
    then show ?thesis using Cons by (simp add: next_due_def Let_def)
  qed
qed

text \<open>
  A permit is honoured at most once: after it completed a refresh, completing or
  rescheduling with it again changes nothing and answers false, and an account that was marked
  dirty while in flight is pending again at the requested time rather than dropped.
\<close>

lemma permit_used_once:
  assumes "queue_complete p q = Some (q', True)"
  shows "queue_complete p q' = Some (q', False) \<and> reschedule p d q' = Some (q', False)
    \<and> (\<forall>e due. bt_get (qq_entries q) (pm_account_id p) = Some e \<longrightarrow> en_dirty_due_at_ms e = Some due \<longrightarrow>
        (\<exists>e'. bt_get (qq_entries q') (pm_account_id p) = Some e' \<and> en_status e' = Pending \<and> en_due_at_ms e' = due))"
proof -
  obtain e where e: "bt_get (qq_entries q) (pm_account_id p) = Some e" "en_status e = InFlight"
      "en_generation e = pm_generation p"
    using assms by (auto simp: queue_complete_def split: option.splits if_splits)
  show ?thesis
  proof (cases "en_dirty_due_at_ms e")
    case None
    then have "q' = q\<lparr>qq_entries := bt_remove (pm_account_id p) (qq_entries q)\<rparr>"
      using assms e by (simp add: queue_complete_def)
    then show ?thesis using None e by (simp add: queue_complete_def reschedule_def)
  next
    case (Some due)
    then have "schedule (pm_account_id p) due q = Some q'" using assms e by (auto simp: queue_complete_def)
    then have "bt_get (qq_entries q') (pm_account_id p) = Some (e\<lparr>en_status := Pending, en_due_at_ms := due,
        en_generation := qq_next_generation q, en_dirty_due_at_ms := None\<rparr>)"
      using e by (auto simp: schedule_def take_generation_def)
    then show ?thesis using Some e by (simp add: queue_complete_def reschedule_def)
  qed
qed

end
