(* ===== verification/Wake_Policy.thy ===== *)
theory Wake_Policy
  imports Accounts
begin

section \<open>Wake tasks and policies (\<open>automations/quota_wake/policy.rs\<close>)\<close>

text \<open>
  A wake task says which accounts to wake when their quota window becomes full, with which model
  and how often; the adapter policy says what the provider supports. Validation, the account
  selector and the choice of the model are pure functions.
\<close>

definition MAX_WAKE_ATTEMPTS :: u8 where "MAX_WAKE_ATTEMPTS = 2"
definition MAX_WAKE_JITTER_SECONDS :: u32 where "MAX_WAKE_JITTER_SECONDS = 3600"
definition MAX_VERIFICATION_DELAY_MS :: u64 where "MAX_VERIFICATION_DELAY_MS = 10 * 60000"
definition MAX_OUTPUT_TOKEN_CAP :: u16 where "MAX_OUTPUT_TOKEN_CAP = 256"
definition MODEL_RANK_STRIDE :: u32 where "MODEL_RANK_STRIDE = 4096"

lemmas wake_constants = MAX_WAKE_ATTEMPTS_def MAX_WAKE_JITTER_SECONDS_def MAX_VERIFICATION_DELAY_MS_def
  MAX_OUTPUT_TOKEN_CAP_def MODEL_RANK_STRIDE_def

definition is_safe_id :: "string \<Rightarrow> bool" where
  "is_safe_id v \<longleftrightarrow> (let v = trim v in v \<noteq> [] \<and> length v \<le> 64
     \<and> list_all (\<lambda>c. is_ascii_alphanumeric c \<or> c = CHR ''-'' \<or> c = CHR ''_'') v)"

definition model_lightness_rank :: "string \<Rightarrow> nat \<Rightarrow> u32" where
  "model_lightness_rank model index =
     (let model = to_ascii_lowercase model;
          tier = (if contains_str model ''nano'' then 0 else if contains_str model ''mini'' then 1 else 2)
      in tier * MODEL_RANK_STRIDE
         + min (if index < 2 ^ 32 then of_nat index else - 1) (MODEL_RANK_STRIDE - 1))"

datatype AccountSelector = AllEligible | AccountIds "string fset" | Tags "string fset"

fun selector_matches :: "AccountSelector \<Rightarrow> AccountRecord \<Rightarrow> bool" where
  "selector_matches AllEligible account \<longleftrightarrow> True"
| "selector_matches (AccountIds ids) account \<longleftrightarrow> ar_id account |\<in>| ids"
| "selector_matches (Tags tags) account \<longleftrightarrow> tags |\<inter>| ar_tags account \<noteq> {||}"

fun selector_is_valid :: "AccountSelector \<Rightarrow> bool" where
  "selector_is_valid AllEligible \<longleftrightarrow> True"
| "selector_is_valid (AccountIds ids) \<longleftrightarrow> ids \<noteq> {||}"
| "selector_is_valid (Tags ids) \<longleftrightarrow> ids \<noteq> {||}"

datatype WakeModelPolicy = LightestSupported | ExplicitModel string

datatype WakeTrigger = QuotaFull | Daily | Weekly | Interval u64

datatype WakeExecutionPolicy = AutomaticExecution | RequireConfirmation

record WakeTask =
  wt_id :: string
  wt_name :: string
  wt_enabled :: bool
  wt_account_selector :: AccountSelector
  wt_window_kinds :: "QuotaWindowKind fset"
  wt_model_policy :: WakeModelPolicy
  wt_trigger :: WakeTrigger
  wt_fallback_schedule :: "WakeTrigger option"
  wt_execution_policy :: WakeExecutionPolicy
  wt_jitter_seconds :: u32
  wt_max_attempts_per_cycle :: u8
  wt_created_at_ms :: u64
  wt_updated_at_ms :: u64

datatype WakeTaskValidationError = InvalidId | InvalidName | UnsupportedSchedule | InvalidAccountSelector
  | InvalidWindowSelection | InvalidModelPolicy | InvalidAttemptLimit | InvalidJitter | InvalidAdapterPolicy

definition task_validate :: "WakeTask \<Rightarrow> WakeTaskValidationError option" where
  "task_validate t =
     (if \<not> is_safe_id (wt_id t) then Some InvalidId
      else if trim (wt_name t) = [] then Some InvalidName
      else if wt_fallback_schedule t \<noteq> None \<or> (wt_trigger t \<noteq> QuotaFull \<and> wt_trigger t \<noteq> Weekly)
      then Some UnsupportedSchedule
      else if \<not> selector_is_valid (wt_account_selector t) then Some InvalidAccountSelector
      else if wt_window_kinds t = {||} then Some InvalidWindowSelection
      else if wt_trigger t = Weekly
        \<and> (wt_window_kinds t \<noteq> {|Secondary|} \<or> wt_execution_policy t \<noteq> AutomaticExecution)
      then Some UnsupportedSchedule
      else if (case wt_model_policy t of LightestSupported \<Rightarrow> False | ExplicitModel i \<Rightarrow> trim i = [])
      then Some InvalidModelPolicy
      else if \<not> (1 \<le> wt_max_attempts_per_cycle t \<and> wt_max_attempts_per_cycle t \<le> MAX_WAKE_ATTEMPTS)
      then Some InvalidAttemptLimit
      else if wt_jitter_seconds t > MAX_WAKE_JITTER_SECONDS then Some InvalidJitter
      else None)"

record WakeModel =
  wm_id :: string
  wm_lightness_rank :: u32
  wm_wake_capable :: bool

record WakeAdapterPolicy =
  wp_windows_requiring_activity :: "QuotaWindowKind fset"
  wp_models :: "WakeModel list"
  wp_verification_delay_ms :: u64
  wp_output_token_cap :: u16

definition policy_is_valid :: "WakeAdapterPolicy \<Rightarrow> bool" where
  "policy_is_valid p \<longleftrightarrow> wp_verification_delay_ms p \<le> MAX_VERIFICATION_DELAY_MS
     \<and> 1 \<le> wp_output_token_cap p \<and> wp_output_token_cap p \<le> MAX_OUTPUT_TOKEN_CAP"

definition compare_lightness :: "WakeModel \<Rightarrow> WakeModel \<Rightarrow> ordering" where
  "compare_lightness l r =
     then_with (cmp (wm_lightness_rank l) (wm_lightness_rank r)) (cmp (wm_id l) (wm_id r))"

fun select_model :: "WakeModelPolicy \<Rightarrow> WakeModel list \<Rightarrow> string option" where
  "select_model LightestSupported models =
     map_option wm_id (min_by compare_lightness
       (filter (\<lambda>m. wm_wake_capable m \<and> trim (wm_id m) \<noteq> []) models))"
| "select_model (ExplicitModel i) models =
     map_option wm_id (find (\<lambda>m. wm_wake_capable m \<and> eq_ignore_ascii_case (wm_id m) (trim i)) models)"

interpretation lightness: keyed_comparison compare_lightness "\<lambda>m. (wm_lightness_rank m, wm_id m)"
  by unfold_locales (simp_all add: compare_lightness_def then_with_cmp)

subsection \<open>Properties\<close>

text \<open>
  Choosing the lightest supported model returns the identifier of a listed,
  wake-capable model with a non-blank identifier such that no other such model has a smaller
  (rank, identifier); it fails exactly when no listed model qualifies.
\<close>

lemma lightest_model_is_minimal:
  "(case select_model LightestSupported models of
      None \<Rightarrow> \<forall>m \<in> set models. wm_wake_capable m \<longrightarrow> trim (wm_id m) = []
    | Some i \<Rightarrow> \<exists>m \<in> set models. wm_id m = i \<and> wm_wake_capable m \<and> trim i \<noteq> []
        \<and> (\<forall>m' \<in> set models. wm_wake_capable m' \<and> trim (wm_id m') \<noteq> [] \<longrightarrow>
            (wm_lightness_rank m, wm_id m) \<le> (wm_lightness_rank m', wm_id m')))"
proof (cases "min_by compare_lightness (filter (\<lambda>m. wm_wake_capable m \<and> trim (wm_id m) \<noteq> []) models)")
  case None
  then have "filter (\<lambda>m. wm_wake_capable m \<and> trim (wm_id m) \<noteq> []) models = []" by simp
  then show ?thesis using None by (simp add: filter_empty_conv)
next
  case (Some m)
  have "m \<in> set models" "wm_wake_capable m" "trim (wm_id m) \<noteq> []" using min_by_mem [OF Some] by auto
  moreover have "(wm_lightness_rank m, wm_id m) \<le> (wm_lightness_rank m', wm_id m')"
    if "m' \<in> set models" "wm_wake_capable m'" "trim (wm_id m') \<noteq> []" for m'
    using that by (intro lightness.min_by_key [OF Some]) simp
  ultimately show ?thesis using Some by auto
qed

end
