(* ===== verification/Quota_Wake.thy ===== *)
theory Quota_Wake
  imports Wake_Policy
begin

section \<open>Quota wake automation (\<open>automations/quota_wake.rs\<close>)\<close>

text \<open>
  When a quota window becomes full again, the coordinator sends one small request to start the
  next cycle. It keeps a bounded list of cycles, each tried at most \<^const>\<open>MAX_WAKE_ATTEMPTS\<close>
  times, and a bounded history; both survive a restart through \<open>from_state\<close>. A loop over
  \<open>&mut cycles\<close> is a map over the list. The digests are parameters: \<open>sha256_hex\<close> (hexadecimal)
  and \<open>sha256\<close> (the 32 bytes).
\<close>

subsection \<open>Data\<close>

datatype WakeOutcome = WakeConfirmed | WakeUnconfirmed | SkippedAlreadyStarted | SkippedDuplicate
  | SkippedIneligible | SkippedCapacity | WakeFailed

record WakeHistory =
  wh_task_id :: string
  wh_account_id :: string
  wh_window_kind :: QuotaWindowKind
  wh_transition_fingerprint :: string
  wh_model_id :: "string option"
  wh_trigger :: WakeTrigger
  wh_attempt :: u8
  wh_outcome :: WakeOutcome
  wh_started_at_ms :: u64
  wh_completed_at_ms :: u64
  wh_latency_ms :: "u64 option"
  wh_input_tokens :: "u64 option"
  wh_output_tokens :: "u64 option"
  wh_error_code :: "string option"

record WakeExecutionRequest =
  wr_account_id :: string
  wr_model_id :: string
  wr_window_kind :: QuotaWindowKind
  wr_output_token_cap :: u16

record WakeVerificationMetadata =
  wv_window_kind :: QuotaWindowKind
  wv_baseline_window :: "QuotaWindow option"
  wv_verify_after_ms :: u64

datatype WakeVerificationOutcome = ConfirmedQuotaConsumed | ConfirmedCountdownAdvanced | VerificationUnconfirmed

datatype WakeCycleStatus = CyclePending | CycleInFlight | CycleCompleted

record WakeCycle =
  wc_key :: string
  wc_status :: WakeCycleStatus
  wc_task_id :: string
  wc_account_id :: string
  wc_window_kind :: QuotaWindowKind
  wc_transition_fingerprint :: string
  wc_trigger :: WakeTrigger
  wc_requires_confirmation :: bool
  wc_request :: "WakeExecutionRequest option"
  wc_verification :: "WakeVerificationMetadata option"
  wc_jitter_seconds :: u32
  wc_max_attempts :: u8
  wc_attempts_started :: u8
  wc_due_at_ms :: u64
  wc_recorded_at_ms :: u64

record WakeAutomationState =
  ws_max_cycles :: nat
  ws_max_history :: nat
  ws_cycles :: "WakeCycle list"
  ws_history :: "WakeHistory list"

record WakeSchedule =
  wd_cycle_key :: string
  wd_due_at_ms :: u64
  wd_attempts_started :: u8
  wd_max_attempts :: u8
  wd_request :: WakeExecutionRequest

datatype WakeDecision = Scheduled WakeSchedule | Skipped WakeOutcome | Rejected WakeTaskValidationError

record WakePermit =
  wk_cycle_key :: string
  wk_task_id :: string
  wk_account_id :: string
  wk_window_kind :: QuotaWindowKind
  wk_transition_fingerprint :: string
  wk_model_id :: string
  wk_trigger :: WakeTrigger
  wk_requires_confirmation :: bool
  wk_verification_delay_ms :: u64
  wk_output_token_cap :: u16
  wk_attempt :: u8
  wk_due_at_ms :: u64
  wk_reserved_at_ms :: u64
  wk_request :: WakeExecutionRequest
  wk_verification :: WakeVerificationMetadata

datatype WakeCompletionOutcome = CompletionConfirmed | CompletionUnconfirmed | CompletionFailed

record WakeCompletion =
  wl_outcome :: WakeCompletionOutcome
  wl_completed_at_ms :: u64
  wl_latency_ms :: "u64 option"
  wl_input_tokens :: "u64 option"
  wl_output_tokens :: "u64 option"
  wl_error_code :: "string option"

datatype WakeClaimMode = ClaimAny | ClaimAutomatic | ClaimConfirmation

fun claim_mode_matches :: "WakeClaimMode \<Rightarrow> WakeCycle \<Rightarrow> bool" where
  "claim_mode_matches ClaimAny cycle \<longleftrightarrow> True"
| "claim_mode_matches ClaimAutomatic cycle \<longleftrightarrow> \<not> wc_requires_confirmation cycle"
| "claim_mode_matches ClaimConfirmation cycle \<longleftrightarrow> wc_requires_confirmation cycle"

subsection \<open>Verification of a wake\<close>

definition known_full_state :: "QuotaWindow \<Rightarrow> bool" where
  "known_full_state w \<longleftrightarrow> qw_explicitly_full w \<noteq> None \<or> qw_available_basis_points w \<noteq> None"

definition verify_wake_countdown :: "QuotaWindow option \<Rightarrow> QuotaWindow option \<Rightarrow> WakeVerificationOutcome" where
  "verify_wake_countdown before0 after0 =
     (case (before0, after0) of
        (Some before, Some after) \<Rightarrow>
          if qw_kind before \<noteq> qw_kind after \<or> qw_observed_at_ms after \<le> qw_observed_at_ms before
             \<or> \<not> known_full_state before \<or> \<not> known_full_state after \<or> \<not> is_fully_available before
          then VerificationUnconfirmed
          else if \<not> is_fully_available after then ConfirmedQuotaConsumed
          else if (case (qw_reset_at_ms before, qw_reset_at_ms after) of
                (Some before_reset, Some after_reset) \<Rightarrow>
                  after_reset > before_reset \<and> after_reset > qw_observed_at_ms after
              | _ \<Rightarrow> False)
          then ConfirmedCountdownAdvanced
          else VerificationUnconfirmed
      | _ \<Rightarrow> VerificationUnconfirmed)"

subsection \<open>Cycles\<close>

definition cycle_schedule :: "WakeCycle \<Rightarrow> WakeSchedule option" where
  "cycle_schedule c =
     (if wc_status c \<noteq> CyclePending then None
      else map_option (\<lambda>request.
        \<lparr>wd_cycle_key = wc_key c, wd_due_at_ms = wc_due_at_ms c, wd_attempts_started = wc_attempts_started c,
         wd_max_attempts = wc_max_attempts c, wd_request = request\<rparr>) (wc_request c))"

definition cycle_finish :: "u64 \<Rightarrow> WakeCycle \<Rightarrow> WakeCycle" where
  "cycle_finish now_ms c =
     c\<lparr>wc_status := CycleCompleted, wc_request := None, wc_verification := None, wc_recorded_at_ms := now_ms\<rparr>"

definition valid_cycle :: "WakeCycle \<Rightarrow> bool" where
  "valid_cycle c \<longleftrightarrow> wc_key c \<noteq> [] \<and> is_safe_id (wc_task_id c) \<and> trim (wc_account_id c) \<noteq> []
     \<and> trim (wc_transition_fingerprint c) \<noteq> []
     \<and> 1 \<le> wc_max_attempts c \<and> wc_max_attempts c \<le> MAX_WAKE_ATTEMPTS
     \<and> wc_attempts_started c \<le> wc_max_attempts c \<and> wc_jitter_seconds c \<le> MAX_WAKE_JITTER_SECONDS
     \<and> (wc_status c = CycleCompleted \<or> wc_request c \<noteq> None \<and> wc_verification c \<noteq> None)"

definition natural_use_history :: "WakeCycle \<Rightarrow> u64 \<Rightarrow> WakeHistory" where
  "natural_use_history c used_at_ms =
     \<lparr>wh_task_id = wc_task_id c, wh_account_id = wc_account_id c, wh_window_kind = wc_window_kind c,
      wh_transition_fingerprint = wc_transition_fingerprint c, wh_model_id = None, wh_trigger = wc_trigger c,
      wh_attempt = wc_attempts_started c, wh_outcome = SkippedAlreadyStarted, wh_started_at_ms = used_at_ms,
      wh_completed_at_ms = used_at_ms, wh_latency_ms = None, wh_input_tokens = None,
      wh_output_tokens = None, wh_error_code = None\<rparr>"

definition canceled_history :: "WakeCycle \<Rightarrow> u64 \<Rightarrow> string \<Rightarrow> WakeHistory" where
  "canceled_history c completed_at_ms error_code =
     \<lparr>wh_task_id = wc_task_id c, wh_account_id = wc_account_id c, wh_window_kind = wc_window_kind c,
      wh_transition_fingerprint = wc_transition_fingerprint c, wh_model_id = None, wh_trigger = wc_trigger c,
      wh_attempt = wc_attempts_started c, wh_outcome = SkippedIneligible,
      wh_started_at_ms = wc_recorded_at_ms c, wh_completed_at_ms = max completed_at_ms (wc_recorded_at_ms c),
      wh_latency_ms = None, wh_input_tokens = None, wh_output_tokens = None,
      wh_error_code = Some (safe_error_code error_code)\<rparr>"

definition cycle_key :: "(string \<Rightarrow> string) \<Rightarrow> AccountRecord \<Rightarrow> QuotaTransition \<Rightarrow> string" where
  "cycle_key sha256_hex account transition =
     sha256_hex (ar_id account @ [CHR 0x00] @ debug_kind (qt_window_kind transition) @ [CHR 0x00]
       @ qt_fingerprint transition)"

definition same_cycle :: "WakeCycle \<Rightarrow> string \<Rightarrow> QuotaWindowKind \<Rightarrow> string \<Rightarrow> bool" where
  "same_cycle c account_id window_kind fp \<longleftrightarrow>
     wc_account_id c = account_id \<and> wc_window_kind c = window_kind
     \<and> wc_transition_fingerprint c = fp"

definition deterministic_jitter_ms :: "(string \<Rightarrow> string) \<Rightarrow> string \<Rightarrow> u8 \<Rightarrow> u32 \<Rightarrow> u64" where
  "deterministic_jitter_ms sha256 key attempt jitter_seconds =
     (if jitter_seconds = 0 then 0
      else
        let digest = sha256 (key @ [CHR 0x00] @ show_nat (unat attempt));
            seconds = from_le_bytes (take 8 digest) mod (ucast jitter_seconds + 1)
        in sat_mul seconds 1000)"

subsection \<open>Bounded storage\<close>

definition wake_state_new :: "nat \<Rightarrow> nat \<Rightarrow> string + WakeAutomationState" where
  "wake_state_new max_cycles max_history =
     (if max_cycles = 0 \<or> max_history = 0 then Inl ''wake state bounds must be positive''
      else Inr \<lparr>ws_max_cycles = max_cycles, ws_max_history = max_history, ws_cycles = [], ws_history = []\<rparr>)"

definition push_history :: "WakeHistory \<Rightarrow> WakeAutomationState \<Rightarrow> WakeAutomationState" where
  "push_history h s =
     s\<lparr>ws_history := (if length (ws_history s) \<ge> ws_max_history s then tl (ws_history s) else ws_history s) @ [h]\<rparr>"

fun remove_first :: "('a \<Rightarrow> bool) \<Rightarrow> 'a list \<Rightarrow> 'a list option" where
  "remove_first P [] = None"
| "remove_first P (x # xs) = (if P x then Some xs else map_option (Cons x) (remove_first P xs))"

definition reserve_cycle :: "WakeCycle \<Rightarrow> WakeAutomationState \<Rightarrow> WakeAutomationState \<times> bool" where
  "reserve_cycle c s =
     (if length (ws_cycles s) \<ge> ws_max_cycles s then
        (case remove_first (\<lambda>c. wc_status c = CycleCompleted) (ws_cycles s) of
           Some rest \<Rightarrow> (s\<lparr>ws_cycles := rest @ [c]\<rparr>, True)
         | None \<Rightarrow> (s, False))
      else (s\<lparr>ws_cycles := ws_cycles s @ [c]\<rparr>, True))"

subsection \<open>The coordinator\<close>

definition finish_matching ::
  "(WakeCycle \<Rightarrow> bool) \<Rightarrow> (WakeCycle \<Rightarrow> WakeHistory) \<Rightarrow> u64 \<Rightarrow> WakeAutomationState \<Rightarrow> WakeAutomationState \<times> nat" where
  "finish_matching matches history_of now_ms s =
     (let affected = (\<lambda>c. wc_status c \<noteq> CycleCompleted \<and> matches c);
          history = map history_of (filter affected (ws_cycles s));
          s = s\<lparr>ws_cycles := map (\<lambda>c. if affected c then cycle_finish now_ms c else c) (ws_cycles s)\<rparr>
      in (foldl (\<lambda>s h. push_history h s) s history, length history))"

definition cancel_matching ::
  "(WakeCycle \<Rightarrow> bool) \<Rightarrow> u64 \<Rightarrow> string \<Rightarrow> WakeAutomationState \<Rightarrow> WakeAutomationState \<times> nat" where
  "cancel_matching matches completed_at_ms error_code s =
     finish_matching matches (\<lambda>c. canceled_history c completed_at_ms error_code) completed_at_ms s"

definition remove_pending_for_task :: "string \<Rightarrow> u64 \<Rightarrow> WakeAutomationState \<Rightarrow> WakeAutomationState \<times> nat" where
  "remove_pending_for_task task_id completed_at_ms s =
     cancel_matching (\<lambda>c. wc_task_id c = task_id) completed_at_ms ''wake_task_canceled'' s"

definition remove_pending_for_account :: "string \<Rightarrow> u64 \<Rightarrow> WakeAutomationState \<Rightarrow> WakeAutomationState \<times> nat" where
  "remove_pending_for_account account_id completed_at_ms s =
     cancel_matching (\<lambda>c. wc_account_id c = account_id) completed_at_ms ''wake_account_canceled'' s"

definition mark_natural_use_for_account :: "string \<Rightarrow> u64 \<Rightarrow> WakeAutomationState \<Rightarrow> WakeAutomationState \<times> nat" where
  "mark_natural_use_for_account account_id used_at_ms s =
     finish_matching (\<lambda>c. wc_account_id c = account_id) (\<lambda>c. natural_use_history c used_at_ms) used_at_ms s"

definition recover_cycle :: "(string \<Rightarrow> string) \<Rightarrow> WakeCycle \<Rightarrow> WakeCycle" where
  "recover_cycle sha256 c =
     (if wc_status c = CycleInFlight then
        (if wc_attempts_started c < wc_max_attempts c then
           c\<lparr>wc_status := CyclePending,
             wc_due_at_ms := sat_add (wc_recorded_at_ms c) (deterministic_jitter_ms sha256 (wc_key c)
               (sat_add (wc_attempts_started c) 1) (wc_jitter_seconds c))\<rparr>
         else cycle_finish (wc_recorded_at_ms c) c)
      else c)"

definition from_state :: "(string \<Rightarrow> string) \<Rightarrow> WakeAutomationState \<Rightarrow> string + WakeAutomationState" where
  "from_state sha256 s =
     (if ws_max_cycles s = 0 \<or> ws_max_history s = 0 \<or> length (ws_cycles s) > ws_max_cycles s
         \<or> length (ws_history s) > ws_max_history s \<or> list_ex (\<lambda>c. \<not> valid_cycle c) (ws_cycles s)
      then Inl ''wake state bounds are invalid''
      else
        let s = s\<lparr>ws_cycles := map (recover_cycle sha256) (ws_cycles s),
              ws_history := map (\<lambda>h. h\<lparr>wh_error_code := map_option safe_error_code (wh_error_code h)\<rparr>) (ws_history s)\<rparr>
        in Inr (fst (cancel_matching (\<lambda>c. wc_window_kind c \<noteq> Primary) 0 ''wake_window_redundant'' s)))"

definition pending :: "WakeAutomationState \<Rightarrow> WakeSchedule list" where
  "pending s = List.map_filter cycle_schedule (ws_cycles s)"

definition next_automatic_due :: "WakeAutomationState \<Rightarrow> u64 option" where
  "next_automatic_due s =
     min_opt (map wc_due_at_ms (filter (\<lambda>c. wc_status c = CyclePending \<and> \<not> wc_requires_confirmation c
       \<and> wc_attempts_started c < wc_max_attempts c) (ws_cycles s)))"

definition is_permit_active :: "WakePermit \<Rightarrow> WakeAutomationState \<Rightarrow> bool" where
  "is_permit_active p s =
     list_ex (\<lambda>c. wc_key c = wk_cycle_key p \<and> wc_status c = CycleInFlight
       \<and> wc_attempts_started c = wk_attempt p \<and> wc_task_id c = wk_task_id p
       \<and> wc_account_id c = wk_account_id p \<and> wc_window_kind c = wk_window_kind p
       \<and> wc_transition_fingerprint c = wk_transition_fingerprint p) (ws_cycles s)"

text \<open>The first cycle that matches is replaced, with the value it had; nothing else changes.\<close>

fun update_first :: "('a \<Rightarrow> bool) \<Rightarrow> ('a \<Rightarrow> 'a) \<Rightarrow> 'a list \<Rightarrow> ('a list \<times> 'a) option" where
  "update_first P f [] = None"
| "update_first P f (x # xs) =
     (if P x then Some (f x # xs, x) else map_option (\<lambda>(ys, y). (x # ys, y)) (update_first P f xs))"

definition natural_use_cycle :: "WakeTask \<Rightarrow> AccountRecord \<Rightarrow> QuotaTransition \<Rightarrow> string \<Rightarrow> u64 \<Rightarrow> WakeCycle" where
  "natural_use_cycle task account transition key now_ms =
     \<lparr>wc_key = key, wc_status = CycleCompleted, wc_task_id = wt_id task,
      wc_account_id = ar_id account, wc_window_kind = qt_window_kind transition,
      wc_transition_fingerprint = qt_fingerprint transition, wc_trigger = wt_trigger task,
      wc_requires_confirmation = False, wc_request = None, wc_verification = None,
      wc_jitter_seconds = wt_jitter_seconds task, wc_max_attempts = wt_max_attempts_per_cycle task,
      wc_attempts_started = 0, wc_due_at_ms = now_ms, wc_recorded_at_ms = now_ms\<rparr>"

definition complete_by_natural_use ::
  "WakeTask \<Rightarrow> AccountRecord \<Rightarrow> QuotaTransition \<Rightarrow> string \<Rightarrow> u64 \<Rightarrow> WakeAutomationState \<Rightarrow> WakeAutomationState \<times> WakeDecision" where
  "complete_by_natural_use task account transition key now_ms s =
     (case update_first (\<lambda>c. same_cycle c (ar_id account) (qt_window_kind transition) (qt_fingerprint transition))
         (cycle_finish now_ms) (ws_cycles s) of
        Some (cycles, c) \<Rightarrow>
          if wc_status c = CycleCompleted then (s, Skipped SkippedDuplicate)
          else (push_history (natural_use_history c now_ms) (s\<lparr>ws_cycles := cycles\<rparr>), Skipped SkippedAlreadyStarted)
      | None \<Rightarrow>
          let c = natural_use_cycle task account transition key now_ms
          in case reserve_cycle c s of
               (s, False) \<Rightarrow> (s, Skipped SkippedCapacity)
             | (s, True) \<Rightarrow> (push_history (natural_use_history c now_ms) s, Skipped SkippedAlreadyStarted))"

definition wake_ineligible :: "WakeTask \<Rightarrow> AccountRecord \<Rightarrow> QuotaTransition \<Rightarrow> WakeAdapterPolicy \<Rightarrow> bool" where
  "wake_ineligible task account transition policy \<longleftrightarrow>
     \<not> wt_enabled task \<or> ar_auth_mode account \<noteq> OAuth
     \<or> \<not> selector_matches (wt_account_selector task) account \<or> wt_trigger task \<noteq> QuotaFull
     \<or> qt_window_kind transition \<noteq> Primary \<or> Primary |\<notin>| wt_window_kinds task
     \<or> trim (qt_fingerprint transition) = [] \<or> \<not> is_wake_eligible account
     \<or> qt_window_kind transition |\<notin>| wp_windows_requiring_activity policy"

definition new_cycle ::
  "(string \<Rightarrow> string) \<Rightarrow> string \<Rightarrow> WakeTask \<Rightarrow> AccountRecord \<Rightarrow> QuotaTransition \<Rightarrow> WakeAdapterPolicy \<Rightarrow> string \<Rightarrow> u64 \<Rightarrow> WakeCycle" where
  "new_cycle sha256 key task account transition policy model_id now_ms =
     \<lparr>wc_key = key, wc_status = CyclePending, wc_task_id = wt_id task, wc_account_id = ar_id account,
      wc_window_kind = qt_window_kind transition, wc_transition_fingerprint = qt_fingerprint transition,
      wc_trigger = wt_trigger task,
      wc_requires_confirmation = (wt_execution_policy task = RequireConfirmation),
      wc_request = Some \<lparr>wr_account_id = ar_id account, wr_model_id = model_id,
        wr_window_kind = qt_window_kind transition, wr_output_token_cap = wp_output_token_cap policy\<rparr>,
      wc_verification = Some \<lparr>wv_window_kind = qt_window_kind transition,
        wv_baseline_window = snapshot_window (ar_quota account) (qt_window_kind transition),
        wv_verify_after_ms = wp_verification_delay_ms policy\<rparr>,
      wc_jitter_seconds = wt_jitter_seconds task, wc_max_attempts = wt_max_attempts_per_cycle task,
      wc_attempts_started = 0,
      wc_due_at_ms = sat_add now_ms (deterministic_jitter_ms sha256 key 1 (wt_jitter_seconds task)),
      wc_recorded_at_ms = now_ms\<rparr>"

text \<open>\<open>None\<close> is the panic of the \<open>expect\<close> on the new cycle's schedule.\<close>

definition evaluate ::
  "(string \<Rightarrow> string) \<Rightarrow> (string \<Rightarrow> string) \<Rightarrow> WakeTask \<Rightarrow> AccountRecord \<Rightarrow> QuotaTransition \<Rightarrow> u64 option \<Rightarrow>
   WakeAdapterPolicy \<Rightarrow> u64 \<Rightarrow> WakeAutomationState \<Rightarrow> (WakeAutomationState \<times> WakeDecision) option" where
  "evaluate sha256_hex sha256 task account transition last_natural_use_at_ms policy now_ms s =
     (case task_validate task of
        Some err \<Rightarrow> Some (s, Rejected err)
      | None \<Rightarrow>
          if \<not> policy_is_valid policy then Some (s, Rejected InvalidAdapterPolicy)
          else if wake_ineligible task account transition policy then Some (s, Skipped SkippedIneligible)
          else
            let key = cycle_key sha256_hex account transition in
            if (case last_natural_use_at_ms of None \<Rightarrow> False
                | Some last_used \<Rightarrow> last_used \<ge> qt_transitioned_at_ms transition)
            then Some (complete_by_natural_use task account transition key now_ms s)
            else if list_ex (\<lambda>c. same_cycle c (ar_id account) (qt_window_kind transition) (qt_fingerprint transition))
                (ws_cycles s)
            then Some (s, Skipped SkippedDuplicate)
            else (case select_model (wt_model_policy task) (wp_models policy) of
                None \<Rightarrow> Some (s, Skipped SkippedIneligible)
              | Some model_id \<Rightarrow>
                  let c = new_cycle sha256 key task account transition policy model_id now_ms in
                  (case cycle_schedule c of
                     None \<Rightarrow> None
                   | Some schedule \<Rightarrow>
                       Some (case reserve_cycle c s of
                           (s, False) \<Rightarrow> (s, Skipped SkippedCapacity)
                         | (s, True) \<Rightarrow> (s, Scheduled schedule)))))"

definition cycle_permit :: "u64 \<Rightarrow> WakeExecutionRequest \<Rightarrow> WakeVerificationMetadata \<Rightarrow> WakeCycle \<Rightarrow> WakePermit" where
  "cycle_permit now_ms request verification c =
     \<lparr>wk_cycle_key = wc_key c, wk_task_id = wc_task_id c, wk_account_id = wc_account_id c,
      wk_window_kind = wc_window_kind c, wk_transition_fingerprint = wc_transition_fingerprint c,
      wk_model_id = wr_model_id request, wk_trigger = wc_trigger c,
      wk_requires_confirmation = wc_requires_confirmation c,
      wk_verification_delay_ms = wv_verify_after_ms verification,
      wk_output_token_cap = wr_output_token_cap request, wk_attempt = wc_attempts_started c,
      wk_due_at_ms = wc_due_at_ms c, wk_reserved_at_ms = now_ms, wk_request = request,
      wk_verification = verification\<rparr>"

definition claimable :: "u64 \<Rightarrow> WakeClaimMode \<Rightarrow> WakeCycle \<Rightarrow> bool" where
  "claimable now_ms mode c \<longleftrightarrow> wc_status c = CyclePending \<and> wc_due_at_ms c \<le> now_ms
     \<and> wc_attempts_started c < wc_max_attempts c \<and> claim_mode_matches mode c"

definition cycle_start :: "u64 \<Rightarrow> WakeCycle \<Rightarrow> WakeCycle" where
  "cycle_start now_ms c =
     c\<lparr>wc_status := CycleInFlight, wc_attempts_started := sat_add (wc_attempts_started c) 1,
       wc_recorded_at_ms := now_ms\<rparr>"

fun claim_cycles :: "u64 \<Rightarrow> WakeClaimMode \<Rightarrow> nat \<Rightarrow> WakeCycle list \<Rightarrow> WakeCycle list \<times> WakePermit list" where
  "claim_cycles now_ms mode n [] = ([], [])"
| "claim_cycles now_ms mode n (c # cs) =
     (if n = 0 then (c # cs, [])
      else if \<not> claimable now_ms mode c then
        (case claim_cycles now_ms mode n cs of (cs, ps) \<Rightarrow> (c # cs, ps))
      else (case (wc_request c, wc_verification c) of
          (Some request, Some verification) \<Rightarrow>
            (let c = cycle_start now_ms c in
             case claim_cycles now_ms mode (n - 1) cs of
               (cs, ps) \<Rightarrow> (c # cs, cycle_permit now_ms request verification c # ps))
        | _ \<Rightarrow> (case claim_cycles now_ms mode n cs of (cs, ps) \<Rightarrow> (c # cs, ps))))"

definition claim_due_matching ::
  "u64 \<Rightarrow> nat \<Rightarrow> WakeClaimMode \<Rightarrow> WakeAutomationState \<Rightarrow> WakeAutomationState \<times> WakePermit list" where
  "claim_due_matching now_ms max_claims mode s =
     (if max_claims = 0 then (s, [])
      else (case claim_cycles now_ms mode max_claims (ws_cycles s) of
          (cycles, permits) \<Rightarrow> (s\<lparr>ws_cycles := cycles\<rparr>, permits)))"

definition wake_claim_due :: "u64 \<Rightarrow> nat \<Rightarrow> WakeAutomationState \<Rightarrow> WakeAutomationState \<times> WakePermit list" where
  "wake_claim_due now_ms max_claims = claim_due_matching now_ms max_claims ClaimAny"

definition claim_due_automatic :: "u64 \<Rightarrow> nat \<Rightarrow> WakeAutomationState \<Rightarrow> WakeAutomationState \<times> WakePermit list" where
  "claim_due_automatic now_ms max_claims = claim_due_matching now_ms max_claims ClaimAutomatic"

definition claim_due_confirmations :: "u64 \<Rightarrow> nat \<Rightarrow> WakeAutomationState \<Rightarrow> WakeAutomationState \<times> WakePermit list" where
  "claim_due_confirmations now_ms max_claims = claim_due_matching now_ms max_claims ClaimConfirmation"

definition completion_outcome :: "WakeCompletionOutcome \<Rightarrow> WakeOutcome" where
  "completion_outcome o1 = (case o1 of CompletionConfirmed \<Rightarrow> WakeConfirmed
     | CompletionUnconfirmed \<Rightarrow> WakeUnconfirmed | CompletionFailed \<Rightarrow> WakeFailed)"

definition cycle_settle :: "(string \<Rightarrow> string) \<Rightarrow> WakeCompletionOutcome \<Rightarrow> u64 \<Rightarrow> WakeCycle \<Rightarrow> WakeCycle" where
  "cycle_settle sha256 completion_result completed_at_ms c =
     (if completion_result = CompletionConfirmed \<or> wc_attempts_started c \<ge> wc_max_attempts c
      then cycle_finish completed_at_ms c
      else c\<lparr>wc_status := CyclePending,
             wc_due_at_ms := sat_add completed_at_ms (deterministic_jitter_ms sha256 (wc_key c)
               (sat_add (wc_attempts_started c) 1) (wc_jitter_seconds c)),
             wc_recorded_at_ms := completed_at_ms\<rparr>)"

definition wake_complete ::
  "(string \<Rightarrow> string) \<Rightarrow> WakePermit \<Rightarrow> WakeCompletion \<Rightarrow> WakeAutomationState \<Rightarrow> WakeAutomationState \<times> bool" where
  "wake_complete sha256 permit completion s =
     (let completed_at_ms = max (wl_completed_at_ms completion) (wk_reserved_at_ms permit) in
      case update_first (\<lambda>c. wc_key c = wk_cycle_key permit \<and> wc_status c = CycleInFlight
            \<and> wc_attempts_started c = wk_attempt permit)
          (cycle_settle sha256 (wl_outcome completion) completed_at_ms) (ws_cycles s) of
        None \<Rightarrow> (s, False)
      | Some (cycles, c) \<Rightarrow>
          (push_history
             \<lparr>wh_task_id = wc_task_id c, wh_account_id = wc_account_id c, wh_window_kind = wc_window_kind c,
              wh_transition_fingerprint = wc_transition_fingerprint c,
              wh_model_id = map_option wr_model_id (wc_request c), wh_trigger = wc_trigger c,
              wh_attempt = wk_attempt permit, wh_outcome = completion_outcome (wl_outcome completion),
              wh_started_at_ms = wk_reserved_at_ms permit, wh_completed_at_ms = completed_at_ms,
              wh_latency_ms = wl_latency_ms completion, wh_input_tokens = wl_input_tokens completion,
              wh_output_tokens = wl_output_tokens completion,
              wh_error_code = map_option safe_error_code (wl_error_code completion)\<rparr>
             (s\<lparr>ws_cycles := cycles\<rparr>), True))"

end
