(* ===== verification/Wake_Invariant.thy ===== *)
theory Wake_Invariant
  imports Quota_Wake
begin

section \<open>Correctness of the quota wake automation\<close>

text \<open>
  The invariant of the coordinator, its operations as the step relation \<open>wake_step\<close> (a restart is
  a step: the saved state is read back with \<open>from_state\<close>), and the properties of scheduling,
  claiming, completing and restarting.
\<close>

subsection \<open>How a cycle may change\<close>

abbreviation cycle_ident :: "WakeCycle \<Rightarrow> string \<times> QuotaWindowKind \<times> string" where
  "cycle_ident c \<equiv> (wc_account_id c, wc_window_kind c, wc_transition_fingerprint c)"

text \<open>
  What every stored cycle satisfies. Beyond it \<open>valid_cycle\<close> asks for an account identifier that is not
  blank, which \<open>evaluate\<close> does not check.
\<close>

definition cycle_ok :: "WakeCycle \<Rightarrow> bool" where
  "cycle_ok c \<longleftrightarrow> wc_key c \<noteq> [] \<and> is_safe_id (wc_task_id c) \<and> trim (wc_transition_fingerprint c) \<noteq> []
     \<and> 1 \<le> wc_max_attempts c \<and> wc_max_attempts c \<le> MAX_WAKE_ATTEMPTS
     \<and> wc_attempts_started c \<le> wc_max_attempts c \<and> wc_jitter_seconds c \<le> MAX_WAKE_JITTER_SECONDS
     \<and> (wc_status c = CycleCompleted \<or> wc_request c \<noteq> None \<and> wc_verification c \<noteq> None)
     \<and> wc_window_kind c = Primary"

abbreviation names_account :: "WakeCycle \<Rightarrow> bool" where
  "names_account c \<equiv> trim (wc_account_id c) \<noteq> []"

lemma valid_cycle_iff: "cycle_ok c \<Longrightarrow> valid_cycle c \<longleftrightarrow> names_account c"
  by (auto simp: cycle_ok_def valid_cycle_def)

definition evolves :: "WakeCycle \<Rightarrow> WakeCycle \<Rightarrow> bool" where
  "evolves c c' \<longleftrightarrow> wc_key c' = wc_key c \<and> cycle_ident c' = cycle_ident c \<and> wc_max_attempts c' = wc_max_attempts c
     \<and> wc_attempts_started c \<le> wc_attempts_started c' \<and> (cycle_ok c \<longrightarrow> cycle_ok c')
     \<and> (wc_attempts_started c' = wc_attempts_started c \<longrightarrow> wc_status c' = CycleInFlight \<longrightarrow> wc_status c = CycleInFlight)"

lemma evolves_refl [simp, intro]: "evolves c c"
  by (simp add: evolves_def)

lemma evolves_trans: "evolves a b \<Longrightarrow> evolves b c \<Longrightarrow> evolves a c"
  by (auto simp: evolves_def)

lemma evolves_finish [simp, intro]: "evolves c (cycle_finish t c)"
  by (simp add: evolves_def cycle_finish_def cycle_ok_def)

lemma sat_add_le_of_less: "a < b \<Longrightarrow> sat_add a 1 \<le> (b :: 'a::len word)"
  using unat_sat_add [of a 1] by (simp add: word_le_nat_alt word_less_nat_alt)

lemma sat_add_neq_of_less: "a < b \<Longrightarrow> sat_add a 1 \<noteq> (a :: 'a::len word)"
  using unat_sat_add [of a 1] unsigned_less [of b, where ?'a = nat]
  by (auto simp: word_less_nat_alt dest!: arg_cong [of _ _ unat])

lemma evolves_start: "claimable t m c \<Longrightarrow> evolves c (cycle_start t c)"
  by (auto simp: evolves_def cycle_start_def cycle_ok_def claimable_def sat_add_le_of_less sat_add_neq_of_less)

lemma evolves_settle: "wc_status c = CycleInFlight \<Longrightarrow> evolves c (cycle_settle sha res t c)"
  by (auto simp: cycle_settle_def) (auto simp: evolves_def cycle_ok_def)

lemma evolves_recover: "evolves c (recover_cycle sha c)"
  by (auto simp: recover_cycle_def) (auto simp: evolves_def cycle_ok_def)

lemma evolves_map: "(\<And>c. c \<in> set cs \<Longrightarrow> evolves c (f c)) \<Longrightarrow> list_all2 evolves cs (map f cs)"
  by (induction cs) auto

lemma evolves_update_first:
  "update_first P f cs = Some (cs', c) \<Longrightarrow> (\<And>c. P c \<Longrightarrow> evolves c (f c)) \<Longrightarrow>
   list_all2 evolves cs cs' \<and> c \<in> set cs \<and> P c"
  by (induction cs arbitrary: cs') (auto split: if_splits simp: list_all2_refl)

lemma evolves_claim:
  "claim_cycles t m n cs = (cs', ps) \<Longrightarrow> list_all2 evolves cs cs'"
  by (induction t m n cs arbitrary: cs' ps rule: claim_cycles.induct)
     (auto simp: list_all2_refl evolves_start Let_def split: if_splits prod.splits option.splits)

lemma evolves_keeps:
  assumes "list_all2 evolves cs cs'"
  shows "length cs' = length cs" "map cycle_ident cs' = map cycle_ident cs" "map wc_key cs' = map wc_key cs"
    "list_all cycle_ok cs \<Longrightarrow> list_all cycle_ok cs'"
  using assms by (induction rule: list_all2_induct) (auto simp: evolves_def)

subsection \<open>The invariant\<close>

definition history_ok :: "WakeHistory \<Rightarrow> bool" where
  "history_ok h \<longleftrightarrow> map_option safe_error_code (wh_error_code h) = wh_error_code h"

definition wake_wf :: "WakeAutomationState \<Rightarrow> bool" where
  "wake_wf s \<longleftrightarrow> 0 < ws_max_cycles s \<and> 0 < ws_max_history s \<and> length (ws_cycles s) \<le> ws_max_cycles s
     \<and> length (ws_history s) \<le> ws_max_history s \<and> list_all cycle_ok (ws_cycles s)
     \<and> list_all history_ok (ws_history s) \<and> distinct (map cycle_ident (ws_cycles s))"

lemma wake_wf_cycles:
  "wake_wf s \<Longrightarrow> list_all2 evolves (ws_cycles s) cs \<Longrightarrow> wake_wf (s\<lparr>ws_cycles := cs\<rparr>)"
  using evolves_keeps [of "ws_cycles s" cs] by (simp add: wake_wf_def)

lemma push_history_cycles [simp]: "ws_cycles (push_history h s) = ws_cycles s"
  by (simp add: push_history_def)

lemma push_history_limits [simp]:
  "ws_max_cycles (push_history h s) = ws_max_cycles s" "ws_max_history (push_history h s) = ws_max_history s"
  by (simp_all add: push_history_def)

lemma push_history_wf: "wake_wf s \<Longrightarrow> history_ok h \<Longrightarrow> wake_wf (push_history h s)"
  by (cases "ws_history s") (auto simp: wake_wf_def push_history_def)

lemma push_histories_wf:
  "wake_wf s \<Longrightarrow> list_all history_ok hs \<Longrightarrow> wake_wf (foldl (\<lambda>s h. push_history h s) s hs)"
  by (induction hs arbitrary: s) (auto simp: push_history_wf)

lemma push_histories_cycles [simp]:
  "ws_cycles (foldl (\<lambda>s h. push_history h s) s hs) = ws_cycles s"
  by (induction hs arbitrary: s) auto

lemma history_ok_intros [simp]:
  "history_ok (natural_use_history c t)" "history_ok (canceled_history c t code)"
  by (simp_all add: history_ok_def natural_use_history_def canceled_history_def safe_error_code_idem)

lemma finish_matching_wf:
  assumes "wake_wf s" "\<And>c. history_ok (h c)"
  shows "wake_wf (fst (finish_matching P h t s))"
  unfolding finish_matching_def Let_def fst_conv
  by (intro push_histories_wf wake_wf_cycles [OF assms(1)] evolves_map) (auto simp: list_all_iff assms(2))

lemma remove_first_Some:
  "remove_first P xs = Some ys \<Longrightarrow> \<exists>as x bs. xs = as @ x # bs \<and> ys = as @ bs \<and> P x \<and> list_all (Not \<circ> P) as"
proof (induction xs arbitrary: ys)
  case (Cons x xs)
  show ?case
  proof (cases "P x")
    case True
    then show ?thesis using Cons.prems by (intro exI [of _ "[]"]) simp
  next
    case False
    then obtain zs where "remove_first P xs = Some zs" "ys = x # zs" using Cons.prems by auto
    then obtain as y bs where "xs = as @ y # bs" "ys = x # as @ bs" "P y" "list_all (Not \<circ> P) as"
      using Cons.IH by blast
    then show ?thesis using False by (intro exI [of _ "x # as"]) (auto simp: list_all_iff)
  qed
qed simp

lemma reserve_cycle_wf:
  assumes "wake_wf s" "cycle_ok c" "cycle_ident c \<notin> cycle_ident ` set (ws_cycles s)" "reserve_cycle c s = (s', ok)"
  shows "wake_wf s'" "ok \<Longrightarrow> c \<in> set (ws_cycles s')" "\<not> ok \<Longrightarrow> s' = s"
  using assms
  by (auto simp: wake_wf_def reserve_cycle_def split: if_splits option.splits dest!: remove_first_Some)

subsection \<open>Steps\<close>

inductive wake_step :: "(string \<Rightarrow> string) \<Rightarrow> (string \<Rightarrow> string) \<Rightarrow> WakeAutomationState \<Rightarrow> WakeAutomationState \<Rightarrow> bool"
  for sha256_hex sha256 where
  step_evaluate: "evaluate sha256_hex sha256 task account transition last_use policy now s = Some (s', decision) \<Longrightarrow>
    wake_step sha256_hex sha256 s s'"
| step_claim: "wake_step sha256_hex sha256 s (fst (claim_due_matching now n mode s))"
| step_complete: "wake_step sha256_hex sha256 s (fst (wake_complete sha256 permit completion s))"
| step_cancel_task: "wake_step sha256_hex sha256 s (fst (remove_pending_for_task i now s))"
| step_cancel_account: "wake_step sha256_hex sha256 s (fst (remove_pending_for_account i now s))"
| step_natural_use: "wake_step sha256_hex sha256 s (fst (mark_natural_use_for_account i now s))"
| step_restart: "from_state sha256 s = Inr s' \<Longrightarrow> wake_step sha256_hex sha256 s s'"

lemma update_first_None: "update_first P f xs = None \<longleftrightarrow> (\<forall>x\<in>set xs. \<not> P x)"
  by (induction xs) auto

lemma task_validate_ok:
  "task_validate t = None \<Longrightarrow> is_safe_id (wt_id t) \<and> 1 \<le> wt_max_attempts_per_cycle t
     \<and> wt_max_attempts_per_cycle t \<le> MAX_WAKE_ATTEMPTS \<and> wt_jitter_seconds t \<le> MAX_WAKE_JITTER_SECONDS"
  by (auto simp: task_validate_def split: if_splits)


lemma new_cycle_ok:
  assumes "task_validate task = None" "\<not> wake_ineligible task account transition policy"
    "key \<noteq> []"
  shows "cycle_ok (new_cycle sha key task account transition policy model_id now)"
  using assms task_validate_ok [OF assms(1)]
  by (auto simp: cycle_ok_def new_cycle_def wake_ineligible_def)

lemma natural_use_wf:
  assumes wf: "wake_wf s" and task: "task_validate task = None"
    and eligible: "\<not> wake_ineligible task account transition policy"
    and key: "key \<noteq> []"
  shows "wake_wf (fst (complete_by_natural_use task account transition key now s))"
proof (cases "update_first (\<lambda>c. same_cycle c (ar_id account) (qt_window_kind transition) (qt_fingerprint transition))
    (cycle_finish now) (ws_cycles s)")
  case None
  let ?c = "natural_use_cycle task account transition key now"
  have "cycle_ok ?c"
    using task_validate_ok [OF task] eligible key
    by (auto simp: natural_use_cycle_def cycle_ok_def wake_ineligible_def)
  moreover have "cycle_ident ?c \<notin> cycle_ident ` set (ws_cycles s)"
    using None by (auto simp: natural_use_cycle_def update_first_None same_cycle_def image_iff)
  ultimately have "wake_wf s'" if "reserve_cycle ?c s = (s', ok)" for s' ok
    using reserve_cycle_wf(1) [OF wf _ _ that] by blast
  then show ?thesis
    using None by (auto simp: complete_by_natural_use_def Let_def intro!: push_history_wf split: prod.splits bool.splits)
next
  case (Some r)
  then obtain cs c where r: "r = (cs, c)" by (cases r)
  then show ?thesis
    using wf Some evolves_update_first [of _ _ _ cs c]
    by (auto simp: complete_by_natural_use_def intro!: push_history_wf wake_wf_cycles)
qed

lemma new_cycle_schedule:
  "cycle_schedule (new_cycle sha key task account transition policy model_id now) =
     Some \<lparr>wd_cycle_key = key,
       wd_due_at_ms = sat_add now (deterministic_jitter_ms sha key 1 (wt_jitter_seconds task)),
       wd_attempts_started = 0, wd_max_attempts = wt_max_attempts_per_cycle task,
       wd_request = \<lparr>wr_account_id = ar_id account, wr_model_id = model_id,
         wr_window_kind = qt_window_kind transition, wr_output_token_cap = wp_output_token_cap policy\<rparr>\<rparr>"
  by (simp add: cycle_schedule_def new_cycle_def)

lemma natural_use_skips: "\<exists>o1. snd (complete_by_natural_use task account transition key now s) = Skipped o1"
  by (auto simp: complete_by_natural_use_def Let_def split: option.splits prod.splits bool.splits)

lemma evaluate_cases:
  assumes "evaluate sha256_hex sha256 task account transition last_use policy now s = Some (s', d)"
  obtains
    (unchanged) "s' = s" "\<And>schedule. d \<noteq> Scheduled schedule"
  | (natural) "task_validate task = None" "\<not> wake_ineligible task account transition policy"
      "(s', d) = complete_by_natural_use task account transition (cycle_key sha256_hex account transition) now s"
  | (fresh) model_id c ok where "task_validate task = None" "\<not> wake_ineligible task account transition policy"
      "policy_is_valid policy" "select_model (wt_model_policy task) (wp_models policy) = Some model_id"
      "c = new_cycle sha256 (cycle_key sha256_hex account transition) task account transition policy model_id now"
      "cycle_ident c \<notin> cycle_ident ` set (ws_cycles s)" "reserve_cycle c s = (s', ok)"
      "d = (if ok then Scheduled (the (cycle_schedule c)) else Skipped SkippedCapacity)"
proof -
  have ident: "cycle_ident (new_cycle sha256 key task account transition policy model_id now)
      \<notin> cycle_ident ` set (ws_cycles s)"
    if "\<not> list_ex (\<lambda>c. same_cycle c (ar_id account) (qt_window_kind transition) (qt_fingerprint transition))
      (ws_cycles s)" for key model_id
    using that by (auto simp: list_ex_iff same_cycle_def new_cycle_def image_iff)
  have created: thesis
    if "task_validate task = None" "\<not> wake_ineligible task account transition policy" "policy_is_valid policy"
      "select_model (wt_model_policy task) (wp_models policy) = Some model_id"
      "\<not> list_ex (\<lambda>c. same_cycle c (ar_id account) (qt_window_kind transition) (qt_fingerprint transition))
        (ws_cycles s)"
      "reserve_cycle (new_cycle sha256 (cycle_key sha256_hex account transition) task account transition
        policy model_id now) s = (s', ok)"
      "ok \<longrightarrow> Some d = map_option Scheduled (cycle_schedule (new_cycle sha256
        (cycle_key sha256_hex account transition) task account transition policy model_id now))"
      "\<not> ok \<longrightarrow> d = Skipped SkippedCapacity" for model_id ok
    by (rule fresh [OF that(1-4) refl ident [OF that(5)] that(6)]) (use that(7,8) in \<open>auto simp: new_cycle_schedule\<close>)
  show thesis
    using assms unfolding evaluate_def Let_def
    by (auto split: if_splits option.splits prod.splits bool.splits intro: unchanged natural
        elim: created [of _ True] created [of _ False])
qed

lemma evaluate_wf:
  assumes wf: "wake_wf s" and ev: "evaluate sha256_hex sha256 task account transition last_use policy now s = Some (s', d)"
    and sha: "\<And>x. sha256_hex x \<noteq> []"
  shows "wake_wf s'"
proof -
  have key: "cycle_key sha256_hex account transition \<noteq> []" by (simp add: cycle_key_def sha)
  show ?thesis
    using ev
  proof (cases rule: evaluate_cases)
    case natural
    then show ?thesis using natural_use_wf [OF wf _ _ key] by (metis fst_conv)
  next
    case fresh
    then show ?thesis using reserve_cycle_wf(1) [OF wf] new_cycle_ok [OF _ _ key] by blast
  qed (use wf in simp)
qed

lemma claim_wf: "wake_wf s \<Longrightarrow> wake_wf (fst (claim_due_matching now n mode s))"
  by (auto simp: claim_due_matching_def intro: wake_wf_cycles evolves_claim split: prod.splits)

lemma complete_wf: "wake_wf s \<Longrightarrow> wake_wf (fst (wake_complete sha permit completion s))"
  by (auto simp: wake_complete_def Let_def history_ok_def option.map_comp comp_def safe_error_code_idem
      intro!: push_history_wf wake_wf_cycles evolves_settle
      dest!: evolves_update_first split: option.splits)

lemma recovered_wf:
  assumes "wake_wf s"
  shows "wake_wf (s\<lparr>ws_cycles := map (recover_cycle sha) (ws_cycles s)\<rparr>)"
  by (rule wake_wf_cycles [OF assms evolves_map [OF evolves_recover]])

lemma histories_sanitized:
  "list_all history_ok hs \<Longrightarrow> map (\<lambda>h. h\<lparr>wh_error_code := map_option safe_error_code (wh_error_code h)\<rparr>) hs = hs"
  by (induction hs) (auto simp: history_ok_def)

text \<open>A stored state is accepted exactly when every cycle names an account.\<close>

lemma from_state_wf:
  assumes "wake_wf s"
  shows "from_state sha s = (if \<forall>c \<in> set (ws_cycles s). names_account c
    then Inr (s\<lparr>ws_cycles := map (recover_cycle sha) (ws_cycles s)\<rparr>) else Inl ''wake state bounds are invalid'')"
proof -
  have "filter (\<lambda>c. wc_status c \<noteq> CycleCompleted \<and> wc_window_kind c \<noteq> Primary)
      (map (recover_cycle sha) (ws_cycles s)) = []"
    using recovered_wf [OF assms, of sha] by (auto simp: wake_wf_def list_all_iff cycle_ok_def filter_empty_conv)
  moreover have "list_ex (\<lambda>c. \<not> valid_cycle c) (ws_cycles s) \<longleftrightarrow> \<not> (\<forall>c \<in> set (ws_cycles s). names_account c)"
    using assms by (auto simp: wake_wf_def list_all_iff list_ex_iff valid_cycle_iff)
  moreover have "wc_window_kind (recover_cycle sha c) = Primary" if "c \<in> set (ws_cycles s)" for c
    using recovered_wf [OF assms, of sha] that by (auto simp: wake_wf_def list_all_iff cycle_ok_def)
  ultimately show ?thesis
    using assms
    by (simp add: from_state_def cancel_matching_def finish_matching_def wake_wf_def histories_sanitized Let_def
        cong: map_cong)
qed

lemma wake_step_wf:
  assumes "wake_step sha256_hex sha256 s s'" "wake_wf s" "\<And>x. sha256_hex x \<noteq> []"
  shows "wake_wf s'"
  using assms
proof (cases rule: wake_step.cases)
  case step_restart
  then show ?thesis using recovered_wf [OF assms(2)] from_state_wf [OF assms(2), of sha256] by (auto split: if_splits)
qed (auto intro: evaluate_wf claim_wf complete_wf finish_matching_wf
  simp: remove_pending_for_task_def remove_pending_for_account_def mark_natural_use_for_account_def
    cancel_matching_def)

subsection \<open>A stored cycle stays until it may be evicted\<close>

text \<open>The only way a cycle leaves the store is \<open>reserve_cycle\<close> on a full store, when it is completed.\<close>

definition evictable :: "string \<times> QuotaWindowKind \<times> string \<Rightarrow> WakeAutomationState \<Rightarrow> bool" where
  "evictable ident s \<longleftrightarrow> ws_max_cycles s \<le> length (ws_cycles s)
     \<and> (\<exists>c \<in> set (ws_cycles s). cycle_ident c = ident \<and> wc_status c = CycleCompleted)"

lemma evolves_mem: "list_all2 evolves cs cs' \<Longrightarrow> c \<in> set cs \<Longrightarrow> \<exists>c' \<in> set cs'. evolves c c'"
  by (induction rule: list_all2_induct) auto

lemma reserve_cycle_keeps:
  "reserve_cycle new s = (s', ok) \<Longrightarrow> c \<in> set (ws_cycles s) \<Longrightarrow> \<not> evictable (cycle_ident c) s \<Longrightarrow> c \<in> set (ws_cycles s')"
  by (auto simp: reserve_cycle_def evictable_def split: if_splits option.splits dest!: remove_first_Some)

lemma finish_matching_evolves: "c \<in> set (ws_cycles s) \<Longrightarrow> \<exists>c' \<in> set (ws_cycles (fst (finish_matching P h t s))). evolves c c'"
  by (auto simp: finish_matching_def Let_def)

lemma natural_use_evolves:
  assumes "c \<in> set (ws_cycles s)" "\<not> evictable (cycle_ident c) s"
  shows "\<exists>c' \<in> set (ws_cycles (fst (complete_by_natural_use task account transition key now s))). evolves c c'"
proof (cases "update_first (\<lambda>c. same_cycle c (ar_id account) (qt_window_kind transition) (qt_fingerprint transition))
    (cycle_finish now) (ws_cycles s)")
  case None
  have "c \<in> set (ws_cycles s')" if "reserve_cycle new s = (s', ok)" for new s' ok
    by (rule reserve_cycle_keeps [OF that assms])
  then show ?thesis
    using None by (auto simp: complete_by_natural_use_def Let_def split: prod.split bool.split intro!: bexI [of _ c])
next
  case (Some r)
  then obtain cs d where r: "r = (cs, d)" by (cases r)
  then have "\<exists>c' \<in> set cs. evolves c c'"
    using Some evolves_update_first [of _ _ _ cs d] evolves_mem assms(1) by blast
  then show ?thesis using Some r assms(1) by (auto simp: complete_by_natural_use_def)
qed

lemma evaluate_evolves:
  assumes "evaluate sha256_hex sha256 task account transition last_use policy now s = Some (s', d)"
    and "c \<in> set (ws_cycles s)" "\<not> evictable (cycle_ident c) s"
  shows "\<exists>c' \<in> set (ws_cycles s'). evolves c c'"
  using assms(1)
proof (cases rule: evaluate_cases)
  case natural
  then show ?thesis using natural_use_evolves [OF assms(2,3)] by (metis fst_conv)
next
  case fresh
  then show ?thesis using reserve_cycle_keeps assms(2,3) by blast
qed (use assms(2) in auto)

lemma from_state_evolves:
  assumes "from_state sha s = Inr s'" "c \<in> set (ws_cycles s)"
  shows "\<exists>c' \<in> set (ws_cycles s'). evolves c c'"
proof -
  let ?s = "s\<lparr>ws_cycles := map (recover_cycle sha) (ws_cycles s),
    ws_history := map (\<lambda>h. h\<lparr>wh_error_code := map_option safe_error_code (wh_error_code h)\<rparr>) (ws_history s)\<rparr>"
  have "s' = fst (cancel_matching (\<lambda>c. wc_window_kind c \<noteq> Primary) 0 ''wake_window_redundant'' ?s)"
    using assms(1) by (simp add: from_state_def Let_def split: if_splits)
  moreover have "recover_cycle sha c \<in> set (ws_cycles ?s)" using assms(2) by simp
  then have "\<exists>c' \<in> set (ws_cycles (fst (cancel_matching (\<lambda>c. wc_window_kind c \<noteq> Primary) 0 ''wake_window_redundant'' ?s))).
      evolves (recover_cycle sha c) c'"
    unfolding cancel_matching_def by (rule finish_matching_evolves)
  ultimately show ?thesis using evolves_trans [OF evolves_recover] by blast
qed

lemma wake_step_evolves:
  assumes "wake_step sha256_hex sha256 s s'" "c \<in> set (ws_cycles s)" "\<not> evictable (cycle_ident c) s"
  shows "\<exists>c' \<in> set (ws_cycles s'). evolves c c'"
  using assms(1)
proof (cases rule: wake_step.cases)
  case (step_claim now n mode)
  then show ?thesis using assms(2)
    by (auto simp: claim_due_matching_def intro: evolves_mem evolves_claim split: prod.splits)
next
  case (step_complete permit completion)
  have "list_all2 evolves (ws_cycles s) (ws_cycles s')"
    unfolding step_complete
    by (auto simp: wake_complete_def Let_def list_all2_refl intro: evolves_settle dest!: evolves_update_first split: option.splits)
  then show ?thesis using assms(2) by (rule evolves_mem)
next
  case step_restart
  then show ?thesis using from_state_evolves assms(2) by blast
qed (use assms(2,3) finish_matching_evolves evaluate_evolves in
  \<open>auto simp: remove_pending_for_task_def remove_pending_for_account_def mark_natural_use_for_account_def cancel_matching_def\<close>)

definition wake_initial :: "nat \<Rightarrow> nat \<Rightarrow> WakeAutomationState" where
  "wake_initial n m = \<lparr>ws_max_cycles = n, ws_max_history = m, ws_cycles = [], ws_history = []\<rparr>"

lemma wake_wf_initial: "0 < n \<Longrightarrow> 0 < m \<Longrightarrow> wake_wf (wake_initial n m)"
  by (simp add: wake_initial_def wake_wf_def)

lemma push_histories_limits [simp]:
  "ws_max_cycles (foldl (\<lambda>s h. push_history h s) s hs) = ws_max_cycles s"
  "ws_max_history (foldl (\<lambda>s h. push_history h s) s hs) = ws_max_history s"
  by (induction hs arbitrary: s) auto

lemma finish_matching_limits [simp]:
  "ws_max_cycles (fst (finish_matching P h t s)) = ws_max_cycles s"
  "ws_max_history (fst (finish_matching P h t s)) = ws_max_history s"
  by (simp_all add: finish_matching_def Let_def)

lemma reserve_cycle_limits:
  "reserve_cycle c s = (s', ok) \<Longrightarrow> ws_max_cycles s' = ws_max_cycles s \<and> ws_max_history s' = ws_max_history s"
  by (auto simp: reserve_cycle_def split: if_splits option.splits)

lemma natural_use_limits [simp]:
  "ws_max_cycles (fst (complete_by_natural_use task account transition key now s)) = ws_max_cycles s"
  "ws_max_history (fst (complete_by_natural_use task account transition key now s)) = ws_max_history s"
  by (auto simp: complete_by_natural_use_def Let_def split: option.splits prod.splits bool.splits
      dest: reserve_cycle_limits)

lemma evaluate_limits:
  assumes "evaluate sha256_hex sha256 task account transition last_use policy now s = Some (s', d)"
  shows "ws_max_cycles s' = ws_max_cycles s \<and> ws_max_history s' = ws_max_history s"
  using assms
  by (cases rule: evaluate_cases) (auto dest: reserve_cycle_limits, metis fst_conv natural_use_limits(1), metis fst_conv natural_use_limits(2))

lemma wake_step_limits:
  "wake_step sha256_hex sha256 s s' \<Longrightarrow> ws_max_cycles s' = ws_max_cycles s \<and> ws_max_history s' = ws_max_history s"
  by (erule wake_step.cases)
     (auto dest: evaluate_limits simp: claim_due_matching_def wake_complete_def Let_def remove_pending_for_task_def
        remove_pending_for_account_def mark_natural_use_for_account_def cancel_matching_def from_state_def
        split: prod.splits option.splits if_splits)

interpretation wake: step_invariant "wake_step sha256_hex sha256" "wake_initial n m"
    "\<lambda>s. ws_max_cycles s = n \<and> ws_max_history s = m \<and> (0 < n \<and> 0 < m \<and> (\<forall>x. sha256_hex x \<noteq> []) \<longrightarrow> wake_wf s)"
proof unfold_locales
  show "ws_max_cycles (wake_initial n m) = n \<and> ws_max_history (wake_initial n m) = m
      \<and> (0 < n \<and> 0 < m \<and> (\<forall>x. sha256_hex x \<noteq> []) \<longrightarrow> wake_wf (wake_initial n m))"
    using wake_wf_initial by (simp add: wake_initial_def)
qed (auto dest: wake_step_limits intro: wake_step_wf)

end
