(* ===== verification/Wake_Correct.thy ===== *)
theory Wake_Correct
  imports Wake_Invariant
begin

section \<open>Properties of the quota wake automation\<close>

text \<open>
  What the wake coordinator guarantees: its stored state stays bounded and valid, a transition is
  scheduled once and within its jitter, an attempt is claimed within the limits and settled once,
  and a restart loses nothing. The last section gives the sample task, account and policy the
  witnesses are evaluated on.
\<close>

subsection \<open>Jitter\<close>

lemma unat_ucast_Suc: "unat (ucast (j :: u32) + 1 :: u64) = Suc (unat j)"
  using unsigned_less [of j, where ?'a = nat] by (simp add: unat_word_ariths unsigned_ucast_eq take_bit_nat_eq_self)

lemma jitter_bounded:
  "unat (deterministic_jitter_ms sha key attempt jitter) \<le> unat jitter * 1000"
proof -
  have "unat (x mod (ucast jitter + 1 :: u64)) \<le> unat jitter" for x :: u64
    using mod_less_divisor [of "Suc (unat jitter)" "unat x"] by (simp add: unat_mod unat_ucast_Suc less_Suc_eq_le)
  then show ?thesis
    by (auto simp: deterministic_jitter_ms_def Let_def rust_arith intro!: le_trans [OF min.cobounded1] mult_le_mono1)
qed

subsection \<open>Claiming\<close>

lemma cycle_permit_simps [simp]:
  "wk_request (cycle_permit t r v c) = r" "wk_verification (cycle_permit t r v c) = v"
  by (simp_all add: cycle_permit_def)

lemma claim_cycles_length: "claim_cycles t m n cs = (cs', ps) \<Longrightarrow> length ps \<le> n"
  by (induction cs arbitrary: n cs' ps) (fastforce simp: Let_def split: if_splits prod.splits option.splits)+

definition claims :: "u64 \<Rightarrow> WakeClaimMode \<Rightarrow> WakeCycle list \<Rightarrow> WakeCycle list \<Rightarrow> WakePermit \<Rightarrow> bool" where
  "claims t m cs cs' p \<longleftrightarrow> (\<exists>c \<in> set cs. claimable t m c \<and> cycle_start t c \<in> set cs'
     \<and> wc_request c = Some (wk_request p) \<and> wc_verification c = Some (wk_verification p)
     \<and> p = cycle_permit t (wk_request p) (wk_verification p) (cycle_start t c))"

lemma claims_Cons: "claims t m cs cs' p \<Longrightarrow> claims t m (c # cs) (c' # cs') p"
  by (auto simp: claims_def)

lemma claims_head:
  "claimable t m c \<Longrightarrow> wc_request c = Some r \<Longrightarrow> wc_verification c = Some v \<Longrightarrow>
   claims t m (c # cs) (cycle_start t c # cs') (cycle_permit t r v (cycle_start t c))"
  by (auto simp: claims_def)

lemma claim_cycles_sound:
  "claim_cycles t m n cs = (cs', ps) \<Longrightarrow> p \<in> set ps \<Longrightarrow> claims t m cs cs' p"
  by (induction cs arbitrary: n cs' ps)
     (auto simp: Let_def intro: claims_Cons claims_head split: if_splits prod.splits option.splits)

lemma started_not_claimable [simp]: "\<not> claimable t m (cycle_start t' c)"
  by (simp add: claimable_def cycle_start_def)

lemma claimable_has_request:
  "cycle_ok c \<Longrightarrow> claimable t m c \<Longrightarrow> wc_request c \<noteq> None \<and> wc_verification c \<noteq> None"
  by (auto simp: cycle_ok_def claimable_def)

lemma claim_cycles_complete:
  "claim_cycles t m n cs = (cs', ps) \<Longrightarrow> list_all cycle_ok cs \<Longrightarrow> length ps < n \<Longrightarrow> c \<in> set cs' \<Longrightarrow>
   \<not> claimable t m c"
  by (induction cs arbitrary: n cs' ps)
     (fastforce simp: Let_def dest: claimable_has_request split: if_splits prod.splits option.splits)+

subsection \<open>Scheduling\<close>

lemma new_cycle_simps [simp]:
  "wc_account_id (new_cycle sha key task account transition policy model_id now) = ar_id account"
  "wc_window_kind (new_cycle sha key task account transition policy model_id now) = qt_window_kind transition"
  "wc_transition_fingerprint (new_cycle sha key task account transition policy model_id now) = qt_fingerprint transition"
  by (simp_all add: new_cycle_def)

lemma scheduled_cases:
  assumes "evaluate sha256_hex sha256 task account transition last_use policy now s = Some (s', Scheduled schedule)"
  obtains (created) model_id c where "select_model (wt_model_policy task) (wp_models policy) = Some model_id"
    "c = new_cycle sha256 (cycle_key sha256_hex account transition) task account transition policy model_id now"
    "(ar_id account, qt_window_kind transition, qt_fingerprint transition) \<notin> cycle_ident ` set (ws_cycles s)"
    "reserve_cycle c s = (s', True)" "cycle_schedule c = Some schedule"
  using assms
proof (cases rule: evaluate_cases)
  case natural
  then show ?thesis by (metis WakeDecision.distinct(1) natural_use_skips snd_conv)
next
  case (fresh model_id c ok)
  show ?thesis
    by (rule created [OF fresh(4,5)]) (use fresh in \<open>auto simp: new_cycle_schedule split: if_splits\<close>)
qed blast

subsection \<open>Settling and restarting\<close>

lemma claimed_permit:
  assumes "claims t m cs cs' p" "list_all cycle_ok cs"
  shows "is_permit_active p (s\<lparr>ws_cycles := cs'\<rparr>)" "wk_attempt p \<le> 2"
    "\<exists>c \<in> set cs. claimable t m c \<and> wk_cycle_key p = wc_key c \<and> wk_account_id p = wc_account_id c
       \<and> unat (wk_attempt p) = unat (wc_attempts_started c) + 1 \<and> wc_request c = Some (wk_request p)"
proof -
  obtain c where c: "c \<in> set cs" "claimable t m c" "cycle_start t c \<in> set cs'" "wc_request c = Some (wk_request p)"
      "p = cycle_permit t (wk_request p) (wk_verification p) (cycle_start t c)"
    using assms(1) by (auto simp: claims_def)
  have limit: "wc_attempts_started c < wc_max_attempts c" "wc_max_attempts c \<le> 2"
    using c(1,2) assms(2) by (auto simp: claimable_def list_all_iff cycle_ok_def wake_constants)
  have p: "wk_cycle_key p = wc_key c" "wk_task_id p = wc_task_id c" "wk_account_id p = wc_account_id c"
      "wk_window_kind p = wc_window_kind c" "wk_transition_fingerprint p = wc_transition_fingerprint c"
      "wk_attempt p = sat_add (wc_attempts_started c) 1"
    by (subst c(5), simp add: cycle_permit_def cycle_start_def)+
  show "is_permit_active p (s\<lparr>ws_cycles := cs'\<rparr>)"
    using c(3) by (auto simp: is_permit_active_def list_ex_iff p cycle_start_def intro!: bexI [of _ "cycle_start t c"])
  show "wk_attempt p \<le> 2" using sat_add_le_of_less [OF limit(1)] limit(2) by (simp add: p)
  have "unat (wc_attempts_started c) < 2" using limit by (simp add: word_less_nat_alt word_le_nat_alt)
  then show "\<exists>c \<in> set cs. claimable t m c \<and> wk_cycle_key p = wc_key c \<and> wk_account_id p = wc_account_id c
       \<and> unat (wk_attempt p) = unat (wc_attempts_started c) + 1 \<and> wc_request c = Some (wk_request p)"
    using c by (intro bexI [of _ c]) (simp_all add: p rust_arith)
qed

lemma update_first_mem: "update_first P f xs = Some (ys, x) \<Longrightarrow> x \<in> set xs \<and> P x"
  by (induction xs arbitrary: ys) (auto split: if_splits)

lemma update_first_settles:
  assumes "update_first (\<lambda>c. wc_key c = k \<and> Q c) f cs = Some (cs', c0)" "distinct (map wc_key cs)"
    "\<And>c. Q c \<Longrightarrow> \<not> Q (f c)" "c \<in> set cs'"
  shows "\<not> (wc_key c = k \<and> Q c)"
  using assms(1,2,4)
proof (induction cs arbitrary: cs')
  case (Cons a cs)
  show ?case
  proof (cases "wc_key a = k \<and> Q a")
    case True
    then have "cs' = f a # cs" using Cons.prems(1) by auto
    moreover have "wc_key c' \<noteq> k" if "c' \<in> set cs" for c'
      using Cons.prems(2) True imageI [OF that, of wc_key] by auto
    ultimately show ?thesis using Cons.prems(3) True assms(3) [of a] by auto
  next
    case False
    then obtain ys where "cs' = a # ys" "update_first (\<lambda>c. wc_key c = k \<and> Q c) f cs = Some (ys, c0)"
      using Cons.prems(1) by auto
    then show ?thesis using Cons False by auto
  qed
qed simp

lemma update_first_new: "update_first P f xs = Some (ys, x) \<Longrightarrow> f x \<in> set ys"
  by (induction xs arbitrary: ys) (auto split: if_splits)

text \<open>A cycle that is past an attempt, and every cycle it becomes.\<close>

definition settled :: "u8 \<Rightarrow> WakeCycle \<Rightarrow> bool" where
  "settled attempt c \<longleftrightarrow> attempt < wc_attempts_started c \<or> wc_attempts_started c = attempt \<and> wc_status c \<noteq> CycleInFlight"

lemma settled_evolves: "settled attempt c \<Longrightarrow> evolves c c' \<Longrightarrow> settled attempt c'"
  by (auto simp: settled_def evolves_def)

lemma stays_stored:
  assumes "reach (\<lambda>a b. wake_step sha256_hex sha256 a b \<and> \<not> evictable ident a) s t" "c \<in> set (ws_cycles s)" "cycle_ident c = ident"
  shows "\<exists>c' \<in> set (ws_cycles t). evolves c c'"
  using assms(1)
proof (induction rule: reach.induct)
  case start
  then show ?case using assms(2) by blast
next
  case (step a b)
  then obtain d where d: "d \<in> set (ws_cycles a)" "evolves c d" by blast
  then have "cycle_ident d = ident" using assms(3) by (simp add: evolves_def)
  then show ?case using wake_step_evolves [of sha256_hex sha256 a b d] step.hyps d evolves_trans by blast
qed

lemma recover_not_in_flight: "wc_status (recover_cycle sha c) \<noteq> CycleInFlight"
  by (simp add: recover_cycle_def cycle_finish_def)

lemma recover_id: "wc_status c \<noteq> CycleInFlight \<Longrightarrow> recover_cycle sha c = c"
  by (simp add: recover_cycle_def)

lemma recover_idem: "recover_cycle sha (recover_cycle sha c) = recover_cycle sha c"
  by (rule recover_id [OF recover_not_in_flight])

lemma recover_pending: "cycle_schedule c = Some d \<Longrightarrow> cycle_schedule (recover_cycle sha c) = Some d"
  by (auto simp: cycle_schedule_def recover_cycle_def split: if_splits)

subsection \<open>Samples\<close>

definition sample_task :: WakeTask where
  "sample_task = \<lparr>wt_id = ''task-1'', wt_name = ''Wake'', wt_enabled = True, wt_account_selector = AllEligible,
     wt_window_kinds = {|Primary|}, wt_model_policy = LightestSupported, wt_trigger = QuotaFull,
     wt_fallback_schedule = None, wt_execution_policy = AutomaticExecution, wt_jitter_seconds = 30,
     wt_max_attempts_per_cycle = 2, wt_created_at_ms = 1, wt_updated_at_ms = 1\<rparr>"

definition sample_account :: AccountRecord where
  "sample_account = \<lparr>ar_id = ''account-1'', ar_label = ''Account'',
     ar_identity = \<lparr>ai_stable_index = ''i'', ai_identity_hash = ''h'', ai_organization_hash = None\<rparr>,
     ar_auth_mode = OAuth, ar_auth_state = AuthActive, ar_health = HsHealthy, ar_source_id = ''openai'',
     ar_secret_refs = [], ar_subscription = \<lparr>sub_plan_type = None, sub_active_until_ms = None,
       sub_status = SubUnknown, sub_updated_at_ms = None\<rparr>, ar_quota = quota_snapshot_default,
     ar_token_generation = 1, ar_token_updated_at_ms = None, ar_tags = {||}, ar_enabled = True,
     ar_in_pool = True, ar_draining = False, ar_created_at_ms = 1, ar_last_used_at_ms = None,
     ar_last_error_code = None\<rparr>"

definition sample_transition :: QuotaTransition where
  "sample_transition = \<lparr>qt_window_kind = Primary, qt_fingerprint = ''cycle-1'', qt_transitioned_at_ms = 100\<rparr>"

definition sample_policy :: WakeAdapterPolicy where
  "sample_policy = \<lparr>wp_windows_requiring_activity = {|Primary|},
     wp_models = [\<lparr>wm_id = ''small'', wm_lightness_rank = 1, wm_wake_capable = True\<rparr>],
     wp_verification_delay_ms = 1000, wp_output_token_cap = 8\<rparr>"

definition sample_cycle :: WakeCycle where
  "sample_cycle = new_cycle (\<lambda>x. x) ''k'' sample_task sample_account sample_transition sample_policy ''small'' 110"

definition sample_scheduled :: WakeAutomationState where
  "sample_scheduled = (wake_initial 8 8)\<lparr>ws_cycles := [sample_cycle]\<rparr>"

definition sample_claimed :: "WakeAutomationState \<times> WakePermit list" where
  "sample_claimed = claim_due_matching 100000 1 ClaimAny sample_scheduled"

lemmas wake_samples = sample_task_def sample_account_def sample_transition_def sample_policy_def sample_cycle_def
  sample_scheduled_def sample_claimed_def

lemma sample_strings [simp]:
  "is_safe_id ''task-1''" "trim ''Wake'' \<noteq> []" "trim ''cycle-1'' \<noteq> []" "trim ''account-1'' \<noteq> []"
  "trim ''small'' \<noteq> []"
  by code_simp+

lemma trim_empty: "trim [] = []"
  by code_simp

lemma sample_evaluate:
  "evaluate (\<lambda>_. ''k'') (\<lambda>x. x) sample_task sample_account sample_transition None sample_policy 110 (wake_initial 8 8)
     = Some (sample_scheduled, Scheduled (the (cycle_schedule sample_cycle)))"
  by (simp add: evaluate_def wake_samples task_validate_def policy_is_valid_def wake_constants wake_ineligible_def
      is_wake_eligible_def cycle_key_def new_cycle_schedule wake_initial_def Let_def reserve_cycle_def min_by_def)

lemma sample_scheduled_reach: "reach (wake_step (\<lambda>_. ''k'') (\<lambda>x. x)) (wake_initial 8 8) sample_scheduled"
  by (rule reach.step, rule reach.start, rule step_evaluate [OF sample_evaluate])

lemma sample_scheduled_wf: "wake_wf sample_scheduled"
  using wake.holds [OF sample_scheduled_reach] by simp

text \<open>An account with a blank identifier is scheduled like any other.\<close>

definition sample_unnamed :: WakeAutomationState where
  "sample_unnamed = (wake_initial 8 8)\<lparr>ws_cycles := [new_cycle (\<lambda>x. x) ''k'' sample_task (sample_account\<lparr>ar_id := []\<rparr>)
     sample_transition sample_policy ''small'' 110]\<rparr>"

lemma sample_unnamed_reach: "reach (wake_step (\<lambda>_. ''k'') (\<lambda>x. x)) (wake_initial 8 8) sample_unnamed"
proof (rule reach.step [OF reach.start], rule step_evaluate)
  show "evaluate (\<lambda>_. ''k'') (\<lambda>x. x) sample_task (sample_account\<lparr>ar_id := []\<rparr>) sample_transition None sample_policy 110 (wake_initial 8 8)
      = Some (sample_unnamed, Scheduled (the (cycle_schedule (new_cycle (\<lambda>x. x) ''k'' sample_task (sample_account\<lparr>ar_id := []\<rparr>)
          sample_transition sample_policy ''small'' 110))))"
    by (simp add: evaluate_def wake_samples sample_unnamed_def task_validate_def policy_is_valid_def wake_constants wake_ineligible_def
        is_wake_eligible_def cycle_key_def new_cycle_schedule wake_initial_def Let_def reserve_cycle_def min_by_def)
qed

lemma claim_one: "claim_cycles t m n [c] = (cs, ps) \<Longrightarrow> distinct (map wc_key cs)"
  by (auto simp: Let_def split: if_splits option.splits)

lemma sample_claim:
  "sample_claimed = (sample_scheduled\<lparr>ws_cycles := [cycle_start 100000 sample_cycle]\<rparr>,
     [cycle_permit 100000 (the (wc_request sample_cycle)) (the (wc_verification sample_cycle))
        (cycle_start 100000 sample_cycle)])"
  using jitter_bounded [of "\<lambda>x. x" "''k''" 1 30]
  by (simp add: claim_due_matching_def wake_samples claimable_def new_cycle_def Let_def word_le_nat_alt rust_arith)

definition sample_completion :: WakeCompletion where
  "sample_completion = \<lparr>wl_outcome = CompletionConfirmed, wl_completed_at_ms = 100010, wl_latency_ms = None,
     wl_input_tokens = None, wl_output_tokens = None, wl_error_code = None\<rparr>"

lemma sample_keys: "distinct (map wc_key (ws_cycles (fst sample_claimed)))"
  by (simp add: sample_claim)

subsection \<open>Properties\<close>

text \<open>
  C7 (invariant). Whatever sequence of evaluations, claims, completions, cancellations, natural uses
  and restarts runs from a new coordinator, at most \<open>max_cycles\<close> cycles and \<open>max_history\<close> history
  entries are stored, no two stored cycles are for the same account, window and transition, and every
  stored cycle has at most two attempts started and is valid if and only if it names an account. The
  state is accepted by a restart if and only if all of them do: an evaluation takes an account with a
  blank identifier, and a restart then refuses the whole state.
\<close>

theorem wake_state_bounded_and_valid:
  assumes "\<forall>x. sha256_hex x \<noteq> []" "0 < n" "0 < m"
    and "reach (wake_step sha256_hex sha256) (wake_initial n m) s"
  shows "length (ws_cycles s) \<le> n \<and> length (ws_history s) \<le> m \<and> distinct (map cycle_ident (ws_cycles s))
    \<and> (\<forall>c \<in> set (ws_cycles s). wc_attempts_started c \<le> 2 \<and> (valid_cycle c \<longleftrightarrow> trim (wc_account_id c) \<noteq> []))
    \<and> ((\<exists>s'. from_state sha256 s = Inr s') \<longleftrightarrow> (\<forall>c \<in> set (ws_cycles s). trim (wc_account_id c) \<noteq> []))"
proof -
  have "wake_wf s" "ws_max_cycles s = n" "ws_max_history s = m" using wake.holds [OF assms(4)] assms(1-3) by auto
  moreover have "wc_attempts_started c \<le> 2" if "cycle_ok c" for c
    using that by (auto simp: cycle_ok_def wake_constants)
  ultimately show ?thesis
    using from_state_wf [of s sha256] by (auto simp: wake_wf_def list_all_iff valid_cycle_iff)
qed

theorem wake_state_bounded_and_valid_witness:
  "length (ws_cycles sample_scheduled) \<le> 8 \<and> distinct (map cycle_ident (ws_cycles sample_scheduled))
   \<and> list_all valid_cycle (ws_cycles sample_scheduled) \<and> (\<exists>s'. from_state (\<lambda>x. x) sample_scheduled = Inr s')
   \<and> length (ws_cycles sample_unnamed) \<le> 8 \<and> \<not> (\<exists>s'. from_state (\<lambda>x. x) sample_unnamed = Inr s')"
proof -
  have named: "\<forall>c \<in> set (ws_cycles sample_scheduled). trim (wc_account_id c) \<noteq> []"
    and blank: "\<exists>c \<in> set (ws_cycles sample_unnamed). trim (wc_account_id c) = []"
    by (simp_all add: wake_samples sample_unnamed_def trim_empty)
  have sha: "\<forall>x. (\<lambda>_. ''k'') x \<noteq> []" "0 < (8 :: nat)" by simp_all
  show ?thesis
    using wake_state_bounded_and_valid [OF sha(1,2,2) sample_scheduled_reach] named
      wake_state_bounded_and_valid [OF sha(1,2,2) sample_unnamed_reach] blank unfolding list_all_iff by metis
qed

text \<open>
  C8 (functional). A transition is scheduled only when no stored cycle is for the same account,
  window and fingerprint; the new cycle is stored and pending, uses a model the policy selected, has
  no attempt started and is due no earlier than now and no later than the task's jitter (saturating)
  after now. Whatever steps follow, no evaluation of the same transition, with whatever task, policy
  or time, schedules it again as long as none of them starts from a full store that holds its cycle as
  completed: only then may the cycle be evicted.
\<close>

theorem transition_scheduled_once:
  assumes "evaluate sha256_hex sha256 task account transition last_use policy now s = Some (s', Scheduled schedule)"
    and "ident = (ar_id account, qt_window_kind transition, qt_fingerprint transition)"
  shows "ident \<notin> cycle_ident ` set (ws_cycles s)
    \<and> schedule \<in> set (pending s') \<and> wd_attempts_started schedule = 0 \<and> now \<le> wd_due_at_ms schedule
    \<and> unat (wd_due_at_ms schedule) \<le> unat now + unat (wt_jitter_seconds task) * 1000
    \<and> Some (wr_model_id (wd_request schedule)) = select_model (wt_model_policy task) (wp_models policy)
    \<and> (\<forall>t task' last_use' policy' now' t' schedule'.
         reach (\<lambda>a b. wake_step sha256_hex sha256 a b \<and> \<not> evictable ident a) s' t \<longrightarrow>
         evaluate sha256_hex sha256 task' account transition last_use' policy' now' t \<noteq> Some (t', Scheduled schedule'))"
  using assms(1)
proof (cases rule: scheduled_cases)
  case (created model_id c)
  have stored: "c \<in> set (ws_cycles s')" and ident: "cycle_ident c = ident"
    using created(4) by (auto simp: reserve_cycle_def created(2) assms(2) split: if_splits option.splits)
  have "evaluate sha256_hex sha256 task' account transition last_use' policy' now' t \<noteq> Some (t', Scheduled schedule')"
    if "reach (\<lambda>a b. wake_step sha256_hex sha256 a b \<and> \<not> evictable ident a) s' t" for t task' last_use' policy' now' t' schedule'
  proof -
    have "ident \<in> cycle_ident ` set (ws_cycles t)" using stays_stored [OF that stored ident] by (force simp: evolves_def ident)
    then show ?thesis using assms(2) by (auto elim: scheduled_cases)
  qed
  moreover have "schedule \<in> set (pending s')"
    using stored created(5) by (force simp: pending_def List.map_filter_def)
  ultimately show ?thesis
    using created assms(2) jitter_bounded [of sha256 "cycle_key sha256_hex account transition" 1 "wt_jitter_seconds task"]
    by (auto simp: new_cycle_schedule rust_arith intro!: le_trans [OF min.cobounded1])
qed

theorem transition_scheduled_once_witness:
  "the (cycle_schedule sample_cycle) \<in> set (pending sample_scheduled)
   \<and> evaluate (\<lambda>_. ''k'') (\<lambda>x. x) sample_task sample_account sample_transition None sample_policy 200000 (fst sample_claimed)
       = Some (fst sample_claimed, Skipped SkippedDuplicate)"
proof -
  have "wake_step (\<lambda>_. ''k'') (\<lambda>x. x) sample_scheduled (fst sample_claimed)"
    unfolding sample_claimed_def by (rule step_claim)
  moreover have "\<not> evictable (''account-1'', Primary, ''cycle-1'') sample_scheduled"
    by (simp add: evictable_def sample_scheduled_def wake_initial_def)
  ultimately have "reach (\<lambda>a b. wake_step (\<lambda>_. ''k'') (\<lambda>x. x) a b \<and> \<not> evictable (''account-1'', Primary, ''cycle-1'') a)
      sample_scheduled (fst sample_claimed)"
    by (blast intro: reach.intros)
  then have "evaluate (\<lambda>_. ''k'') (\<lambda>x. x) sample_task sample_account sample_transition None sample_policy 200000 (fst sample_claimed)
      \<noteq> Some (t, Scheduled schedule)" "the (cycle_schedule sample_cycle) \<in> set (pending sample_scheduled)" for t schedule
    using transition_scheduled_once [OF sample_evaluate, of "(''account-1'', Primary, ''cycle-1'')"]
    by (simp_all add: sample_account_def sample_transition_def)
  then show ?thesis
    by (auto simp: evaluate_def sample_claim wake_samples task_validate_def policy_is_valid_def wake_constants wake_ineligible_def
        is_wake_eligible_def same_cycle_def new_cycle_def cycle_start_def Let_def)
qed

text \<open>
  Evaluating a transition always returns: the \<open>expect\<close> on the schedule of a
  new cycle never fails, whatever the task, account, policy and state.
\<close>

lemma evaluate_never_panics:
  "\<exists>s' decision. evaluate sha256_hex sha256 task account transition last_use policy now s = Some (s', decision)"
  by (auto simp: evaluate_def Let_def new_cycle_schedule split: option.splits prod.splits bool.splits)

text \<open>
  From a reachable state, a claim returns at most \<open>max_claims\<close> permits. Each is for a
  stored pending cycle that is due, in the claimed mode and below its attempt limit, carries that
  cycle's request and the number of the new attempt, at most two, and is active afterwards. When
  fewer than \<open>max_claims\<close> are returned, no claimable cycle is left.
\<close>

lemma claim_within_limits:
  assumes "\<forall>x. sha256_hex x \<noteq> []" "0 < n" "0 < m"
    and "reach (wake_step sha256_hex sha256) (wake_initial n m) s"
    and "claim_due_matching now max_claims mode s = (s', permits)"
  shows "length permits \<le> max_claims
    \<and> (\<forall>p \<in> set permits. is_permit_active p s' \<and> wk_attempt p \<le> 2 \<and> (\<exists>c \<in> set (ws_cycles s).
         claimable now mode c \<and> wk_cycle_key p = wc_key c \<and> wk_account_id p = wc_account_id c
         \<and> unat (wk_attempt p) = unat (wc_attempts_started c) + 1 \<and> wc_request c = Some (wk_request p)))
    \<and> (length permits < max_claims \<longrightarrow> (\<forall>c \<in> set (ws_cycles s'). \<not> claimable now mode c))"
proof (cases "max_claims = 0")
  case True
  then show ?thesis using assms(5) by (simp add: claim_due_matching_def)
next
  case False
  then obtain cs where cs: "claim_cycles now mode max_claims (ws_cycles s) = (cs, permits)" "s' = s\<lparr>ws_cycles := cs\<rparr>"
    using assms(5) by (auto simp: claim_due_matching_def split: prod.splits)
  have ok: "list_all cycle_ok (ws_cycles s)" using wake.holds [OF assms(4)] assms(1-3) by (auto simp: wake_wf_def)
  have "is_permit_active p s' \<and> wk_attempt p \<le> 2 \<and> (\<exists>c \<in> set (ws_cycles s).
         claimable now mode c \<and> wk_cycle_key p = wc_key c \<and> wk_account_id p = wc_account_id c
         \<and> unat (wk_attempt p) = unat (wc_attempts_started c) + 1 \<and> wc_request c = Some (wk_request p))"
    if "p \<in> set permits" for p
    using claimed_permit [OF claim_cycles_sound [OF cs(1) that] ok] unfolding cs(2) by blast
  then show ?thesis
    using claim_cycles_length [OF cs(1)] claim_cycles_complete [OF cs(1) ok] cs(2) by auto
qed

text \<open>
  C9 (safety). A completion that is accepted settles a cycle that is in flight in the permitted attempt
  and appends exactly one entry to the history (the oldest one gives way when the history is full),
  which tells of that cycle, attempt, outcome and time. The permit is settled at most once: as long as
  no two stored cycles share their key, and no step starts from a full store that holds the settled
  cycle as completed, the permit is inactive in every later state and a completion with it is refused
  and changes nothing.
\<close>

theorem permit_settled_once:
  assumes "wake_complete sha256 p completion s = (s', True)"
  shows "\<exists>c h. c \<in> set (ws_cycles s) \<and> wc_key c = wk_cycle_key p \<and> wc_status c = CycleInFlight \<and> wc_attempts_started c = wk_attempt p
    \<and> ws_history s' = (if length (ws_history s) \<ge> ws_max_history s then tl (ws_history s) else ws_history s) @ [h]
    \<and> wh_task_id h = wc_task_id c \<and> (wh_account_id h, wh_window_kind h, wh_transition_fingerprint h) = cycle_ident c
    \<and> wh_attempt h = wk_attempt p \<and> wh_outcome h = completion_outcome (wl_outcome completion)
    \<and> wh_started_at_ms h = wk_reserved_at_ms p \<and> wh_completed_at_ms h = max (wl_completed_at_ms completion) (wk_reserved_at_ms p)
    \<and> (distinct (map wc_key (ws_cycles s)) \<longrightarrow> (\<forall>t completion'.
         reach (\<lambda>a b. wake_step sha256_hex sha256 a b \<and> \<not> evictable (cycle_ident c) a \<and> distinct (map wc_key (ws_cycles b))) s' t \<longrightarrow>
         \<not> is_permit_active p t \<and> wake_complete sha256 p completion' t = (t, False)))"
proof -
  let ?P = "\<lambda>c. wc_key c = wk_cycle_key p \<and> wc_status c = CycleInFlight \<and> wc_attempts_started c = wk_attempt p"
  let ?f = "cycle_settle sha256 (wl_outcome completion) (max (wl_completed_at_ms completion) (wk_reserved_at_ms p))"
  obtain cs c where u: "update_first ?P ?f (ws_cycles s) = Some (cs, c)" and s': "ws_cycles s' = cs"
    using assms by (auto simp: wake_complete_def Let_def split: option.splits)
  have c: "c \<in> set (ws_cycles s)" "?P c" and new: "?f c \<in> set cs"
    using update_first_mem [OF u] update_first_new [OF u] by auto
  have keys: "map wc_key cs = map wc_key (ws_cycles s)"
    using evolves_update_first [OF u] evolves_settle evolves_keeps(3) by blast
  have f: "cycle_ident (?f c) = cycle_ident c" "wc_key (?f c) = wk_cycle_key p" "settled (wk_attempt p) (?f c)"
    using c(2) by (simp_all add: cycle_settle_def cycle_finish_def settled_def)
  have "\<not> is_permit_active p t \<and> wake_complete sha256 p completion' t = (t, False)"
    if d: "distinct (map wc_key (ws_cycles s))" and t: "reach (\<lambda>a b. wake_step sha256_hex sha256 a b
      \<and> \<not> evictable (cycle_ident c) a \<and> distinct (map wc_key (ws_cycles b))) s' t" for t completion'
  proof -
    have "reach (\<lambda>a b. wake_step sha256_hex sha256 a b \<and> \<not> evictable (cycle_ident c) a) s' t"
      using t by (rule reach_mono) blast
    then obtain e where e: "e \<in> set (ws_cycles t)" "evolves (?f c) e"
      using stays_stored [OF _ _ f(1), of sha256_hex sha256 s' t] new unfolding s' by blast
    have "distinct (map wc_key (ws_cycles t))"
      using t by (cases rule: reach.cases) (use d keys s' in auto)
    moreover have key: "wc_key e = wk_cycle_key p" using e(2) f(2) by (simp add: evolves_def)
    moreover have "\<not> (wc_status e = CycleInFlight \<and> wc_attempts_started e = wk_attempt p)"
      using settled_evolves [OF f(3) e(2)] by (auto simp: settled_def)
    ultimately have "\<not> ?P e'" if "e' \<in> set (ws_cycles t)" for e'
      using e(1) that by (metis distinct_map inj_onD)
    then have "update_first ?P g (ws_cycles t) = None" and "\<not> is_permit_active p t" for g
      by (auto simp: update_first_None is_permit_active_def list_ex_iff)
    then show ?thesis by (simp add: wake_complete_def Let_def)
  qed
  moreover obtain h where "ws_history s' = (if length (ws_history s) \<ge> ws_max_history s then tl (ws_history s) else ws_history s) @ [h]"
    "wh_task_id h = wc_task_id c" "(wh_account_id h, wh_window_kind h, wh_transition_fingerprint h) = cycle_ident c"
    "wh_attempt h = wk_attempt p" "wh_outcome h = completion_outcome (wl_outcome completion)"
    "wh_started_at_ms h = wk_reserved_at_ms p" "wh_completed_at_ms h = max (wl_completed_at_ms completion) (wk_reserved_at_ms p)"
    using assms u by (simp add: wake_complete_def Let_def push_history_def) force
  ultimately show ?thesis using c by (intro exI [of _ c] exI [of _ h]) simp
qed

theorem permit_settled_once_witness:
  "\<exists>s'. wake_complete (\<lambda>x. x) (hd (snd sample_claimed)) sample_completion (fst sample_claimed) = (s', True)
     \<and> length (ws_history s') = 1
     \<and> \<not> is_permit_active (hd (snd sample_claimed)) (fst (claim_due_matching 300000 1 ClaimAny s'))"
proof -
  obtain s' where s': "wake_complete (\<lambda>x. x) (hd (snd sample_claimed)) sample_completion (fst sample_claimed) = (s', True)"
    and cycles: "ws_cycles s' = [cycle_finish 100010 (cycle_start 100000 sample_cycle)]" "ws_max_cycles s' = 8"
    and empty: "ws_history (fst sample_claimed) = []" "ws_max_history (fst sample_claimed) = 8"
    by (simp add: wake_complete_def Let_def sample_claim cycle_permit_def cycle_start_def cycle_settle_def sample_completion_def
        push_history_def sample_scheduled_def wake_initial_def)
  let ?t = "fst (claim_due_matching 300000 1 ClaimAny s')"
  have "reach (\<lambda>a b. wake_step (\<lambda>_. ''k'') (\<lambda>x. x) a b \<and> \<not> evictable i a \<and> distinct (map wc_key (ws_cycles b))) s' ?t" for i
  proof (rule reach.step [OF reach.start], intro conjI)
    show "wake_step (\<lambda>_. ''k'') (\<lambda>x. x) s' ?t" by (rule step_claim)
    show "\<not> evictable i s'" by (simp add: evictable_def cycles)
    show "distinct (map wc_key (ws_cycles ?t))"
      using claim_one by (simp add: claim_due_matching_def cycles del: claim_cycles.simps split: prod.split)
  qed
  then show ?thesis using permit_settled_once [OF s'] sample_keys s' empty by force
qed

text \<open>
  C10 (roundtrip). A restart of a reachable coordinator whose stored cycles all name an account
  succeeds. Nothing is in flight afterwards; every schedule that was pending is still pending with the
  same due time and attempts, an attempt that was in flight is pending again when it was not the last
  one and completed otherwise, the history is unchanged, and a further restart changes nothing. When
  nothing was in flight the restored state is the saved one.
\<close>

theorem restart_restores_state:
  assumes "\<forall>x. sha256_hex x \<noteq> []" "0 < n" "0 < m"
    and "reach (wake_step sha256_hex sha256) (wake_initial n m) s"
    and "\<forall>c \<in> set (ws_cycles s). trim (wc_account_id c) \<noteq> []"
  shows "\<exists>s'. from_state sha256 s = Inr s' \<and> from_state sha256 s' = Inr s' \<and> ws_history s' = ws_history s
    \<and> list_all2 (\<lambda>c c'. wc_key c' = wc_key c \<and> (wc_status c \<noteq> CycleInFlight \<longrightarrow> c' = c)
         \<and> (wc_status c = CycleInFlight \<longrightarrow> wc_attempts_started c' = wc_attempts_started c
            \<and> wc_status c' = (if wc_attempts_started c < wc_max_attempts c then CyclePending else CycleCompleted)))
         (ws_cycles s) (ws_cycles s')
    \<and> set (pending s) \<subseteq> set (pending s')
    \<and> ((\<forall>c \<in> set (ws_cycles s). wc_status c \<noteq> CycleInFlight) \<longrightarrow> s' = s)"
proof -
  let ?s' = "s\<lparr>ws_cycles := map (recover_cycle sha256) (ws_cycles s)\<rparr>"
  have wf: "wake_wf s" using wake.holds [OF assms(4)] assms(1-3) by auto
  have named: "\<forall>c \<in> set (ws_cycles ?s'). names_account c" using assms(5) by (auto simp: recover_cycle_def cycle_finish_def)
  have "set (pending s) \<subseteq> set (pending ?s')"
    by (force simp: pending_def List.map_filter_def recover_pending)
  moreover have "from_state sha256 ?s' = Inr ?s'"
    using from_state_wf [OF recovered_wf [OF wf, of sha256], of sha256] named by (simp add: comp_def recover_idem)
  moreover have "from_state sha256 s = Inr ?s'" using from_state_wf [OF wf, of sha256] assms(5) by simp
  moreover have "list_all2 (\<lambda>c c'. wc_key c' = wc_key c \<and> (wc_status c \<noteq> CycleInFlight \<longrightarrow> c' = c)
      \<and> (wc_status c = CycleInFlight \<longrightarrow> wc_attempts_started c' = wc_attempts_started c
         \<and> wc_status c' = (if wc_attempts_started c < wc_max_attempts c then CyclePending else CycleCompleted)))
      (ws_cycles s) (ws_cycles ?s')"
    by (auto simp: list_all2_map2 recover_cycle_def cycle_finish_def intro!: list_all2_refl)
  ultimately show ?thesis
    by (auto simp: recover_id cong: map_cong intro!: exI [of _ ?s'])
qed

theorem restart_restores_state_witness: "from_state (\<lambda>x. x) sample_scheduled = Inr sample_scheduled"
proof -
  have "wc_status c \<noteq> CycleInFlight" "trim (wc_account_id c) \<noteq> []" if "c \<in> set (ws_cycles sample_scheduled)" for c
    using that by (simp_all add: sample_scheduled_def sample_cycle_def new_cycle_def sample_account_def)
  then show ?thesis using restart_restores_state [OF _ _ _ sample_scheduled_reach] by auto
qed

end
