(* ===== verification/Turn_State.thy ===== *)
theory Turn_State
  imports Ordered_Maps Rust_Strings
begin

section \<open>Turn-state origins (\<open>runtime/session_state.rs\<close>)\<close>

text \<open>
  The store that remembers which account a client session's turn state came from, so that it is not
  echoed to another account. Entries expire after an hour; every 256th write sweeps the expired ones.
  The write counter is an \<open>AtomicU64\<close>, whose \<open>fetch_add\<close> wraps. \<open>sha256_hex\<close> is a parameter.
\<close>

definition CODEX_TURN_STATE_TTL_MS :: u64 where
  "CODEX_TURN_STATE_TTL_MS = 60 * 60 * 1000"

record CodexTurnStateOrigin =
  to_account_id :: string
  to_expires_at_ms :: u64

record CodexTurnStateStore =
  ts_origins :: "(string, CodexTurnStateOrigin) btree_map"
  ts_writes :: u64

definition turn_state_default :: CodexTurnStateStore where
  "turn_state_default = \<lparr>ts_origins = bt_empty, ts_writes = 0\<rparr>"

definition turn_state_key :: "(string \<Rightarrow> string) \<Rightarrow> string \<Rightarrow> string \<Rightarrow> string option" where
  "turn_state_key sha256_hex local_key_id0 session_id0 =
     (let local_key_id = trim local_key_id0; session_id = trim session_id0 in
      if local_key_id = [] \<or> session_id = [] then None
      else Some (sha256_hex (''codex-turn-state'' @ [CHR 0x00] @ local_key_id @ [CHR 0x00] @ session_id)))"

definition turn_state_sweep :: "u64 \<Rightarrow> CodexTurnStateStore \<Rightarrow> CodexTurnStateStore" where
  "turn_state_sweep now_ms s = s\<lparr>ts_origins := bt_retain (\<lambda>_ origin. to_expires_at_ms origin > now_ms) (ts_origins s)\<rparr>"

definition note_turn_state ::
  "(string \<Rightarrow> string) \<Rightarrow> string \<Rightarrow> string \<Rightarrow> string \<Rightarrow> u64 \<Rightarrow> CodexTurnStateStore \<Rightarrow> CodexTurnStateStore" where
  "note_turn_state sha256_hex local_key_id session_id account_id0 now_ms s =
     (case turn_state_key sha256_hex local_key_id session_id of
        None \<Rightarrow> s
      | Some key \<Rightarrow>
          let account_id = trim account_id0 in
          if account_id = [] then s
          else
            let s' = s\<lparr>ts_origins := bt_insert key
                  \<lparr>to_account_id = account_id, to_expires_at_ms = sat_add now_ms CODEX_TURN_STATE_TTL_MS\<rparr> (ts_origins s),
                  ts_writes := ts_writes s + 1\<rparr>
            in if ts_writes s mod 256 = 255 then turn_state_sweep now_ms s' else s')"

definition belongs_to_account ::
  "(string \<Rightarrow> string) \<Rightarrow> string \<Rightarrow> string \<Rightarrow> string \<Rightarrow> u64 \<Rightarrow> CodexTurnStateStore \<Rightarrow> CodexTurnStateStore \<times> bool" where
  "belongs_to_account sha256_hex local_key_id session_id account_id now_ms s =
     (case turn_state_key sha256_hex local_key_id session_id of
        None \<Rightarrow> (s, False)
      | Some key \<Rightarrow>
          (case bt_get (ts_origins s) key of
             None \<Rightarrow> (s, False)
           | Some origin \<Rightarrow>
               if to_expires_at_ms origin \<le> now_ms then (s\<lparr>ts_origins := bt_remove key (ts_origins s)\<rparr>, False)
               else (s, to_account_id origin = trim account_id)))"

subsection \<open>The abstract view\<close>

definition origin_at :: "CodexTurnStateStore \<Rightarrow> u64 \<Rightarrow> string \<Rightarrow> string option" where
  "origin_at s now_ms key =
     (case bt_get (ts_origins s) key of None \<Rightarrow> None
      | Some origin \<Rightarrow> if to_expires_at_ms origin > now_ms then Some (to_account_id origin) else None)"

lemma origin_sweep: "now \<le> t \<Longrightarrow> origin_at (turn_state_sweep now s) t key = origin_at s t key"
  by (auto simp: origin_at_def turn_state_sweep_def split: option.splits)

lemma note_origin:
  assumes "turn_state_key sha l i = Some key" "trim a \<noteq> []" "now \<le> t"
  shows "origin_at (note_turn_state sha l i a now s) t k =
    (if k = key then (if t < sat_add now CODEX_TURN_STATE_TTL_MS then Some (trim a) else None) else origin_at s t k)"
proof -
  let ?s' = "s\<lparr>ts_origins := bt_insert key \<lparr>to_account_id = trim a, to_expires_at_ms = sat_add now CODEX_TURN_STATE_TTL_MS\<rparr>
      (ts_origins s), ts_writes := ts_writes s + 1\<rparr>"
  have "origin_at (note_turn_state sha l i a now s) t k = origin_at ?s' t k"
    using assms origin_sweep [OF assms(3), of ?s' k] by (simp add: note_turn_state_def Let_def)
  then show ?thesis by (simp add: origin_at_def)
qed

lemma note_rejected:
  "turn_state_key sha l i = None \<or> trim a = [] \<Longrightarrow> note_turn_state sha l i a now s = s"
  by (auto simp: note_turn_state_def Let_def split: option.splits)

lemma belongs_origin:
  assumes "turn_state_key sha l i = Some key"
  shows "snd (belongs_to_account sha l i a t s) \<longleftrightarrow> origin_at s t key = Some (trim a)"
    and "t \<le> u \<Longrightarrow> origin_at (fst (belongs_to_account sha l i a t s)) u k = origin_at s u k"
  using assms by (auto simp: belongs_to_account_def origin_at_def not_le not_less split: option.splits if_splits)

subsection \<open>Properties\<close>

text \<open>
  The store implements a map from sessions to the account that last noted them. A
  noted session belongs to exactly that account, ignoring surrounding blanks, for one hour and to no
  account afterwards, also when the write triggered a sweep; no other session is affected by the
  note, and asking changes no answer.
\<close>

lemma turn_state_refines_origin_map:
  assumes "turn_state_key sha256_hex local_key_id session_id = Some key" "trim account_id \<noteq> []" "now \<le> t"
    and "turn_state_key sha256_hex local_key_id' session_id' = Some key'" "t \<le> u"
    and "s' = note_turn_state sha256_hex local_key_id session_id account_id now s"
    and "s'' = fst (belongs_to_account sha256_hex local_key_id session_id other t s')"
  shows "(snd (belongs_to_account sha256_hex local_key_id session_id other t s') \<longleftrightarrow>
        trim other = trim account_id \<and> t < sat_add now CODEX_TURN_STATE_TTL_MS)
    \<and> (key' \<noteq> key \<longrightarrow> snd (belongs_to_account sha256_hex local_key_id' session_id' other t s') =
        snd (belongs_to_account sha256_hex local_key_id' session_id' other t s))
    \<and> snd (belongs_to_account sha256_hex local_key_id' session_id' other u s'') =
        snd (belongs_to_account sha256_hex local_key_id' session_id' other u s')"
proof -
  have "origin_at s'' u k = origin_at s' u k" for k
    using belongs_origin(2) [OF assms(1,5)] by (simp add: assms(7))
  then show ?thesis
    using note_origin [OF assms(1-3)] by (auto simp: belongs_origin(1) [OF assms(1)] belongs_origin(1) [OF assms(4)] assms(6))
qed

end
