(* ===== verification/Bridge_Store.thy ===== *)
theory Bridge_Store
  imports Ordered_Maps "HOL-Library.Product_Lexorder" "HOL-Library.List_Lexorder" "HOL-Library.Char_ord"
begin

section \<open>Bounded continuation stores (\<open>protocol/adapter/store.rs\<close>)\<close>

text \<open>
  The in-memory stores that keep the state of a response until a client continues it: bounded in
  entries, in bytes per entry and in bytes overall, with expiry and eviction of the oldest. The
  stored state is a type variable; its size in bytes is the parameter \<open>serialized_size_bytes\<close>
  (\<open>None\<close> when serde fails). Byte counts are natural numbers, saturating at \<open>usize::MAX\<close>.
\<close>

subsection \<open>Definitions\<close>

type_synonym ReplayKey = "string \<times> string"

record 'a StoredState =
  st_state :: 'a
  st_candidate_id :: string
  st_observed_at_ms :: u64
  st_size_bytes :: nat

record 'a BoundedStateStore =
  bs_entries :: "(ReplayKey, 'a StoredState) btree_map"
  bs_max_entries :: nat
  bs_ttl_ms :: u64
  bs_max_entry_bytes :: nat
  bs_max_total_bytes :: nat
  bs_total_bytes :: nat

definition DEFAULT_MAX_ENTRIES :: nat where "DEFAULT_MAX_ENTRIES = 64"
definition DEFAULT_MAX_ENTRY_BYTES :: nat where "DEFAULT_MAX_ENTRY_BYTES = 2 * 1024 * 1024"
definition DEFAULT_MAX_TOTAL_BYTES :: nat where "DEFAULT_MAX_TOTAL_BYTES = 16 * 1024 * 1024"

definition usize_add :: "nat \<Rightarrow> nat \<Rightarrow> nat" where
  "usize_add a b = min (a + b) usize_max"

definition bounded_state_store :: "nat \<Rightarrow> u64 \<Rightarrow> nat \<Rightarrow> nat \<Rightarrow> 'a BoundedStateStore" where
  "bounded_state_store max_entries ttl_ms max_entry_bytes max_total_bytes =
     \<lparr>bs_entries = bt_empty, bs_max_entries = max_entries, bs_ttl_ms = ttl_ms,
      bs_max_entry_bytes = max_entry_bytes, bs_max_total_bytes = max_total_bytes, bs_total_bytes = 0\<rparr>"

definition store_new :: "nat \<Rightarrow> u64 \<Rightarrow> 'a BoundedStateStore" where
  "store_new max_entries ttl_ms =
     bounded_state_store max_entries ttl_ms DEFAULT_MAX_ENTRY_BYTES
       (min (max_entries * DEFAULT_MAX_ENTRY_BYTES) usize_max)"

definition store_default :: "'a BoundedStateStore" where
  "store_default = bounded_state_store DEFAULT_MAX_ENTRIES (60 * 60 * 1000) DEFAULT_MAX_ENTRY_BYTES DEFAULT_MAX_TOTAL_BYTES"

definition store_prune :: "u64 \<Rightarrow> 'a BoundedStateStore \<Rightarrow> 'a BoundedStateStore" where
  "store_prune now_ms s =
     (let entries = bt_retain (\<lambda>_ entry. sat_sub now_ms (st_observed_at_ms entry) \<le> bs_ttl_ms s) (bs_entries s)
      in s\<lparr>bs_entries := entries,
           bs_total_bytes := foldl (\<lambda>total entry. usize_add total (st_size_bytes entry)) 0 (bt_values entries)\<rparr>)"

definition store_evict_oldest :: "'a BoundedStateStore \<Rightarrow> 'a BoundedStateStore \<times> bool" where
  "store_evict_oldest s =
     (case min_by (\<lambda>l r. cmp (st_observed_at_ms (snd l)) (st_observed_at_ms (snd r))) (bt_entries (bs_entries s)) of
        None \<Rightarrow> (s, False)
      | Some (key, entry) \<Rightarrow>
          (s\<lparr>bs_entries := bt_remove key (bs_entries s), bs_total_bytes := bs_total_bytes s - st_size_bytes entry\<rparr>, True))"

lemma evict_shrinks: "store_evict_oldest s = (s', True) \<Longrightarrow> bt_len (bs_entries s') < bt_len (bs_entries s)"
proof -
  assume "store_evict_oldest s = (s', True)"
  then obtain k e where m: "min_by (\<lambda>l r. cmp (st_observed_at_ms (snd l)) (st_observed_at_ms (snd r))) (bt_entries (bs_entries s)) = Some (k, e)"
    and s': "bs_entries s' = bt_remove k (bs_entries s)"
    by (auto simp: store_evict_oldest_def split: option.splits)
  have e: "bt_get (bs_entries s) k = Some e" using min_by_mem [OF m] by (simp add: bt_entries_iff)
  then have "0 < bt_len (bs_entries s)" by (cases "bt_len (bs_entries s)") auto
  moreover have "bt_len (bs_entries s') = bt_len (bs_entries s) - 1" using e by (simp add: s' bt_len_remove)
  ultimately show ?thesis by linarith
qed

function store_make_room :: "nat \<Rightarrow> 'a BoundedStateStore \<Rightarrow> 'a BoundedStateStore \<times> bool" where
  "store_make_room size_bytes s =
     (if bt_len (bs_entries s) \<ge> bs_max_entries s \<or> usize_add (bs_total_bytes s) size_bytes > bs_max_total_bytes s
      then (case store_evict_oldest s of (s', True) \<Rightarrow> store_make_room size_bytes s' | (s', False) \<Rightarrow> (s', False))
      else (s, True))"
  by auto
termination
  by (relation "measure (\<lambda>(_, s). bt_len (bs_entries s))") (auto dest: evict_shrinks [OF sym])

declare store_make_room.simps [simp del]

definition store_get :: "string \<Rightarrow> string \<Rightarrow> u64 \<Rightarrow> 'a BoundedStateStore \<Rightarrow> 'a BoundedStateStore \<times> 'a StoredState option" where
  "store_get local_key_id response_id now_ms s =
     (let s = store_prune now_ms s in (s, bt_get (bs_entries s) (local_key_id, response_id)))"

definition store_insert ::
  "('a \<Rightarrow> nat option) \<Rightarrow> string \<Rightarrow> string \<Rightarrow> string \<Rightarrow> 'a \<Rightarrow> u64 \<Rightarrow> 'a BoundedStateStore \<Rightarrow> 'a BoundedStateStore \<times> bool" where
  "store_insert serialized_size_bytes local_key_id response_id candidate_id state now_ms s0 =
     (let s = store_prune now_ms s0 in
      case serialized_size_bytes state of
        None \<Rightarrow> (s, False)
      | Some size_bytes \<Rightarrow>
          if bs_max_entries s = 0 \<or> bs_max_entry_bytes s = 0 \<or> bs_max_total_bytes s = 0
             \<or> size_bytes > bs_max_entry_bytes s \<or> size_bytes > bs_max_total_bytes s
          then (s, False)
          else
            let key = (local_key_id, response_id);
                s = (case bt_get (bs_entries s) key of
                  None \<Rightarrow> s
                | Some existing \<Rightarrow> s\<lparr>bs_entries := bt_remove key (bs_entries s),
                    bs_total_bytes := bs_total_bytes s - st_size_bytes existing\<rparr>)
            in (case store_make_room size_bytes s of
                 (s, False) \<Rightarrow> (s, False)
               | (s, True) \<Rightarrow>
                   (s\<lparr>bs_entries := bt_insert key
                        \<lparr>st_state = state, st_candidate_id = candidate_id, st_observed_at_ms = now_ms,
                         st_size_bytes = size_bytes\<rparr> (bs_entries s),
                      bs_total_bytes := usize_add (bs_total_bytes s) size_bytes\<rparr>, True)))"

datatype ContinuationError = ContinuationMissing | ContinuationMismatch

definition bridge_get ::
  "string \<Rightarrow> string \<Rightarrow> string \<Rightarrow> u64 \<Rightarrow> 'a BoundedStateStore \<Rightarrow> 'a BoundedStateStore \<times> (ContinuationError + 'a)" where
  "bridge_get local_key_id response_id candidate_id now_ms s =
     (case store_get local_key_id response_id now_ms s of
        (s, None) \<Rightarrow> (s, Inl ContinuationMissing)
      | (s, Some entry) \<Rightarrow>
          (s, if st_candidate_id entry \<noteq> candidate_id then Inl ContinuationMismatch else Inr (st_state entry)))"

definition replay_get ::
  "string \<Rightarrow> string \<Rightarrow> string \<Rightarrow> u64 \<Rightarrow> 'a BoundedStateStore \<Rightarrow> 'a BoundedStateStore \<times> 'a option" where
  "replay_get local_key_id response_id candidate_id now_ms s =
     (case store_get local_key_id response_id now_ms s of
        (s, entry) \<Rightarrow>
          (s, case entry of None \<Rightarrow> None
              | Some entry \<Rightarrow> if st_candidate_id entry = candidate_id then Some (st_state entry) else None))"

subsection \<open>The invariant\<close>

abbreviation bytes_of :: "(ReplayKey, 'a StoredState) btree_map \<Rightarrow> nat" where
  "bytes_of m \<equiv> bt_sum (\<lambda>_ e. st_size_bytes e) m"

definition store_wf :: "'a BoundedStateStore \<Rightarrow> bool" where
  "store_wf s \<longleftrightarrow> bs_total_bytes s = bytes_of (bs_entries s) \<and> bytes_of (bs_entries s) \<le> bs_max_total_bytes s
     \<and> bt_len (bs_entries s) \<le> bs_max_entries s \<and> bs_max_total_bytes s < usize_max
     \<and> (\<forall>k e. bt_get (bs_entries s) k = Some e \<longrightarrow> st_size_bytes e \<le> bs_max_entry_bytes s)"

lemma foldl_usize_add: "foldl (\<lambda>t e. usize_add t (f e)) a es = min (a + sum_list (map f es)) usize_max" if "a \<le> usize_max"
  using that by (induction es arbitrary: a) (auto simp: usize_add_def min_def)

lemma bytes_values: "sum_list (map st_size_bytes (bt_values m)) = bytes_of m"
  by (simp add: bt_sum_def bt_values_def comp_def)

lemma bytes_retain: "bytes_of (bt_retain P m) \<le> bytes_of m"
  by (simp add: bt_sum_def sum_list_filter_le_nat)

lemma store_prune_fields:
  "bs_max_entries (store_prune t s) = bs_max_entries s" "bs_ttl_ms (store_prune t s) = bs_ttl_ms s"
  "bs_max_entry_bytes (store_prune t s) = bs_max_entry_bytes s"
  "bs_max_total_bytes (store_prune t s) = bs_max_total_bytes s"
  "bs_entries (store_prune t s) = bt_retain (\<lambda>_ e. sat_sub t (st_observed_at_ms e) \<le> bs_ttl_ms s) (bs_entries s)"
  by (simp_all add: store_prune_def Let_def)

lemma prune_wf:
  assumes "store_wf s"
  shows "store_wf (store_prune t s)"
proof -
  have le: "bytes_of (bs_entries (store_prune t s)) \<le> bs_max_total_bytes s"
    using bytes_retain le_trans assms unfolding store_wf_def store_prune_fields by blast
  then have "bs_total_bytes (store_prune t s) = bytes_of (bs_entries (store_prune t s))"
    using assms by (simp add: store_prune_def Let_def foldl_usize_add bytes_values store_wf_def)
  moreover have "bt_len (bs_entries (store_prune t s)) \<le> bs_max_entries s"
    using bt_len_retain le_trans assms unfolding store_wf_def store_prune_fields by blast
  ultimately show ?thesis using assms le by (auto simp: store_wf_def store_prune_fields split: option.splits if_splits)
qed

lemma remove_wf:
  assumes "store_wf s" "bt_get (bs_entries s) k = Some e"
  shows "store_wf (s\<lparr>bs_entries := bt_remove k (bs_entries s), bs_total_bytes := bs_total_bytes s - st_size_bytes e\<rparr>)"
  using assms bt_sum_remove [of "\<lambda>_ e. st_size_bytes e" "bs_entries s" k]
  by (auto simp: store_wf_def bt_len_remove split: if_splits)

interpretation oldest: keyed_comparison
  "\<lambda>l r :: ReplayKey \<times> 'a StoredState. cmp (st_observed_at_ms (snd l)) (st_observed_at_ms (snd r))"
  "\<lambda>e. st_observed_at_ms (snd e)"
  by unfold_locales simp_all

lemma evict_cases:
  assumes "store_evict_oldest s = (s', ok)"
  obtains (empty) "bs_entries s = bt_empty" "\<not> ok" "s' = s"
  | (evicted) k e where ok "bt_get (bs_entries s) k = Some e"
      "s' = s\<lparr>bs_entries := bt_remove k (bs_entries s), bs_total_bytes := bs_total_bytes s - st_size_bytes e\<rparr>"
      "\<And>k' e'. bt_get (bs_entries s) k' = Some e' \<Longrightarrow> st_observed_at_ms e \<le> st_observed_at_ms e'"
proof (cases "min_by (\<lambda>l r. cmp (st_observed_at_ms (snd l)) (st_observed_at_ms (snd r))) (bt_entries (bs_entries s))")
  case None
  then have "bt_keys (bs_entries s) = []" by (simp add: bt_keys_def)
  then have "bs_entries s = bt_empty" by (simp only: bt_keys_Nil)
  moreover have "s' = s" "\<not> ok" using None assms by (auto simp: store_evict_oldest_def)
  ultimately show thesis by (intro empty)
next
  case (Some p)
  then obtain k e where p: "p = (k, e)" by (cases p)
  show thesis
  proof (rule evicted)
    show "bt_get (bs_entries s) k = Some e" using min_by_mem [OF Some] by (simp add: p bt_entries_iff)
    show "st_observed_at_ms e \<le> st_observed_at_ms e'" if "bt_get (bs_entries s) k' = Some e'" for k' e'
      using oldest.min_by_key [OF Some, of "(k', e')"] that by (simp add: p bt_entries_iff)
  qed (use assms Some p in \<open>auto simp: store_evict_oldest_def\<close>)
qed

text \<open>Making room succeeds, keeps a part of the entries, and gives up the older ones.\<close>

definition room_made :: "nat \<Rightarrow> 'a BoundedStateStore \<Rightarrow> 'a BoundedStateStore \<Rightarrow> bool" where
  "room_made size_bytes s s' \<longleftrightarrow> store_wf s' \<and> s' = s\<lparr>bs_entries := bs_entries s', bs_total_bytes := bs_total_bytes s'\<rparr>
     \<and> bt_len (bs_entries s') < bs_max_entries s \<and> bs_total_bytes s' + size_bytes \<le> bs_max_total_bytes s
     \<and> (\<forall>k e. bt_get (bs_entries s') k = Some e \<longrightarrow> bt_get (bs_entries s) k = Some e)
     \<and> (\<forall>k e k' e'. bt_get (bs_entries s) k = Some e \<longrightarrow> bt_get (bs_entries s') k = None \<longrightarrow>
          bt_get (bs_entries s') k' = Some e' \<longrightarrow> st_observed_at_ms e \<le> st_observed_at_ms e')"

lemma room_made_sub: "room_made n s m \<Longrightarrow> bt_get (bs_entries m) k = Some e \<Longrightarrow> bt_get (bs_entries s) k = Some e"
  unfolding room_made_def by blast

lemma room_made_evict:
  assumes "room_made n (s\<lparr>bs_entries := bt_remove k (bs_entries s), bs_total_bytes := b\<rparr>) s'"
    and "bt_get (bs_entries s) k = Some e"
    and "\<And>k' e'. bt_get (bs_entries s) k' = Some e' \<Longrightarrow> st_observed_at_ms e \<le> st_observed_at_ms e'"
  shows "room_made n s s'"
  using assms(1) unfolding room_made_def
proof (elim conjE, intro conjI allI impI)
  fix k1 e1 k2 e2
  assume sub: "\<forall>k' e. bt_get (bs_entries s') k' = Some e \<longrightarrow>
      bt_get (bs_entries (s\<lparr>bs_entries := bt_remove k (bs_entries s), bs_total_bytes := b\<rparr>)) k' = Some e"
    and old: "\<forall>k1 e1 k2 e2. bt_get (bs_entries (s\<lparr>bs_entries := bt_remove k (bs_entries s), bs_total_bytes := b\<rparr>)) k1 = Some e1 \<longrightarrow>
      bt_get (bs_entries s') k1 = None \<longrightarrow> bt_get (bs_entries s') k2 = Some e2 \<longrightarrow> st_observed_at_ms e1 \<le> st_observed_at_ms e2"
    and h: "bt_get (bs_entries s) k1 = Some e1" "bt_get (bs_entries s') k1 = None" "bt_get (bs_entries s') k2 = Some e2"
  show "st_observed_at_ms e1 \<le> st_observed_at_ms e2"
  proof (cases "k1 = k")
    case True
    have "bt_get (bs_entries s) k2 = Some e2"
      using sub [rule_format, OF h(3)] by (simp split: if_splits)
    then show ?thesis using True h(1) assms(2,3) by simp
  next
    case False
    then show ?thesis using old [rule_format, of k1 e1 k2 e2] h by simp
  qed
next
  fix k' e' assume "bt_get (bs_entries s') k' = Some e'"
  from room_made_sub [OF assms(1) this] show "bt_get (bs_entries s) k' = Some e'" by (simp split: if_splits)
qed auto

lemma make_room_spec:
  assumes "store_wf s" "0 < bs_max_entries s" "size_bytes \<le> bs_max_total_bytes s"
  shows "\<exists>s'. store_make_room size_bytes s = (s', True) \<and> room_made size_bytes s s'"
  using assms
proof (induction size_bytes s rule: store_make_room.induct)
  case (1 size_bytes s)
  show ?case
  proof (cases "bt_len (bs_entries s) \<ge> bs_max_entries s \<or> usize_add (bs_total_bytes s) size_bytes > bs_max_total_bytes s")
    case False
    then have "room_made size_bytes s s"
      using "1.prems" by (auto simp: room_made_def usize_add_def store_wf_def)
    then show ?thesis using False by (simp add: store_make_room.simps [of _ s])
  next
    case True
    obtain s1 ok where ev: "store_evict_oldest s = (s1, ok)" by (cases "store_evict_oldest s")
    then show ?thesis
    proof (cases rule: evict_cases)
      case empty
      then show ?thesis using True "1.prems" by (auto simp: usize_add_def store_wf_def)
    next
      case (evicted k e)
      have "store_wf s1" unfolding evicted(3) by (rule remove_wf [OF "1.prems"(1) evicted(2)])
      then obtain s' where s': "store_make_room size_bytes s1 = (s', True)" "room_made size_bytes s1 s'"
        using "1.IH" [OF True ev [symmetric]] "1.prems" evicted(1,3) by auto
      have "room_made size_bytes s s'" using room_made_evict [OF s'(2) [unfolded evicted(3)] evicted(2,4)] .
      then show ?thesis using s'(1) True ev evicted(1) by (auto simp: store_make_room.simps [of _ s])
    qed
  qed
qed

lemma insert_new_wf:
  assumes "store_wf s" "bt_get (bs_entries s) k = None" "bt_len (bs_entries s) < bs_max_entries s"
    and "bs_total_bytes s + n \<le> bs_max_total_bytes s" "st_size_bytes e = n" "n \<le> bs_max_entry_bytes s"
  shows "store_wf (s\<lparr>bs_entries := bt_insert k e (bs_entries s), bs_total_bytes := usize_add (bs_total_bytes s) n\<rparr>)"
proof -
  have "bytes_of (bt_insert k e (bs_entries s)) = bytes_of (bs_entries s) + n"
    using assms(2,5) bt_sum_insert [of "\<lambda>_ e. st_size_bytes e" k e "bs_entries s"]
      bt_sum_remove [of "\<lambda>_ e. st_size_bytes e" "bs_entries s" k] by simp
  then show ?thesis using assms by (auto simp: store_wf_def bt_len_insert usize_add_def split: if_splits)
qed

text \<open>An insertion is accepted exactly when the state serialises within positive limits.\<close>

definition fits :: "nat \<Rightarrow> 'a BoundedStateStore \<Rightarrow> bool" where
  "fits n s \<longleftrightarrow> 0 < bs_max_entries s \<and> 0 < bs_max_entry_bytes s \<and> 0 < bs_max_total_bytes s
     \<and> n \<le> bs_max_entry_bytes s \<and> n \<le> bs_max_total_bytes s"

definition stored_of :: "'a \<Rightarrow> string \<Rightarrow> u64 \<Rightarrow> nat \<Rightarrow> 'a StoredState" where
  "stored_of state candidate_id now_ms n =
     \<lparr>st_state = state, st_candidate_id = candidate_id, st_observed_at_ms = now_ms, st_size_bytes = n\<rparr>"

definition same_limits :: "'a BoundedStateStore \<Rightarrow> 'a BoundedStateStore \<Rightarrow> bool" where
  "same_limits s s' \<longleftrightarrow> bs_max_entries s' = bs_max_entries s \<and> bs_ttl_ms s' = bs_ttl_ms s
     \<and> bs_max_entry_bytes s' = bs_max_entry_bytes s \<and> bs_max_total_bytes s' = bs_max_total_bytes s"

abbreviation put :: "ReplayKey \<Rightarrow> 'a StoredState \<Rightarrow> nat \<Rightarrow> 'a BoundedStateStore \<Rightarrow> 'a BoundedStateStore" where
  "put k e n s \<equiv> s\<lparr>bs_entries := bt_insert k e (bs_entries s), bs_total_bytes := usize_add (bs_total_bytes s) n\<rparr>"

text \<open>The store an insertion makes room in: pruned, and without the entry it replaces.\<close>

definition cleared :: "ReplayKey \<Rightarrow> u64 \<Rightarrow> 'a BoundedStateStore \<Rightarrow> 'a BoundedStateStore" where
  "cleared key t s = (case bt_get (bs_entries (store_prune t s)) key of
       None \<Rightarrow> store_prune t s
     | Some e \<Rightarrow> (store_prune t s)\<lparr>bs_entries := bt_remove key (bs_entries (store_prune t s)),
          bs_total_bytes := bs_total_bytes (store_prune t s) - st_size_bytes e\<rparr>)"

lemma cleared_simps:
  "bt_get (bs_entries (cleared key t s)) k = (if k = key then None else bt_get (bs_entries (store_prune t s)) k)"
  "same_limits s (cleared key t s)"
  by (auto simp: cleared_def same_limits_def store_prune_fields(1-4) split: option.splits)

lemma cleared_wf: "store_wf s \<Longrightarrow> store_wf (cleared key t s)"
  using prune_wf [of s t] remove_wf [OF prune_wf [of s t], of key] by (auto simp: cleared_def split: option.splits)

lemma room_made_limits: "room_made n s m \<Longrightarrow> same_limits s m"
  unfolding room_made_def same_limits_def
  by (metis BoundedStateStore.select_convs(2-5) BoundedStateStore.surjective BoundedStateStore.update_convs(1,6))

lemma insert_rejected:
  assumes "\<And>n. bytes state = Some n \<Longrightarrow> \<not> fits n s"
  shows "store_insert bytes lk r c state t s = (store_prune t s, False)"
  using assms by (fastforce simp: store_insert_def Let_def fits_def store_prune_fields split: option.splits)

lemma insert_accepted:
  assumes wf: "store_wf s" and size: "bytes state = Some n" and fit: "fits n s"
  shows "\<exists>m. store_insert bytes lk r c state t s = (put (lk, r) (stored_of state c t n) n m, True)
    \<and> room_made n (cleared (lk, r) t s) m \<and> same_limits s m \<and> bt_get (bs_entries m) (lk, r) = None"
proof -
  let ?q = "cleared (lk, r) t s"
  obtain m where m: "store_make_room n ?q = (m, True)" "room_made n ?q m"
    using make_room_spec [OF cleared_wf [OF wf], of "(lk, r)" t n] cleared_simps(2) [of s "(lk, r)" t] fit
    by (auto simp: same_limits_def fits_def)
  have "store_insert bytes lk r c state t s = (put (lk, r) (stored_of state c t n) n m, True)"
    using m(1) size fit
    by (simp add: store_insert_def Let_def fits_def store_prune_fields(1-4) stored_of_def flip: cleared_def)
  moreover have "bt_get (bs_entries m) (lk, r) = None"
    using room_made_sub [OF m(2), of "(lk, r)"]
    by (cases "bt_get (bs_entries m) (lk, r)") (simp_all add: cleared_simps)
  moreover have "same_limits s m"
    using room_made_limits [OF m(2)] cleared_simps(2) [of s "(lk, r)" t] by (simp add: same_limits_def)
  ultimately show ?thesis using m(2) by blast
qed

lemma insert_cases:
  assumes "store_wf s" "store_insert bytes lk r c state t s = (s', stored)"
  obtains (rejected) "\<not> (\<exists>n. bytes state = Some n \<and> fits n s)" "\<not> stored" "s' = store_prune t s"
  | (accepted) n m where "bytes state = Some n" "fits n s" stored "s' = put (lk, r) (stored_of state c t n) n m"
      "room_made n (cleared (lk, r) t s) m" "same_limits s m" "bt_get (bs_entries m) (lk, r) = None"
proof (cases "\<exists>n. bytes state = Some n \<and> fits n s")
  case True
  then obtain n where n: "bytes state = Some n" "fits n s" by blast
  show thesis using insert_accepted [of s bytes state n lk r c t, OF assms(1) n] assms(2) n by (auto intro: accepted)
next
  case False
  then show thesis using insert_rejected [of bytes state s] assms(2) by (intro rejected) auto
qed

lemma insert_wf:
  assumes "store_wf s"
  shows "store_wf (fst (store_insert bytes lk r c state t s)) \<and> same_limits s (fst (store_insert bytes lk r c state t s))"
proof -
  obtain s' ok where ins: "store_insert bytes lk r c state t s = (s', ok)" by fastforce
  with assms show ?thesis
  proof (cases rule: insert_cases)
    case rejected
    then show ?thesis using prune_wf [OF assms] by (simp add: ins same_limits_def store_prune_fields(1-4))
  next
    case (accepted n m)
    have "store_wf (put (lk, r) (stored_of state c t n) n m)"
      using accepted cleared_simps(2) [of s "(lk, r)" t]
      by (intro insert_new_wf) (simp_all add: room_made_def same_limits_def fits_def stored_of_def)
    then show ?thesis using accepted(4,6) by (simp add: ins same_limits_def)
  qed
qed

subsection \<open>Reachable stores\<close>

inductive store_step :: "('a \<Rightarrow> nat option) \<Rightarrow> 'a BoundedStateStore \<Rightarrow> 'a BoundedStateStore \<Rightarrow> bool"
  for bytes where
  step_lookup: "store_step bytes s (fst (store_get lk r t s))"
| step_insert: "store_step bytes s (fst (store_insert bytes lk r c state t s))"

lemma get_wf: "store_wf s \<Longrightarrow> store_wf (fst (store_get lk r t s)) \<and> same_limits s (fst (store_get lk r t s))"
  by (simp add: store_get_def Let_def prune_wf same_limits_def store_prune_fields(1-4))

lemma step_wf: "store_step bytes s s' \<Longrightarrow> store_wf s \<Longrightarrow> store_wf s' \<and> same_limits s s'"
  by (cases rule: store_step.cases) (auto simp: get_wf insert_wf)

interpretation continuations: step_invariant "store_step bytes" "bounded_state_store n ttl m cap"
    "\<lambda>s. cap < usize_max \<longrightarrow> same_limits (bounded_state_store n ttl m cap) s \<and> store_wf s"
  for bytes n ttl m cap
proof unfold_locales
  show "cap < usize_max \<longrightarrow> same_limits (bounded_state_store n ttl m cap) (bounded_state_store n ttl m cap)
      \<and> store_wf (bounded_state_store n ttl m cap)"
    by (simp add: same_limits_def store_wf_def bounded_state_store_def)
qed (auto simp: same_limits_def dest: step_wf)

subsection \<open>Correctness\<close>

definition sample_store :: "string BoundedStateStore" where
  "sample_store = fst (store_insert (\<lambda>v. Some (length v)) ''key'' ''resp-1'' ''cand'' ''abc'' 10
     (bounded_state_store 2 100 4 6))"

definition sample_fuller :: "string BoundedStateStore" where
  "sample_fuller = fst (store_insert (\<lambda>v. Some (length v)) ''key'' ''resp-2'' ''cand'' ''def'' 20 sample_store)"

lemma sample_reach:
  "reach (store_step (\<lambda>v. Some (length v))) (bounded_state_store 2 100 4 6) sample_store"
  "reach (store_step (\<lambda>v. Some (length v))) (bounded_state_store 2 100 4 6) sample_fuller"
proof -
  show r: "reach (store_step (\<lambda>v. Some (length v))) (bounded_state_store 2 100 4 6) sample_store"
    unfolding sample_store_def by (rule reach.step) (rule reach.start, rule step_insert)
  show "reach (store_step (\<lambda>v. Some (length v))) (bounded_state_store 2 100 4 6) sample_fuller"
    unfolding sample_fuller_def by (rule reach.step) (rule r, rule step_insert)
qed

text \<open>
  C27 (invariant). Whatever sequence of lookups and insertions a store has gone through, it holds at
  most its maximal number of entries, its byte counter is exactly the sum of the sizes stored, that
  sum stays within the total limit and every entry within the entry limit (for a total limit below
  \<open>usize::MAX\<close>, where the saturating sum cannot hide an excess).
\<close>

theorem continuation_store_bounded:
  assumes "reach (store_step bytes) (bounded_state_store n ttl m cap) s" "cap < usize_max"
  shows "bt_len (bs_entries s) \<le> n \<and> bs_total_bytes s = (\<Sum>k \<in> dom (bt_get (bs_entries s)). st_size_bytes (the (bt_get (bs_entries s) k)))
    \<and> bs_total_bytes s \<le> cap \<and> (bt_get (bs_entries s) k = Some e \<longrightarrow> st_size_bytes e \<le> m)"
proof -
  have wf: "store_wf s" and lim: "bs_max_entries s = n" "bs_max_entry_bytes s = m" "bs_max_total_bytes s = cap"
    using continuations.holds [OF assms(1)] assms(2) by (simp_all add: same_limits_def bounded_state_store_def)
  show ?thesis
  proof (intro conjI impI)
    show "st_size_bytes e \<le> m" if "bt_get (bs_entries s) k = Some e"
      using wf that unfolding store_wf_def lim by blast
  qed (use wf lim in \<open>simp_all add: store_wf_def bt_sum_dom\<close>)
qed

theorem continuation_store_bounded_witness:
  "bt_len (bs_entries sample_fuller) \<le> 2 \<and> bs_total_bytes sample_fuller \<le> 6"
  using continuation_store_bounded [OF sample_reach(2), of "(''key'', ''resp-1'')" undefined] by (simp add: usize_max_def)

text \<open>
  An insertion succeeds exactly when the state serialises within positive limits;
  after it the client that continues the response on the same candidate gets that state back as long
  as the retention time has not passed since the insertion, a continuation on another candidate is a
  mismatch, and after the retention time the continuation is missing.
\<close>

lemma continuation_roundtrip:
  assumes "store_wf s" "store_insert bytes lk r c state t s = (s', stored)"
  shows "(stored \<longleftrightarrow> (\<exists>n. bytes state = Some n \<and> fits n s)) \<and>
    (stored \<longrightarrow> snd (bridge_get lk r c' t' s') =
      (if bs_ttl_ms s < sat_sub t' t then Inl ContinuationMissing
       else if c' = c then Inr state else Inl ContinuationMismatch))"
  using assms
proof (cases rule: insert_cases)
  case (accepted n m)
  then show ?thesis
    by (auto simp: bridge_get_def store_get_def Let_def store_prune_fields stored_of_def same_limits_def not_less)
qed simp

lemma sample_wf: "store_wf sample_store" "bs_max_entries sample_store = 2" "bs_ttl_ms sample_store = 100"
  "bs_max_entry_bytes sample_store = 4" "bs_max_total_bytes sample_store = 6"
  using continuations.holds [OF sample_reach(1)]
  by (simp_all add: usize_max_def same_limits_def bounded_state_store_def)

text \<open>
  An insertion gives up stored states in the order of their age: a state of another
  response that was still retained and is gone after the insertion is no newer than any state of
  another response that is kept, and every state kept is the one that was stored.
\<close>

lemma continuation_evicts_oldest:
  assumes "store_wf s" "store_insert bytes lk r c state t s = (s', stored)"
    and "bt_get (bs_entries s) k = Some e" "sat_sub t (st_observed_at_ms e) \<le> bs_ttl_ms s"
    and "k \<noteq> (lk, r)" "bt_get (bs_entries s') k = None"
    and "bt_get (bs_entries s') k' = Some e'" "k' \<noteq> (lk, r)"
  shows "bt_get (bs_entries s) k' = Some e' \<and> st_observed_at_ms e \<le> st_observed_at_ms e'"
  using assms(1,2)
proof (cases rule: insert_cases)
  case (accepted n m)
  have k: "bt_get (bs_entries m) k = None" "bt_get (bs_entries m) k' = Some e'"
    using accepted(4) assms(5-8) by auto
  have "bt_get (bs_entries (cleared (lk, r) t s)) k = Some e"
    using assms(3-5) by (simp add: cleared_simps store_prune_fields)
  then have "st_observed_at_ms e \<le> st_observed_at_ms e'"
    using accepted(5) k unfolding room_made_def by blast
  moreover have "bt_get (bs_entries s) k' = Some e'"
    using room_made_sub [OF accepted(5) k(2)] assms(8)
    by (simp add: cleared_simps store_prune_fields split: option.splits if_splits)
  ultimately show ?thesis by blast
next
  case rejected
  then show ?thesis using assms(3,4,6) by (simp add: store_prune_fields)
qed

end
