(* ===== verification/Upstream_Errors.thy ===== *)
theory Upstream_Errors
  imports Rust_Numbers
begin

section \<open>Upstream errors (\<open>gateway/errors.rs\<close>, \<open>errors/failure.rs\<close>, \<open>errors/response.rs\<close>)\<close>

text \<open>
  How the gateway reads an upstream's failure: the category of an error from its status and text,
  the canonical status and message of a category, what of an upstream's own message may be shown to
  a client, and whether a failure is retried or counted against the candidate. A category is the
  string the source has. \<open>serde_json\<close> and \<open>http\<close> are third-party: a JSON document is a value of an
  arbitrary type with the accessors of the record \<open>serde\<close>, and a status is its number, a client
  error between 400 and 499 and a server error between 500 and 599.
\<close>

subsection \<open>Statuses and JSON\<close>

type_synonym StatusCode = u16

abbreviation BAD_REQUEST :: StatusCode where "BAD_REQUEST \<equiv> 400"
abbreviation UNAUTHORIZED :: StatusCode where "UNAUTHORIZED \<equiv> 401"
abbreviation PAYMENT_REQUIRED :: StatusCode where "PAYMENT_REQUIRED \<equiv> 402"
abbreviation FORBIDDEN :: StatusCode where "FORBIDDEN \<equiv> 403"
abbreviation NOT_FOUND :: StatusCode where "NOT_FOUND \<equiv> 404"
abbreviation NOT_ACCEPTABLE :: StatusCode where "NOT_ACCEPTABLE \<equiv> 406"
abbreviation REQUEST_TIMEOUT :: StatusCode where "REQUEST_TIMEOUT \<equiv> 408"
abbreviation CONFLICT :: StatusCode where "CONFLICT \<equiv> 409"
abbreviation PAYLOAD_TOO_LARGE :: StatusCode where "PAYLOAD_TOO_LARGE \<equiv> 413"
abbreviation UPGRADE_REQUIRED :: StatusCode where "UPGRADE_REQUIRED \<equiv> 426"
abbreviation TOO_MANY_REQUESTS :: StatusCode where "TOO_MANY_REQUESTS \<equiv> 429"
abbreviation INTERNAL_SERVER_ERROR :: StatusCode where "INTERNAL_SERVER_ERROR \<equiv> 500"
abbreviation BAD_GATEWAY :: StatusCode where "BAD_GATEWAY \<equiv> 502"
abbreviation SERVICE_UNAVAILABLE :: StatusCode where "SERVICE_UNAVAILABLE \<equiv> 503"
abbreviation GATEWAY_TIMEOUT :: StatusCode where "GATEWAY_TIMEOUT \<equiv> 504"

definition is_client_error :: "StatusCode \<Rightarrow> bool" where
  "is_client_error status \<longleftrightarrow> 400 \<le> status \<and> status < 500"

definition is_server_error :: "StatusCode \<Rightarrow> bool" where
  "is_server_error status \<longleftrightarrow> 500 \<le> status \<and> status < 600"

record 'json serde =
  js_from_slice :: "string \<Rightarrow> 'json option"
  js_to_string :: "'json \<Rightarrow> string"
  js_pointer :: "'json \<Rightarrow> string \<Rightarrow> 'json option"
  js_get :: "'json \<Rightarrow> string \<Rightarrow> 'json option"
  js_as_str :: "'json \<Rightarrow> string option"
  js_as_u64 :: "'json \<Rightarrow> u64 option"
  js_as_f64 :: "'json \<Rightarrow> f64 option"

definition pointer_strs :: "'json serde \<Rightarrow> 'json \<Rightarrow> string list \<Rightarrow> string list" where
  "pointer_strs js value paths = List.map_filter (\<lambda>path. Option.bind (js_pointer js value path) (js_as_str js)) paths"

subsection \<open>Error text\<close>

definition error_text_paths :: "string list" where
  "error_text_paths = [''/code'', ''/type'', ''/message'', ''/msg'', ''/err'', ''/error_msg'', ''/detail'', ''/error_code'',
      ''/error'', ''/error/code'', ''/error/type'', ''/error/message'', ''/error/detail'', ''/body/code'',
      ''/body/type'', ''/body/message'', ''/body/error'', ''/body/error/code'', ''/body/error/type'',
      ''/body/error/message'', ''/response/code'', ''/response/type'', ''/response/message'',
      ''/response/error'', ''/response/error/code'', ''/response/error/type'', ''/response/error/message'',
      ''/response/incomplete_details/reason'', ''/header/message'']"

definition push_error_text :: "string \<Rightarrow> string \<Rightarrow> string" where
  "push_error_text text value =
     (if text = [] then text else text @ '' '') @ to_ascii_lowercase (take_chars 4096 value)"

definition upstream_error_text :: "'json serde \<Rightarrow> 'json \<Rightarrow> string" where
  "upstream_error_text js value = foldl push_error_text [] (pointer_strs js value error_text_paths)"

definition normalized_error_text :: "string \<Rightarrow> string" where
  "normalized_error_text bytes = to_ascii_lowercase (take_chars 4096 (from_utf8_lossy bytes))"

definition text_has_any :: "string \<Rightarrow> string list \<Rightarrow> bool" where
  "text_has_any text values = list_ex (contains_str text) values"

definition status_paths :: "string list" where
  "status_paths = [''/status'', ''/status_code'', ''/error/status'', ''/error/status_code'', ''/body/status'',
      ''/body/status_code'', ''/body/error/status'', ''/body/error/status_code'', ''/response/status'',
      ''/response/status_code'', ''/response/error/status'', ''/response/error/status_code'']"

definition status_of_value :: "'json serde \<Rightarrow> 'json \<Rightarrow> StatusCode option" where
  "status_of_value js value =
     (case (case js_as_u64 js value of
          Some status \<Rightarrow> Some status
        | None \<Rightarrow> Option.bind (js_as_str js value) (\<lambda>status. parse_u64 (trim status))) of
        None \<Rightarrow> None
      | Some status \<Rightarrow> if 100 \<le> status \<and> status < 1000 then Some (ucast status) else None)"

definition upstream_status_from_value :: "'json serde \<Rightarrow> 'json \<Rightarrow> StatusCode option" where
  "upstream_status_from_value js value =
     (case List.map_filter (\<lambda>path. Option.bind (js_pointer js value path) (status_of_value js)) status_paths of
        [] \<Rightarrow> None | status # _ \<Rightarrow> Some status)"

subsection \<open>Classification\<close>

record UpstreamErrorClassification =
  ec_category :: string
  ec_message :: string

definition classify_continuation_text :: "StatusCode \<Rightarrow> string \<Rightarrow> string option" where
  "classify_continuation_text status text =
     (if text_has_any text [''response_continuation_unavailable'',
            ''responses continuation route is unknown'',
            ''responses continuation is bound to a provider slot'',
            ''responses continuation requires the same native provider endpoint'']
        then Some ''response_affinity_miss''
      else if text_has_any text [''refresh_token_reused'']
        then Some ''upstream_refresh_token_reused''
      else if text_has_any text [''previous_response_not_found'', ''invalid_previous_response_id'',
            ''previous response not found'', ''no response found for previous_response_id'',
            ''unknown or expired previous_response_id'']
        then Some ''upstream_previous_response_not_found''
      else if text_has_any text [''phone_verification_required'', ''phone number verification required'',
            ''verify your phone number'', ''account_verification_required'',
            ''account verification required'', ''verify your account'', ''account must be verified'']
        then Some ''upstream_account_verification_required''
      else if text_has_any text [''tool_call_not_found'', ''no tool call found for'', ''no matching tool call'',
            ''tool call output does not match'', ''unanswered_function_call'',
            ''no tool output found for function call'', ''no tool output found for custom tool call'',
            ''no tool output found for apply patch call'']
        then Some ''upstream_tool_call_mismatch''
      else if text_has_any text [''context_length_exceeded'', ''context_window_exceeded'',
            ''context_too_large'', ''maximum context length'', ''max context length'']
            \<or> (contains_str text ''context window'' \<and> text_has_any text [''exceed'', ''too large'',
            ''too long'']) \<or> (contains_str text ''context length'' \<and> text_has_any text [''exceed'',
            ''too large'', ''too long''])
        then Some ''upstream_context_too_large''
      else if text_has_any text [''invalid_encrypted_content'', ''thinking_signature_invalid'',
            ''invalid signature in thinking block'', ''encrypted content could not be verified'']
        then Some ''upstream_encrypted_content_invalid''
      else if text_has_any text [''instructions are required'',
            ''required parameter: '' @ [CHR 0x27] @ ''instructions'' @ [CHR 0x27],
            ''required parameter: instructions'']
        then Some ''upstream_instructions_required''
      else None)"

definition classify_account_text :: "StatusCode \<Rightarrow> string \<Rightarrow> string option" where
  "classify_account_text status text =
     (if text_has_any text [''account_deactivated'', ''account_disabled'', ''account_expired'',
            ''organization_deactivated'', ''organization_disabled'', ''project_deactivated'',
            ''deactivated_workspace'', ''workspace_disabled'', ''workspace_expired'',
            ''workspace_terminated'', ''account has been deactivated'', ''account is disabled'']
        then Some ''upstream_account_disabled''
      else if text_has_any text [''usage_not_included'', ''not included in your plan'',
            ''subscription does not include'']
        then Some ''upstream_usage_not_included''
      else if text_has_any text [''insufficient_quota'', ''usage_limit_reached'', ''usage_limit_exceeded'',
            ''usage limit reached'', ''quota_exhausted'', ''quota exceeded'',
            ''billing_hard_limit_reached'', ''credit_balance_exhausted'', ''credits_exhausted'',
            ''credits exhausted'', ''exceeded your current quota'', ''out of credits'',
            ''add credits to continue''] \<or> status = PAYMENT_REQUIRED
        then Some ''upstream_quota_exhausted''
      else if text_has_any text [''invalid_api_key'', ''authentication_error'', ''invalid authentication'',
            ''invalid bearer token'', ''expired_token'', ''token_expired'', ''token_invalidated'',
            ''token_revoked'', ''invalid or expired token'', ''invalid_grant''] \<or> status = UNAUTHORIZED
        then Some ''upstream_unauthorized''
      else None)"

definition classify_request_text :: "StatusCode \<Rightarrow> string \<Rightarrow> string option" where
  "classify_request_text status text =
     (if text_has_any text [''unsupported_country_region_territory'', ''country_not_supported'',
            ''region_not_supported'', ''country, region, or territory not supported'']
        then Some ''upstream_region_unsupported''
      else if text_has_any text [''content_policy_violation'', ''content_filter'', ''policy_violation'',
            ''safety_violation'', ''cyber_policy'', ''bio_policy'', ''content_moderation_failed'']
        then Some ''upstream_content_policy''
      else if text_has_any text [''invalid_prompt'', ''invalid call_id for function_call_output'',
            ''invalid call id for function_call_output'', ''invalid_call_id_for_function_call_output'',
            ''invalid_function_call_output_call_id'']
            \<or> (contains_str text ''input['' \<and> contains_str text ''.id'' \<and> text_has_any text [''expected an id that begins with '' @ [CHR 0x27] @ ''fc'' @ [CHR 0x27],
            ''expected an id that begins with '' @ [CHR 0x27] @ ''ctc'' @ [CHR 0x27],
            ''expected an id that begins with '' @ [CHR 0x27] @ ''ctc_'' @ [CHR 0x27],
            ''expected an id that starts with '' @ [CHR 0x27] @ ''ctc'' @ [CHR 0x27],
            ''expected an id that begins with '' @ [CHR 0x27] @ ''msg'' @ [CHR 0x27]])
        then Some ''upstream_invalid_request''
      else if status = PAYLOAD_TOO_LARGE \<or> text_has_any text [''request_too_large'', ''payload_too_large'',
            ''content_too_large'', ''request body too large'', ''length limit exceeded'']
        then Some ''upstream_payload_too_large''
      else if text_has_any text [''unsupported_parameter'', ''unsupported_value'', ''invalid_parameter'',
            ''parameter_not_supported'']
        then Some ''upstream_unsupported_request''
      else None)"

definition classify_service_text :: "StatusCode \<Rightarrow> string \<Rightarrow> string option" where
  "classify_service_text status text =
     (if text_has_any text [''model_at_capacity'', ''selected model is at capacity'',
            ''model is at capacity'']
        then Some ''upstream_model_capacity''
      else if text_has_any text [''model_not_found'', ''model_not_available'']
        then Some ''upstream_model_not_found''
      else if status = NOT_ACCEPTABLE \<or> text_has_any text [''model_not_supported'',
            ''requested model is not supported'',
            ''model is not supported when using codex with a chatgpt account'',
            ''is not currently available for this chatgpt account'']
            \<or> (contains_str text ''model'' \<and> contains_str text ''does not exist or you do not have access to it'')
        then Some ''upstream_model_unsupported''
      else if status = UPGRADE_REQUIRED \<or> text_has_any text [''websocket_not_supported'',
            ''websocket_unsupported'']
        then Some ''upstream_websocket_unsupported''
      else if contains_str text ''websocket_connection_limit_reached''
        then Some ''upstream_websocket_connection_limit''
      else if text_has_any text [''rate_limit_exceeded'', ''rate_limit_error'', ''rate_limit_reached'',
            ''rate limit reached'', ''rate limit exceeded'', ''too many requests'']
        then Some ''upstream_rate_limited''
      else if status = 529 \<or> text_has_any text [''server_is_overloaded'', ''server_overloaded'',
            ''overloaded'', ''slow_down'', ''slow down'']
        then Some ''upstream_overloaded''
      else if text_has_any text [''service_unavailable'', ''temporarily unavailable'']
        then Some ''upstream_unavailable''
      else if text_has_any text [''internal_server_error'', ''server_error'',
            ''an error occurred while processing your request'']
            \<or> (contains_str text ''you can retry your request'' \<and> contains_str text ''request id'')
        then Some ''upstream_server_error''
      else None)"

definition classify_status :: "StatusCode \<Rightarrow> string \<Rightarrow> string" where
  "classify_status status text =
     (if status = FORBIDDEN \<and> text_has_any text [''cf-mitigated'', ''cf-chl-bypass'', ''_cf_chl'',
            ''cf_chl'', ''attention required'', ''just a moment''] then ''upstream_edge_challenge''
      else if status = FORBIDDEN then ''upstream_forbidden''
      else if status = NOT_FOUND then ''upstream_not_found''
      else if status = REQUEST_TIMEOUT then ''upstream_request_timeout''
      else if status = CONFLICT then ''upstream_conflict''
      else if status = TOO_MANY_REQUESTS then ''upstream_rate_limited''
      else if status = INTERNAL_SERVER_ERROR then ''upstream_server_error''
      else if status = BAD_GATEWAY then ''upstream_bad_gateway''
      else if status = SERVICE_UNAVAILABLE then ''upstream_unavailable''
      else if status = GATEWAY_TIMEOUT then ''upstream_gateway_timeout''
      else if is_client_error status then ''upstream_candidate_rejected''
      else if is_server_error status then ''upstream_server_error''
      else ''upstream_status'')"

definition upstream_failure_message :: "string \<Rightarrow> string" where
  "upstream_failure_message category =
    (case map_of
     [(''response_affinity_miss'', ''Responses continuation route is unavailable''),
      (''upstream_previous_response_not_found'', ''previous response is unavailable''),
      (''upstream_tool_call_mismatch'', ''tool output does not match an active tool call''),
      (''upstream_context_too_large'', ''request context exceeds the model limit''),
      (''upstream_encrypted_content_invalid'', ''encrypted reasoning context is invalid''),
      (''upstream_instructions_required'', ''upstream requires request instructions''),
      (''upstream_usage_not_included'', ''upstream account plan does not include this capability''),
      (''upstream_quota_exhausted'', ''upstream usage quota is exhausted''),
      (''upstream_account_verification_required'', ''upstream account verification is required''),
      (''upstream_account_disabled'', ''upstream account is disabled''),
      (''upstream_unauthorized'', ''upstream authentication failed''),
      (''upstream_region_unsupported'', ''upstream rejected the request region''),
      (''upstream_content_policy'', ''upstream content policy rejected the request''),
      (''upstream_payload_too_large'', ''upstream rejected the request size''),
      (''upstream_unsupported_request'', ''upstream does not support this request''),
      (''upstream_model_not_found'', ''upstream model is unavailable''),
      (''upstream_model_unsupported'', ''upstream does not support this model''),
      (''upstream_model_capacity'', ''upstream model is at capacity''),
      (''upstream_websocket_unsupported'', ''upstream does not support WebSocket requests''),
      (''upstream_websocket_connection_limit'', ''upstream WebSocket connection limit was reached''),
      (''upstream_rate_limited'', ''upstream rate limit was reached''),
      (''upstream_edge_challenge'', ''upstream edge security challenged the request''),
      (''upstream_forbidden'', ''upstream access was forbidden''),
      (''upstream_not_found'', ''upstream resource was not found''),
      (''upstream_request_timeout'', ''upstream request timed out''),
      (''upstream_conflict'', ''upstream request conflicted with current state''),
      (''upstream_invalid_request'', ''upstream rejected the request''),
      (''upstream_candidate_rejected'', ''upstream source rejected this model request''),
      (''upstream_overloaded'', ''upstream service is overloaded''),
      (''upstream_server_error'', ''upstream service failed''),
      (''upstream_bad_gateway'', ''upstream gateway failed''),
      (''upstream_unavailable'', ''upstream service is unavailable''),
      (''upstream_gateway_timeout'', ''upstream gateway timed out'')] category of
       Some value \<Rightarrow> value | None \<Rightarrow> ''all eligible upstream sources failed'')"

definition upstream_failure_status :: "string \<Rightarrow> StatusCode" where
  "upstream_failure_status category =
    (case map_of
     [(''upstream_unauthorized'', UNAUTHORIZED),
      (''upstream_account_disabled'', FORBIDDEN),
      (''upstream_account_verification_required'', FORBIDDEN),
      (''upstream_forbidden'', FORBIDDEN),
      (''upstream_region_unsupported'', FORBIDDEN),
      (''upstream_usage_not_included'', FORBIDDEN),
      (''upstream_quota_exhausted'', TOO_MANY_REQUESTS),
      (''upstream_rate_limited'', TOO_MANY_REQUESTS),
      (''upstream_websocket_connection_limit'', TOO_MANY_REQUESTS),
      (''upstream_model_not_found'', NOT_FOUND),
      (''upstream_not_found'', NOT_FOUND),
      (''upstream_model_unsupported'', NOT_ACCEPTABLE),
      (''upstream_websocket_unsupported'', UPGRADE_REQUIRED),
      (''upstream_request_timeout'', REQUEST_TIMEOUT),
      (''upstream_conflict'', CONFLICT),
      (''upstream_payload_too_large'', PAYLOAD_TOO_LARGE),
      (''response_affinity_miss'', BAD_REQUEST),
      (''upstream_previous_response_not_found'', BAD_REQUEST),
      (''upstream_tool_call_mismatch'', BAD_REQUEST),
      (''upstream_context_too_large'', BAD_REQUEST),
      (''upstream_encrypted_content_invalid'', BAD_REQUEST),
      (''upstream_instructions_required'', BAD_REQUEST),
      (''upstream_content_policy'', BAD_REQUEST),
      (''upstream_unsupported_request'', BAD_REQUEST),
      (''upstream_invalid_request'', BAD_REQUEST),
      (''upstream_candidate_rejected'', SERVICE_UNAVAILABLE),
      (''upstream_model_capacity'', SERVICE_UNAVAILABLE),
      (''upstream_overloaded'', SERVICE_UNAVAILABLE),
      (''upstream_unavailable'', SERVICE_UNAVAILABLE),
      (''upstream_edge_challenge'', SERVICE_UNAVAILABLE),
      (''upstream_server_error'', INTERNAL_SERVER_ERROR),
      (''upstream_gateway_timeout'', GATEWAY_TIMEOUT)] category of
       Some value \<Rightarrow> value | None \<Rightarrow> BAD_GATEWAY)"

definition classify_category :: "StatusCode \<Rightarrow> string \<Rightarrow> string" where
  "classify_category status text =
     (case classify_continuation_text status text of Some category \<Rightarrow> category | None \<Rightarrow>
      (case classify_account_text status text of Some category \<Rightarrow> category | None \<Rightarrow>
       (case classify_request_text status text of Some category \<Rightarrow> category | None \<Rightarrow>
        (case classify_service_text status text of Some category \<Rightarrow> category | None \<Rightarrow>
         classify_status status text))))"

definition classify_upstream_error_text :: "StatusCode \<Rightarrow> string \<Rightarrow> UpstreamErrorClassification" where
  "classify_upstream_error_text status text =
     (let category = classify_category status text
      in \<lparr>ec_category = category, ec_message = upstream_failure_message category\<rparr>)"

definition canonical_upstream_status :: "StatusCode \<Rightarrow> string \<Rightarrow> StatusCode" where
  "canonical_upstream_status status category =
     (if category = ''upstream_status'' then status else upstream_failure_status category)"

definition gateway_message_paths :: "string list" where
  "gateway_message_paths = [''/error/message'', ''/response/error/message'', ''/body/error/message'', ''/message'',
      ''/response/message'', ''/body/message'']"

definition zenith_invalid_request_message :: string where
  "zenith_invalid_request_message =
     ''Zenith AI request is invalid. Check the model, messages, tools, and parameters.''"

definition zenith_gateway_invalid_request_value :: "'json serde \<Rightarrow> 'json \<Rightarrow> bool" where
  "zenith_gateway_invalid_request_value js value =
     list_ex (\<lambda>message. eq_ignore_ascii_case (trim message) zenith_invalid_request_message)
       (pointer_strs js value gateway_message_paths)"

definition zenith_gateway_invalid_request :: "'json serde \<Rightarrow> string \<Rightarrow> bool" where
  "zenith_gateway_invalid_request js payload =
     (case js_from_slice js payload of None \<Rightarrow> False | Some value \<Rightarrow> zenith_gateway_invalid_request_value js value)"

definition classify_upstream_error_value :: "'json serde \<Rightarrow> StatusCode \<Rightarrow> 'json \<Rightarrow> UpstreamErrorClassification" where
  "classify_upstream_error_value js status value =
     (if zenith_gateway_invalid_request_value js value
      then \<lparr>ec_category = ''upstream_invalid_request'',
            ec_message = upstream_failure_message ''upstream_invalid_request''\<rparr>
      else classify_upstream_error_text status (upstream_error_text js value))"

definition classify_upstream_error :: "'json serde \<Rightarrow> StatusCode \<Rightarrow> string option \<Rightarrow> UpstreamErrorClassification" where
  "classify_upstream_error js status body =
     (case body of
        None \<Rightarrow> classify_upstream_error_text status []
      | Some body \<Rightarrow>
          (case js_from_slice js body of
             Some value \<Rightarrow> classify_upstream_error_value js status value
           | None \<Rightarrow> classify_upstream_error_text status (normalized_error_text body)))"

definition upstream_event_failure_category :: "'json serde \<Rightarrow> string option \<Rightarrow> 'json \<Rightarrow> string option" where
  "upstream_event_failure_category js event_type value =
     (if event_type = Some ''response.incomplete'' then Some ''response_incomplete''
      else if event_type = Some ''response.cancelled'' \<or> event_type = Some ''response.canceled''
        then Some ''upstream_cancelled''
      else if event_type = Some ''response.failed'' \<or> event_type = Some ''error'' then
        (let status = upstream_status_from_value js value;
             classification = classify_upstream_error_value js
               (case status of Some status \<Rightarrow> status | None \<Rightarrow> BAD_GATEWAY) value
         in Some (if ec_category classification = ''upstream_bad_gateway'' \<and> status = None
                  then ''upstream_terminal'' else ec_category classification))
      else None)"

definition workspace_code_paths :: "string list" where
  "workspace_code_paths = [''/detail/code'', ''/error/code'', ''/body/error/code'', ''/response/error/code'']"

definition is_deactivated_workspace_value :: "'json serde \<Rightarrow> 'json \<Rightarrow> bool" where
  "is_deactivated_workspace_value js value =
     list_ex (\<lambda>code. eq_ignore_ascii_case code ''deactivated_workspace'') (pointer_strs js value workspace_code_paths)"

definition is_deactivated_workspace :: "'json serde \<Rightarrow> string \<Rightarrow> bool" where
  "is_deactivated_workspace js body =
     (case js_from_slice js body of None \<Rightarrow> False | Some value \<Rightarrow> is_deactivated_workspace_value js value)"

subsection \<open>Retries and penalties\<close>

definition retryable_status :: "StatusCode \<Rightarrow> bool \<Rightarrow> bool" where
  "retryable_status status has_previous_response_id \<longleftrightarrow>
     status \<in> {UNAUTHORIZED, PAYMENT_REQUIRED, FORBIDDEN, REQUEST_TIMEOUT, CONFLICT, TOO_MANY_REQUESTS}
     \<or> is_server_error status \<or> (status = NOT_FOUND \<and> \<not> has_previous_response_id)"

definition unpenalised_categories :: "string list" where
  "unpenalised_categories = [''client_cancelled'', ''response_affinity_miss'', ''response_incomplete'', ''upstream_cancelled'',
      ''upstream_previous_response_not_found'', ''upstream_tool_call_mismatch'',
      ''upstream_context_too_large'', ''upstream_encrypted_content_invalid'',
      ''upstream_instructions_required'', ''upstream_content_policy'', ''upstream_payload_too_large'',
      ''upstream_unsupported_request'', ''upstream_websocket_unsupported'', ''upstream_invalid_request'']"

definition terminal_categories :: "string list" where
  "terminal_categories = [''upstream_tool_call_mismatch'', ''upstream_context_too_large'',
      ''upstream_encrypted_content_invalid'', ''upstream_instructions_required'',
      ''upstream_content_policy'', ''upstream_payload_too_large'', ''upstream_unsupported_request'',
      ''upstream_websocket_unsupported'', ''upstream_invalid_request'']"

definition retryable_categories :: "string list" where
  "retryable_categories = [''upstream_unauthorized'', ''upstream_account_disabled'', ''upstream_usage_not_included'',
      ''upstream_quota_exhausted'', ''upstream_region_unsupported'', ''upstream_model_not_found'',
      ''upstream_model_unsupported'', ''upstream_model_capacity'', ''upstream_candidate_rejected'',
      ''upstream_websocket_connection_limit'', ''upstream_rate_limited'', ''upstream_refresh_token_reused'',
      ''upstream_request_timeout'', ''upstream_overloaded'', ''upstream_edge_challenge'',
      ''upstream_server_error'', ''upstream_bad_gateway'', ''upstream_unavailable'',
      ''upstream_gateway_timeout'']"

definition failure_category_requires_cooldown :: "string \<Rightarrow> bool" where
  "failure_category_requires_cooldown category \<longleftrightarrow> category \<notin> set unpenalised_categories"

definition failure_category_is_request_terminal :: "string \<Rightarrow> bool" where
  "failure_category_is_request_terminal category \<longleftrightarrow> category \<in> set terminal_categories"

definition retryable_failure :: "StatusCode \<Rightarrow> string \<Rightarrow> bool \<Rightarrow> bool" where
  "retryable_failure status category has_previous_response_id =
     (if \<not> failure_category_requires_cooldown category then False
      else if category = ''upstream_candidate_rejected'' then \<not> has_previous_response_id
      else retryable_status status has_previous_response_id \<or> category \<in> set retryable_categories)"

definition recoverable_response_affinity_miss :: "StatusCode \<Rightarrow> bool \<Rightarrow> bool \<Rightarrow> bool \<Rightarrow> bool" where
  "recoverable_response_affinity_miss status has_previous_response_id response_affinity_hit previous_response_not_found
     \<longleftrightarrow> has_previous_response_id \<and> previous_response_not_found \<and> status \<in> {BAD_REQUEST, NOT_FOUND, CONFLICT}"

definition MAX_RESPONSE_OWNER_CANDIDATES :: nat where "MAX_RESPONSE_OWNER_CANDIDATES = 8"

definition retry_candidate_limit :: "nat \<Rightarrow> bool \<Rightarrow> nat" where
  "retry_candidate_limit max_retry_candidates owner_recovery_confirmed =
     (if owner_recovery_confirmed then MAX_RESPONSE_OWNER_CANDIDATES else max_retry_candidates)"

subsection \<open>Recovery signals\<close>

definition trim_end_dots :: "string \<Rightarrow> string" where
  "trim_end_dots s = rev (dropWhile (\<lambda>c. c = CHR ''.'') (rev s))"

definition previous_response_not_found_message :: "string \<Rightarrow> bool" where
  "previous_response_not_found_message message0 =
     (let message = to_ascii_lowercase (trim_end_dots (trim message0))
      in message = ''previous response not found''
         \<or> (starts_with message ''previous response with id '' \<and> ends_with message '' not found'')
         \<or> starts_with message ''no response found for previous_response_id '')"

definition previous_response_not_found_value :: "'json serde \<Rightarrow> 'json \<Rightarrow> bool" where
  "previous_response_not_found_value js value \<longleftrightarrow>
     list_ex (\<lambda>code. eq_ignore_ascii_case (trim code) ''previous_response_not_found''
         \<or> eq_ignore_ascii_case (trim code) ''response_continuation_unavailable'')
       (pointer_strs js value [''/error/code'', ''/error/type''])
     \<or> list_ex previous_response_not_found_message
       (List.map_filter (\<lambda>v. Option.bind v (js_as_str js))
         [js_pointer js value ''/error/message'', js_get js value ''message''])"

definition previous_response_not_found :: "'json serde \<Rightarrow> string \<Rightarrow> bool" where
  "previous_response_not_found js payload =
     (case js_from_slice js payload of None \<Rightarrow> False | Some value \<Rightarrow> previous_response_not_found_value js value)"

definition previous_response_requires_websocket :: "'json serde \<Rightarrow> string \<Rightarrow> bool" where
  "previous_response_requires_websocket js payload =
     (case js_from_slice js payload of
        None \<Rightarrow> False
      | Some value \<Rightarrow>
          let text = to_ascii_lowercase (js_to_string js value)
          in contains_str text ''previous_response_id'' \<and> contains_str text ''websocket'')"

definition responses_function_call_output_has_invalid_call_id :: "'json serde \<Rightarrow> string \<Rightarrow> bool" where
  "responses_function_call_output_has_invalid_call_id js payload =
     (case js_from_slice js payload of
        None \<Rightarrow> False
      | Some value \<Rightarrow> text_has_any (upstream_error_text js value)
          [''invalid call_id for function_call_output'', ''invalid call id for function_call_output'',
           ''invalid_call_id_for_function_call_output'', ''invalid_function_call_output_call_id''])"

definition expected_id :: "string \<Rightarrow> string \<Rightarrow> string" where
  "expected_id verb prefix = ''expected an id that '' @ verb @ '' with '' @ [CHR 0x27] @ prefix @ [CHR 0x27]"

definition responses_function_item_id_requires_fc_prefix :: "string \<Rightarrow> bool" where
  "responses_function_item_id_requires_fc_prefix payload =
     (let text = normalized_error_text payload
      in contains_str text ''input'' \<and> contains_str text (expected_id ''begins'' ''fc''))"

definition responses_custom_tool_item_id_requires_ctc_prefix :: "string \<Rightarrow> bool" where
  "responses_custom_tool_item_id_requires_ctc_prefix payload =
     (let text = normalized_error_text payload
      in contains_str text ''input'' \<and> contains_str text ''.id''
         \<and> text_has_any text [expected_id ''begins'' ''ctc'', expected_id ''begins'' ''ctc_'', expected_id ''starts'' ''ctc''])"

definition responses_message_item_id_requires_msg_prefix :: "string \<Rightarrow> bool" where
  "responses_message_item_id_requires_msg_prefix payload =
     (let text = normalized_error_text payload
      in contains_str text ''input['' \<and> contains_str text ''.id'' \<and> contains_str text (expected_id ''begins'' ''msg''))"

subsection \<open>What a client may see\<close>

definition MAX_SAFE_UPSTREAM_ERROR_MESSAGE_CHARS :: nat where
  "MAX_SAFE_UPSTREAM_ERROR_MESSAGE_CHARS = 1024"

definition public_gateway_error_codes :: "string list" where
  "public_gateway_error_codes = [''service_unavailable'', ''bad_request'', ''invalid_request'', ''invalid_prompt'',
      ''context_length_exceeded'', ''request_too_large'', ''content_policy_violation'',
      ''model_not_available'', ''model_not_found'', ''model_disabled'', ''invalid_image_size'',
      ''unauthorized'', ''forbidden'', ''insufficient_balance'', ''rate_limit_exceeded'', ''not_found'',
      ''service_timeout'', ''internal_error'', ''server_error'', ''no_eligible_source'',
      ''all_sources_temporarily_unavailable'', ''all_sources_cooling_down'', ''server_is_overloaded'',
      ''bad_gateway'', ''gateway_timeout'']"

definition sensitive_markers :: "string list" where
  "sensitive_markers = [''http://'', ''https://'', ''url:'', ''authorization'', ''bearer '', ''api_key'', ''apikey'',
      ''secret'', ''cookie'', ''token:'', ''sk-'', ''@'', ''org-'', ''user-'']"

definition public_code_paths :: "string list" where
  "public_code_paths = [''/error/code'', ''/response/error/code'', ''/body/error/code'', ''/code'', ''/response/code'',
      ''/body/code'']"

definition public_message_paths :: "string list" where
  "public_message_paths = [''/error/message'', ''/response/error/message'', ''/body/error/message'', ''/message'',
      ''/response/message'', ''/body/message'', ''/error/detail'', ''/response/error/detail'',
      ''/body/error/detail'', ''/detail'']"

definition is_public_gateway_error_code :: "string \<Rightarrow> bool" where
  "is_public_gateway_error_code code \<longleftrightarrow> trim code \<in> set public_gateway_error_codes"

definition contains_sensitive_error_metadata :: "string \<Rightarrow> bool" where
  "contains_sensitive_error_metadata message = list_ex (contains_str (to_ascii_lowercase message)) sensitive_markers"

record RateLimitBodyHint =
  rh_retry_after_ms :: "u64 option"
  rh_global :: bool

definition hint_default :: RateLimitBodyHint where
  "hint_default = \<lparr>rh_retry_after_ms = None, rh_global = False\<rparr>"

record AttemptFailure =
  af_status :: StatusCode
  af_category :: string
  af_message :: string
  af_cooldown_hint :: RateLimitBodyHint

record PreservedUpstreamError =
  pe_status :: StatusCode
  pe_category :: string
  pe_code :: string
  pe_message :: string

definition preserved_upstream_error_value :: "'json serde \<Rightarrow> AttemptFailure \<Rightarrow> 'json \<Rightarrow> PreservedUpstreamError option" where
  "preserved_upstream_error_value js failure value =
     (case find (\<lambda>code. code \<noteq> [] \<and> length code \<le> 128 \<and> \<not> has_control code)
         (map trim (pointer_strs js value public_code_paths)) of
        None \<Rightarrow> None
      | Some code \<Rightarrow>
          if \<not> is_public_gateway_error_code code then None
          else (case find (\<lambda>message. message \<noteq> [] \<and> count_chars message \<le> MAX_SAFE_UPSTREAM_ERROR_MESSAGE_CHARS
                \<and> \<not> has_control message \<and> \<not> contains_sensitive_error_metadata message)
              (map trim (pointer_strs js value public_message_paths)) of
             None \<Rightarrow> None
           | Some message \<Rightarrow> Some \<lparr>pe_status = af_status failure, pe_category = af_category failure,
               pe_code = code, pe_message = message\<rparr>))"

definition preserved_upstream_error :: "'json serde \<Rightarrow> AttemptFailure \<Rightarrow> string \<Rightarrow> PreservedUpstreamError option" where
  "preserved_upstream_error js failure body =
     Option.bind (js_from_slice js body) (preserved_upstream_error_value js failure)"

definition api_error_code :: "string \<Rightarrow> string" where
  "api_error_code code =
    (case map_of
     [(''upstream_unauthorized'', ''invalid_api_key''),
      (''upstream_account_disabled'', ''account_deactivated''),
      (''upstream_account_verification_required'', ''account_verification_required''),
      (''upstream_usage_not_included'', ''usage_not_included''),
      (''upstream_quota_exhausted'', ''insufficient_quota''),
      (''upstream_rate_limited'', ''rate_limit_exceeded''),
      (''upstream_context_too_large'', ''context_too_large''),
      (''upstream_encrypted_content_invalid'', ''invalid_encrypted_content''),
      (''upstream_instructions_required'', ''missing_required_parameter''),
      (''upstream_previous_response_not_found'', ''previous_response_not_found''),
      (''upstream_tool_call_mismatch'', ''tool_call_not_found''),
      (''upstream_content_policy'', ''content_policy_violation''),
      (''upstream_payload_too_large'', ''request_too_large''),
      (''upstream_unsupported_request'', ''unsupported_request''),
      (''upstream_model_not_found'', ''model_not_found''),
      (''upstream_model_unsupported'', ''model_not_supported''),
      (''upstream_model_capacity'', ''model_at_capacity''),
      (''upstream_websocket_unsupported'', ''websocket_not_supported''),
      (''upstream_websocket_connection_limit'', ''websocket_connection_limit_reached''),
      (''upstream_region_unsupported'', ''unsupported_country_region_territory''),
      (''upstream_edge_challenge'', ''edge_security_challenge''),
      (''upstream_forbidden'', ''permission_denied''),
      (''upstream_not_found'', ''not_found''),
      (''upstream_request_timeout'', ''request_timeout''),
      (''upstream_conflict'', ''conflict''),
      (''upstream_invalid_request'', ''invalid_request''),
      (''upstream_candidate_rejected'', ''source_rejected''),
      (''upstream_overloaded'', ''server_is_overloaded''),
      (''upstream_server_error'', ''internal_server_error''),
      (''upstream_bad_gateway'', ''bad_gateway''),
      (''upstream_unavailable'', ''service_unavailable''),
      (''upstream_gateway_timeout'', ''gateway_timeout'')] code of
       Some value \<Rightarrow> value | None \<Rightarrow> code)"

definition api_error_type :: "StatusCode \<Rightarrow> string \<Rightarrow> string" where
  "api_error_type status code =
     (if code = ''insufficient_quota'' then ''insufficient_quota''
      else if status = UNAUTHORIZED then ''authentication_error''
      else if status = FORBIDDEN then ''permission_error''
      else if status = TOO_MANY_REQUESTS then ''rate_limit_error''
      else if is_server_error status then ''server_error''
      else ''invalid_request_error'')"

subsection \<open>Failures of an attempt\<close>

datatype ExecutorPrepareError = Authentication | Persistence | TransientPrepare | InvalidCredential

text \<open>What the gateway asks of a \<open>reqwest::Error\<close>: whether it is a timeout, a connect, a body or a request error.\<close>

record transport_error =
  te_is_timeout :: bool
  te_is_connect :: bool
  te_is_body :: bool
  te_is_request :: bool

datatype AuthorizedRequestError = Prepare ExecutorPrepareError | Transport transport_error | NotReplayable

definition attempt_failure :: "StatusCode \<Rightarrow> string \<Rightarrow> string \<Rightarrow> AttemptFailure" where
  "attempt_failure status category message =
     \<lparr>af_status = status, af_category = category, af_message = message, af_cooldown_hint = hint_default\<rparr>"

definition failure_transport :: "transport_error \<Rightarrow> AttemptFailure" where
  "failure_transport error =
     (if te_is_timeout error then attempt_failure BAD_GATEWAY ''upstream_transport_timeout'' ''upstream request timed out''
      else if te_is_connect error then attempt_failure BAD_GATEWAY ''upstream_transport_connect''
        ''upstream connection could not be established''
      else if te_is_body error then attempt_failure BAD_GATEWAY ''upstream_transport_body''
        ''upstream request or response body failed''
      else if te_is_request error then attempt_failure BAD_GATEWAY ''upstream_transport_request'' ''upstream request failed''
      else attempt_failure BAD_GATEWAY ''upstream_transport'' ''upstream transport failed'')"

definition failure_body :: AttemptFailure where
  "failure_body = attempt_failure BAD_GATEWAY ''upstream_error'' ''upstream response failed''"

definition failure_invalid_request :: AttemptFailure where
  "failure_invalid_request = attempt_failure BAD_REQUEST ''invalid_request''
     ''request cannot be translated for an eligible source''"

definition failure_classified_with_hint :: "StatusCode \<Rightarrow> string \<Rightarrow> RateLimitBodyHint \<Rightarrow> AttemptFailure" where
  "failure_classified_with_hint status category cooldown_hint =
     \<lparr>af_status = canonical_upstream_status status category, af_category = category,
      af_message = upstream_failure_message category, af_cooldown_hint = cooldown_hint\<rparr>"

definition failure_stream :: "string \<Rightarrow> AttemptFailure" where
  "failure_stream category = attempt_failure BAD_GATEWAY category ''upstream stream failed before the first event''"

definition failure_no_candidate :: AttemptFailure where
  "failure_no_candidate = attempt_failure SERVICE_UNAVAILABLE ''no_eligible_source''
     ''no eligible source is available for this model''"

fun failure_prepare :: "ExecutorPrepareError \<Rightarrow> AttemptFailure" where
  "failure_prepare Authentication = attempt_failure UNAUTHORIZED ''account_auth'' ''account authorization is unavailable''"
| "failure_prepare InvalidCredential = attempt_failure UNAUTHORIZED ''account_auth'' ''account authorization is unavailable''"
| "failure_prepare Persistence = attempt_failure SERVICE_UNAVAILABLE ''account_token_persistence''
     ''refreshed account authorization could not be persisted''"
| "failure_prepare TransientPrepare = attempt_failure BAD_GATEWAY ''account_refresh'' ''account authorization refresh failed''"

fun failure_authorized_request :: "AuthorizedRequestError \<Rightarrow> AttemptFailure" where
  "failure_authorized_request (Prepare error) = failure_prepare error"
| "failure_authorized_request (Transport error) = failure_transport error"
| "failure_authorized_request NotReplayable = failure_body"

subsection \<open>The categories\<close>

text \<open>The categories each part of the classification can give.\<close>

definition continuation_categories :: "string list" where
  "continuation_categories =
    [''response_affinity_miss'', ''upstream_refresh_token_reused'',
     ''upstream_previous_response_not_found'', ''upstream_account_verification_required'',
     ''upstream_tool_call_mismatch'', ''upstream_context_too_large'',
     ''upstream_encrypted_content_invalid'', ''upstream_instructions_required'']"

definition account_categories :: "string list" where
  "account_categories =
    [''upstream_account_disabled'', ''upstream_usage_not_included'', ''upstream_quota_exhausted'',
     ''upstream_unauthorized'']"

definition request_categories :: "string list" where
  "request_categories =
    [''upstream_region_unsupported'', ''upstream_content_policy'', ''upstream_invalid_request'',
     ''upstream_payload_too_large'', ''upstream_unsupported_request'']"

definition service_categories :: "string list" where
  "service_categories =
    [''upstream_model_capacity'', ''upstream_model_not_found'', ''upstream_model_unsupported'',
     ''upstream_websocket_unsupported'', ''upstream_websocket_connection_limit'',
     ''upstream_rate_limited'', ''upstream_overloaded'', ''upstream_unavailable'',
     ''upstream_server_error'']"

definition status_categories :: "string list" where
  "status_categories =
    [''upstream_edge_challenge'', ''upstream_forbidden'', ''upstream_not_found'',
     ''upstream_request_timeout'', ''upstream_conflict'', ''upstream_rate_limited'',
     ''upstream_server_error'', ''upstream_bad_gateway'', ''upstream_unavailable'',
     ''upstream_gateway_timeout'', ''upstream_candidate_rejected'', ''upstream_status'']"

lemma classify_continuation: "classify_continuation_text status t = Some c \<Longrightarrow> c \<in> set continuation_categories"
  unfolding classify_continuation_text_def continuation_categories_def list.set
  by (simp only: option.inject option.distinct split: if_splits) blast+

lemma classify_account: "classify_account_text status t = Some c \<Longrightarrow> c \<in> set account_categories"
  unfolding classify_account_text_def account_categories_def list.set
  by (simp only: option.inject option.distinct split: if_splits) blast+

lemma classify_request: "classify_request_text status t = Some c \<Longrightarrow> c \<in> set request_categories"
  unfolding classify_request_text_def request_categories_def list.set
  by (simp only: option.inject option.distinct split: if_splits) blast+

lemma classify_service: "classify_service_text status t = Some c \<Longrightarrow> c \<in> set service_categories"
  unfolding classify_service_text_def service_categories_def list.set
  by (simp only: option.inject option.distinct split: if_splits) blast+

lemma classify_by_status: "classify_status status t \<in> set status_categories"
  unfolding classify_status_def status_categories_def list.set
  by (simp only: insert_iff simp_thms split: if_split)

definition classified_categories :: "string list" where
  "classified_categories =
     continuation_categories @ account_categories @ request_categories @ service_categories @ status_categories"

lemma classify_category_known: "classify_category status t \<in> set classified_categories"
  using classify_continuation [of status t] classify_account [of status t] classify_request [of status t]
    classify_service [of status t] classify_by_status [of status t]
  by (auto simp: classify_category_def classified_categories_def split: option.splits)

subsection \<open>Retry decisions\<close>

lemmas category_lists = retryable_categories_def unpenalised_categories_def terminal_categories_def
lemmas retry_defs = retryable_failure_def failure_category_requires_cooldown_def failure_category_is_request_terminal_def
  retryable_status_def is_server_error_def upstream_failure_status_def category_lists

definition retry_rule :: "string \<Rightarrow> bool" where
  "retry_rule c \<longleftrightarrow>
     (failure_category_requires_cooldown c \<longleftrightarrow> \<not> failure_category_is_request_terminal c
        \<and> c \<noteq> ''response_affinity_miss'' \<and> c \<noteq> ''upstream_previous_response_not_found'')
     \<and> (c \<noteq> ''upstream_status'' \<longrightarrow> (\<forall>previous. retryable_failure (upstream_failure_status c) c previous \<longleftrightarrow>
          failure_category_requires_cooldown c
          \<and> \<not> (previous \<and> (c = ''upstream_candidate_rejected'' \<or> c = ''upstream_not_found''))))"

lemma retry_rule_lists:
  "list_all retry_rule continuation_categories" "list_all retry_rule account_categories"
  "list_all retry_rule request_categories" "list_all retry_rule service_categories" "list_all retry_rule status_categories"
  by (simp_all add: continuation_categories_def account_categories_def request_categories_def service_categories_def
      status_categories_def retry_rule_def retry_defs)

lemma retry_rule_known: "retry_rule (classify_category status t)"
  using classify_category_known [of status t] retry_rule_lists
  by (auto simp: classified_categories_def list_all_iff)

lemma status_unclassified:
  assumes "classify_category status t = ''upstream_status''"
  shows "\<not> retryable_status status previous"
proof -
  have "classify_status status t = ''upstream_status''"
    using assms classify_continuation [of status t] classify_account [of status t] classify_request [of status t]
      classify_service [of status t]
    by (auto simp: classify_category_def continuation_categories_def account_categories_def request_categories_def
        service_categories_def split: option.splits)
  then show ?thesis
    by (auto simp: classify_status_def retryable_status_def is_client_error_def is_server_error_def split: if_splits)
qed

lemma classify_upstream_error_cases:
  "ec_category (classify_upstream_error js status body) = ''upstream_invalid_request''
   \<or> (\<exists>t. ec_category (classify_upstream_error js status body) = classify_category status t)"
  by (auto simp: classify_upstream_error_def classify_upstream_error_value_def classify_upstream_error_text_def Let_def
      split: option.splits)

lemma retry_rule_invalid: "retry_rule ''upstream_invalid_request''"
  using retry_rule_lists(3) by (simp add: request_categories_def)

text \<open>
  Every upstream error is classified into a category whose treatment is decided:
  the candidate is penalised unless the failure is terminal for the request or a missing
  continuation, and with its canonical status the request is retried elsewhere exactly when the
  candidate is penalised, the status was an error at all, and no continuation is moved to another
  candidate by an unexplained rejection or a missing resource.
\<close>

lemma retry_decision_by_category:
  "let c = ec_category (classify_upstream_error js status body); st = canonical_upstream_status status c in
     (failure_category_requires_cooldown c \<longleftrightarrow> \<not> failure_category_is_request_terminal c
        \<and> c \<noteq> ''response_affinity_miss'' \<and> c \<noteq> ''upstream_previous_response_not_found'')
     \<and> (retryable_failure st c previous \<longleftrightarrow> failure_category_requires_cooldown c \<and> c \<noteq> ''upstream_status''
        \<and> \<not> (previous \<and> (c = ''upstream_candidate_rejected'' \<or> c = ''upstream_not_found'')))"
proof -
  define c where "c = ec_category (classify_upstream_error js status body)"
  have rule: "retry_rule c"
    using classify_upstream_error_cases [of js status body] retry_rule_known retry_rule_invalid by (auto simp: c_def)
  have unclassified: "\<not> retryable_status status previous" if "c = ''upstream_status''"
    using classify_upstream_error_cases [of js status body] that status_unclassified by (auto simp: c_def)
  have "retryable_failure status c previous \<longleftrightarrow> False" if "c = ''upstream_status''"
    using unclassified that by (simp add: retryable_failure_def category_lists)
  then show ?thesis
    using rule unfolding Let_def c_def [symmetric] canonical_upstream_status_def retry_rule_def by (cases "c = ''upstream_status''") simp_all
qed

subsection \<open>What a client may see\<close>

lemma starts_with_lower: "starts_with s p \<Longrightarrow> starts_with (to_ascii_lowercase s) (to_ascii_lowercase p)"
  by (simp add: starts_with_def to_ascii_lowercase_def take_map)

lemma contains_lower: "contains_str s p \<Longrightarrow> contains_str (to_ascii_lowercase s) (to_ascii_lowercase p)"
proof (induction s)
  case (Cons c s)
  then show ?case using starts_with_lower [of "c # s" p] by (auto simp: to_ascii_lowercase_def)
qed simp

lemma sensitive_markers_lower: "m \<in> set sensitive_markers \<Longrightarrow> to_ascii_lowercase m = m"
proof -
  have "list_all (\<lambda>m. to_ascii_lowercase m = m) sensitive_markers" by code_simp
  then show "m \<in> set sensitive_markers \<Longrightarrow> to_ascii_lowercase m = m" by (simp add: list_all_iff)
qed

text \<open>
  C15 (safety). What is kept of an upstream's own error for the client is safe to show: the code is
  one of the public codes, and the message is not empty, has at most 1024 characters, no control
  characters, and contains none of the markers of URLs, credentials or account identifiers, however
  their letters are cased.
\<close>

theorem preserved_error_safe:
  assumes "preserved_upstream_error js failure body = Some e"
  shows "pe_status e = af_status failure \<and> pe_category e = af_category failure
    \<and> pe_code e \<in> set public_gateway_error_codes \<and> pe_message e \<noteq> [] \<and> count_chars (pe_message e) \<le> 1024
    \<and> \<not> has_control (pe_message e)
    \<and> (\<forall>m \<in> set sensitive_markers. \<forall>s. eq_ignore_ascii_case s m \<longrightarrow> \<not> contains_str (pe_message e) s)"
proof -
  obtain v code message where
    code: "code \<in> set (map trim (pointer_strs js v public_code_paths))" "is_public_gateway_error_code code"
    and e: "e = \<lparr>pe_status = af_status failure, pe_category = af_category failure, pe_code = code, pe_message = message\<rparr>"
    and message: "message \<noteq> []" "count_chars message \<le> 1024" "\<not> has_control message"
      "\<not> contains_sensitive_error_metadata message"
    using assms
    by (auto simp: preserved_upstream_error_def preserved_upstream_error_value_def MAX_SAFE_UPSTREAM_ERROR_MESSAGE_CHARS_def
        dest!: find_Some_mem split: option.splits bind_splits if_splits)
  have "code \<in> set public_gateway_error_codes"
    using code by (auto simp: is_public_gateway_error_code_def)
  moreover have "\<not> contains_str message s" if "m \<in> set sensitive_markers" "eq_ignore_ascii_case s m" for m s
    using contains_lower [of message s] message(4) that sensitive_markers_lower [OF that(1)]
    by (auto simp: contains_sensitive_error_metadata_def list_ex_iff eq_ignore_ascii_case_def)
  ultimately show ?thesis using message by (simp add: e)
qed

definition sample_serde :: "string serde" where
  "sample_serde =
     \<lparr>js_from_slice = Some, js_to_string = id,
      js_pointer = (\<lambda>v path. if path = ''/error/code'' then Some ''not_found''
        else if path = ''/error/message'' then Some v else None),
      js_get = (\<lambda>_ _. None), js_as_str = Some, js_as_u64 = (\<lambda>_. None), js_as_f64 = (\<lambda>_. None)\<rparr>"

theorem preserved_error_safe_witness:
  "\<exists>e. preserved_upstream_error sample_serde failure_body ''no such model'' = Some e
     \<and> pe_message e = ''no such model'' \<and> pe_code e \<in> set public_gateway_error_codes"
proof -
  have e: "preserved_upstream_error sample_serde failure_body ''no such model'' =
      Some \<lparr>pe_status = BAD_GATEWAY, pe_category = ''upstream_error'', pe_code = ''not_found'', pe_message = ''no such model''\<rparr>"
    by code_simp
  show ?thesis using preserved_error_safe [OF e] e by simp
qed

end
