(* ===== verification/Failure_Cooldown.thy ===== *)
theory Failure_Cooldown
  imports Upstream_Errors Pool_Properties
begin

section \<open>Cooldowns after a failure (\<open>gateway/errors/cooldown.rs\<close>, \<open>time.rs\<close>)\<close>

text \<open>
  What a failed attempt does to the pool: how long and in which scope the candidate is kept out, from
  the category, the status, the provider's retry hints and the operator's recovery delay. A
  \<open>SystemTime\<close> is its distance from \<open>UNIX_EPOCH\<close> in nanoseconds. \<open>httpdate::parse_http_date\<close> is a
  parameter, and so is the text of the \<open>retry-after\<close> header.
\<close>

subsection \<open>Time\<close>

type_synonym SystemTime = int

definition clamp_u64 :: "nat \<Rightarrow> u64" where
  "clamp_u64 n = of_nat (min n (2 ^ 64 - 1))"

definition unix_time_ms_at :: "SystemTime \<Rightarrow> u64" where
  "unix_time_ms_at time = clamp_u64 (nat time div 1000000)"

definition TRANSIENT_COOLDOWN_MS :: u64 where "TRANSIENT_COOLDOWN_MS = 60000"
definition MAX_RATE_LIMIT_COOLDOWN_MS :: u64 where "MAX_RATE_LIMIT_COOLDOWN_MS = 30 * 60000"
definition MAX_RATE_LIMIT_RETRY_HINT_MS :: u64 where "MAX_RATE_LIMIT_RETRY_HINT_MS = 7 * 24 * 60 * 60000"

subsection \<open>Retry hints\<close>

definition json_u64 :: "'json serde \<Rightarrow> 'json \<Rightarrow> u64 option" where
  "json_u64 js value =
     (case js_as_u64 js value of
        Some n \<Rightarrow> Some n
      | None \<Rightarrow> Option.bind (js_as_str js value) (\<lambda>text. parse_u64 (trim text)))"

text \<open>\<open>(seconds * factor).ceil().min(MAX as f64) as u64\<close> for a finite positive double, else nothing.\<close>

definition hint_ms :: "f64 \<Rightarrow> nat \<Rightarrow> u64 option" where
  "hint_ms seconds factor =
     (case seconds of
        Finite negative m e \<Rightarrow>
          if negative \<or> m = 0 then None
          else Some (of_nat (min (dyadic_ceil (round53 (m * factor) e)) (unat MAX_RATE_LIMIT_RETRY_HINT_MS)))
      | _ \<Rightarrow> None)"

definition json_seconds_to_ms :: "'json serde \<Rightarrow> 'json \<Rightarrow> u64 option" where
  "json_seconds_to_ms js value =
     (case (case js_as_f64 js value of
          Some seconds \<Rightarrow> Some seconds
        | None \<Rightarrow> Option.bind (js_as_str js value) (\<lambda>text. parse_f64 (trim text))) of
        None \<Rightarrow> None
      | Some seconds \<Rightarrow> hint_ms seconds 1000)"

fun after_str :: "string \<Rightarrow> string \<Rightarrow> string option" where
  "after_str p [] = (if p = [] then Some [] else None)"
| "after_str p (c # s) = (if starts_with (c # s) p then Some (drop (length p) (c # s)) else after_str p s)"

definition retry_delay_from_text :: "string \<Rightarrow> u64 option" where
  "retry_delay_from_text text =
     (case after_str ''try again in'' text of
        None \<Rightarrow> None
      | Some rest \<Rightarrow>
          let suffix = trim_start rest;
              number = takeWhile (\<lambda>c. is_ascii_digit c \<or> c = CHR ''.'') suffix;
              unit = trim_start (drop (length number) suffix)
          in (case parse_f64 number of
                None \<Rightarrow> None
              | Some seconds_or_millis \<Rightarrow>
                  if hint_ms seconds_or_millis 1 = None then None
                  else if starts_with unit ''ms'' \<or> starts_with unit ''millisecond'' then hint_ms seconds_or_millis 1
                  else if starts_with unit ''s'' \<or> starts_with unit ''second'' then hint_ms seconds_or_millis 1000
                  else None))"

definition find_pointer :: "'json serde \<Rightarrow> 'json \<Rightarrow> ('json \<Rightarrow> 'b option) \<Rightarrow> string list \<Rightarrow> 'b option" where
  "find_pointer js value f paths =
     (case List.map_filter (\<lambda>path. Option.bind (js_pointer js value path) f) paths of [] \<Rightarrow> None | x # _ \<Rightarrow> Some x)"

definition rate_limit_reset_delay_ms :: "'json serde \<Rightarrow> 'json \<Rightarrow> SystemTime \<Rightarrow> u64 option" where
  "rate_limit_reset_delay_ms js value now =
     (case find_pointer js value (json_u64 js)
         [''/resets_at'', ''/error/resets_at'', ''/body/error/resets_at'', ''/response/error/resets_at''] of
        None \<Rightarrow> None
      | Some reset_at \<Rightarrow>
          let reset_seconds = (if reset_at > 10000000000 then reset_at div 1000 else reset_at) in
          if now < 0 then None
          else
            let now_seconds = nat now div 1000000000;
                duration_ms = (unat reset_seconds - now_seconds) * 1000
            in if unat reset_seconds < now_seconds \<or> duration_ms \<ge> 2 ^ 64 \<or> duration_ms = 0 then None
               else Some (min (of_nat duration_ms) MAX_RATE_LIMIT_RETRY_HINT_MS))"

definition global_kind :: "string \<Rightarrow> bool" where
  "global_kind kind0 =
     (let kind = to_ascii_lowercase kind0
      in contains_str kind ''usage_limit'' \<or> contains_str kind ''usage_not_included'' \<or> contains_str kind ''quota''
         \<or> contains_str kind ''credits_depleted'' \<or> kind = ''rate_limit_reached'' \<or> kind = ''websocket_connection_limit_reached'')"

definition or_else :: "'a option \<Rightarrow> 'a option \<Rightarrow> 'a option" where
  "or_else a b = (case a of Some x \<Rightarrow> Some x | None \<Rightarrow> b)"

definition rate_limit_body_hint_value :: "'json serde \<Rightarrow> 'json \<Rightarrow> SystemTime \<Rightarrow> RateLimitBodyHint" where
  "rate_limit_body_hint_value js value now =
     \<lparr>rh_retry_after_ms =
        or_else (rate_limit_reset_delay_ms js value now)
          (or_else (find_pointer js value (json_seconds_to_ms js)
             [''/resets_in_seconds'', ''/error/resets_in_seconds'', ''/body/error/resets_in_seconds'',
              ''/response/error/resets_in_seconds''])
            (or_else (find_pointer js value (json_seconds_to_ms js)
               [''/retry_after'', ''/error/retry_after'', ''/body/error/retry_after'', ''/response/error/retry_after''])
              (retry_delay_from_text (upstream_error_text js value)))),
      rh_global = list_ex global_kind (pointer_strs js value
        [''/type'', ''/code'', ''/error/type'', ''/error/code'', ''/body/error/type'', ''/body/error/code'',
         ''/response/error/type'', ''/response/error/code''])\<rparr>"

definition rate_limit_body_hint_at :: "'json serde \<Rightarrow> string \<Rightarrow> SystemTime \<Rightarrow> RateLimitBodyHint" where
  "rate_limit_body_hint_at js body now =
     (case js_from_slice js body of None \<Rightarrow> hint_default | Some value \<Rightarrow> rate_limit_body_hint_value js value now)"

definition failure_status_with_body :: "'json serde \<Rightarrow> SystemTime \<Rightarrow> StatusCode \<Rightarrow> string option \<Rightarrow> AttemptFailure" where
  "failure_status_with_body js now status body =
     (let classification = classify_upstream_error js status body
      in \<lparr>af_status = canonical_upstream_status status (ec_category classification),
          af_category = ec_category classification, af_message = ec_message classification,
          af_cooldown_hint = (case body of None \<Rightarrow> hint_default | Some body \<Rightarrow> rate_limit_body_hint_at js body now)\<rparr>)"

definition retry_after_ms :: "(string \<Rightarrow> SystemTime option) \<Rightarrow> string option \<Rightarrow> SystemTime \<Rightarrow> u64 option" where
  "retry_after_ms parse_http_date header now =
     (case header of
        None \<Rightarrow> None
      | Some value \<Rightarrow>
          let value = trim value in
          map_option (\<lambda>duration_ms. min duration_ms MAX_RATE_LIMIT_RETRY_HINT_MS)
            (case parse_u64 value of
               Some seconds \<Rightarrow> Some (sat_mul seconds 1000)
             | None \<Rightarrow>
                 (case parse_http_date value of
                    None \<Rightarrow> None
                  | Some date \<Rightarrow> if date < now then None else Some (clamp_u64 (nat (date - now) div 1000000)))))"

subsection \<open>Durations\<close>

definition exponential_backoff_ms :: "u32 \<Rightarrow> u64" where
  "exponential_backoff_ms consecutive_failures =
     (let exponent = min (sat_sub consecutive_failures 1) 31
      in min (sat_mul 1000 (push_bit (unat exponent) 1)) MAX_RATE_LIMIT_COOLDOWN_MS)"

definition half_open_backoff_ms :: "u64 \<Rightarrow> u32 \<Rightarrow> bool \<Rightarrow> u64" where
  "half_open_backoff_ms duration_ms0 consecutive_failures half_open_probe =
     (if \<not> half_open_probe then duration_ms0
      else
        let duration_ms = max duration_ms0 1000;
            exponent = min (sat_sub consecutive_failures 1) 31
        in min (sat_mul duration_ms (push_bit (unat exponent) 1)) (max duration_ms MAX_RATE_LIMIT_COOLDOWN_MS))"

definition rate_limit_cooldown_ms :: "u64 option \<Rightarrow> u64 option \<Rightarrow> u32 \<Rightarrow> u64" where
  "rate_limit_cooldown_ms header_delay_ms body_delay_ms consecutive_failures =
     (case (header_delay_ms, body_delay_ms) of
        (Some header, Some body) \<Rightarrow> max header body
      | (Some header, None) \<Rightarrow> header
      | (None, Some body) \<Rightarrow> body
      | (None, None) \<Rightarrow> exponential_backoff_ms consecutive_failures)"

definition source_cooldown_ms :: "u64 \<Rightarrow> u64 option \<Rightarrow> bool \<Rightarrow> u64" where
  "source_cooldown_ms automatic_ms configured_ms explicit_hint =
     (case configured_ms of
        None \<Rightarrow> automatic_ms
      | Some configured \<Rightarrow> if explicit_hint then max automatic_ms configured else configured)"

definition rate_limit_scope :: "string \<Rightarrow> bool \<Rightarrow> string \<Rightarrow> string" where
  "rate_limit_scope category global_hint model =
     (if global_hint \<or> category = ''upstream_quota_exhausted'' then ''*'' else model)"

definition mandatory_categories :: "string list" where
  "mandatory_categories =
     [''upstream_unauthorized'', ''upstream_account_disabled'', ''upstream_usage_not_included'',
      ''upstream_quota_exhausted'', ''upstream_region_unsupported'', ''upstream_model_not_found'',
      ''upstream_model_unsupported'', ''upstream_model_capacity'', ''upstream_websocket_connection_limit'']"

definition failure_cooldown_reason :: "StatusCode \<Rightarrow> string \<Rightarrow> bool \<Rightarrow> CooldownReason" where
  "failure_cooldown_reason status category explicit_retry_after =
     (if status = TOO_MANY_REQUESTS then RateLimit
      else if explicit_retry_after \<or> status \<in> {UNAUTHORIZED, PAYMENT_REQUIRED, FORBIDDEN}
          \<or> category \<in> set mandatory_categories then Mandatory
      else Transient)"

subsection \<open>Applying a cooldown\<close>

record CooldownContext =
  cc_scope :: CandidateScope
  cc_allowed_protocols :: "WireApi list"

record FailureState =
  fs_cooldown_scope :: "string option"
  fs_retry_at_ms :: "u64 option"
  fs_consecutive_failures :: u32

definition source_recovery_delay_ms :: "GatewayRuntime \<Rightarrow> string \<Rightarrow> u64 option" where
  "source_recovery_delay_ms rt candidate_id = bt_get (gr_source_recovery_delays_ms rt) candidate_id"

definition runtime_record_failure :: "string \<Rightarrow> GatewayRuntime \<Rightarrow> GatewayRuntime \<times> u32" where
  "runtime_record_failure candidate_id rt =
     (case record_failure candidate_id (gr_scheduler rt) of
        (s, failures) \<Rightarrow> (rt\<lparr>gr_scheduler := s\<rparr>, case failures of Some n \<Rightarrow> n | None \<Rightarrow> 1))"

definition runtime_set_cooldown :: "string \<Rightarrow> CooldownRequest \<Rightarrow> GatewayRuntime \<Rightarrow> GatewayRuntime \<times> bool" where
  "runtime_set_cooldown candidate_id request rt =
     (case set_cooldown_with_reason_for_model_at candidate_id request (gr_scheduler rt) of
        (s, applied) \<Rightarrow> (rt\<lparr>gr_scheduler := s\<rparr>, applied))"

text \<open>The tail both ways of applying a cooldown share: ask the scheduler and report what it did.\<close>

definition request_cooldown ::
  "string \<Rightarrow> string \<Rightarrow> string \<Rightarrow> u64 \<Rightarrow> CooldownReason \<Rightarrow> u64 \<Rightarrow> CooldownContext \<Rightarrow> u32 \<Rightarrow> GatewayRuntime \<Rightarrow> GatewayRuntime \<times> FailureState" where
  "request_cooldown candidate_id scope policy_model retry_at_ms reason now context consecutive_failures rt =
     (case runtime_set_cooldown candidate_id
         \<lparr>cr_scope = scope, cr_policy_model = policy_model, cr_allowed_protocols = cc_allowed_protocols context,
          cr_request_scope = cc_scope context, cr_retry_at_ms = retry_at_ms, cr_reason = reason, cr_now_ms = now\<rparr> rt of
        (rt, applied) \<Rightarrow>
          (rt, \<lparr>fs_cooldown_scope = (if applied then Some scope else None),
                fs_retry_at_ms = (if applied then Some retry_at_ms else None),
                fs_consecutive_failures = consecutive_failures\<rparr>))"

definition apply_cooldown_with_reason_for_model ::
  "string \<Rightarrow> string \<Rightarrow> string \<Rightarrow> u64 \<Rightarrow> CooldownContext \<Rightarrow> bool \<Rightarrow> CooldownReason \<Rightarrow> u64 \<Rightarrow> GatewayRuntime \<Rightarrow> GatewayRuntime \<times> FailureState" where
  "apply_cooldown_with_reason_for_model candidate_id scope policy_model duration_ms0 context half_open_probe reason now rt0 =
     (case runtime_record_failure candidate_id rt0 of
        (rt, consecutive_failures) \<Rightarrow>
          let duration_ms = source_cooldown_ms duration_ms0 (source_recovery_delay_ms rt candidate_id) False;
              duration_ms = half_open_backoff_ms duration_ms consecutive_failures half_open_probe
          in request_cooldown candidate_id scope policy_model (sat_add now duration_ms) reason now context
               consecutive_failures rt)"

definition apply_cooldown_with_reason ::
  "string \<Rightarrow> string \<Rightarrow> u64 \<Rightarrow> CooldownContext \<Rightarrow> bool \<Rightarrow> CooldownReason \<Rightarrow> u64 \<Rightarrow> GatewayRuntime \<Rightarrow> GatewayRuntime \<times> FailureState" where
  "apply_cooldown_with_reason candidate_id scope duration_ms context half_open_probe reason now rt =
     apply_cooldown_with_reason_for_model candidate_id scope scope duration_ms context half_open_probe reason now rt"

definition apply_cooldown ::
  "string \<Rightarrow> string \<Rightarrow> u64 \<Rightarrow> CooldownContext \<Rightarrow> bool \<Rightarrow> u64 \<Rightarrow> GatewayRuntime \<Rightarrow> GatewayRuntime \<times> FailureState" where
  "apply_cooldown candidate_id scope duration_ms context half_open_probe now rt =
     apply_cooldown_with_reason candidate_id scope duration_ms context half_open_probe Transient now rt"

definition apply_cooldown_for_model ::
  "string \<Rightarrow> string \<Rightarrow> string \<Rightarrow> u64 \<Rightarrow> CooldownContext \<Rightarrow> bool \<Rightarrow> u64 \<Rightarrow> GatewayRuntime \<Rightarrow> GatewayRuntime \<times> FailureState" where
  "apply_cooldown_for_model candidate_id scope policy_model duration_ms context half_open_probe now rt =
     apply_cooldown_with_reason_for_model candidate_id scope policy_model duration_ms context half_open_probe Transient now rt"

definition apply_mandatory_cooldown ::
  "string \<Rightarrow> string \<Rightarrow> u64 \<Rightarrow> CooldownContext \<Rightarrow> bool \<Rightarrow> u64 \<Rightarrow> GatewayRuntime \<Rightarrow> GatewayRuntime \<times> FailureState" where
  "apply_mandatory_cooldown candidate_id scope duration_ms context half_open_probe now rt =
     apply_cooldown_with_reason candidate_id scope duration_ms context half_open_probe Mandatory now rt"

definition status_scope_and_duration :: "StatusCode \<Rightarrow> string \<Rightarrow> string \<Rightarrow> u64 option \<Rightarrow> RateLimitBodyHint \<Rightarrow> u32 \<Rightarrow> string \<times> u64" where
  "status_scope_and_duration status category model header_retry_after_ms hint consecutive_failures =
     (if status \<in> {UNAUTHORIZED, PAYMENT_REQUIRED, FORBIDDEN} then (''*'', 30 * 60000)
      else if status = NOT_FOUND then (model, TRANSIENT_COOLDOWN_MS)
      else if status = TOO_MANY_REQUESTS then
        (rate_limit_scope category (rh_global hint) model,
         rate_limit_cooldown_ms header_retry_after_ms (rh_retry_after_ms hint) consecutive_failures)
      else (''*'', TRANSIENT_COOLDOWN_MS))"

definition apply_status_cooldown_with_hint ::
  "(string \<Rightarrow> SystemTime option) \<Rightarrow> string \<Rightarrow> string \<Rightarrow> StatusCode \<Rightarrow> string \<Rightarrow> string option \<Rightarrow> RateLimitBodyHint \<Rightarrow>
   CooldownContext \<Rightarrow> bool \<Rightarrow> SystemTime \<Rightarrow> GatewayRuntime \<Rightarrow> GatewayRuntime \<times> FailureState" where
  "apply_status_cooldown_with_hint parse_http_date candidate_id model status category header hint context
       half_open_probe now_system rt0 =
     (case runtime_record_failure candidate_id rt0 of
        (rt, consecutive_failures) \<Rightarrow>
          let now = unix_time_ms_at now_system;
              header_retry_after_ms = retry_after_ms parse_http_date header now_system;
              has_explicit_retry_after = (header_retry_after_ms \<noteq> None \<or> rh_retry_after_ms hint \<noteq> None)
          in case status_scope_and_duration status category model header_retry_after_ms hint consecutive_failures of
               (scope, automatic_duration_ms) \<Rightarrow>
                 let duration_ms = source_cooldown_ms automatic_duration_ms (source_recovery_delay_ms rt candidate_id)
                       has_explicit_retry_after;
                     duration_ms = half_open_backoff_ms duration_ms consecutive_failures half_open_probe
                 in request_cooldown candidate_id scope model (sat_add now duration_ms)
                      (failure_cooldown_reason status category has_explicit_retry_after) now context
                      consecutive_failures rt)"

definition apply_failure_cooldown_with_hint ::
  "(string \<Rightarrow> SystemTime option) \<Rightarrow> string \<Rightarrow> string \<Rightarrow> StatusCode \<Rightarrow> string \<Rightarrow> string option \<Rightarrow> RateLimitBodyHint \<Rightarrow>
   CooldownContext \<Rightarrow> bool \<Rightarrow> SystemTime \<Rightarrow> u64 \<Rightarrow> GatewayRuntime \<Rightarrow> GatewayRuntime \<times> FailureState" where
  "apply_failure_cooldown_with_hint parse_http_date candidate_id model status0 category header hint context
       half_open_probe now_system now rt =
     (let status = canonical_upstream_status status0 category in
      if category \<in> {''upstream_stream'', ''stream_incomplete'', ''stream_idle_timeout''}
      then apply_cooldown candidate_id model TRANSIENT_COOLDOWN_MS context half_open_probe now rt
      else if category \<in> {''upstream_model_not_found'', ''upstream_model_unsupported'', ''upstream_model_capacity'',
            ''upstream_overloaded'', ''upstream_candidate_rejected''}
      then
        let has_explicit_retry_after =
              (retry_after_ms parse_http_date header now_system \<noteq> None \<or> rh_retry_after_ms hint \<noteq> None)
        in apply_cooldown_with_reason candidate_id model TRANSIENT_COOLDOWN_MS context half_open_probe
             (failure_cooldown_reason status category has_explicit_retry_after) now rt
      else apply_status_cooldown_with_hint parse_http_date candidate_id model status category header hint context
             half_open_probe now_system rt)"

definition apply_failure_cooldown_with_body ::
  "'json serde \<Rightarrow> (string \<Rightarrow> SystemTime option) \<Rightarrow> string \<Rightarrow> string \<Rightarrow> StatusCode \<Rightarrow> string \<Rightarrow> string option \<Rightarrow> string option \<Rightarrow>
   CooldownContext \<Rightarrow> bool \<Rightarrow> SystemTime \<Rightarrow> SystemTime \<Rightarrow> u64 \<Rightarrow> GatewayRuntime \<Rightarrow> GatewayRuntime \<times> FailureState" where
  "apply_failure_cooldown_with_body js parse_http_date candidate_id model status category header body context
       half_open_probe hint_now now_system now rt =
     (let hint = (case body of None \<Rightarrow> hint_default | Some body \<Rightarrow> rate_limit_body_hint_at js body hint_now)
      in apply_failure_cooldown_with_hint parse_http_date candidate_id model status category header hint context
           half_open_probe now_system now rt)"

definition apply_attempt_failure_cooldown ::
  "(string \<Rightarrow> SystemTime option) \<Rightarrow> string \<Rightarrow> string \<Rightarrow> AttemptFailure \<Rightarrow> string option \<Rightarrow> CooldownContext \<Rightarrow> bool \<Rightarrow>
   SystemTime \<Rightarrow> u64 \<Rightarrow> GatewayRuntime \<Rightarrow> GatewayRuntime \<times> FailureState" where
  "apply_attempt_failure_cooldown parse_http_date candidate_id model failure header context half_open_probe now_system now rt =
     apply_failure_cooldown_with_hint parse_http_date candidate_id model (af_status failure) (af_category failure)
       header (af_cooldown_hint failure) context half_open_probe now_system now rt"

subsection \<open>Bounds\<close>

lemmas cooldown_limits = TRANSIENT_COOLDOWN_MS_def MAX_RATE_LIMIT_COOLDOWN_MS_def MAX_RATE_LIMIT_RETRY_HINT_MS_def

lemma unat_min_max: "unat (min a b) = min (unat a) (unat b)" "unat (max a b) = max (unat a) (unat b)"
  by (simp_all add: min_def max_def word_le_nat_alt)

lemma unat_shift_1: "n \<le> 31 \<Longrightarrow> unat (2 ^ n :: u64) = 2 ^ n"
proof -
  assume "n \<le> 31"
  then have "(2::nat) ^ n < 2 ^ 64" by (intro power_strict_increasing) simp_all
  moreover have "(2 ^ n :: u64) = of_nat (2 ^ n)" by simp
  ultimately show ?thesis by (simp only: unat_of_nat) simp
qed

lemma capped_power: "min (a * 2 ^ min n 31) b = min (a * 2 ^ n) b" if "b \<le> a * 2 ^ 31" for a b :: nat
proof (cases "n \<le> 31")
  case False
  then have "a * 2 ^ 31 \<le> a * 2 ^ n" by (intro mult_le_mono2 power_increasing) simp_all
  then have "min (a * 2 ^ 31) b = b" "min (a * 2 ^ n) b = b" using that by linarith+
  then show ?thesis using False by simp
qed simp

lemma unat_capped_exponent: "unat (min (sat_sub n 1) 31 :: u32) = min (unat n - 1) 31"
  by (simp add: unat_min_max rust_arith)

lemma backoff_exact:
  fixes d b :: u64
  assumes "1000 \<le> unat d" "unat b \<le> unat d * 2 ^ 31"
  shows "unat (min (sat_mul d (push_bit (unat (min (sat_sub n 1) 31 :: u32)) 1)) b) = min (unat d * 2 ^ (unat n - 1)) (unat b)"
proof -
  have "unat b \<le> 2 ^ 64 - 1" using unat_le_max [of b] by simp
  then show ?thesis
    using capped_power [OF assms(2), of "unat n - 1"]
    by (simp add: unat_min_max(1) [of "sat_mul _ _"] unat_capped_exponent unat_shift_1 rust_arith min.assoc)
qed

lemma half_open_backoff_exact:
  "unat (half_open_backoff_ms d n True) = min (max (unat d) 1000 * 2 ^ (unat n - 1)) (max (max (unat d) 1000) 1800000)"
proof -
  have "unat (max (max d 1000) MAX_RATE_LIMIT_COOLDOWN_MS) \<le> unat (max d 1000) * 2 ^ 31" "1000 \<le> unat (max d 1000)"
    by (auto simp: cooldown_limits max_def word_le_nat_alt)
  from backoff_exact [OF this(2,1), of n] show ?thesis
    by (simp add: half_open_backoff_ms_def Let_def unat_min_max(2) cooldown_limits)
qed

lemma exponential_backoff_exact:
  "unat (exponential_backoff_ms n) = min (1000 * 2 ^ (unat n - 1)) 1800000"
  using backoff_exact [of 1000 MAX_RATE_LIMIT_COOLDOWN_MS n]
  by (simp add: exponential_backoff_ms_def Let_def cooldown_limits)

text \<open>Every hint taken from a provider is capped at seven days.\<close>

definition hint_capped :: "u64 option \<Rightarrow> bool" where
  "hint_capped h \<longleftrightarrow> (\<forall>t. h = Some t \<longrightarrow> t \<le> MAX_RATE_LIMIT_RETRY_HINT_MS)"

lemma hint_ms_capped: "hint_capped (hint_ms d n)"
proof -
  have "of_nat (min k (unat m)) \<le> m" for k and m :: u64
    using unsigned_less [of m] by (simp add: word_le_nat_alt unat_of_nat mod_less)
  then show ?thesis by (auto simp: hint_capped_def hint_ms_def split: f64.splits)
qed

lemma hint_capped_or_else: "hint_capped a \<Longrightarrow> hint_capped b \<Longrightarrow> hint_capped (or_else a b)"
  by (auto simp: hint_capped_def or_else_def split: option.splits)

lemma find_pointer_capped: "(\<And>v. hint_capped (f v)) \<Longrightarrow> hint_capped (find_pointer js v f paths)"
proof (unfold find_pointer_def, induction paths)
  case (Cons path paths)
  then show ?case
    by (cases "Option.bind (js_pointer js v path) f") (auto simp: hint_capped_def map_filter_simps bind_eq_Some_conv)
qed (simp add: hint_capped_def map_filter_simps)

lemma body_hint_capped: "hint_capped (rh_retry_after_ms (rate_limit_body_hint_at js body now))"
proof -
  have "hint_capped (json_seconds_to_ms js v)" for v
    using hint_ms_capped by (auto simp: json_seconds_to_ms_def hint_capped_def split: option.splits)
  moreover have "hint_capped (retry_delay_from_text t)" for t
    using hint_ms_capped by (auto simp: retry_delay_from_text_def Let_def hint_capped_def split: option.splits if_splits)
  moreover have "hint_capped (rate_limit_reset_delay_ms js v now)" for v
    by (auto simp: hint_capped_def rate_limit_reset_delay_ms_def Let_def split: option.splits if_splits)
  ultimately show ?thesis
    by (auto simp: rate_limit_body_hint_at_def rate_limit_body_hint_value_def hint_default_def
        intro!: hint_capped_or_else find_pointer_capped split: option.splits) (simp add: hint_capped_def)
qed

lemma header_hint_capped: "hint_capped (retry_after_ms parse_http_date header now)"
  by (auto simp: hint_capped_def retry_after_ms_def Let_def split: option.splits if_splits)

lemma automatic_duration_capped:
  assumes "hint_capped header" "hint_capped (rh_retry_after_ms hint)"
  shows "snd (status_scope_and_duration status category model header hint n) \<le> MAX_RATE_LIMIT_RETRY_HINT_MS"
proof -
  have "exponential_backoff_ms n \<le> MAX_RATE_LIMIT_RETRY_HINT_MS"
    using exponential_backoff_exact [of n] by (simp add: word_le_nat_alt cooldown_limits)
  then have "rate_limit_cooldown_ms header (rh_retry_after_ms hint) n \<le> MAX_RATE_LIMIT_RETRY_HINT_MS"
    using assms by (auto simp: rate_limit_cooldown_ms_def hint_capped_def split: option.splits)
  then show ?thesis by (simp add: status_scope_and_duration_def cooldown_limits)
qed

text \<open>The longest a failure may ask for: seven days, or the operator's recovery delay.\<close>

definition longest_cooldown :: "u64 option \<Rightarrow> nat" where
  "longest_cooldown configured = max (unat MAX_RATE_LIMIT_RETRY_HINT_MS) (case configured of None \<Rightarrow> 0 | Some d \<Rightarrow> unat d)"

lemma duration_capped:
  assumes "d \<le> MAX_RATE_LIMIT_RETRY_HINT_MS"
  shows "unat (half_open_backoff_ms (source_cooldown_ms d configured explicit) n probe) \<le> longest_cooldown configured"
proof -
  have "unat (source_cooldown_ms d configured explicit) \<le> longest_cooldown configured" (is "unat ?d \<le> _")
    using assms by (auto simp: source_cooldown_ms_def longest_cooldown_def word_le_nat_alt unat_min_max split: option.splits)
  moreover have "unat (half_open_backoff_ms ?d n probe) \<le> max (max (unat ?d) 1000) 1800000"
    using half_open_backoff_exact [of ?d n] by (cases probe) (simp, simp add: half_open_backoff_ms_def le_max_iff_disj)
  ultimately show ?thesis by (auto simp: longest_cooldown_def cooldown_limits)
qed

subsection \<open>The effect on the pool\<close>

lemma record_failure_cases:
  assumes "runtime_record_failure i rt = (rt1, n)"
  obtains (unknown) "bt_get (ps_candidates (gr_scheduler rt)) i = None" "rt1 = rt" "n = 1"
  | (known) c where "bt_get (ps_candidates (gr_scheduler rt)) i = Some c" "n = sat_add (rc_consecutive_failures c) 1"
      "rt1 = rt\<lparr>gr_scheduler := (gr_scheduler rt)\<lparr>ps_candidates := bt_insert i (c\<lparr>rc_consecutive_failures := n\<rparr>)
          (ps_candidates (gr_scheduler rt))\<rparr>\<rparr>"
  using assms by (auto simp: runtime_record_failure_def record_failure_def Let_def split: option.splits)

text \<open>
  Whatever the category, a failure is counted and one cooldown is requested: for the failed model or
  the whole candidate, from a time the clock showed, and no longer than allowed.
\<close>

definition failure_request ::
  "string \<Rightarrow> string \<Rightarrow> string \<Rightarrow> GatewayRuntime \<Rightarrow> u64 \<Rightarrow> u64 \<Rightarrow> GatewayRuntime \<Rightarrow> u32 \<Rightarrow> CooldownRequest \<Rightarrow> bool" where
  "failure_request i model category rt now now' rt1 n request \<longleftrightarrow>
     runtime_record_failure i rt = (rt1, n) \<and> (cr_scope request = model \<or> cr_scope request = ''*'')
     \<and> (category = ''upstream_quota_exhausted'' \<longrightarrow> cr_scope request = ''*'' \<and> cr_reason request = RateLimit)
     \<and> (cr_now_ms request = now \<or> cr_now_ms request = now') \<and> cr_now_ms request \<le> cr_retry_at_ms request
     \<and> unat (cr_retry_at_ms request) \<le> unat (cr_now_ms request) + longest_cooldown (source_recovery_delay_ms rt i)"

lemma recovery_delay_recorded: "runtime_record_failure i rt = (rt1, n) \<Longrightarrow> source_recovery_delay_ms rt1 j = source_recovery_delay_ms rt j"
  by (auto simp: source_recovery_delay_ms_def elim: record_failure_cases)

lemma sat_add_bound: "unat (sat_add a b) \<le> unat a + unat b"
  by (simp add: rust_arith)

lemma request_cooldown_as_request:
  "request_cooldown i scope policy_model t reason now context n rt = (rt', st) \<Longrightarrow>
   \<exists>request applied. runtime_set_cooldown i request rt = (rt', applied) \<and> cr_scope request = scope \<and> cr_retry_at_ms request = t
     \<and> cr_now_ms request = now \<and> cr_reason request = reason
     \<and> st = \<lparr>fs_cooldown_scope = (if applied then Some scope else None),
             fs_retry_at_ms = (if applied then Some t else None), fs_consecutive_failures = n\<rparr>"
  by (auto simp: request_cooldown_def split: prod.splits intro!: exI)

lemma failure_requests_cooldown:
  assumes "hint_capped (rh_retry_after_ms hint)"
    and "apply_failure_cooldown_with_hint parse_http_date i model status category header hint context probe now_system now rt = (rt', st)"
  obtains rt1 n request applied where
    "failure_request i model category rt now (unix_time_ms_at now_system) rt1 n request"
    "runtime_set_cooldown i request rt1 = (rt', applied)"
    "st = \<lparr>fs_cooldown_scope = (if applied then Some (cr_scope request) else None),
           fs_retry_at_ms = (if applied then Some (cr_retry_at_ms request) else None), fs_consecutive_failures = n\<rparr>"
proof -
  obtain rt1 n where rec: "runtime_record_failure i rt = (rt1, n)" by fastforce
  note delay = recovery_delay_recorded [OF rec, of i]
  have dur: "unat (sat_add t (half_open_backoff_ms (source_cooldown_ms d (source_recovery_delay_ms rt i) explicit) k probe))
      \<le> unat t + longest_cooldown (source_recovery_delay_ms rt i)" if "d \<le> MAX_RATE_LIMIT_RETRY_HINT_MS" for t d explicit k
    using duration_capped [OF that, of "source_recovery_delay_ms rt i" explicit k probe] sat_add_bound le_trans add_left_mono by meson
  show thesis
  proof (cases "category \<in> {''upstream_stream'', ''stream_incomplete'', ''stream_idle_timeout''} \<union>
      {''upstream_model_not_found'', ''upstream_model_unsupported'', ''upstream_model_capacity'',
       ''upstream_overloaded'', ''upstream_candidate_rejected''}")
    case True
    then obtain reason where "request_cooldown i model model
        (sat_add now (half_open_backoff_ms (source_cooldown_ms TRANSIENT_COOLDOWN_MS (source_recovery_delay_ms rt i) False) n probe))
        reason now context n rt1 = (rt', st)"
      using assms(2) rec delay
      unfolding apply_failure_cooldown_with_hint_def apply_cooldown_def apply_cooldown_with_reason_def
        apply_cooldown_with_reason_for_model_def by (auto simp: Let_def split: if_splits)
    from request_cooldown_as_request [OF this] that rec True dur [of TRANSIENT_COOLDOWN_MS now False n]
    show thesis by (fastforce simp: failure_request_def cooldown_limits)
  next
    case False
    define st0 where "st0 = canonical_upstream_status status category"
    obtain scope d where sd: "status_scope_and_duration st0 category model (retry_after_ms parse_http_date header now_system) hint n = (scope, d)"
      by fastforce
    have d: "d \<le> MAX_RATE_LIMIT_RETRY_HINT_MS"
      using automatic_duration_capped [OF header_hint_capped assms(1)] sd by (metis snd_conv)
    have scope: "scope = model \<or> scope = ''*''"
      using sd by (auto simp: status_scope_and_duration_def rate_limit_scope_def split: if_splits)
    have quota: "scope = ''*''" "failure_cooldown_reason st0 category explicit = RateLimit"
      if "category = ''upstream_quota_exhausted''" for explicit
      using sd that by (simp_all add: st0_def canonical_upstream_status_def upstream_failure_status_def
          status_scope_and_duration_def rate_limit_scope_def failure_cooldown_reason_def)
    obtain explicit where "request_cooldown i scope model (sat_add (unix_time_ms_at now_system)
        (half_open_backoff_ms (source_cooldown_ms d (source_recovery_delay_ms rt i) explicit) n probe))
        (failure_cooldown_reason st0 category explicit) (unix_time_ms_at now_system) context n rt1 = (rt', st)"
      using assms(2) rec delay sd False
      unfolding apply_failure_cooldown_with_hint_def apply_status_cooldown_with_hint_def
      by (simp add: Let_def flip: st0_def)
    from request_cooldown_as_request [OF this] that rec scope quota dur [OF d, of "unix_time_ms_at now_system" explicit n]
    show thesis by (fastforce simp: failure_request_def)
  qed
qed

text \<open>A cooldown that was accepted keeps the candidate out until it expires, and touches no other candidate.\<close>

lemma accepted_cooldown_blocks:
  assumes "runtime_set_cooldown i request rt = (rt', True)" "cooldown_applies (cooldown_scope request) model"
    and "t < cr_retry_at_ms request" "bt_get (ps_candidates (gr_scheduler rt')) i = Some c'"
  shows "\<not> is_eligible (gr_scheduler rt') c' model protocols scope t"
proof -
  have set: "set_cooldown_with_reason_inner i request True (gr_scheduler rt) = (gr_scheduler rt', True)"
    using assms(1) by (auto simp: runtime_set_cooldown_def set_cooldown_with_reason_for_model_at_def split: prod.splits)
  from set obtain c u reasons probes where c': "gr_scheduler rt' = (gr_scheduler rt)\<lparr>ps_candidates := bt_insert i
      (c\<lparr>rc_cooldowns := bt_insert (cooldown_scope request) u (rc_cooldowns c)\<rparr>) (ps_candidates (gr_scheduler rt)),
      ps_cooldown_reasons := reasons, ps_half_open := probes\<rparr>" and u: "cr_retry_at_ms request \<le> u"
    by (rule cooldown_accepted) blast
  have "t < u" using assms(3) u by simp
  then have "active_retry_at (rc_cooldowns c') model t \<noteq> None"
    using assms(2,4) by (auto simp: c' active_retry_at_None not_le)
  then show ?thesis by (metis eligible_no_cooldown)
qed

lemma cooldown_keeps_others:
  assumes "runtime_set_cooldown i request rt = (rt', applied)" "j \<noteq> i"
  shows "bt_get (ps_candidates (gr_scheduler rt')) j = bt_get (ps_candidates (gr_scheduler rt)) j"
    and "rc_id d = j \<Longrightarrow> is_eligible (gr_scheduler rt') d = is_eligible (gr_scheduler rt) d"
proof -
  have set: "set_cooldown_with_reason_inner i request True (gr_scheduler rt) = (gr_scheduler rt', applied)"
    using assms(1) by (auto simp: runtime_set_cooldown_def set_cooldown_with_reason_for_model_at_def split: prod.splits)
  have "gr_scheduler rt' = gr_scheduler rt" if "\<not> applied"
    using set that by (auto simp: set_cooldown_with_reason_inner_def Let_def split: if_splits option.splits)
  moreover have "bt_get (ps_candidates (gr_scheduler rt')) j = bt_get (ps_candidates (gr_scheduler rt)) j
      \<and> (rc_id d = j \<longrightarrow> is_eligible (gr_scheduler rt') d = is_eligible (gr_scheduler rt) d)" if applied
  proof -
    from set that have "set_cooldown_with_reason_inner i request True (gr_scheduler rt) = (gr_scheduler rt', True)" by simp
    then obtain c u reasons probes where s': "gr_scheduler rt' = (gr_scheduler rt)\<lparr>ps_candidates := bt_insert i
        (c\<lparr>rc_cooldowns := bt_insert (cooldown_scope request) u (rc_cooldowns c)\<rparr>) (ps_candidates (gr_scheduler rt)),
        ps_cooldown_reasons := reasons, ps_half_open := probes\<rparr>"
      and pr: "\<forall>j m. j \<noteq> i \<longrightarrow> ((j, m) |\<in>| probes \<longleftrightarrow> (j, m) |\<in>| ps_half_open (gr_scheduler rt))"
      by (rule cooldown_accepted) blast
    then show ?thesis using assms(2) eligible_frame [of d probes "gr_scheduler rt"] by simp
  qed
  ultimately show "bt_get (ps_candidates (gr_scheduler rt')) j = bt_get (ps_candidates (gr_scheduler rt)) j"
    and "rc_id d = j \<Longrightarrow> is_eligible (gr_scheduler rt') d = is_eligible (gr_scheduler rt) d"
    by (cases applied; simp)+
qed

lemma recorded_failure_keeps_others:
  assumes "runtime_record_failure i rt = (rt1, n)" "j \<noteq> i"
  shows "bt_get (ps_candidates (gr_scheduler rt1)) j = bt_get (ps_candidates (gr_scheduler rt)) j
    \<and> is_eligible (gr_scheduler rt1) d = is_eligible (gr_scheduler rt) d"
  using assms(1)
proof (cases rule: record_failure_cases)
  case (known c)
  then show ?thesis
    using assms(2) eligible_frame [where d = d and probes = "ps_half_open (gr_scheduler rt)" and s = "gr_scheduler rt"
        and reasons = "ps_cooldown_reasons (gr_scheduler rt)"] by simp
qed simp

lemma scope_applies: "cr_scope request = model \<or> cr_scope request = ''*'' \<Longrightarrow> cooldown_applies (cooldown_scope request) model"
  by (auto simp: cooldown_scope_def cooldown_applies_def)

lemma accepted_counts_failure:
  assumes "runtime_record_failure i rt = (rt1, n)" "runtime_set_cooldown i request rt1 = (rt', True)"
  shows "\<exists>c c'. bt_get (ps_candidates (gr_scheduler rt)) i = Some c \<and> bt_get (ps_candidates (gr_scheduler rt')) i = Some c'
    \<and> rc_consecutive_failures c' = n \<and> n = sat_add (rc_consecutive_failures c) 1"
proof -
  have set: "set_cooldown_with_reason_inner i request True (gr_scheduler rt1) = (gr_scheduler rt', True)"
    using assms(2) by (auto simp: runtime_set_cooldown_def set_cooldown_with_reason_for_model_at_def split: prod.splits)
  from assms(1) show ?thesis
  proof (cases rule: record_failure_cases)
    case unknown
    then show ?thesis using set by (auto simp: set_cooldown_with_reason_inner_def split: if_splits)
  next
    case (known c)
    from set show ?thesis by (rule cooldown_accepted) (use known in auto)
  qed
qed

lemma applied_failure:
  assumes "apply_failure_cooldown_with_body js parse_http_date i model status category header body context probe
      hint_now now_system now rt = (rt', st)"
  shows "\<exists>rt1 n request applied. failure_request i model category rt now (unix_time_ms_at now_system) rt1 n request
    \<and> runtime_set_cooldown i request rt1 = (rt', applied)
    \<and> st = \<lparr>fs_cooldown_scope = (if applied then Some (cr_scope request) else None),
            fs_retry_at_ms = (if applied then Some (cr_retry_at_ms request) else None), fs_consecutive_failures = n\<rparr>"
proof -
  have "hint_capped (rh_retry_after_ms (case body of None \<Rightarrow> hint_default | Some body \<Rightarrow> rate_limit_body_hint_at js body hint_now))"
    using body_hint_capped by (auto simp: hint_default_def hint_capped_def split: option.splits)
  from failure_requests_cooldown [OF this assms [unfolded apply_failure_cooldown_with_body_def Let_def]]
  show ?thesis by metis
qed

lemma quota_failure_applied:
  assumes "apply_failure_cooldown_with_body js parse_http_date i model status ''upstream_quota_exhausted'' header body context
      probe hint_now now_system now rt = (rt', st)" and "bt_get (ps_candidates (gr_scheduler rt)) i = Some c"
  shows "\<exists>rt1 n request. failure_request i model ''upstream_quota_exhausted'' rt now (unix_time_ms_at now_system) rt1 n request
    \<and> runtime_set_cooldown i request rt1 = (rt', True) \<and> fs_retry_at_ms st = Some (cr_retry_at_ms request)
    \<and> fs_cooldown_scope st = Some ''*''"
proof -
  obtain rt1 n request applied where
    req: "failure_request i model ''upstream_quota_exhausted'' rt now (unix_time_ms_at now_system) rt1 n request"
    and set: "runtime_set_cooldown i request rt1 = (rt', applied)"
    and st: "st = \<lparr>fs_cooldown_scope = (if applied then Some (cr_scope request) else None),
            fs_retry_at_ms = (if applied then Some (cr_retry_at_ms request) else None), fs_consecutive_failures = n\<rparr>"
    using applied_failure [OF assms(1)] by blast
  have rec: "runtime_record_failure i rt = (rt1, n)" and scope: "cr_scope request = ''*''" and "cr_reason request = RateLimit"
    using req by (simp_all add: failure_request_def)
  moreover have "\<exists>c. bt_get (ps_candidates (gr_scheduler rt1)) i = Some c"
    using rec assms(2) by (cases rule: record_failure_cases) auto
  ultimately have applied
    using set by (auto simp: runtime_set_cooldown_def set_cooldown_with_reason_for_model_at_def
        set_cooldown_with_reason_inner_def Let_def split: prod.splits)
  then show ?thesis using req set st scope by auto
qed

subsection \<open>Correctness\<close>

text \<open>
  C13 (safety). When a failure puts a candidate into a cooldown until \<open>t\<close>, its failure count has gone
  up by one, it is not eligible for the failed model at any time before \<open>t\<close>, whatever the request's
  protocols and scope, and every other candidate is as it was and as eligible as it was.
\<close>

theorem failure_keeps_candidate_out:
  assumes "apply_failure_cooldown_with_body js parse_http_date i model status category header body context probe
      hint_now now_system now rt = (rt', st)" and "fs_retry_at_ms st = Some t"
  shows "\<exists>c c'. bt_get (ps_candidates (gr_scheduler rt)) i = Some c \<and> bt_get (ps_candidates (gr_scheduler rt')) i = Some c'
    \<and> rc_consecutive_failures c' = sat_add (rc_consecutive_failures c) 1
    \<and> (t' < t \<longrightarrow> \<not> is_eligible (gr_scheduler rt') c' model protocols scope t')
    \<and> (j \<noteq> i \<longrightarrow> bt_get (ps_candidates (gr_scheduler rt')) j = bt_get (ps_candidates (gr_scheduler rt)) j
         \<and> (rc_id d = j \<longrightarrow> is_eligible (gr_scheduler rt') d = is_eligible (gr_scheduler rt) d))"
proof -
  obtain rt1 n request where req: "failure_request i model category rt now (unix_time_ms_at now_system) rt1 n request"
    and set: "runtime_set_cooldown i request rt1 = (rt', True)" and t: "t = cr_retry_at_ms request"
    using applied_failure [OF assms(1)] assms(2) by (auto split: if_splits)
  have rec: "runtime_record_failure i rt = (rt1, n)" and applies: "cooldown_applies (cooldown_scope request) model"
    using req by (auto simp: failure_request_def intro: scope_applies)
  from accepted_counts_failure [OF rec set] obtain c c' where c: "bt_get (ps_candidates (gr_scheduler rt)) i = Some c"
      "bt_get (ps_candidates (gr_scheduler rt')) i = Some c'" "rc_consecutive_failures c' = sat_add (rc_consecutive_failures c) 1"
    by blast
  have "\<not> is_eligible (gr_scheduler rt') c' model protocols scope t'" if "t' < t"
    using accepted_cooldown_blocks [OF set applies _ c(2)] that by (simp add: t)
  then show ?thesis
    using c cooldown_keeps_others(1) [OF set, of j] cooldown_keeps_others(2) [OF set, of j d] recorded_failure_keeps_others [OF rec, of j d] by auto
qed

definition sample_runtime :: GatewayRuntime where
  "sample_runtime = \<lparr>gr_scheduler = sample_oauth_pool, gr_activity_revision = 0, gr_has_affinity_store = False,
     gr_source_recovery_delays_ms = bt_empty, gr_max_retry_candidates = 3\<rparr>"

definition sample_failure :: "GatewayRuntime \<times> FailureState" where
  "sample_failure = apply_failure_cooldown_with_body sample_serde (\<lambda>_. None) ''a'' ''m'' TOO_MANY_REQUESTS
     ''upstream_quota_exhausted'' (Some ''30'') None \<lparr>cc_scope = scope_default, cc_allowed_protocols = [Responses]\<rparr>
     False 0 5000000 5 sample_runtime"

lemma sample_failure_applied: "\<exists>rt' st t. sample_failure = (rt', st) \<and> fs_retry_at_ms st = Some t"
proof -
  obtain rt' st where f: "sample_failure = (rt', st)" by fastforce
  show ?thesis using quota_failure_applied [OF f [unfolded sample_failure_def]] f
    by (auto simp: sample_runtime_def sample_oauth_get)
qed

theorem failure_keeps_candidate_out_witness:
  "\<exists>rt' st t c'. sample_failure = (rt', st) \<and> fs_retry_at_ms st = Some t
     \<and> bt_get (ps_candidates (gr_scheduler rt')) ''a'' = Some c' \<and> rc_consecutive_failures c' = 1"
proof -
  obtain rt' st t where f: "sample_failure = (rt', st)" "fs_retry_at_ms st = Some t" using sample_failure_applied by blast
  show ?thesis
    using failure_keeps_candidate_out [where t' = 0 and j = "''b''" and d = sample_oauth and protocols = "[Responses]"
        and scope = scope_default, OF f(1) [unfolded sample_failure_def] f(2)] f
    by (auto simp: sample_runtime_def sample_oauth_get sample_oauth_def sample_candidate_def sat_add_def)
qed

text \<open>
  C14 (bounds). The cooldown a failure sets starts at a time the clock showed and lasts at most seven
  days, or the operator's recovery delay for that source if it is longer: no header, body, streak of
  failures or half-open probe, and no overflow, makes it longer.
\<close>

theorem failure_cooldown_bounded:
  assumes "apply_failure_cooldown_with_body js parse_http_date i model status category header body context probe
      hint_now now_system now rt = (rt', st)" and "fs_retry_at_ms st = Some t"
  shows "min now (unix_time_ms_at now_system) \<le> t
    \<and> unat t \<le> unat (max now (unix_time_ms_at now_system))
        + max 604800000 (case bt_get (gr_source_recovery_delays_ms rt) i of None \<Rightarrow> 0 | Some d \<Rightarrow> unat d)"
proof -
  obtain rt1 n request where req: "failure_request i model category rt now (unix_time_ms_at now_system) rt1 n request"
    and t: "t = cr_retry_at_ms request"
    using applied_failure [OF assms(1)] assms(2) by (auto split: if_splits)
  have now: "cr_now_ms request = now \<or> cr_now_ms request = unix_time_ms_at now_system" and le: "cr_now_ms request \<le> t"
    and up: "unat t \<le> unat (cr_now_ms request)
        + max 604800000 (case bt_get (gr_source_recovery_delays_ms rt) i of None \<Rightarrow> 0 | Some d \<Rightarrow> unat d)"
    using req by (simp_all add: failure_request_def t longest_cooldown_def source_recovery_delay_ms_def cooldown_limits)
  have "unat (cr_now_ms request) \<le> unat (max now (unix_time_ms_at now_system))"
    "min now (unix_time_ms_at now_system) \<le> cr_now_ms request"
    using now by (auto simp: unat_min_max)
  then show ?thesis using le up by (auto intro: order_trans)
qed

theorem failure_cooldown_bounded_witness:
  "\<exists>rt' st t. sample_failure = (rt', st) \<and> fs_retry_at_ms st = Some t \<and> unat t \<le> 604800005"
proof -
  obtain rt' st t where f: "sample_failure = (rt', st)" "fs_retry_at_ms st = Some t" using sample_failure_applied by blast
  have "unix_time_ms_at 5000000 = 5" by (simp add: unix_time_ms_at_def clamp_u64_def)
  then show ?thesis using failure_cooldown_bounded [OF f(1) [unfolded sample_failure_def] f(2)] f
    by (auto simp: sample_runtime_def)
qed

text \<open>
  An exhausted quota takes the whole account out: whatever the cooldown policy, the
  cooldown is applied, covers every model, and the candidate is eligible for none before it ends.
\<close>

lemma exhausted_quota_blocks_account:
  assumes "apply_failure_cooldown_with_body js parse_http_date i model status ''upstream_quota_exhausted'' header body context
      probe hint_now now_system now rt = (rt', st)" and "bt_get (ps_candidates (gr_scheduler rt)) i = Some c"
  shows "\<exists>t c'. fs_retry_at_ms st = Some t \<and> fs_cooldown_scope st = Some ''*''
    \<and> bt_get (ps_candidates (gr_scheduler rt')) i = Some c'
    \<and> (\<forall>model' protocols scope t'. t' < t \<longrightarrow> \<not> is_eligible (gr_scheduler rt') c' model' protocols scope t')"
proof -
  obtain rt1 n request where
    req: "failure_request i model ''upstream_quota_exhausted'' rt now (unix_time_ms_at now_system) rt1 n request"
    and set: "runtime_set_cooldown i request rt1 = (rt', True)"
    and st: "fs_retry_at_ms st = Some (cr_retry_at_ms request)" "fs_cooldown_scope st = Some ''*''"
    using quota_failure_applied [OF assms] by blast
  have rec: "runtime_record_failure i rt = (rt1, n)" and scope: "cr_scope request = ''*''"
    using req by (simp_all add: failure_request_def)
  obtain c' where c': "bt_get (ps_candidates (gr_scheduler rt')) i = Some c'"
    using accepted_counts_failure [OF rec set] by blast
  show ?thesis
    using st c' accepted_cooldown_blocks [OF set scope_applies [OF disjI2 [OF scope]] _ c'] by blast
qed

end
