(* ===== verification/Decimal_Amounts.thy ===== *)
theory Decimal_Amounts
  imports Rust_Numbers
begin

section \<open>Decimal amounts (\<open>pricing/decimal.rs\<close>)\<close>

text \<open>
  Parsing of provider prices: decimal text, possibly in scientific notation, to an integer number
  of micro-units, by integer arithmetic with explicit bounds. \<open>u128\<close>, \<open>i64\<close> and \<open>i32\<close> values are
  numbers with the range checks of the checked operations written out. Reading the text of a JSON
  value is the parameter \<open>json_text\<close> (a string, or a number in serde's formatting).
\<close>

subsection \<open>Definitions\<close>

datatype PricingError = InvalidAmount | Overflow | InvalidRecord | InvalidCatalog | InvalidCache
  | CacheTooLarge | PricingIo | PricingNetwork | HttpStatus "16 word"

definition u128_max :: nat where "u128_max = 2 ^ 128 - 1"

definition u64_max :: nat where "u64_max = 2 ^ 64 - 1"

definition i64_range :: "int \<Rightarrow> bool" where
  "i64_range n \<longleftrightarrow> - (2 ^ 63) \<le> n \<and> n < 2 ^ 63"

fun split_once :: "(char \<Rightarrow> bool) \<Rightarrow> string \<Rightarrow> (string \<times> string) option" where
  "split_once P [] = None"
| "split_once P (c # s) =
     (if P c then Some ([], s) else map_option (\<lambda>(a, b). (c # a, b)) (split_once P s))"

function decimal_loop :: "nat \<Rightarrow> int \<Rightarrow> nat \<times> int" where
  "decimal_loop value digits =
     (if value \<noteq> 0 \<and> value mod 10 = 0 then decimal_loop (value div 10) (digits + 1) else (value, digits))"
  by auto
termination by (relation "measure fst") auto

declare decimal_loop.simps [simp del]

definition decimal_digits :: "nat \<Rightarrow> int option" where
  "decimal_digits value =
     (if value = 0 then None
      else (case decimal_loop value 0 of (value, digits) \<Rightarrow> if value = 1 then Some digits else None))"

definition scale_amount :: "nat \<Rightarrow> int \<Rightarrow> int \<Rightarrow> int \<Rightarrow> PricingError + nat" where
  "scale_amount digits exponent scale_digits fractional_digits =
     (let shift = exponent + scale_digits - fractional_digits in
      if \<not> i64_range (exponent + scale_digits) \<or> \<not> i64_range shift then Inl Overflow
      else
        let finish = (\<lambda>result.
              if result > u64_max then Inl Overflow else if result > 0 then Inr result else Inl InvalidAmount)
        in if shift \<ge> 0 then
             (if shift > 38 then Inl Overflow
              else if digits * 10 ^ nat shift > u128_max then Inl Overflow
              else finish (digits * 10 ^ nat shift))
           else if - shift > 38 then Inr 0
           else
             let divisor = 10 ^ nat (- shift);
                 quotient = digits div divisor;
                 remainder = digits mod divisor
             in if quotient + (if remainder \<ge> (divisor + 1) div 2 then 1 else 0) > u128_max then Inl Overflow
                else finish (quotient + (if remainder \<ge> (divisor + 1) div 2 then 1 else 0)))"

definition parse_decimal_to_scaled :: "string \<Rightarrow> nat \<Rightarrow> PricingError + nat" where
  "parse_decimal_to_scaled text0 scale =
     (let text = trim text0 in
      if text = [] \<or> starts_with text ''-'' \<or> starts_with text ''+'' then Inl InvalidAmount
      else
        (case (case split_once (\<lambda>c. c = CHR ''e'' \<or> c = CHR ''E'') text of
             Some (mantissa, exponent) \<Rightarrow> map_option (Pair mantissa) (parse_i32 exponent)
           | None \<Rightarrow> Some (text, 0)) of
           None \<Rightarrow> Inl InvalidAmount
         | Some (mantissa, exponent) \<Rightarrow>
             if length (filter (\<lambda>c. c = CHR ''.'') mantissa) > 1 then Inl InvalidAmount
             else
               let (whole, fractional) = (case split_once (\<lambda>c. c = CHR ''.'') mantissa of
                     Some parts \<Rightarrow> parts | None \<Rightarrow> (mantissa, []))
               in if (whole = [] \<and> fractional = []) \<or> \<not> list_all is_ascii_digit whole
                     \<or> \<not> list_all is_ascii_digit fractional then Inl InvalidAmount
                  else
                    let digits = dropWhile (\<lambda>c. c = CHR ''0'') (whole @ fractional)
                    in if digits = [] then Inl InvalidAmount
                       else if length digits > 38 \<or> length fractional > 38 then Inl InvalidAmount
                       else if digits_value digits > u128_max then Inl InvalidAmount
                       else (case decimal_digits scale of
                           None \<Rightarrow> Inl InvalidAmount
                         | Some scale_digits \<Rightarrow>
                             scale_amount (digits_value digits) exponent scale_digits (int (length fractional)))))"

definition parse_decimal_value :: "('v \<Rightarrow> string option) \<Rightarrow> 'v \<Rightarrow> nat \<Rightarrow> PricingError + nat" where
  "parse_decimal_value json_text value scale =
     (case json_text value of None \<Rightarrow> Inl InvalidAmount | Some text \<Rightarrow> parse_decimal_to_scaled text scale)"

definition usd_to_micro :: "('v \<Rightarrow> string option) \<Rightarrow> 'v \<Rightarrow> nat \<Rightarrow> PricingError + nat" where
  "usd_to_micro json_text value unit_scale =
     (if decimal_digits unit_scale = None then Inl InvalidAmount
      else (case json_text value of None \<Rightarrow> Inl InvalidAmount | Some text \<Rightarrow> parse_decimal_to_scaled text unit_scale))"

definition usd_per_token_to_micro_usd_per_million :: "('v \<Rightarrow> string option) \<Rightarrow> 'v \<Rightarrow> PricingError + nat" where
  "usd_per_token_to_micro_usd_per_million json_text value = parse_decimal_value json_text value 1000000000000"

definition usd_per_request_to_micro_usd :: "('v \<Rightarrow> string option) \<Rightarrow> 'v \<Rightarrow> PricingError + nat" where
  "usd_per_request_to_micro_usd json_text value = parse_decimal_value json_text value 1000000"

subsection \<open>Rounding\<close>

lemma decimal_digits_power: "decimal_digits (10 ^ k) = Some (int k)"
proof -
  have "decimal_loop (10 ^ k) n = (1, n + int k)" for n
    by (induction k arbitrary: n) (simp_all add: decimal_loop.simps)
  then show ?thesis by (simp add: decimal_digits_def)
qed

text \<open>The exact amount, and the nearest integer with halves rounded up.\<close>

definition exact_amount :: "nat \<Rightarrow> int \<Rightarrow> rat" where
  "exact_amount digits shift = of_nat digits * 10 powi shift"

definition nearest :: "rat \<Rightarrow> nat" where
  "nearest x = nat \<lfloor>x + 1 / 2\<rfloor>"

lemma nearest_of_nat: "nearest (of_nat n) = n"
proof -
  have "\<lfloor>of_nat n + 1 / 2 :: rat\<rfloor> = int n" by (rule floor_unique) simp_all
  then show ?thesis by (simp add: nearest_def)
qed

lemma half_up_div:
  fixes D d :: nat
  assumes "0 < d"
  shows "(2 * D + d) div (2 * d) = D div d + (if d \<le> 2 * (D mod d) then 1 else 0)"
proof -
  have "2 * D = 2 * (D div d * d + D mod d)" by simp
  then have "2 * D + d = (2 * (D mod d) + d) + (D div d) * (2 * d)" by (simp only: algebra_simps)
  then have "(2 * D + d) div (2 * d) = D div d + (2 * (D mod d) + d) div (2 * d)"
    by (simp only: div_mult_self1 assms) (use assms in simp)
  moreover have "(2 * (D mod d) + d) div (2 * d) = (if d \<le> 2 * (D mod d) then 1 else 0)"
    using assms mod_less_divisor [OF assms, of D] by (auto intro!: div_nat_eqI)
  ultimately show ?thesis by simp
qed

lemma nearest_divide:
  assumes "0 < k"
  shows "nearest (of_nat D / 10 ^ k) =
    D div 10 ^ k + (if D mod 10 ^ k \<ge> (10 ^ k + 1) div 2 then 1 else 0)"
proof -
  let ?d = "10 ^ k :: nat"
  have "(of_nat D / 10 ^ k + 1 / 2 :: rat) = of_nat (2 * D + ?d) / of_nat (2 * ?d)" by (simp add: field_simps)
  then have "nearest (of_nat D / 10 ^ k) = (2 * D + ?d) div (2 * ?d)"
    unfolding nearest_def by (simp only: floor_divide_of_nat_eq nat_int)
  moreover obtain m where "?d = 2 * m" using assms by (metis dvd_def even_numeral even_power)
  moreover have "0 < ?d" by simp
  ultimately show ?thesis using half_up_div [of ?d D] by auto
qed

lemma exact_amount_cases:
  "0 \<le> shift \<Longrightarrow> exact_amount D shift = of_nat (D * 10 ^ nat shift)"
  "shift < 0 \<Longrightarrow> exact_amount D shift = of_nat D / 10 ^ nat (- shift)"
  by (simp_all add: exact_amount_def power_int_def field_simps)

lemma scale_amount_rounds:
  assumes "1 \<le> D" "D < 10 ^ 38" "0 \<le> scale_digits" "scale_digits \<le> 38" "0 \<le> fractional" "fractional \<le> 38"
    and "- (2 ^ 31) \<le> e" "e < 2 ^ 31" and "shift = e + scale_digits - fractional"
  shows "scale_amount D e scale_digits fractional =
    (let r = nearest (exact_amount D shift)
     in if r > u64_max then Inl Overflow else if r = 0 \<and> - 38 \<le> shift then Inl InvalidAmount else Inr r)"
proof -
  have range: "i64_range (e + scale_digits)" "i64_range shift" using assms by (auto simp: i64_range_def)
  consider (big) "38 < shift" | (up) "0 \<le> shift" "shift \<le> 38" | (down) "- 38 \<le> shift" "shift < 0" | (tiny) "shift < - 38"
    by linarith
  then show ?thesis
  proof cases
    case big
    have "(10::nat) ^ 39 \<le> 10 ^ nat shift" using big by (intro power_increasing) auto
    then have "10 ^ 39 \<le> D * 10 ^ nat shift" using assms(1) by (metis le_trans mult_le_mono1 mult_1)
    then have "u64_max < D * 10 ^ nat shift" by (simp add: u64_max_def)
    then show ?thesis
      using big range assms(9) by (simp add: scale_amount_def exact_amount_cases nearest_of_nat Let_def del: of_nat_mult)
  next
    case up
    have "u128_max < n \<Longrightarrow> u64_max < n" for n by (simp add: u64_max_def u128_max_def)
    then show ?thesis
      using up range assms(9) by (auto simp: scale_amount_def exact_amount_cases nearest_of_nat Let_def simp del: of_nat_mult)
  next
    case down
    have "D div 10 ^ nat (- shift) < 10 ^ 38" using assms(2) by (rule le_less_trans [OF div_le_dividend])
    then have "Suc (D div 10 ^ nat (- shift)) \<le> u128_max" by (simp add: u128_max_def)
    then show ?thesis
      using down range assms(9) nearest_divide [of "nat (- shift)" D]
      by (auto simp: scale_amount_def exact_amount_cases Let_def not_less)
  next
    case tiny
    have "(10::rat) ^ 39 \<le> 10 ^ nat (- shift)" using tiny by (intro power_increasing) auto
    moreover have "(of_nat D :: rat) \<le> of_nat (10 ^ 38)" using assms(2) by (intro of_nat_mono) simp
    ultimately have "(of_nat D :: rat) / 10 ^ nat (- shift) \<le> 10 ^ 38 / 10 ^ 39"
      by (intro frac_le) auto
    also have "\<dots> = (1 / 10 :: rat)" by simp
    finally have "(of_nat D :: rat) / 10 ^ nat (- shift) + 1 / 2 < 1" by linarith
    then have "nearest (of_nat D / 10 ^ nat (- shift)) = 0"
      unfolding nearest_def by (simp flip: floor_le_zero)
    then show ?thesis
      using tiny range assms(9) by (simp add: scale_amount_def exact_amount_cases Let_def)
  qed
qed


subsection \<open>Parsing\<close>

lemma digits_value_snoc [simp]: "digits_value (s @ [c]) = 10 * digits_value s + (of_char c - 48)"
  by (simp add: digits_value_def)

lemma digit_range:
  "is_ascii_digit c \<longrightarrow> of_char c - 48 < (10 :: nat) \<and> (c \<noteq> CHR ''0'' \<longrightarrow> 0 < (of_char c - 48 :: nat))"
  by (rule all_chars [of "\<lambda>c. is_ascii_digit c \<longrightarrow> of_char c - 48 < (10 :: nat)
    \<and> (c \<noteq> CHR ''0'' \<longrightarrow> 0 < (of_char c - 48 :: nat))"]) code_simp

lemma digits_value_less: "list_all is_ascii_digit s \<Longrightarrow> digits_value s < 10 ^ length s"
proof (induction s rule: rev_induct)
  case (snoc c s)
  then show ?case using digit_range [of c] by simp
qed (simp add: digits_value_def)

lemma digits_value_zeros: "digits_value (dropWhile (\<lambda>c. c = CHR ''0'') s) = digits_value s"
  by (induction s) (simp_all add: digits_value_def)

lemma digits_value_pos:
  assumes "list_all is_ascii_digit s" "\<exists>c \<in> set s. c \<noteq> CHR ''0''"
  shows "0 < digits_value s"
  using assms
proof (induction s rule: rev_induct)
  case (snoc c s)
  then show ?case using digit_range [of c] by (cases "c = CHR ''0''") auto
qed simp

lemma split_once_append: "\<not> list_ex P a \<Longrightarrow> P c \<Longrightarrow> split_once P (a @ c # b) = Some (a, b)"
  by (induction a) auto

lemma split_once_None: "\<not> list_ex P a \<Longrightarrow> split_once P a = None"
  by (induction a) auto

lemma digit_classes:
  "is_ascii_digit c \<longrightarrow> c \<noteq> CHR ''.'' \<and> c \<noteq> CHR ''e'' \<and> c \<noteq> CHR ''E'' \<and> c \<noteq> CHR ''-'' \<and> c \<noteq> CHR ''+'' \<and> \<not> ws_byte c"
  by (rule all_chars [of "\<lambda>c. is_ascii_digit c \<longrightarrow> c \<noteq> CHR ''.'' \<and> c \<noteq> CHR ''e'' \<and> c \<noteq> CHR ''E''
    \<and> c \<noteq> CHR ''-'' \<and> c \<noteq> CHR ''+'' \<and> \<not> ws_byte c"]) code_simp

lemma parse_i32_chars: "parse_i32 x = Some e \<Longrightarrow> \<forall>c \<in> set x. \<not> ws_byte c"
proof -
  have "\<not> ws_byte CHR ''-''" "\<not> ws_byte CHR ''+''" by code_simp+
  then show "parse_i32 x = Some e \<Longrightarrow> \<forall>c \<in> set x. \<not> ws_byte c"
    using digit_classes
    by (cases x) (auto simp: parse_i32_def Let_def list_all_iff split: if_splits)
qed

lemma parse_i32_range: "parse_i32 x = Some e \<Longrightarrow> - (2 ^ 31) \<le> e \<and> e < 2 ^ 31"
  by (auto simp: parse_i32_def Let_def split: if_splits prod.splits)

lemma not_ex_digits:
  assumes "list_all is_ascii_digit s"
  shows "\<not> list_ex (\<lambda>c. c = CHR ''.'') s" "\<not> list_ex (\<lambda>c. c = CHR ''e'' \<or> c = CHR ''E'') s"
    "filter (\<lambda>c. c = CHR ''.'') s = []"
  using assms digit_classes by (auto simp: list_all_iff list_ex_iff filter_empty_conv)

lemma list_all_dropWhile: "list_all P s \<Longrightarrow> list_all P (dropWhile Q s)"
  by (induction s) auto

subsection \<open>The texts that are amounts\<close>

text \<open>
  An amount is a number of digits, possibly with a decimal point and digits after it, and possibly with
  an exponent, between blanks. \<open>amount_text t w f e\<close> says that \<open>t\<close> is such a text, with the digits \<open>w\<close>
  before and \<open>f\<close> after the point and the exponent \<open>e\<close>; it is read when it is not zero and within the
  limits of 38 significant and 38 fractional digits.
\<close>

definition exponent_text :: "string \<Rightarrow> int \<Rightarrow> bool" where
  "exponent_text x e \<longleftrightarrow> x = [] \<and> e = 0 \<or> (\<exists>c y. x = c # y \<and> (c = CHR ''e'' \<or> c = CHR ''E'') \<and> parse_i32 y = Some e)"

definition mantissa_text :: "string \<Rightarrow> string \<Rightarrow> string \<Rightarrow> bool" where
  "mantissa_text m w f \<longleftrightarrow> list_all is_ascii_digit w \<and> list_all is_ascii_digit f \<and> (m = w \<and> f = [] \<or> m = w @ ''.'' @ f)"

definition amount_text :: "string \<Rightarrow> string \<Rightarrow> string \<Rightarrow> int \<Rightarrow> bool" where
  "amount_text t w f e \<longleftrightarrow> (\<exists>m x. trim t = m @ x \<and> mantissa_text m w f \<and> exponent_text x e)
     \<and> (\<exists>c \<in> set (w @ f). c \<noteq> CHR ''0'')
     \<and> length (dropWhile (\<lambda>c. c = CHR ''0'') (w @ f)) \<le> 38 \<and> length f \<le> 38"

lemma split_exponent:
  assumes "mantissa_text m w f" "exponent_text x e"
  shows "(case split_once (\<lambda>c. c = CHR ''e'' \<or> c = CHR ''E'') (m @ x) of
      Some (mantissa, exponent) \<Rightarrow> map_option (Pair mantissa) (parse_i32 exponent) | None \<Rightarrow> Some (m @ x, 0)) = Some (m, e)"
proof -
  have no: "\<not> list_ex (\<lambda>c. c = CHR ''e'' \<or> c = CHR ''E'') m"
    using assms(1) not_ex_digits(2) [of w] not_ex_digits(2) [of f] unfolding mantissa_text_def
    by (elim conjE disjE) simp_all
  consider "x = []" "e = 0" | c y where "x = c # y" "c = CHR ''e'' \<or> c = CHR ''E''" "parse_i32 y = Some e"
    using assms(2) unfolding exponent_text_def by blast
  then show ?thesis
  proof cases
    case 2
    then show ?thesis
      using split_once_append [of "\<lambda>c. c = CHR ''e'' \<or> c = CHR ''E''", OF no 2(2), of y] by simp
  qed (simp add: split_once_None [OF no])
qed

lemma split_point:
  assumes "mantissa_text m w f"
  shows "length (filter (\<lambda>c. c = CHR ''.'') m) \<le> 1"
    "(case split_once (\<lambda>c. c = CHR ''.'') m of Some parts \<Rightarrow> parts | None \<Rightarrow> (m, [])) = (w, f)"
proof -
  have w: "list_all is_ascii_digit w" and f: "list_all is_ascii_digit f" using assms by (simp_all add: mantissa_text_def)
  show "length (filter (\<lambda>c. c = CHR ''.'') m) \<le> 1"
    using assms not_ex_digits(3) [OF w] not_ex_digits(3) [OF f] by (auto simp: mantissa_text_def)
  show "(case split_once (\<lambda>c. c = CHR ''.'') m of Some parts \<Rightarrow> parts | None \<Rightarrow> (m, [])) = (w, f)"
    using assms split_once_None [OF not_ex_digits(1) [OF w]] split_once_append [OF not_ex_digits(1) [OF w], of "CHR ''.''" f]
    by (auto simp: mantissa_text_def)
qed

lemma parse_stages:
  assumes "(case split_once (\<lambda>c. c = CHR ''e'' \<or> c = CHR ''E'') (trim t) of
      Some (mantissa, exponent) \<Rightarrow> map_option (Pair mantissa) (parse_i32 exponent) | None \<Rightarrow> Some (trim t, 0)) = Some (m, e)"
    and "(case split_once (\<lambda>c. c = CHR ''.'') m of Some parts \<Rightarrow> parts | None \<Rightarrow> (m, [])) = (w, f)"
  shows "parse_decimal_to_scaled t scale =
    (if trim t = [] \<or> starts_with (trim t) ''-'' \<or> starts_with (trim t) ''+''
        \<or> length (filter (\<lambda>c. c = CHR ''.'') m) > 1
        \<or> (w = [] \<and> f = []) \<or> \<not> list_all is_ascii_digit w \<or> \<not> list_all is_ascii_digit f
        \<or> dropWhile (\<lambda>c. c = CHR ''0'') (w @ f) = []
        \<or> length (dropWhile (\<lambda>c. c = CHR ''0'') (w @ f)) > 38 \<or> length f > 38
        \<or> digits_value (w @ f) > u128_max then Inl InvalidAmount
     else (case decimal_digits scale of None \<Rightarrow> Inl InvalidAmount
        | Some scale_digits \<Rightarrow> scale_amount (digits_value (w @ f)) e scale_digits (int (length f))))"
  unfolding parse_decimal_to_scaled_def Let_def assms option.case prod.case digits_value_zeros
  by (simp only: if_distrib if_True if_False) simp

lemma parse_amount:
  assumes t: "amount_text t w f e" and k: "decimal_digits scale = Some k"
  shows "parse_decimal_to_scaled t scale = scale_amount (digits_value (w @ f)) e k (int (length f))"
proof -
  let ?d = "dropWhile (\<lambda>c. c = CHR ''0'') (w @ f)"
  obtain m x where mx: "trim t = m @ x" "mantissa_text m w f" "exponent_text x e"
    and nz: "\<exists>c \<in> set (w @ f). c \<noteq> CHR ''0''" and len: "length ?d \<le> 38" "length f \<le> 38"
    using t by (auto simp: amount_text_def)
  have w: "list_all is_ascii_digit w" and f: "list_all is_ascii_digit f" using mx(2) by (simp_all add: mantissa_text_def)
  have ne: "m \<noteq> []" using mx(2) nz by (auto simp: mantissa_text_def)
  moreover have "hd m \<noteq> CHR ''-'' \<and> hd m \<noteq> CHR ''+''"
    using ne mx(2) w f digit_classes by (cases w) (auto simp: mantissa_text_def)
  ultimately have sign: "\<not> (m @ x = [] \<or> starts_with (m @ x) ''-'' \<or> starts_with (m @ x) ''+'')"
    by (cases m) (auto simp: starts_with_def)
  have d: "?d \<noteq> []" "digits_value ?d = digits_value (w @ f)" "list_all is_ascii_digit ?d"
    using nz list_all_dropWhile [of is_ascii_digit "w @ f"] w f by (auto simp: digits_value_zeros)
  have "digits_value ?d < 10 ^ 38"
    using digits_value_less [OF d(3)] power_increasing [OF len(1), of "10 :: nat"] by linarith
  then have big: "\<not> u128_max < digits_value (w @ f)" by (simp add: u128_max_def d(2))
  have ne': "\<not> (w = [] \<and> f = [])" using nz by auto
  have split: "(case split_once (\<lambda>c. c = CHR ''e'' \<or> c = CHR ''E'') (trim t) of
      Some (mantissa, exponent) \<Rightarrow> map_option (Pair mantissa) (parse_i32 exponent) | None \<Rightarrow> Some (trim t, 0)) = Some (m, e)"
    unfolding mx(1) by (rule split_exponent [OF mx(2,3)])
  show ?thesis
    unfolding parse_stages [OF split split_point(2) [OF mx(2)]] k option.case
    by (rule if_not_P) (use sign split_point(1) [OF mx(2)] d(1) w f len big ne' in \<open>simp only: mx(1) not_less de_Morgan_disj\<close>, simp)
qed

lemma parse_scientific:
  assumes "mantissa_text m w f" "parse_i32 y = Some e" "trim t = m @ ''e'' @ y" "\<exists>c \<in> set (w @ f). c \<noteq> CHR ''0''"
    and "length (w @ f) \<le> 38" "decimal_digits scale = Some k"
  shows "parse_decimal_to_scaled t scale = scale_amount (digits_value (w @ f)) e k (int (length f))"
proof (rule parse_amount [OF _ assms(6)])
  have "exponent_text (''e'' @ y) e" using assms(2) by (simp add: exponent_text_def)
  moreover have "length (dropWhile (\<lambda>c. c = CHR ''0'') (w @ f)) \<le> 38" "length f \<le> 38"
    using length_dropWhile_le [of "\<lambda>c. c = CHR ''0''" "w @ f"] assms(5) by simp_all
  ultimately show "amount_text t w f e" unfolding amount_text_def using assms(1,3,4) by blast
qed

lemma split_once_Some: "split_once P s = Some (a, b) \<Longrightarrow> \<exists>c. s = a @ c # b \<and> P c"
  by (induction s arbitrary: a) (auto split: if_splits)

text \<open>Everything else is refused as invalid.\<close>

lemma parse_other:
  assumes "\<And>w f e. \<not> amount_text t w f e"
  shows "parse_decimal_to_scaled t scale = Inl InvalidAmount"
proof (rule ccontr)
  assume n: "parse_decimal_to_scaled t scale \<noteq> Inl InvalidAmount"
  obtain m e where me: "(case split_once (\<lambda>c. c = CHR ''e'' \<or> c = CHR ''E'') (trim t) of
      Some (mantissa, exponent) \<Rightarrow> map_option (Pair mantissa) (parse_i32 exponent) | None \<Rightarrow> Some (trim t, 0)) = Some (m, e)"
    using n by (auto simp: parse_decimal_to_scaled_def Let_def split: if_splits option.splits)
  obtain w f where wf: "(case split_once (\<lambda>c. c = CHR ''.'') m of Some parts \<Rightarrow> parts | None \<Rightarrow> (m, [])) = (w, f)" by force
  have digits: "list_all is_ascii_digit w" "list_all is_ascii_digit f" "dropWhile (\<lambda>c. c = CHR ''0'') (w @ f) \<noteq> []"
    "length (dropWhile (\<lambda>c. c = CHR ''0'') (w @ f)) \<le> 38" "length f \<le> 38"
    using n [unfolded parse_stages [OF me wf]] by (simp_all only: not_less [symmetric]) (rule ccontr, simp)+
  have m: "mantissa_text m w f"
    using wf digits(1,2) by (auto simp: mantissa_text_def split: option.splits dest!: split_once_Some)
  have "\<exists>x. trim t = m @ x \<and> exponent_text x e"
    using me by (auto simp: exponent_text_def split: option.splits dest!: split_once_Some)
  moreover have "\<exists>c \<in> set (w @ f). c \<noteq> CHR ''0''" using digits(3) by (auto simp: dropWhile_eq_Nil_conv)
  ultimately have "amount_text t w f e" using m digits(4,5) unfolding amount_text_def by blast
  then show False using assms by blast
qed

lemma amount_range:
  assumes "amount_text t w f e"
  shows "1 \<le> digits_value (w @ f)" "digits_value (w @ f) < 10 ^ 38" "length f \<le> 38" "- (2 ^ 31) \<le> e" "e < 2 ^ 31"
proof -
  let ?d = "dropWhile (\<lambda>c. c = CHR ''0'') (w @ f)"
  have digits: "list_all is_ascii_digit (w @ f)" and len: "length ?d \<le> 38" and nz: "\<exists>c \<in> set (w @ f). c \<noteq> CHR ''0''"
    using assms by (auto simp: amount_text_def mantissa_text_def)
  have "list_all is_ascii_digit ?d" using digits by (rule list_all_dropWhile)
  then show "digits_value (w @ f) < 10 ^ 38"
    using digits_value_less [of ?d] power_increasing [OF len, of "10 :: nat"] digits_value_zeros [of "w @ f"] by simp
  show "1 \<le> digits_value (w @ f)" using digits_value_pos [OF digits nz] by simp
  show "length f \<le> 38" using assms by (simp add: amount_text_def)
  show "- (2 ^ 31) \<le> e" "e < 2 ^ 31"
    using assms parse_i32_range by (auto simp: amount_text_def exponent_text_def)
qed

lemma parse_amount_rounds:
  assumes "amount_text t w f e" "k \<le> 38" "shift = e + int k - int (length f)"
  shows "parse_decimal_to_scaled t (10 ^ k) =
    (let r = nearest (of_nat (digits_value (w @ f)) * 10 powi shift)
     in if r > u64_max then Inl Overflow else if r = 0 \<and> - 38 \<le> shift then Inl InvalidAmount else Inr r)"
  using parse_amount [OF assms(1) decimal_digits_power [of k]] amount_range [OF assms(1)] assms(2,3)
  by (simp add: scale_amount_rounds [where shift = shift] exact_amount_def)

subsection \<open>Properties\<close>

text \<open>
  C25 (bounds). What is read as a price, and as which: every text that is a number of digits, with or
  without a decimal point, fraction and exponent (\<open>e\<close> or \<open>E\<close>), between blanks, not zero and with at most
  38 significant and 38 fractional digits, is read exactly. The result is the decimal amount times the
  scale, rounded to the nearest integer with halves up, whenever that fits 64 bits. A larger one is an
  overflow, and one that rounds to zero is invalid, unless its last digit is more than 38 places below
  the unit: then it is zero. Every other text is invalid.
\<close>

theorem decimal_price_rounds_to_nearest:
  assumes "k \<le> 38"
  shows "(\<forall>w f e shift. amount_text t w f e \<and> shift = e + int k - int (length f) \<longrightarrow>
      parse_decimal_to_scaled t (10 ^ k) =
        (let r = nearest (of_nat (digits_value (w @ f)) * 10 powi shift)
         in if r > u64_max then Inl Overflow else if r = 0 \<and> - 38 \<le> shift then Inl InvalidAmount else Inr r))
    \<and> ((\<forall>w f e. \<not> amount_text t w f e) \<longrightarrow> parse_decimal_to_scaled t (10 ^ k) = Inl InvalidAmount)"
  using parse_amount_rounds [OF _ assms] parse_other by blast

lemma wit_amounts: "amount_text '' 2.5E-6 '' ''2'' ''5'' (- 6)" "amount_text ''17'' ''17'' [] 0"
  "amount_text ''1e-20'' ''1'' [] (- 20)" "amount_text ''1e-60'' ''1'' [] (- 60)"
proof -
  have trims: "trim '' 2.5E-6 '' = ''2.5'' @ ''E-6''" "trim ''17'' = ''17'' @ []"
    "trim ''1e-20'' = ''1'' @ ''e-20''" "trim ''1e-60'' = ''1'' @ ''e-60''" by code_simp+
  have ints: "parse_i32 ''-6'' = Some (- 6)" "parse_i32 ''-20'' = Some (- 20)" "parse_i32 ''-60'' = Some (- 60)" by code_simp+
  have exps: "exponent_text ''E-6'' (- 6)" "exponent_text [] 0" "exponent_text ''e-20'' (- 20)" "exponent_text ''e-60'' (- 60)"
    by (simp_all add: exponent_text_def ints)
  have mans: "mantissa_text ''2.5'' ''2'' ''5''" "mantissa_text ''17'' ''17'' []" "mantissa_text ''1'' ''1'' []" by code_simp+
  have amount: "trim t = m @ x \<Longrightarrow> mantissa_text m w f \<Longrightarrow> exponent_text x e \<Longrightarrow> \<exists>c \<in> set (w @ f). c \<noteq> CHR ''0''
      \<Longrightarrow> length (w @ f) \<le> 38 \<Longrightarrow> amount_text t w f e" for t m x w f e
    using length_dropWhile_le [of "\<lambda>c. c = CHR ''0''" "w @ f"] unfolding amount_text_def by fastforce
  show "amount_text '' 2.5E-6 '' ''2'' ''5'' (- 6)" by (rule amount [OF trims(1) mans(1) exps(1)]) simp_all
  show "amount_text ''17'' ''17'' [] 0" by (rule amount [OF trims(2) mans(2) exps(2)]) simp_all
  show "amount_text ''1e-20'' ''1'' [] (- 20)" by (rule amount [OF trims(3) mans(3) exps(3)]) simp_all
  show "amount_text ''1e-60'' ''1'' [] (- 60)" by (rule amount [OF trims(4) mans(3) exps(4)]) simp_all
qed

theorem decimal_price_rounds_to_nearest_witness:
  "parse_decimal_to_scaled '' 2.5E-6 '' (10 ^ 12) = Inr 2500000 \<and> parse_decimal_to_scaled ''17'' (10 ^ 6) = Inr 17000000
   \<and> parse_decimal_to_scaled ''+1'' (10 ^ 6) = Inl InvalidAmount"
proof -
  have v: "digits_value ''25'' = 25" "digits_value ''17'' = 17" by code_simp+
  have n: "nearest (25 * 10 powi 5) = 2500000" "nearest (17 * 10 powi 6) = 17000000"
    using nearest_of_nat [of 2500000] nearest_of_nat [of 17000000] by simp_all
  have plus: "trim ''+1'' = ''+1''" "\<not> is_ascii_digit CHR ''+''" by code_simp+
  have no: "\<forall>w f e. \<not> amount_text ''+1'' w f e"
    using plus(2) unfolding amount_text_def mantissa_text_def exponent_text_def plus(1)
    by (fastforce simp: Cons_eq_append_conv)
  show ?thesis
    using decimal_price_rounds_to_nearest [of 12 "'' 2.5E-6 ''", THEN conjunct1, rule_format, OF _ conjI, OF _ wit_amounts(1) refl]
      decimal_price_rounds_to_nearest [of 6 "''17''", THEN conjunct1, rule_format, OF _ conjI, OF _ wit_amounts(2) refl]
      decimal_price_rounds_to_nearest [of 6 "''+1''", THEN conjunct2, rule_format, OF _ no [rule_format]] v n
    by (simp add: u64_max_def)
qed

text \<open>
  C26 (error). Prices per token that round to zero are not treated alike. Of all well-formed positive
  prices below half a micro-unit per million tokens, those with their last digit at most 50 places
  after the point are refused as invalid, and those with further digits are accepted as the price 0,
  however much larger they may be.
\<close>

theorem tiny_price_accepted_as_zero:
  assumes "json_text v = Some t" "amount_text t w f e"
    and "of_nat (digits_value (w @ f)) * 10 powi (e - int (length f)) < (1 / (2 * 10 ^ 12) :: rat)"
  shows "usd_per_token_to_micro_usd_per_million json_text v = (if e - int (length f) < - 50 then Inr 0 else Inl InvalidAmount)"
proof -
  let ?x = "of_nat (digits_value (w @ f)) * 10 powi (e - int (length f)) :: rat"
  have shift: "of_nat (digits_value (w @ f)) * 10 powi (e + int 12 - int (length f)) = ?x * 10 ^ 12"
    by (simp add: power_int_add power_int_diff field_simps)
  have "0 \<le> ?x" by simp
  moreover have "?x * 10 ^ 12 < 1 / 2" using assms(3) by (simp add: field_simps)
  ultimately have "\<lfloor>?x * 10 ^ 12 + 1 / 2\<rfloor> = 0" by (intro floor_unique) auto
  then have "nearest (?x * 10 ^ 12) = 0" by (simp add: nearest_def)
  then have "parse_decimal_to_scaled t (10 ^ 12) = (if - 38 \<le> e + int 12 - int (length f) then Inl InvalidAmount else Inr 0)"
    using parse_amount_rounds [OF assms(2) _ refl, of 12] unfolding shift by (simp add: u64_max_def)
  then show ?thesis
    using assms(1) by (simp add: usd_per_token_to_micro_usd_per_million_def parse_decimal_value_def)
qed

theorem tiny_price_accepted_as_zero_witness:
  "usd_per_token_to_micro_usd_per_million Some ''1e-20'' = Inl InvalidAmount
   \<and> usd_per_token_to_micro_usd_per_million Some ''1e-60'' = Inr 0"
proof -
  have v: "digits_value (''1'' @ []) = 1" by code_simp
  have "(10 :: rat) powi (- 20) < 1 / (2 * 10 ^ 12)" "(10 :: rat) powi (- 60) < 1 / (2 * 10 ^ 12)" by (simp_all add: power_int_def power_divide)
  then show ?thesis
    using tiny_price_accepted_as_zero [of Some, OF refl wit_amounts(3)] tiny_price_accepted_as_zero [of Some, OF refl wit_amounts(4)] v by simp
qed

end
