(* ===== verification/Pricing_Catalog.thy ===== *)
theory Pricing_Catalog
  imports Ordered_Maps Decimal_Amounts "HOL-Library.FSet" "HOL-Library.List_Lexorder" "HOL-Library.Char_ord"
begin

section \<open>The pricing catalog (\<open>pricing/mod.rs\<close>, \<open>litellm_parser.rs\<close>, \<open>resolver.rs\<close>, \<open>catalog.rs\<close>)\<close>

text \<open>
  Model prices: records of the LiteLLM document are parsed one by one, indexed by their normalised
  identifier with conflicting duplicates set aside, and a price is resolved from provider evidence,
  an exact record, the record of a declared family, or a manual value. JSON values are of an
  arbitrary type with the accessors of the record \<open>pricing_json\<close>; an object is the list of its
  members in the order the map iterates. SHA-256 is a parameter.
\<close>

subsection \<open>Prices\<close>

definition MAX_MODEL_PRICE_MICRO_USD_PER_MILLION :: u64 where
  "MAX_MODEL_PRICE_MICRO_USD_PER_MILLION = 1000000000000"

record TokenPrice =
  tp_input :: u64
  tp_cache_read :: "u64 option"
  tp_cache_write_5m :: "u64 option"
  tp_cache_write_1h :: "u64 option"
  tp_output :: u64

definition option_is_valid :: "u64 option \<Rightarrow> bool" where
  "option_is_valid value =
     (case value of Some value \<Rightarrow> value \<le> MAX_MODEL_PRICE_MICRO_USD_PER_MILLION | None \<Rightarrow> True)"

definition token_price_is_valid :: "TokenPrice \<Rightarrow> bool" where
  "token_price_is_valid p \<longleftrightarrow>
     tp_input p \<le> MAX_MODEL_PRICE_MICRO_USD_PER_MILLION \<and> tp_output p \<le> MAX_MODEL_PRICE_MICRO_USD_PER_MILLION
     \<and> option_is_valid (tp_cache_read p) \<and> option_is_valid (tp_cache_write_5m p) \<and> option_is_valid (tp_cache_write_1h p)"

record ImageModelPrice =
  im_input_micro_usd_per_image :: "u64 option"
  im_output_micro_usd_per_image :: "u64 option"
  im_input_micro_usd_per_image_token :: "u64 option"

record ImageRequestPrice =
  ir_operation :: string
  ir_quality :: string
  ir_size :: string
  ir_micro_usd :: u64

datatype PriceSource = Provider | LiteLlmExact | LiteLlmCanonical | Manual | Unpriced

datatype PricingSourceSummary = SumProvider | SumLiteLlmExact | SumLiteLlmCanonical | SumManual | SumMixed | SumUnpriced

fun sources_loop :: "PriceSource option \<Rightarrow> PriceSource list \<Rightarrow> PricingSourceSummary" where
  "sources_loop result [] =
     (case result of
        Some Provider \<Rightarrow> SumProvider | Some LiteLlmExact \<Rightarrow> SumLiteLlmExact
      | Some LiteLlmCanonical \<Rightarrow> SumLiteLlmCanonical | Some Manual \<Rightarrow> SumManual | _ \<Rightarrow> SumUnpriced)"
| "sources_loop result (source # sources) =
     (if source = Unpriced then sources_loop result sources
      else (case result of
          None \<Rightarrow> sources_loop (Some source) sources
        | Some previous \<Rightarrow> if previous = source then sources_loop (Some previous) sources else SumMixed))"

definition from_sources :: "PriceSource list \<Rightarrow> PricingSourceSummary" where
  "from_sources sources = sources_loop None sources"

record ResolvedPrice =
  rp_quote :: "TokenPrice option"
  rp_source :: PriceSource
  rp_catalog_revision :: "string option"
  rp_catalog_fetched_at_ms :: "u64 option"
  rp_stale :: bool

record CatalogEntry =
  ce_model_id :: string
  ce_provider :: "string option"
  ce_token :: "TokenPrice option"
  ce_image :: "ImageModelPrice option"
  ce_request_micro_usd :: "u64 option"

definition request_priced :: "string \<Rightarrow> string option \<Rightarrow> u64 \<Rightarrow> CatalogEntry" where
  "request_priced model_id provider request_micro_usd =
     \<lparr>ce_model_id = model_id, ce_provider = provider, ce_token = None, ce_image = None,
      ce_request_micro_usd = Some request_micro_usd\<rparr>"

definition equivalent_pricing :: "CatalogEntry \<Rightarrow> CatalogEntry \<Rightarrow> bool" where
  "equivalent_pricing a b \<longleftrightarrow>
     ce_provider a = ce_provider b \<and> ce_token a = ce_token b \<and> ce_image a = ce_image b
     \<and> ce_request_micro_usd a = ce_request_micro_usd b"

definition price_normalize :: "string \<Rightarrow> string" where
  "price_normalize value = to_ascii_lowercase (trim value)"

definition unqualified :: "string \<Rightarrow> string" where
  "unqualified value = price_normalize (rev (takeWhile (\<lambda>c. c \<noteq> CHR ''/'') (rev value)))"

subsection \<open>Records of the LiteLLM document (\<open>litellm_parser.rs\<close>)\<close>

record 'json pricing_json =
  pj_as_object :: "'json \<Rightarrow> (string \<times> 'json) list option"
  pj_as_str :: "'json \<Rightarrow> string option"
  pj_is_null :: "'json \<Rightarrow> bool"
  pj_amount_text :: "'json \<Rightarrow> string option"
  pj_to_vec :: "'json \<Rightarrow> string option"

definition bounded_price :: "PricingError + nat \<Rightarrow> PricingError + u64 option" where
  "bounded_price r =
     (case r of
        Inl e \<Rightarrow> Inl e
      | Inr v \<Rightarrow> if v \<le> unat MAX_MODEL_PRICE_MICRO_USD_PER_MILLION then Inr (Some (of_nat v)) else Inl Overflow)"

definition optional_token :: "'json pricing_json \<Rightarrow> (string \<times> 'json) list \<Rightarrow> string \<Rightarrow> PricingError + u64 option" where
  "optional_token js object key =
     (case map_of object key of
        None \<Rightarrow> Inr None
      | Some v \<Rightarrow> if pj_is_null js v then Inr None
          else bounded_price (usd_per_token_to_micro_usd_per_million (pj_amount_text js) v))"

definition optional_request :: "'json pricing_json \<Rightarrow> (string \<times> 'json) list \<Rightarrow> string \<Rightarrow> PricingError + u64 option" where
  "optional_request js object key =
     (case map_of object key of
        None \<Rightarrow> Inr None
      | Some v \<Rightarrow> if pj_is_null js v then Inr None
          else bounded_price (usd_per_request_to_micro_usd (pj_amount_text js) v))"

definition optional_micro_request :: "'json pricing_json \<Rightarrow> (string \<times> 'json) list \<Rightarrow> PricingError + u64 option" where
  "optional_micro_request js object =
     (case List.map_filter (map_of object) [''input_cost_per_request'', ''output_cost_per_request'',
           ''cost_per_request'', ''request_cost_per_request''] of
        [] \<Rightarrow> Inr None
      | v # _ \<Rightarrow> if pj_is_null js v then Inr None
          else bounded_price (usd_per_request_to_micro_usd (pj_amount_text js) v))"

definition try_bind :: "'e + 'a \<Rightarrow> ('a \<Rightarrow> 'e + 'b) \<Rightarrow> 'e + 'b" where
  "try_bind r f = (case r of Inl e \<Rightarrow> Inl e | Inr x \<Rightarrow> f x)"

definition parse_token_price :: "'json pricing_json \<Rightarrow> (string \<times> 'json) list \<Rightarrow> PricingError + TokenPrice option" where
  "parse_token_price js object =
     try_bind (optional_token js object ''input_cost_per_token'') (\<lambda>input.
     try_bind (optional_token js object ''output_cost_per_token'') (\<lambda>output.
       case (input, output) of
         (Some input, Some output) \<Rightarrow>
           try_bind (optional_token js object ''cache_read_input_token_cost'') (\<lambda>cache_read.
           try_bind (optional_token js object ''cache_creation_input_token_cost'') (\<lambda>cache_write_5m.
           try_bind (optional_token js object ''cache_creation_input_token_cost_above_1hr'') (\<lambda>cache_write_1h.
             Inr (Some \<lparr>tp_input = input, tp_cache_read = cache_read, tp_cache_write_5m = cache_write_5m,
                        tp_cache_write_1h = cache_write_1h, tp_output = output\<rparr>))))
       | _ \<Rightarrow> Inr None))"

definition parse_image_price :: "'json pricing_json \<Rightarrow> (string \<times> 'json) list \<Rightarrow> PricingError + ImageModelPrice option" where
  "parse_image_price js object =
     try_bind (optional_request js object ''output_cost_per_image'') (\<lambda>output_per_image.
     try_bind (optional_request js object ''input_cost_per_image'') (\<lambda>input_per_image.
     try_bind (optional_token js object ''input_cost_per_image_token'') (\<lambda>input_per_image_token.
       if output_per_image = None \<and> input_per_image = None \<and> input_per_image_token = None then Inr None
       else Inr (Some \<lparr>im_input_micro_usd_per_image = input_per_image, im_output_micro_usd_per_image = output_per_image,
                       im_input_micro_usd_per_image_token = input_per_image_token\<rparr>))))"

definition parse_entry :: "'json pricing_json \<Rightarrow> string \<Rightarrow> 'json \<Rightarrow> PricingError + CatalogEntry option" where
  "parse_entry js model_id v =
     (case pj_as_object js v of
        None \<Rightarrow> Inl InvalidRecord
      | Some object \<Rightarrow>
          let provider = (case map_option trim (Option.bind (map_of object ''litellm_provider'') (pj_as_str js)) of
                Some p \<Rightarrow> if p = [] then None else Some (to_ascii_lowercase p)
              | None \<Rightarrow> None)
          in try_bind (parse_token_price js object) (\<lambda>token.
             try_bind (parse_image_price js object) (\<lambda>image.
             try_bind (optional_micro_request js object) (\<lambda>request_micro_usd.
               if token = None \<and> image = None \<and> request_micro_usd = None then Inr None
               else (case request_micro_usd of
                   Some price \<Rightarrow>
                     if token = None \<and> image = None then Inr (Some (request_priced model_id provider price))
                     else Inr (Some \<lparr>ce_model_id = model_id, ce_provider = provider, ce_token = token,
                                     ce_image = image, ce_request_micro_usd = request_micro_usd\<rparr>)
                 | None \<Rightarrow> Inr (Some \<lparr>ce_model_id = model_id, ce_provider = provider, ce_token = token,
                                     ce_image = image, ce_request_micro_usd = request_micro_usd\<rparr>))))))"

subsection \<open>The catalog\<close>

definition MAX_CACHE_BYTES :: nat where "MAX_CACHE_BYTES = 16 * 1024 * 1024"
definition MAX_CACHE_RECORDS :: nat where "MAX_CACHE_RECORDS = 100000"
definition MAX_CACHE_STRING_LENGTH :: nat where "MAX_CACHE_STRING_LENGTH = 1024"

record PricingCatalog =
  pc_revision :: "string option"
  pc_fetched_at_ms :: "u64 option"
  pc_stale :: bool
  pc_entries :: "(string, CatalogEntry) btree_map"
  pc_conflicts :: "string fset"
  pc_unique :: "(string, CatalogEntry) btree_map"

definition catalog_empty :: PricingCatalog where
  "catalog_empty = \<lparr>pc_revision = None, pc_fetched_at_ms = None, pc_stale = False, pc_entries = bt_empty,
     pc_conflicts = {||}, pc_unique = bt_empty\<rparr>"

definition validate_litellm_payload :: "'json pricing_json \<Rightarrow> 'json \<Rightarrow> PricingError + (string \<times> 'json) list" where
  "validate_litellm_payload js payload =
     (case pj_as_object js payload of
        None \<Rightarrow> Inl InvalidCatalog
      | Some object \<Rightarrow>
          if length object > MAX_CACHE_RECORDS then Inl CacheTooLarge
          else if list_ex (\<lambda>m. fst m = [] \<or> length (fst m) > MAX_CACHE_STRING_LENGTH) object then Inl InvalidCatalog
          else Inr object)"

definition index_entry :: "string \<Rightarrow> CatalogEntry \<Rightarrow> PricingCatalog \<Rightarrow> PricingCatalog" where
  "index_entry model_id entry c =
     (let key = price_normalize model_id;
          c = (case bt_get (pc_unique c) key of
              Some existing \<Rightarrow>
                if \<not> equivalent_pricing existing entry
                then c\<lparr>pc_conflicts := finsert key (pc_conflicts c), pc_unique := bt_remove key (pc_unique c)\<rparr>
                else c
            | None \<Rightarrow>
                if key |\<notin>| pc_conflicts c then c\<lparr>pc_unique := bt_insert key entry (pc_unique c)\<rparr> else c)
      in c\<lparr>pc_entries := bt_insert model_id entry (pc_entries c)\<rparr>)"

definition index_record :: "'json pricing_json \<Rightarrow> string \<times> 'json \<Rightarrow> PricingCatalog \<Rightarrow> PricingCatalog" where
  "index_record js m c =
     (if length (fst m) > MAX_CACHE_STRING_LENGTH then c
      else (case parse_entry js (fst m) (snd m) of Inr (Some entry) \<Rightarrow> index_entry (fst m) entry c | _ \<Rightarrow> c))"

definition from_litellm_payload ::
  "'json pricing_json \<Rightarrow> 'json \<Rightarrow> string option \<Rightarrow> u64 option \<Rightarrow> bool \<Rightarrow> PricingError + PricingCatalog" where
  "from_litellm_payload js payload revision fetched_at_ms stale =
     (case validate_litellm_payload js payload of
        Inl e \<Rightarrow> Inl e
      | Inr object \<Rightarrow>
          Inr ((foldl (\<lambda>c m. index_record js m c) catalog_empty object)
            \<lparr>pc_revision := revision, pc_fetched_at_ms := fetched_at_ms, pc_stale := stale\<rparr>))"

definition conflicting :: "PricingCatalog \<Rightarrow> string \<Rightarrow> bool" where
  "conflicting c model_id \<longleftrightarrow> price_normalize model_id |\<in>| pc_conflicts c"

fun rank_loop :: "string \<Rightarrow> nat \<Rightarrow> string list \<Rightarrow> u32 option" where
  "rank_loop normalized rank [] = None"
| "rank_loop normalized rank (i # ids) =
     (if (price_normalize i = normalized \<or> unqualified i = normalized) \<and> rank < 2 ^ 32 then Some (of_nat rank)
      else rank_loop normalized (rank + 1) ids)"

definition rank_for :: "PricingCatalog \<Rightarrow> string \<Rightarrow> u32 option" where
  "rank_for c model = rank_loop (price_normalize model) 0 (filter (\<lambda>i. \<not> conflicting c i) (bt_keys (pc_entries c)))"

definition entry_matches :: "PricingCatalog \<Rightarrow> string \<Rightarrow> CatalogEntry \<Rightarrow> bool" where
  "entry_matches c normalized entry \<longleftrightarrow> \<not> conflicting c (ce_model_id entry)
     \<and> (price_normalize (ce_model_id entry) = normalized \<or> unqualified (ce_model_id entry) = normalized)"

definition image_row :: "string \<Rightarrow> u64 option \<Rightarrow> ImageRequestPrice list" where
  "image_row operation price =
     (case price of
        None \<Rightarrow> []
      | Some price \<Rightarrow> [\<lparr>ir_operation = operation, ir_quality = ''default'', ir_size = ''default'', ir_micro_usd = price\<rparr>])"

definition image_request_prices :: "PricingCatalog \<Rightarrow> string \<Rightarrow> ImageRequestPrice list" where
  "image_request_prices c model =
     (case find (\<lambda>entry. ce_image entry \<noteq> None)
         (filter (entry_matches c (price_normalize model)) (bt_values (pc_entries c))) of
        None \<Rightarrow> []
      | Some entry \<Rightarrow>
          (case ce_image entry of
             None \<Rightarrow> []
           | Some img \<Rightarrow> image_row ''generation'' (im_output_micro_usd_per_image img)
               @ image_row ''edit'' (im_input_micro_usd_per_image img)))"

definition has_token_price :: "PricingCatalog \<Rightarrow> string \<Rightarrow> bool" where
  "has_token_price c model =
     list_ex (\<lambda>entry. ce_token entry \<noteq> None \<and> entry_matches c (price_normalize model) entry) (bt_values (pc_entries c))"

subsection \<open>Resolution (\<open>resolver.rs\<close>)\<close>

definition resolved :: "PricingCatalog \<Rightarrow> TokenPrice option \<Rightarrow> PriceSource \<Rightarrow> ResolvedPrice" where
  "resolved c quoted source =
     \<lparr>rp_quote = quoted, rp_source = source, rp_catalog_revision = pc_revision c,
      rp_catalog_fetched_at_ms = pc_fetched_at_ms c, rp_stale = pc_stale c\<rparr>"

definition unpriced :: "PricingCatalog \<Rightarrow> ResolvedPrice" where
  "unpriced c = resolved c None Unpriced"

definition owned_entry :: "PricingCatalog \<Rightarrow> string \<Rightarrow> string \<Rightarrow> CatalogEntry option" where
  "owned_entry c key provider =
     (case bt_get (pc_unique c) key of
        None \<Rightarrow> None
      | Some entry \<Rightarrow> if ce_provider entry = Some provider then Some entry else None)"

definition exact_entry :: "PricingCatalog \<Rightarrow> string \<Rightarrow> string option \<Rightarrow> CatalogEntry option" where
  "exact_entry c model0 provider =
     (let model = price_normalize model0 in
      case provider of
        None \<Rightarrow> bt_get (pc_unique c) model
      | Some provider0 \<Rightarrow>
          let provider = price_normalize provider0 in
          (case owned_entry c (provider @ ''/'' @ unqualified model) provider of
             Some entry \<Rightarrow> Some entry
           | None \<Rightarrow>
               (case owned_entry c model provider of
                  Some entry \<Rightarrow> Some entry
                | None \<Rightarrow> owned_entry c (unqualified model) provider)))"

definition canonical_candidates :: "PricingCatalog \<Rightarrow> string \<Rightarrow> string \<Rightarrow> CatalogEntry list" where
  "canonical_candidates c model0 family0 =
     filter (\<lambda>entry. ce_provider entry = Some (price_normalize family0)
         \<and> unqualified (ce_model_id entry) = unqualified model0 \<and> \<not> conflicting c (ce_model_id entry))
       (bt_values (pc_entries c))"

definition canonical_entry :: "PricingCatalog \<Rightarrow> string \<Rightarrow> string \<Rightarrow> CatalogEntry option" where
  "canonical_entry c model family =
     (case canonical_candidates c model family of
        [] \<Rightarrow> None
      | first # rest \<Rightarrow> if list_all (\<lambda>candidate. equivalent_pricing candidate first) (first # rest) then Some first else None)"

definition resolve_source ::
  "PricingCatalog \<Rightarrow> string \<Rightarrow> string option \<Rightarrow> string option \<Rightarrow> TokenPrice option \<Rightarrow> TokenPrice option \<Rightarrow> ResolvedPrice" where
  "resolve_source c model pricing_provider official_provider_family provider_price manual_price =
     (case provider_price of
        Some price \<Rightarrow> resolved c (Some price) Provider
      | None \<Rightarrow>
          (case Option.bind (exact_entry c model pricing_provider) ce_token of
             Some price \<Rightarrow> resolved c (Some price) LiteLlmExact
           | None \<Rightarrow>
               (case Option.bind (Option.bind official_provider_family (canonical_entry c model)) ce_token of
                  Some price \<Rightarrow> resolved c (Some price) LiteLlmCanonical
                | None \<Rightarrow>
                    (case manual_price of None \<Rightarrow> unpriced c | Some price \<Rightarrow> resolved c (Some price) Manual))))"

definition resolve_account :: "PricingCatalog \<Rightarrow> string \<Rightarrow> string option \<Rightarrow> ResolvedPrice" where
  "resolve_account c model provider_family =
     (case Option.bind (Option.bind provider_family (canonical_entry c model)) ce_token of
        None \<Rightarrow> unpriced c
      | Some price \<Rightarrow> resolved c (Some price) LiteLlmCanonical)"

definition official_token_price :: "PricingCatalog \<Rightarrow> string \<Rightarrow> string \<Rightarrow> TokenPrice option" where
  "official_token_price c model provider_family = rp_quote (resolve_account c model (Some provider_family))"

record PriceEvidence =
  ev_provider :: "TokenPrice option"
  ev_manual :: "TokenPrice option"

record SourcePricingMetadata =
  sm_pricing_provider :: "string option"
  sm_official_provider_family :: "string option"

record PricingContext =
  px_account_provider_families :: "(string, string) btree_map"
  px_source_metadata :: "(string, SourcePricingMetadata) btree_map"
  px_source_evidence :: "(string, (string, PriceEvidence) btree_map) btree_map"
  px_global_manual_prices :: "(string, TokenPrice) btree_map"

text \<open>Lookup by the identifier as given, then by its normalised form.\<close>

definition get_normalized :: "(string, 'a) btree_map \<Rightarrow> string \<Rightarrow> 'a option" where
  "get_normalized m i = (case bt_get m i of Some x \<Rightarrow> Some x | None \<Rightarrow> bt_get m (price_normalize i))"

definition candidate_price :: "PricingContext \<Rightarrow> PricingCatalog \<Rightarrow> string \<Rightarrow> string \<Rightarrow> string option \<Rightarrow> ResolvedPrice" where
  "candidate_price px c candidate_kind candidate_id model0 =
     (case model0 of
        None \<Rightarrow> unpriced c
      | Some model \<Rightarrow>
          if trim model = [] then unpriced c
          else
            let evidence = Option.bind (get_normalized (px_source_evidence px) candidate_id)
                  (\<lambda>prices. bt_get prices (price_normalize model))
            in if eq_ignore_ascii_case candidate_kind ''account''
               then resolve_account c model
                 (case get_normalized (px_account_provider_families px) candidate_id of
                    Some family \<Rightarrow> Some family | None \<Rightarrow> Some ''openai'')
               else
                 let metadata = get_normalized (px_source_metadata px) candidate_id
                 in resolve_source c model (Option.bind metadata sm_pricing_provider)
                      (Option.bind metadata sm_official_provider_family) (Option.bind evidence ev_provider)
                      (case Option.bind evidence ev_manual of
                         Some price \<Rightarrow> Some price
                       | None \<Rightarrow> bt_get (px_global_manual_prices px) (price_normalize model)))"

subsection \<open>The index\<close>

text \<open>
  Every record is under its own identifier; unless its normalised identifier is in conflict, the
  index has a record with the same pricing for it, and every indexed record is in the catalog.
\<close>

definition catalog_wf :: "PricingCatalog \<Rightarrow> bool" where
  "catalog_wf c \<longleftrightarrow>
     (\<forall>i e. bt_get (pc_entries c) i = Some e \<longrightarrow> ce_model_id e = i
        \<and> (conflicting c i \<or> (\<exists>u. bt_get (pc_unique c) (price_normalize i) = Some u \<and> equivalent_pricing u e)))
     \<and> (\<forall>k u. bt_get (pc_unique c) k = Some u \<longrightarrow> k |\<notin>| pc_conflicts c \<and> price_normalize (ce_model_id u) = k
        \<and> (\<exists>e. bt_get (pc_entries c) (ce_model_id u) = Some e \<and> equivalent_pricing u e))"

lemma equivalent_pricing_equiv [simp]:
  "equivalent_pricing e e" "equivalent_pricing a b \<Longrightarrow> equivalent_pricing b c \<Longrightarrow> equivalent_pricing a c"
  by (auto simp: equivalent_pricing_def)

lemma catalog_wf_entry:
  assumes "catalog_wf c" "bt_get (pc_entries c) i = Some e"
  shows "ce_model_id e = i" "conflicting c i \<or> (\<exists>u. bt_get (pc_unique c) (price_normalize i) = Some u \<and> equivalent_pricing u e)"
  using assms unfolding catalog_wf_def by blast+

lemma catalog_wf_unique:
  assumes "catalog_wf c" "bt_get (pc_unique c) k = Some u"
  shows "k |\<notin>| pc_conflicts c" "price_normalize (ce_model_id u) = k"
    "\<exists>e. bt_get (pc_entries c) (ce_model_id u) = Some e \<and> equivalent_pricing u e"
  using assms unfolding catalog_wf_def by blast+

lemma catalog_wfI:
  assumes "\<And>i e. bt_get (pc_entries c) i = Some e \<Longrightarrow> ce_model_id e = i"
    and "\<And>i e. bt_get (pc_entries c) i = Some e \<Longrightarrow> price_normalize i |\<notin>| pc_conflicts c \<Longrightarrow>
        \<exists>u. bt_get (pc_unique c) (price_normalize i) = Some u \<and> equivalent_pricing u e"
    and "\<And>k u. bt_get (pc_unique c) k = Some u \<Longrightarrow> k |\<notin>| pc_conflicts c \<and> price_normalize (ce_model_id u) = k"
    and "\<And>k u. bt_get (pc_unique c) k = Some u \<Longrightarrow>
        \<exists>e. bt_get (pc_entries c) (ce_model_id u) = Some e \<and> equivalent_pricing u e"
  shows "catalog_wf c"
  using assms unfolding catalog_wf_def conflicting_def by blast

lemma index_entry_fields:
  "pc_entries (index_entry i entry c) = bt_insert i entry (pc_entries c)"
  "bt_get (pc_unique (index_entry i entry c)) k =
     (if k \<noteq> price_normalize i then bt_get (pc_unique c) k
      else (case bt_get (pc_unique c) k of
          Some u \<Rightarrow> if equivalent_pricing u entry then Some u else None
        | None \<Rightarrow> if k |\<in>| pc_conflicts c then None else Some entry))"
  "k |\<in>| pc_conflicts (index_entry i entry c) \<longleftrightarrow> k |\<in>| pc_conflicts c
     \<or> (k = price_normalize i \<and> (\<exists>u. bt_get (pc_unique c) k = Some u \<and> \<not> equivalent_pricing u entry))"
  by (auto simp: index_entry_def Let_def split: option.splits)

lemma index_entry_wf:
  assumes wf: "catalog_wf c" and entry: "ce_model_id entry = i"
  shows "catalog_wf (index_entry i entry c)"
proof (rule catalog_wfI)
  fix i' e assume e: "bt_get (pc_entries (index_entry i entry c)) i' = Some e"
  then show "ce_model_id e = i'"
    using entry catalog_wf_entry(1) [OF wf] by (auto simp: index_entry_fields split: if_splits)
  assume "price_normalize i' |\<notin>| pc_conflicts (index_entry i entry c)"
  then show "\<exists>u. bt_get (pc_unique (index_entry i entry c)) (price_normalize i') = Some u \<and> equivalent_pricing u e"
    using e catalog_wf_entry(2) [OF wf, of i' e]
    by (cases "i' = i") (auto simp: index_entry_fields conflicting_def split: option.splits)
next
  fix k u assume u: "bt_get (pc_unique (index_entry i entry c)) k = Some u"
  then show "k |\<notin>| pc_conflicts (index_entry i entry c) \<and> price_normalize (ce_model_id u) = k"
    using entry catalog_wf_unique(1,2) [OF wf, of k] by (auto simp: index_entry_fields split: if_splits option.splits)
  show "\<exists>e. bt_get (pc_entries (index_entry i entry c)) (ce_model_id u) = Some e \<and> equivalent_pricing u e"
  proof (cases "bt_get (pc_unique c) k = Some u")
    case True
    then have "equivalent_pricing u entry" if "ce_model_id u = i"
      using u that catalog_wf_unique(2) [OF wf True] by (auto simp: index_entry_fields split: if_splits)
    then show ?thesis using catalog_wf_unique(3) [OF wf True] by (auto simp: index_entry_fields)
  next
    case False
    then have "u = entry" using u by (auto simp: index_entry_fields split: if_splits option.splits)
    then show ?thesis using entry by (simp add: index_entry_fields)
  qed
qed

lemma parse_entry_id: "parse_entry js i v = Inr (Some e) \<Longrightarrow> ce_model_id e = i"
  by (auto simp: parse_entry_def try_bind_def request_priced_def Let_def split: option.splits sum.splits if_splits)

lemma index_records_wf: "catalog_wf c \<Longrightarrow> catalog_wf (foldl (\<lambda>c m. index_record js m c) c object)"
proof (induction object arbitrary: c)
  case (Cons m object)
  have "catalog_wf (index_record js m c)"
    using Cons.prems by (auto simp: index_record_def parse_entry_id intro!: index_entry_wf split: sum.splits option.splits)
  then show ?case using Cons.IH by simp
qed simp

lemma from_litellm_payload_wf:
  assumes "from_litellm_payload js payload revision fetched_at_ms stale = Inr c"
  shows "catalog_wf c"
proof -
  obtain object where c: "c = (foldl (\<lambda>c m. index_record js m c) catalog_empty object)
      \<lparr>pc_revision := revision, pc_fetched_at_ms := fetched_at_ms, pc_stale := stale\<rparr>"
    using assms by (auto simp: from_litellm_payload_def split: sum.splits)
  have "catalog_wf catalog_empty" by (simp add: catalog_wf_def catalog_empty_def)
  then have "catalog_wf (foldl (\<lambda>c m. index_record js m c) catalog_empty object)" by (rule index_records_wf)
  then show ?thesis by (simp add: c catalog_wf_def conflicting_def)
qed

lemma exact_entry_indexed:
  assumes "exact_entry c model provider = Some e"
  shows "\<exists>k. bt_get (pc_unique c) k = Some e" "provider = Some p \<Longrightarrow> ce_provider e = Some (price_normalize p)"
  using assms by (auto simp: exact_entry_def owned_entry_def Let_def split: option.splits if_splits)

subsection \<open>Correctness\<close>

datatype sample_doc = DocText string | DocObject "(string \<times> sample_doc) list"

definition sample_json :: "sample_doc pricing_json" where
  "sample_json =
     \<lparr>pj_as_object = (\<lambda>d. case d of DocObject ms \<Rightarrow> Some ms | DocText _ \<Rightarrow> None),
      pj_as_str = (\<lambda>d. case d of DocText t \<Rightarrow> Some t | DocObject _ \<Rightarrow> None), pj_is_null = (\<lambda>_. False),
      pj_amount_text = (\<lambda>d. case d of DocText t \<Rightarrow> Some t | DocObject _ \<Rightarrow> None), pj_to_vec = (\<lambda>_. Some [])\<rparr>"

definition sample_payload :: sample_doc where
  "sample_payload = DocObject [(''gpt'', DocObject [(''litellm_provider'', DocText ''openai''),
     (''input_cost_per_token'', DocText ''1.0e-6''), (''output_cost_per_token'', DocText ''1.0e-6'')])]"

definition sample_price :: TokenPrice where
  "sample_price = \<lparr>tp_input = 1000000, tp_cache_read = None, tp_cache_write_5m = None, tp_cache_write_1h = None, tp_output = 1000000\<rparr>"

definition sample_entry :: CatalogEntry where
  "sample_entry = \<lparr>ce_model_id = ''gpt'', ce_provider = Some ''openai'', ce_token = Some sample_price, ce_image = None,
     ce_request_micro_usd = None\<rparr>"

definition sample_catalog :: PricingCatalog where
  "sample_catalog = \<lparr>pc_revision = Some ''r'', pc_fetched_at_ms = Some 7, pc_stale = False,
     pc_entries = bt_insert ''gpt'' sample_entry bt_empty, pc_conflicts = {||},
     pc_unique = bt_insert ''gpt'' sample_entry bt_empty\<rparr>"

lemma sample_amount: "parse_decimal_to_scaled ''1.0e-6'' 1000000000000 = Inr 1000000"
proof -
  have digits: "mantissa_text ''1.0'' ''1'' ''0''" "digits_value ''10'' = 10" "trim ''1.0e-6'' = ''1.0'' @ ''e'' @ ''-6''"
    and x: "parse_i32 ''-6'' = Some (- 6)" by code_simp+
  have scale: "decimal_digits 1000000000000 = Some 12" using decimal_digits_power [of 12] by simp
  show ?thesis
    using parse_scientific [OF digits(1) x digits(3) _ _ scale] digits(2)
    by (simp add: scale_amount_def i64_range_def Let_def u128_max_def u64_max_def)
qed

lemma sample_names: "price_normalize ''gpt'' = ''gpt''" "unqualified ''gpt'' = ''gpt''" "price_normalize ''openai'' = ''openai''"
  "trim ''openai'' = ''openai''" "trim ''gpt'' = ''gpt''" "to_ascii_lowercase ''openai'' = ''openai''" "eq_ignore_ascii_case ''Account'' ''account''"
  by code_simp+

lemma sample_catalog_built: "from_litellm_payload sample_json sample_payload (Some ''r'') (Some 7) False = Inr sample_catalog"
  by (simp add: from_litellm_payload_def validate_litellm_payload_def sample_json_def sample_payload_def index_record_def
      MAX_CACHE_RECORDS_def MAX_CACHE_STRING_LENGTH_def parse_entry_def parse_token_price_def parse_image_price_def
      optional_token_def optional_request_def optional_micro_request_def try_bind_def bounded_price_def
      usd_per_token_to_micro_usd_per_million_def parse_decimal_value_def sample_amount sample_names
      MAX_MODEL_PRICE_MICRO_USD_PER_MILLION_def map_filter_simps index_entry_def catalog_empty_def
      sample_catalog_def sample_entry_def sample_price_def Let_def)

text \<open>
  A price resolved from an exact record of a catalog built from any document is
  unambiguous: there is a record with that normalised identifier, and all the records with it, whatever
  their spelling, carry that same price, and belong to the provider that was asked for.
\<close>

lemma exact_price_unambiguous:
  assumes "from_litellm_payload js payload revision fetched_at_ms stale = Inr c"
    and "resolve_source c model provider family None manual = r" "rp_source r = LiteLlmExact"
  shows "\<exists>k q. rp_quote r = Some q \<and> (\<exists>i e. bt_get (pc_entries c) i = Some e \<and> price_normalize i = k)
    \<and> (\<forall>i e. bt_get (pc_entries c) i = Some e \<and> price_normalize i = k \<longrightarrow>
         ce_token e = Some q \<and> (\<forall>p. provider = Some p \<longrightarrow> ce_provider e = Some (price_normalize p)))"
proof -
  have wf: "catalog_wf c" by (rule from_litellm_payload_wf [OF assms(1)])
  obtain u q where u: "exact_entry c model provider = Some u" "ce_token u = Some q" and q: "rp_quote r = Some q"
    using assms(2,3) by (auto simp: resolve_source_def resolved_def unpriced_def split: option.splits bind_splits)
  obtain k where k: "bt_get (pc_unique c) k = Some u" using exact_entry_indexed(1) [OF u(1)] by blast
  have "ce_token e = Some q \<and> (\<forall>p. provider = Some p \<longrightarrow> ce_provider e = Some (price_normalize p))"
    if "bt_get (pc_entries c) i = Some e" "price_normalize i = k" for i e
  proof -
    have "equivalent_pricing u e"
      using catalog_wf_entry(2) [OF wf that(1)] catalog_wf_unique(1) [OF wf k] that(2) k by (auto simp: conflicting_def)
    then show ?thesis using u(2) exact_entry_indexed(2) [OF u(1)] by (auto simp: equivalent_pricing_def)
  qed
  then show ?thesis using q catalog_wf_unique(2,3) [OF wf k] by blast
qed

text \<open>
  An account is priced only from its own family: a price resolved for an account comes
  from a record of the account's declared family (the default is \<open>openai\<close>) with the same unqualified
  model, every such record that is not in conflict carries it, and neither provider evidence, source
  metadata nor manual prices have any influence on it.
\<close>

lemma account_priced_from_family:
  assumes "eq_ignore_ascii_case kind ''account''" "rp_quote (candidate_price px c kind i (Some model)) = Some q"
    and "family = (case get_normalized (px_account_provider_families px) i of Some f \<Rightarrow> f | None \<Rightarrow> ''openai'')"
  shows "rp_source (candidate_price px c kind i (Some model)) = LiteLlmCanonical
    \<and> (\<exists>e \<in> set (canonical_candidates c model family). ce_token e = Some q)
    \<and> (\<forall>e \<in> set (canonical_candidates c model family). ce_token e = Some q \<and> ce_provider e = Some (price_normalize family))
    \<and> candidate_price (px\<lparr>px_source_metadata := ms, px_source_evidence := es, px_global_manual_prices := gs\<rparr>) c kind i (Some model)
        = candidate_price px c kind i (Some model)"
proof -
  have model: "trim model \<noteq> []" using assms(2) by (auto simp: candidate_price_def unpriced_def resolved_def)
  then have r: "candidate_price px c kind i (Some model) = resolve_account c model (Some family)"
    using assms(1,3) by (simp add: candidate_price_def Let_def split: option.splits)
  obtain first where first: "canonical_entry c model family = Some first" "ce_token first = Some q"
    using assms(2) by (auto simp: r resolve_account_def unpriced_def resolved_def split: option.splits bind_splits)
  have mem: "first \<in> set (canonical_candidates c model family)"
    and all: "\<forall>e \<in> set (canonical_candidates c model family). equivalent_pricing e first"
    using first(1) by (auto simp: canonical_entry_def list_all_iff split: list.splits if_splits)
  have "ce_provider e = Some (price_normalize family)" if "e \<in> set (canonical_candidates c model family)" for e
    using that by (simp add: canonical_candidates_def)
  moreover have "rp_source (resolve_account c model (Some family)) = LiteLlmCanonical"
    using first by (simp add: resolve_account_def resolved_def)
  moreover have "candidate_price (px\<lparr>px_source_metadata := ms, px_source_evidence := es, px_global_manual_prices := gs\<rparr>) c kind i (Some model)
      = candidate_price px c kind i (Some model)"
    using assms(1) by (simp add: candidate_price_def Let_def)
  ultimately show ?thesis using first(2) mem all by (auto simp: r equivalent_pricing_def)
qed

definition sample_context :: PricingContext where
  "sample_context = \<lparr>px_account_provider_families = bt_empty, px_source_metadata = bt_empty, px_source_evidence = bt_empty,
     px_global_manual_prices = bt_empty\<rparr>"

end
