(* ===== verification/Model_Order.thy ===== *)
theory Model_Order
  imports Rust_Numbers Ordered_Maps "HOL-Library.Multiset"
begin

section \<open>Model identifiers and their order (\<open>catalog/order.rs\<close>)\<close>

text \<open>
  How model identifiers and reasoning levels are validated, de-duplicated and ordered for display:
  known families by company, class, version and modifier, everything else in the order it came.
  \<open>slice::sort_by\<close> with a total order is insertion into a list with the same comparator.
\<close>

subsection \<open>Sorting by a comparator\<close>

fun insert_by :: "('a \<Rightarrow> 'a \<Rightarrow> ordering) \<Rightarrow> 'a \<Rightarrow> 'a list \<Rightarrow> 'a list" where
  "insert_by compare x [] = [x]"
| "insert_by compare x (y # ys) = (if compare x y = Greater then y # insert_by compare x ys else x # y # ys)"

definition slice_sort_by :: "('a \<Rightarrow> 'a \<Rightarrow> ordering) \<Rightarrow> 'a list \<Rightarrow> 'a list" where
  "slice_sort_by compare xs = foldr (insert_by compare) xs []"

locale exact_comparison =
  fixes compare :: "'a \<Rightarrow> 'a \<Rightarrow> ordering"
    and key :: "'a \<Rightarrow> 'k::linorder"
  assumes compare_key: "compare x y = cmp (key x) (key y)"
begin

lemma insert_by_key: "insert_by compare x ys = insort_key key x ys"
  by (induction ys) (auto simp: compare_key)

lemma sort_by_key: "slice_sort_by compare xs = sort_key key xs"
proof -
  have "insert_by compare = insort_key key" by (intro ext insert_by_key)
  then show ?thesis by (simp add: slice_sort_by_def sort_key_def)
qed

lemma sort_by_sorted: "sorted (map key (slice_sort_by compare xs))"
  by (simp add: sort_by_key)

lemma sort_by_mset: "mset (slice_sort_by compare xs) = mset xs"
  by (simp add: sort_by_key)

end

sublocale exact_comparison \<subseteq> keyed_comparison
  by unfold_locales (simp_all add: compare_key)

subsection \<open>Identifiers\<close>

definition MAX_MODEL_ID_BYTES :: nat where "MAX_MODEL_ID_BYTES = 256"

definition is_valid_model_id :: "string \<Rightarrow> bool" where
  "is_valid_model_id s \<longleftrightarrow> s \<noteq> [] \<and> length s \<le> MAX_MODEL_ID_BYTES \<and> \<not> has_control s"

fun has_whitespace :: "string \<Rightarrow> bool" where
  "has_whitespace [] \<longleftrightarrow> False"
| "has_whitespace (c # s) \<longleftrightarrow> leading_token ws_encodings (c # s) \<noteq> None \<or> has_whitespace s"

definition is_valid_model_token :: "string \<Rightarrow> bool" where
  "is_valid_model_token s \<longleftrightarrow> is_valid_model_id s \<and> \<not> has_whitespace s"

fun split_on :: "(char \<Rightarrow> bool) \<Rightarrow> string \<Rightarrow> string list" where
  "split_on P [] = [[]]"
| "split_on P (c # s) = (if P c then [] # split_on P s else (case split_on P s of [] \<Rightarrow> [[c]] | p # ps \<Rightarrow> (c # p) # ps))"

definition model_leaf :: "string \<Rightarrow> string" where
  "model_leaf model = trim (rev (takeWhile (\<lambda>c. c \<noteq> CHR ''/'') (rev model)))"

definition model_has_term :: "string \<Rightarrow> string \<Rightarrow> bool" where
  "model_has_term model t = list_ex (\<lambda>part. part = t) (split_on (\<lambda>c. \<not> is_ascii_alphanumeric c) model)"

definition is_openai_model :: "string \<Rightarrow> bool" where
  "is_openai_model model \<longleftrightarrow>
     starts_with model ''gpt-'' \<or> starts_with model ''codex-''
     \<or> (starts_with model ''o'' \<and> (case model of _ # c # _ \<Rightarrow> is_ascii_digit c | _ \<Rightarrow> False))
     \<or> starts_with model ''text-'' \<or> starts_with model ''dall-e''"

datatype KnownModelFamily = OpenAi | Anthropic | Gemini | Grok | Zai

definition known_model_family :: "string \<Rightarrow> KnownModelFamily option" where
  "known_model_family model =
     (if is_openai_model model then Some OpenAi
      else if starts_with model ''claude-'' then Some Anthropic
      else if starts_with model ''gemini-'' then Some Gemini
      else if starts_with model ''grok-'' then Some Grok
      else if starts_with model ''glm-'' then Some Zai
      else None)"

fun model_family_rank :: "KnownModelFamily \<Rightarrow> u8" where
  "model_family_rank OpenAi = 0"
| "model_family_rank Anthropic = 1"
| "model_family_rank Gemini = 2"
| "model_family_rank Grok = 3"
| "model_family_rank Zai = 4"

definition model_tier_rank :: "KnownModelFamily \<Rightarrow> string \<Rightarrow> bool \<Rightarrow> u8" where
  "model_tier_rank family model is_image =
     (if family = Anthropic \<and> model_has_term model ''fable'' then 0
      else if family = Anthropic \<and> model_has_term model ''opus'' then 1
      else if family = Anthropic \<and> model_has_term model ''sonnet'' then 2
      else if family = Anthropic \<and> model_has_term model ''haiku'' then 3
      else if (family = Gemini \<or> family = OpenAi) \<and> is_image then 90
      else if family = Gemini \<and> model_has_term model ''pro'' then 0
      else if family = Gemini \<and> model_has_term model ''lite'' then 2
      else if family = Gemini \<and> model_has_term model ''flash'' then 1
      else if family = OpenAi \<and> (model_has_term model ''mini'' \<or> model_has_term model ''compact'') then 10
      else if family = OpenAi \<and> model_has_term model ''spark'' then 20
      else if family = Grok \<and> model_has_term model ''build'' then 10
      else if family = Zai \<and> (model_has_term model ''air'' \<or> model_has_term model ''flash'' \<or> model_has_term model ''lite'') then 10
      else if family = Anthropic \<or> family = Gemini then 80
      else if is_image then 9
      else 0)"

definition model_modifier_rank :: "KnownModelFamily \<Rightarrow> string \<Rightarrow> u8" where
  "model_modifier_rank family model =
     (if family = OpenAi \<and> ends_with model ''-sol'' then 1
      else if family = OpenAi \<and> ends_with model ''-terra'' then 2
      else if family = OpenAi \<and> ends_with model ''-luna'' then 3
      else if family = OpenAi then 8
      else if family = Gemini \<and> model_has_term model ''preview'' then 9
      else if family = Gemini \<and> ends_with model ''-high'' then 1
      else if family = Gemini \<and> ends_with model ''-medium'' then 2
      else if family = Gemini \<and> ends_with model ''-low'' then 3
      else if family = Grok \<and> ends_with model ''-non-reasoning'' then 1
      else if family = Grok \<and> ends_with model ''-reasoning'' then 0
      else 0)"

definition version_token_components :: "string \<Rightarrow> int list" where
  "version_token_components token =
     take 4 (map (\<lambda>part. int (digits_value part))
       (filter (\<lambda>part. part \<noteq> [] \<and> length part \<le> 5) (split_on (\<lambda>c. \<not> is_ascii_digit c) token)))"

fun anthropic_version :: "int list \<Rightarrow> string list \<Rightarrow> int list" where
  "anthropic_version version [] = version"
| "anthropic_version version (token # tokens) =
     (if length token > 5 \<and> list_all is_ascii_digit token then version
      else
        let components = version_token_components token
        in if components = [] then version
           else if length (version @ components) \<ge> 4 then version @ components
           else anthropic_version (version @ components) tokens)"

definition model_version_components :: "KnownModelFamily \<Rightarrow> string \<Rightarrow> int list" where
  "model_version_components family model =
     (case dropWhile (\<lambda>token. \<not> list_ex is_ascii_digit token) (split_on (\<lambda>c. c = CHR ''-'') model) of
        [] \<Rightarrow> []
      | token # tokens \<Rightarrow>
          if family \<noteq> Anthropic then version_token_components token
          else take 4 (anthropic_version [] (token # tokens)))"

definition is_dated_grok_release :: "string \<Rightarrow> bool" where
  "is_dated_grok_release model \<longleftrightarrow>
     (case split_on (\<lambda>c. c = CHR ''-'') model of
        first # version # release # _ \<Rightarrow>
          first = ''grok'' \<and> list_all (\<lambda>part. part \<noteq> [] \<and> list_all is_ascii_digit part) (split_on (\<lambda>c. c = CHR ''.'') version)
          \<and> length release = 4 \<and> list_all is_ascii_digit release
      | _ \<Rightarrow> False)"

definition model_version_rank :: "KnownModelFamily \<Rightarrow> string \<Rightarrow> int list" where
  "model_version_rank family model =
     (let version = model_version_components family model;
          version = (if family = Grok \<and> is_dated_grok_release model \<and> length version > 1
              \<and> version ! 1 \<ge> 10 \<and> version ! 1 mod 10 = 0 then version[1 := version ! 1 div 10] else version)
      in map uminus (take 4 (version @ replicate (4 - length version) 0)))"

record SemanticModelSortKey =
  sk_family_rank :: u8
  sk_image_rank :: u8
  sk_tier_rank :: u8
  sk_version_rank :: "int list"
  sk_modifier_rank :: u8
  sk_preview_rank :: u8
  sk_model :: string

definition semantic_model_sort_key :: "string \<Rightarrow> SemanticModelSortKey option" where
  "semantic_model_sort_key model0 =
     (let model = to_ascii_lowercase (model_leaf model0)
      in case known_model_family model of
           None \<Rightarrow> None
         | Some family \<Rightarrow>
             let is_image = model_has_term model ''image'' \<or> starts_with model ''dall-e''
             in Some \<lparr>sk_family_rank = model_family_rank family, sk_image_rank = of_bool is_image,
                  sk_tier_rank = model_tier_rank family model is_image, sk_version_rank = model_version_rank family model,
                  sk_modifier_rank = model_modifier_rank family model,
                  sk_preview_rank = of_bool (model_has_term model ''preview''), sk_model = model\<rparr>)"

definition compare_sort_key :: "SemanticModelSortKey \<Rightarrow> SemanticModelSortKey \<Rightarrow> ordering" where
  "compare_sort_key a b =
     then_with (cmp (sk_family_rank a) (sk_family_rank b))
    (then_with (cmp (sk_image_rank a) (sk_image_rank b))
    (then_with (cmp (sk_tier_rank a) (sk_tier_rank b))
    (then_with (cmp (sk_version_rank a) (sk_version_rank b))
    (then_with (cmp (sk_modifier_rank a) (sk_modifier_rank b))
    (then_with (cmp (sk_preview_rank a) (sk_preview_rank b))
      (cmp (sk_model a) (sk_model b)))))))"

subsection \<open>Canonical lists\<close>

record OrderedModel =
  om_id :: string
  om_upstream_order :: nat
  om_semantic_key :: "SemanticModelSortKey option"

fun collect_models :: "string list \<Rightarrow> nat \<Rightarrow> string list \<Rightarrow> OrderedModel list" where
  "collect_models seen upstream_order [] = []"
| "collect_models seen upstream_order (model0 # models) =
     (let model = trim model0; normalized = to_ascii_lowercase model
      in if model = [] \<or> normalized \<in> set seen then collect_models seen (upstream_order + 1) models
         else \<lparr>om_id = model, om_upstream_order = upstream_order, om_semantic_key = semantic_model_sort_key model\<rparr>
              # collect_models (normalized # seen) (upstream_order + 1) models)"

definition compare_models :: "OrderedModel \<Rightarrow> OrderedModel \<Rightarrow> ordering" where
  "compare_models left right =
     (case (om_semantic_key left, om_semantic_key right) of
        (Some left_key, Some right_key) \<Rightarrow>
          then_with (compare_sort_key left_key right_key) (cmp (om_upstream_order left) (om_upstream_order right))
      | (Some _, None) \<Rightarrow> Less
      | (None, Some _) \<Rightarrow> Greater
      | (None, None) \<Rightarrow> cmp (om_upstream_order left) (om_upstream_order right))"

definition canonicalize_model_ids :: "string list \<Rightarrow> string list" where
  "canonicalize_model_ids models = map om_id (slice_sort_by compare_models (collect_models [] 0 models))"

fun retain_unseen :: "string list \<Rightarrow> string list \<Rightarrow> string list" where
  "retain_unseen seen [] = []"
| "retain_unseen seen (model # models) =
     (let normalized = to_ascii_lowercase model
      in if normalized \<in> set seen then retain_unseen seen models else model # retain_unseen (normalized # seen) models)"

definition normalize_model_ids :: "string list \<Rightarrow> string list" where
  "normalize_model_ids models = retain_unseen [] (filter (\<lambda>model. model \<noteq> []) (map trim models))"

definition reasoning_level_rank :: "string \<Rightarrow> u8" where
  "reasoning_level_rank level0 =
     (let level = map (\<lambda>c. if c = CHR ''-'' then CHR ''_'' else c) level0
      in if level = ''none'' then 0
         else if level = ''minimal'' then 1
         else if level = ''low'' then 2
         else if level = ''medium'' then 3
         else if level = ''high'' then 4
         else if level = ''xhigh'' \<or> level = ''very_high'' \<or> level = ''extra_high'' then 5
         else if level = ''max'' then 6
         else if level = ''ultra'' then 7
         else 8)"

fun collect_levels :: "string list \<Rightarrow> nat \<Rightarrow> string list \<Rightarrow> (nat \<times> string) list" where
  "collect_levels seen source_order [] = []"
| "collect_levels seen source_order (level0 # levels) =
     (let level = to_ascii_lowercase (trim level0)
      in if level = [] \<or> level \<in> set seen then collect_levels seen (source_order + 1) levels
         else (source_order, level) # collect_levels (level # seen) (source_order + 1) levels)"

definition compare_levels :: "nat \<times> string \<Rightarrow> nat \<times> string \<Rightarrow> ordering" where
  "compare_levels left right =
     then_with (cmp (reasoning_level_rank (snd left)) (reasoning_level_rank (snd right))) (cmp (fst left) (fst right))"

definition canonicalize_reasoning_levels :: "string list \<Rightarrow> string list" where
  "canonicalize_reasoning_levels levels = map snd (slice_sort_by compare_levels (collect_levels [] 0 levels))"

subsection \<open>Reasoning policies\<close>

definition reasoning_policy_key :: "string \<Rightarrow> string" where
  "reasoning_policy_key model =
     (case known_model_family (to_ascii_lowercase (model_leaf model)) of
        Some OpenAi \<Rightarrow> ''group:openai''
      | Some Anthropic \<Rightarrow> ''group:anthropic''
      | Some Gemini \<Rightarrow> ''group:gemini''
      | Some Grok \<Rightarrow> ''group:grok''
      | Some Zai \<Rightarrow> ''group:zai''
      | None \<Rightarrow> to_ascii_lowercase (trim model))"

definition model_supports_fast_service_tier :: "string \<Rightarrow> bool" where
  "model_supports_fast_service_tier model = is_openai_model (to_ascii_lowercase (model_leaf model))"

definition reasoning_policy_levels :: "(string, string list) btree_map \<Rightarrow> string \<Rightarrow> string list option" where
  "reasoning_policy_levels policies model =
     (case bt_get policies (reasoning_policy_key model) of
        Some levels \<Rightarrow> Some levels
      | None \<Rightarrow> bt_get policies (to_ascii_lowercase (trim model)))"

definition anthropic_max_implies_ultra :: "string \<Rightarrow> bool" where
  "anthropic_max_implies_ultra model \<longleftrightarrow> known_model_family (to_ascii_lowercase (model_leaf model)) = Some Anthropic"

subsection \<open>Known reasoning levels\<close>

definition NO_REASONING :: "string list" where "NO_REASONING = []"
definition CLAUDE_HIGH_REASONING :: "string list" where "CLAUDE_HIGH_REASONING = [''low'', ''medium'', ''high'', ''xhigh'', ''max'', ''ultra'']"
definition CLAUDE_STANDARD_REASONING :: "string list" where "CLAUDE_STANDARD_REASONING = [''low'', ''medium'', ''high'', ''max'', ''ultra'']"
definition GEMINI_PRO_REASONING :: "string list" where "GEMINI_PRO_REASONING = [''low'', ''medium'', ''high'']"
definition GEMINI_PRO_REDUCED_REASONING :: "string list" where "GEMINI_PRO_REDUCED_REASONING = [''low'', ''high'']"
definition GEMINI_FLASH_REASONING :: "string list" where "GEMINI_FLASH_REASONING = [''minimal'', ''low'', ''medium'', ''high'']"
definition GEMINI_FLASH_STANDARD_REASONING :: "string list" where "GEMINI_FLASH_STANDARD_REASONING = [''low'', ''medium'', ''high'']"
definition GROK_46_REASONING :: "string list" where "GROK_46_REASONING = [''low'', ''medium'', ''high'', ''xhigh'']"
definition GROK_45_REASONING :: "string list" where "GROK_45_REASONING = [''low'', ''medium'', ''high'']"
definition GROK_43_REASONING :: "string list" where "GROK_43_REASONING = [''none'', ''low'', ''medium'', ''high'']"
definition GLM_52_REASONING :: "string list" where "GLM_52_REASONING = [''none'', ''minimal'', ''low'', ''medium'', ''high'', ''xhigh'', ''max'']"
definition GLM_53_REASONING :: "string list" where "GLM_53_REASONING = [''low'', ''high'', ''max'']"
definition GPT_56_REASONING :: "string list" where "GPT_56_REASONING = [''none'', ''low'', ''medium'', ''high'', ''xhigh'', ''max'']"

definition KNOWN_REASONING_DEFAULTS :: "(string \<times> string list) list" where
  "KNOWN_REASONING_DEFAULTS = [
     (''claude-opus-5'', CLAUDE_HIGH_REASONING), (''claude-opus-4-8'', CLAUDE_HIGH_REASONING),
     (''claude-opus-4-7'', CLAUDE_HIGH_REASONING), (''claude-sonnet-5'', CLAUDE_HIGH_REASONING),
     (''claude-opus-4-6'', CLAUDE_STANDARD_REASONING), (''claude-sonnet-4-6'', CLAUDE_STANDARD_REASONING),
     (''claude-haiku-4-5'', NO_REASONING), (''gemini-3.1-pro-preview'', GEMINI_PRO_REASONING),
     (''gemini-2.5-pro'', GEMINI_PRO_REASONING), (''gemini-3.7-flash'', GEMINI_PRO_REASONING),
     (''gemini-3-pro'', GEMINI_PRO_REDUCED_REASONING), (''gemini-3-pro-preview'', GEMINI_PRO_REDUCED_REASONING),
     (''gemini-3.6-flash'', GEMINI_FLASH_REASONING), (''gemini-3.5-flash'', GEMINI_FLASH_REASONING),
     (''gemini-3-flash'', GEMINI_FLASH_REASONING), (''gemini-3-flash-preview'', GEMINI_FLASH_REASONING),
     (''gemini-3.1-flash-lite'', GEMINI_FLASH_REASONING), (''gemini-3.1-flash-lite-preview'', GEMINI_FLASH_REASONING),
     (''gemini-2.5-flash'', GEMINI_FLASH_STANDARD_REASONING), (''gemini-2.5-flash-lite'', GEMINI_FLASH_STANDARD_REASONING),
     (''grok-4.6'', GROK_46_REASONING), (''grok-4.5'', GROK_45_REASONING),
     (''grok-4.3'', GROK_43_REASONING), (''grok-4.20-0309-reasoning'', NO_REASONING),
     (''grok-4.20-0309-non-reasoning'', [''none'']), (''grok-build-0.1'', NO_REASONING),
     (''glm-5.2'', GLM_52_REASONING), (''glm-5.3'', GLM_53_REASONING),
     (''glm-5.1'', NO_REASONING)]"

definition known_model_reasoning_levels :: "string \<Rightarrow> string list option" where
  "known_model_reasoning_levels model =
     (let leaf = to_ascii_lowercase (model_leaf model)
      in case map_of KNOWN_REASONING_DEFAULTS leaf of
           Some levels \<Rightarrow> Some levels
         | None \<Rightarrow> if starts_with leaf ''gpt-5.6'' then Some GPT_56_REASONING else None)"

subsection \<open>The order is total and stable\<close>

definition sort_tuple :: "SemanticModelSortKey \<Rightarrow> u8 \<times> u8 \<times> u8 \<times> int list \<times> u8 \<times> u8 \<times> string" where
  "sort_tuple k = (sk_family_rank k, sk_image_rank k, sk_tier_rank k, sk_version_rank k, sk_modifier_rank k, sk_preview_rank k, sk_model k)"

definition class_key :: "string \<Rightarrow> bool \<times> u8 \<times> u8 \<times> u8 \<times> int list \<times> u8 \<times> u8 \<times> string" where
  "class_key i = (case semantic_model_sort_key i of Some k \<Rightarrow> (False, sort_tuple k) | None \<Rightarrow> (True, 0, 0, 0, [], 0, 0, []))"

definition model_key :: "OrderedModel \<Rightarrow> (bool \<times> u8 \<times> u8 \<times> u8 \<times> int list \<times> u8 \<times> u8 \<times> string) \<times> nat" where
  "model_key m = ((case om_semantic_key m of Some k \<Rightarrow> (False, sort_tuple k) | None \<Rightarrow> (True, 0, 0, 0, [], 0, 0, [])),
     om_upstream_order m)"

lemma compare_sort_key_tuple: "compare_sort_key a b = cmp (sort_tuple a) (sort_tuple b)"
  by (simp add: compare_sort_key_def sort_tuple_def then_with_cmp)

lemma cmp_pair: "cmp (a, b) (c, d) = then_with (cmp a c) (cmp b d)" "cmp x x = Equal" "cmp False True = Less" "cmp True False = Greater"
  by (simp_all add: then_with_cmp)

interpretation models: exact_comparison compare_models model_key
proof
  show "compare_models x y = cmp (model_key x) (model_key y)" for x y
    by (simp add: compare_models_def model_key_def compare_sort_key_tuple cmp_pair split: option.splits)
qed

interpretation levels: exact_comparison compare_levels "\<lambda>l. (reasoning_level_rank (snd l), fst l)"
  by unfold_locales (simp add: compare_levels_def then_with_cmp)

lemma model_key_collect:
  "m \<in> set (collect_models seen n ms) \<Longrightarrow> model_key m = (class_key (om_id m), om_upstream_order m)"
  by (induction seen n ms rule: collect_models.induct) (auto simp: Let_def model_key_def class_key_def split: if_splits)

lemma collect_models_ids:
  "map om_id (collect_models seen n ms) = retain_unseen seen (filter (\<lambda>m. m \<noteq> []) (map trim ms))"
  by (induction seen n ms rule: collect_models.induct) (auto simp: Let_def)

lemma retain_unseen_props:
  "set (retain_unseen seen ms) \<subseteq> set ms"
  "distinct (map to_ascii_lowercase (retain_unseen seen ms))"
  "to_ascii_lowercase ` set (retain_unseen seen ms) = to_ascii_lowercase ` set ms - set seen"
proof (induction seen ms rule: retain_unseen.induct)
  case (2 seen m ms)
  { case 1 then show ?case using 2 by (auto simp: Let_def)
  next
    case 2
    have "to_ascii_lowercase m \<notin> to_ascii_lowercase ` set (retain_unseen (to_ascii_lowercase m # seen) ms)"
      if "to_ascii_lowercase m \<notin> set seen"
      using "2.IH"(6) that by (auto simp: Let_def)
    then show ?case using "2.IH" by (auto simp: Let_def)
  next
    case 3
    then show ?case using "2.IH" by (auto simp: Let_def) }
qed simp_all

lemma retain_unseen_fixed:
  "distinct (map to_ascii_lowercase ms) \<Longrightarrow> to_ascii_lowercase ` set ms \<inter> set seen = {} \<Longrightarrow> retain_unseen seen ms = ms"
  by (induction seen ms rule: retain_unseen.induct) (auto simp: Let_def)

lemma collect_models_from: "m \<in> set (collect_models seen n ms) \<Longrightarrow> n \<le> om_upstream_order m"
proof (induction seen n ms rule: collect_models.induct)
  case (2 seen n model ms)
  then show ?case by (fastforce simp: Let_def split: if_splits)
qed simp

lemma collect_models_order:
  "sorted_wrt (\<lambda>a b. om_upstream_order a < om_upstream_order b) (collect_models seen n ms)"
proof (induction seen n ms rule: collect_models.induct)
  case (2 seen n model ms)
  then show ?case using collect_models_from [of _ _ "n + 1" ms] by (simp add: Let_def Suc_le_eq)
qed simp

lemma insort_stable:
  assumes "\<forall>y \<in> set ys. model_key y = (class_key (om_id y), om_upstream_order y) \<and> om_upstream_order x < om_upstream_order y"
    and "model_key x = (class_key (om_id x), om_upstream_order x)"
  shows "map om_id (insort_key model_key x ys) = insort_key class_key (om_id x) (map om_id ys)"
  using assms by (induction ys) auto

lemma sort_stable:
  assumes "\<forall>x \<in> set xs. model_key x = (class_key (om_id x), om_upstream_order x)"
    and "sorted_wrt (\<lambda>a b. om_upstream_order a < om_upstream_order b) xs"
  shows "map om_id (sort_key model_key xs) = sort_key class_key (map om_id xs)"
  using assms by (induction xs) (simp_all add: insort_stable)

lemma canonicalize_stable: "canonicalize_model_ids ms = sort_key class_key (normalize_model_ids ms)"
proof -
  have "canonicalize_model_ids ms = map om_id (sort_key model_key (collect_models [] 0 ms))"
    by (simp add: canonicalize_model_ids_def models.sort_by_key)
  also have "\<dots> = sort_key class_key (map om_id (collect_models [] 0 ms))"
    by (rule sort_stable) (auto intro: model_key_collect collect_models_order)
  finally show ?thesis by (simp add: collect_models_ids normalize_model_ids_def)
qed

lemma normalize_props:
  "distinct (map to_ascii_lowercase (normalize_model_ids ms))"
  "to_ascii_lowercase ` set (normalize_model_ids ms) = (\<lambda>m. to_ascii_lowercase (trim m)) ` {m \<in> set ms. trim m \<noteq> []}"
  "\<forall>m \<in> set (normalize_model_ids ms). m \<noteq> [] \<and> trim m = m"
  using retain_unseen_props [of "[]" "filter (\<lambda>m. m \<noteq> []) (map trim ms)"]
  by (auto simp: normalize_model_ids_def image_image)

lemma normalize_fixed:
  assumes "distinct (map to_ascii_lowercase ms)" "\<forall>m \<in> set ms. m \<noteq> [] \<and> trim m = m"
  shows "normalize_model_ids ms = ms"
proof -
  have "map trim ms = ms" "filter (\<lambda>m. m \<noteq> []) ms = ms" using assms(2) by (auto intro: map_idI filter_True)
  then show ?thesis using assms(1) by (simp add: normalize_model_ids_def retain_unseen_fixed)
qed

text \<open>
  C28 (equivalence). The picker order is a stable sort by class: for every list of model identifiers
  the result is the trimmed, non-empty identifiers, each once regardless of ASCII case and in its first
  spelling, sorted by the class of the model (company, image, tier, newest version, modifier, preview,
  name, with unknown models last) with ties in the order they came. Ordering a list again changes
  nothing.
\<close>

theorem picker_order_stable:
  "canonicalize_model_ids ms = sort_key class_key (normalize_model_ids ms)
   \<and> canonicalize_model_ids (canonicalize_model_ids ms) = canonicalize_model_ids ms
   \<and> distinct (map to_ascii_lowercase (canonicalize_model_ids ms))
   \<and> to_ascii_lowercase ` set (canonicalize_model_ids ms) = (\<lambda>m. to_ascii_lowercase (trim m)) ` {m \<in> set ms. trim m \<noteq> []}"
proof -
  let ?rs = "canonicalize_model_ids ms"
  have set: "set ?rs = set (normalize_model_ids ms)" by (simp add: canonicalize_stable)
  have "mset (map to_ascii_lowercase ?rs) = mset (map to_ascii_lowercase (normalize_model_ids ms))"
    by (simp add: canonicalize_stable)
  then have dist: "distinct (map to_ascii_lowercase ?rs)" using normalize_props(1) mset_eq_imp_distinct_iff by blast
  then have "normalize_model_ids ?rs = ?rs" using normalize_fixed normalize_props(3) set by blast
  then have "canonicalize_model_ids ?rs = sort_key class_key ?rs" by (simp add: canonicalize_stable)
  also have "\<dots> = ?rs" by (simp add: canonicalize_stable sort_key_id_if_sorted)
  finally show ?thesis using canonicalize_stable dist set normalize_props(2) by simp
qed

end
