(* ===== verification/Usage_Estimate.thy ===== *)
theory Usage_Estimate
  imports Pricing_Catalog Model_Order
begin

section \<open>API-equivalent estimates (\<open>usage/api_equivalent.rs\<close>)\<close>

text \<open>
  What a request would have cost at API prices: the tokens of a request are split into components,
  each component is priced or counted as unpriced, and the cost is summed in saturating arithmetic.
\<close>

subsection \<open>Price overrides\<close>

record ApiModelPriceOverride =
  po_input :: u64
  po_cached_input :: "u64 option"
  po_cache_write_5m :: "u64 option"
  po_cache_write_1h :: "u64 option"
  po_output :: u64

record ApiModelPriceSources =
  ps_provider :: "ApiModelPriceOverride option"
  ps_manual :: "ApiModelPriceOverride option"

definition price_in_range :: "u64 option \<Rightarrow> bool" where
  "price_in_range v = (case v of None \<Rightarrow> True | Some v \<Rightarrow> v \<le> MAX_MODEL_PRICE_MICRO_USD_PER_MILLION)"

definition override_is_valid :: "ApiModelPriceOverride \<Rightarrow> bool" where
  "override_is_valid p \<longleftrightarrow>
     po_input p \<le> MAX_MODEL_PRICE_MICRO_USD_PER_MILLION \<and> price_in_range (po_cached_input p)
     \<and> price_in_range (po_cache_write_5m p) \<and> price_in_range (po_cache_write_1h p)
     \<and> po_output p \<le> MAX_MODEL_PRICE_MICRO_USD_PER_MILLION"

definition from_optional_fields ::
  "u64 option \<Rightarrow> u64 option \<Rightarrow> u64 option \<Rightarrow> u64 option \<Rightarrow> u64 option \<Rightarrow> string + ApiModelPriceOverride option" where
  "from_optional_fields input cached_input cache_write_5m cache_write_1h output =
     (case (input, output) of
        (Some input, Some output) \<Rightarrow>
          let price = \<lparr>po_input = input, po_cached_input = cached_input, po_cache_write_5m = cache_write_5m,
                       po_cache_write_1h = cache_write_1h, po_output = output\<rparr>
          in if override_is_valid price then Inr (Some price) else Inl ''model prices must be valid''
      | (None, None) \<Rightarrow>
          if cached_input = None \<and> cache_write_5m = None \<and> cache_write_1h = None then Inr None
          else Inl ''model prices must be valid''
      | _ \<Rightarrow> Inl ''model prices must be valid'')"

definition token_price_of_override :: "ApiModelPriceOverride \<Rightarrow> TokenPrice" where
  "token_price_of_override p =
     \<lparr>tp_input = po_input p, tp_cache_read = po_cached_input p, tp_cache_write_5m = po_cache_write_5m p,
      tp_cache_write_1h = po_cache_write_1h p, tp_output = po_output p\<rparr>"

definition override_of_token_price :: "TokenPrice \<Rightarrow> ApiModelPriceOverride" where
  "override_of_token_price p =
     \<lparr>po_input = tp_input p, po_cached_input = tp_cache_read p, po_cache_write_5m = tp_cache_write_5m p,
      po_cache_write_1h = tp_cache_write_1h p, po_output = tp_output p\<rparr>"

fun normalize_overrides_loop ::
  "(string, ApiModelPriceOverride) btree_map \<Rightarrow> (string \<times> ApiModelPriceOverride) list \<Rightarrow> string + (string, ApiModelPriceOverride) btree_map" where
  "normalize_overrides_loop normalized [] = Inr normalized"
| "normalize_overrides_loop normalized ((model0, price) # prices) =
     (let model = trim model0 in
      if \<not> is_valid_model_id model \<or> \<not> override_is_valid price then Inl ''model price override is invalid''
      else normalize_overrides_loop (bt_insert (to_ascii_lowercase model) price normalized) prices)"

definition normalize_model_price_overrides ::
  "(string, ApiModelPriceOverride) btree_map \<Rightarrow> string + (string, ApiModelPriceOverride) btree_map" where
  "normalize_model_price_overrides prices = normalize_overrides_loop bt_empty (bt_entries prices)"

subsection \<open>Estimates\<close>

record ApiEquivalentUsage =
  us_input_tokens :: "u64 option"
  us_cached_input_tokens :: "u64 option"
  us_cache_write_5m_tokens :: "u64 option"
  us_cache_write_1h_tokens :: "u64 option"
  us_unknown_cache_write_tokens :: "u64 option"
  us_output_tokens :: "u64 option"
  us_total_tokens :: "u64 option"

record ApiEquivalentSummary =
  ae_micro_usd :: u64
  ae_priced_tokens :: u64
  ae_unpriced_tokens :: u64

definition usage_merge :: "ApiEquivalentSummary \<Rightarrow> ApiEquivalentSummary \<Rightarrow> ApiEquivalentSummary" where
  "usage_merge a b = \<lparr>ae_micro_usd = sat_add (ae_micro_usd a) (ae_micro_usd b),
     ae_priced_tokens = sat_add (ae_priced_tokens a) (ae_priced_tokens b),
     ae_unpriced_tokens = sat_add (ae_unpriced_tokens a) (ae_unpriced_tokens b)\<rparr>"

definition u128_sat :: "nat \<Rightarrow> nat" where
  "u128_sat n = min n u128_max"

definition token_cost :: "u64 \<Rightarrow> u64 \<Rightarrow> u64" where
  "token_cost tokens micro_usd_per_million =
     (let numerator = u128_sat (u128_sat (unat tokens * unat micro_usd_per_million) + 500000);
          cost = numerator div 1000000
      in if cost \<le> u64_max then of_nat cost else of_nat u64_max)"

definition unwrap_or :: "'a option \<Rightarrow> 'a \<Rightarrow> 'a" where
  "unwrap_or a d = (case a of Some x \<Rightarrow> x | None \<Rightarrow> d)"

definition cap_to_input :: "u64 option \<Rightarrow> u64 option \<Rightarrow> u64 option" where
  "cap_to_input input tokens = map_option (\<lambda>v. min v (unwrap_or input v)) tokens"

definition take_tokens :: "u64 option \<Rightarrow> u64 \<Rightarrow> u64" where
  "take_tokens tokens remaining = unwrap_or (map_option (\<lambda>v. min v remaining) tokens) 0"

definition split_input :: "ApiEquivalentUsage \<Rightarrow> u64 option \<times> u64 \<times> u64 \<times> u64 \<times> u64" where
  "split_input usage =
     (let input = us_input_tokens usage;
          cached = cap_to_input input (us_cached_input_tokens usage);
          write_5m = cap_to_input input (us_cache_write_5m_tokens usage);
          write_1h = cap_to_input input (us_cache_write_1h_tokens usage);
          unknown = cap_to_input input (us_unknown_cache_write_tokens usage)
      in case input of
           Some input \<Rightarrow>
             let cached = take_tokens cached input;
                 remaining = sat_sub input cached;
                 write_5m = take_tokens write_5m remaining;
                 remaining = sat_sub remaining write_5m;
                 write_1h = take_tokens write_1h remaining;
                 remaining = sat_sub remaining write_1h;
                 unknown = take_tokens unknown remaining;
                 remaining = sat_sub remaining unknown
             in (Some remaining, cached, write_5m, write_1h, unknown)
         | None \<Rightarrow> (None, unwrap_or cached 0, unwrap_or write_5m 0, unwrap_or write_1h 0, unwrap_or unknown 0))"

definition add_component :: "u64 \<times> u64 \<Rightarrow> u64 option \<times> u64 option \<Rightarrow> u64 \<times> u64" where
  "add_component acc c =
     (case (acc, c) of
        ((priced_tokens, micro_usd), (Some tokens, Some price)) \<Rightarrow>
          (sat_add priced_tokens tokens, sat_add micro_usd (token_cost tokens price))
      | (acc, _) \<Rightarrow> acc)"

definition usage_total :: "ApiEquivalentUsage \<Rightarrow> u64" where
  "usage_total usage =
     (case split_input usage of (_, cached, write_5m, write_1h, unknown) \<Rightarrow>
        let measured_input = (case us_input_tokens usage of
              Some input \<Rightarrow> input
            | None \<Rightarrow> sat_add (sat_add (sat_add cached write_5m) write_1h) unknown);
            measured_tokens = sat_add measured_input (unwrap_or (us_output_tokens usage) 0)
        in max (unwrap_or (us_total_tokens usage) measured_tokens) measured_tokens)"

definition usage_components :: "ApiEquivalentUsage \<Rightarrow> TokenPrice \<Rightarrow> (u64 option \<times> u64 option) list" where
  "usage_components usage p =
     (case split_input usage of (uncached, cached, write_5m, write_1h, unknown) \<Rightarrow>
        [(uncached, Some (tp_input p)), (Some cached, tp_cache_read p), (Some write_5m, tp_cache_write_5m p),
         (Some write_1h, tp_cache_write_1h p), (Some unknown, None), (us_output_tokens usage, Some (tp_output p))])"

definition estimate_api_equivalent_with_token_price :: "ApiEquivalentUsage \<Rightarrow> TokenPrice option \<Rightarrow> ApiEquivalentSummary" where
  "estimate_api_equivalent_with_token_price usage price =
     (let total_tokens = usage_total usage in
      case price of
        None \<Rightarrow> \<lparr>ae_micro_usd = 0, ae_priced_tokens = 0, ae_unpriced_tokens = total_tokens\<rparr>
      | Some p \<Rightarrow>
          (case foldl add_component (0, 0) (usage_components usage p) of
             (priced_tokens, micro_usd) \<Rightarrow>
               \<lparr>ae_micro_usd = micro_usd, ae_priced_tokens = priced_tokens,
                ae_unpriced_tokens = sat_sub total_tokens priced_tokens\<rparr>))"

definition resolve_candidate_price ::
  "PricingCatalog \<Rightarrow> string \<Rightarrow> string option \<Rightarrow> string option \<Rightarrow> string option \<Rightarrow> ApiModelPriceOverride option \<Rightarrow>
   ApiModelPriceOverride option \<Rightarrow> ResolvedPrice" where
  "resolve_candidate_price c candidate_kind model provider_family pricing_provider provider_price manual_price =
     (case model of
        None \<Rightarrow> unpriced c
      | Some model \<Rightarrow>
          if eq_ignore_ascii_case candidate_kind ''account''
          then resolve_account c model (case provider_family of Some f \<Rightarrow> Some f | None \<Rightarrow> Some ''openai'')
          else resolve_source c model pricing_provider provider_family
            (map_option token_price_of_override provider_price) (map_option token_price_of_override manual_price))"

definition estimate_api_equivalent_with_catalog ::
  "PricingCatalog \<Rightarrow> string \<Rightarrow> string option \<Rightarrow> ApiEquivalentUsage \<Rightarrow> string option \<Rightarrow> string option \<Rightarrow>
   ApiModelPriceOverride option \<Rightarrow> ApiModelPriceOverride option \<Rightarrow> ApiEquivalentSummary \<times> ResolvedPrice" where
  "estimate_api_equivalent_with_catalog c candidate_kind model usage provider_family pricing_provider provider_price manual_price =
     (let r = resolve_candidate_price c candidate_kind model provider_family pricing_provider provider_price manual_price
      in (estimate_api_equivalent_with_token_price usage (rp_quote r), r))"

definition estimate_candidate_api_equivalent_with_catalog ::
  "PricingCatalog \<Rightarrow> PricingContext \<Rightarrow> string \<Rightarrow> string \<Rightarrow> string option \<Rightarrow> ApiEquivalentUsage \<Rightarrow> ApiEquivalentSummary \<times> ResolvedPrice" where
  "estimate_candidate_api_equivalent_with_catalog c px candidate_kind candidate_id model usage =
     (let r = candidate_price px c candidate_kind candidate_id model
      in (estimate_api_equivalent_with_token_price usage (rp_quote r), r))"

subsection \<open>Tokens are counted once and priced exactly\<close>

definition nearest_cost :: "u64 \<times> u64 \<Rightarrow> nat" where
  "nearest_cost c = (unat (fst c) * unat (snd c) + 500000) div 1000000"

fun priced_components :: "(u64 option \<times> u64 option) list \<Rightarrow> (u64 \<times> u64) list" where
  "priced_components ((Some tokens, Some price) # cs) = (tokens, price) # priced_components cs"
| "priced_components (_ # cs) = priced_components cs"
| "priced_components [] = []"

lemma unat_token_cost: "unat (token_cost tokens price) = min (nearest_cost (tokens, price)) u64_max"
proof -
  have "unat tokens * unat price \<le> (2 ^ 64 - 1) * (2 ^ 64 - 1)"
    using unat_le_max [of tokens] unat_le_max [of price] by (intro mult_le_mono) simp_all
  then show ?thesis
    by (auto simp: token_cost_def nearest_cost_def u128_sat_def u128_max_def u64_max_def Let_def unat_of_nat min_def)
qed

lemma foldl_add_component:
  "foldl add_component (a, b) cs =
     (foldl sat_add a (map fst (priced_components cs)), foldl sat_add b (map (\<lambda>c. token_cost (fst c) (snd c)) (priced_components cs)))"
  by (induction cs arbitrary: a b rule: priced_components.induct) (simp_all add: add_component_def split: option.splits)

lemma min_sum_saturated:
  "min (sum_list (map (\<lambda>c. min (f c) m) cs)) m = min (sum_list (map f cs)) (m :: nat)"
  by (induction cs) (auto simp: min_def split: if_splits)

lemma take_tokens_le: "unat (take_tokens t r) \<le> unat r"
  by (auto simp: take_tokens_def unwrap_or_def min_def word_le_nat_alt split: option.splits)

lemma take_tokens_rest: "unat (sat_sub r (take_tokens t r)) + unat (take_tokens t r) = unat r"
  using take_tokens_le [of t r] by (simp add: rust_arith)

lemma split_input_exact:
  assumes "us_input_tokens usage = Some input" "split_input usage = (uncached, cached, write_5m, write_1h, unknown)"
  shows "\<exists>r. uncached = Some r \<and> unat r + unat cached + unat write_5m + unat write_1h + unat unknown = unat input"
proof -
  define c where "c = take_tokens (cap_to_input (Some input) (us_cached_input_tokens usage)) input"
  define r1 where "r1 = sat_sub input c"
  define w5 where "w5 = take_tokens (cap_to_input (Some input) (us_cache_write_5m_tokens usage)) r1"
  define r2 where "r2 = sat_sub r1 w5"
  define w1 where "w1 = take_tokens (cap_to_input (Some input) (us_cache_write_1h_tokens usage)) r2"
  define r3 where "r3 = sat_sub r2 w1"
  define k where "k = take_tokens (cap_to_input (Some input) (us_unknown_cache_write_tokens usage)) r3"
  have "unat r1 + unat c = unat input" unfolding r1_def c_def by (rule take_tokens_rest)
  moreover have "unat r2 + unat w5 = unat r1" unfolding r2_def w5_def by (rule take_tokens_rest)
  moreover have "unat r3 + unat w1 = unat r2" unfolding r3_def w1_def by (rule take_tokens_rest)
  moreover have "unat (sat_sub r3 k) + unat k = unat r3" unfolding k_def by (rule take_tokens_rest)
  moreover have "split_input usage = (Some (sat_sub r3 k), c, w5, w1, k)"
    using assms(1) by (simp add: split_input_def Let_def c_def r1_def w5_def r2_def w1_def r3_def k_def)
  ultimately show ?thesis using assms(2) by simp
qed

definition component_tokens :: "(u64 option \<times> u64 option) list \<Rightarrow> nat" where
  "component_tokens cs = sum_list (map (\<lambda>c. unat (unwrap_or (fst c) 0)) cs)"

lemma priced_components_le: "sum_list (map (\<lambda>c. unat (fst c)) (priced_components cs)) \<le> component_tokens cs"
  by (induction cs rule: priced_components.induct) (simp_all add: component_tokens_def unwrap_or_def)

lemma component_tokens_le_total:
  "min (component_tokens (usage_components usage p)) u64_max \<le> unat (usage_total usage)"
proof -
  obtain u c w5 w1 k where sp: "split_input usage = (u, c, w5, w1, k)" by (metis prod_cases5)
  define m where "m = (case us_input_tokens usage of Some i \<Rightarrow> i | None \<Rightarrow> sat_add (sat_add (sat_add c w5) w1) k)"
  have m: "min (unat (unwrap_or u 0) + unat c + unat w5 + unat w1 + unat k) u64_max \<le> unat m"
  proof (cases "us_input_tokens usage")
    case None
    with sp have "u = None" by (simp add: split_input_def Let_def)
    with None show ?thesis by (simp add: m_def unwrap_or_def rust_arith u64_max_def min_def)
  next
    case (Some i)
    with split_input_exact [OF Some sp] show ?thesis by (auto simp: m_def unwrap_or_def)
  qed
  have "unat (sat_add m (unwrap_or (us_output_tokens usage) 0)) \<le> unat (usage_total usage)"
    using sp by (simp add: usage_total_def m_def Let_def max_def word_le_nat_alt)
  moreover have "component_tokens (usage_components usage p) =
      unat (unwrap_or u 0) + unat c + unat w5 + unat w1 + unat k + unat (unwrap_or (us_output_tokens usage) 0)"
    using sp by (simp add: component_tokens_def usage_components_def unwrap_or_def)
  ultimately show ?thesis using m by (simp add: rust_arith u64_max_def min_def split: if_splits)
qed

lemma u64_max_numeral: "18446744073709551615 = u64_max"
  by (simp add: u64_max_def)

lemma estimate_exact:
  "unat (ae_priced_tokens (estimate_api_equivalent_with_token_price usage (Some p))) =
     min (sum_list (map (\<lambda>c. unat (fst c)) (priced_components (usage_components usage p)))) u64_max"
  "unat (ae_micro_usd (estimate_api_equivalent_with_token_price usage (Some p))) =
     min (sum_list (map nearest_cost (priced_components (usage_components usage p)))) u64_max"
  by (simp_all add: estimate_api_equivalent_with_token_price_def foldl_add_component unat_foldl_sat_add
      u64_max_numeral o_def unat_token_cost min_sum_saturated)

lemma estimate_partitions_tokens:
  "unat (ae_priced_tokens (estimate_api_equivalent_with_token_price usage price))
     + unat (ae_unpriced_tokens (estimate_api_equivalent_with_token_price usage price)) = unat (usage_total usage)"
proof (cases price)
  case None
  then show ?thesis by (simp add: estimate_api_equivalent_with_token_price_def)
next
  case (Some p)
  have "unat (ae_priced_tokens (estimate_api_equivalent_with_token_price usage price)) \<le> unat (usage_total usage)"
    using component_tokens_le_total [of usage p] priced_components_le [of "usage_components usage p"]
    by (simp add: Some estimate_exact min_def split: if_splits)
  moreover have "ae_unpriced_tokens (estimate_api_equivalent_with_token_price usage price) =
      sat_sub (usage_total usage) (ae_priced_tokens (estimate_api_equivalent_with_token_price usage price))"
    by (simp add: Some estimate_api_equivalent_with_token_price_def case_prod_unfold)
  ultimately show ?thesis by (simp add: rust_arith)
qed

text \<open>
  C29 (bounds). An estimate accounts for every token of the request exactly once, for every usage record
  and also where the \<open>u64\<close> sums saturate: priced and unpriced tokens add up to the reported total, the
  price is the sum over the priced components of the cost rounded to the nearest micro-dollar, capped
  at the largest \<open>u64\<close>, and with no price nothing is charged and every token is unpriced.
\<close>

theorem tokens_accounted:
  "unat (ae_priced_tokens (estimate_api_equivalent_with_token_price usage price))
     + unat (ae_unpriced_tokens (estimate_api_equivalent_with_token_price usage price)) = unat (usage_total usage)
   \<and> (case price of
        None \<Rightarrow> ae_micro_usd (estimate_api_equivalent_with_token_price usage price) = 0
          \<and> ae_unpriced_tokens (estimate_api_equivalent_with_token_price usage price) = usage_total usage
      | Some p \<Rightarrow> unat (ae_micro_usd (estimate_api_equivalent_with_token_price usage price)) =
          min (\<Sum>(tokens, rate) \<leftarrow> priced_components (usage_components usage p).
                 (unat tokens * unat rate + 500000) div 1000000) u64_max)"
proof (cases price)
  case None
  then show ?thesis by (simp add: estimate_api_equivalent_with_token_price_def)
next
  case (Some p)
  then show ?thesis
    using estimate_partitions_tokens [of usage price]
    by (simp add: estimate_exact nearest_cost_def [abs_def] case_prod_unfold)
qed

end
