(* ===== verification/Catalog_Loader.thy ===== *)
theory Catalog_Loader
  imports Pricing_Catalog
begin

section \<open>Loading and refreshing the catalog (\<open>pricing/catalog.rs\<close>, \<open>loader.rs\<close>, \<open>schedule.rs\<close>)\<close>

text \<open>
  The catalog is cached in one file and refreshed from the network. The state of the loader is the
  record \<open>PricingCatalogLoader\<close>, the cache file being its first field. Serialisation
  (\<open>serde_json\<close>) and SHA-256 are the record \<open>cache_codec\<close>; the outcome of every file-system call is
  a record \<open>file_io\<close> of Booleans, and the reply of the server a function of the request headers, so
  that the theorems hold whatever the disk and the network do. A refresh holds the refresh lock, and
  nothing else writes the loader, so it is one step; the clock is read where the code reads it.
\<close>

subsection \<open>The cache envelope (\<open>catalog.rs\<close>)\<close>

definition LITELLM_SOURCE_URL :: string where
  "LITELLM_SOURCE_URL = ''https://raw.githubusercontent.com/BerriAI/litellm/main/model_prices_and_context_window.json''"

definition CACHE_FORMAT :: string where "CACHE_FORMAT = ''zenith-relay-litellm-cache''"
definition CACHE_SCHEMA_VERSION :: u32 where "CACHE_SCHEMA_VERSION = 1"

record 'json PricingCacheEnvelope =
  ev_format :: string
  ev_schema_version :: u32
  ev_source_url :: string
  ev_revision :: string
  ev_etag :: "string option"
  ev_last_modified :: "string option"
  ev_fetched_at_ms :: u64
  ev_payload_sha256 :: string
  ev_stale :: bool
  ev_payload :: 'json

record 'json cache_codec =
  cc_json :: "'json pricing_json"
  cc_sha256_hex :: "string \<Rightarrow> string"
  cc_envelope_to_vec :: "'json PricingCacheEnvelope \<Rightarrow> string option"
  cc_envelope_from_slice :: "string \<Rightarrow> 'json PricingCacheEnvelope option"
  cc_value_from_slice :: "string \<Rightarrow> 'json option"

definition payload_hash :: "'json cache_codec \<Rightarrow> 'json \<Rightarrow> PricingError + string" where
  "payload_hash cc payload =
     (case pj_to_vec (cc_json cc) payload of
        None \<Rightarrow> Inl InvalidCache
      | Some bytes \<Rightarrow> Inr (''sha256:'' @ cc_sha256_hex cc bytes))"

definition too_long :: "string option \<Rightarrow> bool" where
  "too_long v = (case v of None \<Rightarrow> False | Some v \<Rightarrow> length v > MAX_CACHE_STRING_LENGTH)"

definition envelope_validate :: "'json cache_codec \<Rightarrow> 'json PricingCacheEnvelope \<Rightarrow> PricingError + unit" where
  "envelope_validate cc e =
     (if ev_format e \<noteq> CACHE_FORMAT \<or> ev_schema_version e \<noteq> CACHE_SCHEMA_VERSION \<or> ev_source_url e \<noteq> LITELLM_SOURCE_URL
         \<or> trim (ev_revision e) = [] \<or> ev_fetched_at_ms e = 0 \<or> length (ev_revision e) > MAX_CACHE_STRING_LENGTH
         \<or> length (ev_source_url e) > MAX_CACHE_STRING_LENGTH \<or> too_long (ev_etag e) \<or> too_long (ev_last_modified e)
      then Inl InvalidCache
      else (case pj_to_vec (cc_json cc) (ev_payload e) of
          None \<Rightarrow> Inl InvalidCache
        | Some encoded \<Rightarrow>
            if length encoded > MAX_CACHE_BYTES then Inl CacheTooLarge
            else (case pj_as_object (cc_json cc) (ev_payload e) of
                None \<Rightarrow> Inl InvalidCache
              | Some records \<Rightarrow>
                  if length records > MAX_CACHE_RECORDS then Inl CacheTooLarge
                  else if list_ex (\<lambda>m. fst m = [] \<or> length (fst m) > MAX_CACHE_STRING_LENGTH) records then Inl InvalidCache
                  else try_bind (payload_hash cc (ev_payload e)) (\<lambda>hash.
                    if hash \<noteq> ev_payload_sha256 e then Inl InvalidCache else Inr ()))))"

definition envelope_new :: "'json cache_codec \<Rightarrow> 'json \<Rightarrow> string \<Rightarrow> u64 \<Rightarrow> PricingError + 'json PricingCacheEnvelope" where
  "envelope_new cc payload revision fetched_at_ms =
     try_bind (payload_hash cc payload) (\<lambda>payload_sha256.
       let envelope = \<lparr>ev_format = CACHE_FORMAT, ev_schema_version = CACHE_SCHEMA_VERSION,
             ev_source_url = LITELLM_SOURCE_URL, ev_revision = revision, ev_etag = None, ev_last_modified = None,
             ev_fetched_at_ms = fetched_at_ms, ev_payload_sha256 = payload_sha256, ev_stale = False, ev_payload = payload\<rparr>
       in try_bind (envelope_validate cc envelope) (\<lambda>_. Inr envelope))"

definition envelope_catalog :: "'json cache_codec \<Rightarrow> 'json PricingCacheEnvelope \<Rightarrow> PricingError + PricingCatalog" where
  "envelope_catalog cc e =
     try_bind (envelope_validate cc e) (\<lambda>_.
       from_litellm_payload (cc_json cc) (ev_payload e) (Some (ev_revision e)) (Some (ev_fetched_at_ms e)) (ev_stale e))"

subsection \<open>The cache file\<close>

definition MAX_CATALOG_RESPONSE_BYTES :: nat where "MAX_CATALOG_RESPONSE_BYTES = MAX_CACHE_BYTES"

record file_io =
  io_metadata :: bool
  io_open :: bool
  io_read :: bool
  io_parent :: bool
  io_create_dir :: bool
  io_create_temp :: bool
  io_write :: bool
  io_sync :: bool
  io_rename :: bool
  io_exists :: bool
  io_backup :: bool
  io_install :: bool
  io_restore :: bool

definition cache_read ::
  "'json cache_codec \<Rightarrow> file_io \<Rightarrow> string option \<Rightarrow> PricingError + 'json PricingCacheEnvelope option" where
  "cache_read cc io f =
     (if \<not> io_metadata io then Inl PricingIo
      else (case f of
          None \<Rightarrow> Inr None
        | Some bytes \<Rightarrow>
            if length bytes > MAX_CATALOG_RESPONSE_BYTES then Inl CacheTooLarge
            else if \<not> io_open io \<or> \<not> io_read io then Inl PricingIo
            else (case cc_envelope_from_slice cc bytes of
                None \<Rightarrow> Inl InvalidCache
              | Some envelope \<Rightarrow> try_bind (envelope_validate cc envelope) (\<lambda>_. Inr (Some envelope)))))"

definition read_catalog ::
  "'json cache_codec \<Rightarrow> file_io \<Rightarrow> string option \<Rightarrow> PricingError + ('json PricingCacheEnvelope \<times> PricingCatalog) option" where
  "read_catalog cc io f =
     try_bind (cache_read cc io f) (\<lambda>r. case r of
        None \<Rightarrow> Inr None
      | Some envelope \<Rightarrow> try_bind (envelope_catalog cc envelope) (\<lambda>catalog. Inr (Some (envelope, catalog))))"

definition replace_file :: "file_io \<Rightarrow> string \<Rightarrow> string option \<Rightarrow> (PricingError + unit) \<times> string option" where
  "replace_file io bytes f =
     (if io_rename io then (Inr (), Some bytes)
      else if f \<noteq> None \<and> io_exists io then
        (if \<not> io_backup io then (Inl PricingIo, f)
         else if io_install io then (Inr (), Some bytes)
         else (Inl PricingIo, if io_restore io then f else None))
      else (Inl PricingIo, f))"

definition cache_write ::
  "'json cache_codec \<Rightarrow> file_io \<Rightarrow> 'json PricingCacheEnvelope \<Rightarrow> string option \<Rightarrow> (PricingError + unit) \<times> string option" where
  "cache_write cc io e f =
     (case envelope_validate cc e of
        Inl err \<Rightarrow> (Inl err, f)
      | Inr _ \<Rightarrow>
          if \<not> io_parent io \<or> \<not> io_create_dir io then (Inl PricingIo, f)
          else (case cc_envelope_to_vec cc e of
              None \<Rightarrow> (Inl InvalidCache, f)
            | Some bytes \<Rightarrow>
                if length bytes > MAX_CATALOG_RESPONSE_BYTES then (Inl CacheTooLarge, f)
                else if \<not> io_create_temp io \<or> \<not> io_write io \<or> \<not> io_sync io then (Inl PricingIo, f)
                else replace_file io bytes f))"

definition write_if_changed ::
  "'json cache_codec \<Rightarrow> file_io \<Rightarrow> 'json PricingCacheEnvelope \<Rightarrow> string option \<Rightarrow> (PricingError + bool) \<times> string option" where
  "write_if_changed cc io e f =
     (case envelope_validate cc e of
        Inl err \<Rightarrow> (Inl err, f)
      | Inr _ \<Rightarrow>
          if cache_read cc io f = Inr (Some e) then (Inr False, f)
          else (case cache_write cc io e f of
              (Inl err, f') \<Rightarrow> (Inl err, f')
            | (Inr _, f') \<Rightarrow> (Inr True, f')))"

subsection \<open>Status, staleness and retries (\<open>loader.rs\<close>)\<close>

datatype CatalogStatus = CatalogCurrent | CatalogStale | CatalogUpdating | CatalogUnloaded | CatalogError

datatype CatalogRefreshOutcome = Updated string | NotModified string | Skipped

record RefreshRetryState =
  rr_consecutive_failures :: u32
  rr_next_retry_at_ms :: "u64 option"

definition retry_default :: RefreshRetryState where
  "retry_default = \<lparr>rr_consecutive_failures = 0, rr_next_retry_at_ms = None\<rparr>"

definition FIRST_RETRY_DELAY_MS :: u64 where "FIRST_RETRY_DELAY_MS = 5 * 60 * 1000"
definition SECOND_RETRY_DELAY_MS :: u64 where "SECOND_RETRY_DELAY_MS = 30 * 60 * 1000"
definition SUBSEQUENT_RETRY_DELAY_MS :: u64 where "SUBSEQUENT_RETRY_DELAY_MS = 2 * 60 * 60 * 1000"

definition retry_delay_ms :: "u32 \<Rightarrow> u64" where
  "retry_delay_ms consecutive_failures =
     (if consecutive_failures = 0 then 0
      else if consecutive_failures = 1 then FIRST_RETRY_DELAY_MS
      else if consecutive_failures = 2 then SECOND_RETRY_DELAY_MS
      else SUBSEQUENT_RETRY_DELAY_MS)"

definition allows_attempt :: "RefreshRetryState \<Rightarrow> u64 \<Rightarrow> bool" where
  "allows_attempt r now_ms = (case rr_next_retry_at_ms r of None \<Rightarrow> True | Some retry_at \<Rightarrow> now_ms \<ge> retry_at)"

definition retry_record_failure :: "u64 \<Rightarrow> RefreshRetryState \<Rightarrow> RefreshRetryState" where
  "retry_record_failure now_ms r =
     (let failures = sat_add (rr_consecutive_failures r) 1
      in \<lparr>rr_consecutive_failures = failures, rr_next_retry_at_ms = Some (sat_add now_ms (retry_delay_ms failures))\<rparr>)"

definition is_stale :: "u64 \<Rightarrow> u64 \<Rightarrow> u64 \<Rightarrow> bool" where
  "is_stale fetched_at_ms now_ms max_age_ms \<longleftrightarrow> fetched_at_ms = 0 \<or> sat_sub now_ms fetched_at_ms \<ge> max_age_ms"

definition envelope_is_stale :: "'json PricingCacheEnvelope \<Rightarrow> u64 \<Rightarrow> u64 \<Rightarrow> bool" where
  "envelope_is_stale e now_ms max_age_ms \<longleftrightarrow> ev_stale e \<or> is_stale (ev_fetched_at_ms e) now_ms max_age_ms"

record 'json PricingCatalogLoader =
  pl_file :: "string option"
  pl_catalog :: PricingCatalog
  pl_envelope :: "'json PricingCacheEnvelope option"
  pl_status :: CatalogStatus
  pl_last_error :: "PricingError option"
  pl_retry_state :: RefreshRetryState
  pl_startup_refresh_pending :: bool
  pl_schedule_changed :: bool
  pl_max_age_ms :: u64

definition PRICING_REFRESH_INTERVAL_SECONDS :: u64 where "PRICING_REFRESH_INTERVAL_SECONDS = 24 * 60 * 60"
definition DEFAULT_CATALOG_MAX_AGE_MS :: u64 where "DEFAULT_CATALOG_MAX_AGE_MS = PRICING_REFRESH_INTERVAL_SECONDS * 1000"

definition open_with_max_age ::
  "'json cache_codec \<Rightarrow> file_io \<Rightarrow> bool \<Rightarrow> u64 \<Rightarrow> string option \<Rightarrow> u64 \<Rightarrow> PricingError + 'json PricingCatalogLoader" where
  "open_with_max_age cc io client_ok now_ms f max_age_ms =
     (case (case read_catalog cc io f of
              Inr (Some (envelope, catalog)) \<Rightarrow>
                (catalog, Some envelope, None,
                 if envelope_is_stale envelope now_ms max_age_ms then CatalogStale else CatalogCurrent)
            | Inr None \<Rightarrow> (catalog_empty, None, None, CatalogUnloaded)
            | Inl err \<Rightarrow> (catalog_empty, None, Some err, CatalogError)) of
        (catalog, envelope, initial_error, status) \<Rightarrow>
          if \<not> client_ok then Inl PricingNetwork
          else Inr \<lparr>pl_file = f, pl_catalog = catalog, pl_envelope = envelope, pl_status = status,
                    pl_last_error = initial_error, pl_retry_state = retry_default, pl_startup_refresh_pending = True,
                    pl_schedule_changed = False, pl_max_age_ms = max_age_ms\<rparr>)"

definition catalog_open :: "'json cache_codec \<Rightarrow> file_io \<Rightarrow> bool \<Rightarrow> u64 \<Rightarrow> string option \<Rightarrow> PricingError + 'json PricingCatalogLoader" where
  "catalog_open cc io client_ok now_ms f = open_with_max_age cc io client_ok now_ms f DEFAULT_CATALOG_MAX_AGE_MS"

definition refresh_due :: "'json PricingCatalogLoader \<Rightarrow> u64 \<Rightarrow> bool" where
  "refresh_due l now_ms \<longleftrightarrow>
     (let catalog_due = (case pl_envelope l of None \<Rightarrow> True | Some e \<Rightarrow> envelope_is_stale e now_ms (pl_max_age_ms l))
      in (pl_startup_refresh_pending l \<or> catalog_due) \<and> allows_attempt (pl_retry_state l) now_ms)"

datatype CatalogRefreshKind = Startup | Retry | Scheduled

record CatalogRefreshDeadline =
  rd_at_ms :: u64
  rd_kind :: CatalogRefreshKind

definition next_refresh_deadline :: "'json PricingCatalogLoader \<Rightarrow> u64 \<Rightarrow> CatalogRefreshDeadline" where
  "next_refresh_deadline l now_ms =
     (case rr_next_retry_at_ms (pl_retry_state l) of
        Some next_retry_at_ms \<Rightarrow> \<lparr>rd_at_ms = next_retry_at_ms, rd_kind = Retry\<rparr>
      | None \<Rightarrow>
          if pl_startup_refresh_pending l then \<lparr>rd_at_ms = now_ms, rd_kind = Startup\<rparr>
          else (case pl_envelope l of
              None \<Rightarrow> \<lparr>rd_at_ms = now_ms, rd_kind = Scheduled\<rparr>
            | Some e \<Rightarrow>
                if envelope_is_stale e now_ms (pl_max_age_ms l) then \<lparr>rd_at_ms = now_ms, rd_kind = Scheduled\<rparr>
                else \<lparr>rd_at_ms = sat_add (ev_fetched_at_ms e) (pl_max_age_ms l), rd_kind = Scheduled\<rparr>))"

subsection \<open>A refresh\<close>

record http_response =
  hr_status :: u16
  hr_etag :: "string option"
  hr_last_modified :: "string option"
  hr_content_length :: "u64 option"
  hr_chunks :: "string option list"

record refresh_request =
  rq_if_none_match :: "string option"
  rq_if_modified_since :: "string option"

definition set_status :: "CatalogStatus \<Rightarrow> PricingError option \<Rightarrow> 'json PricingCatalogLoader \<Rightarrow> 'json PricingCatalogLoader" where
  "set_status status err l = l\<lparr>pl_status := status, pl_last_error := err\<rparr>"

definition record_refresh_failure :: "u64 \<Rightarrow> 'json PricingCatalogLoader \<Rightarrow> 'json PricingCatalogLoader" where
  "record_refresh_failure now_ms l =
     l\<lparr>pl_startup_refresh_pending := False, pl_retry_state := retry_record_failure now_ms (pl_retry_state l)\<rparr>"

definition record_refresh_success :: "'json PricingCatalogLoader \<Rightarrow> 'json PricingCatalogLoader" where
  "record_refresh_success l =
     l\<lparr>pl_startup_refresh_pending := False, pl_retry_state := retry_default, pl_schedule_changed := True\<rparr>"

definition refresh_failed ::
  "'json cache_codec \<Rightarrow> file_io \<Rightarrow> u64 \<Rightarrow> PricingError \<Rightarrow> 'json PricingCatalogLoader \<Rightarrow>
   (PricingError + CatalogRefreshOutcome) \<times> 'json PricingCatalogLoader" where
  "refresh_failed cc io now_ms err l0 =
     (let l = record_refresh_failure now_ms l0;
          l = (case pl_envelope l of
              Some envelope \<Rightarrow>
                let stale = envelope\<lparr>ev_stale := True\<rparr>;
                    l = (case envelope_catalog cc stale of Inr catalog \<Rightarrow> l\<lparr>pl_catalog := catalog\<rparr> | Inl _ \<Rightarrow> l);
                    l = l\<lparr>pl_file := snd (write_if_changed cc io stale (pl_file l)), pl_envelope := Some stale\<rparr>
                in set_status CatalogStale (Some err) l
            | None \<Rightarrow> set_status CatalogError (Some err) l)
      in (Inl err, l\<lparr>pl_schedule_changed := True\<rparr>))"

definition install_envelope :: "PricingCatalog \<Rightarrow> 'json PricingCacheEnvelope \<Rightarrow> string option \<Rightarrow> 'json PricingCatalogLoader \<Rightarrow> 'json PricingCatalogLoader" where
  "install_envelope catalog e f l =
     record_refresh_success (set_status CatalogCurrent None (l\<lparr>pl_file := f, pl_catalog := catalog, pl_envelope := Some e\<rparr>))"

definition or_keep :: "string option \<Rightarrow> string option \<Rightarrow> string option" where
  "or_keep new old = (case new of Some v \<Rightarrow> Some v | None \<Rightarrow> old)"

definition accept_not_modified ::
  "'json cache_codec \<Rightarrow> file_io \<Rightarrow> file_io \<Rightarrow> u64 \<Rightarrow> u64 \<Rightarrow> http_response \<Rightarrow> 'json PricingCatalogLoader \<Rightarrow>
   (PricingError + CatalogRefreshOutcome) \<times> 'json PricingCatalogLoader" where
  "accept_not_modified cc io io_failed fetched_ms failed_ms response l =
     (case pl_envelope l of
        None \<Rightarrow> refresh_failed cc io_failed failed_ms InvalidCache l
      | Some e \<Rightarrow>
          let current = e\<lparr>ev_etag := or_keep (hr_etag response) (ev_etag e),
                          ev_last_modified := or_keep (hr_last_modified response) (ev_last_modified e),
                          ev_fetched_at_ms := fetched_ms, ev_stale := False\<rparr>
          in (case envelope_catalog cc current of
              Inl err \<Rightarrow> refresh_failed cc io_failed failed_ms err l
            | Inr catalog \<Rightarrow>
                (case write_if_changed cc io current (pl_file l) of
                   (Inl err, f) \<Rightarrow> refresh_failed cc io_failed failed_ms err (l\<lparr>pl_file := f\<rparr>)
                 | (Inr _, f) \<Rightarrow> (Inr (NotModified (ev_revision current)), install_envelope catalog current f l))))"

fun collect_chunks :: "string \<Rightarrow> string option list \<Rightarrow> PricingError + string" where
  "collect_chunks bytes [] = Inr bytes"
| "collect_chunks bytes (None # cs) = Inl PricingNetwork"
| "collect_chunks bytes (Some chunk # cs) =
     (if length bytes + length chunk > MAX_CATALOG_RESPONSE_BYTES then Inl CacheTooLarge
      else collect_chunks (bytes @ chunk) cs)"

definition collect_json :: "'json cache_codec \<Rightarrow> http_response \<Rightarrow> PricingError + 'json" where
  "collect_json cc response =
     (if (case hr_content_length response of None \<Rightarrow> False | Some n \<Rightarrow> unat n > MAX_CATALOG_RESPONSE_BYTES)
      then Inl CacheTooLarge
      else try_bind (collect_chunks [] (hr_chunks response)) (\<lambda>bytes.
        case cc_value_from_slice cc bytes of None \<Rightarrow> Inl InvalidCatalog | Some v \<Rightarrow> Inr v))"

definition fetch_envelope ::
  "'json cache_codec \<Rightarrow> u64 \<Rightarrow> http_response \<Rightarrow> PricingError + 'json PricingCacheEnvelope \<times> PricingCatalog" where
  "fetch_envelope cc fetched_ms response =
     try_bind (collect_json cc response) (\<lambda>payload.
     try_bind (payload_hash cc payload) (\<lambda>payload_sha256.
     try_bind (envelope_new cc payload payload_sha256 fetched_ms) (\<lambda>envelope0.
       let envelope = envelope0\<lparr>ev_etag := hr_etag response, ev_last_modified := hr_last_modified response, ev_stale := False\<rparr>
       in try_bind (from_litellm_payload (cc_json cc) (ev_payload envelope) (Some (ev_revision envelope))
            (Some (ev_fetched_at_ms envelope)) False) (\<lambda>catalog. Inr (envelope, catalog)))))"

definition accept_payload ::
  "'json cache_codec \<Rightarrow> file_io \<Rightarrow> file_io \<Rightarrow> u64 \<Rightarrow> u64 \<Rightarrow> http_response \<Rightarrow> 'json PricingCatalogLoader \<Rightarrow>
   (PricingError + CatalogRefreshOutcome) \<times> 'json PricingCatalogLoader" where
  "accept_payload cc io io_failed fetched_ms failed_ms response l =
     (case fetch_envelope cc fetched_ms response of
        Inl err \<Rightarrow> refresh_failed cc io_failed failed_ms err l
      | Inr (envelope, catalog) \<Rightarrow>
          (case write_if_changed cc io envelope (pl_file l) of
             (Inl err, f) \<Rightarrow> refresh_failed cc io_failed failed_ms err (l\<lparr>pl_file := f\<rparr>)
           | (Inr _, f) \<Rightarrow> (Inr (Updated (ev_revision envelope)), install_envelope catalog envelope f l)))"

definition refresh_request_of :: "'json PricingCatalogLoader \<Rightarrow> refresh_request" where
  "refresh_request_of l =
     \<lparr>rq_if_none_match = Option.bind (pl_envelope l) ev_etag, rq_if_modified_since = Option.bind (pl_envelope l) ev_last_modified\<rparr>"

definition catalog_refresh ::
  "'json cache_codec \<Rightarrow> file_io \<Rightarrow> file_io \<Rightarrow> (refresh_request \<Rightarrow> http_response option) \<Rightarrow> bool \<Rightarrow> u64 \<Rightarrow> u64 \<Rightarrow> u64 \<Rightarrow> u64 \<Rightarrow>
   'json PricingCatalogLoader \<Rightarrow> (PricingError + CatalogRefreshOutcome) \<times> 'json PricingCatalogLoader" where
  "catalog_refresh cc io io_failed send force now_ms locked_ms fetched_ms failed_ms l0 =
     (if \<not> force \<and> (\<not> refresh_due l0 now_ms \<or> \<not> refresh_due l0 locked_ms) then (Inr Skipped, l0)
      else
        let l = set_status CatalogUpdating None l0
        in case send (refresh_request_of l) of
             None \<Rightarrow> refresh_failed cc io_failed failed_ms PricingNetwork l
           | Some response \<Rightarrow>
               if hr_status response = 304 then accept_not_modified cc io io_failed fetched_ms failed_ms response l
               else if hr_status response \<noteq> 200 then refresh_failed cc io_failed failed_ms (HttpStatus (hr_status response)) l
               else accept_payload cc io io_failed fetched_ms failed_ms response l)"

subsection \<open>When to refresh (\<open>schedule.rs\<close>) and what to report (\<open>mod.rs\<close>)\<close>

definition PRICING_REFRESH_JITTER_MAX_SECONDS :: u64 where "PRICING_REFRESH_JITTER_MAX_SECONDS = 60"

definition pricing_refresh_jitter_seconds :: "(string \<Rightarrow> string) \<Rightarrow> string \<Rightarrow> u64" where
  "pricing_refresh_jitter_seconds sha256 instance_id =
     from_le_bytes (take 8 (sha256 instance_id)) mod (PRICING_REFRESH_JITTER_MAX_SECONDS + 1)"

definition pricing_refresh_delay :: "(string \<Rightarrow> string) \<Rightarrow> string \<Rightarrow> CatalogRefreshDeadline \<Rightarrow> u64 \<Rightarrow> u64" where
  "pricing_refresh_delay sha256 instance_id deadline now_ms =
     (let jitter_ms = (case rd_kind deadline of
            Scheduled \<Rightarrow> sat_mul (pricing_refresh_jitter_seconds sha256 instance_id) 1000
          | Startup \<Rightarrow> 0
          | Retry \<Rightarrow> 0);
          wake_at_ms = sat_add (rd_at_ms deadline) jitter_ms
      in sat_sub wake_at_ms now_ms)"

record PricingMetadata =
  pm_catalog_revision :: "string option"
  pm_catalog_fetched_at_ms :: "u64 option"
  pm_catalog_stale :: bool
  pm_catalog_status :: CatalogStatus
  pm_price_source :: PricingSourceSummary
  pm_unpriced_tokens :: u64

definition for_catalog_with_status ::
  "PricingCatalog \<Rightarrow> CatalogStatus \<Rightarrow> PricingSourceSummary \<Rightarrow> u64 \<Rightarrow> PricingMetadata" where
  "for_catalog_with_status c status source unpriced_tokens =
     \<lparr>pm_catalog_revision = pc_revision c, pm_catalog_fetched_at_ms = pc_fetched_at_ms c, pm_catalog_stale = pc_stale c,
      pm_catalog_status = status, pm_price_source = source, pm_unpriced_tokens = unpriced_tokens\<rparr>"

definition for_catalog :: "PricingCatalog \<Rightarrow> PricingSourceSummary \<Rightarrow> u64 \<Rightarrow> PricingMetadata" where
  "for_catalog c source unpriced_tokens =
     (let status = if pc_stale c then CatalogStale else if pc_revision c \<noteq> None then CatalogCurrent else CatalogUnloaded
      in for_catalog_with_status c status source unpriced_tokens)"

subsection \<open>The loader's invariant\<close>

text \<open>
  The served catalog is the one its envelope describes, and the envelope is valid. It holds of every
  opened loader and after every refresh, whatever the network and the disk do.
\<close>

definition loader_wf :: "'json cache_codec \<Rightarrow> 'json PricingCatalogLoader \<Rightarrow> bool" where
  "loader_wf cc l \<longleftrightarrow> (\<forall>e. pl_envelope l = Some e \<longrightarrow> envelope_catalog cc e = Inr (pl_catalog l))"

inductive loader_step :: "'json cache_codec \<Rightarrow> 'json PricingCatalogLoader \<Rightarrow> 'json PricingCatalogLoader \<Rightarrow> bool" for cc where
  refresh: "loader_step cc l (snd (catalog_refresh cc io io_failed send force now_ms locked_ms fetched_ms failed_ms l))"
| notified: "loader_step cc l (l\<lparr>pl_schedule_changed := False\<rparr>)"
| reopen: "open_with_max_age cc io client_ok now_ms (pl_file l) max_age_ms = Inr l' \<Longrightarrow> loader_step cc l l'"

lemma write_if_changed_valid: "write_if_changed cc io e f = (Inr b, f') \<Longrightarrow> envelope_validate cc e = Inr ()"
  by (auto simp: write_if_changed_def split: sum.splits)

lemma validate_ignores_stale: "envelope_validate cc (e\<lparr>ev_stale := b\<rparr>) = envelope_validate cc e"
  by (simp add: envelope_validate_def cong: option.case_cong if_cong)

lemma from_litellm_payload_stale:
  "from_litellm_payload js payload revision fetched s = Inr c \<Longrightarrow>
   from_litellm_payload js payload revision fetched s' = Inr (c\<lparr>pc_stale := s'\<rparr>)"
  by (auto simp: from_litellm_payload_def split: sum.splits)

lemma from_litellm_payload_revision:
  "from_litellm_payload js payload revision fetched s = Inr c \<Longrightarrow>
   from_litellm_payload js payload revision' fetched s = Inr (c\<lparr>pc_revision := revision'\<rparr>)"
  by (auto simp: from_litellm_payload_def split: sum.splits)

lemma envelope_catalog_stale:
  "envelope_catalog cc e = Inr c \<Longrightarrow> envelope_catalog cc (e\<lparr>ev_stale := True\<rparr>) = Inr (c\<lparr>pc_stale := True\<rparr>)"
  by (auto simp: envelope_catalog_def try_bind_def validate_ignores_stale split: sum.splits intro: from_litellm_payload_stale)

lemma refresh_failed_state:
  assumes "loader_wf cc l" "refresh_failed cc io now_ms err l = (r, l')"
  shows "r = Inl err"
    and "pl_catalog l' = (if pl_envelope l = None then pl_catalog l else (pl_catalog l)\<lparr>pc_stale := True\<rparr>)"
    and "pl_envelope l' = map_option (\<lambda>e. e\<lparr>ev_stale := True\<rparr>) (pl_envelope l)"
    and "pl_status l' = (if pl_envelope l = None then CatalogError else CatalogStale)"
    and "pl_last_error l' = Some err" "pl_max_age_ms l' = pl_max_age_ms l"
    and "pl_retry_state l' = retry_record_failure now_ms (pl_retry_state l)"
    and "\<not> pl_startup_refresh_pending l'" "pl_schedule_changed l'"
  using assms envelope_catalog_stale [of cc "the (pl_envelope l)" "pl_catalog l"]
  by (auto simp: refresh_failed_def loader_wf_def record_refresh_failure_def set_status_def Let_def split: option.splits)

lemma refresh_failed_wf:
  assumes "loader_wf cc l" shows "loader_wf cc (snd (refresh_failed cc io now_ms err l))"
  using assms refresh_failed_state(2,3) [OF assms, of io now_ms err, OF prod.collapse [symmetric]]
  by (auto simp: loader_wf_def envelope_catalog_stale)

lemma install_envelope_state:
  "pl_catalog (install_envelope c e f l) = c" "pl_envelope (install_envelope c e f l) = Some e"
  "pl_file (install_envelope c e f l) = f" "pl_status (install_envelope c e f l) = CatalogCurrent"
  "pl_last_error (install_envelope c e f l) = None" "pl_retry_state (install_envelope c e f l) = retry_default"
  "\<not> pl_startup_refresh_pending (install_envelope c e f l)" "pl_schedule_changed (install_envelope c e f l)"
  "pl_max_age_ms (install_envelope c e f l) = pl_max_age_ms l"
  by (simp_all add: install_envelope_def record_refresh_success_def set_status_def)

text \<open>
  A refresh is skipped, fails in the state it started from (the cache file and the status aside), or
  installs a valid envelope that is on disk, together with its catalog.
\<close>

definition same_snapshot :: "'json PricingCatalogLoader \<Rightarrow> 'json PricingCatalogLoader \<Rightarrow> bool" where
  "same_snapshot l m \<longleftrightarrow> pl_catalog m = pl_catalog l \<and> pl_envelope m = pl_envelope l
     \<and> pl_retry_state m = pl_retry_state l \<and> pl_max_age_ms m = pl_max_age_ms l"

definition installed :: "'json cache_codec \<Rightarrow> u64 \<Rightarrow> file_io \<Rightarrow> 'json PricingCatalogLoader \<Rightarrow> 'json PricingCatalogLoader \<Rightarrow> bool" where
  "installed cc fetched_ms io l l' \<longleftrightarrow>
     (\<exists>c e b f f0 m. write_if_changed cc io e f0 = (Inr b, f) \<and> envelope_catalog cc e = Inr c \<and> \<not> ev_stale e
        \<and> ev_fetched_at_ms e = fetched_ms \<and> same_snapshot l m \<and> l' = install_envelope c e f m)"

lemma same_snapshot_wf: "same_snapshot l m \<Longrightarrow> loader_wf cc l \<Longrightarrow> loader_wf cc m"
  by (simp add: same_snapshot_def loader_wf_def)

lemma same_snapshot_status [simp]: "same_snapshot l (set_status st err l)" "same_snapshot l ((set_status st err l)\<lparr>pl_file := f\<rparr>)"
  by (simp_all add: same_snapshot_def set_status_def)

lemma accept_not_modified_cases:
  assumes "accept_not_modified cc io io_failed fetched_ms failed_ms response (set_status st err0 l) = (r, l')"
  shows "(\<exists>err m. same_snapshot l m \<and> refresh_failed cc io_failed failed_ms err m = (r, l'))
    \<or> ((\<exists>rev. r = Inr (NotModified rev)) \<and> installed cc fetched_ms io l l')"
proof (cases "pl_envelope (set_status st err0 l)")
  case None
  then show ?thesis using assms by (auto simp: accept_not_modified_def)
next
  case (Some e)
  define current where "current = e\<lparr>ev_etag := or_keep (hr_etag response) (ev_etag e),
    ev_last_modified := or_keep (hr_last_modified response) (ev_last_modified e), ev_fetched_at_ms := fetched_ms, ev_stale := False\<rparr>"
  have cur: "\<not> ev_stale current" "ev_fetched_at_ms current = fetched_ms" by (simp_all add: current_def)
  show ?thesis
    using assms cur Some unfolding accept_not_modified_def installed_def
    by (simp add: current_def [symmetric] Let_def split: sum.splits prod.splits) (metis same_snapshot_status)+
qed

lemma accept_payload_cases:
  assumes "accept_payload cc io io_failed fetched_ms failed_ms response (set_status st err0 l) = (r, l')"
  shows "(\<exists>err m. same_snapshot l m \<and> refresh_failed cc io_failed failed_ms err m = (r, l'))
    \<or> ((\<exists>rev. r = Inr (Updated rev)) \<and> installed cc fetched_ms io l l')"
proof -
  show ?thesis
  proof (cases "fetch_envelope cc fetched_ms response")
    case (Inl err)
    then show ?thesis using assms by (auto simp: accept_payload_def intro: same_snapshot_status)
  next
    case (Inr p)
    obtain e c where p: "p = (e, c)" by (cases p)
    have e: "\<not> ev_stale e" "ev_fetched_at_ms e = fetched_ms"
      and c: "from_litellm_payload (cc_json cc) (ev_payload e) (Some (ev_revision e)) (Some (ev_fetched_at_ms e)) (ev_stale e) = Inr c"
      using Inr unfolding p fetch_envelope_def envelope_new_def by (auto simp: try_bind_def Let_def split: sum.splits)
    have cat: "envelope_catalog cc e = Inr c" if "write_if_changed cc io e f0 = (Inr b, f)" for f0 b f
      using write_if_changed_valid [OF that] c by (simp add: envelope_catalog_def try_bind_def)
    show ?thesis
    proof (cases "write_if_changed cc io e (pl_file (set_status st err0 l))")
      case (Pair w f)
      show ?thesis
      proof (cases w)
        case (Inl err)
        then show ?thesis using assms Pair \<open>fetch_envelope cc fetched_ms response = Inr p\<close>
          by (auto simp: accept_payload_def p intro: same_snapshot_status)
      next
        case (Inr b)
        then have "r = Inr (Updated (ev_revision e))" "l' = install_envelope c e f (set_status st err0 l)"
          using assms Pair \<open>fetch_envelope cc fetched_ms response = Inr p\<close> by (simp_all add: accept_payload_def p)
        then show ?thesis using Pair Inr cat e same_snapshot_status(1) unfolding installed_def by metis
      qed
    qed
  qed
qed

lemma catalog_refresh_cases:
  assumes "catalog_refresh cc io io_failed send force now_ms locked_ms fetched_ms failed_ms l = (r, l')"
  obtains "r = Inr Skipped" "l' = l" "\<not> force"
  | err m where "same_snapshot l m" "refresh_failed cc io_failed failed_ms err m = (r, l')"
  | rev where "r = Inr (Updated rev) \<or> r = Inr (NotModified rev)" "installed cc fetched_ms io l l'"
  using assms unfolding catalog_refresh_def Let_def
  by (auto split: if_splits option.splits dest!: accept_not_modified_cases accept_payload_cases intro: same_snapshot_status)

lemma installed_wf: "installed cc fetched_ms io l l' \<Longrightarrow> loader_wf cc l'"
  by (auto simp: installed_def loader_wf_def install_envelope_state)

lemma catalog_refresh_wf:
  assumes "loader_wf cc l"
  shows "loader_wf cc (snd (catalog_refresh cc io io_failed send force now_ms locked_ms fetched_ms failed_ms l))"
proof (cases "catalog_refresh cc io io_failed send force now_ms locked_ms fetched_ms failed_ms l")
  case (Pair r l')
  then have "loader_wf cc l'"
  proof (cases rule: catalog_refresh_cases)
    case 1
    then show ?thesis using assms by simp
  next
    case (2 err m)
    from refresh_failed_wf [OF same_snapshot_wf [OF 2(1) assms], of io_failed failed_ms err] 2(2)
    show ?thesis by simp
  next
    case (3 rev)
    then show ?thesis by (auto intro: installed_wf)
  qed
  then show ?thesis using Pair by simp
qed

lemma open_wf: "open_with_max_age cc io client_ok now_ms f max_age_ms = Inr l \<Longrightarrow> loader_wf cc l"
  by (auto simp: open_with_max_age_def read_catalog_def try_bind_def loader_wf_def split: sum.splits option.splits if_splits)

definition loader_new :: "u64 \<Rightarrow> 'json PricingCatalogLoader" where
  "loader_new max_age_ms = \<lparr>pl_file = None, pl_catalog = catalog_empty, pl_envelope = None, pl_status = CatalogUnloaded,
     pl_last_error = None, pl_retry_state = retry_default, pl_startup_refresh_pending = True,
     pl_schedule_changed = False, pl_max_age_ms = max_age_ms\<rparr>"

interpretation loader: step_invariant "loader_step cc" "loader_new max_age_ms" "loader_wf cc"
proof unfold_locales
  show "loader_wf cc (loader_new max_age_ms)" by (simp add: loader_wf_def loader_new_def)
  show "loader_wf cc b" if "loader_step cc a b" "loader_wf cc a" for a b
    using that(1)
  proof cases
    case notified
    then show ?thesis using that(2) by (simp add: loader_wf_def)
  qed (auto intro: catalog_refresh_wf [OF that(2)] open_wf)
qed

lemma refresh_due_after_failure:
  assumes "loader_wf cc l" "refresh_failed cc io failed_ms err l = (r, l')"
  shows "refresh_due l' now \<longleftrightarrow>
    sat_add failed_ms (retry_delay_ms (sat_add (rr_consecutive_failures (pl_retry_state l)) 1)) \<le> now"
  using refresh_failed_state [OF assms]
  by (auto simp: refresh_due_def envelope_is_stale_def allows_attempt_def retry_record_failure_def Let_def split: option.splits)

text \<open>
  C30 (safety). A failed refresh never loses prices, whatever the network or the disk did: the catalog
  stays the one that was served, marked stale when it came from a cache, the failure is counted and
  reported, and the next background refresh is due exactly when the retry delay has passed: five
  minutes after the first failure in a row, thirty after the second, two hours after any further one.
\<close>

theorem failed_refresh_keeps_prices:
  assumes "reach (loader_step cc) (loader_new max_age_ms) l"
    and "catalog_refresh cc io io_failed send force now_ms locked_ms fetched_ms failed_ms l = (Inl err, l')"
  shows "pl_catalog l' = (if pl_envelope l = None then pl_catalog l else (pl_catalog l)\<lparr>pc_stale := True\<rparr>)
    \<and> pl_status l' = (if pl_envelope l = None then CatalogError else CatalogStale) \<and> pl_last_error l' = Some err
    \<and> (let failures = sat_add (rr_consecutive_failures (pl_retry_state l)) 1;
           delay = (if failures = 1 then 300000 else if failures = 2 then 1800000 else 7200000);
           retry_at = sat_add failed_ms delay
       in rr_consecutive_failures (pl_retry_state l') = failures
          \<and> next_refresh_deadline l' now = \<lparr>rd_at_ms = retry_at, rd_kind = Retry\<rparr>
          \<and> (refresh_due l' now \<longleftrightarrow> retry_at \<le> now))"
  using assms(2)
proof (cases rule: catalog_refresh_cases)
  case (2 e m)
  have wf: "loader_wf cc m" using same_snapshot_wf [OF 2(1)] loader.holds [OF assms(1)] by blast
  have delay: "retry_delay_ms (sat_add n 1) = (if sat_add n 1 = 1 then 300000 else if sat_add n 1 = 2 then 1800000 else 7200000)" for n
    by (simp add: retry_delay_ms_def FIRST_RETRY_DELAY_MS_def SECOND_RETRY_DELAY_MS_def SUBSEQUENT_RETRY_DELAY_MS_def)
  show ?thesis
    using refresh_failed_state [OF wf 2(2)] refresh_due_after_failure [OF wf 2(2)] 2(1) delay
    by (simp add: same_snapshot_def next_refresh_deadline_def retry_record_failure_def Let_def)
qed auto

definition sample_codec :: "sample_doc cache_codec" where
  "sample_codec = \<lparr>cc_json = sample_json, cc_sha256_hex = (\<lambda>_. ''0''), cc_envelope_to_vec = (\<lambda>_. Some ''cache''),
     cc_envelope_from_slice = (\<lambda>_. Some \<lparr>ev_format = CACHE_FORMAT, ev_schema_version = CACHE_SCHEMA_VERSION,
       ev_source_url = LITELLM_SOURCE_URL, ev_revision = ''sha256:0'', ev_etag = Some ''tag'', ev_last_modified = None,
       ev_fetched_at_ms = 7, ev_payload_sha256 = ''sha256:0'', ev_stale = False, ev_payload = sample_payload\<rparr>),
     cc_value_from_slice = (\<lambda>_. Some sample_payload)\<rparr>"

definition sample_io :: file_io where
  "sample_io = \<lparr>io_metadata = True, io_open = True, io_read = True, io_parent = True, io_create_dir = True,
     io_create_temp = True, io_write = True, io_sync = True, io_rename = True, io_exists = True, io_backup = True,
     io_install = True, io_restore = True\<rparr>"

theorem failed_refresh_keeps_prices_witness:
  "pl_catalog (snd (catalog_refresh sample_codec sample_io sample_io (\<lambda>_. None) True 1 1 1 5 (loader_new 10))) = catalog_empty
   \<and> refresh_due (snd (catalog_refresh sample_codec sample_io sample_io (\<lambda>_. None) True 1 1 1 5 (loader_new 10))) 300005
   \<and> \<not> refresh_due (snd (catalog_refresh sample_codec sample_io sample_io (\<lambda>_. None) True 1 1 1 5 (loader_new 10))) 300004"
proof -
  let ?r = "catalog_refresh sample_codec sample_io sample_io (\<lambda>_. None) True 1 1 1 5 (loader_new 10)"
  have r: "?r = (Inl PricingNetwork, snd ?r)"
    by (simp add: catalog_refresh_def refresh_failed_def Let_def)
  note f = failed_refresh_keeps_prices [OF reach.start r]
  have "sat_add (0 :: u32) 1 = 1" "sat_add (5 :: u64) 300000 = 300005" by (simp_all add: sat_add_def)
  then show ?thesis using f [of 300005] f [of 300004]
    by (simp add: loader_new_def retry_default_def Let_def)
qed

lemma write_then_read:
  assumes w: "write_if_changed cc io e f0 = (Inr b, f)"
    and codec: "\<And>bytes. cc_envelope_to_vec cc e = Some bytes \<Longrightarrow> cc_envelope_from_slice cc bytes = Some e"
    and io: "io_metadata io'" "io_open io'" "io_read io'"
  shows "cache_read cc io' f = Inr (Some e)"
proof (cases "cache_read cc io f0 = Inr (Some e)")
  case True
  then have "f = f0" using w by (auto simp: write_if_changed_def split: sum.splits)
  then show ?thesis using True io by (auto simp: cache_read_def split: option.splits if_splits)
next
  case False
  then obtain bytes where "cc_envelope_to_vec cc e = Some bytes" "length bytes \<le> MAX_CATALOG_RESPONSE_BYTES" "f = Some bytes"
    using w by (auto simp: write_if_changed_def cache_write_def replace_file_def split: sum.splits option.splits if_splits prod.splits)
  then show ?thesis using codec io write_if_changed_valid [OF w] by (simp add: cache_read_def try_bind_def)
qed

text \<open>
  After a successful refresh the cache file restores it: if the stored envelope survives
  serialisation and the file can be read, a new process serves exactly the same catalog, not stale and
  with the time of that refresh, knows whether it is current from its age alone, and validates it once
  more at startup.
\<close>

lemma restart_serves_same_catalog:
  assumes r: "catalog_refresh cc io io_failed send force now_ms locked_ms fetched_ms failed_ms l = (Inr outcome, l')"
    and outcome: "outcome \<noteq> Skipped"
    and codec: "\<And>e bytes. pl_envelope l' = Some e \<Longrightarrow> cc_envelope_to_vec cc e = Some bytes \<Longrightarrow> cc_envelope_from_slice cc bytes = Some e"
    and io: "io_metadata io'" "io_open io'" "io_read io'"
  shows "\<exists>l2. open_with_max_age cc io' True restart_ms (pl_file l') max_age_ms = Inr l2
    \<and> pl_catalog l2 = pl_catalog l' \<and> pl_envelope l2 = pl_envelope l' \<and> \<not> pc_stale (pl_catalog l2)
    \<and> pc_fetched_at_ms (pl_catalog l2) = Some fetched_ms
    \<and> pl_status l2 = (if is_stale fetched_ms restart_ms max_age_ms then CatalogStale else CatalogCurrent)
    \<and> refresh_due l2 restart_ms"
  using r
proof (cases rule: catalog_refresh_cases)
  case (2 err m)
  then show ?thesis by (simp add: refresh_failed_def Let_def)
next
  case (3 rev)
  then obtain c e b f f0 m where w: "write_if_changed cc io e f0 = (Inr b, f)" and c: "envelope_catalog cc e = Inr c"
    and e: "\<not> ev_stale e" "ev_fetched_at_ms e = fetched_ms" and l': "l' = install_envelope c e f m"
    unfolding installed_def by blast
  have "cache_read cc io' f = Inr (Some e)"
    using write_then_read [OF w _ io] codec by (simp add: l' install_envelope_state)
  moreover have "pc_stale c = ev_stale e" "pc_fetched_at_ms c = Some (ev_fetched_at_ms e)"
    using c by (auto simp: envelope_catalog_def try_bind_def from_litellm_payload_def split: sum.splits)
  ultimately show ?thesis
    using c e by (simp add: open_with_max_age_def read_catalog_def try_bind_def l' install_envelope_state envelope_is_stale_def
        refresh_due_def allows_attempt_def retry_default_def)
qed (use outcome in auto)

definition sample_response :: http_response where
  "sample_response = \<lparr>hr_status = 200, hr_etag = Some ''tag'', hr_last_modified = None, hr_content_length = None,
     hr_chunks = [Some ''x'']\<rparr>"

lemma sample_refresh:
  "\<exists>f. catalog_refresh sample_codec sample_io sample_io (\<lambda>_. Some sample_response) True 1 1 7 5 (loader_new 10) =
     (Inr (Updated ''sha256:0''), install_envelope (sample_catalog\<lparr>pc_revision := Some ''sha256:0''\<rparr>)
        (the (cc_envelope_from_slice sample_codec [])) f (set_status CatalogUpdating None (loader_new 10)))"
proof -
  have cat: "from_litellm_payload sample_json sample_payload (Some ''sha256:0'') (Some 7) False =
      Inr (sample_catalog\<lparr>pc_revision := Some ''sha256:0''\<rparr>)"
    using from_litellm_payload_revision [OF sample_catalog_built] by simp
  have rev: "trim ''sha256:0'' \<noteq> []" by code_simp
  have valid: "envelope_validate sample_codec \<lparr>ev_format = CACHE_FORMAT, ev_schema_version = CACHE_SCHEMA_VERSION,
       ev_source_url = LITELLM_SOURCE_URL, ev_revision = ''sha256:0'', ev_etag = t, ev_last_modified = None,
       ev_fetched_at_ms = 7, ev_payload_sha256 = ''sha256:0'', ev_stale = False, ev_payload = sample_payload\<rparr> = Inr ()"
    if "\<not> too_long t" for t
    using that rev
    by (simp add: envelope_validate_def too_long_def payload_hash_def sample_codec_def sample_json_def sample_payload_def try_bind_def
        MAX_CACHE_STRING_LENGTH_def MAX_CACHE_BYTES_def MAX_CACHE_RECORDS_def LITELLM_SOURCE_URL_def)
  have fetched: "fetch_envelope sample_codec 7 sample_response =
      Inr (the (cc_envelope_from_slice sample_codec []), sample_catalog\<lparr>pc_revision := Some ''sha256:0''\<rparr>)"
    using cat valid [of None] by (simp add: fetch_envelope_def collect_json_def sample_response_def envelope_new_def payload_hash_def
        sample_codec_def sample_json_def try_bind_def Let_def MAX_CATALOG_RESPONSE_BYTES_def MAX_CACHE_BYTES_def too_long_def)
  have "fst (write_if_changed sample_codec sample_io (the (cc_envelope_from_slice sample_codec [])) None) = Inr True"
    using valid [of "Some ''tag''"]
    by (simp add: write_if_changed_def cache_read_def cache_write_def replace_file_def sample_codec_def sample_io_def too_long_def
        MAX_CATALOG_RESPONSE_BYTES_def MAX_CACHE_BYTES_def MAX_CACHE_STRING_LENGTH_def)
  then obtain f where "write_if_changed sample_codec sample_io (the (cc_envelope_from_slice sample_codec [])) None = (Inr True, f)"
    by (metis prod.collapse)
  then show ?thesis using fetched
    by (intro exI [of _ f]) (simp add: catalog_refresh_def accept_payload_def sample_response_def sample_codec_def
        loader_new_def set_status_def Let_def)
qed

end
