(* ===== verification/Token_Authority.thy ===== *)
theory Token_Authority
  imports Accounts Ordered_Maps
begin

section \<open>Access tokens (\<open>accounts/token_authority.rs\<close>)\<close>

text \<open>
  The authority hands out access tokens, refreshes an expired one and stores what it obtained before
  anybody uses it. Each account has a slot behind its own lock, so an operation on a slot is one step.
  The refresh adapter and the persistence adapter are arguments: a refresh answers or never does, and
  each call that stores something succeeds, fails, or is cut off with the whole operation; a call that
  did not succeed may still have written. The durable state is the record \<open>token_store\<close>.
\<close>

subsection \<open>Tokens\<close>

record TokenSet =
  to_access_token :: string
  to_refresh_token :: "string option"
  to_id_token :: "string option"
  to_expires_at_ms :: "u64 option"
  to_issued_at_ms :: u64
  to_generation :: u64

definition nonempty :: "string option \<Rightarrow> string option" where
  "nonempty v = (case v of None \<Rightarrow> None | Some v \<Rightarrow> if trim v = [] then None else Some v)"

definition access_token_is_usable :: "u64 option \<Rightarrow> u64 \<Rightarrow> u64 \<Rightarrow> bool" where
  "access_token_is_usable expires_at_ms now_ms refresh_skew_ms =
     (case expires_at_ms of None \<Rightarrow> True | Some expires_at \<Rightarrow> expires_at > sat_add now_ms refresh_skew_ms)"

definition token_set_new :: "string \<Rightarrow> string option \<Rightarrow> string option \<Rightarrow> u64 option \<Rightarrow> u64 \<Rightarrow> u64 \<Rightarrow> string + TokenSet" where
  "token_set_new access_token refresh_token id_token expires_at_ms issued_at_ms generation =
     (if trim access_token = [] then Inl ''access token must not be empty''
      else Inr \<lparr>to_access_token = access_token, to_refresh_token = nonempty refresh_token, to_id_token = nonempty id_token,
                to_expires_at_ms = expires_at_ms, to_issued_at_ms = issued_at_ms, to_generation = generation\<rparr>)"

definition access_only :: "string \<Rightarrow> u64 option \<Rightarrow> u64 \<Rightarrow> string + TokenSet" where
  "access_only access_token expires_at_ms issued_at_ms = token_set_new access_token None None expires_at_ms issued_at_ms 0"

definition is_access_usable :: "TokenSet \<Rightarrow> u64 \<Rightarrow> u64 \<Rightarrow> bool" where
  "is_access_usable t now_ms refresh_skew_ms = access_token_is_usable (to_expires_at_ms t) now_ms refresh_skew_ms"

definition refresh_eligible :: "TokenSet \<Rightarrow> u64 \<Rightarrow> u64 \<Rightarrow> bool" where
  "refresh_eligible t now_ms refresh_skew_ms \<longleftrightarrow>
     to_refresh_token t \<noteq> None \<and> \<not> is_access_usable t now_ms refresh_skew_ms"

record TokenRefresh =
  tr_access_token :: string
  tr_refresh_token :: "string option"
  tr_id_token :: "string option"
  tr_expires_at_ms :: "u64 option"

definition token_refresh_new :: "string \<Rightarrow> string option \<Rightarrow> string option \<Rightarrow> u64 option \<Rightarrow> string + TokenRefresh" where
  "token_refresh_new access_token refresh_token id_token expires_at_ms =
     (if trim access_token = [] then Inl ''refreshed access token must not be empty''
      else Inr \<lparr>tr_access_token = access_token, tr_refresh_token = nonempty refresh_token, tr_id_token = nonempty id_token,
                tr_expires_at_ms = expires_at_ms\<rparr>)"

datatype TokenRefreshFailureKind = RefreshInvalidGrant | RefreshReusedToken | RefreshExpiredToken
  | RefreshInvalidatedToken | RefreshTransient

record TokenRefreshFailure =
  rf_kind :: TokenRefreshFailureKind
  rf_code :: string

definition token_refresh_failure_new :: "TokenRefreshFailureKind \<Rightarrow> string \<Rightarrow> TokenRefreshFailure" where
  "token_refresh_failure_new kind code = \<lparr>rf_kind = kind, rf_code = safe_error_code code\<rparr>"

definition reauth_reason :: "TokenRefreshFailure \<Rightarrow> ReauthReason option" where
  "reauth_reason f =
     (case rf_kind f of
        RefreshInvalidGrant \<Rightarrow> Some InvalidGrant
      | RefreshReusedToken \<Rightarrow> None
      | RefreshExpiredToken \<Rightarrow> Some ExpiredRefreshToken
      | RefreshInvalidatedToken \<Rightarrow> Some InvalidatedRefreshToken
      | RefreshTransient \<Rightarrow> None)"

datatype PrepareStatus = PrepareReady | PrepareRefreshed

record PreparedToken =
  pt_status :: PrepareStatus
  pt_tokens :: TokenSet

datatype TokenAuthorityError = TaInvalidCapacity | TaInvalidAccountId | TaCapacityReached | TaAccountNotFound
  | TaAccessTokenExpired | TaRequiresReauth ReauthReason | TaRefreshFailed string | TaPersistenceRequired
  | TaPersistenceFailed string

subsection \<open>The adapters\<close>

record token_store =
  tk_tokens :: "(string, TokenSet) btree_map"
  tk_auth :: "(string, AccountAuthState) btree_map"

datatype persist_result = PersistOk | PersistErr string bool | PersistDropped bool

record persist_results =
  pr_pending_tokens :: persist_result
  pr_pending_auth :: persist_result
  pr_healed_auth :: persist_result
  pr_expired_auth :: persist_result
  pr_refreshed_tokens :: persist_result
  pr_refreshed_auth :: persist_result
  pr_rejected_auth :: persist_result

type_synonym token_refresher = "string \<Rightarrow> string \<Rightarrow> u64 \<Rightarrow> (TokenRefreshFailure + TokenRefresh) option"

datatype 'a outcome = Done 'a | Failed TokenAuthorityError | Dropped

definition then_do :: "'a outcome \<times> 'w \<Rightarrow> ('a \<Rightarrow> 'w \<Rightarrow> 'b outcome \<times> 'w) \<Rightarrow> 'b outcome \<times> 'w" where
  "then_do r f = (case r of (Done x, w) \<Rightarrow> f x w | (Failed e, w) \<Rightarrow> (Failed e, w) | (Dropped, w) \<Rightarrow> (Dropped, w))"

definition persist_call :: "persist_result \<Rightarrow> (token_store \<Rightarrow> token_store) \<Rightarrow> token_store \<Rightarrow> unit outcome \<times> token_store" where
  "persist_call r put st =
     (case r of
        PersistOk \<Rightarrow> (Done (), put st)
      | PersistErr code wrote \<Rightarrow> (Failed (TaPersistenceFailed code), if wrote then put st else st)
      | PersistDropped wrote \<Rightarrow> (Dropped, if wrote then put st else st))"

definition put_tokens :: "string \<Rightarrow> TokenSet \<Rightarrow> token_store \<Rightarrow> token_store" where
  "put_tokens i t st = st\<lparr>tk_tokens := bt_insert i t (tk_tokens st)\<rparr>"

definition put_auth :: "string \<Rightarrow> AccountAuthState \<Rightarrow> token_store \<Rightarrow> token_store" where
  "put_auth i a st = st\<lparr>tk_auth := bt_insert i a (tk_auth st)\<rparr>"

subsection \<open>A slot\<close>

record TokenSlot =
  sl_tokens :: TokenSet
  sl_auth_state :: AccountAuthState
  sl_persistence_pending :: bool
  sl_auth_state_persistence_pending :: bool

definition slot_new :: "TokenSet \<Rightarrow> AccountAuthState \<Rightarrow> TokenSlot" where
  "slot_new tokens auth_state = \<lparr>sl_tokens = tokens, sl_auth_state = auth_state, sl_persistence_pending = False,
     sl_auth_state_persistence_pending = False\<rparr>"

definition persist_slot_tokens ::
  "persist_result \<Rightarrow> string \<Rightarrow> TokenSlot \<Rightarrow> token_store \<Rightarrow> unit outcome \<times> TokenSlot \<times> token_store" where
  "persist_slot_tokens r i slot st =
     (case persist_call r (put_tokens i (sl_tokens slot)) st of
        (Done _, st) \<Rightarrow> (Done (), slot\<lparr>sl_persistence_pending := False\<rparr>, st)
      | (Failed e, st) \<Rightarrow> (Failed e, slot, st)
      | (Dropped, st) \<Rightarrow> (Dropped, slot, st))"

definition persist_slot_auth ::
  "persist_result \<Rightarrow> string \<Rightarrow> TokenSlot \<Rightarrow> token_store \<Rightarrow> unit outcome \<times> TokenSlot \<times> token_store" where
  "persist_slot_auth r i slot st =
     (case persist_call r (put_auth i (sl_auth_state slot)) st of
        (Done _, st) \<Rightarrow> (Done (), slot\<lparr>sl_auth_state_persistence_pending := False\<rparr>, st)
      | (Failed e, st) \<Rightarrow> (Failed e, slot, st)
      | (Dropped, st) \<Rightarrow> (Dropped, slot, st))"

definition persist_auth_state ::
  "string \<Rightarrow> persist_result option \<Rightarrow> TokenSlot \<Rightarrow> token_store \<Rightarrow> unit outcome \<times> TokenSlot \<times> token_store" where
  "persist_auth_state i persistence slot st =
     (case persistence of
        None \<Rightarrow> (Done (), slot, st)
      | Some r \<Rightarrow> persist_slot_auth r i (slot\<lparr>sl_auth_state_persistence_pending := True\<rparr>) st)"

definition flush_tokens ::
  "string \<Rightarrow> persist_results option \<Rightarrow> TokenSlot \<Rightarrow> token_store \<Rightarrow> unit outcome \<times> TokenSlot \<times> token_store" where
  "flush_tokens i persistence slot st =
     (if sl_persistence_pending slot then
        (case persistence of
           None \<Rightarrow> (Failed TaPersistenceRequired, slot, st)
         | Some r \<Rightarrow> then_do (persist_slot_tokens (pr_pending_tokens r) i slot st)
             (\<lambda>_ (slot, st). (Done (), slot\<lparr>sl_auth_state_persistence_pending := True\<rparr>, st)))
      else (Done (), slot, st))"

definition flush_auth ::
  "string \<Rightarrow> persist_results option \<Rightarrow> TokenSlot \<Rightarrow> token_store \<Rightarrow> unit outcome \<times> TokenSlot \<times> token_store" where
  "flush_auth i persistence slot st =
     (if sl_auth_state_persistence_pending slot then
        (case persistence of
           None \<Rightarrow> (Failed TaPersistenceRequired, slot, st)
         | Some r \<Rightarrow> persist_slot_auth (pr_pending_auth r) i slot st)
      else (Done (), slot, st))"

definition heal_reused ::
  "string \<Rightarrow> persist_results option \<Rightarrow> TokenSlot \<Rightarrow> token_store \<Rightarrow> unit outcome \<times> TokenSlot \<times> token_store" where
  "heal_reused i persistence slot st =
     (if sl_auth_state slot = RequiresReauth ReusedRefreshToken
      then persist_auth_state i (map_option pr_healed_auth persistence) (slot\<lparr>sl_auth_state := AuthActive\<rparr>) st
      else (Done (), slot, st))"

definition refreshed_tokens :: "TokenRefresh \<Rightarrow> string \<Rightarrow> u64 \<Rightarrow> TokenSet \<Rightarrow> TokenSet" where
  "refreshed_tokens refreshed refresh_token now_ms old =
     \<lparr>to_access_token = tr_access_token refreshed,
      to_refresh_token = (case tr_refresh_token refreshed of Some t \<Rightarrow> Some t | None \<Rightarrow> Some refresh_token),
      to_id_token = (case tr_id_token refreshed of Some t \<Rightarrow> Some t | None \<Rightarrow> to_id_token old),
      to_expires_at_ms = tr_expires_at_ms refreshed, to_issued_at_ms = now_ms,
      to_generation = sat_add (to_generation old) 1\<rparr>"

definition refresh_slot ::
  "string \<Rightarrow> u64 \<Rightarrow> token_refresher \<Rightarrow> persist_results option \<Rightarrow> string \<Rightarrow> TokenSlot \<Rightarrow> token_store \<Rightarrow>
   PreparedToken outcome \<times> TokenSlot \<times> token_store" where
  "refresh_slot i now_ms refresh persistence refresh_token slot0 st =
     (let previous_auth_state = sl_auth_state slot0;
          slot = slot0\<lparr>sl_auth_state := Refreshing\<rparr>
      in case refresh i refresh_token now_ms of
           None \<Rightarrow> (Dropped, slot, st)
         | Some (Inr refreshed) \<Rightarrow>
             let tokens = refreshed_tokens refreshed refresh_token now_ms (sl_tokens slot);
                 slot = slot\<lparr>sl_tokens := tokens, sl_auth_state := AuthActive\<rparr>;
                 stored = (case persistence of
                     None \<Rightarrow> (Done (), slot, st)
                   | Some r \<Rightarrow> then_do (persist_slot_tokens (pr_refreshed_tokens r) i (slot\<lparr>sl_persistence_pending := True\<rparr>) st)
                       (\<lambda>_ (slot, st). persist_auth_state i (Some (pr_refreshed_auth r)) slot st))
             in then_do stored (\<lambda>_ w. (Done \<lparr>pt_status = PrepareRefreshed, pt_tokens = tokens\<rparr>, w))
         | Some (Inl failure) \<Rightarrow>
             (case reauth_reason failure of
                Some reason \<Rightarrow>
                  then_do (persist_auth_state i (map_option pr_rejected_auth persistence)
                      (slot\<lparr>sl_auth_state := RequiresReauth reason\<rparr>) st)
                    (\<lambda>_ w. (Failed (TaRequiresReauth reason), w))
              | None \<Rightarrow> (Failed (TaRefreshFailed (rf_code failure)), slot\<lparr>sl_auth_state := previous_auth_state\<rparr>, st)))"

definition choose_token ::
  "string \<Rightarrow> u64 \<Rightarrow> u64 \<Rightarrow> token_refresher \<Rightarrow> persist_results option \<Rightarrow> TokenSlot \<Rightarrow> token_store \<Rightarrow>
   PreparedToken outcome \<times> TokenSlot \<times> token_store" where
  "choose_token i now_ms refresh_skew_ms refresh persistence slot st =
     (case sl_auth_state slot of
        RequiresReauth reason \<Rightarrow> (Failed (TaRequiresReauth reason), slot, st)
      | _ \<Rightarrow>
          if is_access_usable (sl_tokens slot) now_ms refresh_skew_ms
          then (Done \<lparr>pt_status = PrepareReady, pt_tokens = sl_tokens slot\<rparr>, slot, st)
          else (case to_refresh_token (sl_tokens slot) of
              None \<Rightarrow>
                then_do (persist_auth_state i (map_option pr_expired_auth persistence) (slot\<lparr>sl_auth_state := DegradedAccessOnly\<rparr>) st)
                  (\<lambda>_ w. (Failed TaAccessTokenExpired, w))
            | Some refresh_token \<Rightarrow> refresh_slot i now_ms refresh persistence refresh_token slot st))"

definition prepare_slot ::
  "string \<Rightarrow> u64 \<Rightarrow> u64 \<Rightarrow> token_refresher \<Rightarrow> persist_results option \<Rightarrow> TokenSlot \<Rightarrow> token_store \<Rightarrow>
   PreparedToken outcome \<times> TokenSlot \<times> token_store" where
  "prepare_slot i now_ms refresh_skew_ms refresh persistence slot st =
     then_do (flush_tokens i persistence slot st) (\<lambda>_ (slot, st).
     then_do (flush_auth i persistence slot st) (\<lambda>_ (slot, st).
     then_do (heal_reused i persistence slot st) (\<lambda>_ (slot, st).
       choose_token i now_ms refresh_skew_ms refresh persistence slot st)))"

definition invalidate_slot ::
  "string \<Rightarrow> u64 option \<Rightarrow> u64 \<Rightarrow> persist_result \<Rightarrow> TokenSlot \<Rightarrow> token_store \<Rightarrow> bool outcome \<times> TokenSlot \<times> token_store" where
  "invalidate_slot i failed_generation now_ms r slot st =
     (if (case failed_generation of None \<Rightarrow> False | Some g \<Rightarrow> to_generation (sl_tokens slot) \<noteq> g) then (Done False, slot, st)
      else
        let tokens = (sl_tokens slot)\<lparr>to_expires_at_ms := Some now_ms, to_issued_at_ms := now_ms,
              to_generation := sat_add (to_generation (sl_tokens slot)) 1\<rparr>
        in then_do (persist_slot_tokens r i (slot\<lparr>sl_tokens := tokens, sl_persistence_pending := True\<rparr>) st)
             (\<lambda>_ w. (Done True, w)))"

subsection \<open>The authority\<close>

record TokenAuthority =
  ta_slots :: "(string, TokenSlot) btree_map"
  ta_max_accounts :: nat

definition token_authority_new :: "nat \<Rightarrow> TokenAuthorityError + TokenAuthority" where
  "token_authority_new max_accounts =
     (if max_accounts = 0 then Inl TaInvalidCapacity else Inr \<lparr>ta_slots = bt_empty, ta_max_accounts = max_accounts\<rparr>)"

definition token_register :: "string \<Rightarrow> TokenSet \<Rightarrow> AccountAuthState \<Rightarrow> TokenAuthority \<Rightarrow> (TokenAuthorityError + unit) \<times> TokenAuthority" where
  "token_register account_id0 tokens auth_state a =
     (let account_id = trim account_id0 in
      if account_id = [] then (Inl TaInvalidAccountId, a)
      else if \<not> bt_contains (ta_slots a) account_id \<and> bt_len (ta_slots a) \<ge> ta_max_accounts a then (Inl TaCapacityReached, a)
      else (Inr (), a\<lparr>ta_slots := bt_insert account_id (slot_new tokens auth_state) (ta_slots a)\<rparr>))"

definition register_if_absent :: "string \<Rightarrow> TokenSet \<Rightarrow> AccountAuthState \<Rightarrow> TokenAuthority \<Rightarrow> (TokenAuthorityError + bool) \<times> TokenAuthority" where
  "register_if_absent account_id0 tokens auth_state a =
     (let account_id = trim account_id0 in
      if account_id = [] then (Inl TaInvalidAccountId, a)
      else if bt_contains (ta_slots a) account_id then (Inr False, a)
      else if bt_len (ta_slots a) \<ge> ta_max_accounts a then (Inl TaCapacityReached, a)
      else (Inr True, a\<lparr>ta_slots := bt_insert account_id (slot_new tokens auth_state) (ta_slots a)\<rparr>))"

definition token_remove :: "string \<Rightarrow> TokenAuthority \<Rightarrow> bool \<times> TokenAuthority" where
  "token_remove account_id a = (bt_contains (ta_slots a) account_id, a\<lparr>ta_slots := bt_remove account_id (ta_slots a)\<rparr>)"

definition on_slot ::
  "(TokenSlot \<Rightarrow> token_store \<Rightarrow> 'a outcome \<times> TokenSlot \<times> token_store) \<Rightarrow> string \<Rightarrow> TokenAuthority \<times> token_store \<Rightarrow>
   'a outcome \<times> TokenAuthority \<times> token_store" where
  "on_slot f account_id s =
     (case bt_get (ta_slots (fst s)) account_id of
        None \<Rightarrow> (Failed TaAccountNotFound, s)
      | Some slot \<Rightarrow>
          (case f slot (snd s) of
             (r, slot', st') \<Rightarrow> (r, (fst s)\<lparr>ta_slots := bt_insert account_id slot' (ta_slots (fst s))\<rparr>, st')))"

definition prepare_inner ::
  "string \<Rightarrow> u64 \<Rightarrow> u64 \<Rightarrow> token_refresher \<Rightarrow> persist_results option \<Rightarrow> TokenAuthority \<times> token_store \<Rightarrow>
   PreparedToken outcome \<times> TokenAuthority \<times> token_store" where
  "prepare_inner account_id now_ms refresh_skew_ms refresh persistence =
     on_slot (prepare_slot account_id now_ms refresh_skew_ms refresh persistence) account_id"

definition token_prepare ::
  "string \<Rightarrow> u64 \<Rightarrow> u64 \<Rightarrow> token_refresher \<Rightarrow> TokenAuthority \<times> token_store \<Rightarrow> PreparedToken outcome \<times> TokenAuthority \<times> token_store" where
  "token_prepare account_id now_ms refresh_skew_ms refresh = prepare_inner account_id now_ms refresh_skew_ms refresh None"

definition prepare_and_persist ::
  "string \<Rightarrow> u64 \<Rightarrow> u64 \<Rightarrow> token_refresher \<Rightarrow> persist_results \<Rightarrow> TokenAuthority \<times> token_store \<Rightarrow>
   PreparedToken outcome \<times> TokenAuthority \<times> token_store" where
  "prepare_and_persist account_id now_ms refresh_skew_ms refresh persistence =
     prepare_inner account_id now_ms refresh_skew_ms refresh (Some persistence)"

definition invalidate_access_generation_and_persist ::
  "string \<Rightarrow> u64 option \<Rightarrow> u64 \<Rightarrow> persist_result \<Rightarrow> TokenAuthority \<times> token_store \<Rightarrow> bool outcome \<times> TokenAuthority \<times> token_store" where
  "invalidate_access_generation_and_persist account_id failed_generation now_ms r =
     on_slot (invalidate_slot account_id failed_generation now_ms r) account_id"

definition invalidate_access_and_persist ::
  "string \<Rightarrow> u64 \<Rightarrow> persist_result \<Rightarrow> TokenAuthority \<times> token_store \<Rightarrow> unit outcome \<times> TokenAuthority \<times> token_store" where
  "invalidate_access_and_persist account_id now_ms r s =
     then_do (invalidate_access_generation_and_persist account_id None now_ms r s) (\<lambda>_ w. (Done (), w))"

subsection \<open>What an operation does to a slot and to the store\<close>

definition slot_durable :: "string \<Rightarrow> TokenSlot \<Rightarrow> token_store \<Rightarrow> bool" where
  "slot_durable i slot st \<longleftrightarrow> (\<not> sl_persistence_pending slot \<longrightarrow> bt_get (tk_tokens st) i = Some (sl_tokens slot))"

text \<open>
  An operation that stores what it obtains: where a token is held afterwards that is neither stored nor
  marked for storing, it was held like that before. The other accounts are left alone.
\<close>

definition keeps :: "string \<Rightarrow> TokenSlot \<times> token_store \<Rightarrow> TokenSlot \<times> token_store \<Rightarrow> bool" where
  "keeps i w w' \<longleftrightarrow> (\<not> slot_durable i (fst w') (snd w') \<longrightarrow> \<not> slot_durable i (fst w) (snd w) \<and> sl_tokens (fst w') = sl_tokens (fst w))
     \<and> (\<forall>j. j \<noteq> i \<longrightarrow> bt_get (tk_tokens (snd w')) j = bt_get (tk_tokens (snd w)) j)"

text \<open>The stages before a token is chosen leave the tokens alone and heal one authentication state.\<close>

definition settles :: "string \<Rightarrow> TokenSlot \<times> token_store \<Rightarrow> TokenSlot \<times> token_store \<Rightarrow> bool" where
  "settles i w w' \<longleftrightarrow> keeps i w w' \<and> sl_tokens (fst w') = sl_tokens (fst w)
     \<and> (sl_auth_state (fst w') = sl_auth_state (fst w)
        \<or> sl_auth_state (fst w) = RequiresReauth ReusedRefreshToken \<and> sl_auth_state (fst w') = AuthActive)"

lemma keeps_refl [simp]: "keeps i w w"
  by (simp add: keeps_def)

lemma keeps_auth [simp]: "keeps i (slot\<lparr>sl_auth_state := a\<rparr>, st) w' = keeps i (slot, st) w'"
  by (simp add: keeps_def slot_durable_def)

lemma keeps_trans: "keeps i a b \<Longrightarrow> keeps i b c \<Longrightarrow> keeps i a c"
  by (simp add: keeps_def)

lemma settles_refl [simp]: "settles i w w"
  by (simp add: settles_def)

lemma settles_trans: "settles i a b \<Longrightarrow> settles i b c \<Longrightarrow> settles i a c"
  by (auto simp: settles_def intro: keeps_trans)

lemma then_do_Done: "then_do r f = (Done y, w') \<longleftrightarrow> (\<exists>x w. r = (Done x, w) \<and> f x w = (Done y, w'))"
  by (cases r; cases "fst r") (auto simp: then_do_def)

lemma then_do_error:
  "then_do r f = (out, w') \<Longrightarrow> (\<exists>x w. r = (Done x, w) \<and> f x w = (out, w'))
     \<or> (\<exists>e. r = (Failed e, w') \<and> out = Failed e) \<or> (r = (Dropped, w') \<and> out = Dropped)"
  by (cases r; cases "fst r") (auto simp: then_do_def)

lemmas persist_defs = persist_slot_tokens_def persist_slot_auth_def persist_auth_state_def persist_call_def
  put_tokens_def put_auth_def

lemma put_auth_tokens [simp]: "tk_tokens (if wrote then put_auth i a st else st) = tk_tokens st"
  by (simp add: put_auth_def)

lemma persist_slot_tokens_keeps:
  "persist_slot_tokens r i slot st = (out, w) \<Longrightarrow> sl_persistence_pending slot \<Longrightarrow>
   settles i (slot, st) w \<and> (out = Done x \<longrightarrow> \<not> sl_persistence_pending (fst w))"
  by (cases r) (auto simp: persist_defs settles_def keeps_def slot_durable_def)

lemma persist_auth_state_settles:
  "persist_auth_state i r slot st = (out, w) \<Longrightarrow>
   settles i (slot, st) w \<and> sl_persistence_pending (fst w) = sl_persistence_pending slot
   \<and> sl_auth_state (fst w) = sl_auth_state slot"
  by (cases r; cases "the r") (auto simp: persist_defs settles_def keeps_def slot_durable_def)

lemma persist_auth_state_error: "persist_auth_state i r slot st \<noteq> (Failed (TaRefreshFailed code), w)"
  by (cases r; cases "the r") (auto simp: persist_defs)

lemma flush_tokens_settles:
  "flush_tokens i persistence slot st = (out, w) \<Longrightarrow> settles i (slot, st) w \<and> (out = Done x \<longrightarrow> \<not> sl_persistence_pending (fst w))"
  by (cases persistence; cases "pr_pending_tokens (the persistence)")
    (auto simp: flush_tokens_def then_do_def persist_defs settles_def keeps_def slot_durable_def split: if_splits)

lemma flush_auth_settles:
  "flush_auth i persistence slot st = (out, w) \<Longrightarrow>
   settles i (slot, st) w \<and> sl_persistence_pending (fst w) = sl_persistence_pending slot"
  by (cases persistence; cases "pr_pending_auth (the persistence)")
    (auto simp: flush_auth_def persist_defs settles_def keeps_def slot_durable_def split: if_splits)

lemma heal_reused_settles:
  "heal_reused i persistence slot st = (out, w) \<Longrightarrow>
   settles i (slot, st) w \<and> sl_persistence_pending (fst w) = sl_persistence_pending slot"
  by (cases persistence; cases "pr_healed_auth (the persistence)")
    (auto simp: heal_reused_def persist_defs settles_def keeps_def slot_durable_def split: if_splits)

lemma prepare_slot_cases:
  assumes "prepare_slot i now skew refresh persistence slot st = (out, w')"
  obtains (stopped) "settles i (slot, st) w'" "\<And>p. out \<noteq> Done p"
  | (chosen) slot1 st1 where "settles i (slot, st) (slot1, st1)" "\<not> sl_persistence_pending slot1"
      "choose_token i now skew refresh persistence slot1 st1 = (out, w')"
proof -
  consider (a) w1 where "flush_tokens i persistence slot st = (Done (), w1)"
      "then_do (flush_auth i persistence (fst w1) (snd w1)) (\<lambda>_ (slot, st).
         then_do (heal_reused i persistence slot st) (\<lambda>_ (slot, st). choose_token i now skew refresh persistence slot st)) = (out, w')"
    | (b) r where "flush_tokens i persistence slot st = (r, w')" "\<And>p. out \<noteq> Done p"
    using then_do_error [OF assms [unfolded prepare_slot_def]] by (auto simp: case_prod_unfold)
  then show thesis
  proof cases
    case b
    then show ?thesis using flush_tokens_settles stopped by blast
  next
    case a
    note w1 = flush_tokens_settles [OF a(1), of "()"]
    consider (c) w2 where "flush_auth i persistence (fst w1) (snd w1) = (Done (), w2)"
        "then_do (heal_reused i persistence (fst w2) (snd w2)) (\<lambda>_ (slot, st). choose_token i now skew refresh persistence slot st) = (out, w')"
      | (d) r where "flush_auth i persistence (fst w1) (snd w1) = (r, w')" "\<And>p. out \<noteq> Done p"
      using then_do_error [OF a(2)] by (auto simp: case_prod_unfold)
    then show ?thesis
    proof cases
      case d
      then show ?thesis using flush_auth_settles [OF d(1)] w1 stopped settles_trans by (metis prod.collapse)
    next
      case c
      note w2 = flush_auth_settles [OF c(1)]
      have s2: "settles i (slot, st) w2" using w1 w2 settles_trans by (metis prod.collapse)
      consider (e) w3 where "heal_reused i persistence (fst w2) (snd w2) = (Done (), w3)"
          "choose_token i now skew refresh persistence (fst w3) (snd w3) = (out, w')"
        | (f) r where "heal_reused i persistence (fst w2) (snd w2) = (r, w')" "\<And>p. out \<noteq> Done p"
        using then_do_error [OF c(2)] by (auto simp: case_prod_unfold)
      then show ?thesis
      proof cases
        case e
        then show ?thesis using heal_reused_settles [OF e(1)] w1 w2 s2 chosen settles_trans by (metis prod.collapse)
      next
        case f
        then show ?thesis using heal_reused_settles [OF f(1)] s2 stopped settles_trans by (metis prod.collapse)
      qed
    qed
  qed
qed

lemma refresh_slot_tokens:
  assumes "refresh_slot i now refresh persistence rt slot st = (out, w')"
  shows "(sl_tokens (fst w') = sl_tokens slot \<and> (\<forall>p. out \<noteq> Done p))
    \<or> (\<exists>refreshed. refresh i rt now = Some (Inr refreshed) \<and> sl_tokens (fst w') = refreshed_tokens refreshed rt now (sl_tokens slot)
         \<and> sl_auth_state (fst w') = AuthActive
         \<and> (\<forall>p. out = Done p \<longrightarrow> p = \<lparr>pt_status = PrepareRefreshed, pt_tokens = sl_tokens (fst w')\<rparr>))"
proof (cases "refresh i rt now")
  case None
  then show ?thesis using assms by (auto simp: refresh_slot_def Let_def)
next
  case (Some answer)
  show ?thesis
  proof (cases answer)
    case (Inl failure)
    then show ?thesis using assms Some
      by (cases "reauth_reason failure")
        (auto simp: refresh_slot_def Let_def settles_def dest!: then_do_error persist_auth_state_settles)
  next
    case (Inr refreshed)
    define slot1 where "slot1 = slot\<lparr>sl_auth_state := AuthActive, sl_tokens := refreshed_tokens refreshed rt now (sl_tokens slot)\<rparr>"
    have "sl_tokens (fst w') = sl_tokens slot1 \<and> sl_auth_state (fst w') = AuthActive
        \<and> (\<forall>p. out = Done p \<longrightarrow> p = \<lparr>pt_status = PrepareRefreshed, pt_tokens = sl_tokens slot1\<rparr>)"
    proof (cases persistence)
      case None
      then show ?thesis using assms Some Inr
        by (auto simp: refresh_slot_def Let_def then_do_def slot1_def)
    next
      case (Some r)
      with assms Inr \<open>refresh i rt now = Some answer\<close> show ?thesis
        by (cases "pr_refreshed_tokens r"; cases "pr_refreshed_auth r")
          (auto simp: refresh_slot_def Let_def then_do_def persist_defs slot1_def)
    qed
    then show ?thesis using Some Inr by (auto simp: slot1_def)
  qed
qed

lemma refresh_slot_keeps:
  assumes "refresh_slot i now refresh (Some r) rt slot st = (out, w')" "\<not> sl_persistence_pending slot"
  shows "keeps i (slot, st) w' \<and> (\<forall>p. out = Done p \<longrightarrow> \<not> sl_persistence_pending (fst w') \<and> slot_durable i (fst w') (snd w'))"
proof (cases "refresh i rt now")
  case None
  then show ?thesis using assms by (auto simp: refresh_slot_def Let_def keeps_def slot_durable_def)
next
  case (Some answer)
  show ?thesis
  proof (cases answer)
    case (Inl failure)
    then show ?thesis using assms Some
      by (cases "reauth_reason failure"; cases "pr_rejected_auth r")
        (auto simp: refresh_slot_def Let_def then_do_def persist_defs keeps_def slot_durable_def)
  next
    case (Inr refreshed)
    then show ?thesis using assms Some
      by (cases "pr_refreshed_tokens r"; cases "pr_refreshed_auth r")
        (auto simp: refresh_slot_def Let_def then_do_def persist_defs keeps_def slot_durable_def)
  qed
qed

lemma refresh_slot_auth:
  assumes "refresh_slot i now refresh persistence rt slot st = (out, w')" "sl_auth_state (fst w') = RequiresReauth reason"
  shows "sl_auth_state slot = RequiresReauth reason \<or> (\<exists>f. refresh i rt now = Some (Inl f) \<and> reauth_reason f = Some reason)"
proof (cases "refresh i rt now")
  case None
  then show ?thesis using assms by (auto simp: refresh_slot_def Let_def)
next
  case (Some answer)
  show ?thesis
  proof (cases answer)
    case (Inl failure)
    then show ?thesis using assms Some
      by (cases "reauth_reason failure")
        (auto simp: refresh_slot_def Let_def dest!: then_do_error persist_auth_state_settles)
  next
    case (Inr refreshed)
    then show ?thesis using refresh_slot_tokens [OF assms(1)] assms(2) Some
      by (cases persistence; cases "pr_refreshed_tokens (the persistence)"; cases "pr_refreshed_auth (the persistence)")
        (use assms(1) in \<open>auto simp: refresh_slot_def Let_def then_do_def persist_defs\<close>)
  qed
qed

lemma refresh_slot_failed:
  assumes "refresh_slot i now refresh persistence rt slot st = (Failed (TaRefreshFailed code), w')"
  shows "sl_tokens (fst w') = sl_tokens slot \<and> sl_auth_state (fst w') = sl_auth_state slot"
proof (cases "refresh i rt now")
  case None
  then show ?thesis using assms by (simp add: refresh_slot_def Let_def)
next
  case (Some answer)
  show ?thesis
  proof (cases answer)
    case (Inl failure)
    then show ?thesis using assms Some
      by (cases "reauth_reason failure")
        (auto simp: refresh_slot_def Let_def persist_auth_state_error dest!: then_do_error)
  next
    case (Inr refreshed)
    then show ?thesis using assms Some
      by (cases persistence; cases "pr_refreshed_tokens (the persistence)"; cases "pr_refreshed_auth (the persistence)")
        (auto simp: refresh_slot_def Let_def then_do_def persist_defs)
  qed
qed

lemma choose_token_cases:
  assumes "choose_token i now skew refresh persistence slot st = (out, w')"
  obtains (rejected) reason where "sl_auth_state slot = RequiresReauth reason" "out = Failed (TaRequiresReauth reason)" "w' = (slot, st)"
  | (ready) "\<And>reason. sl_auth_state slot \<noteq> RequiresReauth reason" "is_access_usable (sl_tokens slot) now skew"
      "out = Done \<lparr>pt_status = PrepareReady, pt_tokens = sl_tokens slot\<rparr>" "w' = (slot, st)"
  | (expired) "\<And>p. out \<noteq> Done p" "\<And>code. out \<noteq> Failed (TaRefreshFailed code)" "settles i (slot\<lparr>sl_auth_state := DegradedAccessOnly\<rparr>, st) w'"
      "sl_auth_state (fst w') = DegradedAccessOnly"
  | (refresh) rt where "\<And>reason. sl_auth_state slot \<noteq> RequiresReauth reason" "\<not> is_access_usable (sl_tokens slot) now skew"
      "to_refresh_token (sl_tokens slot) = Some rt" "refresh_slot i now refresh persistence rt slot st = (out, w')"
proof (cases "\<exists>reason. sl_auth_state slot = RequiresReauth reason")
  case True
  then show thesis using assms rejected by (auto simp: choose_token_def)
next
  case False
  then have c: "choose_token i now skew refresh persistence slot st =
      (if is_access_usable (sl_tokens slot) now skew
       then (Done \<lparr>pt_status = PrepareReady, pt_tokens = sl_tokens slot\<rparr>, slot, st)
       else (case to_refresh_token (sl_tokens slot) of
          None \<Rightarrow> then_do (persist_auth_state i (map_option pr_expired_auth persistence) (slot\<lparr>sl_auth_state := DegradedAccessOnly\<rparr>) st)
                  (\<lambda>_ w. (Failed TaAccessTokenExpired, w))
        | Some refresh_token \<Rightarrow> refresh_slot i now refresh persistence refresh_token slot st))"
    by (cases "sl_auth_state slot") (simp_all add: choose_token_def)
  show thesis
  proof (cases "to_refresh_token (sl_tokens slot)")
    case None
    show ?thesis
    proof (cases "is_access_usable (sl_tokens slot) now skew")
      case False
      with None assms c have e: "then_do (persist_auth_state i (map_option pr_expired_auth persistence) (slot\<lparr>sl_auth_state := DegradedAccessOnly\<rparr>) st)
          (\<lambda>_ w. (Failed TaAccessTokenExpired, w)) = (out, w')" by simp
      note cases = then_do_error [OF e]
      obtain r where r: "persist_auth_state i (map_option pr_expired_auth persistence) (slot\<lparr>sl_auth_state := DegradedAccessOnly\<rparr>) st = (r, w')"
        using cases by auto
      have "out \<noteq> Done p" "out \<noteq> Failed (TaRefreshFailed code)" for p code
        using cases by (auto simp: persist_auth_state_error)
      then show ?thesis using persist_auth_state_settles [OF r] expired by auto
    qed (use False assms c ready in auto)
  qed (use False assms c ready refresh in \<open>auto split: if_splits\<close>)
qed

lemma prepare_slot_keeps:
  assumes "prepare_slot i now skew refresh (Some r) slot st = (out, w')"
  shows "keeps i (slot, st) w'"
  using assms
proof (cases rule: prepare_slot_cases)
  case stopped
  then show ?thesis by (simp add: settles_def)
next
  case (chosen slot1 st1)
  have "keeps i (slot1, st1) w'"
    using chosen(3)
  proof (cases rule: choose_token_cases)
    case expired
    then show ?thesis by (simp add: settles_def)
  next
    case (refresh rt)
    then show ?thesis using refresh_slot_keeps chosen(2) by blast
  qed simp_all
  then show ?thesis using chosen(1) keeps_trans unfolding settles_def by blast
qed

lemma invalidate_slot_keeps:
  "invalidate_slot i g now r slot st = (out, w') \<Longrightarrow> keeps i (slot, st) w'"
  by (cases r) (auto simp: invalidate_slot_def Let_def then_do_def persist_defs keeps_def slot_durable_def split: if_splits)

subsection \<open>Every sequence of operations\<close>

text \<open>
  The public operations, and the host that stores credentials on its own, as it does at a login
  before it registers them. Nothing else writes to the store.
\<close>

datatype token_op = OpStore string TokenSet AccountAuthState
  | OpRegister string TokenSet AccountAuthState
  | OpRegisterIfAbsent string TokenSet AccountAuthState
  | OpRemove string
  | OpPrepare string u64 u64 token_refresher
  | OpPrepareAndPersist string u64 u64 token_refresher persist_results
  | OpInvalidate string "u64 option" u64 persist_result

fun token_apply :: "token_op \<Rightarrow> TokenAuthority \<times> token_store \<Rightarrow> TokenAuthority \<times> token_store" where
  "token_apply (OpStore i tokens auth) s = (fst s, put_auth i auth (put_tokens i tokens (snd s)))"
| "token_apply (OpRegister i tokens auth) s = (snd (token_register i tokens auth (fst s)), snd s)"
| "token_apply (OpRegisterIfAbsent i tokens auth) s = (snd (register_if_absent i tokens auth (fst s)), snd s)"
| "token_apply (OpRemove i) s = (snd (token_remove i (fst s)), snd s)"
| "token_apply (OpPrepare i now_ms skew_ms refresh) s = snd (token_prepare i now_ms skew_ms refresh s)"
| "token_apply (OpPrepareAndPersist i now_ms skew_ms refresh r) s = snd (prepare_and_persist i now_ms skew_ms refresh r s)"
| "token_apply (OpInvalidate i g now_ms q) s = snd (invalidate_access_generation_and_persist i g now_ms q s)"

definition token_initial :: "nat \<Rightarrow> token_store \<Rightarrow> TokenAuthority \<times> token_store" where
  "token_initial max_accounts st = (\<lparr>ta_slots = bt_empty, ta_max_accounts = max_accounts\<rparr>, st)"

abbreviation token_run :: "token_op list \<Rightarrow> TokenAuthority \<times> token_store \<Rightarrow> TokenAuthority \<times> token_store" where
  "token_run ops s \<equiv> fold token_apply ops s"

interpretation authority: step_invariant "\<lambda>s s'. \<exists>op. s' = token_apply op s" "token_initial max_accounts st"
    "\<lambda>s. ta_max_accounts (fst s) = max_accounts \<and> bt_len (ta_slots (fst s)) \<le> max_accounts"
proof unfold_locales
  fix s s'
  assume "\<exists>op. s' = token_apply op s" and inv: "ta_max_accounts (fst s) = max_accounts \<and> bt_len (ta_slots (fst s)) \<le> max_accounts"
  then obtain op where s': "s' = token_apply op s" by blast
  have on: "ta_max_accounts (fst (snd (on_slot f i s))) = max_accounts \<and> bt_len (ta_slots (fst (snd (on_slot f i s)))) \<le> max_accounts"
    for f :: "TokenSlot \<Rightarrow> token_store \<Rightarrow> 'x outcome \<times> TokenSlot \<times> token_store" and i
    using inv by (auto simp: on_slot_def bt_len_insert split: option.split prod.split)
  show "ta_max_accounts (fst s') = max_accounts \<and> bt_len (ta_slots (fst s')) \<le> max_accounts"
    using inv unfolding s'
    by (cases op) (simp_all add: token_register_def register_if_absent_def token_remove_def token_prepare_def prepare_and_persist_def
        prepare_inner_def invalidate_access_generation_and_persist_def on bt_len_insert bt_len_remove le_diff_conv trans_le_add1 Let_def)
qed (simp add: token_initial_def)

lemma capacity_kept: "bt_len (ta_slots (fst (token_run ops (token_initial max_accounts st)))) \<le> max_accounts"
proof -
  have "reach (\<lambda>s s'. \<exists>op. s' = token_apply op s) (token_initial max_accounts st) (token_run ops (token_initial max_accounts st))"
    by (induction ops rule: rev_induct) (auto intro: reach.intros)
  then show ?thesis using authority.holds by blast
qed

lemma on_slot_other: "j \<noteq> i \<Longrightarrow> bt_get (ta_slots (fst (snd (on_slot f i s)))) j = bt_get (ta_slots (fst s)) j"
  by (auto simp: on_slot_def split: option.split prod.split)

lemma on_slot_eq:
  assumes "on_slot f i s = (out, s')" "bt_get (ta_slots (fst s)) i = Some slot"
  obtains slot' where "f slot (snd s) = (out, slot', snd s')" "bt_get (ta_slots (fst s')) i = Some slot'"
  using assms by (auto simp: on_slot_def split: prod.splits)

lemma on_slot_Done: "on_slot f i s = (Done p, s') \<Longrightarrow> \<exists>slot. bt_get (ta_slots (fst s)) i = Some slot"
  by (auto simp: on_slot_def split: option.splits)

lemma on_slot_store:
  assumes "\<And>slot st out w'. f slot st = (out, w') \<Longrightarrow> bt_get (tk_tokens (snd w')) j = bt_get (tk_tokens st) j"
  shows "bt_get (tk_tokens (snd (snd (on_slot f i s)))) j = bt_get (tk_tokens (snd s)) j"
  using assms by (fastforce simp: on_slot_def split: option.split prod.split)

subsection \<open>Tokens that are held but not stored\<close>

definition unstored :: "string \<Rightarrow> TokenSet \<Rightarrow> TokenAuthority \<times> token_store \<Rightarrow> bool" where
  "unstored i tokens s \<longleftrightarrow> (\<exists>slot. bt_get (ta_slots (fst s)) i = Some slot \<and> sl_tokens slot = tokens \<and> \<not> slot_durable i slot (snd s))"

text \<open>The operations that may bring that about: those that do not store, and the host's own writes.\<close>

fun leaves_unstored :: "string \<Rightarrow> token_op \<Rightarrow> bool" where
  "leaves_unstored i (OpStore j _ _) \<longleftrightarrow> j = i"
| "leaves_unstored i (OpRegister j _ _) \<longleftrightarrow> trim j = i"
| "leaves_unstored i (OpRegisterIfAbsent j _ _) \<longleftrightarrow> trim j = i"
| "leaves_unstored i (OpPrepare j _ _ _) \<longleftrightarrow> j = i"
| "leaves_unstored i _ \<longleftrightarrow> False"

lemma unstored_on_slot:
  assumes "unstored i t (snd (on_slot f j s))"
    and "\<And>slot st out w'. f slot st = (out, w') \<Longrightarrow> keeps j (slot, st) w'"
  shows "unstored i t s"
proof (cases "i = j")
  case True
  obtain slot' where slot': "bt_get (ta_slots (fst (snd (on_slot f j s)))) j = Some slot'" "sl_tokens slot' = t"
    "\<not> slot_durable j slot' (snd (snd (on_slot f j s)))"
    using assms(1) True by (auto simp: unstored_def)
  show ?thesis
  proof (cases "bt_get (ta_slots (fst s)) j")
    case None
    then show ?thesis using slot' by (simp add: on_slot_def)
  next
    case (Some slot)
    obtain out s' where s': "on_slot f j s = (out, s')" by (metis prod.collapse)
    obtain slot'' where f: "f slot (snd s) = (out, slot'', snd s')" "bt_get (ta_slots (fst s')) j = Some slot''"
      by (rule on_slot_eq [OF s' Some])
    then show ?thesis using assms(2) [OF f(1)] slot' Some True s' by (auto simp: keeps_def unstored_def)
  qed
next
  case False
  have "bt_get (tk_tokens (snd (snd (on_slot f j s)))) i = bt_get (tk_tokens (snd s)) i"
    by (rule on_slot_store) (use assms(2) False in \<open>fastforce simp: keeps_def\<close>)
  then show ?thesis using assms(1) False by (simp add: unstored_def slot_durable_def on_slot_other)
qed

lemma refresh_slot_store: "refresh_slot i now refresh None rt slot st = (out, w') \<Longrightarrow> snd w' = st"
  by (auto simp: refresh_slot_def Let_def then_do_def persist_auth_state_def split: option.splits sum.splits)

lemma prepare_slot_frame:
  assumes "prepare_slot i now skew refresh persistence slot st = (out, w')" "j \<noteq> i"
  shows "bt_get (tk_tokens (snd w')) j = bt_get (tk_tokens st) j"
proof (cases persistence)
  case (Some r)
  then show ?thesis using prepare_slot_keeps assms by (auto simp: keeps_def)
next
  case None
  show ?thesis using assms(1)
  proof (cases rule: prepare_slot_cases)
    case (chosen slot1 st1)
    have "bt_get (tk_tokens (snd w')) j = bt_get (tk_tokens st1) j"
      using chosen(3)
    proof (cases rule: choose_token_cases)
      case (refresh rt)
      then show ?thesis using refresh_slot_store None by simp
    qed (use assms(2) in \<open>auto simp: settles_def keeps_def\<close>)
    then show ?thesis using chosen(1) assms(2) by (simp add: settles_def keeps_def)
  qed (use assms(2) in \<open>simp add: settles_def keeps_def\<close>)
qed

lemma unstored_step:
  assumes "unstored i t (token_apply op s)"
  shows "leaves_unstored i op \<or> unstored i t s"
proof (cases op)
  case (OpPrepare j now skew refresh)
  have "unstored i t s" if "j \<noteq> i"
  proof -
    have "bt_get (tk_tokens (snd (token_apply op s))) i = bt_get (tk_tokens (snd s)) i"
      unfolding OpPrepare token_apply.simps token_prepare_def prepare_inner_def
      by (rule on_slot_store, erule prepare_slot_frame) (use that in simp)
    then show ?thesis
      using assms that by (simp add: OpPrepare unstored_def slot_durable_def token_prepare_def prepare_inner_def on_slot_other)
  qed
  then show ?thesis by (auto simp: OpPrepare)
next
  case (OpPrepareAndPersist j now skew refresh r)
  then show ?thesis using assms prepare_slot_keeps
    by (auto simp: prepare_and_persist_def prepare_inner_def intro: unstored_on_slot)
next
  case (OpInvalidate j g now q)
  then show ?thesis using assms invalidate_slot_keeps
    by (auto simp: invalidate_access_generation_and_persist_def intro: unstored_on_slot)
qed (use assms in \<open>auto simp: unstored_def slot_durable_def put_auth_def put_tokens_def token_register_def register_if_absent_def
    token_remove_def Let_def split: if_splits\<close>)

lemma unstored_run:
  assumes "unstored i t (token_run ops s0)" "\<not> unstored i t s0"
  shows "\<exists>pre op post. ops = pre @ op # post \<and> leaves_unstored i op \<and> unstored i t (token_run (pre @ [op]) s0)"
  using assms(1)
proof (induction ops rule: rev_induct)
  case Nil
  then show ?case using assms(2) by simp
next
  case (snoc op ops)
  show ?case
  proof (cases "leaves_unstored i op")
    case True
    then show ?thesis using snoc.prems by blast
  next
    case False
    then have "unstored i t (token_run ops s0)" using unstored_step snoc.prems by fastforce
    then obtain pre x post where "ops = pre @ x # post" "leaves_unstored i x" "unstored i t (token_run (pre @ [x]) s0)"
      using snoc.IH by blast
    then show ?thesis by (intro exI [of _ pre] exI [of _ x] exI [of _ "post @ [op]"]) simp
  qed
qed

subsection \<open>Correctness\<close>

lemma prepare_slot_Done:
  assumes "prepare_slot i now skew refresh persistence slot st = (Done p, w')"
  shows "sl_tokens (fst w') = pt_tokens p"
    and "pt_status p = PrepareReady \<and> pt_tokens p = sl_tokens slot \<and> is_access_usable (pt_tokens p) now skew
       \<or> pt_status p = PrepareRefreshed \<and> \<not> is_access_usable (sl_tokens slot) now skew
         \<and> (\<exists>rt answer. to_refresh_token (sl_tokens slot) = Some rt \<and> refresh i rt now = Some (Inr answer)
              \<and> pt_tokens p = refreshed_tokens answer rt now (sl_tokens slot))"
    and "persistence \<noteq> None \<Longrightarrow> \<not> sl_persistence_pending (fst w') \<and> (pt_status p = PrepareRefreshed \<longrightarrow> slot_durable i (fst w') (snd w'))"
proof -
  have "sl_tokens (fst w') = pt_tokens p
    \<and> (pt_status p = PrepareReady \<and> pt_tokens p = sl_tokens slot \<and> is_access_usable (pt_tokens p) now skew
       \<or> pt_status p = PrepareRefreshed \<and> \<not> is_access_usable (sl_tokens slot) now skew
         \<and> (\<exists>rt answer. to_refresh_token (sl_tokens slot) = Some rt \<and> refresh i rt now = Some (Inr answer)
              \<and> pt_tokens p = refreshed_tokens answer rt now (sl_tokens slot)))
    \<and> (persistence \<noteq> None \<longrightarrow> \<not> sl_persistence_pending (fst w') \<and> (pt_status p = PrepareRefreshed \<longrightarrow> slot_durable i (fst w') (snd w')))"
    using assms
  proof (cases rule: prepare_slot_cases)
    case (chosen slot1 st1)
    have same: "sl_tokens slot1 = sl_tokens slot" using chosen(1) by (simp add: settles_def)
    show ?thesis using chosen(3)
    proof (cases rule: choose_token_cases)
      case ready
      then show ?thesis using chosen(2) same by simp
    next
      case (refresh rt)
      have "persistence \<noteq> None \<longrightarrow> \<not> sl_persistence_pending (fst w') \<and> slot_durable i (fst w') (snd w')"
        using refresh_slot_keeps [OF _ chosen(2)] refresh(4) by blast
      then show ?thesis using refresh_slot_tokens [OF refresh(4)] refresh same by auto
    qed (simp, blast)
  qed blast
  then show "sl_tokens (fst w') = pt_tokens p"
    "pt_status p = PrepareReady \<and> pt_tokens p = sl_tokens slot \<and> is_access_usable (pt_tokens p) now skew
       \<or> pt_status p = PrepareRefreshed \<and> \<not> is_access_usable (sl_tokens slot) now skew
         \<and> (\<exists>rt answer. to_refresh_token (sl_tokens slot) = Some rt \<and> refresh i rt now = Some (Inr answer)
              \<and> pt_tokens p = refreshed_tokens answer rt now (sl_tokens slot))"
    "persistence \<noteq> None \<Longrightarrow> \<not> sl_persistence_pending (fst w') \<and> (pt_status p = PrepareRefreshed \<longrightarrow> slot_durable i (fst w') (snd w'))"
    by blast+
qed

text \<open>
  C16 (safety). After any sequence of operations on a new authority, with any failures or aborted
  operations in between, a token that \<open>prepare_and_persist\<close> returns is either the token already held,
  and then usable for the requested time, or the answer of the provider to a refresh of an unusable
  one, with the refresh and identity tokens kept that the answer leaves out and the next generation
  number. A refreshed token is in the store. So is a token already held, unless an operation before it
  left exactly this token in the slot and not in the store: one of those that do not store what they
  are given or obtain (\<open>register\<close>, \<open>register_if_absent\<close> and \<open>prepare\<close>), or the host storing other tokens.
\<close>

theorem prepared_token_is_durable:
  assumes "prepare_and_persist i now skew refresh r (token_run ops (token_initial max_accounts st)) = (Done p, s')"
  shows "\<exists>slot. bt_get (ta_slots (fst (token_run ops (token_initial max_accounts st)))) i = Some slot
      \<and> (pt_status p = PrepareReady \<and> pt_tokens p = sl_tokens slot \<and> is_access_usable (pt_tokens p) now skew
           \<and> (bt_get (tk_tokens (snd s')) i = Some (pt_tokens p)
              \<or> (\<exists>pre op post. ops = pre @ op # post \<and> leaves_unstored i op
                   \<and> unstored i (pt_tokens p) (token_run (pre @ [op]) (token_initial max_accounts st))))
         \<or> pt_status p = PrepareRefreshed \<and> \<not> is_access_usable (sl_tokens slot) now skew
           \<and> bt_get (tk_tokens (snd s')) i = Some (pt_tokens p)
           \<and> (\<exists>rt answer. to_refresh_token (sl_tokens slot) = Some rt \<and> refresh i rt now = Some (Inr answer)
                \<and> pt_tokens p = refreshed_tokens answer rt now (sl_tokens slot)))"
proof -
  let ?init = "token_initial max_accounts st"
  let ?s = "token_run ops ?init"
  have on: "on_slot (prepare_slot i now skew refresh (Some r)) i ?s = (Done p, s')"
    using assms by (simp add: prepare_and_persist_def prepare_inner_def)
  obtain slot where slot: "bt_get (ta_slots (fst ?s)) i = Some slot" using on_slot_Done [OF on] by blast
  obtain slot' where slot': "prepare_slot i now skew refresh (Some r) slot (snd ?s) = (Done p, slot', snd s')"
    by (rule on_slot_eq [OF on slot])
  note fin = prepare_slot_Done [OF slot']
  have stored: "bt_get (tk_tokens (snd s')) i = Some (pt_tokens p)" if "slot_durable i slot' (snd s')"
    using that fin(1,3) by (simp add: slot_durable_def)
  have "unstored i (pt_tokens p) ?s" if "\<not> slot_durable i slot' (snd s')"
    using prepare_slot_keeps [OF slot'] that slot fin(1) by (auto simp: keeps_def unstored_def)
  moreover have "\<not> unstored i (pt_tokens p) ?init" by (simp add: unstored_def token_initial_def)
  ultimately have "slot_durable i slot' (snd s') \<or> (\<exists>pre op post. ops = pre @ op # post \<and> leaves_unstored i op
      \<and> unstored i (pt_tokens p) (token_run (pre @ [op]) ?init))"
    using unstored_run by blast
  then have "bt_get (tk_tokens (snd s')) i = Some (pt_tokens p) \<or> (\<exists>pre op post. ops = pre @ op # post \<and> leaves_unstored i op
      \<and> unstored i (pt_tokens p) (token_run (pre @ [op]) ?init))"
    using stored by blast
  moreover have "bt_get (tk_tokens (snd s')) i = Some (pt_tokens p)" if "pt_status p = PrepareRefreshed"
    using that fin(3) stored by simp
  ultimately show ?thesis using slot fin(2) by (intro exI [of _ slot]) metis
qed

text \<open>What a later operation makes of the tokens of a slot that stays in place.\<close>

fun replaces_slot :: "string \<Rightarrow> token_op \<Rightarrow> bool" where
  "replaces_slot i (OpRegister j _ _) \<longleftrightarrow> trim j = i"
| "replaces_slot i (OpRemove j) \<longleftrightarrow> j = i"
| "replaces_slot i _ \<longleftrightarrow> False"

fun invalidated_at :: "string \<Rightarrow> token_op \<Rightarrow> u64 option" where
  "invalidated_at i (OpInvalidate j _ now_ms _) = (if j = i then Some now_ms else None)"
| "invalidated_at i _ = None"

text \<open>The access token is one that the provider issued in answer to a refresh by this operation.\<close>

fun issues :: "string \<Rightarrow> string \<Rightarrow> token_op \<Rightarrow> bool" where
  "issues i access (OpPrepare j now_ms _ refresh) \<longleftrightarrow>
     j = i \<and> (\<exists>rt answer. refresh i rt now_ms = Some (Inr answer) \<and> tr_access_token answer = access)"
| "issues i access (OpPrepareAndPersist j now_ms _ refresh _) \<longleftrightarrow>
     j = i \<and> (\<exists>rt answer. refresh i rt now_ms = Some (Inr answer) \<and> tr_access_token answer = access)"
| "issues i access _ \<longleftrightarrow> False"

lemma prepare_slot_tokens:
  assumes "prepare_slot i now skew refresh persistence slot st = (out, w')"
  shows "sl_tokens (fst w') = sl_tokens slot
    \<or> (\<exists>rt answer. refresh i rt now = Some (Inr answer) \<and> sl_tokens (fst w') = refreshed_tokens answer rt now (sl_tokens slot))"
  using assms
proof (cases rule: prepare_slot_cases)
  case (chosen slot1 st1)
  have same: "sl_tokens slot1 = sl_tokens slot" using chosen(1) by (simp add: settles_def)
  show ?thesis using chosen(3)
  proof (cases rule: choose_token_cases)
    case (refresh rt)
    then show ?thesis using refresh_slot_tokens [OF refresh(4)] same by auto
  qed (simp_all add: same settles_def)
qed (simp add: settles_def)

lemma on_slot_tokens:
  assumes "bt_get (ta_slots (fst s)) i = Some slot"
  shows "\<exists>out slot' st'. f slot (snd s) = (out, slot', st') \<and> bt_get (ta_slots (fst (snd (on_slot f i s)))) i = Some slot'"
  using assms by (auto simp: on_slot_def split: prod.split)

lemma token_apply_tokens:
  assumes "bt_get (ta_slots (fst s)) i = Some slot" "\<not> replaces_slot i op"
  shows "\<exists>slot'. bt_get (ta_slots (fst (token_apply op s))) i = Some slot'
    \<and> (sl_tokens slot' = sl_tokens slot
       \<or> issues i (to_access_token (sl_tokens slot')) op \<and> to_generation (sl_tokens slot') = sat_add (to_generation (sl_tokens slot)) 1
       \<or> (\<exists>t. invalidated_at i op = Some t \<and> sl_tokens slot' = (sl_tokens slot)\<lparr>to_expires_at_ms := Some t, to_issued_at_ms := t,
            to_generation := sat_add (to_generation (sl_tokens slot)) 1\<rparr>))"
proof (cases op)
  case (OpPrepare j now skew refresh)
  show ?thesis
  proof (cases "j = i")
    case True
    then show ?thesis
      using on_slot_tokens [OF assms(1), of "prepare_slot i now skew refresh None"] prepare_slot_tokens [of i now skew refresh None slot "snd s"]
      by (fastforce simp: OpPrepare token_prepare_def prepare_inner_def refreshed_tokens_def)
  qed (use assms(1) in \<open>simp add: OpPrepare token_prepare_def prepare_inner_def on_slot_other\<close>)
next
  case (OpPrepareAndPersist j now skew refresh r)
  show ?thesis
  proof (cases "j = i")
    case True
    then show ?thesis
      using on_slot_tokens [OF assms(1), of "prepare_slot i now skew refresh (Some r)"] prepare_slot_tokens [of i now skew refresh "Some r" slot "snd s"]
      by (fastforce simp: OpPrepareAndPersist prepare_and_persist_def prepare_inner_def refreshed_tokens_def)
  qed (use assms(1) in \<open>simp add: OpPrepareAndPersist prepare_and_persist_def prepare_inner_def on_slot_other\<close>)
next
  case (OpInvalidate j g now q)
  show ?thesis
  proof (cases "j = i")
    case True
    have "sl_tokens (fst w') = sl_tokens slot \<or> sl_tokens (fst w') = (sl_tokens slot)\<lparr>to_expires_at_ms := Some now, to_issued_at_ms := now,
        to_generation := sat_add (to_generation (sl_tokens slot)) 1\<rparr>"
      if "invalidate_slot i g now q slot (snd s) = (out, w')" for out w'
      using that by (cases q) (auto simp: invalidate_slot_def Let_def then_do_def persist_defs split: if_splits)
    then show ?thesis using True on_slot_tokens [OF assms(1), of "invalidate_slot i g now q"]
      by (fastforce simp: OpInvalidate invalidate_access_generation_and_persist_def)
  qed (use assms(1) in \<open>simp add: OpInvalidate invalidate_access_generation_and_persist_def on_slot_other\<close>)
qed (use assms in \<open>auto simp: token_register_def register_if_absent_def token_remove_def Let_def\<close>)

text \<open>The tokens of a slot are expired at a time, or were issued since.\<close>

definition renewed :: "string \<Rightarrow> u64 \<Rightarrow> u64 \<Rightarrow> token_op list \<Rightarrow> TokenSet \<Rightarrow> bool" where
  "renewed i time g ops t \<longleftrightarrow> g \<le> to_generation t
     \<and> ((\<exists>e \<le> time. to_expires_at_ms t = Some e)
        \<or> sat_add g 1 \<le> to_generation t \<and> (\<exists>op \<in> set ops. issues i (to_access_token t) op))"

lemma sat_add_mono1: "(a :: u64) \<le> b \<Longrightarrow> sat_add a 1 \<le> sat_add b 1"
  by (simp add: word_le_nat_alt rust_arith)

lemma renewed_run:
  assumes "bt_get (ta_slots (fst s)) i = Some slot" "renewed i time g [] (sl_tokens slot)"
    and "\<forall>op \<in> set ops. \<not> replaces_slot i op \<and> (\<forall>t. invalidated_at i op = Some t \<longrightarrow> t \<le> time)"
  shows "\<exists>slot'. bt_get (ta_slots (fst (token_run ops s))) i = Some slot' \<and> renewed i time g ops (sl_tokens slot')"
  using assms(3)
proof (induction ops rule: rev_induct)
  case Nil
  then show ?case using assms(1,2) by simp
next
  case (snoc op ops)
  then obtain a where a: "bt_get (ta_slots (fst (token_run ops s))) i = Some a" "renewed i time g ops (sl_tokens a)" by auto
  obtain b where b: "bt_get (ta_slots (fst (token_apply op (token_run ops s)))) i = Some b"
    and c: "sl_tokens b = sl_tokens a
       \<or> issues i (to_access_token (sl_tokens b)) op \<and> to_generation (sl_tokens b) = sat_add (to_generation (sl_tokens a)) 1
       \<or> (\<exists>t. invalidated_at i op = Some t \<and> sl_tokens b = (sl_tokens a)\<lparr>to_expires_at_ms := Some t, to_issued_at_ms := t,
            to_generation := sat_add (to_generation (sl_tokens a)) 1\<rparr>)"
    using token_apply_tokens [OF a(1), of op] snoc.prems by auto
  have g: "g \<le> to_generation (sl_tokens a)" using a(2) by (simp add: renewed_def)
  have "sat_add g 1 \<le> sat_add (to_generation (sl_tokens a)) 1" "g \<le> sat_add (to_generation (sl_tokens a)) 1"
    using sat_add_mono1 [OF g] sat_add_ge order_trans by blast+
  then have "renewed i time g (ops @ [op]) (sl_tokens b)"
    using c a(2) snoc.prems by (auto simp: renewed_def)
  then show ?case using b by simp
qed

text \<open>
  C17 (safety). Once the generation of an access token that failed has been invalidated, whether or not
  that could be stored, the account is served with a token that the provider issued afterwards:
  whatever operations follow, short of the account being removed or registered anew, a preparation,
  with or without storing, returns only a token that the provider issued in answer to a refresh by it
  or by one of these operations, with a later generation number (saturating). Its time, with the
  margin asked for, must not lie before the invalidation or before a later one.
\<close>

theorem invalidated_access_not_reused:
  assumes "invalidate_access_generation_and_persist i (Some g) invalidated_ms q s = (out, s1)"
    and "bt_get (ta_slots (fst s)) i = Some slot" "to_generation (sl_tokens slot) = g"
    and "\<forall>op \<in> set ops. \<not> replaces_slot i op \<and> (\<forall>t. invalidated_at i op = Some t \<longrightarrow> t \<le> sat_add now skew)"
    and "invalidated_ms \<le> sat_add now skew"
    and "prepare_inner i now skew refresh persistence (token_run ops s1) = (Done p, s2)"
  shows "sat_add (sat_add g 1) 1 \<le> to_generation (pt_tokens p)
    \<and> ((\<exists>rt answer. refresh i rt now = Some (Inr answer) \<and> to_access_token (pt_tokens p) = tr_access_token answer)
       \<or> (\<exists>op \<in> set ops. issues i (to_access_token (pt_tokens p)) op))"
proof -
  obtain slot1 where f: "invalidate_slot i (Some g) invalidated_ms q slot (snd s) = (out, slot1, snd s1)"
    and slot1: "bt_get (ta_slots (fst s1)) i = Some slot1"
    by (rule on_slot_eq [OF assms(1) [unfolded invalidate_access_generation_and_persist_def] assms(2)])
  have "sl_tokens slot1 = (sl_tokens slot)\<lparr>to_expires_at_ms := Some invalidated_ms, to_issued_at_ms := invalidated_ms,
      to_generation := sat_add g 1\<rparr>"
    using f assms(3) by (cases q) (auto simp: invalidate_slot_def Let_def then_do_def persist_defs)
  then have "renewed i (sat_add now skew) (sat_add g 1) [] (sl_tokens slot1)" using assms(5) by (simp add: renewed_def)
  then obtain slot2 where slot2: "bt_get (ta_slots (fst (token_run ops s1))) i = Some slot2"
    "renewed i (sat_add now skew) (sat_add g 1) ops (sl_tokens slot2)"
    using renewed_run [OF slot1 _ assms(4)] by blast
  obtain slot3 where "prepare_slot i now skew refresh persistence slot2 (snd (token_run ops s1)) = (Done p, slot3, snd s2)"
    using on_slot_eq [OF assms(6) [unfolded prepare_inner_def] slot2(1)] by blast
  note fin = prepare_slot_Done(2) [OF this]
  have "sat_add (sat_add g 1) 1 \<le> sat_add (to_generation (sl_tokens slot2)) 1"
    using slot2(2) sat_add_mono1 by (simp add: renewed_def)
  moreover have "\<not> is_access_usable (sl_tokens slot2) now skew" if "to_expires_at_ms (sl_tokens slot2) = Some e" "e \<le> sat_add now skew" for e
    using that by (simp add: is_access_usable_def access_token_is_usable_def)
  moreover have "(\<exists>rt answer. refresh i rt now = Some (Inr answer) \<and> to_access_token (pt_tokens p) = tr_access_token answer)
      \<and> to_generation (pt_tokens p) = sat_add (to_generation (sl_tokens slot2)) 1
    \<or> pt_tokens p = sl_tokens slot2 \<and> is_access_usable (sl_tokens slot2) now skew"
    using fin by (force simp: refreshed_tokens_def)
  ultimately show ?thesis using slot2(2) unfolding renewed_def by force
qed

text \<open>
  An account is sent to a fresh login only when the provider rejected its refresh token:
  whatever a preparation returns, a login is required afterwards only if it was required before, for
  the same reason, or the provider answered this refresh with that rejection. A refresh that failed
  for any other reason leaves the tokens and the authentication state as they were, except that a
  stored state of a reused refresh token is healed.
\<close>

lemma reauth_only_when_rejected:
  assumes "prepare_and_persist i now skew refresh r s = (out, s')" "bt_get (ta_slots (fst s)) i = Some slot"
  shows "\<exists>slot'. bt_get (ta_slots (fst s')) i = Some slot'
    \<and> (\<forall>reason. sl_auth_state slot' = RequiresReauth reason \<longrightarrow> sl_auth_state slot = RequiresReauth reason
        \<or> (\<exists>rt f. to_refresh_token (sl_tokens slot) = Some rt \<and> refresh i rt now = Some (Inl f) \<and> reauth_reason f = Some reason))
    \<and> (\<forall>code. out = Failed (TaRefreshFailed code) \<longrightarrow> sl_tokens slot' = sl_tokens slot
        \<and> (sl_auth_state slot' = sl_auth_state slot
           \<or> sl_auth_state slot = RequiresReauth ReusedRefreshToken \<and> sl_auth_state slot' = AuthActive))"
proof -
  obtain slot' where p: "prepare_slot i now skew refresh (Some r) slot (snd s) = (out, slot', snd s')"
    and slot': "bt_get (ta_slots (fst s')) i = Some slot'"
    by (rule on_slot_eq [OF assms(1) [unfolded prepare_and_persist_def prepare_inner_def] assms(2)])
  show ?thesis using p
  proof (cases rule: prepare_slot_cases)
    case stopped
    then show ?thesis using slot' by (auto simp: settles_def)
  next
    case (chosen slot1 st1)
    have s1: "sl_tokens slot1 = sl_tokens slot" "sl_auth_state slot1 = sl_auth_state slot
        \<or> sl_auth_state slot = RequiresReauth ReusedRefreshToken \<and> sl_auth_state slot1 = AuthActive"
      using chosen(1) by (auto simp: settles_def)
    show ?thesis using chosen(3)
    proof (cases rule: choose_token_cases)
      case (rejected reason)
      then show ?thesis using s1 slot' by auto
    next
      case ready
      then show ?thesis using s1 slot' by auto
    next
      case expired
      then show ?thesis using slot' by auto
    next
      case (refresh rt)
      have "sl_auth_state slot1 = RequiresReauth reason \<or> (\<exists>f. refresh i rt now = Some (Inl f) \<and> reauth_reason f = Some reason)"
        if "sl_auth_state slot' = RequiresReauth reason" for reason
        using refresh_slot_auth [OF refresh(4)] that by simp
      moreover have "sl_tokens slot' = sl_tokens slot1 \<and> sl_auth_state slot' = sl_auth_state slot1"
        if "out = Failed (TaRefreshFailed code)" for code
        using refresh_slot_failed [of i now refresh "Some r" rt slot1 st1 code] refresh(4) that by simp
      ultimately show ?thesis using s1 slot' refresh(1,3) by auto
    qed
  qed
qed

subsection \<open>A concrete account\<close>

definition sample_tokens :: TokenSet where
  "sample_tokens = \<lparr>to_access_token = ''old'', to_refresh_token = Some ''r'', to_id_token = None, to_expires_at_ms = Some 50,
     to_issued_at_ms = 1, to_generation = 3\<rparr>"

definition sample_stored :: token_store where
  "sample_stored = \<lparr>tk_tokens = bt_insert ''a'' sample_tokens bt_empty, tk_auth = bt_insert ''a'' AuthActive bt_empty\<rparr>"

definition sample_authority :: "TokenAuthority \<times> token_store" where
  "sample_authority = (\<lparr>ta_slots = bt_insert ''a'' (slot_new sample_tokens AuthActive) bt_empty, ta_max_accounts = 1\<rparr>, sample_stored)"

definition sample_refresher :: token_refresher where
  "sample_refresher = (\<lambda>_ _ _. Some (Inr \<lparr>tr_access_token = ''new'', tr_refresh_token = None, tr_id_token = None, tr_expires_at_ms = Some 900\<rparr>))"

definition all_persisted :: persist_results where
  "all_persisted = \<lparr>pr_pending_tokens = PersistOk, pr_pending_auth = PersistOk, pr_healed_auth = PersistOk, pr_expired_auth = PersistOk,
     pr_refreshed_tokens = PersistOk, pr_refreshed_auth = PersistOk, pr_rejected_auth = PersistOk\<rparr>"

lemmas prepare_defs = prepare_and_persist_def prepare_inner_def on_slot_def prepare_slot_def flush_tokens_def flush_auth_def heal_reused_def
  choose_token_def refresh_slot_def then_do_def persist_defs is_access_usable_def access_token_is_usable_def refreshed_tokens_def

lemma sample_authority_run:
  "token_run [OpRegisterIfAbsent ''a'' sample_tokens AuthActive] (token_initial 1 sample_stored) = sample_authority"
proof -
  have "trim ''a'' = ''a''" by code_simp
  then show ?thesis by (simp add: sample_authority_def register_if_absent_def token_initial_def)
qed

lemma sample_sat: "sat_add (60 :: u64) 10 = 70" "sat_add (40 :: u64) 10 = 50" "sat_add (3 :: u64) 1 = 4" "sat_add (4 :: u64) 1 = 5" "sat_add (70 :: u64) 10 = 80"
  by (simp_all add: sat_add_def)

lemma sample_prepare:
  "\<exists>s. prepare_and_persist ''a'' 60 10 sample_refresher all_persisted sample_authority =
     (Done \<lparr>pt_status = PrepareRefreshed, pt_tokens = \<lparr>to_access_token = ''new'', to_refresh_token = Some ''r'', to_id_token = None,
        to_expires_at_ms = Some 900, to_issued_at_ms = 60, to_generation = 4\<rparr>\<rparr>, s)"
  by (simp add: prepare_defs sample_authority_def sample_refresher_def all_persisted_def sample_tokens_def slot_new_def
      sample_stored_def sample_sat Let_def)

theorem prepared_token_is_durable_witness:
  "\<exists>s p. prepare_and_persist ''a'' 60 10 sample_refresher all_persisted sample_authority = (Done p, s)
     \<and> to_access_token (pt_tokens p) = ''new'' \<and> bt_get (tk_tokens (snd s)) ''a'' = Some (pt_tokens p)"
proof -
  obtain p s where p: "prepare_and_persist ''a'' 60 10 sample_refresher all_persisted sample_authority = (Done p, s)"
    "to_access_token (pt_tokens p) = ''new''" "pt_status p = PrepareRefreshed"
    using sample_prepare by fastforce
  then show ?thesis
    using prepared_token_is_durable [OF p(1) [folded sample_authority_run]] by auto
qed

definition sample_invalidated :: "TokenAuthority \<times> token_store" where
  "sample_invalidated = (\<lparr>ta_slots = bt_insert ''a'' \<lparr>sl_tokens = sample_tokens\<lparr>to_expires_at_ms := Some 20, to_issued_at_ms := 20, to_generation := 4\<rparr>,
      sl_auth_state = AuthActive, sl_persistence_pending = True, sl_auth_state_persistence_pending = False\<rparr> (ta_slots (fst sample_authority)),
      ta_max_accounts = 1\<rparr>, sample_stored)"

lemma sample_invalidation:
  "invalidate_access_generation_and_persist ''a'' (Some 3) 20 (PersistErr ''io'' False) sample_authority =
     (Failed (TaPersistenceFailed ''io''), sample_invalidated)"
  by (simp add: invalidate_access_generation_and_persist_def on_slot_def invalidate_slot_def then_do_def persist_defs
      sample_authority_def slot_new_def sample_tokens_def sample_sat sample_invalidated_def Let_def)

theorem invalidated_access_not_reused_witness:
  "\<exists>p s2. prepare_and_persist ''a'' 70 10 sample_refresher all_persisted
       (token_run [OpPrepareAndPersist ''a'' 60 10 sample_refresher all_persisted] sample_invalidated) = (Done p, s2)
     \<and> pt_status p = PrepareReady \<and> to_access_token (pt_tokens p) = ''new'' \<and> 5 \<le> to_generation (pt_tokens p)"
proof -
  let ?ops = "[OpPrepareAndPersist ''a'' 60 10 sample_refresher all_persisted]"
  obtain p s2 where p: "prepare_inner ''a'' 70 10 sample_refresher (Some all_persisted) (token_run ?ops sample_invalidated) = (Done p, s2)"
    "pt_status p = PrepareReady"
    by (simp add: prepare_defs sample_invalidated_def sample_authority_def sample_refresher_def all_persisted_def sample_tokens_def slot_new_def
        sample_stored_def sample_sat Let_def)
  have slot: "bt_get (ta_slots (fst sample_authority)) ''a'' = Some (slot_new sample_tokens AuthActive)"
    "to_generation (sl_tokens (slot_new sample_tokens AuthActive)) = 3"
    by (simp_all add: sample_authority_def slot_new_def sample_tokens_def)
  have ops: "\<forall>op \<in> set ?ops. \<not> replaces_slot ''a'' op \<and> (\<forall>t. invalidated_at ''a'' op = Some t \<longrightarrow> t \<le> sat_add 70 10)" by simp
  have "sat_add (sat_add 3 1) 1 \<le> to_generation (pt_tokens p) \<and> to_access_token (pt_tokens p) = ''new''"
    using invalidated_access_not_reused [OF sample_invalidation slot ops _ p(1)] by (auto simp: sample_refresher_def sample_sat)
  then show ?thesis using p by (auto simp: sample_sat prepare_and_persist_def)
qed

end
