(* ===== verification/Passive_Quota.thy ===== *)
theory Passive_Quota
  imports Quota_Refresh
begin

section \<open>Quota reported with every answer (\<open>providers/chatgpt/passive_quota.rs\<close>)\<close>

text \<open>
  The provider reports the state of both quota windows in the headers of its answers. A report is
  merged into the last snapshot: within one cycle a window never gains availability, and a report that
  is older than the snapshot does not replace its window. The headers are a function from names to
  values; only values that are text are seen.
\<close>

definition RESET_CYCLE_SKEW_MS :: u64 where "RESET_CYCLE_SKEW_MS = 60000"

type_synonym quota_headers = "string \<Rightarrow> string option"

definition header_number :: "quota_headers \<Rightarrow> string \<Rightarrow> f64 option" where
  "header_number headers name =
     (case headers name of
        None \<Rightarrow> None
      | Some v \<Rightarrow> (case parse_f64 (trim v) of Some (Finite negative m e) \<Rightarrow> Some (Finite negative m e) | _ \<Rightarrow> None))"

definition header_u64 :: "quota_headers \<Rightarrow> string \<Rightarrow> u64 option" where
  "header_u64 headers name = Option.bind (headers name) (\<lambda>v. parse_u64 (trim v))"

fun percentage_in_range :: "f64 \<Rightarrow> bool" where
  "percentage_in_range (Finite negative m e) \<longleftrightarrow> (\<not> negative \<or> m = 0) \<and> dyadic_le m e 100"
| "percentage_in_range _ \<longleftrightarrow> False"

text \<open>\<open>100.0 - used\<close> on a double within range; the difference is rounded to a double.\<close>

fun hundred_minus :: "f64 \<Rightarrow> f64" where
  "hundred_minus (Finite negative m e) =
     (if e \<ge> 0 then Finite False (100 - m * 2 ^ nat e) 0
      else case round53 (100 * 2 ^ nat (- e) - m) e of (m', e') \<Rightarrow> Finite False m' e')"
| "hundred_minus v = v"

definition parse_window :: "(string \<Rightarrow> string) \<Rightarrow> quota_headers \<Rightarrow> string \<Rightarrow> QuotaWindowKind \<Rightarrow> u64 \<Rightarrow> QuotaWindow option" where
  "parse_window sha256_hex headers name kind observed_at_ms =
     (let used = filter_option percentage_in_range (header_number headers (''x-codex-'' @ name @ ''-used-percent''));
          reset_seconds = header_u64 headers (''x-codex-'' @ name @ ''-reset-after-seconds'');
          window_minutes = Option.bind (header_u64 headers (''x-codex-'' @ name @ ''-window-minutes''))
            (\<lambda>v. if unat v < 2 ^ 32 then Some (ucast v :: u32) else None)
      in if used = None \<and> reset_seconds = None \<and> window_minutes = None then None
         else (case window_normalize sha256_hex
             \<lparr>qi_kind = kind, qi_available_percent = map_option hundred_minus used, qi_explicitly_full = None,
              qi_reset = map_option RelativeSeconds reset_seconds, qi_window_minutes = window_minutes,
              qi_provider_cycle_id = None, qi_observed_at_ms = observed_at_ms\<rparr> None of
               Inl _ \<Rightarrow> None
             | Inr window \<Rightarrow> if is_empty_provider_placeholder window then None else Some window))"

definition is_new_cycle :: "QuotaWindow option \<Rightarrow> QuotaWindow \<Rightarrow> bool" where
  "is_new_cycle previous observed =
     (case Option.bind previous qw_reset_at_ms of
        None \<Rightarrow> False
      | Some previous_reset \<Rightarrow>
          previous_reset \<le> qw_observed_at_ms observed
          \<or> (case qw_reset_at_ms observed of None \<Rightarrow> False
             | Some reset \<Rightarrow> reset > sat_add previous_reset RESET_CYCLE_SKEW_MS))"

definition or_previous :: "'a option \<Rightarrow> 'a option \<Rightarrow> 'a option" where
  "or_previous new old = (case new of Some v \<Rightarrow> Some v | None \<Rightarrow> old)"

definition merge_window :: "QuotaWindow option \<Rightarrow> QuotaWindow \<Rightarrow> QuotaWindow option" where
  "merge_window previous observed =
     (case previous of
        None \<Rightarrow> Some observed
      | Some p \<Rightarrow>
          if qw_observed_at_ms observed < qw_observed_at_ms p then Some p
          else
            let available = (if is_new_cycle (Some p) observed then qw_available_basis_points observed
                  else (case (qw_available_basis_points p, qw_available_basis_points observed) of
                      (Some a, Some b) \<Rightarrow> Some (min a b)
                    | (a, None) \<Rightarrow> a
                    | (None, b) \<Rightarrow> b))
            in Some (observed\<lparr>qw_available_basis_points := available,
                 qw_reset_at_ms := or_previous (qw_reset_at_ms observed) (qw_reset_at_ms p),
                 qw_window_minutes := or_previous (qw_window_minutes observed) (qw_window_minutes p)\<rparr>))"

definition merge_codex_quota_headers ::
  "(string \<Rightarrow> string) \<Rightarrow> QuotaSnapshot \<Rightarrow> quota_headers \<Rightarrow> u64 \<Rightarrow> QuotaSnapshot option" where
  "merge_codex_quota_headers sha256_hex previous headers observed_at_ms =
     (let primary = parse_window sha256_hex headers ''primary'' Primary observed_at_ms;
          secondary = parse_window sha256_hex headers ''secondary'' Secondary observed_at_ms;
          removed_placeholder = (case qs_secondary previous of None \<Rightarrow> False | Some w \<Rightarrow> is_empty_provider_placeholder w);
          merged = (if removed_placeholder then previous\<lparr>qs_secondary := None\<rparr> else previous)
      in if primary = None \<and> secondary = None then (if removed_placeholder then Some merged else None)
         else
           let new_cycle = ((case primary of None \<Rightarrow> False | Some w \<Rightarrow> is_new_cycle (qs_primary previous) w)
                 \<or> (case secondary of None \<Rightarrow> False | Some w \<Rightarrow> is_new_cycle (qs_secondary previous) w));
               merged = (case primary of None \<Rightarrow> merged | Some w \<Rightarrow> merged\<lparr>qs_primary := merge_window (qs_primary previous) w\<rparr>);
               merged = (case secondary of None \<Rightarrow> merged | Some w \<Rightarrow> merged\<lparr>qs_secondary := merge_window (qs_secondary previous) w\<rparr>);
               observed_limit = list_ex (\<lambda>w. qw_available_basis_points w = Some 0) (snapshot_windows merged)
           in Some (merged\<lparr>qs_limit_reached := observed_limit \<or> (qs_limit_reached previous \<and> \<not> new_cycle),
                qs_updated_at_ms := Some (max (option_default 0 (qs_updated_at_ms previous)) observed_at_ms),
                qs_error := None\<rparr>))"

subsection \<open>Within a cycle availability only falls\<close>

lemma parse_window_observed:
  assumes "parse_window H headers name kind now = Some w"
  shows "qw_kind w = kind" "qw_observed_at_ms w = now" "\<not> is_empty_provider_placeholder w"
    "qw_available_basis_points w = Some bp \<Longrightarrow> bp \<le> 10000"
proof -
  obtain input where n: "window_normalize H input None = Inr w" and i: "qi_kind input = kind" "qi_observed_at_ms input = now"
    and p: "\<not> is_empty_provider_placeholder w"
    using assms by (simp add: parse_window_def Let_def split: if_splits sum.splits)
  show "qw_kind w = kind" "qw_observed_at_ms w = now" using window_normalize_fields [OF n] i by simp_all
  show "\<not> is_empty_provider_placeholder w" by (rule p)
  show "qw_available_basis_points w = Some bp \<Longrightarrow> bp \<le> 10000" by (rule window_normalize_bound [OF n])
qed

lemma merge_window_within_cycle:
  assumes "merge_window (Some p) observed = Some w" "qw_available_basis_points p = Some a"
  shows "(\<exists>b. qw_available_basis_points w = Some b \<and> b \<le> a)
    \<or> (\<exists>r. qw_reset_at_ms p = Some r \<and> (r \<le> qw_observed_at_ms observed
         \<or> (\<exists>r'. qw_reset_at_ms w = Some r' \<and> sat_add r RESET_CYCLE_SKEW_MS < r')))"
proof (cases "is_new_cycle (Some p) observed")
  case True
  then show ?thesis using assms
    by (auto simp: merge_window_def is_new_cycle_def or_previous_def Let_def split: if_splits option.splits)
next
  case False
  then show ?thesis using assms by (auto simp: merge_window_def Let_def split: if_splits option.splits)
qed

definition report_of :: "(string \<Rightarrow> string) \<Rightarrow> quota_headers \<Rightarrow> QuotaWindowKind \<Rightarrow> u64 \<Rightarrow> QuotaWindow option" where
  "report_of H headers kind now =
     parse_window H headers (case kind of Primary \<Rightarrow> ''primary'' | Secondary \<Rightarrow> ''secondary'') kind now"

lemma merged_window:
  assumes "merge_codex_quota_headers H previous headers now = Some merged" "report_of H headers Primary now \<noteq> None \<or> report_of H headers Secondary now \<noteq> None"
  shows "snapshot_window merged kind =
    (case report_of H headers kind now of
       Some w \<Rightarrow> merge_window (snapshot_window previous kind) w
     | None \<Rightarrow> (if kind = Secondary \<and> (\<exists>w. qs_secondary previous = Some w \<and> is_empty_provider_placeholder w) then None
               else snapshot_window previous kind))"
  using assms
  by (cases kind) (auto simp: merge_codex_quota_headers_def report_of_def Let_def split: option.splits if_splits)

lemma merged_unreported:
  assumes "merge_codex_quota_headers H previous headers now = Some merged"
    and "report_of H headers Primary now = None" "report_of H headers Secondary now = None"
  shows "merged = previous\<lparr>qs_secondary := None\<rparr>"
  using assms by (auto simp: merge_codex_quota_headers_def report_of_def Let_def split: option.splits if_splits)

lemma merged_limit:
  assumes "merge_codex_quota_headers H previous headers now = Some merged" "report_of H headers Primary now \<noteq> None \<or> report_of H headers Secondary now \<noteq> None"
    and "snapshot_window merged kind = Some w" "qw_available_basis_points w = Some 0"
  shows "qs_limit_reached merged"
  using assms
  by (cases kind) (auto simp: merge_codex_quota_headers_def report_of_def Let_def snapshot_windows_def list_ex_iff split: option.splits if_splits)

text \<open>
  C21 (safety). A report in the headers of an answer never raises the quota of a running cycle: for each
  window with a known availability, the merged window has at most that availability, unless the
  reset of the earlier window had passed when the answer came or the report moves the reset by more
  than the permitted skew. A window without availability left is reported as a reached limit.
\<close>

theorem passive_report_within_cycle:
  assumes "merge_codex_quota_headers H previous headers now = Some merged"
    and "snapshot_window previous kind = Some p" "qw_available_basis_points p = Some a" "snapshot_window merged kind = Some w"
  shows "((\<exists>b. qw_available_basis_points w = Some b \<and> b \<le> a)
      \<or> (\<exists>r. qw_reset_at_ms p = Some r \<and> (r \<le> now \<or> (\<exists>r'. qw_reset_at_ms w = Some r' \<and> sat_add r 60000 < r'))))
    \<and> (w \<noteq> p \<and> qw_available_basis_points w = Some 0 \<longrightarrow> qs_limit_reached merged)"
proof (cases "report_of H headers Primary now = None \<and> report_of H headers Secondary now = None")
  case True
  then have "merged = previous\<lparr>qs_secondary := None\<rparr>" using merged_unreported [OF assms(1)] by simp
  then have "w = p" using assms(2,4) by (cases kind) auto
  then show ?thesis using assms(3) by simp
next
  case False
  then have some: "report_of H headers Primary now \<noteq> None \<or> report_of H headers Secondary now \<noteq> None" by simp
  have "(\<exists>b. qw_available_basis_points w = Some b \<and> b \<le> a)
      \<or> (\<exists>r. qw_reset_at_ms p = Some r \<and> (r \<le> now \<or> (\<exists>r'. qw_reset_at_ms w = Some r' \<and> sat_add r 60000 < r')))"
  proof (cases "report_of H headers kind now")
    case None
    then have "w = p" using merged_window [OF assms(1) some, of kind] assms(2,4) by (auto split: if_splits)
    then show ?thesis using assms(3) by simp
  next
    case (Some observed)
    then have m: "merge_window (Some p) observed = Some w" using merged_window [OF assms(1) some, of kind] assms(2,4) by simp
    have "qw_observed_at_ms observed = now" using Some parse_window_observed by (simp add: report_of_def)
    then show ?thesis using merge_window_within_cycle [OF m assms(3)] by (simp add: RESET_CYCLE_SKEW_MS_def)
  qed
  then show ?thesis using merged_limit [OF assms(1) some assms(4)] by blast
qed

definition wit_window :: QuotaWindow where
  "wit_window = \<lparr>qw_kind = Primary, qw_provider_cycle_id = None, qw_window_start_ms = None,
     qw_available_basis_points = Some 6000, qw_explicitly_full = None, qw_reset_at_ms = Some 601000,
     qw_window_minutes = None, qw_observed_at_ms = 1000, qw_full_transition_fingerprint = None,
     qw_exhaustion_transition_fingerprint = None\<rparr>"

definition wit_headers :: quota_headers where
  "wit_headers name = (if name = ''x-codex-primary-reset-after-seconds'' then Some ''599'' else None)"

lemma wit_header: "parse_u64 ''599'' = Some 599" "trim ''599'' = ''599''"
  by (simp add: parse_u64_def digits_value_def rust_eval) code_simp

lemma wit_report: "parse_window (\<lambda>_. []) wit_headers ''primary'' Primary 2000 =
    Some (wit_window\<lparr>qw_available_basis_points := None, qw_observed_at_ms := 2000\<rparr>)"
  "parse_window (\<lambda>_. []) wit_headers ''secondary'' Secondary 2000 = None"
  by (simp_all add: parse_window_def wit_headers_def header_number_def header_u64_def wit_header wit_window_def
      window_normalize_def full_state_def is_empty_provider_placeholder_def filter_option_def option_default_def
      sat_add_def sat_mul_def Let_def)

theorem passive_report_within_cycle_witness:
  "\<exists>merged w. merge_codex_quota_headers (\<lambda>_. []) (quota_snapshot_default\<lparr>qs_primary := Some wit_window\<rparr>) wit_headers 2000 = Some merged
     \<and> snapshot_window merged Primary = Some w \<and> (\<exists>b. qw_available_basis_points w = Some b \<and> b \<le> 6000)"
proof -
  let ?q = "quota_snapshot_default\<lparr>qs_primary := Some wit_window\<rparr>"
  obtain merged where m: "merge_codex_quota_headers (\<lambda>_. []) ?q wit_headers 2000 = Some merged"
    and w: "snapshot_window merged Primary = Some (wit_window\<lparr>qw_observed_at_ms := 2000\<rparr>)"
    by (simp add: merge_codex_quota_headers_def wit_report Let_def merge_window_def is_new_cycle_def
        wit_window_def quota_snapshot_default_def or_previous_def RESET_CYCLE_SKEW_MS_def sat_add_def)
  show ?thesis using passive_report_within_cycle [OF m, of Primary wit_window 6000, OF _ _ w] m w
    by (simp add: wit_window_def RESET_CYCLE_SKEW_MS_def sat_add_def)
qed

end
