(* ===== verification/Json_Values.thy ===== *)
theory Json_Values
  imports Ordered_Maps Rust_Numbers
begin

section \<open>JSON documents\<close>

text \<open>
  The documents the protocol adapters work on, as \<open>serde_json::Value\<close> represents them: a number is an
  unsigned or a negative 64-bit integer or a double, and an object is a map sorted by key, kept here
  as its list of entries. Reading and printing JSON text, digests, hexadecimal and base64 coding are
  not part of the repository; they are the fields of the record \<open>adapter_env\<close>, which every definition
  that uses them takes as its argument.
\<close>

datatype Number = PosInt u64 | NegInt int | Float f64

datatype Value =
    Null
  | Bool bool
  | Number Number
  | String string
  | Array "Value list"
  | Object "(string \<times> Value) list"

type_synonym object = "(string \<times> Value) list"

record adapter_env =
  env_from_slice :: "string \<Rightarrow> Value option"
  env_to_string :: "Value \<Rightarrow> string option"
  env_sha256 :: "string \<Rightarrow> string"
  env_hex :: "string \<Rightarrow> string"
  env_base64 :: "string \<Rightarrow> string option"

subsection \<open>Results\<close>

text \<open>The \<open>?\<close> operator and \<open>ok_or_else\<close>.\<close>

definition and_then :: "'e + 'a \<Rightarrow> ('a \<Rightarrow> 'e + 'b) \<Rightarrow> 'e + 'b" where
  "and_then r f = (case r of Inl e \<Rightarrow> Inl e | Inr v \<Rightarrow> f v)"

definition ok_or :: "'e \<Rightarrow> 'a option \<Rightarrow> 'e + 'a" where
  "ok_or e v = (case v of None \<Rightarrow> Inl e | Some x \<Rightarrow> Inr x)"

text \<open>\<open>iter.map(f).collect::<Result<Vec<_>, _>>()\<close>: the first error ends the loop.\<close>

fun try_map :: "('a \<Rightarrow> 'e + 'b) \<Rightarrow> 'a list \<Rightarrow> 'e + 'b list" where
  "try_map f [] = Inr []"
| "try_map f (x # xs) = and_then (f x) (\<lambda>y. and_then (try_map f xs) (\<lambda>ys. Inr (y # ys)))"

text \<open>A loop over a list that may fail.\<close>

fun try_fold :: "('s \<Rightarrow> 'a \<Rightarrow> 'e + 's) \<Rightarrow> 's \<Rightarrow> 'a list \<Rightarrow> 'e + 's" where
  "try_fold f s [] = Inr s"
| "try_fold f s (x # xs) = and_then (f s x) (\<lambda>s. try_fold f s xs)"

lemma and_then_simps [simp]: "and_then (Inl e) f = Inl e" "and_then (Inr v) f = f v"
  by (simp_all add: and_then_def)

lemma and_then_Inr: "and_then r f = Inr y \<longleftrightarrow> (\<exists>x. r = Inr x \<and> f x = Inr y)"
  by (cases r) simp_all

lemma ok_or_Inr [simp]: "ok_or e v = Inr x \<longleftrightarrow> v = Some x"
  by (cases v) (simp_all add: ok_or_def)

lemma ok_or_simps [simp]: "ok_or e None = Inl e" "ok_or e (Some x) = Inr x"
  by (simp_all add: ok_or_def)

lemma try_map_Inr: "try_map f xs = Inr ys \<longleftrightarrow> list_all2 (\<lambda>x y. f x = Inr y) xs ys"
  by (induction xs arbitrary: ys) (auto simp: and_then_Inr list_all2_Cons1)

lemma try_fold_append: "try_fold f s (xs @ ys) = and_then (try_fold f s xs) (\<lambda>s. try_fold f s ys)"
proof (induction xs arbitrary: s)
  case (Cons x xs)
  then show ?case by (cases "f s x") simp_all
qed simp

lemma try_fold_invariant:
  assumes "try_fold f s xs = Inr t" "P s" "\<And>s x s'. x \<in> set xs \<Longrightarrow> P s \<Longrightarrow> f s x = Inr s' \<Longrightarrow> P s'"
  shows "P t"
  using assms by (induction xs arbitrary: s) (auto simp: and_then_Inr)

subsection \<open>Access\<close>

definition value_u64 :: "u64 \<Rightarrow> Value" where
  "value_u64 n = Number (PosInt n)"

fun as_object :: "Value \<Rightarrow> object option" where
  "as_object (Object m) = Some m"
| "as_object _ = None"

fun as_array :: "Value \<Rightarrow> Value list option" where
  "as_array (Array vs) = Some vs"
| "as_array _ = None"

fun as_str :: "Value \<Rightarrow> string option" where
  "as_str (String s) = Some s"
| "as_str _ = None"

fun as_u64 :: "Value \<Rightarrow> u64 option" where
  "as_u64 (Number (PosInt n)) = Some n"
| "as_u64 _ = None"

fun as_bool :: "Value \<Rightarrow> bool option" where
  "as_bool (Bool b) = Some b"
| "as_bool _ = None"

definition is_object :: "Value \<Rightarrow> bool" where
  "is_object v \<longleftrightarrow> as_object v \<noteq> None"

definition obj_get :: "object \<Rightarrow> string \<Rightarrow> Value option" where
  "obj_get m k = map_of m k"

definition obj_insert :: "string \<Rightarrow> Value \<Rightarrow> object \<Rightarrow> object" where
  "obj_insert k v m = ins_entry k v m"

definition obj_remove :: "string \<Rightarrow> object \<Rightarrow> object" where
  "obj_remove k m = filter (\<lambda>e. fst e \<noteq> k) m"

text \<open>\<open>Map::from_iter\<close> and the object literals of \<open>json!\<close>: later entries replace earlier ones.\<close>

definition obj_of :: "(string \<times> Value) list \<Rightarrow> object" where
  "obj_of es = foldl (\<lambda>m e. obj_insert (fst e) (snd e) m) [] es"

definition json :: "(string \<times> Value) list \<Rightarrow> Value" where
  "json es = Object (obj_of es)"

definition value_get :: "Value \<Rightarrow> string \<Rightarrow> Value option" where
  "value_get v k = Option.bind (as_object v) (\<lambda>m. obj_get m k)"

definition get_str :: "object \<Rightarrow> string \<Rightarrow> string option" where
  "get_str m k = Option.bind (obj_get m k) as_str"

definition value_str :: "Value \<Rightarrow> string \<Rightarrow> string option" where
  "value_str v k = Option.bind (value_get v k) as_str"

definition value_array :: "Value \<Rightarrow> string \<Rightarrow> Value list option" where
  "value_array v k = Option.bind (value_get v k) as_array"

text \<open>\<open>.map(str::trim).filter(|s| !s.is_empty())\<close>.\<close>

definition non_blank :: "string option \<Rightarrow> string option" where
  "non_blank s = Option.bind s (\<lambda>s. if trim s = [] then None else Some (trim s))"

text \<open>\<open>Value::pointer\<close> on tokens that are not array indices.\<close>

fun value_pointer :: "Value \<Rightarrow> string list \<Rightarrow> Value option" where
  "value_pointer v [] = Some v"
| "value_pointer v (t # ts) = Option.bind (value_get v t) (\<lambda>w. value_pointer w ts)"

definition opt_string :: "string option \<Rightarrow> Value" where
  "opt_string s = (case s of None \<Rightarrow> Null | Some s \<Rightarrow> String s)"

subsection \<open>Laws\<close>

named_theorems json_simps \<open>lookup in objects and literals\<close>

lemma obj_get_insert [simp]: "obj_get (obj_insert k v m) k' = (if k' = k then Some v else obj_get m k')"
  by (simp add: obj_get_def obj_insert_def map_of_ins_entry)

lemma obj_get_remove [simp]: "obj_get (obj_remove k m) k' = (if k' = k then None else obj_get m k')"
  by (induction m) (auto simp: obj_get_def obj_remove_def)

lemma obj_get_Nil [simp]: "obj_get [] k = None"
  by (simp add: obj_get_def)

lemma obj_of_snoc: "obj_of (es @ [e]) = obj_insert (fst e) (snd e) (obj_of es)"
  by (simp add: obj_of_def)

lemma obj_get_of: "obj_get (obj_of es) k = map_of (rev es) k"
  by (induction es rule: rev_induct) (auto simp: obj_of_snoc obj_of_def)

lemma as_object_json [simp]: "as_object (json es) = Some (obj_of es)" "is_object (json es)" "is_object (Object m)"
  "as_str (json es) = None" "as_array (json es) = None"
  by (simp_all add: json_def is_object_def)

lemma value_get_json [simp]: "value_get (json es) k = map_of (rev es) k"
  by (simp add: value_get_def obj_get_of)

lemma value_get_Object [simp]: "value_get (Object m) k = obj_get m k"
  by (simp add: value_get_def)

lemma value_get_other [simp]: "value_get (String s) k = None" "value_get (Array vs) k = None" "value_get Null k = None"
  by (simp_all add: value_get_def)

lemma as_object_Some [simp]: "as_object v = Some m \<longleftrightarrow> v = Object m"
  by (cases v) auto

lemma as_str_Some [simp]: "as_str v = Some s \<longleftrightarrow> v = String s"
  by (cases v) auto

lemma as_array_Some [simp]: "as_array v = Some vs \<longleftrightarrow> v = Array vs"
  by (cases v) auto

lemma as_u64_value [simp]: "as_u64 (value_u64 n) = Some n"
  by (simp add: value_u64_def)

lemma value_str_Some: "value_str v k = Some s \<longleftrightarrow> (\<exists>m. v = Object m \<and> obj_get m k = Some (String s))"
  by (cases v) (auto simp: value_str_def value_get_def bind_eq_Some_conv)

lemma get_str_Some: "get_str m k = Some s \<longleftrightarrow> obj_get m k = Some (String s)"
  by (auto simp: get_str_def bind_eq_Some_conv)

lemma value_str_Object [simp]: "value_str (Object m) k = get_str m k"
  by (simp add: value_str_def get_str_def)

lemma non_blank_Some: "non_blank s = Some t \<longleftrightarrow> (\<exists>u. s = Some u \<and> t = trim u \<and> trim u \<noteq> [])"
  by (auto simp: non_blank_def bind_eq_Some_conv)

lemma non_blank_trimmed: "non_blank s = Some t \<Longrightarrow> trim t = t \<and> t \<noteq> []"
  by (auto simp: non_blank_Some)

subsection \<open>Evaluation\<close>

text \<open>Saturating sums are evaluated on integers, so that closed terms reduce by rewriting.\<close>

lemma sat_add_code [code]:
  "sat_add a b = (if uint a + uint b < 2 ^ LENGTH('a) then a + b else (- 1 :: 'a::len word))"
proof -
  have "uint a + uint b = int (unat a + unat b)" by simp
  then have "uint a + uint b < 2 ^ LENGTH('a) \<longleftrightarrow> int (unat a + unat b) < int (2 ^ LENGTH('a))" by simp
  then have "uint a + uint b < 2 ^ LENGTH('a) \<longleftrightarrow> unat a + unat b < 2 ^ LENGTH('a)" by (simp only: of_nat_less_iff)
  then show ?thesis by (simp add: sat_add_def)
qed

end
