(* ===== verification/Adapter_Contracts.thy ===== *)
theory Adapter_Contracts
  imports Json_Values Candidate
begin

section \<open>What the protocol adapters agree on (\<open>protocol/adapter/contracts.rs\<close>)\<close>

text \<open>
  The kinds of adapters and their errors, the tools of a client request, the continuation state of a
  bridge, the replay of a conversation on a native route, and the repairs of item identifiers.
\<close>

subsection \<open>Adapters\<close>

datatype SourceAdapter = Native | ResponsesToMessages | ResponsesToGemini

datatype UpstreamProtocol = ResponsesProtocol | ChatCompletionsProtocol | MessagesProtocol | GeminiGenerateContent

datatype MessagesReasoningMode = ReasoningDisabled | ReasoningBudget | ReasoningAdaptive

record AdapterError =
  ae_code :: string
  ae_message :: string

definition is_upstream_failure :: "AdapterError \<Rightarrow> bool" where
  "is_upstream_failure e \<longleftrightarrow> ae_code e \<in> {''adapter_upstream_response_invalid'', ''adapter_upstream_stream_invalid''}"

definition is_route_incompatible :: "AdapterError \<Rightarrow> bool" where
  "is_route_incompatible e \<longleftrightarrow> ae_code e \<in> {''adapter_tool_unsupported'', ''adapter_reasoning_unsupported''}"

definition invalid_request :: AdapterError where
  "invalid_request = \<lparr>ae_code = ''adapter_invalid_request'',
     ae_message = ''request cannot be represented by the selected source adapter''\<rparr>"

definition continuation_missing :: AdapterError where
  "continuation_missing = \<lparr>ae_code = ''adapter_continuation_missing'',
     ae_message = ''the adapter no longer has the prior response needed for this continuation''\<rparr>"

definition continuation_mismatch :: AdapterError where
  "continuation_mismatch = \<lparr>ae_code = ''adapter_continuation_mismatch'',
     ae_message = ''the continuation belongs to a different model or source route''\<rparr>"

definition unsupported_binding :: AdapterError where
  "unsupported_binding = \<lparr>ae_code = ''adapter_binding_unsupported'',
     ae_message = ''the selected adapter cannot serve this client protocol''\<rparr>"

definition unsupported_tool :: AdapterError where
  "unsupported_tool = \<lparr>ae_code = ''adapter_tool_unsupported'',
     ae_message = ''the selected source adapter supports JSON-schema function and direct custom text tools only''\<rparr>"

definition reasoning_unsupported :: AdapterError where
  "reasoning_unsupported = \<lparr>ae_code = ''adapter_reasoning_unsupported'',
     ae_message = ''the selected source adapter does not expose reasoning for this binding''\<rparr>"

definition upstream_response_invalid :: AdapterError where
  "upstream_response_invalid = \<lparr>ae_code = ''adapter_upstream_response_invalid'',
     ae_message = ''the upstream response cannot be represented as a Responses response''\<rparr>"

definition upstream_stream_invalid :: AdapterError where
  "upstream_stream_invalid = \<lparr>ae_code = ''adapter_upstream_stream_invalid'',
     ae_message = ''the upstream stream cannot be represented as a Responses stream''\<rparr>"

lemmas adapter_errors = invalid_request_def continuation_missing_def continuation_mismatch_def
  unsupported_binding_def unsupported_tool_def reasoning_unsupported_def upstream_response_invalid_def
  upstream_stream_invalid_def

type_synonym 'a adapter_result = "AdapterError + 'a"

fun upstream_protocol :: "SourceAdapter \<Rightarrow> WireApi \<Rightarrow> UpstreamProtocol" where
  "upstream_protocol Native Responses = ResponsesProtocol"
| "upstream_protocol Native ChatCompletions = ChatCompletionsProtocol"
| "upstream_protocol Native Messages = MessagesProtocol"
| "upstream_protocol Native Gemini = GeminiGenerateContent"
| "upstream_protocol ResponsesToMessages _ = MessagesProtocol"
| "upstream_protocol ResponsesToGemini _ = GeminiGenerateContent"

definition adapter_is_passthrough :: "SourceAdapter \<Rightarrow> bool" where
  "adapter_is_passthrough adapter \<longleftrightarrow> adapter = Native"

definition uses_local_continuation_state :: "SourceAdapter \<Rightarrow> bool" where
  "uses_local_continuation_state adapter \<longleftrightarrow> adapter = ResponsesToMessages \<or> adapter = ResponsesToGemini"

fun route_suffix :: "SourceAdapter \<Rightarrow> WireApi \<Rightarrow> string" where
  "route_suffix ResponsesToMessages Responses = ''responses_to_messages''"
| "route_suffix ResponsesToGemini Responses = ''responses_to_gemini''"
| "route_suffix Native Responses = ''responses''"
| "route_suffix Native ChatCompletions = ''chat_completions''"
| "route_suffix Native Messages = ''messages''"
| "route_suffix Native Gemini = ''gemini''"
| "route_suffix _ _ = ''bridge''"

definition adapter_validate :: "SourceAdapter \<Rightarrow> WireApi \<Rightarrow> MessagesReasoningMode \<Rightarrow> unit adapter_result" where
  "adapter_validate adapter client_wire_api reasoning_mode =
     (case adapter of
        Native \<Rightarrow> if reasoning_mode = ReasoningDisabled then Inr () else Inl reasoning_unsupported
      | ResponsesToMessages \<Rightarrow> if client_wire_api = Responses then Inr () else Inl unsupported_binding
      | ResponsesToGemini \<Rightarrow> if client_wire_api = Responses then Inr () else Inl unsupported_binding)"

definition supports_effort :: "MessagesReasoningMode \<Rightarrow> string \<Rightarrow> bool" where
  "supports_effort mode effort =
     (let effort = to_ascii_lowercase (trim effort)
      in case mode of
           ReasoningDisabled \<Rightarrow> False
         | _ \<Rightarrow> effort \<in> {''minimal'', ''low'', ''medium'', ''high'', ''xhigh'', ''max'', ''ultra''})"

subsection \<open>Tools\<close>

text \<open>The tools of a request: those at the root and those of \<open>additional_tools\<close> items.\<close>

definition collect_additional_tools :: "bool \<times> Value list \<Rightarrow> Value \<Rightarrow> (bool \<times> Value list) adapter_result" where
  "collect_additional_tools acc item =
     (if value_str item ''type'' \<noteq> Some ''additional_tools'' then Inr acc
      else and_then (ok_or invalid_request (value_array item ''tools'')) (\<lambda>tools. Inr (True, snd acc @ tools)))"

definition request_tool_catalog :: "object \<Rightarrow> Value list option adapter_result" where
  "request_tool_catalog object =
     and_then (case obj_get object ''tools'' of
         None \<Rightarrow> Inr (False, [])
       | Some root \<Rightarrow> and_then (ok_or invalid_request (as_array root)) (\<lambda>tools. Inr (True, tools)))
       (\<lambda>acc. and_then (case Option.bind (obj_get object ''input'') as_array of
           None \<Rightarrow> Inr acc
         | Some items \<Rightarrow> try_fold collect_additional_tools acc items)
         (\<lambda>(declared, tools). Inr (if declared then Some tools else None)))"

datatype ResponsesToolKind = FunctionTool | CustomTool

record ClientToolTarget =
  ct_kind :: ResponsesToolKind
  ct_name :: string
  ct_namespace :: "string option"

definition from_definition :: "object \<Rightarrow> ResponsesToolKind adapter_result" where
  "from_definition tool =
     (case get_str tool ''type'' of
        Some kind \<Rightarrow> if kind = ''function'' then Inr FunctionTool
          else if kind = ''custom'' then Inr CustomTool else Inl unsupported_tool
      | None \<Rightarrow> (case get_str tool ''name'' of
            Some name \<Rightarrow> if trim name \<noteq> [] then Inr FunctionTool else Inl unsupported_tool
          | None \<Rightarrow> Inl unsupported_tool))"

definition from_call_item :: "object \<Rightarrow> ResponsesToolKind adapter_result" where
  "from_call_item item =
     (if get_str item ''type'' = Some ''function_call'' then Inr FunctionTool
      else if get_str item ''type'' = Some ''custom_tool_call'' then Inr CustomTool
      else Inl invalid_request)"

definition from_output_item :: "object \<Rightarrow> ResponsesToolKind adapter_result" where
  "from_output_item item =
     (if get_str item ''type'' = Some ''function_call_output'' then Inr FunctionTool
      else if get_str item ''type'' = Some ''custom_tool_call_output'' then Inr CustomTool
      else Inl invalid_request)"

fun response_item_type :: "ResponsesToolKind \<Rightarrow> string" where
  "response_item_type FunctionTool = ''function_call''"
| "response_item_type CustomTool = ''custom_tool_call''"

record TranslatedTools =
  tt_upstream :: "Value list"
  tt_client_tools :: "(string, ClientToolTarget) btree_map"

subsection \<open>The state of a bridge\<close>

record MessagesBridgeState =
  mb_model :: string
  mb_system :: "Value option"
  mb_messages :: "Value list"
  mb_tools :: "Value list option"
  mb_tool_targets :: "(string, ClientToolTarget) btree_map"
  mb_tool_choice :: "Value option"
  mb_tool_allow_list :: "string fset option"
  mb_reasoning_mode :: MessagesReasoningMode

definition bridge_state_new :: "string \<Rightarrow> MessagesReasoningMode \<Rightarrow> MessagesBridgeState" where
  "bridge_state_new model reasoning_mode = \<lparr>mb_model = model, mb_system = None, mb_messages = [],
     mb_tools = None, mb_tool_targets = bt_empty, mb_tool_choice = None, mb_tool_allow_list = None,
     mb_reasoning_mode = reasoning_mode\<rparr>"

definition push_message :: "Value \<Rightarrow> MessagesBridgeState \<Rightarrow> MessagesBridgeState" where
  "push_message message state = state\<lparr>mb_messages := mb_messages state @ [message]\<rparr>"

definition append_assistant_content :: "Value list \<Rightarrow> MessagesBridgeState \<Rightarrow> MessagesBridgeState" where
  "append_assistant_content content state =
     (if content \<noteq> [] then push_message (json [(''role'', String ''assistant''), (''content'', Array content)]) state
      else state)"

definition upstream_tools :: "MessagesBridgeState \<Rightarrow> Value list option" where
  "upstream_tools state =
     (case mb_tools state of
        None \<Rightarrow> None
      | Some tools \<Rightarrow>
          let tools = (case mb_tool_allow_list state of
                None \<Rightarrow> tools
              | Some allowed \<Rightarrow> filter (\<lambda>tool. case value_str tool ''name'' of
                    None \<Rightarrow> False | Some name \<Rightarrow> name |\<in>| allowed) tools)
          in if tools = [] then None else Some tools)"

definition allows_tool_name :: "MessagesBridgeState \<Rightarrow> string \<Rightarrow> bool" where
  "allows_tool_name state name =
     (case upstream_tools state of
        None \<Rightarrow> False
      | Some tools \<Rightarrow> list_ex (\<lambda>tool. value_str tool ''name'' = Some name) tools)"

definition client_tool :: "MessagesBridgeState \<Rightarrow> string \<Rightarrow> ClientToolTarget option" where
  "client_tool state upstream_name =
     (if allows_tool_name state upstream_name then bt_get (mb_tool_targets state) upstream_name else None)"

definition client_tool_kind :: "MessagesBridgeState \<Rightarrow> string \<Rightarrow> ResponsesToolKind option" where
  "client_tool_kind state upstream_name = map_option ct_kind (client_tool state upstream_name)"

definition upstream_tool_name :: "MessagesBridgeState \<Rightarrow> string option \<Rightarrow> string \<Rightarrow> string option" where
  "upstream_tool_name state namespace name =
     map_option fst (find (\<lambda>(upstream_name, tool). ct_namespace tool = namespace \<and> ct_name tool = name
       \<and> allows_tool_name state upstream_name) (bt_entries (mb_tool_targets state)))"

subsection \<open>Replay on a native route\<close>

record NativeResponsesReplayState =
  nr_model :: string
  nr_request :: Value
  nr_output :: "Value list"

definition or_value :: "'a option \<Rightarrow> 'a option \<Rightarrow> 'a option" where
  "or_value a b = (case a of None \<Rightarrow> b | Some v \<Rightarrow> Some v)"

definition from_response :: "Value \<Rightarrow> string \<Rightarrow> Value \<Rightarrow> (string \<times> NativeResponsesReplayState) option" where
  "from_response request model upstream =
     (let response = (case or_value (value_pointer upstream [''response'', ''response'']) (value_get upstream ''response'') of
            None \<Rightarrow> upstream | Some v \<Rightarrow> v)
      in Option.bind (non_blank (value_str response ''id'')) (\<lambda>response_id.
         Option.bind (as_object request) (\<lambda>request.
         if obj_get request ''input'' = None then None
         else Some (response_id, \<lparr>nr_model = model, nr_request = Object request,
             nr_output = (case value_array response ''output'' of None \<Rightarrow> [] | Some vs \<Rightarrow> vs)\<rparr>))))"

fun append_replay_input :: "Value list \<Rightarrow> Value \<Rightarrow> Value list adapter_result" where
  "append_replay_input target (String text) = Inr (target @ [json [(''role'', String ''user''),
     (''content'', Array [json [(''type'', String ''input_text''), (''text'', String text)]])]])"
| "append_replay_input target (Array items) = Inr (target @ items)"
| "append_replay_input target (Object item) = Inr (target @ [Object item])"
| "append_replay_input target _ = Inl invalid_request"

definition replayed_keys :: "string list" where
  "replayed_keys = [''instructions'', ''tools'', ''tool_choice'', ''reasoning'', ''max_output_tokens'',
     ''temperature'', ''top_p'', ''top_logprobs'', ''truncation'', ''parallel_tool_calls'', ''include'',
     ''metadata'', ''service_tier'', ''store'']"

definition copy_key :: "object \<Rightarrow> object \<Rightarrow> string \<Rightarrow> object" where
  "copy_key continuation request key =
     (case obj_get continuation key of None \<Rightarrow> request | Some value \<Rightarrow> obj_insert key value request)"

definition replay_request :: "NativeResponsesReplayState \<Rightarrow> Value \<Rightarrow> string \<Rightarrow> bool \<Rightarrow> Value adapter_result" where
  "replay_request state continuation model stream =
     (if \<not> eq_ignore_ascii_case (nr_model state) model then Inl continuation_mismatch
      else
        and_then (ok_or invalid_request (as_object continuation)) (\<lambda>continuation.
        and_then (ok_or invalid_request (as_object (nr_request state))) (\<lambda>request.
        and_then (ok_or invalid_request (obj_get request ''input'')) (\<lambda>initial_input.
        let request = obj_remove ''input'' request in
        and_then (ok_or invalid_request (obj_get continuation ''input'')) (\<lambda>current_input.
        and_then (append_replay_input [] initial_input) (\<lambda>input.
        and_then (append_replay_input (input @ nr_output state) current_input) (\<lambda>input.
        if input = [] then Inl invalid_request
        else
          let request = foldl (copy_key continuation) request replayed_keys;
              request = obj_remove ''previous_response_id'' request;
              request = obj_insert ''model'' (String model) request;
              request = obj_insert ''stream'' (Bool stream) request
          in Inr (Object (obj_insert ''input'' (Array input) request)))))))))"

subsection \<open>Repairs of item identifiers\<close>

text \<open>A loop over the mutable items of \<open>input\<close> that reports whether an item was changed.\<close>

definition repair_items :: "(object \<Rightarrow> object option) \<Rightarrow> Value \<Rightarrow> Value \<times> bool" where
  "repair_items repair request =
     (case request of
        Object m \<Rightarrow> (case obj_get m ''input'' of
            Some (Array items) \<Rightarrow>
              let repaired = map (\<lambda>item. (item, Option.bind (as_object item) repair)) items
              in (Object (obj_insert ''input'' (Array (map (\<lambda>(item, r). case r of None \<Rightarrow> item | Some m \<Rightarrow> Object m) repaired)) m),
                  list_ex (\<lambda>(item, r). r \<noteq> None) repaired)
          | _ \<Rightarrow> (request, False))
      | _ \<Rightarrow> (request, False))"

definition repair_function_item :: "object \<Rightarrow> object option" where
  "repair_function_item item =
     (if get_str item ''type'' \<noteq> Some ''function_call'' then None
      else case get_str item ''id'' of
          None \<Rightarrow> None
        | Some i \<Rightarrow> if starts_with i ''fc_'' \<or> i = [] then None
            else Some (obj_insert ''id'' (String (''fc_'' @ i)) item))"

definition repair_call_prefixed_function_item_ids :: "Value \<Rightarrow> Value \<times> bool" where
  "repair_call_prefixed_function_item_ids request = repair_items repair_function_item request"

definition custom_tool_item_id :: "string \<Rightarrow> string" where
  "custom_tool_item_id call_id =
     (let call_id = trim call_id in if starts_with call_id ''ctc_'' then call_id else ''ctc_'' @ call_id)"

definition repair_custom_item :: "object \<Rightarrow> object option" where
  "repair_custom_item item =
     (if get_str item ''type'' \<noteq> Some ''custom_tool_call'' then None
      else case get_str item ''id'' of
          None \<Rightarrow> None
        | Some i \<Rightarrow> if custom_tool_item_id i \<noteq> i
            then Some (obj_insert ''id'' (String (custom_tool_item_id i)) item) else None)"

definition repair_custom_tool_item_ids :: "Value \<Rightarrow> Value \<times> bool" where
  "repair_custom_tool_item_ids request = repair_items repair_custom_item request"

definition is_message_item :: "object \<Rightarrow> bool" where
  "is_message_item item \<longleftrightarrow> get_str item ''type'' = Some ''message''
     \<or> get_str item ''role'' \<in> {Some ''user'', Some ''assistant'', Some ''developer'', Some ''system''}"

definition repair_message_item :: "object \<Rightarrow> object option" where
  "repair_message_item item =
     (if \<not> is_message_item item \<or> \<not> (case get_str item ''id'' of None \<Rightarrow> False | Some i \<Rightarrow> starts_with i ''item_'')
      then None else Some (obj_remove ''id'' item))"

definition remove_item_prefixed_message_ids :: "Value \<Rightarrow> Value \<times> bool" where
  "remove_item_prefixed_message_ids request = repair_items repair_message_item request"

end
