(* ===== verification/Messages_Response.thy ===== *)
theory Messages_Response
  imports Adapter_Contracts Bridge_Store
begin

section \<open>From a Messages response to a Responses response\<close>

text \<open>
  The half of \<open>protocol/adapter/messages.rs\<close> that translates a complete upstream answer: the tool
  calls are checked against the catalogue of the request, every content block becomes an output item
  of the client's protocol, and the native blocks are kept for the next turn.
\<close>

record MessagesBridgeRequest =
  br_upstream_body :: Value
  br_state :: MessagesBridgeState
  br_response_scope :: string

record MessagesBridgeResponse =
  bp_response_body :: Value
  bp_response_id :: string
  bp_continuation :: MessagesBridgeState

lemma usize_add_code [code]: "usize_add a b = (if int a + int b \<le> 18446744073709551615 then a + b else usize_max)"
proof -
  have "int usize_max = 18446744073709551615" by (simp add: usize_max_def)
  then show ?thesis by (simp add: usize_add_def min_def)
qed

subsection \<open>Identifiers\<close>

text \<open>\<open>u64::to_le_bytes\<close>.\<close>

definition to_le_bytes :: "nat \<Rightarrow> string" where
  "to_le_bytes n = map (\<lambda>i. char_of (n div 256 ^ i mod 256)) [0..<8]"

definition bridged_response_id_scoped :: "adapter_env \<Rightarrow> string \<Rightarrow> string \<Rightarrow> string" where
  "bridged_response_id_scoped env scope upstream_id =
     (if scope = [] then ''resp_bridge_'' @ env_hex env (take 12 (env_sha256 env upstream_id))
      else ''resp_bridge_'' @ env_hex env (take 12 (env_sha256 env
        (to_le_bytes (length scope) @ scope @ to_le_bytes (length upstream_id) @ upstream_id))))"

definition message_item_id :: "string \<Rightarrow> nat \<Rightarrow> string" where
  "message_item_id response_id message_index =
     (if message_index = 0 then ''msg_'' @ response_id else ''msg_'' @ response_id @ ''_'' @ show_nat message_index)"

fun number_messages :: "string \<Rightarrow> nat \<Rightarrow> Value list \<Rightarrow> Value list" where
  "number_messages response_id message_index [] = []"
| "number_messages response_id message_index (item # items) =
     (if value_str item ''type'' \<noteq> Some ''message'' then item # number_messages response_id message_index items
      else case as_object item of
          None \<Rightarrow> item # number_messages response_id message_index items
        | Some object \<Rightarrow> Object (obj_insert ''id'' (String (message_item_id response_id message_index)) object)
            # number_messages response_id (usize_add message_index 1) items)"

definition set_message_output_id :: "Value list \<Rightarrow> string \<Rightarrow> Value list" where
  "set_message_output_id output response_id = number_messages response_id 0 output"

subsection \<open>Content\<close>

text \<open>
  The tool calls of an answer: each names a tool of the catalogue, has an object as its input, and no
  two have the same identifier. The set is that of the identifiers seen so far.
\<close>

definition validate_block :: "MessagesBridgeState \<Rightarrow> string fset \<Rightarrow> Value \<Rightarrow> string fset adapter_result" where
  "validate_block state call_ids block =
     and_then (ok_or upstream_response_invalid (as_object block)) (\<lambda>block.
     if get_str block ''type'' \<noteq> Some ''tool_use'' then Inr call_ids
     else
       and_then (ok_or upstream_response_invalid (non_blank (get_str block ''id''))) (\<lambda>i.
       and_then (ok_or upstream_response_invalid (non_blank (get_str block ''name''))) (\<lambda>name.
       if \<not> (case obj_get block ''input'' of None \<Rightarrow> False | Some input \<Rightarrow> is_object input)
          \<or> \<not> allows_tool_name state name \<or> i |\<in>| call_ids
       then Inl upstream_response_invalid else Inr (finsert i call_ids))))"

definition validate_messages_tool_calls :: "MessagesBridgeState \<Rightarrow> Value list \<Rightarrow> unit adapter_result" where
  "validate_messages_tool_calls state content =
     and_then (try_fold (validate_block state) {||} content) (\<lambda>_. Inr ())"

definition custom_tool_input :: "Value \<Rightarrow> string adapter_result" where
  "custom_tool_input input =
     and_then (ok_or upstream_response_invalid (as_object input)) (\<lambda>input.
     if length input \<noteq> 1 then Inl upstream_response_invalid
     else ok_or upstream_response_invalid (get_str input ''input''))"

definition with_namespace :: "string option \<Rightarrow> Value \<Rightarrow> Value" where
  "with_namespace namespace item =
     (case namespace of
        None \<Rightarrow> item
      | Some ns \<Rightarrow> (case item of Object m \<Rightarrow> Object (obj_insert ''namespace'' (String ns) m) | _ \<Rightarrow> item))"

definition output_text :: "string \<Rightarrow> Value" where
  "output_text text = json [(''type'', String ''output_text''), (''text'', String text), (''annotations'', Array [])]"

record output_acc =
  oa_output :: "Value list"
  oa_preserved :: "Value list"
  oa_text :: "Value list"
  oa_index :: nat

definition flush_text :: "output_acc \<Rightarrow> output_acc" where
  "flush_text acc =
     (if oa_text acc = [] then acc
      else acc\<lparr>oa_index := usize_add (oa_index acc) 1, oa_text := [],
          oa_output := oa_output acc @ [json [
            (''id'', String (if oa_index acc = 0 then ''msg_bridge_output''
               else ''msg_bridge_output_'' @ show_nat (oa_index acc))),
            (''type'', String ''message''), (''status'', String ''completed''), (''role'', String ''assistant''),
            (''content'', Array (oa_text acc))]]\<rparr>)"

definition tool_output_item :: "adapter_env \<Rightarrow> MessagesBridgeState \<Rightarrow> object \<Rightarrow> Value adapter_result" where
  "tool_output_item env state block =
     and_then (ok_or upstream_response_invalid (non_blank (get_str block ''id''))) (\<lambda>call_id.
     and_then (ok_or upstream_response_invalid (non_blank (get_str block ''name''))) (\<lambda>name.
     and_then (ok_or upstream_response_invalid (client_tool state name)) (\<lambda>target.
     and_then (ok_or upstream_response_invalid (filter_option is_object (obj_get block ''input''))) (\<lambda>input.
     and_then (case ct_kind target of
         FunctionTool \<Rightarrow> and_then (ok_or upstream_response_invalid (env_to_string env input)) (\<lambda>arguments.
           Inr (json [(''id'', String call_id), (''type'', String (response_item_type FunctionTool)),
             (''status'', String ''completed''), (''call_id'', String call_id), (''name'', String (ct_name target)),
             (''arguments'', String arguments)]))
       | CustomTool \<Rightarrow> and_then (custom_tool_input input) (\<lambda>text.
           Inr (json [(''id'', String (custom_tool_item_id call_id)), (''type'', String (response_item_type CustomTool)),
             (''status'', String ''completed''), (''call_id'', String call_id), (''name'', String (ct_name target)),
             (''input'', String text)])))
       (\<lambda>item. Inr (with_namespace (ct_namespace target) item))))))"

definition output_block :: "adapter_env \<Rightarrow> MessagesBridgeState \<Rightarrow> output_acc \<Rightarrow> Value \<Rightarrow> output_acc adapter_result" where
  "output_block env state acc block =
     and_then (ok_or upstream_response_invalid (as_object block)) (\<lambda>block.
     let kind = get_str block ''type'' in
     if kind = Some ''text'' then
       and_then (ok_or upstream_response_invalid (get_str block ''text'')) (\<lambda>value.
         Inr (acc\<lparr>oa_text := (if value \<noteq> [] then oa_text acc @ [output_text value] else oa_text acc),
                  oa_preserved := oa_preserved acc @ [Object block]\<rparr>))
     else if kind = Some ''tool_use'' then
       let acc = flush_text acc in
       and_then (tool_output_item env state block) (\<lambda>item.
         Inr (acc\<lparr>oa_output := oa_output acc @ [item], oa_preserved := oa_preserved acc @ [Object block]\<rparr>))
     else if kind = Some ''thinking'' \<or> kind = Some ''redacted_thinking'' then
       Inr (acc\<lparr>oa_preserved := oa_preserved acc @ [Object block]\<rparr>)
     else Inl upstream_response_invalid)"

definition empty_acc :: output_acc where
  "empty_acc = \<lparr>oa_output = [], oa_preserved = [], oa_text = [], oa_index = 0\<rparr>"

definition responses_output_from_messages_content ::
  "adapter_env \<Rightarrow> Value list \<Rightarrow> MessagesBridgeState \<Rightarrow> (Value list \<times> Value list) adapter_result" where
  "responses_output_from_messages_content env content state =
     and_then (try_fold (output_block env state) empty_acc content) (\<lambda>acc.
     let acc = flush_text acc
     in if oa_output acc = [] then Inl upstream_response_invalid else Inr (oa_output acc, oa_preserved acc))"

subsection \<open>Usage\<close>

definition usage_u64 :: "Value option \<Rightarrow> string \<Rightarrow> u64 option" where
  "usage_u64 usage key = Option.bind usage (\<lambda>usage. Option.bind (value_get usage key) as_u64)"

definition positive_u64 :: "Value \<Rightarrow> string \<Rightarrow> bool" where
  "positive_u64 v key = (case Option.bind (value_get v key) as_u64 of None \<Rightarrow> False | Some n \<Rightarrow> n > 0)"

definition cache_write_ttl_from_usage :: "Value \<Rightarrow> string option" where
  "cache_write_ttl_from_usage usage =
     Option.bind (value_get usage ''cache_creation'') (\<lambda>creation.
       if positive_u64 creation ''ephemeral_1h_input_tokens'' then Some ''1h''
       else if positive_u64 creation ''ephemeral_5m_input_tokens'' then Some ''5m'' else None)"

definition insert_detail :: "string \<Rightarrow> Value \<Rightarrow> object \<Rightarrow> object" where
  "insert_detail key v result =
     (case obj_get result ''input_tokens_details'' of
        Some (Object details) \<Rightarrow> obj_insert ''input_tokens_details'' (Object (obj_insert key v details)) result
      | _ \<Rightarrow> obj_insert ''input_tokens_details'' (json [(key, v)]) result)"

definition responses_usage :: "Value option \<Rightarrow> Value" where
  "responses_usage usage =
     (let input_tokens = (case usage_u64 usage ''input_tokens'' of None \<Rightarrow> 0 | Some n \<Rightarrow> n);
          output_tokens = (case usage_u64 usage ''output_tokens'' of None \<Rightarrow> 0 | Some n \<Rightarrow> n);
          result = obj_of [(''input_tokens'', value_u64 input_tokens), (''output_tokens'', value_u64 output_tokens),
            (''total_tokens'', value_u64 (sat_add input_tokens output_tokens))];
          result = (case usage_u64 usage ''cache_read_input_tokens'' of None \<Rightarrow> result
            | Some cache_read \<Rightarrow> obj_insert ''input_tokens_details'' (json [(''cached_tokens'', value_u64 cache_read)]) result);
          result = (case usage_u64 usage ''cache_creation_input_tokens'' of None \<Rightarrow> result
            | Some cache_write \<Rightarrow> insert_detail ''cache_write_tokens'' (value_u64 cache_write) result);
          result = (case Option.bind usage cache_write_ttl_from_usage of None \<Rightarrow> result
            | Some ttl \<Rightarrow> insert_detail ''cache_write_ttl'' (String ttl) result)
      in Object result)"

subsection \<open>The response\<close>

definition response_body :: "string \<Rightarrow> u64 \<Rightarrow> string \<Rightarrow> Value list \<Rightarrow> Value \<Rightarrow> Value" where
  "response_body response_id created_at model output usage =
     json [(''id'', String response_id), (''object'', String ''response''), (''created_at'', value_u64 created_at),
       (''status'', String ''completed''), (''model'', String model), (''output'', Array output), (''usage'', usage)]"

definition translate_messages_response ::
  "adapter_env \<Rightarrow> MessagesBridgeRequest \<Rightarrow> Value \<Rightarrow> MessagesBridgeResponse adapter_result" where
  "translate_messages_response env request upstream =
     and_then (ok_or upstream_response_invalid (non_blank (value_str upstream ''id''))) (\<lambda>upstream_id.
     and_then (ok_or upstream_response_invalid (value_array upstream ''content'')) (\<lambda>content.
     and_then (validate_messages_tool_calls (br_state request) content) (\<lambda>_.
     and_then (responses_output_from_messages_content env content (br_state request)) (\<lambda>(output, _).
     let response_id = bridged_response_id_scoped env (br_response_scope request) upstream_id;
         output = set_message_output_id output response_id;
         usage = responses_usage (value_get upstream ''usage'')
     in Inr \<lparr>bp_response_body = response_body response_id
           (case Option.bind (value_get upstream ''created_at'') as_u64 of None \<Rightarrow> 0 | Some n \<Rightarrow> n)
           (mb_model (br_state request)) output usage,
         bp_response_id = response_id,
         bp_continuation = append_assistant_content content (br_state request)\<rparr>))))"

end
