(* ===== verification/Sse_Events.thy ===== *)
theory Sse_Events
  imports Json_Values
begin

section \<open>Server-sent events\<close>

text \<open>
  How a byte stream is cut into events (\<open>protocol/sse.rs\<close>), how the data of an event is read and how
  an event is written (\<open>protocol/adapter/stream.rs\<close>). The locale \<open>event_stream\<close> is what both stream
  bridges promise of their event handlers: output is only appended, and the frame that closes the
  response is written exactly when the bridge becomes terminal.
\<close>

subsection \<open>Bytes\<close>

abbreviation LF :: char where "LF \<equiv> CHR 0x0A"
abbreviation CR :: char where "CR \<equiv> CHR 0x0D"

text \<open>\<open>bytes.windows(n).position(|w| w == pattern)\<close> for a pattern of length \<open>n > 0\<close>.\<close>

fun position_of :: "string \<Rightarrow> string \<Rightarrow> nat option" where
  "position_of pattern [] = None"
| "position_of pattern (c # s) =
     (if starts_with (c # s) pattern then Some 0 else map_option Suc (position_of pattern s))"

definition event_end :: "string \<Rightarrow> nat option" where
  "event_end bytes =
     (case position_of [LF, LF] bytes of
        Some position \<Rightarrow> Some (position + 2)
      | None \<Rightarrow> map_option (\<lambda>position. position + 4) (position_of [CR, LF, CR, LF] bytes))"

text \<open>\<open>slice::split\<close>.\<close>

fun split_on :: "char \<Rightarrow> string \<Rightarrow> string list" where
  "split_on c [] = [[]]"
| "split_on c (x # s) =
     (if x = c then [] # split_on c s
      else case split_on c s of [] \<Rightarrow> [[x]] | l # ls \<Rightarrow> (x # l) # ls)"

definition strip_prefix :: "string \<Rightarrow> string \<Rightarrow> string option" where
  "strip_prefix p s = (if starts_with s p then Some (drop (length p) s) else None)"

definition strip_suffix :: "string \<Rightarrow> string \<Rightarrow> string option" where
  "strip_suffix p s = (if ends_with s p then Some (take (length s - length p) s) else None)"

definition is_ascii_whitespace :: "char \<Rightarrow> bool" where
  "is_ascii_whitespace c \<longleftrightarrow> c \<in> {CHR 0x20, CHR 0x09, CHR 0x0A, CHR 0x0C, CHR 0x0D}"

definition trim_ascii :: "string \<Rightarrow> string" where
  "trim_ascii s = rev (dropWhile is_ascii_whitespace (rev (dropWhile is_ascii_whitespace s)))"

definition or_else :: "'a \<Rightarrow> 'a option \<Rightarrow> 'a" where
  "or_else d v = (case v of None \<Rightarrow> d | Some x \<Rightarrow> x)"

definition event_lines :: "string \<Rightarrow> string list" where
  "event_lines event = map (\<lambda>line. or_else line (strip_suffix [CR] line)) (split_on LF event)"

subsection \<open>Events\<close>

definition sse_done :: "string \<Rightarrow> bool" where
  "sse_done event \<longleftrightarrow> list_ex (\<lambda>line. case strip_prefix ''data:'' line of
       None \<Rightarrow> False | Some value \<Rightarrow> trim_ascii value = ''[DONE]'') (event_lines event)"

definition sse_event_has_data :: "string \<Rightarrow> bool" where
  "sse_event_has_data event \<longleftrightarrow> list_ex (\<lambda>line. case strip_prefix ''data:'' line of
       None \<Rightarrow> False | Some value \<Rightarrow> list_ex (\<lambda>b. \<not> is_ascii_whitespace b) value) (event_lines event)"

definition sse_data :: "string \<Rightarrow> string" where
  "sse_data event = foldl (\<lambda>data line. case strip_prefix ''data:'' line of
       None \<Rightarrow> data
     | Some value \<Rightarrow> (if data = [] then [] else data @ [LF]) @ or_else value (strip_prefix '' '' value))
     [] (event_lines event)"

definition parse_sse_data :: "adapter_env \<Rightarrow> string \<Rightarrow> Value option" where
  "parse_sse_data env event =
     (let data = sse_data event in if data = [] then None else env_from_slice env data)"

definition incremental_delta :: "string \<Rightarrow> string \<Rightarrow> string" where
  "incremental_delta previous incoming = or_else incoming (strip_prefix previous incoming)"

definition sse_frame :: "string \<Rightarrow> string \<Rightarrow> string" where
  "sse_frame event payload = ''event: '' @ event @ [LF] @ ''data: '' @ payload @ [LF, LF]"

subsection \<open>The event boundary\<close>

lemma position_of_bound: "position_of p s = Some i \<Longrightarrow> i + length p \<le> length s"
  by (induction s arbitrary: i) (auto simp: starts_with_def min_def split: if_splits dest: arg_cong [of _ _ length])

lemma event_end_bound: "event_end s = Some e \<Longrightarrow> 0 < e \<and> e \<le> length s"
  by (auto simp: event_end_def split: option.splits dest!: position_of_bound)

lemma starts_with_append: "starts_with s p \<Longrightarrow> starts_with (s @ t) p"
  by (auto simp: starts_with_def min_def split: if_splits dest!: arg_cong [of _ _ length])

lemma position_of_append: "position_of p s = Some i \<Longrightarrow> position_of p (s @ t) = Some i"
proof (induction s arbitrary: i)
  case (Cons c s)
  show ?case
  proof (cases "starts_with (c # s) p")
    case True
    then show ?thesis using Cons.prems starts_with_append [OF True, of t] by simp
  next
    case False
    then obtain j where j: "position_of p s = Some j" "i = Suc j" using Cons.prems by auto
    have n: "length p \<le> length s" using position_of_bound [OF j(1)] by simp
    then have "\<not> starts_with (c # s @ t) p"
      using False by (simp add: starts_with_def take_Cons' split: if_splits)
    then show ?thesis using Cons.IH [OF j(1)] j(2) by simp
  qed
qed simp

lemma position_of_drop: "position_of p (drop n s) \<noteq> None \<Longrightarrow> position_of p s \<noteq> None"
proof (induction s arbitrary: n)
  case (Cons c s)
  then show ?case by (cases n) auto
qed simp

text \<open>A stream uses one kind of line ending when it does not contain both kinds of blank line.\<close>

definition uniform_endings :: "string \<Rightarrow> bool" where
  "uniform_endings s \<longleftrightarrow> position_of [LF, LF] s = None \<or> position_of [CR, LF, CR, LF] s = None"

lemma uniform_drop: "uniform_endings s \<Longrightarrow> uniform_endings (drop n s)"
  using position_of_drop unfolding uniform_endings_def by fastforce

lemma event_end_append:
  assumes "event_end s = Some e" "uniform_endings (s @ t)"
  shows "event_end (s @ t) = Some e"
  using assms position_of_append [of "[LF, LF]" s _ t] position_of_append [of "[CR, LF, CR, LF]" s _ t]
  by (fastforce simp: event_end_def uniform_endings_def split: option.splits)

text \<open>With both kinds of ending the boundary depends on how much of the stream has arrived.\<close>

definition mixed_stream :: string where
  "mixed_stream = ''data: a'' @ [CR, LF, CR, LF] @ ''data: b'' @ [LF, LF]"

lemma event_end_depends_on_arrival:
  "event_end (take 11 mixed_stream) = Some 11 \<and> event_end mixed_stream = Some 20"
  by code_simp

subsection \<open>The read loop\<close>

text \<open>The loop of \<open>push\<close>: the bytes read so far are kept beside the state of the bridge.\<close>

function drain_events :: "(string \<Rightarrow> 's \<Rightarrow> 's) \<Rightarrow> ('s \<Rightarrow> bool) \<Rightarrow> string \<Rightarrow> 's \<Rightarrow> string \<times> 's" where
  "drain_events handle terminal pending st =
     (case event_end pending of
        None \<Rightarrow> (pending, st)
      | Some e \<Rightarrow>
          let st = handle (take e pending) st
          in if terminal st then ([], st) else drain_events handle terminal (drop e pending) st)"
  by pat_completeness auto
termination
  by (relation "measure (\<lambda>(_, _, pending, _). length pending)") (auto dest: event_end_bound)

declare drain_events.simps [simp del]

definition push_bytes :: "(string \<Rightarrow> 's \<Rightarrow> 's) \<Rightarrow> ('s \<Rightarrow> bool) \<Rightarrow> string \<Rightarrow> string \<times> 's \<Rightarrow> string \<times> 's" where
  "push_bytes handle terminal bytes ps =
     (case ps of (pending, st) \<Rightarrow>
        if terminal st then (pending, st) else drain_events handle terminal (pending @ bytes) st)"

lemma drain_events_drained: "event_end (fst (drain_events handle terminal p s)) = None"
proof (induction handle terminal p s rule: drain_events.induct)
  case (1 handle terminal p s)
  then show ?case
    by (subst drain_events.simps) (simp add: Let_def event_end_def [of "[]"] split: option.splits)
qed

lemma drain_then_push:
  "\<not> terminal s \<Longrightarrow> uniform_endings (p @ b)
   \<Longrightarrow> push_bytes handle terminal b (drain_events handle terminal p s) = drain_events handle terminal (p @ b) s"
proof (induction handle terminal p s rule: drain_events.induct)
  case (1 handle terminal p s)
  show ?case
  proof (cases "event_end p")
    case None
    then show ?thesis using "1.prems" by (simp add: drain_events.simps [of handle terminal p] push_bytes_def)
  next
    case (Some e)
    let ?s = "handle (take e p) s"
    have bound: "0 < e" "e \<le> length p" using event_end_bound [OF Some] by simp_all
    have whole: "event_end (p @ b) = Some e" by (rule event_end_append [OF Some "1.prems"(2)])
    have cut: "take e (p @ b) = take e p" "drop e (p @ b) = drop e p @ b" using bound by simp_all
    have unfold: "drain_events handle terminal (p @ b) s =
        (if terminal ?s then ([], ?s) else drain_events handle terminal (drop e p @ b) ?s)"
      using whole by (subst drain_events.simps) (simp add: cut Let_def del: take_append drop_append)
    have unfold': "drain_events handle terminal p s =
        (if terminal ?s then ([], ?s) else drain_events handle terminal (drop e p) ?s)"
      using Some by (subst drain_events.simps) (simp add: Let_def)
    have u: "uniform_endings (drop e p @ b)" using uniform_drop [OF "1.prems"(2), of e] cut by simp
    show ?thesis
    proof (cases "terminal ?s")
      case True
      then show ?thesis unfolding unfold unfold' by (simp add: push_bytes_def)
    next
      case False
      have "push_bytes handle terminal b (drain_events handle terminal (drop e p) ?s) = drain_events handle terminal (drop e p @ b) ?s"
        by (rule "1.IH" [OF Some refl False False u])
      then show ?thesis unfolding unfold unfold' using False by simp
    qed
  qed
qed

lemma uniform_prefix: "uniform_endings (s @ t) \<Longrightarrow> uniform_endings s"
  unfolding uniform_endings_def by (metis not_None_eq position_of_append)

lemma push_chunks:
  assumes "uniform_endings (p @ concat chunks)" "event_end p = None"
  shows "foldl (\<lambda>ps c. push_bytes handle terminal c ps) (p, s) chunks = push_bytes handle terminal (concat chunks) (p, s)"
  using assms
proof (induction chunks rule: rev_induct)
  case Nil
  then show ?case by (simp add: push_bytes_def drain_events.simps)
next
  case (snoc c chunks)
  have "uniform_endings (p @ concat chunks)"
    using snoc.prems(1) uniform_prefix [of "p @ concat chunks" c] by simp
  then have IH: "foldl (\<lambda>ps c. push_bytes handle terminal c ps) (p, s) chunks = push_bytes handle terminal (concat chunks) (p, s)"
    using snoc.IH snoc.prems(2) by simp
  show ?case
  proof (cases "terminal s")
    case True
    then show ?thesis using IH by (simp add: push_bytes_def)
  next
    case False
    have "push_bytes handle terminal c (drain_events handle terminal (p @ concat chunks) s)
        = drain_events handle terminal ((p @ concat chunks) @ c) s"
      using False snoc.prems(1) by (intro drain_then_push) auto
    then show ?thesis using IH False by (simp add: push_bytes_def [of handle terminal "concat _"] push_bytes_def [of handle terminal "concat _ @ _"])
  qed
qed

subsection \<open>Closing frames\<close>

definition closing_frame :: "string \<Rightarrow> bool" where
  "closing_frame f \<longleftrightarrow> starts_with f (''event: response.completed'' @ [LF]) \<or> starts_with f (''event: response.failed'' @ [LF])"

text \<open>
  What one step of a bridge writes: output is appended; while the bridge stays open none of it closes
  the response, and the step that makes it terminal ends with the one frame that does.
\<close>

definition stream_step :: "('s \<Rightarrow> string list) \<Rightarrow> ('s \<Rightarrow> bool) \<Rightarrow> 's \<Rightarrow> 's \<Rightarrow> bool" where
  "stream_step output terminal s s' \<longleftrightarrow>
     (if terminal s' then \<exists>fs f. output s' = output s @ fs @ [f] \<and> list_all (\<lambda>f. \<not> closing_frame f) fs \<and> closing_frame f
      else \<exists>fs. output s' = output s @ fs \<and> list_all (\<lambda>f. \<not> closing_frame f) fs)"

definition closed_once :: "string list \<Rightarrow> bool \<Rightarrow> bool" where
  "closed_once frames is_terminal \<longleftrightarrow>
     (if is_terminal then frames \<noteq> [] \<and> closing_frame (last frames) \<and> list_all (\<lambda>f. \<not> closing_frame f) (butlast frames)
      else list_all (\<lambda>f. \<not> closing_frame f) frames)"

lemma stream_step_trans:
  assumes "stream_step output terminal s s'" "\<not> terminal s'" "stream_step output terminal s' s''"
  shows "stream_step output terminal s s''"
proof -
  obtain fs where fs: "output s' = output s @ fs" "list_all (\<lambda>f. \<not> closing_frame f) fs"
    using assms(1,2) by (auto simp: stream_step_def)
  show ?thesis
  proof (cases "terminal s''")
    case True
    then obtain gs f where g: "output s'' = output s' @ gs @ [f]" "list_all (\<lambda>f. \<not> closing_frame f) gs" "closing_frame f"
      using assms(3) by (auto simp: stream_step_def)
    have "output s'' = output s @ (fs @ gs) @ [f]" "list_all (\<lambda>f. \<not> closing_frame f) (fs @ gs)" using fs g by simp_all
    then show ?thesis using True g(3) by (auto simp: stream_step_def)
  next
    case False
    then obtain gs where g: "output s'' = output s' @ gs" "list_all (\<lambda>f. \<not> closing_frame f) gs"
      using assms(3) by (auto simp: stream_step_def)
    have "output s'' = output s @ (fs @ gs)" "list_all (\<lambda>f. \<not> closing_frame f) (fs @ gs)" using fs g by simp_all
    then show ?thesis using False by (auto simp: stream_step_def)
  qed
qed

lemma stream_step_refl: "\<not> terminal s \<Longrightarrow> stream_step output terminal s s"
  by (simp add: stream_step_def)

lemma closed_once_step:
  assumes "closed_once (read @ output s) False" "stream_step output terminal s s'"
  shows "closed_once (read @ output s') (terminal s')"
proof (cases "terminal s'")
  case True
  then obtain fs f where "output s' = output s @ fs @ [f]" "list_all (\<lambda>f. \<not> closing_frame f) fs" "closing_frame f"
    using assms(2) by (auto simp: stream_step_def)
  then show ?thesis using True assms(1) by (simp add: closed_once_def butlast_append)
next
  case False
  then show ?thesis using assms by (auto simp: closed_once_def stream_step_def)
qed

lemma closed_once_nth: "closed_once fs b \<Longrightarrow> Suc i < length fs \<Longrightarrow> \<not> closing_frame (fs ! i)"
  by (auto simp: closed_once_def list_all_length nth_butlast split: if_splits)

lemma closed_once_iff:
  assumes "closed_once fs b"
  shows "b \<longleftrightarrow> (\<exists>f \<in> set fs. closing_frame f)"
proof (cases b)
  case True
  then have "fs \<noteq> []" "closing_frame (last fs)" using assms by (simp_all add: closed_once_def)
  then show ?thesis using True last_in_set [of fs] by blast
next
  case False
  then show ?thesis using assms by (auto simp: closed_once_def list_all_iff)
qed

subsection \<open>The calls of a bridge\<close>

text \<open>The gateway pushes bytes, reads frames and reports the end of the input, in any order.\<close>

datatype bridge_call = Push string | Pop | Finish

fun bridge_step :: "(string \<Rightarrow> 's \<Rightarrow> 's) \<Rightarrow> ('s \<Rightarrow> bool) \<Rightarrow> ('s \<Rightarrow> 's \<times> string option) \<Rightarrow> ('s \<Rightarrow> 's)
    \<Rightarrow> string list \<times> string \<times> 's \<Rightarrow> bridge_call \<Rightarrow> string list \<times> string \<times> 's" where
  "bridge_step handle terminal pop finish (read, pending, s) (Push bytes) = (read, push_bytes handle terminal bytes (pending, s))"
| "bridge_step handle terminal pop finish (read, pending, s) Pop = (case pop s of (s', frame) \<Rightarrow>
     (case frame of None \<Rightarrow> (read, pending, s') | Some f \<Rightarrow> (read @ [f], pending, s')))"
| "bridge_step handle terminal pop finish (read, pending, s) Finish = (read, pending, finish s)"

definition run_bridge :: "(string \<Rightarrow> 's \<Rightarrow> 's) \<Rightarrow> ('s \<Rightarrow> bool) \<Rightarrow> ('s \<Rightarrow> 's \<times> string option) \<Rightarrow> ('s \<Rightarrow> 's)
    \<Rightarrow> 's \<Rightarrow> bridge_call list \<Rightarrow> string list \<times> string \<times> 's" where
  "run_bridge handle terminal pop finish s calls = foldl (bridge_step handle terminal pop finish) ([], [], s) calls"

locale event_stream =
  fixes handle :: "string \<Rightarrow> 's \<Rightarrow> 's" and terminal :: "'s \<Rightarrow> bool" and written :: "'s \<Rightarrow> string list"
    and good :: "'s \<Rightarrow> bool" and prints :: bool
  assumes step: "prints \<Longrightarrow> \<not> terminal s \<Longrightarrow> good s
    \<Longrightarrow> stream_step written terminal s (handle e s) \<and> good (handle e s)"
begin

lemma drain_step:
  assumes prints
  shows "\<not> terminal s \<Longrightarrow> good s \<Longrightarrow> stream_step written terminal s (snd (drain_events handle terminal p s))
    \<and> good (snd (drain_events handle terminal p s))"
proof (induction p arbitrary: s rule: length_induct)
  case (1 p)
  show ?case
  proof (cases "event_end p")
    case None
    then show ?thesis using "1.prems" by (simp add: drain_events.simps stream_step_refl)
  next
    case (Some e)
    let ?s = "handle (take e p) s"
    have s: "stream_step written terminal s ?s" "good ?s" using step [OF assms "1.prems"] by auto
    have "length (drop e p) < length p" using event_end_bound [OF Some] by auto
    then have "\<not> terminal ?s \<Longrightarrow> stream_step written terminal ?s (snd (drain_events handle terminal (drop e p) ?s))
        \<and> good (snd (drain_events handle terminal (drop e p) ?s))"
      using "1.IH" s(2) by blast
    then show ?thesis using Some s stream_step_trans [OF s(1)]
      by (subst (1 2) drain_events.simps) (simp add: Let_def)
  qed
qed

lemma push_step:
  assumes prints "\<not> terminal s" "good s"
  shows "stream_step written terminal s (snd (push_bytes handle terminal bytes (p, s)))
    \<and> good (snd (push_bytes handle terminal bytes (p, s)))"
  using drain_step [OF assms] assms(2) by (simp add: push_bytes_def)

end

text \<open>
  A bridge adds reading its frames and reporting the end of the input; \<open>ends\<close> says which closing frame
  fits a state.
\<close>

locale stream_bridge = event_stream handle terminal written good prints
  for handle :: "string \<Rightarrow> 's \<Rightarrow> 's" and terminal :: "'s \<Rightarrow> bool" and written :: "'s \<Rightarrow> string list"
    and good :: "'s \<Rightarrow> bool" and prints :: bool +
  fixes pop :: "'s \<Rightarrow> 's \<times> string option" and finish :: "'s \<Rightarrow> 's" and ends :: "'s \<Rightarrow> string \<Rightarrow> bool"
  assumes finish_step: "prints \<Longrightarrow> \<not> terminal s \<Longrightarrow> good s
      \<Longrightarrow> stream_step written terminal s (finish s) \<and> good (finish s) \<and> terminal (finish s)"
    and finish_terminal: "terminal s \<Longrightarrow> finish s = s"
    and pop_empty: "written s = [] \<Longrightarrow> pop s = (s, None)"
    and pop_frame: "written s = f # fs \<Longrightarrow> \<exists>s'. pop s = (s', Some f) \<and> written s' = fs \<and> terminal s' = terminal s
      \<and> ends s' = ends s \<and> (\<not> terminal s \<longrightarrow> good s' = good s)"
    and good_ends: "good s \<Longrightarrow> terminal s \<Longrightarrow> ends s (last (written s))"
begin

definition closed_inv :: "string list \<times> string \<times> 's \<Rightarrow> bool" where
  "closed_inv rs \<longleftrightarrow> (case rs of (read, _, s) \<Rightarrow> closed_once (read @ written s) (terminal s)
     \<and> (if terminal s then ends s (last (read @ written s)) else good s))"

lemma inv_step:
  assumes "closed_inv (read, p, s)" "\<not> terminal s" "stream_step written terminal s t" "good t"
  shows "closed_inv (read, q, t)"
proof -
  have "closed_once (read @ written t) (terminal t)"
    using closed_once_step [of read written s terminal t] assms(1-3) by (simp add: closed_inv_def)
  moreover have "last (read @ written t) = last (written t)" if "terminal t"
    using assms(3) that by (auto simp: stream_step_def)
  ultimately show ?thesis using assms(4) good_ends by (simp add: closed_inv_def)
qed

lemma pop_inv:
  assumes "closed_inv (read, p, s)"
  shows "closed_inv (bridge_step handle terminal pop finish (read, p, s) Pop)"
    "terminal (snd (snd (bridge_step handle terminal pop finish (read, p, s) Pop))) = terminal s"
proof -
  have "closed_inv (bridge_step handle terminal pop finish (read, p, s) Pop)
      \<and> terminal (snd (snd (bridge_step handle terminal pop finish (read, p, s) Pop))) = terminal s"
  proof (cases "written s")
    case Nil
    then show ?thesis using assms pop_empty by simp
  next
    case (Cons f fs)
    then show ?thesis using assms pop_frame [OF Cons] by (auto simp: closed_inv_def)
  qed
  then show "closed_inv (bridge_step handle terminal pop finish (read, p, s) Pop)"
    "terminal (snd (snd (bridge_step handle terminal pop finish (read, p, s) Pop))) = terminal s" by simp_all
qed

lemma call_inv:
  assumes prints "closed_inv (read, p, s)"
  shows "closed_inv (bridge_step handle terminal pop finish (read, p, s) call)
    \<and> (terminal s \<or> call = Finish \<longrightarrow> terminal (snd (snd (bridge_step handle terminal pop finish (read, p, s) call))))"
proof -
  have good: "good s" if "\<not> terminal s" using that assms(2) by (simp add: closed_inv_def)
  show ?thesis
  proof (cases call)
    case (Push bytes)
    let ?t = "push_bytes handle terminal bytes (p, s)"
    have "closed_inv (read, fst ?t, snd ?t)" if "\<not> terminal s"
      using push_step [OF assms(1) that good [OF that], of bytes p] inv_step [OF assms(2) that] by blast
    then show ?thesis using assms(2) by (cases "terminal s") (simp_all add: Push push_bytes_def)
  next
    case Pop
    then show ?thesis using pop_inv [OF assms(2)] by simp
  next
    case Finish
    have "closed_inv (read, p, finish s) \<and> terminal (finish s)" if "\<not> terminal s"
      using finish_step [OF assms(1) that good [OF that]] inv_step [OF assms(2) that] by blast
    then show ?thesis using assms(2) finish_terminal by (cases "terminal s") (simp_all add: Finish)
  qed
qed

lemma run_inv:
  assumes prints "closed_inv rs"
  shows "closed_inv (foldl (bridge_step handle terminal pop finish) rs calls)
    \<and> (terminal (snd (snd rs)) \<or> Finish \<in> set calls \<longrightarrow> terminal (snd (snd (foldl (bridge_step handle terminal pop finish) rs calls))))"
  using assms(2)
proof (induction calls arbitrary: rs)
  case (Cons call calls)
  obtain read p s where rs: "rs = (read, p, s)" by (metis prod.collapse)
  have "closed_inv (bridge_step handle terminal pop finish rs call)
    \<and> (terminal (snd (snd rs)) \<or> call = Finish \<longrightarrow> terminal (snd (snd (bridge_step handle terminal pop finish rs call))))"
    using call_inv [OF assms(1)] Cons.prems unfolding rs by simp
  then show ?case using Cons.IH by (simp del: bridge_step.simps) blast
qed simp

lemma run_closed:
  assumes prints "good s" "\<not> terminal s" "written s = []"
    and "run_bridge handle terminal pop finish s calls = (read, pending, t)"
  shows "closed_once (read @ written t) (terminal t)" "Finish \<in> set calls \<Longrightarrow> terminal t"
    "terminal t \<Longrightarrow> ends t (last (read @ written t))"
proof -
  have "closed_inv ([], [], s)" using assms(2-4) by (simp add: closed_inv_def closed_once_def)
  note r = run_inv [OF assms(1) this, of calls]
  show "closed_once (read @ written t) (terminal t)" "Finish \<in> set calls \<Longrightarrow> terminal t"
    "terminal t \<Longrightarrow> ends t (last (read @ written t))"
    using r assms(5) unfolding run_bridge_def by (simp_all add: closed_inv_def split: if_splits)
qed

end

end
