(* ===== verification/Messages_Request.thy ===== *)
theory Messages_Request
  imports Messages_Response Sse_Events Decimal_Amounts
begin

section \<open>From a Responses request to a Messages request\<close>

text \<open>
  The half of \<open>protocol/adapter/messages.rs\<close> that builds the upstream request: tools and tool choice,
  the conversation, reasoning and the lifetime of cached prompts. The state of the bridge is threaded
  through the loop over the input items; the first error ends the translation.
\<close>

definition MAX_IMAGE_BYTES :: nat where "MAX_IMAGE_BYTES = 20 * 1024 * 1024"

definition SUPPORTED_IMAGE_TYPES :: "string list" where
  "SUPPORTED_IMAGE_TYPES = [''image/gif'', ''image/jpeg'', ''image/png'', ''image/webp'']"

subsection \<open>Content\<close>

definition text_block :: "string \<Rightarrow> Value" where
  "text_block text = json [(''type'', String ''text''), (''text'', String text)]"

definition image_block_from_data_uri :: "adapter_env \<Rightarrow> string \<Rightarrow> Value adapter_result" where
  "image_block_from_data_uri env data_uri =
     and_then (ok_or invalid_request (strip_prefix ''data:'' (trim data_uri))) (\<lambda>rest.
     and_then (ok_or invalid_request (split_once (\<lambda>c. c = CHR '','') rest)) (\<lambda>(metadata, data).
     let parts = split_on (CHR '';'') metadata; media_type = trim (hd parts) in
     if \<not> list_ex (\<lambda>supported. eq_ignore_ascii_case media_type supported) SUPPORTED_IMAGE_TYPES then Inl invalid_request
     else if \<not> list_ex (\<lambda>part. eq_ignore_ascii_case (trim part) ''base64'') (tl parts) then Inl invalid_request
     else
       let data = trim data in
       if data = [] \<or> list_ex is_ascii_whitespace data \<or> length data > usize_add (MAX_IMAGE_BYTES * 4 div 3) 4
       then Inl invalid_request
       else and_then (ok_or invalid_request (env_base64 env data)) (\<lambda>decoded.
         if decoded = [] \<or> length decoded > MAX_IMAGE_BYTES then Inl invalid_request
         else Inr (json [(''type'', String ''image''), (''source'', json [(''type'', String ''base64''),
           (''media_type'', String (to_ascii_lowercase media_type)), (''data'', String data)])]))))"

definition is_text_part :: "object \<Rightarrow> bool" where
  "is_text_part part \<longleftrightarrow> get_str part ''type'' \<in> {Some ''input_text'', Some ''output_text'', Some ''text''}"

definition content_part :: "adapter_env \<Rightarrow> Value \<Rightarrow> Value adapter_result" where
  "content_part env part =
     (case as_str part of
        Some text \<Rightarrow> Inr (text_block text)
      | None \<Rightarrow> and_then (ok_or invalid_request (as_object part)) (\<lambda>part.
          if is_text_part part then ok_or invalid_request (map_option text_block (get_str part ''text''))
          else if get_str part ''type'' = Some ''input_image''
          then and_then (ok_or invalid_request (get_str part ''image_url'')) (image_block_from_data_uri env)
          else Inl invalid_request))"

fun content_to_messages_blocks :: "adapter_env \<Rightarrow> Value \<Rightarrow> Value list adapter_result" where
  "content_to_messages_blocks env (String text) = Inr (if text \<noteq> [] then [text_block text] else [])"
| "content_to_messages_blocks env (Array parts) = try_map (content_part env) parts"
| "content_to_messages_blocks env _ = Inl invalid_request"

subsection \<open>Tool results\<close>

definition output_part :: "adapter_env \<Rightarrow> Value list \<Rightarrow> Value \<Rightarrow> Value list adapter_result" where
  "output_part env blocks part =
     and_then (ok_or invalid_request (as_object part)) (\<lambda>part.
     if is_text_part part
     then and_then (ok_or invalid_request (get_str part ''text'')) (\<lambda>text.
       Inr (if text \<noteq> [] then blocks @ [text_block text] else blocks))
     else if get_str part ''type'' = Some ''input_image''
     then and_then (ok_or invalid_request (get_str part ''image_url'')) (\<lambda>url.
       and_then (image_block_from_data_uri env url) (\<lambda>block. Inr (blocks @ [block])))
     else Inl invalid_request)"

definition function_tool_output_parts :: "adapter_env \<Rightarrow> Value list \<Rightarrow> Value option adapter_result" where
  "function_tool_output_parts env parts =
     (if \<not> list_ex (\<lambda>part. value_str part ''type'' = Some ''input_image'') parts then Inr None
      else and_then (try_fold (output_part env) [] parts) (\<lambda>blocks.
        if blocks = [] then Inl invalid_request else Inr (Some (Array blocks))))"

definition function_tool_result_content :: "adapter_env \<Rightarrow> Value option \<Rightarrow> Value adapter_result" where
  "function_tool_result_content env output =
     (case output of
        None \<Rightarrow> Inr (String [])
      | Some (String text) \<Rightarrow> (case Option.bind (env_from_slice env text) as_array of
            None \<Rightarrow> Inr (String text)
          | Some parts \<Rightarrow> and_then (function_tool_output_parts env parts) (\<lambda>content.
              Inr (case content of Some content \<Rightarrow> content | None \<Rightarrow> String text)))
      | Some (Array parts) \<Rightarrow> and_then (function_tool_output_parts env parts) (\<lambda>content.
          case content of
            Some content \<Rightarrow> Inr content
          | None \<Rightarrow> and_then (ok_or invalid_request (env_to_string env (Array parts))) (\<lambda>text. Inr (String text)))
      | Some v \<Rightarrow> and_then (ok_or invalid_request (env_to_string env v)) (\<lambda>text. Inr (String text)))"

definition is_tool_use :: "Value \<Rightarrow> bool" where
  "is_tool_use block \<longleftrightarrow> value_str block ''type'' = Some ''tool_use''"

definition last_content :: "MessagesBridgeState \<Rightarrow> Value list option" where
  "last_content state = (if mb_messages state = [] then None else value_array (last (mb_messages state)) ''content'')"

definition expected_tool :: "MessagesBridgeState \<Rightarrow> string \<Rightarrow> ClientToolTarget option" where
  "expected_tool state call_id =
     Option.bind (last_content state) (\<lambda>blocks.
     Option.bind (find (\<lambda>block. is_tool_use block \<and> value_str block ''id'' = Some call_id) blocks) (\<lambda>block.
     Option.bind (value_str block ''name'') (client_tool state)))"

definition optional_namespace :: "object \<Rightarrow> string option adapter_result" where
  "optional_namespace item =
     (case obj_get item ''namespace'' of
        None \<Rightarrow> Inr None
      | Some namespace \<Rightarrow> and_then (ok_or invalid_request (non_blank (as_str namespace))) (\<lambda>ns. Inr (Some ns)))"

definition tool_result_block :: "adapter_env \<Rightarrow> MessagesBridgeState \<Rightarrow> object \<Rightarrow> Value adapter_result" where
  "tool_result_block env state item =
     and_then (from_output_item item) (\<lambda>kind.
     and_then (ok_or invalid_request (non_blank (get_str item ''call_id''))) (\<lambda>call_id.
     and_then (ok_or continuation_mismatch (expected_tool state call_id)) (\<lambda>expected.
     if kind \<noteq> ct_kind expected then Inl continuation_mismatch
     else and_then (optional_namespace item) (\<lambda>namespace.
       if namespace \<noteq> None \<and> ct_namespace expected \<noteq> namespace then Inl continuation_mismatch
       else and_then (case kind of
           CustomTool \<Rightarrow> (case obj_get item ''output'' of
               Some (String output) \<Rightarrow> Inr (String output) | _ \<Rightarrow> Inl invalid_request)
         | FunctionTool \<Rightarrow> function_tool_result_content env (obj_get item ''output''))
         (\<lambda>content. Inr (json [(''type'', String ''tool_result''), (''tool_use_id'', String call_id),
             (''content'', content)]))))))"

definition check_result :: "string list \<Rightarrow> string fset \<Rightarrow> Value \<Rightarrow> string fset adapter_result" where
  "check_result known returned result =
     and_then (ok_or continuation_mismatch (non_blank (value_str result ''tool_use_id''))) (\<lambda>call_id.
       if call_id \<notin> set known \<or> call_id |\<in>| returned then Inl continuation_mismatch
       else Inr (finsert call_id returned))"

definition flush_tool_results :: "MessagesBridgeState \<Rightarrow> Value list \<Rightarrow> MessagesBridgeState adapter_result" where
  "flush_tool_results state results =
     (if results = [] then Inr state
      else if mb_messages state = [] then Inl continuation_missing
      else
        let message = last (mb_messages state);
            blocks = (case value_array message ''content'' of None \<Rightarrow> [] | Some blocks \<Rightarrow> blocks)
        in if value_str message ''role'' \<noteq> Some ''assistant'' \<or> \<not> list_ex is_tool_use blocks
           then Inl continuation_mismatch
           else
             let known = List.map_filter (\<lambda>block. if is_tool_use block then value_str block ''id'' else None) blocks
             in and_then (try_fold (check_result known) {||} results) (\<lambda>_.
               Inr (push_message (json [(''role'', String ''user''), (''content'', Array results)]) state)))"

subsection \<open>The conversation\<close>

definition append_system_value :: "adapter_env \<Rightarrow> MessagesBridgeState \<Rightarrow> Value \<Rightarrow> MessagesBridgeState adapter_result" where
  "append_system_value env state value =
     and_then (content_to_messages_blocks env value) (\<lambda>text.
     if text = [] then Inr state
     else (case mb_system state of
         None \<Rightarrow> Inr (state\<lparr>mb_system := Some (Array text)\<rparr>)
       | Some (Array current) \<Rightarrow> Inr (state\<lparr>mb_system := Some (Array (current @ text))\<rparr>)
       | Some _ \<Rightarrow> Inl invalid_request))"

definition append_user_blocks :: "MessagesBridgeState \<Rightarrow> Value list \<Rightarrow> MessagesBridgeState adapter_result" where
  "append_user_blocks state blocks =
     (if blocks = [] then Inl invalid_request
      else Inr (push_message (json [(''role'', String ''user''), (''content'', Array blocks)]) state))"

definition append_user_item :: "adapter_env \<Rightarrow> MessagesBridgeState \<Rightarrow> object \<Rightarrow> MessagesBridgeState adapter_result" where
  "append_user_item env state item =
     and_then (ok_or invalid_request (obj_get item ''content'')) (\<lambda>content.
     and_then (content_to_messages_blocks env content) (append_user_blocks state))"

definition append_assistant_from_responses_item ::
  "adapter_env \<Rightarrow> MessagesBridgeState \<Rightarrow> object \<Rightarrow> MessagesBridgeState adapter_result" where
  "append_assistant_from_responses_item env state item =
     (case obj_get item ''content'' of
        None \<Rightarrow> Inr state
      | Some content \<Rightarrow> and_then (content_to_messages_blocks env content) (\<lambda>content.
          Inr (append_assistant_content content state)))"

definition call_input :: "adapter_env \<Rightarrow> ResponsesToolKind \<Rightarrow> object \<Rightarrow> Value adapter_result" where
  "call_input env kind item =
     (case kind of
        FunctionTool \<Rightarrow> ok_or invalid_request (filter_option is_object (env_from_slice env
          (case get_str item ''arguments'' of None \<Rightarrow> ''{}'' | Some arguments \<Rightarrow> arguments)))
      | CustomTool \<Rightarrow> and_then (ok_or invalid_request (get_str item ''input'')) (\<lambda>input.
          Inr (json [(''input'', String input)])))"

definition append_assistant_tool_use ::
  "adapter_env \<Rightarrow> MessagesBridgeState \<Rightarrow> object \<Rightarrow> MessagesBridgeState adapter_result" where
  "append_assistant_tool_use env state item =
     and_then (from_call_item item) (\<lambda>kind.
     and_then (ok_or invalid_request (non_blank (Option.bind
       (or_value (obj_get item ''call_id'') (obj_get item ''id'')) as_str))) (\<lambda>call_id.
     and_then (ok_or invalid_request (non_blank (get_str item ''name''))) (\<lambda>name.
     and_then (optional_namespace item) (\<lambda>namespace.
     and_then (ok_or invalid_request (upstream_tool_name state namespace name)) (\<lambda>upstream_name.
     if client_tool_kind state upstream_name \<noteq> Some kind then Inl invalid_request
     else and_then (call_input env kind item) (\<lambda>input.
       Inr (push_message (json [(''role'', String ''assistant''), (''content'', Array [json [
         (''type'', String ''tool_use''), (''id'', String call_id), (''name'', String upstream_name),
         (''input'', input)]])]) state)))))))"

definition append_item :: "adapter_env \<Rightarrow> MessagesBridgeState \<Rightarrow> object \<Rightarrow> MessagesBridgeState adapter_result" where
  "append_item env state item =
     (let kind = get_str item ''type'' in
      if kind = Some ''additional_tools'' then Inr state
      else case get_str item ''role'' of
        Some role \<Rightarrow>
          if role = ''system'' \<or> role = ''developer''
          then and_then (ok_or invalid_request (obj_get item ''content'')) (append_system_value env state)
          else if role = ''user'' then append_user_item env state item
          else if role = ''assistant'' then append_assistant_from_responses_item env state item
          else Inl invalid_request
      | None \<Rightarrow>
          if kind = Some ''function_call'' \<or> kind = Some ''custom_tool_call'' then append_assistant_tool_use env state item
          else if kind = Some ''reasoning'' then
            (if mb_messages state = [] then Inl continuation_missing else Inr state)
          else if kind = Some ''message'' then
            and_then (ok_or invalid_request (get_str item ''role'')) (\<lambda>role.
              if role \<noteq> ''user'' then Inl invalid_request else append_user_item env state item)
          else Inl invalid_request)"

definition is_output_item :: "object \<Rightarrow> bool" where
  "is_output_item item \<longleftrightarrow> get_str item ''type'' \<in> {Some ''function_call_output'', Some ''custom_tool_call_output''}"

definition append_input_item :: "adapter_env \<Rightarrow> MessagesBridgeState \<times> Value list \<Rightarrow> Value
    \<Rightarrow> (MessagesBridgeState \<times> Value list) adapter_result" where
  "append_input_item env acc item =
     (case acc of (state, tool_results) \<Rightarrow>
        and_then (ok_or invalid_request (as_object item)) (\<lambda>item.
        if is_output_item item
        then and_then (tool_result_block env state item) (\<lambda>result. Inr (state, tool_results @ [result]))
        else and_then (flush_tool_results state tool_results) (\<lambda>state.
          and_then (append_item env state item) (\<lambda>state. Inr (state, [])))))"

fun append_responses_input :: "adapter_env \<Rightarrow> MessagesBridgeState \<Rightarrow> Value \<Rightarrow> MessagesBridgeState adapter_result" where
  "append_responses_input env state (String text) = append_user_blocks state [text_block text]"
| "append_responses_input env state (Array items) =
     and_then (try_fold (append_input_item env) (state, []) items) (\<lambda>(state, tool_results).
       flush_tool_results state tool_results)"
| "append_responses_input env state _ = Inl invalid_request"

subsection \<open>Tools\<close>

definition bridged_namespace_tool_name :: "adapter_env \<Rightarrow> string \<Rightarrow> string \<Rightarrow> string" where
  "bridged_namespace_tool_name env namespace name =
     ''relay_ns_'' @ env_hex env (take 12 (env_sha256 env
       (to_le_bytes (length namespace) @ namespace @ to_le_bytes (length name) @ name)))"

definition custom_tool_input_schema :: "object \<Rightarrow> Value adapter_result" where
  "custom_tool_input_schema tool =
     (let input = obj_of [(''type'', String ''string'')];
          schema = (\<lambda>input. json [(''type'', String ''object''), (''properties'', json [(''input'', Object input)]),
            (''required'', Array [String ''input'']), (''additionalProperties'', Bool False)])
      in case obj_get tool ''format'' of
           None \<Rightarrow> Inr (schema input)
         | Some format \<Rightarrow> and_then (ok_or unsupported_tool (as_object format)) (\<lambda>format.
             if get_str format ''type'' = Some ''text'' then Inr (schema input)
             else if get_str format ''type'' = Some ''grammar'' then
               and_then (ok_or unsupported_tool (filter_option (\<lambda>s. s = ''lark'' \<or> s = ''regex'') (get_str format ''syntax''))) (\<lambda>syntax.
               and_then (ok_or unsupported_tool (non_blank (get_str format ''definition''))) (\<lambda>grammar.
               Inr (schema (obj_insert ''description'' (String (''Raw tool input. It must satisfy this '' @ syntax
                 @ '' grammar:'' @ [LF] @ grammar)) input))))
             else Inl unsupported_tool))"

definition function_tool_schema :: "object \<Rightarrow> Value adapter_result" where
  "function_tool_schema tool =
     (let schema = (case or_value (obj_get tool ''parameters'') (obj_get tool ''input_schema'') of
            None \<Rightarrow> json [(''type'', String ''object''), (''properties'', json [])]
          | Some schema \<Rightarrow> schema)
      in and_then (ok_or unsupported_tool (as_object schema)) (\<lambda>schema.
           case get_str schema ''type'' of
             None \<Rightarrow> Inr (Object (obj_insert ''type'' (String ''object'') schema))
           | Some kind \<Rightarrow> if kind = ''object'' then Inr (Object schema) else Inl unsupported_tool))"

definition tool_input_schema :: "ResponsesToolKind \<Rightarrow> object \<Rightarrow> Value adapter_result" where
  "tool_input_schema kind tool =
     (case kind of
        FunctionTool \<Rightarrow> function_tool_schema tool
      | CustomTool \<Rightarrow>
          if Option.bind (obj_get tool ''defer_loading'') as_bool = Some True
             \<or> (case obj_get tool ''allowed_callers'' of None \<Rightarrow> False | Some callers \<Rightarrow> callers \<noteq> Null)
          then Inl unsupported_tool else custom_tool_input_schema tool)"

definition tool_description :: "object \<Rightarrow> string \<Rightarrow> string option \<Rightarrow> string option \<Rightarrow> string option" where
  "tool_description tool name namespace namespace_description =
     (let own = non_blank (get_str tool ''description'');
          spaced = (\<lambda>d. case d of None \<Rightarrow> [] | Some d \<Rightarrow> '' '' @ d)
      in case namespace of
           Some ns \<Rightarrow> Some (''Codex namespace `'' @ ns @ ''` tool `'' @ name @ ''`.''
             @ spaced namespace_description @ spaced own)
         | None \<Rightarrow> own)"

definition translate_client_tool ::
  "adapter_env \<Rightarrow> string option \<Rightarrow> string option \<Rightarrow> TranslatedTools \<Rightarrow> object \<Rightarrow> TranslatedTools adapter_result" where
  "translate_client_tool env namespace namespace_description tools tool =
     and_then (from_definition tool) (\<lambda>kind.
     and_then (ok_or unsupported_tool (non_blank (get_str tool ''name''))) (\<lambda>name.
     let upstream_name = (case namespace of None \<Rightarrow> name | Some ns \<Rightarrow> bridged_namespace_tool_name env ns name) in
     if bt_contains (tt_client_tools tools) upstream_name then Inl unsupported_tool
     else and_then (tool_input_schema kind tool) (\<lambda>schema.
       let translated = obj_of [(''name'', String upstream_name), (''input_schema'', schema)];
           translated = (case tool_description tool name namespace namespace_description of
               None \<Rightarrow> translated | Some d \<Rightarrow> obj_insert ''description'' (String d) translated)
       in Inr (tools\<lparr>tt_client_tools := bt_insert upstream_name
              \<lparr>ct_kind = kind, ct_name = name, ct_namespace = namespace\<rparr> (tt_client_tools tools),
            tt_upstream := tt_upstream tools @ [Object translated]\<rparr>))))"

text \<open>A tool that this route cannot represent is left out; any other error ends the translation.\<close>

definition translate_or_skip ::
  "adapter_env \<Rightarrow> string option \<Rightarrow> string option \<Rightarrow> TranslatedTools \<Rightarrow> object \<Rightarrow> TranslatedTools adapter_result" where
  "translate_or_skip env namespace namespace_description tools tool =
     (case translate_client_tool env namespace namespace_description tools tool of
        Inl e \<Rightarrow> if is_route_incompatible e then Inr tools else Inl e
      | Inr tools \<Rightarrow> Inr tools)"

definition translate_child :: "adapter_env \<Rightarrow> string \<Rightarrow> string option \<Rightarrow> TranslatedTools \<Rightarrow> Value \<Rightarrow> TranslatedTools adapter_result" where
  "translate_child env namespace namespace_description tools child =
     (case as_object child of
        None \<Rightarrow> Inr tools
      | Some child \<Rightarrow>
          if get_str child ''type'' \<in> {Some ''function'', Some ''custom'', None}
          then translate_or_skip env (Some namespace) namespace_description tools child else Inr tools)"

definition translate_tool :: "adapter_env \<Rightarrow> TranslatedTools \<Rightarrow> Value \<Rightarrow> TranslatedTools adapter_result" where
  "translate_tool env tools tool =
     (case as_object tool of
        None \<Rightarrow> Inr tools
      | Some tool \<Rightarrow>
          let kind = get_str tool ''type'' in
          if kind = Some ''function'' \<or> kind = Some ''custom'' then translate_or_skip env None None tools tool
          else if kind = Some ''namespace'' then
            (case (non_blank (get_str tool ''name''), Option.bind (obj_get tool ''tools'') as_array) of
               (Some namespace, Some children) \<Rightarrow>
                 try_fold (translate_child env namespace (non_blank (get_str tool ''description''))) tools children
             | _ \<Rightarrow> Inr tools)
          else Inr tools)"

definition translate_tools :: "adapter_env \<Rightarrow> Value list \<Rightarrow> TranslatedTools adapter_result" where
  "translate_tools env tools =
     try_fold (translate_tool env) \<lparr>tt_upstream = [], tt_client_tools = bt_empty\<rparr> tools"

subsection \<open>Tool choice\<close>

record TranslatedToolChoice =
  tc_value :: "Value option"
  tc_allowed_names :: "string fset option"

definition no_choice :: TranslatedToolChoice where
  "no_choice = \<lparr>tc_value = None, tc_allowed_names = None\<rparr>"

definition choice_type :: "string \<Rightarrow> Value" where
  "choice_type kind = json [(''type'', String kind)]"

definition selected_upstream_tool_name :: "MessagesBridgeState \<Rightarrow> object \<Rightarrow> string option" where
  "selected_upstream_tool_name state tool =
     (case from_definition tool of
        Inl _ \<Rightarrow> None
      | Inr kind \<Rightarrow>
          Option.bind (non_blank (get_str tool ''name'')) (\<lambda>name.
          Option.bind (case obj_get tool ''namespace'' of
              None \<Rightarrow> Some None
            | Some namespace \<Rightarrow> map_option Some (non_blank (as_str namespace))) (\<lambda>namespace.
          Option.bind (upstream_tool_name state namespace name) (\<lambda>upstream_name.
          if client_tool_kind state upstream_name = Some kind then Some upstream_name else None))))"

definition namespace_of_choice :: "object \<Rightarrow> string option" where
  "namespace_of_choice tool = non_blank (Option.bind (or_value (obj_get tool ''name'') (obj_get tool ''namespace'')) as_str)"

definition namespace_tool_names :: "MessagesBridgeState \<Rightarrow> string \<Rightarrow> string fset" where
  "namespace_tool_names state namespace =
     fset_of_list (map fst (filter (\<lambda>(upstream_name, target). ct_namespace target = Some namespace
       \<and> allows_tool_name state upstream_name) (bt_entries (mb_tool_targets state))))"

definition allowed_tool_names :: "MessagesBridgeState \<Rightarrow> Value \<Rightarrow> string fset" where
  "allowed_tool_names state tool =
     (case as_object tool of
        None \<Rightarrow> {||}
      | Some tool \<Rightarrow>
          let kind = get_str tool ''type'' in
          if kind = Some ''function'' \<or> kind = Some ''custom'' then
            (case selected_upstream_tool_name state tool of None \<Rightarrow> {||} | Some name \<Rightarrow> {|name|})
          else if kind = Some ''namespace'' then
            (case namespace_of_choice tool of None \<Rightarrow> {||} | Some namespace \<Rightarrow> namespace_tool_names state namespace)
          else {||})"

definition allowed_tools_choice :: "MessagesBridgeState \<Rightarrow> object \<Rightarrow> TranslatedToolChoice" where
  "allowed_tools_choice state value =
     (case Option.bind (obj_get value ''tools'') as_array of
        None \<Rightarrow> no_choice
      | Some configured_tools \<Rightarrow>
          let allowed_names = foldl (\<lambda>names tool. names |\<union>| allowed_tool_names state tool) {||} configured_tools;
              mode = (case get_str value ''mode'' of None \<Rightarrow> ''auto'' | Some mode \<Rightarrow> mode)
          in if allowed_names = {||} then no_choice
             else if mode = ''auto'' then \<lparr>tc_value = Some (choice_type ''auto''), tc_allowed_names = Some allowed_names\<rparr>
             else if mode = ''required'' then \<lparr>tc_value = Some (choice_type ''any''), tc_allowed_names = Some allowed_names\<rparr>
             else no_choice)"

definition translate_tool_choice :: "Value \<Rightarrow> MessagesBridgeState \<Rightarrow> TranslatedToolChoice adapter_result" where
  "translate_tool_choice tool_choice state =
     (let has_tools = (upstream_tools state \<noteq> None) in
      case tool_choice of
        String value \<Rightarrow> Inr (
          if value = ''auto'' then no_choice\<lparr>tc_value := if has_tools then Some (choice_type ''auto'') else None\<rparr>
          else if value = ''none'' then no_choice\<lparr>tc_value := if has_tools then Some (choice_type ''none'') else None\<rparr>
          else if value = ''required'' \<and> has_tools then no_choice\<lparr>tc_value := Some (choice_type ''any'')\<rparr>
          else no_choice)
      | Object value \<Rightarrow>
          let kind = get_str value ''type'' in
          if kind = Some ''function'' \<or> kind = Some ''custom'' then
            Inr (case selected_upstream_tool_name state value of
                None \<Rightarrow> no_choice
              | Some name \<Rightarrow> no_choice\<lparr>tc_value := Some (json [(''type'', String ''tool''), (''name'', String name)])\<rparr>)
          else if kind = Some ''namespace'' then
            and_then (ok_or unsupported_tool (namespace_of_choice value)) (\<lambda>namespace.
              let allowed_names = namespace_tool_names state namespace
              in Inr (if allowed_names = {||} then no_choice
                 else \<lparr>tc_value = Some (choice_type ''any''), tc_allowed_names = Some allowed_names\<rparr>))
          else if kind = Some ''allowed_tools'' then Inr (allowed_tools_choice state value)
          else Inr no_choice
      | _ \<Rightarrow> Inr no_choice)"

subsection \<open>Reasoning\<close>

definition requested_effort :: "Value option \<Rightarrow> string option" where
  "requested_effort reasoning =
     filter_option (\<lambda>effort. effort \<noteq> [] \<and> effort \<noteq> ''none'')
       (map_option (\<lambda>effort. to_ascii_lowercase (trim effort))
         (Option.bind reasoning (\<lambda>reasoning. value_str reasoning ''effort'')))"

definition budget_tokens_of :: "string \<Rightarrow> u64 option" where
  "budget_tokens_of effort =
     (if effort = ''minimal'' then Some 1024
      else if effort = ''low'' then Some 4096
      else if effort = ''high'' then Some 16384
      else if effort = ''xhigh'' then Some 24576
      else if effort = ''max'' \<or> effort = ''ultra'' then Some 32000
      else if effort = ''medium'' then Some 8192
      else None)"

definition adaptive_effort_of :: "string \<Rightarrow> string option" where
  "adaptive_effort_of effort =
     (if effort = ''minimal'' then Some ''low''
      else if effort = ''ultra'' then Some ''max''
      else if effort \<in> {''low'', ''medium'', ''high'', ''xhigh'', ''max''} then Some effort
      else None)"

definition without_sampling :: "object \<Rightarrow> object" where
  "without_sampling body = obj_remove ''top_p'' (obj_remove ''temperature'' body)"

definition apply_reasoning :: "object \<Rightarrow> Value option \<Rightarrow> MessagesReasoningMode \<Rightarrow> object adapter_result" where
  "apply_reasoning body reasoning mode =
     (case requested_effort reasoning of
        None \<Rightarrow> Inr body
      | Some effort \<Rightarrow>
          (case mode of
             ReasoningDisabled \<Rightarrow> Inl reasoning_unsupported
           | ReasoningBudget \<Rightarrow> and_then (ok_or reasoning_unsupported (budget_tokens_of effort)) (\<lambda>budget_tokens.
               let max_tokens = max (case Option.bind (obj_get body ''max_tokens'') as_u64 of None \<Rightarrow> 0 | Some n \<Rightarrow> n)
                     (budget_tokens + 1024);
                   body = obj_insert ''max_tokens'' (value_u64 max_tokens) body;
                   body = obj_insert ''thinking'' (json [(''type'', String ''enabled''),
                     (''budget_tokens'', value_u64 budget_tokens)]) body
               in Inr (without_sampling body))
           | ReasoningAdaptive \<Rightarrow> and_then (ok_or reasoning_unsupported (adaptive_effort_of effort)) (\<lambda>effort.
               let body = obj_insert ''thinking'' (json [(''type'', String ''adaptive'')]) body;
                   body = obj_insert ''output_config'' (json [(''effort'', String effort)]) body
               in Inr (without_sampling body))))"

subsection \<open>Cached prompts\<close>

datatype CacheWriteTtl = TtlProvider | FiveMinutes | OneHour

fun anthropic_ttl :: "CacheWriteTtl \<Rightarrow> string option" where
  "anthropic_ttl TtlProvider = None"
| "anthropic_ttl FiveMinutes = Some ''5m''"
| "anthropic_ttl OneHour = Some ''1h''"

definition cache_control :: "string \<Rightarrow> Value" where
  "cache_control ttl = json [(''type'', String ''ephemeral''), (''ttl'', String ttl)]"

fun set_cache_control :: "string \<Rightarrow> Value \<Rightarrow> Value \<times> bool" where
  "set_cache_control ttl (Object block) = (Object (obj_insert ''cache_control'' (cache_control ttl) block), True)"
| "set_cache_control ttl v = (v, False)"

definition set_last_cache_control :: "string \<Rightarrow> Value \<Rightarrow> Value \<times> bool" where
  "set_last_cache_control ttl value =
     (case value of
        Array blocks \<Rightarrow>
          if blocks = [] then (value, False)
          else (case set_cache_control ttl (last blocks) of (block, marked) \<Rightarrow> (Array (butlast blocks @ [block]), marked))
      | String text \<Rightarrow> (Array [json [(''type'', String ''text''), (''text'', String text),
          (''cache_control'', cache_control ttl)]], True)
      | _ \<Rightarrow> (value, False))"

definition has_cache_control :: "Value \<Rightarrow> bool" where
  "has_cache_control block \<longleftrightarrow> value_get block ''cache_control'' \<noteq> None"

text \<open>The loop over the blocks of an array: those already marked get the chosen lifetime.\<close>

fun remark_blocks :: "string \<Rightarrow> Value \<Rightarrow> Value \<times> bool" where
  "remark_blocks ttl (Array blocks) =
     (Array (map (\<lambda>block. if has_cache_control block then fst (set_cache_control ttl block) else block) blocks),
      list_ex has_cache_control blocks)"
| "remark_blocks ttl v = (v, False)"

text \<open>An update in place of a field that is present, with the flag it returns.\<close>

definition obj_modify :: "string \<Rightarrow> (Value \<Rightarrow> Value \<times> bool) \<Rightarrow> object \<Rightarrow> object \<times> bool" where
  "obj_modify key f object =
     (case obj_get object key of
        None \<Rightarrow> (object, False)
      | Some v \<Rightarrow> (case f v of (v', flag) \<Rightarrow> (obj_insert key v' object, flag)))"

definition value_modify :: "string \<Rightarrow> (Value \<Rightarrow> Value \<times> bool) \<Rightarrow> Value \<Rightarrow> Value \<times> bool" where
  "value_modify key f v = (case v of Object m \<Rightarrow> (case obj_modify key f m of (m', flag) \<Rightarrow> (Object m', flag)) | _ \<Rightarrow> (v, False))"

fun remark_messages :: "string \<Rightarrow> Value \<Rightarrow> Value \<times> bool" where
  "remark_messages ttl (Array messages) =
     (let rs = map (value_modify ''content'' (remark_blocks ttl)) messages in (Array (map fst rs), list_ex snd rs))"
| "remark_messages ttl v = (v, False)"

text \<open>The last message that has content, found from the end of the list.\<close>

fun mark_first_content :: "string \<Rightarrow> Value list \<Rightarrow> Value list" where
  "mark_first_content ttl [] = []"
| "mark_first_content ttl (message # messages) =
     (if value_get message ''content'' \<noteq> None
      then fst (value_modify ''content'' (set_last_cache_control ttl) message) # messages
      else message # mark_first_content ttl messages)"

fun mark_last_message :: "string \<Rightarrow> Value \<Rightarrow> Value \<times> bool" where
  "mark_last_message ttl (Array messages) = (Array (rev (mark_first_content ttl (rev messages))), True)"
| "mark_last_message ttl v = (v, False)"

definition apply_cache_write_ttl :: "Value \<Rightarrow> CacheWriteTtl \<Rightarrow> Value adapter_result" where
  "apply_cache_write_ttl body cache_write_ttl =
     (case anthropic_ttl cache_write_ttl of
        None \<Rightarrow> Inr body
      | Some ttl \<Rightarrow>
          and_then (ok_or invalid_request (as_object body)) (\<lambda>object.
          case obj_modify ''system'' (remark_blocks ttl) object of (object, updated_system) \<Rightarrow>
          case obj_modify ''tools'' (remark_blocks ttl) object of (object, updated_tools) \<Rightarrow>
          case obj_modify ''messages'' (remark_messages ttl) object of (object, updated_messages) \<Rightarrow>
          if updated_system \<or> updated_tools \<or> updated_messages then Inr (Object object)
          else
            case obj_modify ''system'' (set_last_cache_control ttl) object of (object, prefix_marked) \<Rightarrow>
            let object = (if prefix_marked then object else fst (obj_modify ''tools'' (set_last_cache_control ttl) object))
            in Inr (Object (fst (obj_modify ''messages'' (mark_last_message ttl) object)))))"

subsection \<open>The request\<close>

definition optional_field :: "object \<Rightarrow> string \<Rightarrow> string \<Rightarrow> object \<Rightarrow> object" where
  "optional_field object key target body =
     (case obj_get object key of None \<Rightarrow> body | Some v \<Rightarrow> obj_insert target v body)"

definition messages_body :: "object \<Rightarrow> string \<Rightarrow> bool \<Rightarrow> MessagesBridgeState \<Rightarrow> object" where
  "messages_body object model stream state =
     (let body = obj_of [(''model'', String model), (''messages'', Array (mb_messages state)), (''stream'', Bool stream),
            (''max_tokens'', (case obj_get object ''max_output_tokens'' of None \<Rightarrow> value_u64 8192 | Some v \<Rightarrow> v))];
          body = (case mb_system state of None \<Rightarrow> body | Some system \<Rightarrow> obj_insert ''system'' system body);
          body = (case upstream_tools state of None \<Rightarrow> body | Some tools \<Rightarrow> obj_insert ''tools'' (Array tools) body);
          body = (case mb_tool_choice state of None \<Rightarrow> body | Some choice \<Rightarrow> obj_insert ''tool_choice'' choice body);
          body = optional_field object ''temperature'' ''temperature'' body;
          body = optional_field object ''top_p'' ''top_p'' body
      in optional_field object ''stop'' ''stop_sequences'' body)"

definition initial_state :: "string \<Rightarrow> MessagesReasoningMode \<Rightarrow> string option \<Rightarrow> MessagesBridgeState option
    \<Rightarrow> MessagesBridgeState adapter_result" where
  "initial_state model reasoning_mode previous_response_id previous =
     and_then (case (previous_response_id, previous) of
         (Some _, Some state) \<Rightarrow> if mb_model state = model then Inr state else Inl continuation_mismatch
       | (Some _, None) \<Rightarrow> Inl continuation_missing
       | (None, _) \<Rightarrow> Inr (bridge_state_new model reasoning_mode))
       (\<lambda>state. if mb_reasoning_mode state \<noteq> reasoning_mode then Inl continuation_mismatch else Inr state)"

definition apply_instructions :: "adapter_env \<Rightarrow> object \<Rightarrow> string option \<Rightarrow> MessagesBridgeState
    \<Rightarrow> MessagesBridgeState adapter_result" where
  "apply_instructions env object previous_response_id state =
     (case (previous_response_id, obj_get object ''instructions'') of
        (None, Some instructions) \<Rightarrow> append_system_value env state instructions
      | (Some _, Some _) \<Rightarrow> Inl continuation_mismatch
      | (_, None) \<Rightarrow> Inr state)"

definition apply_tools :: "adapter_env \<Rightarrow> object \<Rightarrow> MessagesBridgeState \<Rightarrow> MessagesBridgeState adapter_result" where
  "apply_tools env object state =
     and_then (request_tool_catalog object) (\<lambda>catalog.
     and_then (case catalog of
         None \<Rightarrow> Inr state
       | Some tools \<Rightarrow> and_then (translate_tools env tools) (\<lambda>translated.
           Inr (state\<lparr>mb_tools := (if tt_upstream translated = [] then None else Some (tt_upstream translated)),
             mb_tool_targets := tt_client_tools translated, mb_tool_choice := None, mb_tool_allow_list := None\<rparr>)))
       (\<lambda>state. case obj_get object ''tool_choice'' of
           None \<Rightarrow> Inr state
         | Some tool_choice \<Rightarrow> and_then (translate_tool_choice tool_choice state) (\<lambda>translated.
             Inr (state\<lparr>mb_tool_choice := tc_value translated, mb_tool_allow_list := tc_allowed_names translated\<rparr>))))"

definition prepare_responses_to_messages ::
  "adapter_env \<Rightarrow> Value \<Rightarrow> string \<Rightarrow> bool \<Rightarrow> MessagesReasoningMode \<Rightarrow> CacheWriteTtl \<Rightarrow> MessagesBridgeState option
     \<Rightarrow> string \<Rightarrow> MessagesBridgeRequest adapter_result" where
  "prepare_responses_to_messages env request model stream reasoning_mode cache_write_ttl previous response_scope =
     and_then (ok_or invalid_request (as_object request)) (\<lambda>object.
     let previous_response_id = non_blank (get_str object ''previous_response_id'') in
     and_then (initial_state model reasoning_mode previous_response_id previous) (\<lambda>state.
     and_then (apply_instructions env object previous_response_id state) (\<lambda>state.
     and_then (apply_tools env object state) (\<lambda>state.
     and_then (ok_or invalid_request (obj_get object ''input'')) (\<lambda>input.
     and_then (append_responses_input env state input) (\<lambda>state.
     if mb_messages state = [] then Inl invalid_request
     else
       and_then (apply_reasoning (messages_body object model stream state) (obj_get object ''reasoning'') reasoning_mode) (\<lambda>body.
       and_then (apply_cache_write_ttl (Object body) cache_write_ttl) (\<lambda>upstream_body.
       Inr \<lparr>br_upstream_body = upstream_body, br_state = state, br_response_scope = trim response_scope\<rparr>))))))))"

end
