(* ===== verification/Messages_Correct.thy ===== *)
theory Messages_Correct
  imports Messages_Request
begin

section \<open>What the Messages adapter guarantees\<close>

text \<open>
  Tools keep their identity across the bridge: the catalogue sent upstream names every tool of the
  client at most once, a call of the upstream is handed to the client under the client's own name,
  and the client's record of the call becomes the same upstream call again. Tool results are sent
  only in answer to the calls of the message before them.
\<close>

subsection \<open>The tool catalogue\<close>

definition upstream_name_of :: "adapter_env \<Rightarrow> string option \<Rightarrow> string \<Rightarrow> string" where
  "upstream_name_of env namespace name =
     (case namespace of None \<Rightarrow> name | Some ns \<Rightarrow> bridged_namespace_tool_name env ns name)"

definition target_wf :: "adapter_env \<Rightarrow> string \<Rightarrow> ClientToolTarget \<Rightarrow> bool" where
  "target_wf env upstream_name t \<longleftrightarrow> upstream_name = upstream_name_of env (ct_namespace t) (ct_name t)
     \<and> non_blank (Some (ct_name t)) = Some (ct_name t)
     \<and> (\<forall>ns. ct_namespace t = Some ns \<longrightarrow> non_blank (Some ns) = Some ns)"

definition tools_wf :: "adapter_env \<Rightarrow> TranslatedTools \<Rightarrow> bool" where
  "tools_wf env tools \<longleftrightarrow>
     (\<forall>u t. bt_get (tt_client_tools tools) u = Some t \<longrightarrow> target_wf env u t)
     \<and> distinct (map (\<lambda>v. value_str v ''name'') (tt_upstream tools))
     \<and> (\<lambda>v. value_str v ''name'') ` set (tt_upstream tools) = Some ` dom (bt_get (tt_client_tools tools))"

lemma non_blank_idem: "non_blank s = Some t \<Longrightarrow> non_blank (Some t) = Some t"
  by (auto simp: non_blank_Some)

lemma translate_client_tool_wf:
  assumes wf: "tools_wf env tools" and ns: "\<forall>ns. namespace = Some ns \<longrightarrow> non_blank (Some ns) = Some ns"
    and tr: "translate_client_tool env namespace nd tools tool = Inr tools'"
  shows "tools_wf env tools'"
proof -
  obtain kind name where n: "non_blank (get_str tool ''name'') = Some name"
    and r: "(let upstream_name = (case namespace of None \<Rightarrow> name | Some ns \<Rightarrow> bridged_namespace_tool_name env ns name) in
     if bt_contains (tt_client_tools tools) upstream_name then Inl unsupported_tool
     else and_then (tool_input_schema kind tool) (\<lambda>schema.
       let translated = obj_of [(''name'', String upstream_name), (''input_schema'', schema)];
           translated = (case tool_description tool name namespace nd of
               None \<Rightarrow> translated | Some d \<Rightarrow> obj_insert ''description'' (String d) translated)
       in Inr (tools\<lparr>tt_client_tools := bt_insert upstream_name
              \<lparr>ct_kind = kind, ct_name = name, ct_namespace = namespace\<rparr> (tt_client_tools tools),
            tt_upstream := tt_upstream tools @ [Object translated]\<rparr>))) = Inr tools'"
    using tr by (auto simp only: translate_client_tool_def and_then_Inr ok_or_Inr)
  let ?u = "upstream_name_of env namespace name"
  obtain schema where new: "bt_get (tt_client_tools tools) ?u = None"
    and eq: "tools' = tools\<lparr>tt_client_tools := bt_insert ?u \<lparr>ct_kind = kind, ct_name = name, ct_namespace = namespace\<rparr>
      (tt_client_tools tools), tt_upstream := tt_upstream tools @ [Object (case tool_description tool name namespace nd of
          None \<Rightarrow> obj_of [(''name'', String ?u), (''input_schema'', schema)]
        | Some d \<Rightarrow> obj_insert ''description'' (String d) (obj_of [(''name'', String ?u), (''input_schema'', schema)]))]\<rparr>"
    using r by (auto simp: upstream_name_of_def [symmetric] and_then_Inr Let_def split: if_splits)
  obtain m where m: "get_str m ''name'' = Some ?u"
    and tools': "tools' = tools\<lparr>tt_client_tools := bt_insert ?u \<lparr>ct_kind = kind, ct_name = name, ct_namespace = namespace\<rparr>
      (tt_client_tools tools), tt_upstream := tt_upstream tools @ [Object m]\<rparr>"
    by (rule that [OF _ eq]) (simp add: get_str_def obj_get_of split: option.split)
  have names: "(\<lambda>v. value_str v ''name'') ` set (tt_upstream tools) = Some ` dom (bt_get (tt_client_tools tools))"
    and dist: "distinct (map (\<lambda>v. value_str v ''name'') (tt_upstream tools))"
    and all: "\<forall>u t. bt_get (tt_client_tools tools) u = Some t \<longrightarrow> target_wf env u t"
    using wf by (simp_all add: tools_wf_def)
  have "Some ?u \<notin> (\<lambda>v. value_str v ''name'') ` set (tt_upstream tools)" unfolding names using new by auto
  then have "distinct (map (\<lambda>v. value_str v ''name'') (tt_upstream tools'))" using dist m by (simp add: tools')
  moreover have "(\<lambda>v. value_str v ''name'') ` set (tt_upstream tools') = Some ` dom (bt_get (tt_client_tools tools'))"
    using names m by (auto simp: tools' dom_def)
  moreover have "target_wf env ?u \<lparr>ct_kind = kind, ct_name = name, ct_namespace = namespace\<rparr>"
    using ns non_blank_idem [OF n] by (simp add: target_wf_def)
  ultimately show ?thesis using all by (simp add: tools_wf_def tools')
qed

lemma translate_or_skip_wf:
  assumes "tools_wf env tools" "\<forall>ns. namespace = Some ns \<longrightarrow> non_blank (Some ns) = Some ns"
    and "translate_or_skip env namespace nd tools tool = Inr tools'"
  shows "tools_wf env tools'"
  using assms translate_client_tool_wf [OF assms(1,2)] by (auto simp: translate_or_skip_def split: sum.splits if_splits)

lemma translate_tool_wf:
  assumes wf: "tools_wf env tools" and tr: "translate_tool env tools tool = Inr tools'"
  shows "tools_wf env tools'"
proof -
  have child: "tools_wf env t'" if "tools_wf env t" "translate_child env ns nd t c = Inr t'" "non_blank (Some ns) = Some ns" for ns nd t c t'
    using that translate_or_skip_wf [of env t "Some ns" nd] by (auto simp: translate_child_def split: option.splits if_splits)
  have children: "tools_wf env t'" if "tools_wf env t" "try_fold (translate_child env ns nd) t cs = Inr t'" "non_blank (Some ns) = Some ns" for ns nd t cs t'
    using that(2,1) child [OF _ _ that(3)] by (rule try_fold_invariant)
  show ?thesis
  proof (cases "as_object tool")
    case None
    then show ?thesis using wf tr by (simp add: translate_tool_def)
  next
    case (Some m)
    show ?thesis
    proof (cases "get_str m ''type'' = Some ''function'' \<or> get_str m ''type'' = Some ''custom''")
      case True
      then show ?thesis using tr Some translate_or_skip_wf [OF wf, of None None m tools'] by (simp add: translate_tool_def)
    next
      case False
      then show ?thesis
        using tr Some wf children [OF wf _ non_blank_idem, of _ "non_blank (get_str m ''description'')" _ tools']
        by (cases "non_blank (get_str m ''name'')"; cases "Option.bind (obj_get m ''tools'') as_array")
          (auto simp: translate_tool_def Let_def split: if_splits)
    qed
  qed
qed

lemma translate_tools_wf:
  assumes "translate_tools env tools = Inr t"
  shows "tools_wf env t"
proof (rule try_fold_invariant [where P = "tools_wf env"])
  show "try_fold (translate_tool env) \<lparr>tt_upstream = [], tt_client_tools = bt_empty\<rparr> tools = Inr t"
    using assms by (simp add: translate_tools_def)
  show "tools_wf env \<lparr>tt_upstream = [], tt_client_tools = bt_empty\<rparr>" by (auto simp: tools_wf_def)
qed (rule translate_tool_wf)

text \<open>No tool makes the translation fail: what cannot be represented is left out.\<close>

lemma translate_client_tool_error:
  assumes "translate_client_tool env namespace nd tools tool = Inl e"
  shows "e = unsupported_tool"
proof -
  have def_err: "from_definition tool = Inl x \<Longrightarrow> x = unsupported_tool" for x
    by (auto simp: from_definition_def split: option.splits if_splits)
  have fun_err: "function_tool_schema tool = Inl x \<Longrightarrow> x = unsupported_tool" for x
    by (auto simp: function_tool_schema_def and_then_def ok_or_def Let_def split: option.splits if_splits sum.splits)
  have custom_err: "custom_tool_input_schema tool = Inl x \<Longrightarrow> x = unsupported_tool" for x
    by (auto simp: custom_tool_input_schema_def and_then_def ok_or_def Let_def split: option.splits if_splits sum.splits)
  have schema_err: "tool_input_schema kind tool = Inl x \<Longrightarrow> x = unsupported_tool" for kind x
    using fun_err custom_err by (auto simp: tool_input_schema_def split: ResponsesToolKind.splits if_splits)
  show ?thesis using assms def_err schema_err
    by (auto simp: translate_client_tool_def and_then_def ok_or_def Let_def split: option.splits if_splits sum.splits)
qed

lemma translate_or_skip_ok: "\<exists>t. translate_or_skip env namespace nd tools tool = Inr t"
  using translate_client_tool_error [of env namespace nd tools tool]
  by (auto simp: translate_or_skip_def is_route_incompatible_def unsupported_tool_def split: sum.split)

lemma try_fold_ok: "(\<And>s x. \<exists>t. f s x = Inr t) \<Longrightarrow> \<exists>t. try_fold f s xs = Inr t"
  by (induction xs arbitrary: s) (auto simp: and_then_Inr, metis and_then_simps(2))

lemma translate_tools_ok: "\<exists>t. translate_tools env tools = Inr t"
proof -
  have child: "\<exists>t. translate_child env ns nd s c = Inr t" for ns nd s c
    using translate_or_skip_ok by (auto simp: translate_child_def split: option.split)
  have "\<exists>t. translate_tool env s tool = Inr t" for s tool
    using translate_or_skip_ok try_fold_ok [OF child] by (auto simp: translate_tool_def Let_def split: option.split)
  then show ?thesis unfolding translate_tools_def by (rule try_fold_ok)
qed

subsection \<open>Tools of a prepared request\<close>

definition catalogue_wf :: "adapter_env \<Rightarrow> MessagesBridgeState \<Rightarrow> bool" where
  "catalogue_wf env state \<longleftrightarrow> (\<forall>u t. bt_get (mb_tool_targets state) u = Some t \<longrightarrow> target_wf env u t)"

lemma catalogue_wf_new [simp]: "catalogue_wf env (bridge_state_new model mode)"
  by (simp add: catalogue_wf_def bridge_state_new_def)

lemma catalogue_wf_cong: "mb_tool_targets s' = mb_tool_targets s \<Longrightarrow> catalogue_wf env s' = catalogue_wf env s"
  by (simp add: catalogue_wf_def)

text \<open>Building the conversation leaves the catalogue and the allowed names alone.\<close>

definition same_tools :: "MessagesBridgeState \<Rightarrow> MessagesBridgeState \<Rightarrow> bool" where
  "same_tools s s' \<longleftrightarrow> mb_tool_targets s' = mb_tool_targets s \<and> mb_tools s' = mb_tools s
     \<and> mb_tool_allow_list s' = mb_tool_allow_list s \<and> mb_model s' = mb_model s"

lemma same_tools_refl [simp]: "same_tools s s"
  by (simp add: same_tools_def)

lemma same_tools_trans: "same_tools s s' \<Longrightarrow> same_tools s' s'' \<Longrightarrow> same_tools s s''"
  by (simp add: same_tools_def)

lemma same_tools_push [simp]: "same_tools s (push_message m s)"
  by (simp add: same_tools_def push_message_def)

lemma same_tools_assistant: "same_tools s (append_assistant_content content s)"
  by (simp add: append_assistant_content_def)

lemma same_tools_system: "append_system_value env s v = Inr s' \<Longrightarrow> same_tools s s'"
  by (auto simp: append_system_value_def and_then_Inr same_tools_def split: if_splits option.splits Value.splits)

lemma same_tools_flush: "flush_tool_results s results = Inr s' \<Longrightarrow> same_tools s s'"
  by (auto simp: flush_tool_results_def and_then_Inr Let_def split: if_splits)

lemma same_tools_user: "append_user_blocks s bs = Inr s' \<Longrightarrow> same_tools s s'"
  by (auto simp: append_user_blocks_def split: if_splits)

lemma same_tools_item: "append_item env s item = Inr s' \<Longrightarrow> same_tools s s'"
  by (auto simp: append_item_def append_user_item_def append_assistant_from_responses_item_def append_assistant_tool_use_def
      append_assistant_content_def and_then_Inr Let_def split: if_splits option.splits
      dest: same_tools_user same_tools_system)

lemma same_tools_input_item: "append_input_item env (s, rs) item = Inr (s', rs') \<Longrightarrow> same_tools s s'"
  by (auto simp: append_input_item_def and_then_Inr split: if_splits dest!: same_tools_flush same_tools_item intro: same_tools_trans)

lemma same_tools_input:
  assumes "append_responses_input env s input = Inr s'"
  shows "same_tools s s'"
proof (cases input)
  case (Array items)
  then obtain t rs where f: "try_fold (append_input_item env) (s, []) items = Inr (t, rs)" and fl: "flush_tool_results t rs = Inr s'"
    using assms by (auto simp: and_then_Inr)
  have "same_tools s (fst (t, rs))"
    using f by (rule try_fold_invariant) (auto, metis same_tools_trans same_tools_input_item)
  then show ?thesis using same_tools_flush [OF fl] same_tools_trans by auto
qed (use assms in \<open>auto dest: same_tools_user\<close>)

lemma prepare_states:
  assumes "prepare_responses_to_messages env body model stream mode ttl previous scope = Inr request"
  obtains m s0 s1 s2 input where "body = Object m"
    "initial_state model mode (non_blank (get_str m ''previous_response_id'')) previous = Inr s0"
    "apply_instructions env m (non_blank (get_str m ''previous_response_id'')) s0 = Inr s1"
    "apply_tools env m s1 = Inr s2" "append_responses_input env s2 input = Inr (br_state request)"
    "obj_get m ''input'' = Some input"
  using assms by (auto simp: prepare_responses_to_messages_def and_then_Inr Let_def split: if_splits)

lemma initial_state_cases:
  assumes "initial_state model mode previous_response_id previous = Inr s"
  shows "previous = Some s \<or> s = bridge_state_new model mode"
  using assms by (auto simp: initial_state_def and_then_Inr split: option.splits if_splits)

lemma prepare_catalogue:
  assumes p: "prepare_responses_to_messages env body model stream mode ttl previous scope = Inr request"
    and prev: "\<And>s. previous = Some s \<Longrightarrow> catalogue_wf env s"
  shows "catalogue_wf env (br_state request)"
proof -
  obtain m s0 s1 s2 input where
    s0: "initial_state model mode (non_blank (get_str m ''previous_response_id'')) previous = Inr s0"
    and s1: "apply_instructions env m (non_blank (get_str m ''previous_response_id'')) s0 = Inr s1"
    and s2: "apply_tools env m s1 = Inr s2" and s3: "append_responses_input env s2 input = Inr (br_state request)"
    using p by (rule prepare_states)
  have "catalogue_wf env s0" using initial_state_cases [OF s0] prev by auto
  then have "catalogue_wf env s1"
    using s1 same_tools_system [of env s0 _ s1] by (auto simp: apply_instructions_def catalogue_wf_def same_tools_def split: option.splits)
  then have "catalogue_wf env s2"
    using s2 translate_tools_wf [of env]
    by (fastforce simp: apply_tools_def and_then_Inr catalogue_wf_def tools_wf_def split: option.splits)
  then show ?thesis using same_tools_input [OF s3] by (simp add: catalogue_wf_def same_tools_def)
qed

text \<open>
  The requests of a conversation: the first one, and each one that continues from the stored answer to
  the one before.
\<close>

inductive bridge_turn :: "adapter_env \<Rightarrow> MessagesBridgeRequest \<Rightarrow> bool" for env where
  first_turn: "prepare_responses_to_messages env body model stream mode ttl None scope = Inr request \<Longrightarrow> bridge_turn env request"
| next_turn: "bridge_turn env request \<Longrightarrow> translate_messages_response env request upstream = Inr r
    \<Longrightarrow> prepare_responses_to_messages env body model stream mode ttl (Some (bp_continuation r)) scope = Inr request'
    \<Longrightarrow> bridge_turn env request'"

lemma translate_continuation:
  assumes "translate_messages_response env request upstream = Inr r"
  shows "\<exists>content. bp_continuation r = append_assistant_content content (br_state request)"
  using assms by (auto simp: translate_messages_response_def and_then_Inr Let_def)

lemma turn_catalogue: "bridge_turn env request \<Longrightarrow> catalogue_wf env (br_state request)"
proof (induction rule: bridge_turn.induct)
  case (first_turn body model stream mode ttl scope request)
  then show ?case using prepare_catalogue by blast
next
  case (next_turn request upstream r body model stream mode ttl scope request')
  have "catalogue_wf env (bp_continuation r)"
    using translate_continuation [OF next_turn.hyps(2)] next_turn.IH
      same_tools_assistant [of "br_state request"] by (auto simp: same_tools_def catalogue_wf_def)
  then show ?case using prepare_catalogue [OF next_turn.hyps(3)] by simp
qed

subsection \<open>A tool call there and back\<close>

lemma catalogue_name: "catalogue_wf env s \<Longrightarrow> bt_get (mb_tool_targets s) u = Some t \<Longrightarrow> u = upstream_name_of env (ct_namespace t) (ct_name t)"
  unfolding catalogue_wf_def target_wf_def by blast

lemma upstream_tool_name_of_client_tool:
  assumes wf: "catalogue_wf env s" and t: "client_tool s u = Some t"
  shows "upstream_tool_name s (ct_namespace t) (ct_name t) = Some u"
proof -
  let ?P = "\<lambda>(v, tool). ct_namespace tool = ct_namespace t \<and> ct_name tool = ct_name t \<and> allows_tool_name s v"
  have u: "bt_get (mb_tool_targets s) u = Some t" "allows_tool_name s u"
    using t by (auto simp: client_tool_def split: if_splits)
  then have "(u, t) \<in> set (bt_entries (mb_tool_targets s))" by (simp add: bt_entries_iff)
  then have "find ?P (bt_entries (mb_tool_targets s)) \<noteq> None" using u(2) by (auto simp: find_None_iff)
  then obtain v tool where f: "find ?P (bt_entries (mb_tool_targets s)) = Some (v, tool)" by auto
  then have "(v, tool) \<in> set (bt_entries (mb_tool_targets s))" "?P (v, tool)"
    by (auto simp: find_Some_iff) (metis nth_mem)
  then have "v = upstream_name_of env (ct_namespace t) (ct_name t)"
    using catalogue_name [OF wf, of v tool] by (simp add: bt_entries_iff)
  moreover have "u = upstream_name_of env (ct_namespace t) (ct_name t)"
    by (rule catalogue_name [OF wf u(1)])
  ultimately have "v = u" by simp
  then show ?thesis using f by (simp add: upstream_tool_name_def)
qed

lemma custom_tool_input_object: "custom_tool_input v = Inr t \<Longrightarrow> v = json [(''input'', String t)]"
  by (auto simp: custom_tool_input_def and_then_Inr get_str_Some length_Suc_conv json_def obj_of_def obj_insert_def obj_get_def
      split: if_splits)

text \<open>The item the client gets for a call, and what it becomes when the client sends it back.\<close>

definition call_item :: "ClientToolTarget \<Rightarrow> string \<Rightarrow> string \<Rightarrow> Value" where
  "call_item t call_id s =
     with_namespace (ct_namespace t) (json [
       (''id'', String (case ct_kind t of FunctionTool \<Rightarrow> call_id | CustomTool \<Rightarrow> custom_tool_item_id call_id)),
       (''type'', String (response_item_type (ct_kind t))), (''status'', String ''completed''), (''call_id'', String call_id),
       (''name'', String (ct_name t)), (case ct_kind t of FunctionTool \<Rightarrow> ''arguments'' | CustomTool \<Rightarrow> ''input'', String s)])"

definition call_text :: "adapter_env \<Rightarrow> ResponsesToolKind \<Rightarrow> Value \<Rightarrow> string \<Rightarrow> bool" where
  "call_text env kind input s \<longleftrightarrow>
     (case kind of FunctionTool \<Rightarrow> env_to_string env input = Some s | CustomTool \<Rightarrow> custom_tool_input input = Inr s)"

lemma tool_output_item_cases:
  assumes "tool_output_item env s block = Inr item"
  obtains call_id name t input r where "non_blank (get_str block ''id'') = Some call_id" "non_blank (get_str block ''name'') = Some name"
    "client_tool s name = Some t" "obj_get block ''input'' = Some input" "is_object input"
    "call_text env (ct_kind t) input r" "item = call_item t call_id r"
proof -
  obtain call_id name t input where "non_blank (get_str block ''id'') = Some call_id" "non_blank (get_str block ''name'') = Some name"
    "client_tool s name = Some t" and i: "filter_option is_object (obj_get block ''input'') = Some input"
    using assms by (auto simp: tool_output_item_def and_then_Inr)
  moreover from i have "obj_get block ''input'' = Some input" "is_object input"
    by (auto simp: filter_option_def split: option.splits if_splits)
  moreover obtain r where "call_text env (ct_kind t) input r" "item = call_item t call_id r"
    using assms calculation
    by (cases "ct_kind t") (auto simp: tool_output_item_def and_then_Inr call_text_def call_item_def)
  ultimately show thesis using that by blast
qed

lemma get_with_namespace:
  "value_get (with_namespace ns (json es)) k = (if k = ''namespace'' \<and> ns \<noteq> None then map_option String ns else map_of (rev es) k)"
  by (cases ns) (simp_all add: with_namespace_def json_def obj_get_of)

lemma call_item_fields:
  "value_get (call_item t call_id s) ''type'' = Some (String (response_item_type (ct_kind t)))"
  "value_get (call_item t call_id s) ''call_id'' = Some (String call_id)"
  "value_get (call_item t call_id s) ''name'' = Some (String (ct_name t))"
  "value_get (call_item t call_id s) ''namespace'' = map_option String (ct_namespace t)"
  "value_get (call_item t call_id s) (case ct_kind t of FunctionTool \<Rightarrow> ''arguments'' | CustomTool \<Rightarrow> ''input'') = Some (String s)"
  by (cases "ct_namespace t"; cases "ct_kind t"; simp add: call_item_def get_with_namespace)+

lemma call_input_item:
  assumes "call_text env kind input s" "is_object input" "get_str item (case kind of FunctionTool \<Rightarrow> ''arguments'' | CustomTool \<Rightarrow> ''input'') = Some s"
    and "kind = FunctionTool \<Longrightarrow> env_from_slice env s = Some input"
  shows "call_input env kind item = Inr input"
  using assms custom_tool_input_object [of input s] by (cases kind) (auto simp: call_text_def call_input_def filter_option_def and_then_def)

text \<open>
  The item in a request of a conversation, with the tools of that request: it is accepted when the tool
  it names is still offered with the same kind, and then it is the call of that tool.
\<close>

definition tool_use_message :: "string \<Rightarrow> string \<Rightarrow> Value \<Rightarrow> Value" where
  "tool_use_message call_id name input = json [(''role'', String ''assistant''), (''content'', Array [json [
     (''type'', String ''tool_use''), (''id'', String call_id), (''name'', String name), (''input'', input)]])]"

definition still_offered :: "MessagesBridgeState \<Rightarrow> ClientToolTarget \<Rightarrow> string \<Rightarrow> bool" where
  "still_offered s t name \<longleftrightarrow> upstream_tool_name s (ct_namespace t) (ct_name t) = Some name \<and> client_tool_kind s name = Some (ct_kind t)"

lemma upstream_tool_name_unique:
  assumes "catalogue_wf env s" "upstream_tool_name s ns n = Some u"
  shows "u = upstream_name_of env ns n"
proof -
  let ?P = "\<lambda>(v, tool). ct_namespace tool = ns \<and> ct_name tool = n \<and> allows_tool_name s v"
  obtain t where f: "find ?P (bt_entries (mb_tool_targets s)) = Some (u, t)" using assms(2) by (auto simp: upstream_tool_name_def)
  then have "(u, t) \<in> set (bt_entries (mb_tool_targets s))" "?P (u, t)" by (auto simp: find_Some_iff) (metis nth_mem)
  then show ?thesis using catalogue_name [OF assms(1), of u t] by (simp add: bt_entries_iff)
qed

lemma call_item_back:
  assumes item: "Object item = call_item t call_id r" and target: "target_wf env name t" and c: "non_blank (Some call_id) = Some call_id"
    and r: "call_text env (ct_kind t) input r" "is_object input" "env_to_string env input = Some r \<longrightarrow> env_from_slice env r = Some input"
    and wf: "catalogue_wf env s"
  shows "append_assistant_tool_use env s item =
    (if still_offered s t name then Inr (push_message (tool_use_message call_id name input) s) else Inl invalid_request)"
proof -
  have get: "obj_get item k = value_get (call_item t call_id r) k" for k using item by (metis value_get_Object)
  have kind: "from_call_item item = Inr (ct_kind t)"
    by (cases "ct_kind t"; simp add: from_call_item_def get_str_def get call_item_fields)
  have ids: "non_blank (Option.bind (or_value (obj_get item ''call_id'') (obj_get item ''id'')) as_str) = Some call_id"
    "non_blank (get_str item ''name'') = Some (ct_name t)"
    using c target by (simp_all add: get get_str_def call_item_fields or_value_def target_wf_def)
  have ns: "optional_namespace item = Inr (ct_namespace t)"
    using target by (cases "ct_namespace t") (simp_all add: optional_namespace_def get call_item_fields target_wf_def)
  have ci: "call_input env (ct_kind t) item = Inr input"
  proof (rule call_input_item [OF r(1,2)])
    show "get_str item (case ct_kind t of FunctionTool \<Rightarrow> ''arguments'' | CustomTool \<Rightarrow> ''input'') = Some r"
      by (simp add: get get_str_def call_item_fields)
    show "env_from_slice env r = Some input" if "ct_kind t = FunctionTool" using r that by (simp add: call_text_def)
  qed
  have "upstream_tool_name s (ct_namespace t) (ct_name t) = Some u \<Longrightarrow> u = name" for u
    using upstream_tool_name_unique [OF wf] target by (simp add: target_wf_def)
  then show ?thesis
    by (cases "upstream_tool_name s (ct_namespace t) (ct_name t)")
      (auto simp: append_assistant_tool_use_def kind ids ns ci still_offered_def tool_use_message_def)
qed

text \<open>Messages are only added.\<close>

lemma messages_kept_flush: "flush_tool_results s rs = Inr s' \<Longrightarrow> set (mb_messages s) \<subseteq> set (mb_messages s')"
  by (auto simp: flush_tool_results_def push_message_def and_then_Inr Let_def split: if_splits)

lemma messages_kept_system: "append_system_value env s v = Inr s' \<Longrightarrow> set (mb_messages s) \<subseteq> set (mb_messages s')"
  by (auto simp: append_system_value_def and_then_Inr split: if_splits option.splits Value.splits)

lemma messages_kept_item: "append_item env s item = Inr s' \<Longrightarrow> set (mb_messages s) \<subseteq> set (mb_messages s')"
  by (auto simp: append_item_def append_user_item_def append_user_blocks_def append_assistant_from_responses_item_def
      append_assistant_tool_use_def append_assistant_content_def push_message_def and_then_Inr Let_def split: if_splits option.splits
      dest: messages_kept_system)

lemma messages_kept_input_item: "append_input_item env acc item = Inr acc' \<Longrightarrow> set (mb_messages (fst acc)) \<subseteq> set (mb_messages (fst acc'))"
  by (auto simp: append_input_item_def and_then_Inr split: if_splits prod.splits dest!: messages_kept_flush messages_kept_item)

lemma call_in_input:
  assumes item: "Object item = call_item t call_id r" and inputs: "Object item \<in> set inputs"
    and input: "append_responses_input env s (Array inputs) = Inr s'"
    and again: "\<And>u. same_tools s u \<Longrightarrow> append_assistant_tool_use env u item = (if P u then Inr (push_message m u) else Inl e)"
  shows "m \<in> set (mb_messages s')"
proof -
  have get: "obj_get item k = value_get (call_item t call_id r) k" for k using item by (metis value_get_Object)
  have fields: "get_str item ''role'' = None" "get_str item ''type'' = Some (response_item_type (ct_kind t))"
    by (cases "ct_namespace t"; cases "ct_kind t"; simp add: get_str_def get call_item_def get_with_namespace)+
  obtain t1 rs where f: "try_fold (append_input_item env) (s, []) inputs = Inr (t1, rs)" and fl: "flush_tool_results t1 rs = Inr s'"
    using input by (auto simp: and_then_Inr)
  obtain xs ys where split: "inputs = xs @ Object item # ys" using inputs by (meson split_list)
  obtain acc1 acc2 where 1: "try_fold (append_input_item env) (s, []) xs = Inr acc1"
    and 2: "append_input_item env acc1 (Object item) = Inr acc2" and 3: "try_fold (append_input_item env) acc2 ys = Inr (t1, rs)"
    using f by (auto simp: split try_fold_append and_then_Inr)
  have "same_tools s (fst acc1)"
    using 1 by (rule try_fold_invariant) (auto, metis same_tools_trans same_tools_input_item)
  moreover obtain u where u: "flush_tool_results (fst acc1) (snd acc1) = Inr u" "append_item env u item = Inr (fst acc2)"
    using 2 fields by (cases "ct_kind t") (auto simp: append_input_item_def and_then_Inr is_output_item_def split: prod.splits)
  ultimately have "same_tools s u" using same_tools_flush [OF u(1)] same_tools_trans by blast
  then have "fst acc2 = push_message m u"
    using again [of u] u(2) fields by (cases "ct_kind t") (auto simp: append_item_def Let_def split: if_splits)
  then have "m \<in> set (mb_messages (fst acc2))" by (simp add: push_message_def)
  then have "m \<in> set (mb_messages (fst (t1, rs)))"
    using try_fold_invariant [OF 3, of "\<lambda>acc. m \<in> set (mb_messages (fst acc))"] messages_kept_input_item by blast
  then show ?thesis using messages_kept_flush [OF fl] by auto
qed

lemma call_in_request:
  assumes p: "prepare_responses_to_messages env body model stream mode ttl previous scope = Inr request"
    and wf: "catalogue_wf env (br_state request)" and inputs: "value_array body ''input'' = Some inputs" "Object item \<in> set inputs"
    and item: "Object item = call_item t call_id r" and target: "target_wf env name t" and c: "non_blank (Some call_id) = Some call_id"
    and r: "call_text env (ct_kind t) input r" "is_object input" "env_to_string env input = Some r \<longrightarrow> env_from_slice env r = Some input"
  shows "tool_use_message call_id name input \<in> set (mb_messages (br_state request))"
proof -
  obtain m s0 s1 s2 v where "body = Object m" "obj_get m ''input'' = Some v" and v: "append_responses_input env s2 v = Inr (br_state request)"
    using p by (rule prepare_states)
  then have v: "append_responses_input env s2 (Array inputs) = Inr (br_state request)" using inputs(1) by (simp add: value_array_def)
  have "catalogue_wf env s2" using same_tools_input [OF v] wf by (simp add: catalogue_wf_def same_tools_def)
  then have "catalogue_wf env u" if "same_tools s2 u" for u using that by (simp add: catalogue_wf_def same_tools_def)
  from call_in_input [OF item inputs(2) v, OF call_item_back [OF item target c r this]] show ?thesis .
qed

text \<open>The calls of an answer among the items of its translation.\<close>

lemma flush_text_keeps: "set (oa_output acc) \<subseteq> set (oa_output (flush_text acc))"
  by (auto simp: flush_text_def)

lemma output_block_keeps: "output_block env state acc block = Inr acc' \<Longrightarrow> set (oa_output acc) \<subseteq> set (oa_output acc')"
  using flush_text_keeps [of acc] by (auto simp: output_block_def and_then_Inr Let_def split: if_splits)

lemma output_block_calls:
  assumes "try_fold (output_block env state) acc content = Inr acc'" "Object block \<in> set content" "get_str block ''type'' = Some ''tool_use''"
  shows "\<exists>item. tool_output_item env state block = Inr item \<and> item \<in> set (oa_output acc')"
proof -
  obtain xs ys where split: "content = xs @ Object block # ys" using assms(2) by (meson split_list)
  obtain acc1 acc2 where b: "output_block env state acc1 (Object block) = Inr acc2" and ys: "try_fold (output_block env state) acc2 ys = Inr acc'"
    using assms(1) by (auto simp: split try_fold_append and_then_Inr)
  obtain item where i: "tool_output_item env state block = Inr item" "item \<in> set (oa_output acc2)"
    using b assms(3) by (auto simp: output_block_def and_then_Inr Let_def)
  have "item \<in> set (oa_output acc')"
    using try_fold_invariant [OF ys, of "\<lambda>acc. item \<in> set (oa_output acc)"] i(2) output_block_keeps by blast
  then show ?thesis using i(1) by blast
qed

lemma number_messages_keeps: "item \<in> set items \<Longrightarrow> value_str item ''type'' \<noteq> Some ''message'' \<Longrightarrow> item \<in> set (number_messages rid n items)"
  by (induction rid n items rule: number_messages.induct) (auto split: option.split)

lemma call_item_Object: "\<exists>item. call_item t call_id r = Object item"
  by (cases "ct_namespace t") (simp_all add: call_item_def with_namespace_def json_def)

lemma call_in_response:
  assumes tr: "translate_messages_response env request upstream = Inr r" and content: "value_array upstream ''content'' = Some content"
    and block: "Object block \<in> set content" "get_str block ''type'' = Some ''tool_use''"
  obtains call_id name t input printed item items where "non_blank (get_str block ''id'') = Some call_id" "non_blank (get_str block ''name'') = Some name"
    "client_tool (br_state request) name = Some t" "obj_get block ''input'' = Some input" "is_object input"
    "call_text env (ct_kind t) input printed" "Object item = call_item t call_id printed"
    "value_array (bp_response_body r) ''output'' = Some items" "Object item \<in> set items"
proof -
  obtain acc rid where f: "try_fold (output_block env (br_state request)) empty_acc content = Inr acc"
    and items: "value_array (bp_response_body r) ''output'' = Some (number_messages rid 0 (oa_output (flush_text acc)))"
    using tr content by (auto simp: translate_messages_response_def responses_output_from_messages_content_def set_message_output_id_def
        response_body_def value_array_def [of "json _"] and_then_Inr Let_def split: if_splits)
  obtain i where i: "tool_output_item env (br_state request) block = Inr i" "i \<in> set (oa_output acc)"
    using output_block_calls [OF f block] by blast
  from i(1) obtain call_id name t input printed where c: "non_blank (get_str block ''id'') = Some call_id" "non_blank (get_str block ''name'') = Some name"
    "client_tool (br_state request) name = Some t" "obj_get block ''input'' = Some input" "is_object input"
    "call_text env (ct_kind t) input printed" and e: "i = call_item t call_id printed" by (rule tool_output_item_cases)
  obtain item where item: "Object item = call_item t call_id printed" using call_item_Object by metis
  have "value_str i ''type'' \<noteq> Some ''message''" by (cases "ct_kind t") (simp_all add: e value_str_def call_item_fields)
  then have "Object item \<in> set (number_messages rid 0 (oa_output (flush_text acc)))"
    using i(2) flush_text_keeps [of acc] e item number_messages_keeps by auto
  then show thesis using that c item items by blast
qed

text \<open>
  C35 (roundtrip). A tool call of an upstream answer that is translated for the client comes out as an
  output item, and whenever the client sends that item back in the input of a later request of a
  conversation and the request is accepted, the conversation sent upstream contains exactly the call
  the upstream made: the same call identifier, the same upstream tool, the same input. With the tools
  of any request the item is accepted when they still offer the tool under its namespace and name with
  the same kind, as the request that was answered does, and refused as invalid otherwise. The input has to survive being printed and read as
  JSON.
\<close>

theorem tool_call_roundtrip:
  assumes "bridge_turn env request" "translate_messages_response env request upstream = Inr r"
    and "value_array upstream ''content'' = Some content" "Object block \<in> set content" "get_str block ''type'' = Some ''tool_use''"
    and "\<forall>v s. obj_get block ''input'' = Some v \<and> env_to_string env v = Some s \<longrightarrow> env_from_slice env s = Some v"
  shows "\<exists>call_id name t input item items.
    non_blank (get_str block ''id'') = Some call_id \<and> non_blank (get_str block ''name'') = Some name
    \<and> client_tool (br_state request) name = Some t \<and> obj_get block ''input'' = Some input
    \<and> value_array (bp_response_body r) ''output'' = Some items \<and> Object item \<in> set items \<and> get_str item ''call_id'' = Some call_id
    \<and> still_offered (br_state request) t name
    \<and> (\<forall>request'. bridge_turn env request' \<longrightarrow> append_assistant_tool_use env (br_state request') item =
        (if still_offered (br_state request') t name then Inr (push_message (tool_use_message call_id name input) (br_state request'))
         else Inl invalid_request))
    \<and> (\<forall>body model stream mode ttl previous scope request' inputs.
        prepare_responses_to_messages env body model stream mode ttl previous scope = Inr request' \<and> bridge_turn env request'
        \<and> value_array body ''input'' = Some inputs \<and> Object item \<in> set inputs
        \<longrightarrow> tool_use_message call_id name input \<in> set (mb_messages (br_state request')))"
proof -
  obtain call_id name t input printed item items where c: "non_blank (get_str block ''id'') = Some call_id" "non_blank (get_str block ''name'') = Some name"
    and t: "client_tool (br_state request) name = Some t" and input: "obj_get block ''input'' = Some input" "is_object input"
    and printed: "call_text env (ct_kind t) input printed" and item: "Object item = call_item t call_id printed"
    and items: "value_array (bp_response_body r) ''output'' = Some items" "Object item \<in> set items"
    using assms(2-5) by (rule call_in_response)
  have json: "env_to_string env input = Some printed \<longrightarrow> env_from_slice env printed = Some input" using assms(6) input(1) by blast
  have target: "target_wf env name t"
    using turn_catalogue [OF assms(1)] t by (auto simp: catalogue_wf_def client_tool_def split: if_splits)
  have "still_offered (br_state request) t name"
    using upstream_tool_name_of_client_tool [OF turn_catalogue [OF assms(1)] t] t by (simp add: still_offered_def client_tool_kind_def)
  note id = non_blank_idem [OF c(1)]
  have "value_str (Object item) ''call_id'' = Some call_id" unfolding item by (simp add: value_str_def call_item_fields)
  then have "get_str item ''call_id'' = Some call_id" by (simp add: value_str_def get_str_def)
  moreover note \<open>still_offered (br_state request) t name\<close>
  moreover have "append_assistant_tool_use env (br_state request') item =
      (if still_offered (br_state request') t name then Inr (push_message (tool_use_message call_id name input) (br_state request'))
       else Inl invalid_request)" if "bridge_turn env request'" for request'
    by (rule call_item_back [OF item target id printed input(2) json turn_catalogue [OF that]])
  moreover have "tool_use_message call_id name input \<in> set (mb_messages (br_state request'))"
    if "prepare_responses_to_messages env body model stream mode ttl previous scope = Inr request' \<and> bridge_turn env request'
      \<and> value_array body ''input'' = Some inputs \<and> Object item \<in> set inputs" for body model stream mode ttl previous scope request' inputs
    using call_in_request [OF _ turn_catalogue _ _ item target id printed input(2) json] that by blast
  ultimately show ?thesis using c t input(1) items by blast
qed

text \<open>A client with a custom tool and a function tool, and the printed arguments of one call.\<close>

definition wit_arguments :: Value where
  "wit_arguments = json [(''path'', String ''a'')]"

definition wit_arguments_text :: string where
  "wit_arguments_text = ''{'' @ [CHR 0x22] @ ''path'' @ [CHR 0x22] @ '':'' @ [CHR 0x22] @ ''a'' @ [CHR 0x22] @ ''}''"

definition wit_tools_env :: adapter_env where
  "wit_tools_env = \<lparr>env_from_slice = \<lambda>s. if s = wit_arguments_text then Some wit_arguments else None,
     env_to_string = \<lambda>v. if v = wit_arguments then Some wit_arguments_text else None, env_sha256 = \<lambda>s. s,
     env_hex = \<lambda>s. s, env_base64 = \<lambda>_. None\<rparr>"

definition wit_tools :: Value where
  "wit_tools = Array [json [(''type'', String ''custom''), (''name'', String ''patch'')],
     json [(''type'', String ''function''), (''name'', String ''read'')]]"

definition wit_tools_body :: Value where
  "wit_tools_body = json [(''input'', String ''hi''), (''tools'', wit_tools)]"

definition wit_call_block :: object where
  "wit_call_block = obj_of [(''type'', String ''tool_use''), (''id'', String ''c1''), (''name'', String ''patch''),
     (''input'', json [(''input'', String ''x'')])]"

definition wit_read_block :: object where
  "wit_read_block = obj_of [(''type'', String ''tool_use''), (''id'', String ''c2''), (''name'', String ''read''), (''input'', wit_arguments)]"

definition wit_read_answer :: Value where
  "wit_read_answer = json [(''id'', String ''u''), (''content'', Array [Object wit_read_block])]"

definition wit_read_item :: Value where
  "wit_read_item = json [(''id'', String ''c2''), (''type'', String ''function_call''), (''status'', String ''completed''),
     (''call_id'', String ''c2''), (''name'', String ''read''), (''arguments'', String wit_arguments_text)]"

definition wit_resent_body :: Value where
  "wit_resent_body = json [(''tools'', wit_tools), (''input'', Array [json [(''role'', String ''user''), (''content'', String ''hi'')], wit_read_item])]"

theorem tool_call_roundtrip_witness:
  "\<exists>request r request'. prepare_responses_to_messages wit_tools_env wit_tools_body ''m'' False ReasoningDisabled TtlProvider None [] = Inr request
     \<and> translate_messages_response wit_tools_env request wit_read_answer = Inr r
     \<and> value_array (bp_response_body r) ''output'' = Some [wit_read_item]
     \<and> prepare_responses_to_messages wit_tools_env wit_resent_body ''m'' False ReasoningDisabled TtlProvider None [] = Inr request'
     \<and> tool_use_message ''c2'' ''read'' wit_arguments \<in> set (mb_messages (br_state request'))"
proof -
  let ?p = "prepare_responses_to_messages wit_tools_env wit_tools_body ''m'' False ReasoningDisabled TtlProvider None []"
  let ?n = "prepare_responses_to_messages wit_tools_env wit_resent_body ''m'' False ReasoningDisabled TtlProvider None []"
  have "case ?p of Inl _ \<Rightarrow> False | Inr request \<Rightarrow> (case translate_messages_response wit_tools_env request wit_read_answer of
      Inl _ \<Rightarrow> False | Inr r \<Rightarrow> value_array (bp_response_body r) ''output'' = Some [wit_read_item])" by code_simp
  then obtain request r where p: "?p = Inr request" and t: "translate_messages_response wit_tools_env request wit_read_answer = Inr r"
    and o: "value_array (bp_response_body r) ''output'' = Some [wit_read_item]" by (auto split: sum.splits)
  have "case ?n of Inl _ \<Rightarrow> False | Inr _ \<Rightarrow> True" by code_simp
  then obtain request' where n: "?n = Inr request'" by (auto split: sum.splits)
  have b: "value_array wit_read_answer ''content'' = Some [Object wit_read_block]" "get_str wit_read_block ''type'' = Some ''tool_use''"
    "non_blank (get_str wit_read_block ''id'') = Some ''c2''" "non_blank (get_str wit_read_block ''name'') = Some ''read''"
    "obj_get wit_read_block ''input'' = Some wit_arguments"
    "value_array wit_resent_body ''input'' = Some [json [(''role'', String ''user''), (''content'', String ''hi'')], wit_read_item]"
    by code_simp+
  have json: "\<forall>v s. obj_get wit_read_block ''input'' = Some v \<and> env_to_string wit_tools_env v = Some s \<longrightarrow> env_from_slice wit_tools_env s = Some v"
    using b(5) by (simp add: wit_tools_env_def)
  obtain item where "Object item = wit_read_item"
    and again: "\<And>body model stream mode ttl previous scope request' inputs.
        prepare_responses_to_messages wit_tools_env body model stream mode ttl previous scope = Inr request' \<and> bridge_turn wit_tools_env request'
        \<and> value_array body ''input'' = Some inputs \<and> Object item \<in> set inputs
        \<Longrightarrow> tool_use_message ''c2'' ''read'' wit_arguments \<in> set (mb_messages (br_state request'))"
    using tool_call_roundtrip [OF first_turn [OF p] t b(1) _ b(2) json] b(3-5) o by fastforce
  then show ?thesis using p t o n again [of wit_resent_body] first_turn [OF n] b(6) by auto
qed

subsection \<open>The calls of a response\<close>

definition block_call_id :: "Value \<Rightarrow> string option" where
  "block_call_id block = (if value_str block ''type'' = Some ''tool_use'' then non_blank (value_str block ''id'') else None)"

definition item_call_id :: "Value \<Rightarrow> string option" where
  "item_call_id item = value_str item ''call_id''"

definition known_item :: "MessagesBridgeState \<Rightarrow> Value \<Rightarrow> bool" where
  "known_item state item \<longleftrightarrow> value_str item ''type'' = Some ''message''
     \<or> (\<exists>u t call_id s. client_tool state u = Some t \<and> item = call_item t call_id s)"

lemma validate_distinct:
  "try_fold (validate_block state) seen content = Inr seen' \<Longrightarrow>
   distinct (List.map_filter block_call_id content) \<and> (\<forall>i \<in> set (List.map_filter block_call_id content). i |\<notin>| seen)"
proof (induction content arbitrary: seen)
  case (Cons b content)
  then obtain seen1 where v: "validate_block state seen b = Inr seen1" and r: "try_fold (validate_block state) seen1 content = Inr seen'"
    by (auto simp: and_then_Inr)
  have IH: "distinct (List.map_filter block_call_id content) \<and> (\<forall>i \<in> set (List.map_filter block_call_id content). i |\<notin>| seen1)"
    by (rule Cons.IH [OF r])
  obtain m where m: "b = Object m" using v by (auto simp: validate_block_def and_then_Inr)
  show ?case
  proof (cases "get_str m ''type'' = Some ''tool_use''")
    case True
    then obtain i where "block_call_id b = Some i" "seen1 = finsert i seen" "i |\<notin>| seen"
      using v by (auto simp: m validate_block_def and_then_Inr block_call_id_def split: if_splits option.splits)
    then show ?thesis using IH by (auto simp: map_filter_simps)
  next
    case False
    then have "block_call_id b = None" "seen1 = seen" using v by (auto simp: m validate_block_def and_then_Inr block_call_id_def)
    then show ?thesis using IH by (auto simp: map_filter_simps)
  qed
qed (simp add: map_filter_simps)

lemma map_filter_append: "List.map_filter f (xs @ ys) = List.map_filter f xs @ List.map_filter f ys"
  by (simp add: map_filter_def)

lemma item_call_id_call [simp]: "item_call_id (call_item t call_id s) = Some call_id"
  by (simp add: item_call_id_def value_str_def call_item_fields)

lemma flush_text_items:
  "List.map_filter item_call_id (oa_output (flush_text acc)) = List.map_filter item_call_id (oa_output acc)"
  "list_all (known_item state) (oa_output (flush_text acc)) = list_all (known_item state) (oa_output acc)"
  by (auto simp: flush_text_def map_filter_def item_call_id_def known_item_def value_str_def)

lemma output_block_items:
  assumes "output_block env state acc block = Inr acc'" "list_all (known_item state) (oa_output acc)"
  shows "list_all (known_item state) (oa_output acc')
    \<and> List.map_filter item_call_id (oa_output acc') = List.map_filter item_call_id (oa_output acc) @ List.map_filter block_call_id [block]"
proof -
  obtain m where m: "block = Object m" using assms(1) by (auto simp: output_block_def and_then_Inr)
  show ?thesis
  proof (cases "get_str m ''type'' = Some ''tool_use''")
    case True
    then obtain item where i: "tool_output_item env state m = Inr item" and a: "oa_output acc' = oa_output (flush_text acc) @ [item]"
      using assms(1) by (auto simp: m output_block_def and_then_Inr Let_def)
    from i obtain call_id name t input r where c: "non_blank (get_str m ''id'') = Some call_id" and t: "client_tool state name = Some t"
      and e: "item = call_item t call_id r" by (rule tool_output_item_cases)
    have "known_item state item" unfolding known_item_def using t e by blast
    then show ?thesis using assms(2) True c e
      by (simp add: a m flush_text_items block_call_id_def map_filter_append map_filter_simps)
  next
    case False
    then show ?thesis using assms
      by (auto simp: m output_block_def and_then_Inr Let_def block_call_id_def map_filter_simps split: if_splits)
  qed
qed

lemma output_blocks_items:
  "try_fold (output_block env state) acc content = Inr acc' \<Longrightarrow> list_all (known_item state) (oa_output acc) \<Longrightarrow>
   list_all (known_item state) (oa_output acc')
   \<and> List.map_filter item_call_id (oa_output acc') = List.map_filter item_call_id (oa_output acc) @ List.map_filter block_call_id content"
proof (induction content arbitrary: acc)
  case (Cons b content)
  then obtain acc1 where 1: "output_block env state acc b = Inr acc1" and 2: "try_fold (output_block env state) acc1 content = Inr acc'"
    by (auto simp: and_then_Inr)
  show ?case using output_block_items [OF 1 Cons.prems(2)] Cons.IH [OF 2] by (simp add: map_filter_def)
qed (simp add: map_filter_simps)

lemma number_messages_ids: "List.map_filter item_call_id (number_messages rid n items) = List.map_filter item_call_id items"
  by (induction rid n items rule: number_messages.induct)
    (auto simp: map_filter_simps item_call_id_def get_str_def split: option.split)

lemma number_messages_known:
  "list_all (known_item state) items \<Longrightarrow> list_all (known_item state) (number_messages rid n items)"
proof (induction items arbitrary: n)
  case (Cons item items)
  have "known_item state (Object (obj_insert ''id'' v m))" if "value_str (Object m) ''type'' = Some ''message''" for v m
    using that by (simp add: known_item_def get_str_def)
  then show ?case using Cons by (auto split: option.split)
qed simp

text \<open>
  C37 (safety). In a translated response every output item is a message or a call of a tool that the
  request offered: it carries the kind, name and namespace the client gave the tool, whatever name the
  upstream used. No two calls share an identifier.
\<close>

theorem translated_calls_are_offered:
  assumes "translate_messages_response env request upstream = Inr r"
  shows "\<exists>items. value_array (bp_response_body r) ''output'' = Some items \<and> items \<noteq> []
    \<and> distinct (List.map_filter (\<lambda>item. value_str item ''call_id'') items)
    \<and> (\<forall>item \<in> set items. value_str item ''type'' = Some ''message''
        \<or> (\<exists>u t. client_tool (br_state request) u = Some t
             \<and> value_str item ''type'' = Some (response_item_type (ct_kind t))
             \<and> value_str item ''name'' = Some (ct_name t) \<and> value_str item ''namespace'' = ct_namespace t))"
proof -
  obtain u content out kept where v: "validate_messages_tool_calls (br_state request) content = Inr ()"
    and o: "responses_output_from_messages_content env content (br_state request) = Inr (out, kept)"
    and b: "value_get (bp_response_body r) ''output'' = Some (Array (set_message_output_id out (bridged_response_id_scoped env (br_response_scope request) u)))"
    using assms by (fastforce simp: translate_messages_response_def and_then_Inr Let_def response_body_def)
  let ?items = "set_message_output_id out (bridged_response_id_scoped env (br_response_scope request) u)"
  obtain acc where f: "try_fold (output_block env (br_state request)) empty_acc content = Inr acc" and out: "out = oa_output (flush_text acc)" "out \<noteq> []"
    using o by (auto simp: responses_output_from_messages_content_def and_then_Inr Let_def split: if_splits)
  have ids: "List.map_filter item_call_id out = List.map_filter block_call_id content" and known: "list_all (known_item (br_state request)) out"
    using output_blocks_items [OF f] by (simp_all add: out flush_text_items empty_acc_def map_filter_simps)
  obtain seen where "try_fold (validate_block (br_state request)) {||} content = Inr seen"
    using v by (auto simp: validate_messages_tool_calls_def and_then_Inr)
  then have "distinct (List.map_filter item_call_id ?items)"
    using validate_distinct ids number_messages_ids by (metis set_message_output_id_def)
  moreover have "?items \<noteq> []" using out(2) by (cases out) (auto simp: set_message_output_id_def split: option.split)
  moreover have "\<forall>item \<in> set ?items. known_item (br_state request) item"
    using number_messages_known [OF known] by (simp add: set_message_output_id_def list_all_iff)
  moreover have "value_str (call_item t call_id s) ''type'' = Some (response_item_type (ct_kind t))
      \<and> value_str (call_item t call_id s) ''name'' = Some (ct_name t) \<and> value_str (call_item t call_id s) ''namespace'' = ct_namespace t" for t call_id s
    by (cases "ct_namespace t") (simp_all add: value_str_def call_item_fields)
  ultimately show ?thesis
    using b by (simp add: value_array_def item_call_id_def [abs_def] known_item_def) blast
qed

definition wit_upstream :: Value where
  "wit_upstream = json [(''id'', String ''u''), (''content'', Array [Object wit_call_block])]"

theorem translated_calls_are_offered_witness:
  "\<exists>request r items. translate_messages_response wit_tools_env request wit_upstream = Inr r
     \<and> value_array (bp_response_body r) ''output'' = Some items \<and> items \<noteq> []"
proof -
  let ?p = "prepare_responses_to_messages wit_tools_env wit_tools_body ''m'' False ReasoningDisabled TtlProvider None []"
  have "case ?p of Inl _ \<Rightarrow> False | Inr request \<Rightarrow> (case translate_messages_response wit_tools_env request wit_upstream of
      Inl _ \<Rightarrow> False | Inr r \<Rightarrow> True)" by code_simp
  then obtain request r where "translate_messages_response wit_tools_env request wit_upstream = Inr r"
    by (auto split: sum.splits)
  from translated_calls_are_offered [OF this] this show ?thesis by blast
qed

subsection \<open>Tool results\<close>

definition message_blocks :: "Value \<Rightarrow> Value list" where
  "message_blocks message = (case value_array message ''content'' of None \<Rightarrow> [] | Some blocks \<Rightarrow> blocks)"

definition result_ids :: "Value \<Rightarrow> string list" where
  "result_ids message = (if value_str message ''role'' = Some ''user''
     then List.map_filter (\<lambda>b. if value_str b ''type'' = Some ''tool_result'' then value_str b ''tool_use_id'' else None) (message_blocks message)
     else [])"

definition call_ids :: "Value \<Rightarrow> string list" where
  "call_ids message = (if value_str message ''role'' = Some ''assistant''
     then List.map_filter (\<lambda>b. if is_tool_use b then value_str b ''id'' else None) (message_blocks message) else [])"

text \<open>The tool results of every message answer distinct calls of the message right before it.\<close>

definition results_answer_calls :: "Value list \<Rightarrow> bool" where
  "results_answer_calls messages \<longleftrightarrow> (\<forall>i < length messages. result_ids (messages ! i) \<noteq> [] \<longrightarrow>
     0 < i \<and> distinct (result_ids (messages ! i)) \<and> set (result_ids (messages ! i)) \<subseteq> set (call_ids (messages ! (i - 1))))"

lemma results_answer_calls_push:
  "results_answer_calls (ms @ [m]) \<longleftrightarrow> results_answer_calls ms \<and> (result_ids m \<noteq> [] \<longrightarrow> ms \<noteq> [] \<and> distinct (result_ids m)
     \<and> set (result_ids m) \<subseteq> set (call_ids (last ms)))"
proof -
  have "results_answer_calls (ms @ [m]) \<longleftrightarrow> results_answer_calls ms \<and> (result_ids m \<noteq> [] \<longrightarrow> 0 < length ms \<and> distinct (result_ids m)
      \<and> set (result_ids m) \<subseteq> set (call_ids ((ms @ [m]) ! (length ms - 1))))"
    by (auto simp: results_answer_calls_def nth_append less_Suc_eq)
  then show ?thesis by (auto simp: nth_append last_conv_nth)
qed

lemma result_ids_assistant [simp]: "result_ids (json [(''role'', String ''assistant''), (''content'', c)]) = []"
  by (simp add: result_ids_def value_str_def)

lemma content_part_type: "content_part env part = Inr b \<Longrightarrow> value_str b ''type'' \<noteq> Some ''tool_result''"
  by (auto simp: content_part_def and_then_Inr image_block_from_data_uri_def text_block_def value_str_def Let_def
      split: option.splits if_splits prod.splits)

lemma content_blocks_type:
  assumes "content_to_messages_blocks env v = Inr bs" "b \<in> set bs"
  shows "value_str b ''type'' \<noteq> Some ''tool_result''"
proof (cases v)
  case (Array parts)
  then have "list_all2 (\<lambda>x y. content_part env x = Inr y) parts bs" using assms(1) by (simp add: try_map_Inr)
  then show ?thesis using assms(2) content_part_type by (fastforce simp: list_all2_conv_all_nth in_set_conv_nth)
next
  case (String t)
  then show ?thesis using assms by (auto simp: text_block_def value_str_def split: if_splits)
qed (use assms in auto)

lemma result_ids_user:
  "(\<And>b. b \<in> set bs \<Longrightarrow> value_str b ''type'' \<noteq> Some ''tool_result'') \<Longrightarrow> result_ids (json [(''role'', String ''user''), (''content'', Array bs)]) = []"
  by (auto simp: result_ids_def message_blocks_def value_str_def value_array_def map_filter_def filter_empty_conv)

definition trimmed_result :: "Value \<Rightarrow> bool" where
  "trimmed_result r \<longleftrightarrow> (\<exists>i. value_str r ''type'' = Some ''tool_result'' \<and> value_str r ''tool_use_id'' = Some i \<and> non_blank (Some i) = Some i)"

lemma tool_result_block_trimmed: "tool_result_block env s item = Inr r \<Longrightarrow> trimmed_result r"
  using non_blank_idem by (auto simp: tool_result_block_def and_then_Inr trimmed_result_def value_str_def split: if_splits)

lemma check_results:
  assumes "list_all trimmed_result rs" "try_fold (check_result known) seen rs = Inr seen'"
  shows "distinct (map (\<lambda>r. the (value_str r ''tool_use_id'')) rs)
    \<and> (\<forall>r \<in> set rs. the (value_str r ''tool_use_id'') \<in> set known \<and> the (value_str r ''tool_use_id'') |\<notin>| seen)"
  using assms
proof (induction rs arbitrary: seen)
  case (Cons r rs)
  then obtain i where i: "value_str r ''tool_use_id'' = Some i" "non_blank (Some i) = Some i" by (auto simp: trimmed_result_def)
  obtain seen1 where s1: "check_result known seen r = Inr seen1" and r1: "try_fold (check_result known) seen1 rs = Inr seen'"
    using Cons.prems(2) by (auto simp: and_then_Inr)
  have c: "i \<in> set known" "i |\<notin>| seen" "seen1 = finsert i seen"
    using s1 i by (auto simp: and_then_Inr check_result_def split: if_splits)
  have rest: "try_fold (check_result known) (finsert i seen) rs = Inr seen'" using r1 c(3) by simp
  show ?case using Cons.IH [OF _ rest] Cons.prems(1) c i by auto
qed simp

lemma flush_answers:
  assumes f: "flush_tool_results s rs = Inr s'" and t: "list_all trimmed_result rs" and ok: "results_answer_calls (mb_messages s)"
  shows "results_answer_calls (mb_messages s')"
proof (cases "rs = []")
  case True
  then show ?thesis using f ok by (simp add: flush_tool_results_def)
next
  case False
  let ?m = "last (mb_messages s)"
  let ?known = "List.map_filter (\<lambda>block. if is_tool_use block then value_str block ''id'' else None) (message_blocks ?m)"
  let ?new = "json [(''role'', String ''user''), (''content'', Array rs)]"
  have ne: "mb_messages s \<noteq> []" and role: "value_str ?m ''role'' = Some ''assistant''"
    and s': "mb_messages s' = mb_messages s @ [?new]" and c: "\<exists>seen'. try_fold (check_result ?known) {||} rs = Inr seen'"
    using f False by (auto simp: flush_tool_results_def message_blocks_def and_then_Inr push_message_def Let_def split: if_splits)
  have "result_ids ?new = map (\<lambda>r. the (value_str r ''tool_use_id'')) rs"
    using t by (induction rs) (auto simp: result_ids_def message_blocks_def value_str_def [of "json _"] value_array_def map_filter_simps trimmed_result_def)
  moreover have "call_ids ?m = ?known" using role by (simp add: call_ids_def)
  ultimately show ?thesis using c check_results [OF t, of ?known "{||}"] ne ok by (auto simp: s' results_answer_calls_push)
qed

lemma user_blocks_answer:
  assumes "append_user_blocks s bs = Inr s'" "\<And>b. b \<in> set bs \<Longrightarrow> value_str b ''type'' \<noteq> Some ''tool_result''"
    "results_answer_calls (mb_messages s)"
  shows "results_answer_calls (mb_messages s')"
  using assms result_ids_user [of bs]
  by (auto simp: append_user_blocks_def push_message_def results_answer_calls_push split: if_splits)

lemma user_item_answers:
  "append_user_item env s item = Inr s' \<Longrightarrow> results_answer_calls (mb_messages s) \<Longrightarrow> results_answer_calls (mb_messages s')"
  by (auto simp: append_user_item_def and_then_Inr) (metis content_blocks_type user_blocks_answer)

lemma assistant_answers:
  "results_answer_calls (mb_messages s) \<Longrightarrow> results_answer_calls (mb_messages (append_assistant_content content s))"
  by (simp add: append_assistant_content_def push_message_def results_answer_calls_push)

lemma system_messages: "append_system_value env s v = Inr s' \<Longrightarrow> mb_messages s' = mb_messages s"
  by (auto simp: append_system_value_def and_then_Inr split: if_splits option.splits Value.splits)

lemma item_answers:
  "append_item env s item = Inr s' \<Longrightarrow> results_answer_calls (mb_messages s) \<Longrightarrow> results_answer_calls (mb_messages s')"
  by (auto simp: append_item_def append_assistant_from_responses_item_def append_assistant_tool_use_def and_then_Inr
      push_message_def results_answer_calls_push system_messages Let_def
      split: if_splits option.splits intro: user_item_answers assistant_answers)

lemma input_answers:
  assumes i: "append_responses_input env s input = Inr s'" and ok: "results_answer_calls (mb_messages s)"
  shows "results_answer_calls (mb_messages s')"
proof (cases input)
  case (Array items)
  then obtain t rs where f: "try_fold (append_input_item env) (s, []) items = Inr (t, rs)" and fl: "flush_tool_results t rs = Inr s'"
    using i by (auto simp: and_then_Inr)
  let ?P = "\<lambda>(s, rs). results_answer_calls (mb_messages s) \<and> list_all trimmed_result rs"
  have step: "?P acc'" if "?P acc" "append_input_item env acc item = Inr acc'" for acc item acc'
    using that flush_answers item_answers tool_result_block_trimmed
    by (auto simp: append_input_item_def and_then_Inr split: if_splits prod.splits)
  have "?P (t, rs)" by (rule try_fold_invariant [OF f, of ?P]) (use ok step in auto)
  then show ?thesis using flush_answers [OF fl] by simp
next
  case (String x)
  then show ?thesis using i ok user_blocks_answer [of s "[text_block x]" s'] by (simp add: text_block_def value_str_def)
qed (use i in auto)

lemma prepare_answers:
  assumes p: "prepare_responses_to_messages env body model stream mode ttl previous scope = Inr request"
    and prev: "\<And>s. previous = Some s \<Longrightarrow> results_answer_calls (mb_messages s)"
  shows "results_answer_calls (mb_messages (br_state request))"
proof -
  obtain m s0 s1 s2 input where
    s0: "initial_state model mode (non_blank (get_str m ''previous_response_id'')) previous = Inr s0"
    and s1: "apply_instructions env m (non_blank (get_str m ''previous_response_id'')) s0 = Inr s1"
    and s2: "apply_tools env m s1 = Inr s2" and s3: "append_responses_input env s2 input = Inr (br_state request)"
    using p by (rule prepare_states)
  have "results_answer_calls (mb_messages s0)"
    using initial_state_cases [OF s0] prev by (auto simp: bridge_state_new_def results_answer_calls_def)
  moreover have "mb_messages s1 = mb_messages s0"
    using s1 system_messages [of env s0 _ s1] by (auto simp: apply_instructions_def split: option.splits)
  moreover have "mb_messages s2 = mb_messages s1"
    using s2 by (auto simp: apply_tools_def and_then_Inr split: option.splits)
  ultimately show ?thesis using input_answers [OF s3] by simp
qed

text \<open>
  C38 (invariant). In every request of a conversation the tool results of a user message answer distinct
  tool calls of the assistant message right before it; a client that returns a result no call asked for
  gets an error instead.
\<close>

theorem tool_results_answer_calls:
  assumes "bridge_turn env request"
  shows "results_answer_calls (mb_messages (br_state request))"
  using assms
proof (induction rule: bridge_turn.induct)
  case (first_turn body model stream mode ttl scope request)
  then show ?case using prepare_answers by blast
next
  case (next_turn request upstream r body model stream mode ttl scope request')
  have "results_answer_calls (mb_messages (bp_continuation r))"
    using translate_continuation [OF next_turn.hyps(2)] next_turn.IH assistant_answers by auto
  then show ?case using prepare_answers [OF next_turn.hyps(3)] by simp
qed

definition wit_next_body :: Value where
  "wit_next_body = json [(''previous_response_id'', String ''r''), (''input'', Array [json [
     (''type'', String ''custom_tool_call_output''), (''call_id'', String ''c1''), (''output'', String ''done'')]])]"

theorem tool_results_answer_calls_witness:
  "\<exists>request. bridge_turn wit_tools_env request \<and> length (mb_messages (br_state request)) = 3
     \<and> results_answer_calls (mb_messages (br_state request))"
proof -
  let ?p = "prepare_responses_to_messages wit_tools_env wit_tools_body ''m'' False ReasoningDisabled TtlProvider None []"
  let ?n = "\<lambda>r. prepare_responses_to_messages wit_tools_env wit_next_body ''m'' False ReasoningDisabled TtlProvider (Some (bp_continuation r)) []"
  have "case ?p of Inl _ \<Rightarrow> False | Inr request \<Rightarrow> (case translate_messages_response wit_tools_env request wit_upstream of
      Inl _ \<Rightarrow> False | Inr r \<Rightarrow> (case ?n r of Inl _ \<Rightarrow> False | Inr request' \<Rightarrow> length (mb_messages (br_state request')) = 3))"
    by code_simp
  then obtain request r request' where p: "?p = Inr request" and t: "translate_messages_response wit_tools_env request wit_upstream = Inr r"
    and n: "?n r = Inr request'" and l: "length (mb_messages (br_state request')) = 3"
    by (auto split: sum.splits)
  have turn: "bridge_turn wit_tools_env request'" by (rule next_turn [OF first_turn [OF p] t n])
  show ?thesis using tool_results_answer_calls [OF turn] turn l by blast
qed

end
