(* ===== verification/Messages_Stream.thy ===== *)
theory Messages_Stream
  imports Messages_Response Sse_Events
begin

section \<open>The Messages stream bridge (\<open>protocol/adapter/stream.rs\<close>)\<close>

text \<open>
  The state machine that turns the event stream of a Messages answer into the events of a Responses
  stream. Each handler of the source is one definition on the record \<open>MessagesStreamBridge\<close>; a
  guard that fails writes the failure frame and makes the bridge terminal. The field \<open>pending\<close>, which
  only \<open>push\<close> uses, stands beside the record: \<open>push\<close> works on the pair of both.
\<close>

subsection \<open>State\<close>

record stream_tool =
  tb_id :: string
  tb_item_id :: string
  tb_upstream_name :: string
  tb_name :: string
  tb_namespace :: "string option"
  tb_kind :: ResponsesToolKind
  tb_arguments :: string
  tb_output_index :: u64

datatype StreamBlock =
    TextBlock string "u64 option" "u64 option"
  | ToolBlock stream_tool
  | ThinkingBlock string "string option"
  | RedactedThinkingBlock string

record TextOutput =
  to_item_id :: string
  to_output_index :: u64
  to_next_content_index :: u64

record MessagesStreamBridge =
  ms_request :: "MessagesBridgeRequest option"
  ms_model :: string
  ms_output :: "string list"
  ms_assistant_blocks :: "(u64, StreamBlock) btree_map"
  ms_closed_blocks :: "u64 fset"
  ms_response_id :: "string option"
  ms_upstream_id :: "string option"
  ms_usage :: "Value option"
  ms_text_output :: "TextOutput option"
  ms_next_output_index :: u64
  ms_next_message_index :: u64
  ms_completed :: "MessagesBridgeResponse option"
  ms_upstream_error :: "Value option"
  ms_terminal :: bool

definition messages_bridge_new :: "MessagesBridgeRequest \<Rightarrow> MessagesStreamBridge" where
  "messages_bridge_new request = \<lparr>ms_request = Some request, ms_model = mb_model (br_state request),
     ms_output = [], ms_assistant_blocks = bt_empty, ms_closed_blocks = {||},
     ms_response_id = None, ms_upstream_id = None, ms_usage = None, ms_text_output = None,
     ms_next_output_index = 0, ms_next_message_index = 0, ms_completed = None, ms_upstream_error = None,
     ms_terminal = False\<rparr>"

subsection \<open>Frames\<close>

definition ms_frame :: "adapter_env \<Rightarrow> string \<Rightarrow> (string \<times> Value) list \<Rightarrow> MessagesStreamBridge \<Rightarrow> MessagesStreamBridge" where
  "ms_frame env event payload st =
     (case env_to_string env (json payload) of
        None \<Rightarrow> st\<lparr>ms_terminal := True\<rparr>
      | Some text \<Rightarrow> st\<lparr>ms_output := ms_output st @ [sse_frame event text]\<rparr>)"

definition failed_payload :: "string \<Rightarrow> string \<Rightarrow> AdapterError \<Rightarrow> (string \<times> Value) list" where
  "failed_payload response_id model err =
     [(''type'', String ''response.failed''),
      (''response'', json [(''id'', String response_id), (''object'', String ''response''),
         (''status'', String ''failed''), (''model'', String model), (''output'', Array []),
         (''error'', json [(''type'', String ''invalid_request_error''), (''code'', String (ae_code err)),
            (''message'', String (ae_message err))])])]"

definition ms_fail :: "adapter_env \<Rightarrow> AdapterError \<Rightarrow> MessagesStreamBridge \<Rightarrow> MessagesStreamBridge" where
  "ms_fail env err st =
     (if ms_terminal st then st
      else (ms_frame env ''response.failed''
        (failed_payload (or_else ''resp_bridge_stream_failed'' (ms_response_id st)) (ms_model st) err) st)\<lparr>ms_terminal := True\<rparr>)"

abbreviation ms_invalid :: "adapter_env \<Rightarrow> MessagesStreamBridge \<Rightarrow> MessagesStreamBridge" where
  "ms_invalid env st \<equiv> ms_fail env upstream_stream_invalid st"

text \<open>\<open>let Some(x) = ... else { self.fail(...); return; }\<close>\<close>

definition ms_require :: "adapter_env \<Rightarrow> 'a option \<Rightarrow> MessagesStreamBridge \<Rightarrow> ('a \<Rightarrow> MessagesStreamBridge) \<Rightarrow> MessagesStreamBridge" where
  "ms_require env v st k = (case v of None \<Rightarrow> ms_invalid env st | Some x \<Rightarrow> k x)"

subsection \<open>Message output\<close>

definition ensure_text_output :: "adapter_env \<Rightarrow> MessagesStreamBridge \<Rightarrow> MessagesStreamBridge \<times> TextOutput option" where
  "ensure_text_output env st =
     (case ms_text_output st of
        Some t \<Rightarrow> (st, Some t)
      | None \<Rightarrow>
          (case ms_response_id st of
             None \<Rightarrow> (st, None)
           | Some response_id \<Rightarrow>
               let message_index = ms_next_message_index st;
                   item_id = message_item_id response_id (unat message_index);
                   output_index = ms_next_output_index st;
                   st = st\<lparr>ms_next_message_index := sat_add message_index 1, ms_next_output_index := sat_add output_index 1\<rparr>;
                   st = ms_frame env ''response.output_item.added'' [(''type'', String ''response.output_item.added''),
                     (''output_index'', value_u64 output_index),
                     (''item'', json [(''id'', String item_id), (''type'', String ''message''), (''status'', String ''in_progress''),
                        (''role'', String ''assistant''), (''content'', Array [])])] st;
                   t = \<lparr>to_item_id = item_id, to_output_index = output_index, to_next_content_index = 0\<rparr>
               in (st\<lparr>ms_text_output := Some t\<rparr>, Some t)))"

definition begin_text_content ::
  "adapter_env \<Rightarrow> MessagesStreamBridge \<Rightarrow> MessagesStreamBridge \<times> (string \<times> u64 \<times> u64) option" where
  "begin_text_content env st =
     (case ensure_text_output env st of
        (st, None) \<Rightarrow> (st, None)
      | (st, Some t) \<Rightarrow>
          let content_index = to_next_content_index t;
              st = st\<lparr>ms_text_output := Some (t\<lparr>to_next_content_index := sat_add content_index 1\<rparr>)\<rparr>;
              st = ms_frame env ''response.content_part.added'' [(''type'', String ''response.content_part.added''),
                (''item_id'', String (to_item_id t)), (''output_index'', value_u64 (to_output_index t)),
                (''content_index'', value_u64 content_index),
                (''part'', json [(''type'', String ''output_text''), (''text'', String [])])] st
          in (st, if ms_terminal st then None else Some (to_item_id t, to_output_index t, content_index)))"

definition emit_text_delta ::
  "adapter_env \<Rightarrow> string \<Rightarrow> u64 \<Rightarrow> u64 \<Rightarrow> string \<Rightarrow> MessagesStreamBridge \<Rightarrow> MessagesStreamBridge" where
  "emit_text_delta env item_id output_index content_index delta st =
     ms_require env (ms_response_id st) st (\<lambda>response_id.
       ms_frame env ''response.output_text.delta'' [(''type'', String ''response.output_text.delta''),
         (''response_id'', String response_id), (''item_id'', String item_id), (''output_index'', value_u64 output_index),
         (''content_index'', value_u64 content_index), (''delta'', String delta)] st)"

text \<open>The parts of the open message: block index, content index and text.\<close>

definition text_parts :: "u64 \<Rightarrow> MessagesStreamBridge \<Rightarrow> (u64 \<times> u64 \<times> string) list" where
  "text_parts output_index st =
     List.map_filter (\<lambda>(block_index, block). case block of
         TextBlock text (Some content_index) (Some i) \<Rightarrow>
           if i = output_index then Some (block_index, content_index, text) else None
       | _ \<Rightarrow> None) (bt_entries (ms_assistant_blocks st))"

definition finish_active_text_output :: "adapter_env \<Rightarrow> MessagesStreamBridge \<Rightarrow> MessagesStreamBridge \<times> bool" where
  "finish_active_text_output env st =
     (case ms_text_output st of
        None \<Rightarrow> (st, True)
      | Some text_output \<Rightarrow>
          let st = st\<lparr>ms_text_output := None\<rparr>;
              parts = text_parts (to_output_index text_output) st
          in if parts = [] \<or> list_ex (\<lambda>(block_index, _, _). block_index |\<notin>| ms_closed_blocks st) parts
             then (ms_invalid env st, False)
             else
               let parts = sort_key (\<lambda>(_, content_index, _). content_index) parts
               in if list_ex (\<lambda>(expected, (_, content_index, _)). unat content_index \<noteq> expected) (zip [0..<length parts] parts)
                  then (ms_invalid env st, False)
                  else
                    let st = ms_frame env ''response.output_item.done'' [(''type'', String ''response.output_item.done''),
                          (''response_id'', opt_string (ms_response_id st)),
                          (''output_index'', value_u64 (to_output_index text_output)),
                          (''item'', json [(''id'', String (to_item_id text_output)), (''type'', String ''message''),
                             (''status'', String ''completed''), (''role'', String ''assistant''),
                             (''content'', Array (map (\<lambda>(_, _, text). output_text text) parts))])] st
                    in (st, \<not> ms_terminal st))"

subsection \<open>Events\<close>

definition put_block :: "u64 \<Rightarrow> StreamBlock \<Rightarrow> MessagesStreamBridge \<Rightarrow> MessagesStreamBridge" where
  "put_block index block st = st\<lparr>ms_assistant_blocks := bt_insert index block (ms_assistant_blocks st)\<rparr>"

definition handle_message_start :: "adapter_env \<Rightarrow> Value \<Rightarrow> MessagesStreamBridge \<Rightarrow> MessagesStreamBridge" where
  "handle_message_start env value st =
     ms_require env (value_get value ''message'') st (\<lambda>message.
     ms_require env (non_blank (value_str message ''id'')) st (\<lambda>upstream_id.
     if ms_response_id st \<noteq> None then ms_invalid env st
     else
       let scope = (case ms_request st of None \<Rightarrow> [] | Some request \<Rightarrow> br_response_scope request);
           response_id = bridged_response_id_scoped env scope upstream_id;
           st = st\<lparr>ms_upstream_id := Some upstream_id, ms_response_id := Some response_id\<rparr>;
           st = (case value_get message ''usage'' of None \<Rightarrow> st | Some usage \<Rightarrow> st\<lparr>ms_usage := Some usage\<rparr>)
       in ms_frame env ''response.created'' [(''type'', String ''response.created''),
            (''response'', json [(''id'', String response_id), (''object'', String ''response''),
               (''status'', String ''in_progress''), (''model'', String (ms_model st)), (''output'', Array [])])] st))"

definition start_text_block :: "adapter_env \<Rightarrow> u64 \<Rightarrow> object \<Rightarrow> MessagesStreamBridge \<Rightarrow> MessagesStreamBridge" where
  "start_text_block env index block st =
     (let initial_text = or_else [] (get_str block ''text'')
      in if initial_text = [] then put_block index (TextBlock [] None None) st
         else case begin_text_content env st of
             (st, None) \<Rightarrow> st
           | (st, Some (item_id, output_index, content_index)) \<Rightarrow>
               emit_text_delta env item_id output_index content_index initial_text
                 (put_block index (TextBlock initial_text (Some content_index) (Some output_index)) st))"

definition tool_item_id :: "ResponsesToolKind \<Rightarrow> string \<Rightarrow> string" where
  "tool_item_id kind call_id = (if kind = CustomTool then custom_tool_item_id call_id else call_id)"

definition tool_item_added :: "ResponsesToolKind \<Rightarrow> string \<Rightarrow> string \<Rightarrow> string option \<Rightarrow> Value" where
  "tool_item_added kind call_id name namespace =
     with_namespace namespace (json [(''id'', String (tool_item_id kind call_id)), (''type'', String (response_item_type kind)),
       (''status'', String ''in_progress''), (''call_id'', String call_id), (''name'', String name),
       (case kind of FunctionTool \<Rightarrow> ''arguments'' | CustomTool \<Rightarrow> ''input'', String [])])"

definition start_tool_block :: "adapter_env \<Rightarrow> u64 \<Rightarrow> object \<Rightarrow> MessagesStreamBridge \<Rightarrow> MessagesStreamBridge" where
  "start_tool_block env index block st0 =
     (case finish_active_text_output env st0 of
        (st, False) \<Rightarrow> st
      | (st, True) \<Rightarrow>
          ms_require env (non_blank (get_str block ''id'')) st (\<lambda>call_id.
          ms_require env (non_blank (get_str block ''name'')) st (\<lambda>name.
          ms_require env (Option.bind (ms_request st) (\<lambda>request. client_tool (br_state request) name)) st (\<lambda>target.
          if list_ex (\<lambda>existing. case existing of ToolBlock t \<Rightarrow> tb_id t = call_id | _ \<Rightarrow> False) (bt_values (ms_assistant_blocks st))
          then ms_invalid env st
          else if (case obj_get block ''input'' of None \<Rightarrow> False | Some input \<Rightarrow> \<not> is_object input)
          then ms_invalid env st
          else
            let initial_arguments = or_else [] (Option.bind
                  (filter_option (\<lambda>input. case as_object input of None \<Rightarrow> False | Some m \<Rightarrow> m \<noteq> []) (obj_get block ''input''))
                  (env_to_string env));
                output_index = ms_next_output_index st;
                st = st\<lparr>ms_next_output_index := sat_add output_index 1\<rparr>;
                st = ms_frame env ''response.output_item.added'' [(''type'', String ''response.output_item.added''),
                  (''output_index'', value_u64 output_index),
                  (''item'', tool_item_added (ct_kind target) call_id (ct_name target) (ct_namespace target))] st;
                st = put_block index (ToolBlock \<lparr>tb_id = call_id, tb_item_id = tool_item_id (ct_kind target) call_id,
                  tb_upstream_name = name, tb_name = ct_name target, tb_namespace = ct_namespace target,
                  tb_kind = ct_kind target, tb_arguments = initial_arguments, tb_output_index = output_index\<rparr>) st
            in if ct_kind target = FunctionTool \<and> initial_arguments \<noteq> []
               then ms_frame env ''response.function_call_arguments.delta''
                 [(''type'', String ''response.function_call_arguments.delta''),
                  (''response_id'', opt_string (ms_response_id st)), (''item_id'', String call_id),
                  (''output_index'', value_u64 output_index), (''delta'', String initial_arguments)] st
               else st))))"

definition value_index :: "Value \<Rightarrow> u64 option" where
  "value_index value = Option.bind (value_get value ''index'') as_u64"

definition handle_block_start :: "adapter_env \<Rightarrow> Value \<Rightarrow> MessagesStreamBridge \<Rightarrow> MessagesStreamBridge" where
  "handle_block_start env value st =
     ms_require env (value_index value) st (\<lambda>index.
     ms_require env (Option.bind (value_get value ''content_block'') as_object) st (\<lambda>block.
     if ms_response_id st = None \<or> bt_contains (ms_assistant_blocks st) index \<or> index |\<in>| ms_closed_blocks st
     then ms_invalid env st
     else
       let kind = get_str block ''type'' in
       if kind = Some ''text'' then start_text_block env index block st
       else if kind = Some ''tool_use'' then start_tool_block env index block st
       else if kind = Some ''thinking'' then
         put_block index (ThinkingBlock (or_else [] (get_str block ''thinking''))
           (filter_option (\<lambda>signature. signature \<noteq> []) (get_str block ''signature''))) st
       else if kind = Some ''redacted_thinking'' then
         ms_require env (get_str block ''data'') st (\<lambda>data. put_block index (RedactedThinkingBlock data) st)
       else ms_invalid env st))"

text \<open>A text delta opens a content part when the block has none yet.\<close>

definition text_delta :: "adapter_env \<Rightarrow> u64 \<Rightarrow> string \<Rightarrow> MessagesStreamBridge \<Rightarrow> MessagesStreamBridge" where
  "text_delta env index delta st =
     (case bt_get (ms_assistant_blocks st) index of
        Some (TextBlock text0 content0 output0) \<Rightarrow>
          (case (if content0 = None
                 then (case begin_text_content env st of
                     (st, None) \<Rightarrow> (st, None)
                   | (st, Some (_, output_index, content_index)) \<Rightarrow> (st, Some (Some output_index, Some content_index)))
                 else (st, Some (output0, content0))) of
             (st, None) \<Rightarrow> st
           | (st, Some (Some output_index, Some content_index)) \<Rightarrow>
               let st = put_block index (TextBlock (text0 @ delta) (Some content_index) (Some output_index)) st
               in ms_require env (filter_option (\<lambda>t. to_output_index t = output_index) (ms_text_output st)) st
                    (\<lambda>t. emit_text_delta env (to_item_id t) output_index content_index delta st)
           | (st, Some _) \<Rightarrow> ms_invalid env st)
      | _ \<Rightarrow> ms_invalid env st)"

definition block_delta :: "adapter_env \<Rightarrow> u64 \<Rightarrow> object \<Rightarrow> MessagesStreamBridge \<Rightarrow> MessagesStreamBridge" where
  "block_delta env index delta st =
     ms_require env (bt_get (ms_assistant_blocks st) index) st (\<lambda>block.
     let kind = get_str delta ''type'' in
     case block of
       ToolBlock t \<Rightarrow>
         if kind = Some ''input_json_delta'' then
           ms_require env (get_str delta ''partial_json'') st (\<lambda>text.
             let st = put_block index (ToolBlock (t\<lparr>tb_arguments := tb_arguments t @ text\<rparr>)) st
             in if tb_kind t = FunctionTool
                then ms_frame env ''response.function_call_arguments.delta''
                  [(''type'', String ''response.function_call_arguments.delta''),
                   (''response_id'', opt_string (ms_response_id st)), (''item_id'', String (tb_id t)),
                   (''output_index'', value_u64 (tb_output_index t)), (''delta'', String text)] st
                else st)
         else ms_invalid env st
     | ThinkingBlock thinking signature \<Rightarrow>
         if kind = Some ''thinking_delta'' then
           ms_require env (get_str delta ''thinking'') st (\<lambda>text. put_block index (ThinkingBlock (thinking @ text) signature) st)
         else if kind = Some ''signature_delta'' then
           ms_require env (get_str delta ''signature'') st (\<lambda>text.
             put_block index (ThinkingBlock thinking (Some (or_else [] signature @ text))) st)
         else ms_invalid env st
     | _ \<Rightarrow> ms_invalid env st)"

definition handle_block_delta :: "adapter_env \<Rightarrow> Value \<Rightarrow> MessagesStreamBridge \<Rightarrow> MessagesStreamBridge" where
  "handle_block_delta env value st =
     ms_require env (value_index value) st (\<lambda>index.
     ms_require env (Option.bind (value_get value ''delta'') as_object) st (\<lambda>delta.
     if index |\<in>| ms_closed_blocks st then ms_invalid env st
     else if get_str delta ''type'' = Some ''text_delta'' then
       ms_require env (get_str delta ''text'') st (\<lambda>text. if text = [] then st else text_delta env index text st)
     else block_delta env index delta st))"

definition tool_arguments_value :: "adapter_env \<Rightarrow> string \<Rightarrow> Value option" where
  "tool_arguments_value env arguments =
     (if trim arguments = [] then Some (json []) else filter_option is_object (env_from_slice env arguments))"

definition stop_text_block ::
  "adapter_env \<Rightarrow> string \<Rightarrow> u64 \<Rightarrow> u64 \<Rightarrow> MessagesStreamBridge \<Rightarrow> MessagesStreamBridge" where
  "stop_text_block env text content_index output_index st =
     ms_require env (filter_option (\<lambda>t. to_output_index t = output_index) (ms_text_output st)) st (\<lambda>t.
     let fields = [(''response_id'', opt_string (ms_response_id st)), (''item_id'', String (to_item_id t)),
           (''output_index'', value_u64 output_index), (''content_index'', value_u64 content_index)];
         st = ms_frame env ''response.output_text.done''
           ((''type'', String ''response.output_text.done'') # fields @ [(''text'', String text)]) st
     in ms_frame env ''response.content_part.done'' ((''type'', String ''response.content_part.done'') # fields) st)"

definition tool_item_done :: "stream_tool \<Rightarrow> string \<times> Value \<Rightarrow> Value" where
  "tool_item_done t payload =
     with_namespace (tb_namespace t) (json [(''id'', String (case tb_kind t of FunctionTool \<Rightarrow> tb_id t | CustomTool \<Rightarrow> tb_item_id t)),
       (''type'', String (response_item_type (tb_kind t))), (''status'', String ''completed''),
       (''call_id'', String (tb_id t)), (''name'', String (tb_name t)), payload])"

definition stop_tool_block :: "adapter_env \<Rightarrow> stream_tool \<Rightarrow> MessagesStreamBridge \<Rightarrow> MessagesStreamBridge" where
  "stop_tool_block env t st =
     (let arguments = (if trim (tb_arguments t) = [] then ''{}'' else tb_arguments t);
          response_id = opt_string (ms_response_id st);
          item_done = (\<lambda>payload st. ms_frame env ''response.output_item.done''
            [(''type'', String ''response.output_item.done''), (''response_id'', response_id),
             (''output_index'', value_u64 (tb_output_index t)), (''item'', tool_item_done t payload)] st)
      in ms_require env (tool_arguments_value env arguments) st (\<lambda>input.
         case tb_kind t of
           FunctionTool \<Rightarrow>
             item_done (''arguments'', String arguments)
               (ms_frame env ''response.function_call_arguments.done''
                 ([(''type'', String ''response.function_call_arguments.done''), (''response_id'', response_id),
                   (''item_id'', String (tb_id t)), (''call_id'', String (tb_id t)), (''name'', String (tb_name t)),
                   (''output_index'', value_u64 (tb_output_index t)), (''arguments'', String arguments)]
                  @ (case tb_namespace t of None \<Rightarrow> [] | Some ns \<Rightarrow> [(''namespace'', String ns)])) st)
         | CustomTool \<Rightarrow>
             (case custom_tool_input input of
                Inl _ \<Rightarrow> ms_invalid env st
              | Inr raw_input \<Rightarrow>
                  item_done (''input'', String raw_input)
                    (ms_frame env ''response.custom_tool_call_input.done''
                      [(''type'', String ''response.custom_tool_call_input.done''), (''response_id'', response_id),
                       (''item_id'', String (tb_item_id t)), (''output_index'', value_u64 (tb_output_index t)),
                       (''input'', String raw_input)] st))))"

definition handle_block_stop :: "adapter_env \<Rightarrow> Value \<Rightarrow> MessagesStreamBridge \<Rightarrow> MessagesStreamBridge" where
  "handle_block_stop env value st =
     ms_require env (value_index value) st (\<lambda>index.
     if index |\<in>| ms_closed_blocks st then ms_invalid env st
     else
       let st = st\<lparr>ms_closed_blocks := finsert index (ms_closed_blocks st)\<rparr>
       in ms_require env (bt_get (ms_assistant_blocks st) index) st (\<lambda>block.
            case block of
              TextBlock text (Some content_index) (Some output_index) \<Rightarrow> stop_text_block env text content_index output_index st
            | TextBlock _ _ _ \<Rightarrow> st
            | ToolBlock t \<Rightarrow> stop_tool_block env t st
            | _ \<Rightarrow> st))"

subsection \<open>Completion\<close>

definition block_content :: "adapter_env \<Rightarrow> StreamBlock \<Rightarrow> Value adapter_result" where
  "block_content env block =
     (case block of
        TextBlock text _ _ \<Rightarrow> Inr (json [(''type'', String ''text''), (''text'', String text)])
      | ToolBlock t \<Rightarrow> and_then (ok_or upstream_stream_invalid (tool_arguments_value env (tb_arguments t))) (\<lambda>input.
          Inr (json [(''type'', String ''tool_use''), (''id'', String (tb_id t)), (''name'', String (tb_upstream_name t)),
            (''input'', input)]))
      | ThinkingBlock thinking signature \<Rightarrow> Inr (json ([(''type'', String ''thinking''), (''thinking'', String thinking)]
          @ (case signature of None \<Rightarrow> [] | Some s \<Rightarrow> [(''signature'', String s)])))
      | RedactedThinkingBlock data \<Rightarrow> Inr (json [(''type'', String ''redacted_thinking''), (''data'', String data)]))"

definition assistant_content :: "adapter_env \<Rightarrow> MessagesStreamBridge \<Rightarrow> Value list adapter_result" where
  "assistant_content env st = try_map (block_content env) (bt_values (ms_assistant_blocks st))"

definition ms_complete :: "adapter_env \<Rightarrow> MessagesStreamBridge \<Rightarrow> MessagesStreamBridge" where
  "ms_complete env st =
     (if ms_response_id st = None \<or> bt_len (ms_assistant_blocks st) = 0
         \<or> fcard (ms_closed_blocks st) \<noteq> bt_len (ms_assistant_blocks st)
      then ms_invalid env st
      else case finish_active_text_output env st of
          (st, False) \<Rightarrow> st
        | (st, True) \<Rightarrow>
            ms_require env (ms_request st) st (\<lambda>request.
            let st = st\<lparr>ms_request := None\<rparr> in
            ms_require env (ms_upstream_id st) st (\<lambda>upstream_id.
            case assistant_content env st of
              Inl _ \<Rightarrow> ms_invalid env st
            | Inr content \<Rightarrow>
                (case validate_messages_tool_calls (br_state request) content of
                   Inl _ \<Rightarrow> ms_invalid env st
                 | Inr _ \<Rightarrow>
                     (case responses_output_from_messages_content env content (br_state request) of
                        Inl err \<Rightarrow> ms_fail env err st
                      | Inr (output, _) \<Rightarrow>
                          ms_require env (ms_response_id st) st (\<lambda>response_id.
                          if response_id \<noteq> bridged_response_id_scoped env (br_response_scope request) upstream_id
                          then ms_invalid env st
                          else
                            let body = response_body response_id 0 (ms_model st) (set_message_output_id output response_id)
                                  (responses_usage (ms_usage st));
                                st = st\<lparr>ms_completed := Some \<lparr>bp_response_body = body, bp_response_id = response_id,
                                  bp_continuation = append_assistant_content content (br_state request)\<rparr>\<rparr>;
                                st = ms_frame env ''response.completed'' [(''type'', String ''response.completed''),
                                  (''response'', body)] st
                            in st\<lparr>ms_terminal := True\<rparr>))))))"

subsection \<open>The stream\<close>

definition is_ignorable_metadata_event :: "string \<Rightarrow> bool" where
  "is_ignorable_metadata_event kind \<longleftrightarrow>
     kind \<in> {''message_metadata'', ''content_block_metadata'', ''citation'', ''message_citation''}
     \<or> ends_with kind ''_metadata'' \<or> ends_with kind ''_citation''"

definition is_ignorable_delta :: "Value \<Rightarrow> bool" where
  "is_ignorable_delta value \<longleftrightarrow>
     Option.bind (value_get value ''delta'') (\<lambda>delta. value_str delta ''type'')
       \<in> {Some ''citations_delta'', Some ''document'', Some ''compaction_delta''}"

definition ms_handle_value :: "adapter_env \<Rightarrow> Value \<Rightarrow> MessagesStreamBridge \<Rightarrow> MessagesStreamBridge" where
  "ms_handle_value env value st =
     ms_require env (value_str value ''type'') st (\<lambda>kind.
     if kind = ''message_start'' then handle_message_start env value st
     else if kind = ''content_block_start'' then handle_block_start env value st
     else if kind = ''content_block_delta'' then
       (if is_ignorable_delta value then st else handle_block_delta env value st)
     else if kind = ''content_block_stop'' then handle_block_stop env value st
     else if kind = ''message_delta'' then
       (case value_get value ''usage'' of None \<Rightarrow> st | Some usage \<Rightarrow> st\<lparr>ms_usage := Some usage\<rparr>)
     else if kind = ''message_stop'' then ms_complete env st
     else if kind = ''ping'' then st
     else if kind = ''error'' then ms_invalid env (st\<lparr>ms_upstream_error := Some value\<rparr>)
     else if is_ignorable_metadata_event kind then st
     else ms_invalid env st)"

definition ms_handle_event :: "adapter_env \<Rightarrow> string \<Rightarrow> MessagesStreamBridge \<Rightarrow> MessagesStreamBridge" where
  "ms_handle_event env event st =
     (case parse_sse_data env event of
        None \<Rightarrow> if sse_event_has_data event then ms_invalid env st else st
      | Some value \<Rightarrow> ms_handle_value env value st)"

definition ms_push :: "adapter_env \<Rightarrow> string \<Rightarrow> string \<times> MessagesStreamBridge \<Rightarrow> string \<times> MessagesStreamBridge" where
  "ms_push env bytes bridge = push_bytes (ms_handle_event env) ms_terminal bytes bridge"

definition ms_finish :: "adapter_env \<Rightarrow> MessagesStreamBridge \<Rightarrow> MessagesStreamBridge" where
  "ms_finish env st = (if ms_terminal st then st else ms_invalid env st)"

definition ms_pop_output :: "MessagesStreamBridge \<Rightarrow> MessagesStreamBridge \<times> string option" where
  "ms_pop_output st =
     (case ms_output st of [] \<Rightarrow> (st, None) | frame # frames \<Rightarrow> (st\<lparr>ms_output := frames\<rparr>, Some frame))"

definition ms_take_upstream_error :: "MessagesStreamBridge \<Rightarrow> MessagesStreamBridge \<times> Value option" where
  "ms_take_upstream_error st = (st\<lparr>ms_upstream_error := None\<rparr>, ms_upstream_error st)"

end
