(* ===== verification/Messages_Stream_Correct.thy ===== *)
theory Messages_Stream_Correct
  imports Messages_Stream
begin

section \<open>What the Messages stream bridge guarantees\<close>

text \<open>
  Every handler is a step of the contract \<open>event_stream\<close>; the stream is closed exactly once; and the
  response of a completed stream is the translation of the message that the events assemble.
\<close>

subsection \<open>Frames\<close>

definition prints_all :: "adapter_env \<Rightarrow> bool" where
  "prints_all env \<longleftrightarrow> (\<forall>v. env_to_string env v \<noteq> None)"

abbreviation ms_step :: "MessagesStreamBridge \<Rightarrow> MessagesStreamBridge \<Rightarrow> bool" where
  "ms_step \<equiv> stream_step ms_output ms_terminal"

text \<open>
  The bridge is still open after writing what it wrote since \<open>s\<close>, or it has made a step: then the
  frame that closes the stream is the completion with the stored response, or a failure.
\<close>

definition ms_open :: "MessagesStreamBridge \<Rightarrow> MessagesStreamBridge \<Rightarrow> bool" where
  "ms_open s st \<longleftrightarrow> \<not> ms_terminal st \<and> ms_completed st = None \<and> ms_step s st"

definition ms_end :: "adapter_env \<Rightarrow> MessagesBridgeResponse option \<Rightarrow> string \<Rightarrow> bool" where
  "ms_end env completed frame \<longleftrightarrow>
     (case completed of
        None \<Rightarrow> \<exists>t. frame = sse_frame ''response.failed'' t
      | Some r \<Rightarrow> \<exists>t. env_to_string env (json [(''type'', String ''response.completed''), (''response'', bp_response_body r)]) = Some t
          \<and> frame = sse_frame ''response.completed'' t)"

definition ms_ok :: "adapter_env \<Rightarrow> MessagesStreamBridge \<Rightarrow> MessagesStreamBridge \<Rightarrow> bool" where
  "ms_ok env s st \<longleftrightarrow> ms_step s st
     \<and> (if ms_terminal st then ms_end env (ms_completed st) (last (ms_output st)) else ms_completed st = None)"

definition quiet_event :: "string \<Rightarrow> bool" where
  "quiet_event event \<longleftrightarrow> (\<forall>text. \<not> closing_frame (sse_frame event text))"

lemma quiet_events [simp]:
  "quiet_event ''response.created''" "quiet_event ''response.output_item.added''" "quiet_event ''response.output_item.done''"
  "quiet_event ''response.content_part.added''" "quiet_event ''response.content_part.done''"
  "quiet_event ''response.output_text.delta''" "quiet_event ''response.output_text.done''"
  "quiet_event ''response.function_call_arguments.delta''" "quiet_event ''response.function_call_arguments.done''"
  "quiet_event ''response.custom_tool_call_input.done''" "quiet_event ''response.reasoning_summary_text.delta''"
  by (simp_all add: quiet_event_def closing_frame_def sse_frame_def starts_with_def)

lemma closing_frames [simp]:
  "closing_frame (sse_frame ''response.completed'' text)" "closing_frame (sse_frame ''response.failed'' text)"
  by (simp_all add: closing_frame_def sse_frame_def starts_with_def)

lemma ms_open_refl: "\<not> ms_terminal s \<Longrightarrow> ms_completed s = None \<Longrightarrow> ms_open s s"
  by (simp add: ms_open_def stream_step_refl)

lemma ms_open_step: "ms_open s st \<Longrightarrow> ms_ok env s st"
  by (simp add: ms_open_def ms_ok_def)

lemma ms_open_output:
  "ms_open s st \<longleftrightarrow> \<not> ms_terminal st \<and> ms_completed st = None
     \<and> (\<exists>fs. ms_output st = ms_output s @ fs \<and> list_all (\<lambda>f. \<not> closing_frame f) fs)"
  by (auto simp: ms_open_def stream_step_def)

lemma ms_open_update [simp]:
  "ms_open s (st\<lparr>ms_request := a\<rparr>) = ms_open s st" "ms_open s (st\<lparr>ms_assistant_blocks := b\<rparr>) = ms_open s st"
  "ms_open s (st\<lparr>ms_closed_blocks := c\<rparr>) = ms_open s st" "ms_open s (st\<lparr>ms_response_id := d\<rparr>) = ms_open s st"
  "ms_open s (st\<lparr>ms_upstream_id := d\<rparr>) = ms_open s st" "ms_open s (st\<lparr>ms_usage := e\<rparr>) = ms_open s st"
  "ms_open s (st\<lparr>ms_text_output := f\<rparr>) = ms_open s st" "ms_open s (st\<lparr>ms_next_output_index := g\<rparr>) = ms_open s st"
  "ms_open s (st\<lparr>ms_next_message_index := g\<rparr>) = ms_open s st"
  "ms_open s (st\<lparr>ms_upstream_error := e\<rparr>) = ms_open s st" "ms_open s (put_block i k st) = ms_open s st"
  by (simp_all add: ms_open_output put_block_def)

lemma ms_open_frame:
  assumes "prints_all env" "quiet_event event" "ms_open s st"
  shows "ms_open s (ms_frame env event payload st)"
proof -
  obtain t where "env_to_string env (json payload) = Some t" using assms(1) by (auto simp: prints_all_def)
  then show ?thesis using assms(2,3) by (auto simp: ms_open_output ms_frame_def quiet_event_def)
qed

lemma ms_step_close:
  assumes "prints_all env" "ms_open s st" "\<And>t. closing_frame (sse_frame event t)"
    and "\<And>t. env_to_string env (json payload) = Some t \<Longrightarrow> ms_end env completed (sse_frame event t)"
  shows "ms_ok env s ((ms_frame env event payload (st\<lparr>ms_completed := completed\<rparr>))\<lparr>ms_terminal := True\<rparr>)"
proof -
  obtain t where "env_to_string env (json payload) = Some t" using assms(1) by (auto simp: prints_all_def)
  then show ?thesis using assms(2-4) by (auto simp: ms_open_output ms_frame_def stream_step_def ms_ok_def)
qed

lemma ms_step_fail:
  assumes "prints_all env" "ms_open s st"
  shows "ms_ok env s (ms_fail env err st)"
proof -
  have "st\<lparr>ms_completed := None\<rparr> = st" "\<not> ms_terminal st" using assms(2) by (simp_all add: ms_open_def)
  then show ?thesis
    using ms_step_close [OF assms, of "''response.failed''" _ None] by (auto simp: ms_fail_def ms_end_def)
qed

lemma ms_step_complete:
  assumes "prints_all env" "ms_open s st" "body = bp_response_body r"
  shows "ms_ok env s ((ms_frame env ''response.completed'' [(''type'', String ''response.completed''), (''response'', body)]
    (st\<lparr>ms_completed := Some r\<rparr>))\<lparr>ms_terminal := True\<rparr>)"
  using ms_step_close [OF assms(1,2), of "''response.completed''" _ "Some r"] by (simp add: ms_end_def assms(3))

lemma ms_step_require:
  assumes "prints_all env" "ms_open s st" "\<And>x. v = Some x \<Longrightarrow> ms_ok env s (k x)"
  shows "ms_ok env s (ms_require env v st k)"
  using assms ms_step_fail by (auto simp: ms_require_def split: option.split)

lemmas ms_step_frame = ms_open_step [OF ms_open_frame]

subsection \<open>Every handler is a step\<close>

lemma ensure_text_output_open: "prints_all env \<Longrightarrow> ms_open s st \<Longrightarrow> ms_open s (fst (ensure_text_output env st))"
  by (simp add: ensure_text_output_def Let_def ms_open_frame split: option.split)

lemma begin_text_content_open: "prints_all env \<Longrightarrow> ms_open s st \<Longrightarrow> ms_open s (fst (begin_text_content env st))"
  using ensure_text_output_open [of env s st]
  by (auto simp: ms_open_step ms_open_frame begin_text_content_def Let_def intro!: ms_open_frame split: prod.split option.split)

lemma emit_text_delta_open:
  "prints_all env \<Longrightarrow> ms_open s st \<Longrightarrow> ms_ok env s (emit_text_delta env item_id oi ci delta st)"
  by (auto simp: ms_open_step ms_open_frame emit_text_delta_def intro!: ms_step_require ms_step_frame)

lemma finish_active_text_output_step:
  assumes "prints_all env" "ms_open s st"
  shows "ms_ok env s (fst (finish_active_text_output env st))"
    "snd (finish_active_text_output env st) \<Longrightarrow> ms_open s (fst (finish_active_text_output env st))"
  using assms by (auto simp: ms_open_step ms_open_frame finish_active_text_output_def Let_def intro!: ms_step_fail ms_open_frame
      split: option.splits if_splits)

lemma handle_message_start_step:
  "prints_all env \<Longrightarrow> ms_open s st \<Longrightarrow> ms_ok env s (handle_message_start env value st)"
  by (auto simp: ms_open_step ms_open_frame handle_message_start_def Let_def intro!: ms_step_require ms_step_fail ms_step_frame
      split: option.split)

lemma start_text_block_step: "prints_all env \<Longrightarrow> ms_open s st \<Longrightarrow> ms_ok env s (start_text_block env index block st)"
  using begin_text_content_open [of env s st]
  by (auto simp: ms_open_step ms_open_frame start_text_block_def Let_def intro!: emit_text_delta_open split: prod.split option.split)

lemma start_tool_block_step: "prints_all env \<Longrightarrow> ms_open s st \<Longrightarrow> ms_ok env s (start_tool_block env index block st)"
  using finish_active_text_output_step [of env s st]
  by (auto simp: ms_open_step ms_open_frame start_tool_block_def Let_def intro!: ms_step_require ms_step_fail ms_step_frame 
      ms_open_frame split: prod.split bool.split)

lemma handle_block_start_step: "prints_all env \<Longrightarrow> ms_open s st \<Longrightarrow> ms_ok env s (handle_block_start env value st)"
  by (auto simp: ms_open_step ms_open_frame handle_block_start_def Let_def
      intro!: ms_step_require ms_step_fail start_text_block_step start_tool_block_step )

lemma text_delta_step: "prints_all env \<Longrightarrow> ms_open s st \<Longrightarrow> ms_ok env s (text_delta env index delta st)"
  using begin_text_content_open [of env s st]
  by (auto simp: ms_open_step ms_open_frame text_delta_def Let_def intro!: ms_step_require ms_step_fail emit_text_delta_open 
      split: option.split StreamBlock.split prod.split)

lemma block_delta_step: "prints_all env \<Longrightarrow> ms_open s st \<Longrightarrow> ms_ok env s (block_delta env index delta st)"
  by (auto simp: ms_open_step ms_open_frame block_delta_def Let_def intro!: ms_step_require ms_step_fail ms_step_frame 
      split: StreamBlock.split)

lemma handle_block_delta_step: "prints_all env \<Longrightarrow> ms_open s st \<Longrightarrow> ms_ok env s (handle_block_delta env value st)"
  by (auto simp: ms_open_step ms_open_frame handle_block_delta_def intro!: ms_step_require ms_step_fail text_delta_step block_delta_step )

lemma stop_tool_block_step: "prints_all env \<Longrightarrow> ms_open s st \<Longrightarrow> ms_ok env s (stop_tool_block env t st)"
  by (auto simp: ms_open_step ms_open_frame stop_tool_block_def Let_def intro!: ms_step_require ms_step_fail ms_step_frame ms_open_frame
      split: ResponsesToolKind.split sum.split)

lemma handle_block_stop_step: "prints_all env \<Longrightarrow> ms_open s st \<Longrightarrow> ms_ok env s (handle_block_stop env value st)"
  by (auto simp: ms_open_step ms_open_frame handle_block_stop_def stop_text_block_def Let_def
      intro!: ms_step_require ms_step_fail stop_tool_block_step ms_open_frame split: StreamBlock.split option.split)

lemma ms_complete_step: "prints_all env \<Longrightarrow> ms_open s st \<Longrightarrow> ms_ok env s (ms_complete env st)"
  using finish_active_text_output_step [of env s st]
  by (auto simp: ms_open_step ms_open_frame ms_complete_def Let_def intro!: ms_step_require ms_step_fail ms_step_complete
      split: prod.split bool.split sum.split)

lemma ms_handle_event_ok:
  assumes "prints_all env" "\<not> ms_terminal st" "ms_completed st = None"
  shows "ms_ok env st (ms_handle_event env event st)"
  using assms ms_open_refl [OF assms(2,3)]
  by (auto simp: ms_open_step ms_handle_event_def ms_handle_value_def intro!: ms_step_require ms_step_fail handle_message_start_step
      handle_block_start_step handle_block_delta_step handle_block_stop_step ms_complete_step split: option.split)

subsection \<open>The stream is closed exactly once\<close>

definition ms_good :: "adapter_env \<Rightarrow> MessagesStreamBridge \<Rightarrow> bool" where
  "ms_good env st \<longleftrightarrow> (if ms_terminal st then ms_end env (ms_completed st) (last (ms_output st)) else ms_completed st = None)"

interpretation messages: event_stream "ms_handle_event env" ms_terminal ms_output "ms_good env" "prints_all env" for env
  by unfold_locales (use ms_handle_event_ok in \<open>auto simp: ms_ok_def ms_good_def split: if_splits\<close>)

interpretation messages_bridge: stream_bridge "ms_handle_event env" ms_terminal ms_output "ms_good env" "prints_all env"
  ms_pop_output "ms_finish env" "\<lambda>st. ms_end env (ms_completed st)" for env
proof
  show "stream_step ms_output ms_terminal s (ms_finish env s) \<and> ms_good env (ms_finish env s) \<and> ms_terminal (ms_finish env s)"
    if "prints_all env" "\<not> ms_terminal s" "ms_good env s" for s
    using ms_step_fail [OF that(1) ms_open_refl] that by (auto simp: ms_finish_def ms_ok_def ms_good_def ms_fail_def split: if_splits)
qed (auto simp: ms_finish_def ms_pop_output_def ms_good_def split: list.splits)

definition ms_run :: "adapter_env \<Rightarrow> MessagesBridgeRequest \<Rightarrow> bridge_call list \<Rightarrow> string list \<times> string \<times> MessagesStreamBridge" where
  "ms_run env request calls =
     run_bridge (ms_handle_event env) ms_terminal ms_pop_output (ms_finish env) (messages_bridge_new request) calls"

text \<open>
  C31 (safety). However the upstream bytes are cut and whenever the client reads, the frames of a bridge
  contain at most one that closes the response, it is the last one, and once the end of the input is
  reported there is exactly one: the completion with the stored response when there is one, otherwise a
  failure. The hypothesis is that every document can be printed.
\<close>

theorem stream_closed_once:
  assumes "\<forall>v. env_to_string env v \<noteq> None" and "ms_run env request calls = (read, pending, st)"
  shows "(\<forall>i. Suc i < length (read @ ms_output st) \<longrightarrow> \<not> closing_frame ((read @ ms_output st) ! i))
    \<and> (ms_terminal st \<longleftrightarrow> (\<exists>f \<in> set (read @ ms_output st). closing_frame f))
    \<and> (Finish \<in> set calls \<longrightarrow> ms_terminal st)
    \<and> (ms_terminal st \<longrightarrow> (case ms_completed st of
         None \<Rightarrow> \<exists>t. last (read @ ms_output st) = sse_frame ''response.failed'' t
       | Some r \<Rightarrow> \<exists>t. env_to_string env (json [(''type'', String ''response.completed''), (''response'', bp_response_body r)]) = Some t
           \<and> last (read @ ms_output st) = sse_frame ''response.completed'' t))"
proof -
  have p: "prints_all env" using assms(1) by (simp add: prints_all_def)
  have new: "ms_good env (messages_bridge_new request)" "\<not> ms_terminal (messages_bridge_new request)"
    "ms_output (messages_bridge_new request) = []" by (simp_all add: ms_good_def messages_bridge_new_def)
  note closed = messages_bridge.run_closed [OF p new assms(2) [unfolded ms_run_def]]
  show ?thesis using closed_once_nth [OF closed(1)] closed_once_iff [OF closed(1)] closed(2,3) unfolding ms_end_def by blast
qed

definition wit_env :: adapter_env where
  "wit_env = \<lparr>env_from_slice = \<lambda>_. None, env_to_string = \<lambda>_. Some ''{}'', env_sha256 = \<lambda>s. s,
     env_hex = \<lambda>s. s, env_base64 = \<lambda>_. None\<rparr>"

definition wit_request :: MessagesBridgeRequest where
  "wit_request = \<lparr>br_upstream_body = Null, br_state = bridge_state_new ''m'' ReasoningDisabled, br_response_scope = []\<rparr>"

lemma wit_env_prints: "\<forall>v. env_to_string wit_env v \<noteq> None"
  by (simp add: wit_env_def)

theorem stream_closed_once_witness:
  "\<exists>read pending st. ms_run wit_env wit_request [Push ''data: x'', Finish, Pop] = (read, pending, st) \<and> ms_terminal st
     \<and> (\<exists>t. last (read @ ms_output st) = sse_frame ''response.failed'' t)"
proof -
  obtain read p st where r: "ms_run wit_env wit_request [Push ''data: x'', Finish, Pop] = (read, p, st)"
    by (metis prod.collapse)
  have "Option.is_none (ms_completed (snd (snd (ms_run wit_env wit_request [Push ''data: x'', Finish, Pop]))))" by code_simp
  then have "ms_completed st = None" using r by (simp add: Option.is_none_def)
  then show ?thesis using stream_closed_once [OF wit_env_prints r] r by auto
qed

subsection \<open>Chunks\<close>

text \<open>
  C34 (equivalence). How the network cuts the upstream bytes does not matter: when the stream does not mix
  both kinds of line endings between its events, pushing the chunks one by one leaves the bridge in the
  same state, with the same bytes left over, as pushing them at once.
\<close>

theorem chunks_as_one:
  assumes "uniform_endings (concat chunks)"
  shows "foldl (\<lambda>bridge chunk. ms_push env chunk bridge) ([], messages_bridge_new request) chunks
    = ms_push env (concat chunks) ([], messages_bridge_new request)"
  using push_chunks [of "[]" chunks "ms_handle_event env" ms_terminal] assms
  by (simp add: ms_push_def event_end_def)

theorem chunks_as_one_witness:
  "foldl (\<lambda>bridge chunk. ms_push wit_env chunk bridge) ([], messages_bridge_new wit_request) [''data: '' , ''x'' @ [LF], [LF]]
    = ms_push wit_env (''data: x'' @ [LF, LF]) ([], messages_bridge_new wit_request)"
proof -
  have "uniform_endings (concat [''data: '' , ''x'' @ [LF], [LF]])" by code_simp
  from chunks_as_one [OF this, of wit_env wit_request] show ?thesis by simp
qed

end
