(* ===== verification/Messages_Assembly.thy ===== *)
theory Messages_Assembly
  imports Messages_Stream_Correct
begin

section \<open>A completed stream is the translation of the assembled message\<close>

text \<open>
  The reference is the meaning of the Messages event stream: the events build up a message with an
  identifier, the usage reported last, and numbered content blocks to which deltas are appended.
  Nothing of it mentions frames, output items or indices of the client's protocol. The bridge
  implements it: what it stores of its blocks is that message, and the response it completes with is
  what \<open>translate_messages_response\<close> makes of the message when it arrives in one piece.
\<close>

subsection \<open>The message that the events assemble\<close>

datatype draft_block =
    DraftText string
  | DraftTool string string string
  | DraftThinking string "string option"
  | DraftRedacted string

record draft =
  dr_id :: "string option"
  dr_usage :: "Value option"
  dr_blocks :: "(u64, draft_block) btree_map"

definition empty_draft :: draft where
  "empty_draft = \<lparr>dr_id = None, dr_usage = None, dr_blocks = bt_empty\<rparr>"

definition started_block :: "adapter_env \<Rightarrow> object \<Rightarrow> draft_block" where
  "started_block env block =
     (let kind = get_str block ''type'' in
      if kind = Some ''text'' then DraftText (or_else [] (get_str block ''text''))
      else if kind = Some ''tool_use'' then
        DraftTool (or_else [] (non_blank (get_str block ''id''))) (or_else [] (non_blank (get_str block ''name'')))
          (case obj_get block ''input'' of
             Some (Object m) \<Rightarrow> if m = [] then [] else or_else [] (env_to_string env (Object m))
           | _ \<Rightarrow> [])
      else if kind = Some ''thinking'' then
        DraftThinking (or_else [] (get_str block ''thinking'')) (filter_option (\<lambda>s. s \<noteq> []) (get_str block ''signature''))
      else DraftRedacted (or_else [] (get_str block ''data'')))"

definition extended_block :: "object \<Rightarrow> draft_block \<Rightarrow> draft_block" where
  "extended_block delta b =
     (let kind = get_str delta ''type'' in
      case b of
        DraftText t \<Rightarrow> if kind = Some ''text_delta'' then DraftText (t @ or_else [] (get_str delta ''text'')) else b
      | DraftTool i n arguments \<Rightarrow>
          if kind = Some ''input_json_delta'' then DraftTool i n (arguments @ or_else [] (get_str delta ''partial_json'')) else b
      | DraftThinking t s \<Rightarrow>
          if kind = Some ''thinking_delta'' then DraftThinking (t @ or_else [] (get_str delta ''thinking'')) s
          else if kind = Some ''signature_delta'' then DraftThinking t (Some (or_else [] s @ or_else [] (get_str delta ''signature'')))
          else b
      | DraftRedacted d \<Rightarrow> b)"

definition assemble :: "adapter_env \<Rightarrow> draft \<Rightarrow> Value \<Rightarrow> draft" where
  "assemble env d event =
     (let kind = value_str event ''type'' in
      if kind = Some ''message_start'' then
        (case value_get event ''message'' of
           None \<Rightarrow> d
         | Some message \<Rightarrow> d\<lparr>dr_id := non_blank (value_str message ''id''),
             dr_usage := (case value_get message ''usage'' of None \<Rightarrow> dr_usage d | Some u \<Rightarrow> Some u)\<rparr>)
      else if kind = Some ''content_block_start'' then
        (case (value_index event, Option.bind (value_get event ''content_block'') as_object) of
           (Some i, Some block) \<Rightarrow> d\<lparr>dr_blocks := bt_insert i (started_block env block) (dr_blocks d)\<rparr>
         | _ \<Rightarrow> d)
      else if kind = Some ''content_block_delta'' \<and> \<not> is_ignorable_delta event then
        (case (value_index event, Option.bind (value_get event ''delta'') as_object) of
           (Some i, Some delta) \<Rightarrow> (case bt_get (dr_blocks d) i of
               None \<Rightarrow> d
             | Some b \<Rightarrow> d\<lparr>dr_blocks := bt_insert i (extended_block delta b) (dr_blocks d)\<rparr>)
         | _ \<Rightarrow> d)
      else if kind = Some ''message_delta'' then
        (case value_get event ''usage'' of None \<Rightarrow> d | Some u \<Rightarrow> d\<lparr>dr_usage := Some u\<rparr>)
      else d)"

definition draft_content :: "adapter_env \<Rightarrow> draft_block \<Rightarrow> Value adapter_result" where
  "draft_content env b =
     (case b of
        DraftText t \<Rightarrow> Inr (json [(''type'', String ''text''), (''text'', String t)])
      | DraftTool i n arguments \<Rightarrow> and_then (ok_or upstream_stream_invalid (tool_arguments_value env arguments)) (\<lambda>input.
          Inr (json [(''type'', String ''tool_use''), (''id'', String i), (''name'', String n), (''input'', input)]))
      | DraftThinking t signature \<Rightarrow> Inr (json ([(''type'', String ''thinking''), (''thinking'', String t)]
          @ (case signature of None \<Rightarrow> [] | Some s \<Rightarrow> [(''signature'', String s)])))
      | DraftRedacted d \<Rightarrow> Inr (json [(''type'', String ''redacted_thinking''), (''data'', String d)]))"

definition assembled_message :: "adapter_env \<Rightarrow> draft \<Rightarrow> Value adapter_result" where
  "assembled_message env d =
     and_then (try_map (draft_content env) (bt_values (dr_blocks d))) (\<lambda>content.
       Inr (json ([(''id'', opt_string (dr_id d)), (''content'', Array content)]
         @ (case dr_usage d of None \<Rightarrow> [] | Some u \<Rightarrow> [(''usage'', u)]))))"

subsection \<open>The bridge implements it\<close>

fun block_draft :: "StreamBlock \<Rightarrow> draft_block" where
  "block_draft (TextBlock t _ _) = DraftText t"
| "block_draft (ToolBlock t) = DraftTool (tb_id t) (tb_upstream_name t) (tb_arguments t)"
| "block_draft (ThinkingBlock t s) = DraftThinking t s"
| "block_draft (RedactedThinkingBlock d) = DraftRedacted d"

definition drafts :: "draft \<Rightarrow> MessagesStreamBridge \<Rightarrow> bool" where
  "drafts d st \<longleftrightarrow> dr_id d = ms_upstream_id st \<and> dr_usage d = ms_usage st
     \<and> bt_entries (dr_blocks d) = map (\<lambda>(i, b). (i, block_draft b)) (bt_entries (ms_assistant_blocks st))"

text \<open>What the bridge keeps of the request it was made for.\<close>

definition serves :: "adapter_env \<Rightarrow> MessagesBridgeRequest \<Rightarrow> MessagesStreamBridge \<Rightarrow> bool" where
  "serves env request st \<longleftrightarrow> ms_request st = Some request \<and> ms_model st = mb_model (br_state request)
     \<and> (case ms_upstream_id st of
          None \<Rightarrow> ms_response_id st = None
        | Some u \<Rightarrow> ms_response_id st = Some (bridged_response_id_scoped env (br_response_scope request) u) \<and> trim u = u \<and> u \<noteq> [])"

lemma ms_frame_fields [simp]:
  "ms_request (ms_frame env e pl st) = ms_request st" "ms_model (ms_frame env e pl st) = ms_model st"
  "ms_assistant_blocks (ms_frame env e pl st) = ms_assistant_blocks st" "ms_usage (ms_frame env e pl st) = ms_usage st"
  "ms_response_id (ms_frame env e pl st) = ms_response_id st" "ms_upstream_id (ms_frame env e pl st) = ms_upstream_id st"
  "ms_completed (ms_frame env e pl st) = ms_completed st"
  by (simp_all add: ms_frame_def split: option.split)

lemma ms_fail_terminal [simp]: "ms_terminal (ms_fail env err st)"
  by (simp add: ms_fail_def)

lemma ms_fail_completed [simp]: "ms_completed (ms_fail env err st) = ms_completed st"
  by (simp add: ms_fail_def)

lemma ms_frame_terminal: "ms_terminal st \<Longrightarrow> ms_terminal (ms_frame env e pl st)"
  by (simp add: ms_frame_def split: option.split)

text \<open>The fields that \<open>drafts\<close> and \<open>serves\<close> read.\<close>

definition same_message :: "MessagesStreamBridge \<Rightarrow> MessagesStreamBridge \<Rightarrow> bool" where
  "same_message st st' \<longleftrightarrow> ms_request st' = ms_request st \<and> ms_model st' = ms_model st
     \<and> ms_assistant_blocks st' = ms_assistant_blocks st \<and> ms_usage st' = ms_usage st
     \<and> ms_response_id st' = ms_response_id st \<and> ms_upstream_id st' = ms_upstream_id st \<and> ms_completed st' = ms_completed st"

lemma same_message_refl [simp]: "same_message st st"
  by (simp add: same_message_def)

lemma same_message_frame [simp]: "same_message s (ms_frame env e pl st) = same_message s st"
  by (simp add: same_message_def)

lemma same_message_drafts: "same_message st st' \<Longrightarrow> drafts d st' = drafts d st"
  by (simp add: same_message_def drafts_def)

lemma same_message_serves: "same_message st st' \<Longrightarrow> serves env request st' = serves env request st"
  by (simp add: same_message_def serves_def split: option.split)

lemma ensure_text_output_same: "same_message st (fst (ensure_text_output env st))"
  by (simp add: ensure_text_output_def Let_def same_message_def split: option.split)

lemma begin_text_content_same: "same_message st (fst (begin_text_content env st))"
  using ensure_text_output_same [of st env]
  by (auto simp: begin_text_content_def Let_def same_message_def split: prod.split option.split)

lemma emit_text_delta_same:
  "\<not> ms_terminal (emit_text_delta env i oi ci delta st) \<Longrightarrow> same_message st (emit_text_delta env i oi ci delta st)"
  by (auto simp: emit_text_delta_def ms_require_def split: option.splits)

lemma finish_active_text_output_same:
  "snd (finish_active_text_output env st) \<Longrightarrow> same_message st (fst (finish_active_text_output env st))"
  by (auto simp: finish_active_text_output_def Let_def same_message_def split: option.splits if_splits)

lemma finish_active_text_output_failed:
  "\<not> snd (finish_active_text_output env st) \<Longrightarrow> \<not> ms_terminal st \<Longrightarrow> ms_terminal (fst (finish_active_text_output env st))"
  by (auto simp: finish_active_text_output_def Let_def split: option.splits if_splits)

lemma ins_entry_map: "ins_entry k (f v) (map (\<lambda>(i, b). (i, f b)) es) = map (\<lambda>(i, b). (i, f b)) (ins_entry k v es)"
  by (induction es) auto

lemma bt_insert_same: "bt_get m k = Some v \<Longrightarrow> bt_insert k v m = m"
  by (rule bt_map_eqI) simp

lemma drafts_put:
  assumes "drafts d st" "x = block_draft b"
  shows "drafts (d\<lparr>dr_blocks := bt_insert i x (dr_blocks d)\<rparr>) (put_block i b st)"
  using assms ins_entry_map [of i block_draft b] by (simp add: drafts_def put_block_def)

lemma drafts_get:
  assumes "drafts d st"
  shows "bt_get (dr_blocks d) i = map_option block_draft (bt_get (ms_assistant_blocks st) i)"
proof -
  have get: "bt_get m i = map_of (bt_entries m) i" for m :: "(u64, 'z) btree_map" by transfer simp
  show ?thesis using assms by (simp add: get drafts_def map_of_map)
qed

lemma serves_put [simp]: "serves env request (put_block i b st) = serves env request st"
  by (simp add: serves_def put_block_def split: option.split)

lemma ms_require_open: "\<not> ms_terminal (ms_require env v st k) \<Longrightarrow> \<exists>x. v = Some x \<and> ms_require env v st k = k x"
  by (auto simp: ms_require_def split: option.splits)

text \<open>The bridge, still open, holds the message assembled so far.\<close>

definition holds :: "adapter_env \<Rightarrow> MessagesBridgeRequest \<Rightarrow> draft \<Rightarrow> MessagesStreamBridge \<Rightarrow> bool" where
  "holds env request d st \<longleftrightarrow> drafts d st \<and> serves env request st \<and> ms_completed st = None
     \<and> (\<forall>i. bt_get (ms_assistant_blocks st) i \<noteq> None \<longrightarrow> ms_response_id st \<noteq> None)"

lemma holds_same: "same_message st st' \<Longrightarrow> holds env request d st \<Longrightarrow> holds env request d st'"
  using same_message_drafts [of st st' d] same_message_serves [of st st' env request]
  by (simp add: holds_def) (simp add: same_message_def)

lemma holds_frame [simp]: "holds env request d (ms_frame env' e pl st) = holds env request d st"
  by (simp add: holds_def drafts_def serves_def split: option.split)

lemma holds_closed [simp]: "holds env request d (st\<lparr>ms_closed_blocks := c\<rparr>) = holds env request d st"
  "holds env request d (st\<lparr>ms_next_output_index := n\<rparr>) = holds env request d st"
  by (simp_all add: holds_def drafts_def serves_def split: option.split)

lemma holds_put:
  assumes "holds env request d st" "ms_response_id st \<noteq> None" "x = block_draft b"
  shows "holds env request (d\<lparr>dr_blocks := bt_insert i x (dr_blocks d)\<rparr>) (put_block i b st)"
  using assms drafts_put [of d st x b i] by (simp add: holds_def) (simp add: put_block_def)

lemma holds_emit:
  "\<not> ms_terminal (emit_text_delta env i oi ci delta st) \<Longrightarrow> holds env request d st
   \<Longrightarrow> holds env request d (emit_text_delta env i oi ci delta st)"
  by (rule holds_same [OF emit_text_delta_same])

lemma message_start_holds:
  assumes h: "holds env request d st" and o: "\<not> ms_terminal (handle_message_start env v st)"
    and k: "value_str v ''type'' = Some ''message_start''"
  shows "holds env request (assemble env d v) (handle_message_start env v st)"
proof -
  obtain m u where m: "value_get v ''message'' = Some m" and u: "non_blank (value_str m ''id'') = Some u"
    and none: "ms_response_id st = None"
    using o by (auto simp: handle_message_start_def ms_require_def split: option.splits if_splits)
  have id: "ms_upstream_id st = None" using h none by (auto simp: holds_def serves_def split: option.splits)
  show ?thesis
    using h m u none k non_blank_trimmed [OF u]
    by (simp add: handle_message_start_def ms_require_def assemble_def holds_def drafts_def serves_def Let_def split: option.split)
qed

lemma begin_text_content_None:
  "begin_text_content env st = (st', None) \<Longrightarrow> ms_response_id st \<noteq> None \<Longrightarrow> ms_terminal st'"
  by (auto simp: begin_text_content_def ensure_text_output_def Let_def split: prod.splits option.splits if_splits)

lemma text_block_holds:
  assumes "holds env request d st" "\<not> ms_terminal (start_text_block env i block st)" "get_str block ''type'' = Some ''text''"
    "ms_response_id st \<noteq> None"
  shows "holds env request (d\<lparr>dr_blocks := bt_insert i (started_block env block) (dr_blocks d)\<rparr>) (start_text_block env i block st)"
proof (cases "or_else [] (get_str block ''text'') = []")
  case True
  then show ?thesis using assms by (simp add: start_text_block_def started_block_def holds_put)
next
  case False
  obtain st' r where b: "begin_text_content env st = (st', r)" by fastforce
  have same: "same_message st st'" using begin_text_content_same [of st env] b by simp
  have h: "holds env request d st'" by (rule holds_same [OF same assms(1)])
  have r': "ms_response_id st' \<noteq> None" using same assms(4) by (simp add: same_message_def)
  obtain i' oi ci where x: "r = Some (i', oi, ci)"
    using begin_text_content_None [OF _ assms(4)] b assms(2) False by (cases r) (auto simp: start_text_block_def)
  have e: "start_text_block env i block st = emit_text_delta env i' oi ci (or_else [] (get_str block ''text''))
      (put_block i (TextBlock (or_else [] (get_str block ''text'')) (Some ci) (Some oi)) st')"
    using False b x by (simp add: start_text_block_def Let_def)
  show ?thesis unfolding e
    by (rule holds_emit [OF _ holds_put [OF h r']]) (use assms(2,3) e in \<open>simp_all add: started_block_def\<close>)
qed

lemma tool_block_holds:
  assumes h: "holds env request d st" and o: "\<not> ms_terminal (start_tool_block env i block st)"
    and k: "get_str block ''type'' = Some ''tool_use''" and r: "ms_response_id st \<noteq> None" and t: "\<not> ms_terminal st"
  shows "holds env request (d\<lparr>dr_blocks := bt_insert i (started_block env block) (dr_blocks d)\<rparr>) (start_tool_block env i block st)"
proof -
  obtain st' ok where f: "finish_active_text_output env st = (st', ok)" by fastforce
  have ok using finish_active_text_output_failed [of env st] f t o by (cases ok) (auto simp: start_tool_block_def)
  then have same: "same_message st st'" using finish_active_text_output_same [of env st] f by simp
  have h': "holds env request d st'" and r': "ms_response_id st' \<noteq> None"
    using holds_same [OF same h] same r by (simp_all add: same_message_def)
  obtain call_id where c: "non_blank (get_str block ''id'') = Some call_id"
    using o f \<open>ok\<close> by (auto simp: start_tool_block_def ms_require_def split: option.splits)
  obtain name where n: "non_blank (get_str block ''name'') = Some name"
    using o f \<open>ok\<close> c by (auto simp: start_tool_block_def ms_require_def split: option.splits)
  obtain target where g: "Option.bind (ms_request st') (\<lambda>request. client_tool (br_state request) name) = Some target"
    using o f \<open>ok\<close> c n by (auto simp: start_tool_block_def ms_require_def split: option.splits)
  have input: "case obj_get block ''input'' of None \<Rightarrow> True | Some input \<Rightarrow> is_object input"
    using o f \<open>ok\<close> c n g by (auto simp: start_tool_block_def ms_require_def split: option.splits if_splits)
  have started: "started_block env block = DraftTool call_id name (or_else [] (Option.bind
      (filter_option (\<lambda>input. case as_object input of None \<Rightarrow> False | Some m \<Rightarrow> m \<noteq> []) (obj_get block ''input'')) (env_to_string env)))"
    using k c n input
    by (auto simp: started_block_def or_else_def filter_option_def is_object_def split: option.splits Value.splits)
  show ?thesis
    using o f \<open>ok\<close> c n g h' r'
    by (simp add: start_tool_block_def ms_require_def Let_def split: if_splits) (auto simp: started intro!: holds_put)
qed

lemma block_start_holds:
  assumes h: "holds env request d st" and o: "\<not> ms_terminal (handle_block_start env v st)"
    and k: "value_str v ''type'' = Some ''content_block_start''" and t: "\<not> ms_terminal st"
  shows "holds env request (assemble env d v) (handle_block_start env v st)"
proof -
  obtain i block where i: "value_index v = Some i" and b: "Option.bind (value_get v ''content_block'') as_object = Some block"
    and g: "\<not> (ms_response_id st = None \<or> bt_contains (ms_assistant_blocks st) i \<or> i |\<in>| ms_closed_blocks st)"
    using o by (auto simp: handle_block_start_def ms_require_def split: option.splits if_splits)
  then have r: "ms_response_id st \<noteq> None" by simp
  have a: "assemble env d v = d\<lparr>dr_blocks := bt_insert i (started_block env block) (dr_blocks d)\<rparr>"
    using k i b by (simp add: assemble_def)
  let ?kind = "get_str block ''type''"
  have e: "handle_block_start env v st = (if ?kind = Some ''text'' then start_text_block env i block st
       else if ?kind = Some ''tool_use'' then start_tool_block env i block st
       else if ?kind = Some ''thinking'' then
         put_block i (ThinkingBlock (or_else [] (get_str block ''thinking''))
           (filter_option (\<lambda>signature. signature \<noteq> []) (get_str block ''signature''))) st
       else if ?kind = Some ''redacted_thinking'' then
         ms_require env (get_str block ''data'') st (\<lambda>data. put_block i (RedactedThinkingBlock data) st)
       else ms_invalid env st)"
    using i b g by (auto simp: handle_block_start_def ms_require_def Let_def)
  show ?thesis
  proof (cases "?kind = Some ''text'' \<or> ?kind = Some ''tool_use''")
    case True
    then show ?thesis
      using text_block_holds [OF h _ _ r] tool_block_holds [OF h _ _ r t] o a e by (auto split: if_splits)
  next
    case False
    then show ?thesis using o h r unfolding a e
      by (auto simp: ms_require_def started_block_def or_else_def intro!: holds_put split: if_splits option.splits)
  qed
qed

lemma holds_keep: "holds env request d st \<Longrightarrow> bt_get (dr_blocks d) i = Some b \<Longrightarrow> holds env request (d\<lparr>dr_blocks := bt_insert i b (dr_blocks d)\<rparr>) st"
  by (simp add: bt_insert_same)

lemma text_delta_holds:
  assumes h: "holds env request d st" and o: "\<not> ms_terminal (text_delta env i s st)" and t: "\<not> ms_terminal st"
  shows "\<exists>t. bt_get (dr_blocks d) i = Some (DraftText t)
    \<and> holds env request (d\<lparr>dr_blocks := bt_insert i (DraftText (t @ s)) (dr_blocks d)\<rparr>) (text_delta env i s st)"
proof -
  obtain t0 c0 o0 where b: "bt_get (ms_assistant_blocks st) i = Some (TextBlock t0 c0 o0)"
    using o by (auto simp: text_delta_def split: option.splits StreamBlock.splits)
  have r: "ms_response_id st \<noteq> None" using h b by (auto simp: holds_def)
  have get: "bt_get (dr_blocks d) i = Some (DraftText t0)" using drafts_get [of d st i] h b by (simp add: holds_def)
  obtain st' oi ci where p: "same_message st st'" and e: "text_delta env i s st =
      (let st = put_block i (TextBlock (t0 @ s) (Some ci) (Some oi)) st'
       in ms_require env (filter_option (\<lambda>t. to_output_index t = oi) (ms_text_output st)) st
            (\<lambda>t. emit_text_delta env (to_item_id t) oi ci s st))"
  proof (cases c0)
    case None
    obtain st' x where bt: "begin_text_content env st = (st', x)" by fastforce
    have "x \<noteq> None"
    proof
      assume x: "x = None"
      then have "text_delta env i s st = st'" using bt b None by (simp add: text_delta_def)
      then show False using begin_text_content_None [of env st st'] bt r o x by simp
    qed
    then obtain i' oi ci where "x = Some (i', oi, ci)" by (metis not_None_eq prod_cases3)
    then show ?thesis
      using that [of st' ci oi] begin_text_content_same [of st env] bt b None by (simp add: text_delta_def)
  next
    case (Some ci)
    then obtain oi where "o0 = Some oi" using o b by (cases o0) (auto simp: text_delta_def)
    then show ?thesis using that [of st ci oi] b Some by (simp add: text_delta_def)
  qed
  have h': "holds env request d st'" and r': "ms_response_id st' \<noteq> None" using holds_same [OF p h] p r by (simp_all add: same_message_def)
  have "holds env request (d\<lparr>dr_blocks := bt_insert i (DraftText (t0 @ s)) (dr_blocks d)\<rparr>) (text_delta env i s st)"
    using o holds_put [OF h' r', of "DraftText (t0 @ s)" "TextBlock (t0 @ s) (Some ci) (Some oi)" i] unfolding e
    by (auto simp: Let_def ms_require_def intro!: holds_emit split: option.splits)
  then show ?thesis using get by blast
qed

lemma block_delta_holds:
  assumes h: "holds env request d st" and o: "\<not> ms_terminal (block_delta env i delta st)"
    and k: "get_str delta ''type'' \<noteq> Some ''text_delta''"
  shows "\<exists>b. bt_get (dr_blocks d) i = Some b
    \<and> holds env request (d\<lparr>dr_blocks := bt_insert i (extended_block delta b) (dr_blocks d)\<rparr>) (block_delta env i delta st)"
proof -
  obtain b where b: "bt_get (ms_assistant_blocks st) i = Some b"
    using o by (auto simp: block_delta_def ms_require_def split: option.splits)
  have r: "ms_response_id st \<noteq> None" using h b by (auto simp: holds_def)
  have get: "bt_get (dr_blocks d) i = Some (block_draft b)" using drafts_get [of d st i] h b by (simp add: holds_def)
  have "holds env request (d\<lparr>dr_blocks := bt_insert i (extended_block delta (block_draft b)) (dr_blocks d)\<rparr>) (block_delta env i delta st)"
    using o h r b k
    by (cases b) (auto simp: block_delta_def ms_require_def extended_block_def or_else_def Let_def intro!: holds_put
        split: option.splits if_splits)
  then show ?thesis using get by blast
qed

lemma handle_delta_holds:
  assumes h: "holds env request d st" and o: "\<not> ms_terminal (handle_block_delta env v st)" and t: "\<not> ms_terminal st"
    and k: "value_str v ''type'' = Some ''content_block_delta''" "\<not> is_ignorable_delta v"
  shows "holds env request (assemble env d v) (handle_block_delta env v st)"
proof -
  obtain i delta where i: "value_index v = Some i" and b: "Option.bind (value_get v ''delta'') as_object = Some delta"
    and g: "i |\<notin>| ms_closed_blocks st"
    using o by (auto simp: handle_block_delta_def ms_require_def split: option.splits if_splits)
  have a: "assemble env d v = (case bt_get (dr_blocks d) i of None \<Rightarrow> d
      | Some b \<Rightarrow> d\<lparr>dr_blocks := bt_insert i (extended_block delta b) (dr_blocks d)\<rparr>)"
    using k i b by (simp add: assemble_def)
  show ?thesis
  proof (cases "get_str delta ''type'' = Some ''text_delta''")
    case True
    obtain s where s: "get_str delta ''text'' = Some s"
      using o i b g True by (auto simp: handle_block_delta_def ms_require_def split: option.splits)
    have e: "handle_block_delta env v st = (if s = [] then st else text_delta env i s st)"
      using i b g True s by (simp add: handle_block_delta_def ms_require_def)
    show ?thesis
    proof (cases "s = []")
      case True
      then have "extended_block delta b = b" for b
        using \<open>get_str delta ''type'' = Some ''text_delta''\<close> s by (simp add: extended_block_def or_else_def Let_def split: draft_block.split)
      then show ?thesis using h True unfolding a e by (simp add: bt_insert_same split: option.split)
    next
      case False
      then obtain u where u: "bt_get (dr_blocks d) i = Some (DraftText u)"
        and hu: "holds env request (d\<lparr>dr_blocks := bt_insert i (DraftText (u @ s)) (dr_blocks d)\<rparr>) (text_delta env i s st)"
        using text_delta_holds [OF h _ t, of i s] o unfolding e by auto
      have "extended_block delta (DraftText u) = DraftText (u @ s)" using True s by (simp add: extended_block_def or_else_def)
      then show ?thesis using u hu False unfolding a e by simp
    qed
  next
    case False
    then have e: "handle_block_delta env v st = block_delta env i delta st"
      using i b g by (simp add: handle_block_delta_def ms_require_def)
    show ?thesis using block_delta_holds [OF h, of i delta] o False unfolding a e by auto
  qed
qed

lemma holds_require:
  assumes "\<not> ms_terminal (ms_require env v st k)" "\<And>x. v = Some x \<Longrightarrow> \<not> ms_terminal (k x) \<Longrightarrow> holds env' request d (k x)"
  shows "holds env' request d (ms_require env v st k)"
  using assms by (auto simp: ms_require_def split: option.splits)

lemma stop_text_holds:
  "holds env request d st \<Longrightarrow> \<not> ms_terminal (stop_text_block env t ci oi st) \<Longrightarrow> holds env request d (stop_text_block env t ci oi st)"
  unfolding stop_text_block_def by (rule holds_require) (simp_all add: Let_def)

lemma stop_tool_holds:
  "holds env request d st \<Longrightarrow> \<not> ms_terminal (stop_tool_block env t st) \<Longrightarrow> holds env request d (stop_tool_block env t st)"
  unfolding stop_tool_block_def Let_def
  by (rule holds_require) (auto split: ResponsesToolKind.splits sum.splits)

lemma block_stop_holds:
  assumes h: "holds env request d st" and o: "\<not> ms_terminal (handle_block_stop env v st)"
  shows "holds env request d (handle_block_stop env v st)"
proof -
  obtain i b where i: "value_index v = Some i" "i |\<notin>| ms_closed_blocks st" "bt_get (ms_assistant_blocks st) i = Some b"
    using o by (auto simp: handle_block_stop_def ms_require_def Let_def split: option.splits if_splits)
  let ?st = "st\<lparr>ms_closed_blocks := finsert i (ms_closed_blocks st)\<rparr>"
  have e: "handle_block_stop env v st = (case b of
      TextBlock t (Some ci) (Some oi) \<Rightarrow> stop_text_block env t ci oi ?st | TextBlock _ _ _ \<Rightarrow> ?st
    | ToolBlock t \<Rightarrow> stop_tool_block env t ?st | _ \<Rightarrow> ?st)"
    using i by (simp add: handle_block_stop_def ms_require_def Let_def)
  show ?thesis using o h stop_text_holds [of env request d ?st] stop_tool_holds [of env request d ?st] unfolding e
    by (auto split: StreamBlock.splits option.splits)
qed

lemma ms_complete_terminal: "\<not> ms_terminal st \<Longrightarrow> ms_terminal (ms_complete env st)"
  using finish_active_text_output_failed [of env st]
  by (auto simp: ms_complete_def ms_require_def Let_def split: prod.split bool.split option.split sum.split)

lemma handle_value_holds:
  assumes h: "holds env request d st" and o: "\<not> ms_terminal (ms_handle_value env v st)" and t: "\<not> ms_terminal st"
  shows "holds env request (assemble env d v) (ms_handle_value env v st)"
proof -
  obtain kind where k: "value_str v ''type'' = Some kind"
    using o by (auto simp: ms_handle_value_def ms_require_def split: option.splits)
  consider "kind = ''message_start''" | "kind = ''content_block_start''" | "kind = ''content_block_delta''"
    | "kind = ''content_block_stop''" | "kind = ''message_delta''"
    | "kind \<notin> {''message_start'', ''content_block_start'', ''content_block_delta'', ''content_block_stop'', ''message_delta''}"
    by auto
  then show ?thesis
  proof cases
    case 1
    then show ?thesis using message_start_holds [OF h, of v] o k by (simp add: ms_handle_value_def ms_require_def)
  next
    case 2
    then show ?thesis using block_start_holds [OF h, of v] o k t by (simp add: ms_handle_value_def ms_require_def)
  next
    case 3
    then show ?thesis using handle_delta_holds [OF h _ t, of v] h o k
      by (cases "is_ignorable_delta v") (simp_all add: ms_handle_value_def ms_require_def assemble_def)
  next
    case 4
    then show ?thesis using block_stop_holds [OF h, of v] o k by (simp add: ms_handle_value_def ms_require_def assemble_def)
  next
    case 5
    then show ?thesis using h k
      by (auto simp: ms_handle_value_def ms_require_def assemble_def holds_def drafts_def serves_def split: option.split)
  next
    case 6
    then have "ms_handle_value env v st = st"
      using o k ms_complete_terminal [OF t, of env] by (auto simp: ms_handle_value_def ms_require_def split: if_splits)
    then show ?thesis using h k 6 by (simp add: assemble_def)
  qed
qed

subsection \<open>Completion\<close>

lemma draft_content_block: "draft_content env (block_draft b) = block_content env b"
  by (cases b) (simp_all add: draft_content_def block_content_def)

lemma try_map_map: "try_map f (map g xs) = try_map (\<lambda>x. f (g x)) xs"
  by (induction xs) simp_all

lemma drafts_content:
  assumes "drafts d st"
  shows "try_map (draft_content env) (bt_values (dr_blocks d)) = assistant_content env st"
proof -
  have "bt_values (dr_blocks d) = map block_draft (bt_values (ms_assistant_blocks st))"
    using assms by (simp add: bt_values_def drafts_def case_prod_beta)
  then show ?thesis by (simp add: try_map_map draft_content_block assistant_content_def)
qed

lemma complete_translates:
  assumes h: "holds env request d st" and c: "ms_completed (ms_complete env st) = Some r"
  shows "\<exists>m. assembled_message env d = Inr m \<and> translate_messages_response env request m = Inr r"
proof -
  have none: "ms_completed st = None" using h by (simp add: holds_def)
  obtain st' ok where f: "finish_active_text_output env st = (st', ok)" by fastforce
  have unfin: "ms_completed st' = None"
    using f none by (auto simp: finish_active_text_output_def Let_def split: option.splits if_splits)
  have ok using c f unfin none by (cases ok) (auto simp: ms_complete_def split: if_splits)
  then have same: "same_message st st'" using finish_active_text_output_same [of env st] f by simp
  have h': "holds env request d st'" by (rule holds_same [OF same h])
  have req: "ms_request st' = Some request" "ms_model st' = mb_model (br_state request)"
    using h' by (simp_all add: holds_def serves_def)
  obtain u where u: "ms_upstream_id st' = Some u" and id: "ms_response_id st' = Some (bridged_response_id_scoped env (br_response_scope request) u)"
    and trimmed: "trim u = u" "u \<noteq> []"
    using c f \<open>ok\<close> unfin none h' req
    by (auto simp: ms_complete_def ms_require_def holds_def serves_def Let_def split: option.splits if_splits)
  obtain content where content: "assistant_content env st' = Inr content"
    using c f \<open>ok\<close> unfin none req u by (auto simp: ms_complete_def ms_require_def assistant_content_def Let_def split: sum.splits if_splits)
  have content': "assistant_content env (st'\<lparr>ms_request := None\<rparr>) = Inr content" using content by (simp add: assistant_content_def)
  obtain ok' where valid: "validate_messages_tool_calls (br_state request) content = Inr ok'"
    using c f \<open>ok\<close> unfin none req u content' by (auto simp: ms_complete_def ms_require_def Let_def split: sum.splits if_splits)
  obtain out kept where out: "responses_output_from_messages_content env content (br_state request) = Inr (out, kept)"
    using c f \<open>ok\<close> unfin none req u content' valid
    by (auto simp: ms_complete_def ms_require_def Let_def split: sum.splits if_splits)
  have r: "r = \<lparr>bp_response_body = response_body (bridged_response_id_scoped env (br_response_scope request) u) 0 (ms_model st')
        (set_message_output_id out (bridged_response_id_scoped env (br_response_scope request) u)) (responses_usage (ms_usage st')),
      bp_response_id = bridged_response_id_scoped env (br_response_scope request) u,
      bp_continuation = append_assistant_content content (br_state request)\<rparr>"
    using c f \<open>ok\<close> none req u content' valid out id by (simp add: ms_complete_def ms_require_def Let_def split: if_splits)
  have d: "dr_id d = Some u" "dr_usage d = ms_usage st'" "try_map (draft_content env) (bt_values (dr_blocks d)) = Inr content"
    using h' u drafts_content [of d st' env] content by (simp_all add: holds_def drafts_def)
  show ?thesis
    using d valid out r req(2) trimmed
    by (auto simp: assembled_message_def translate_messages_response_def value_str_def value_array_def opt_string_def
        non_blank_def Let_def split: option.split)
qed

text \<open>Only the end of the message completes the response.\<close>

lemma completed_require:
  "ms_completed st = None \<Longrightarrow> (\<And>x. v = Some x \<Longrightarrow> ms_completed (k x) = None) \<Longrightarrow> ms_completed (ms_require env v st k) = None"
  by (auto simp: ms_require_def split: option.split)

lemma completed_put [simp]: "ms_completed (put_block i b st) = ms_completed st"
  by (simp add: put_block_def)

lemma completed_begin: "ms_completed (fst (begin_text_content env st)) = ms_completed st"
  using begin_text_content_same [of st env] by (simp add: same_message_def)

lemma completed_finish: "ms_completed (fst (finish_active_text_output env st)) = ms_completed st"
  by (simp add: finish_active_text_output_def Let_def split: option.split)

lemma completed_emit: "ms_completed st = None \<Longrightarrow> ms_completed (emit_text_delta env i oi ci delta st) = None"
  unfolding emit_text_delta_def by (rule completed_require) simp_all

lemma completed_start_text: "ms_completed st = None \<Longrightarrow> ms_completed (start_text_block env i block st) = None"
  using completed_begin [of env st] by (auto simp: start_text_block_def Let_def intro!: completed_emit split: prod.split option.split)

lemma completed_start_tool: "ms_completed st = None \<Longrightarrow> ms_completed (start_tool_block env i block st) = None"
  using completed_finish [of env st]
  by (auto simp: start_tool_block_def Let_def intro!: completed_require split: prod.split bool.split)

lemma completed_block_start: "ms_completed st = None \<Longrightarrow> ms_completed (handle_block_start env v st) = None"
  by (auto simp: handle_block_start_def Let_def intro!: completed_require completed_start_text completed_start_tool)

lemma completed_text_delta: "ms_completed st = None \<Longrightarrow> ms_completed (text_delta env i s st) = None"
  using completed_begin [of env st]
  by (auto simp: text_delta_def Let_def intro!: completed_require completed_emit split: prod.split option.split StreamBlock.split)

lemma completed_block_delta: "ms_completed st = None \<Longrightarrow> ms_completed (block_delta env i delta st) = None"
  by (auto simp: block_delta_def Let_def intro!: completed_require split: StreamBlock.split)

lemma completed_delta: "ms_completed st = None \<Longrightarrow> ms_completed (handle_block_delta env v st) = None"
  by (auto simp: handle_block_delta_def intro!: completed_require completed_text_delta completed_block_delta)

lemma completed_stop_tool: "ms_completed st = None \<Longrightarrow> ms_completed (stop_tool_block env t st) = None"
  by (auto simp: stop_tool_block_def Let_def intro!: completed_require split: ResponsesToolKind.split sum.split)

lemma completed_stop: "ms_completed st = None \<Longrightarrow> ms_completed (handle_block_stop env v st) = None"
  by (auto simp: handle_block_stop_def stop_text_block_def Let_def intro!: completed_require completed_stop_tool
      split: StreamBlock.split option.split)

lemma completed_message_start: "ms_completed st = None \<Longrightarrow> ms_completed (handle_message_start env v st) = None"
  by (auto simp: handle_message_start_def Let_def intro!: completed_require split: option.split)

lemma handle_value_completed:
  assumes "ms_completed st = None" "ms_completed (ms_handle_value env v st) = Some r"
  shows "value_str v ''type'' = Some ''message_stop'' \<and> ms_handle_value env v st = ms_complete env st"
proof -
  obtain kind where k: "value_str v ''type'' = Some kind"
    using assms by (auto simp: ms_handle_value_def ms_require_def split: option.splits)
  have "kind = ''message_stop''"
  proof (rule ccontr)
    assume "kind \<noteq> ''message_stop''"
    then have "ms_completed (ms_handle_value env v st) = None"
      using assms(1) k completed_message_start [of st env v] completed_block_start [of st env v] completed_delta [of st env v]
        completed_stop [of st env v]
      by (simp add: ms_handle_value_def ms_require_def split: option.split)
    then show False using assms(2) by simp
  qed
  then show ?thesis using k by (simp add: ms_handle_value_def ms_require_def)
qed

lemma handle_value_translates:
  assumes h: "holds env request d st" and c: "ms_completed (ms_handle_value env v st) = Some r"
  shows "\<exists>m. assembled_message env (assemble env d v) = Inr m \<and> translate_messages_response env request m = Inr r"
proof -
  have v: "value_str v ''type'' = Some ''message_stop''" "ms_handle_value env v st = ms_complete env st"
    using handle_value_completed [OF _ c] h by (simp_all add: holds_def)
  then have "assemble env d v = d" by (simp add: assemble_def)
  then show ?thesis using complete_translates [OF h] c v(2) by simp
qed

subsection \<open>Whole streams\<close>

text \<open>The events of a byte stream, as far as they are complete.\<close>

function stream_events :: "string \<Rightarrow> string list" where
  "stream_events bytes = (case event_end bytes of None \<Rightarrow> [] | Some e \<Rightarrow> take e bytes # stream_events (drop e bytes))"
  by auto
termination by (relation "measure length") (auto dest: event_end_bound)

declare stream_events.simps [simp del]

definition assembled :: "adapter_env \<Rightarrow> string list \<Rightarrow> draft" where
  "assembled env events = foldl (assemble env) empty_draft (List.map_filter (parse_sse_data env) events)"

lemma assembled_snoc: "assembled env (es @ [e]) =
    (case parse_sse_data env e of None \<Rightarrow> assembled env es | Some v \<Rightarrow> assemble env (assembled env es) v)"
  by (simp add: assembled_def map_filter_def split: option.split)

text \<open>The bridge after the events \<open>es\<close>: open with their message, or completed with its translation, or failed.\<close>

definition follows :: "adapter_env \<Rightarrow> MessagesBridgeRequest \<Rightarrow> string list \<Rightarrow> MessagesStreamBridge \<Rightarrow> bool" where
  "follows env request es st \<longleftrightarrow>
     (if ms_terminal st then (\<forall>r. ms_completed st = Some r \<longrightarrow>
         (\<exists>m. assembled_message env (assembled env es) = Inr m \<and> translate_messages_response env request m = Inr r))
      else holds env request (assembled env es) st)"

lemma handle_event_follows:
  assumes "follows env request es st" "\<not> ms_terminal st"
  shows "follows env request (es @ [e]) (ms_handle_event env e st)"
proof -
  have h: "holds env request (assembled env es) st" using assms by (simp add: follows_def)
  then have none: "ms_completed st = None" by (simp add: holds_def)
  show ?thesis
  proof (cases "parse_sse_data env e")
    case None
    then show ?thesis using h none assms(2) by (simp add: follows_def ms_handle_event_def assembled_snoc)
  next
    case (Some v)
    then show ?thesis
      using handle_value_holds [OF h _ assms(2), of v] handle_value_translates [OF h, of v]
      by (simp add: follows_def ms_handle_event_def assembled_snoc)
  qed
qed

lemma drain_follows:
  "follows env request es st \<Longrightarrow> \<not> ms_terminal st \<Longrightarrow>
   \<exists>n. follows env request (es @ take n (stream_events p)) (snd (drain_events (ms_handle_event env) ms_terminal p st))"
proof (induction p arbitrary: es st rule: length_induct)
  case (1 p)
  show ?case
  proof (cases "event_end p")
    case None
    then show ?thesis using "1.prems" by (intro exI [of _ 0]) (simp add: drain_events.simps)
  next
    case (Some e)
    let ?st = "ms_handle_event env (take e p) st"
    have f: "follows env request (es @ [take e p]) ?st" by (rule handle_event_follows [OF "1.prems"])
    have ev: "stream_events p = take e p # stream_events (drop e p)" using Some by (simp add: stream_events.simps [of p])
    show ?thesis
    proof (cases "ms_terminal ?st")
      case True
      then show ?thesis using f Some ev by (intro exI [of _ 1]) (simp add: drain_events.simps [of _ _ p] Let_def)
    next
      case False
      have "length (drop e p) < length p" using event_end_bound [OF Some] by auto
      then obtain n where "follows env request ((es @ [take e p]) @ take n (stream_events (drop e p)))
          (snd (drain_events (ms_handle_event env) ms_terminal (drop e p) ?st))"
        using "1.IH" f False by blast
      then show ?thesis using Some ev False
        by (intro exI [of _ "Suc n"]) (simp add: drain_events.simps [of _ _ p] Let_def)
    qed
  qed
qed

lemma follows_new: "follows env request [] (messages_bridge_new request)"
  by (simp add: follows_def holds_def drafts_def serves_def assembled_def empty_draft_def messages_bridge_new_def map_filter_def)

text \<open>
  C33 (refinement). The response that a bridge completes with is the one a client gets without streaming:
  the events read up to the end of the message assemble a message, and translating that message at once
  gives the same body, the same identifier and the same continuation. This holds for any upstream bytes
  and any interpretation of JSON text and digests.
\<close>

theorem completed_stream_is_translation:
  assumes "ms_push env bytes ([], messages_bridge_new request) = (pending, st)" "ms_completed st = Some r"
  shows "\<exists>n m. assembled_message env (assembled env (take n (stream_events bytes))) = Inr m
    \<and> translate_messages_response env request m = Inr r"
proof -
  obtain n where "follows env request (take n (stream_events bytes)) st"
    using drain_follows [OF follows_new, of request env bytes] assms(1)
    by (auto simp: ms_push_def push_bytes_def messages_bridge_new_def)
  moreover have "\<not> holds env request d st" for d using assms(2) by (simp add: holds_def)
  ultimately show ?thesis using assms(2) by (auto simp: follows_def split: if_splits)
qed

definition wit_events :: "string \<Rightarrow> Value option" where
  "wit_events t =
     (if t = ''1'' then Some (json [(''type'', String ''message_start''), (''message'', json [(''id'', String ''u'')])])
      else if t = ''2'' then Some (json [(''type'', String ''content_block_start''), (''index'', value_u64 0),
        (''content_block'', json [(''type'', String ''text''), (''text'', String ''hi'')])])
      else if t = ''3'' then Some (json [(''type'', String ''content_block_stop''), (''index'', value_u64 0)])
      else if t = ''4'' then Some (json [(''type'', String ''message_stop'')])
      else None)"

definition wit_bytes :: string where
  "wit_bytes = concat (map (\<lambda>t. ''data: '' @ t @ [LF, LF]) [''1'', ''2'', ''3'', ''4''])"

theorem completed_stream_is_translation_witness:
  "\<exists>n m r. assembled_message (wit_env\<lparr>env_from_slice := wit_events\<rparr>)
      (assembled (wit_env\<lparr>env_from_slice := wit_events\<rparr>) (take n (stream_events wit_bytes))) = Inr m
    \<and> translate_messages_response (wit_env\<lparr>env_from_slice := wit_events\<rparr>) wit_request m = Inr r"
proof -
  let ?env = "wit_env\<lparr>env_from_slice := wit_events\<rparr>"
  have "\<not> Option.is_none (ms_completed (snd (ms_push ?env wit_bytes ([], messages_bridge_new wit_request))))" by code_simp
  then obtain r where r: "ms_completed (snd (ms_push ?env wit_bytes ([], messages_bridge_new wit_request))) = Some r"
    by (auto simp: Option.is_none_def)
  show ?thesis using completed_stream_is_translation [OF prod.collapse [symmetric] r] by blast
qed

end
