(* ===== verification/Gemini_Args.thy ===== *)
theory Gemini_Args
  imports Adapter_Contracts Bridge_Store Sse_Events
begin

section \<open>Arguments of Gemini function calls\<close>

text \<open>
  The part of \<open>protocol/adapter/gemini.rs\<close> that puts together the arguments of a function call: they
  come as an object, as patches addressed by a JSON path, or both. A path may name an index far behind
  the end of an array, which is then filled up with nulls; \<open>Vec::resize_with\<close> panics when the vector
  would be longer than \<open>isize::MAX\<close> bytes, and the number of values that fit is the argument
  \<open>max_len\<close>. A result is a sum whose left side is \<open>Some e\<close> for an error and \<open>None\<close> for a panic.
\<close>

type_synonym 'a gemini_result = "AdapterError option + 'a"

abbreviation reject :: "AdapterError \<Rightarrow> 'a gemini_result" where "reject e \<equiv> Inl (Some e)"

abbreviation panic :: "'a gemini_result" where "panic \<equiv> Inl None"

text \<open>\<open>map_err(|_| e)\<close> and the use of a result that cannot panic.\<close>

fun map_err :: "AdapterError \<Rightarrow> 'a gemini_result \<Rightarrow> 'a gemini_result" where
  "map_err e (Inl None) = panic"
| "map_err e (Inl (Some _)) = reject e"
| "map_err e (Inr v) = Inr v"

fun may_fail :: "'a adapter_result \<Rightarrow> 'a gemini_result" where
  "may_fail (Inl e) = reject e"
| "may_fail (Inr v) = Inr v"

subsection \<open>Paths\<close>

datatype JsonPathSegment = Key string | Index u64

definition path_char :: "char \<Rightarrow> bool" where
  "path_char c \<longleftrightarrow> is_ascii_alphanumeric c \<or> c = CHR ''_'' \<or> c = CHR ''-''"

abbreviation quote_char :: char where "quote_char \<equiv> CHR 0x22"

lemma dropWhile_shorter: "dropWhile P s = ys \<Longrightarrow> length ys \<le> length s"
  using length_dropWhile_le by blast

function parse_segments :: "string \<Rightarrow> JsonPathSegment list option" where
  "parse_segments s =
     (case s of
        [] \<Rightarrow> Some []
      | c # s \<Rightarrow>
          if c = CHR ''.'' then
            (let key = takeWhile path_char s
             in if key = [] then None else map_option ((#) (Key key)) (parse_segments (dropWhile path_char s)))
          else if c = CHR ''['' then
            (if s \<noteq> [] \<and> hd s = quote_char then
               (case dropWhile (\<lambda>c. c \<noteq> quote_char) (tl s) of
                  _ # c # rest \<Rightarrow> if c = CHR '']'' then map_option ((#) (Key (takeWhile (\<lambda>c. c \<noteq> quote_char) (tl s)))) (parse_segments rest)
                    else None
                | _ \<Rightarrow> None)
             else
               (let digits = takeWhile is_ascii_digit s in
                case dropWhile is_ascii_digit s of
                  c # rest \<Rightarrow> if digits = [] \<or> c \<noteq> CHR '']'' then None
                    else Option.bind (parse_u64 digits) (\<lambda>index. map_option ((#) (Index index)) (parse_segments rest))
                | [] \<Rightarrow> None))
          else None)"
  by pat_completeness auto

termination
  by (relation "measure length") (auto simp: less_Suc_eq_le length_dropWhile_le dest!: dropWhile_shorter)

declare parse_segments.simps [simp del]

definition parse_json_path :: "string \<Rightarrow> JsonPathSegment list option" where
  "parse_json_path path =
     (case path of [] \<Rightarrow> None | c # s \<Rightarrow> if c \<noteq> CHR ''$'' then None else parse_segments s)"

subsection \<open>Patches\<close>

definition empty_container :: "JsonPathSegment list \<Rightarrow> Value" where
  "empty_container segments = (case segments of Index _ # _ \<Rightarrow> Array [] | _ \<Rightarrow> Object [])"

definition resized :: "nat \<Rightarrow> u64 \<Rightarrow> Value list \<Rightarrow> Value list gemini_result" where
  "resized max_len index vs =
     (if unat index < length vs then Inr vs
      else if unat index < max_len then Inr (vs @ replicate (unat index + 1 - length vs) Null)
      else panic)"

fun set_json_path_segments :: "nat \<Rightarrow> JsonPathSegment list \<Rightarrow> Value \<Rightarrow> Value \<Rightarrow> Value gemini_result" where
  "set_json_path_segments max_len [] v current = Inr v"
| "set_json_path_segments max_len (Key key # segments) v current =
     and_then (ok_or (Some invalid_request) (as_object current)) (\<lambda>object.
     if segments = [] then Inr (Object (obj_insert key v object))
     else and_then (set_json_path_segments max_len segments v (or_else (empty_container segments) (obj_get object key)))
       (\<lambda>child. Inr (Object (obj_insert key child object))))"
| "set_json_path_segments max_len (Index index # segments) v current =
     and_then (ok_or (Some invalid_request) (as_array current)) (\<lambda>vs.
     and_then (resized max_len index vs) (\<lambda>vs.
     if segments = [] then Inr (Array (vs[unat index := v]))
     else
       let old = vs ! unat index; old = (if old = Null then empty_container segments else old)
       in and_then (set_json_path_segments max_len segments v old) (\<lambda>child. Inr (Array (vs[unat index := child])))))"

definition set_json_path :: "nat \<Rightarrow> Value \<Rightarrow> string \<Rightarrow> Value \<Rightarrow> Value gemini_result" where
  "set_json_path max_len target path v =
     and_then (ok_or (Some invalid_request) (parse_json_path path)) (\<lambda>segments.
     if segments = [] then reject invalid_request else set_json_path_segments max_len segments v target)"

definition partial_arg_keys :: "string list" where
  "partial_arg_keys = [''stringValue'', ''numberValue'', ''boolValue'', ''booleanValue'', ''nullValue'', ''jsonValue'', ''value'']"

fun first_arg_value :: "adapter_env \<Rightarrow> object \<Rightarrow> string list \<Rightarrow> Value option" where
  "first_arg_value env patch [] = None"
| "first_arg_value env patch (key # keys) =
     (case obj_get patch key of
        None \<Rightarrow> first_arg_value env patch keys
      | Some v \<Rightarrow> (case (key = ''jsonValue'', as_str v) of (True, Some text) \<Rightarrow> env_from_slice env text | _ \<Rightarrow> Some v))"

definition partial_arg_value :: "adapter_env \<Rightarrow> object \<Rightarrow> Value option" where
  "partial_arg_value env patch = first_arg_value env patch partial_arg_keys"

definition apply_patch :: "adapter_env \<Rightarrow> nat \<Rightarrow> Value \<Rightarrow> Value \<Rightarrow> Value gemini_result" where
  "apply_patch env max_len target patch =
     and_then (ok_or (Some invalid_request) (as_object patch)) (\<lambda>patch.
     and_then (ok_or (Some invalid_request) (get_str patch ''jsonPath'')) (\<lambda>path.
     case partial_arg_value env patch of
       None \<Rightarrow> Inr target
     | Some v \<Rightarrow> if v = String [] then Inr target else set_json_path max_len target path v))"

definition apply_partial_args :: "adapter_env \<Rightarrow> nat \<Rightarrow> Value \<Rightarrow> Value \<Rightarrow> Value gemini_result" where
  "apply_partial_args env max_len target partial_args =
     and_then (ok_or (Some invalid_request) (as_array partial_args)) (try_fold (apply_patch env max_len) target)"

definition function_call_args :: "adapter_env \<Rightarrow> nat \<Rightarrow> object \<Rightarrow> Value gemini_result" where
  "function_call_args env max_len call =
     (let args = or_else (json []) (obj_get call ''args'')
      in if \<not> is_object args then reject invalid_request
         else case obj_get call ''partialArgs'' of
             None \<Rightarrow> Inr args
           | Some partial_args \<Rightarrow> apply_partial_args env max_len args partial_args)"

subsection \<open>What a patch changes\<close>

fun value_at :: "Value \<Rightarrow> JsonPathSegment list \<Rightarrow> Value option" where
  "value_at v [] = Some v"
| "value_at v (Key key # segments) = Option.bind (value_get v key) (\<lambda>w. value_at w segments)"
| "value_at v (Index index # segments) =
     (case as_array v of None \<Rightarrow> None
      | Some vs \<Rightarrow> if unat index < length vs then value_at (vs ! unat index) segments else None)"

text \<open>Two paths diverge when neither leads into the place the other addresses.\<close>

fun diverge :: "JsonPathSegment list \<Rightarrow> JsonPathSegment list \<Rightarrow> bool" where
  "diverge (a # s) (b # t) \<longleftrightarrow> a \<noteq> b \<or> diverge s t"
| "diverge _ _ \<longleftrightarrow> False"

lemma resized_Inr:
  assumes "resized max_len index vs = Inr ws"
  shows "unat index < length ws" "\<And>i. i < length vs \<Longrightarrow> i < length ws \<and> ws ! i = vs ! i"
  using assms by (auto simp: resized_def nth_append split: if_splits)

lemma set_key:
  assumes "set_json_path_segments max_len (Key key # segments) v current = Inr new"
  obtains m child where "current = Object m" "new = Object (obj_insert key child m)"
    "segments = [] \<and> child = v \<or> segments \<noteq> []
       \<and> set_json_path_segments max_len segments v (or_else (empty_container segments) (obj_get m key)) = Inr child"
proof -
  obtain m where "current = Object m" using assms by (auto simp: and_then_Inr)
  then show ?thesis using assms that [of m] by (cases "segments = []") (auto simp: and_then_Inr)
qed

lemma set_index:
  assumes "set_json_path_segments max_len (Index index # segments) v current = Inr new"
  obtains vs ws child where "current = Array vs" "resized max_len index vs = Inr ws" "new = Array (ws[unat index := child])"
    "segments = [] \<and> child = v \<or> segments \<noteq> [] \<and> set_json_path_segments max_len segments v
       (if ws ! unat index = Null then empty_container segments else ws ! unat index) = Inr child"
proof -
  obtain vs ws where "current = Array vs" "resized max_len index vs = Inr ws" using assms by (auto simp: and_then_Inr)
  then show ?thesis using assms that [of vs ws] by (cases "segments = []") (auto simp: and_then_Inr Let_def)
qed

lemma set_value_at: "set_json_path_segments max_len segments v current = Inr new \<Longrightarrow> value_at new segments = Some v"
proof (induction segments arbitrary: current new)
  case (Cons a segments)
  show ?case
  proof (cases a)
    case (Key key)
    from Cons.prems show ?thesis unfolding Key by (rule set_key) (use Cons.IH in auto)
  next
    case (Index index)
    from Cons.prems show ?thesis unfolding Index by (rule set_index) (use Cons.IH resized_Inr(1) in fastforce)
  qed
qed simp

lemma value_at_leaf: "diverge s t \<Longrightarrow> value_at Null t = None"
  by (cases t; cases "hd t") auto

lemma set_keeps_others:
  assumes "set_json_path_segments max_len segments v current = Inr new" "diverge segments other" "value_at current other = Some w"
  shows "value_at new other = Some w"
  using assms
proof (induction segments arbitrary: current new other)
  case (Cons a segments)
  obtain b t where o: "other = b # t" using Cons.prems(2) by (cases other) auto
  have rest: "diverge segments t" "segments \<noteq> []" if "b = a"
    using Cons.prems(2) that by (auto simp: o)
  show ?case
  proof (cases a)
    case (Key key)
    from Cons.prems(1) obtain m child where m: "current = Object m" "new = Object (obj_insert key child m)"
      and c: "segments = [] \<and> child = v \<or> segments \<noteq> []
        \<and> set_json_path_segments max_len segments v (or_else (empty_container segments) (obj_get m key)) = Inr child"
      unfolding Key by (rule set_key)
    show ?thesis
    proof (cases "b = a")
      case True
      obtain old where old: "obj_get m key = Some old" "value_at old t = Some w"
        using Cons.prems(3) o True m Key by (auto simp: bind_eq_Some_conv)
      have "value_at child t = Some w" using Cons.IH [of old child t] rest [OF True] c old by (simp add: or_else_def)
      then show ?thesis using m o True Key by simp
    next
      case False
      then show ?thesis using Cons.prems(3) m o Key by (cases b) auto
    qed
  next
    case (Index index)
    from Cons.prems(1) obtain vs ws child where vs: "current = Array vs" and ws: "resized max_len index vs = Inr ws"
      and new: "new = Array (ws[unat index := child])"
      and c: "segments = [] \<and> child = v \<or> segments \<noteq> [] \<and> set_json_path_segments max_len segments v
         (if ws ! unat index = Null then empty_container segments else ws ! unat index) = Inr child"
      unfolding Index by (rule set_index)
    note r = resized_Inr [OF ws]
    show ?thesis
    proof (cases "b = a")
      case True
      have l: "unat index < length vs" and w: "value_at (vs ! unat index) t = Some w"
        using Cons.prems(3) o True vs Index by (auto split: if_splits)
      have "ws ! unat index \<noteq> Null" using w value_at_leaf [OF rest(1) [OF True]] r(2) [OF l] by auto
      then have "value_at child t = Some w" using Cons.IH [of "ws ! unat index" child t] rest [OF True] c w r(2) [OF l] by simp
      then show ?thesis using new o True r(1) Index by simp
    next
      case False
      then show ?thesis using Cons.prems(3) new vs o r Index
        by (cases b) (auto simp: nth_list_update word_unat_eq_iff split: if_splits)
    qed
  qed
qed simp

lemma set_keeps_object:
  assumes "set_json_path_segments max_len segments v current = Inr new" "segments \<noteq> []"
  shows "is_object new = is_object current"
proof (cases segments)
  case (Cons a s)
  show ?thesis
  proof (cases a)
    case (Key key)
    from assms(1) show ?thesis unfolding Cons Key by (rule set_key) simp
  next
    case (Index index)
    from assms(1) show ?thesis unfolding Cons Index by (rule set_index) (simp add: is_object_def)
  qed
qed (use assms in simp)

text \<open>
  C36 (roundtrip). A patch that is accepted writes its value at the place its path addresses, where it
  is read back, keeps every value at a place that the path does not touch, and leaves an object an
  object.
\<close>

theorem argument_patch_roundtrip:
  assumes "set_json_path max_len target path v = Inr new"
  shows "\<exists>segments. parse_json_path path = Some segments \<and> value_at new segments = Some v
    \<and> (\<forall>other w. diverge segments other \<and> value_at target other = Some w \<longrightarrow> value_at new other = Some w)
    \<and> is_object new = is_object target"
proof -
  obtain segments where "parse_json_path path = Some segments" "segments \<noteq> []"
    and s: "set_json_path_segments max_len segments v target = Inr new"
    using assms by (auto simp: set_json_path_def and_then_Inr split: if_splits)
  then show ?thesis using set_value_at [OF s] set_keeps_others [OF s] set_keeps_object [OF s] by auto
qed

definition wit_path :: string where "wit_path = ''$.a[1].b''"

definition wit_patched :: Value where
  "wit_patched = json [(''a'', Array [Null, json [(''b'', Bool True)]]), (''z'', String ''kept'')]"

lemmas parse_steps = parse_segments.simps [of "[]"] parse_segments.simps [of "_ # _"]

lemma wit_patch:
  "parse_json_path wit_path = Some [Key ''a'', Index 1, Key ''b'']"
  "set_json_path 1000 (json [(''z'', String ''kept'')]) wit_path (Bool True) = Inr wit_patched"
proof -
  show p: "parse_json_path wit_path = Some [Key ''a'', Index 1, Key ''b'']"
    by (simp add: parse_json_path_def wit_path_def parse_steps path_char_def is_ascii_alphanumeric_def is_ascii_upper_def
        is_ascii_lower_def is_ascii_digit_def parse_u64_def digits_value_def)
  have "set_json_path_segments 1000 [Key ''a'', Index 1, Key ''b''] (Bool True) (json [(''z'', String ''kept'')]) = Inr wit_patched"
    by code_simp
  then show "set_json_path 1000 (json [(''z'', String ''kept'')]) wit_path (Bool True) = Inr wit_patched"
    by (simp add: set_json_path_def p)
qed

theorem argument_patch_roundtrip_witness:
  "value_at wit_patched [Key ''a'', Index 1, Key ''b''] = Some (Bool True)
   \<and> value_at wit_patched [Key ''z''] = Some (String ''kept'')"
proof -
  have "diverge [Key ''a'', Index 1, Key ''b''] [Key ''z'']" by simp
  moreover have "value_at (json [(''z'', String ''kept'')]) [Key ''z''] = Some (String ''kept'')" by simp
  ultimately show ?thesis using argument_patch_roundtrip [OF wit_patch(2)] unfolding wit_patch(1) by blast
qed

text \<open>The upstream chooses the index: one that no vector can reach makes the translation panic.\<close>

lemma patch_index_panics:
  assumes "max_len \<le> 2 ^ 63"
  shows "function_call_args env max_len (obj_of [(''partialArgs'', Array [json
    [(''jsonPath'', String ''$.a[18446744073709551615]''), (''stringValue'', String ''x'')]])]) = panic"
proof -
  have p: "parse_json_path ''$.a[18446744073709551615]'' = Some [Key ''a'', Index (- 1)]"
    by (simp add: parse_json_path_def parse_steps path_char_def is_ascii_alphanumeric_def is_ascii_upper_def
        is_ascii_lower_def is_ascii_digit_def parse_u64_def digits_value_def)
  have "unat (- 1 :: u64) = 2 ^ 64 - 1" by (simp add: unsigned_minus_1_eq_mask mask_eq_exp_minus_1)
  then have "\<not> unat (- 1 :: u64) < max_len" using assms by simp
  then show ?thesis
    by (simp add: function_call_args_def apply_partial_args_def apply_patch_def partial_arg_value_def partial_arg_keys_def
        obj_get_of get_str_def set_json_path_def p resized_def or_else_def empty_container_def)
qed

end
