(* ===== verification/Gemini_Response.thy ===== *)
theory Gemini_Response
  imports Gemini_Args Messages_Response
begin

section \<open>From a Gemini response to a Responses response\<close>

text \<open>
  The half of \<open>protocol/adapter/gemini.rs\<close> that translates a complete answer of a Gemini source: text
  and thoughts become messages and reasoning items, function calls become calls of the client's tools,
  and the native parts are kept for the next turn.
\<close>

record GeminiBridgeRequest =
  gq_upstream_body :: Value
  gq_model :: string
  gq_response_id :: string
  gq_state :: MessagesBridgeState

record GeminiBridgeResponse =
  gp_response_body :: Value
  gp_response_id :: string
  gp_continuation :: MessagesBridgeState

subsection \<open>Conversation\<close>

definition role_parts :: "string \<Rightarrow> Value list \<Rightarrow> Value" where
  "role_parts role parts = json [(''role'', String role), (''parts'', Array parts)]"

definition extend_parts :: "Value list \<Rightarrow> Value \<Rightarrow> Value" where
  "extend_parts parts message =
     (case message of
        Object m \<Rightarrow> (case obj_get m ''parts'' of
            Some (Array existing) \<Rightarrow> Object (obj_insert ''parts'' (Array (existing @ parts)) m)
          | _ \<Rightarrow> message)
      | _ \<Rightarrow> message)"

definition append_message :: "string \<Rightarrow> Value list \<Rightarrow> MessagesBridgeState \<Rightarrow> MessagesBridgeState" where
  "append_message role parts state =
     (if parts = [] then state
      else if mb_messages state \<noteq> [] \<and> value_str (last (mb_messages state)) ''role'' = Some role
              \<and> value_array (last (mb_messages state)) ''parts'' \<noteq> None
      then state\<lparr>mb_messages := butlast (mb_messages state) @ [extend_parts parts (last (mb_messages state))]\<rparr>
      else push_message (role_parts role parts) state)"

subsection \<open>Output items\<close>

record gemini_acc =
  ga_output :: "Value list"
  ga_text :: string
  ga_reasoning :: string
  ga_call_index :: nat

definition gemini_acc_new :: gemini_acc where
  "gemini_acc_new = \<lparr>ga_output = [], ga_text = [], ga_reasoning = [], ga_call_index = 0\<rparr>"

definition numbered_id :: "string \<Rightarrow> string \<Rightarrow> nat \<Rightarrow> string" where
  "numbered_id prefix response_id n = prefix @ ''_'' @ response_id @ ''_'' @ show_nat n"

definition gemini_flush_text :: "string \<Rightarrow> gemini_acc \<Rightarrow> gemini_acc" where
  "gemini_flush_text response_id acc =
     (if ga_text acc = [] then acc
      else acc\<lparr>ga_text := [], ga_output := ga_output acc @ [json [
          (''id'', String (numbered_id ''msg'' response_id (length (ga_output acc)))), (''type'', String ''message''),
          (''status'', String ''completed''), (''role'', String ''assistant''),
          (''content'', Array [output_text (ga_text acc)])]]\<rparr>)"

definition gemini_flush_reasoning :: "string \<Rightarrow> gemini_acc \<Rightarrow> gemini_acc" where
  "gemini_flush_reasoning response_id acc =
     (if ga_reasoning acc = [] then acc
      else acc\<lparr>ga_reasoning := [], ga_output := ga_output acc @ [json [
          (''id'', String (numbered_id ''reasoning'' response_id (length (ga_output acc)))), (''type'', String ''reasoning''),
          (''status'', String ''completed''),
          (''summary'', Array [json [(''type'', String ''summary_text''), (''text'', String (ga_reasoning acc))]])]]\<rparr>)"

definition gemini_call_item :: "adapter_env \<Rightarrow> ClientToolTarget \<Rightarrow> string \<Rightarrow> Value \<Rightarrow> Value gemini_result" where
  "gemini_call_item env target call_id args =
     and_then (case ct_kind target of
         CustomTool \<Rightarrow> and_then (ok_or (Some upstream_response_invalid) (value_str args ''input'')) (\<lambda>input.
           Inr (json [(''id'', String (custom_tool_item_id call_id)), (''type'', String ''custom_tool_call''),
             (''status'', String ''completed''), (''call_id'', String call_id), (''name'', String (ct_name target)),
             (''input'', String input)]))
       | FunctionTool \<Rightarrow> and_then (ok_or (Some upstream_response_invalid) (env_to_string env args)) (\<lambda>arguments.
           Inr (json [(''id'', String call_id), (''type'', String ''function_call''), (''status'', String ''completed''),
             (''call_id'', String call_id), (''name'', String (ct_name target)), (''arguments'', String arguments)])))
       (\<lambda>item. Inr (with_namespace (ct_namespace target) item))"

definition gemini_call :: "adapter_env \<Rightarrow> nat \<Rightarrow> GeminiBridgeRequest \<Rightarrow> gemini_acc \<Rightarrow> object \<Rightarrow> gemini_acc gemini_result" where
  "gemini_call env max_len request acc call =
     (let acc = gemini_flush_reasoning (gq_response_id request) (gemini_flush_text (gq_response_id request) acc) in
      and_then (ok_or (Some upstream_response_invalid)
        (filter_option (allows_tool_name (gq_state request)) (get_str call ''name''))) (\<lambda>upstream_name.
      and_then (ok_or (Some upstream_response_invalid) (client_tool (gq_state request) upstream_name)) (\<lambda>target.
      let call_id = or_else (numbered_id ''call'' (gq_response_id request) (ga_call_index acc))
            (filter_option (\<lambda>i. i \<noteq> []) (get_str call ''id''))
      in and_then (map_err upstream_response_invalid (function_call_args env max_len call)) (\<lambda>args.
         and_then (gemini_call_item env target call_id args) (\<lambda>item.
         Inr (acc\<lparr>ga_output := ga_output acc @ [item], ga_call_index := usize_add (ga_call_index acc) 1\<rparr>))))))"

definition gemini_part :: "adapter_env \<Rightarrow> nat \<Rightarrow> GeminiBridgeRequest \<Rightarrow> gemini_acc \<Rightarrow> Value \<Rightarrow> gemini_acc gemini_result" where
  "gemini_part env max_len request acc v =
     and_then (ok_or (Some upstream_response_invalid) (as_object v)) (\<lambda>part.
     case get_str part ''text'' of
       Some t \<Rightarrow>
         Inr (if Option.bind (obj_get part ''thought'') as_bool = Some True
              then let acc = gemini_flush_text (gq_response_id request) acc in acc\<lparr>ga_reasoning := ga_reasoning acc @ t\<rparr>
              else let acc = gemini_flush_reasoning (gq_response_id request) acc in acc\<lparr>ga_text := ga_text acc @ t\<rparr>)
     | None \<Rightarrow>
         (case Option.bind (obj_get part ''functionCall'') as_object of
            Some call \<Rightarrow> gemini_call env max_len request acc call
          | None \<Rightarrow> if obj_get part ''thoughtSignature'' \<noteq> None then Inr acc else reject upstream_response_invalid))"

definition responses_output_from_gemini_parts ::
  "adapter_env \<Rightarrow> nat \<Rightarrow> GeminiBridgeRequest \<Rightarrow> Value list \<Rightarrow> Value list gemini_result" where
  "responses_output_from_gemini_parts env max_len request parts =
     and_then (try_fold (gemini_part env max_len request) gemini_acc_new parts) (\<lambda>acc.
     Inr (ga_output (gemini_flush_reasoning (gq_response_id request) (gemini_flush_text (gq_response_id request) acc))))"

subsection \<open>The response\<close>

definition gemini_responses_usage :: "Value option \<Rightarrow> Value" where
  "gemini_responses_usage usage =
     (let input = or_else 0 (usage_u64 usage ''promptTokenCount'');
          generated = or_else 0 (usage_u64 usage ''candidatesTokenCount'');
          total = or_else (sat_add input generated) (usage_u64 usage ''totalTokenCount'');
          result = obj_of [(''input_tokens'', value_u64 input), (''output_tokens'', value_u64 generated), (''total_tokens'', value_u64 total)];
          result = (case usage_u64 usage ''cachedContentTokenCount'' of None \<Rightarrow> result
            | Some cached \<Rightarrow> obj_insert ''input_tokens_details'' (json [(''cached_tokens'', value_u64 cached)]) result);
          result = (case usage_u64 usage ''thoughtsTokenCount'' of None \<Rightarrow> result
            | Some reasoning \<Rightarrow> obj_insert ''output_tokens_details'' (json [(''reasoning_tokens'', value_u64 reasoning)]) result)
      in Object result)"

definition responses_body_from_output :: "string \<Rightarrow> string \<Rightarrow> Value list \<Rightarrow> Value option \<Rightarrow> object" where
  "responses_body_from_output response_id model items usage =
     obj_of [(''id'', String response_id), (''object'', String ''response''), (''created_at'', value_u64 0),
       (''status'', String ''completed''), (''model'', String model), (''output'', Array items),
       (''usage'', gemini_responses_usage usage)]"

definition first_candidate :: "Value \<Rightarrow> Value gemini_result" where
  "first_candidate upstream =
     (case value_array upstream ''candidates'' of
        Some (candidate # _) \<Rightarrow> Inr candidate
      | _ \<Rightarrow> reject upstream_response_invalid)"

definition incomplete_body :: "Value \<Rightarrow> object \<Rightarrow> object" where
  "incomplete_body candidate body =
     (case value_str candidate ''finishReason'' of
        None \<Rightarrow> body
      | Some reason \<Rightarrow>
          if reason = ''STOP'' \<or> reason = ''FINISH_REASON_UNSPECIFIED'' then body
          else obj_insert ''incomplete_details'' (json [(''reason'', String (to_ascii_lowercase reason))])
            (obj_insert ''status'' (String ''incomplete'') body))"

definition translate_gemini_response ::
  "adapter_env \<Rightarrow> nat \<Rightarrow> GeminiBridgeRequest \<Rightarrow> Value \<Rightarrow> GeminiBridgeResponse gemini_result" where
  "translate_gemini_response env max_len request upstream =
     and_then (first_candidate upstream) (\<lambda>candidate.
     and_then (ok_or (Some upstream_response_invalid)
       (Option.bind (value_pointer candidate [''content'', ''parts'']) as_array)) (\<lambda>parts.
     and_then (responses_output_from_gemini_parts env max_len request parts) (\<lambda>items.
     if items = [] then reject upstream_response_invalid
     else Inr \<lparr>gp_response_body = Object (incomplete_body candidate (responses_body_from_output (gq_response_id request)
              (gq_model request) items (value_get upstream ''usageMetadata''))),
            gp_response_id = gq_response_id request,
            gp_continuation = append_message ''model'' parts (gq_state request)\<rparr>)))"

end
