(* ===== verification/Gemini_Stream.thy ===== *)
theory Gemini_Stream
  imports Gemini_Response
begin

section \<open>The Gemini stream bridge\<close>

text \<open>
  \<open>GeminiStreamBridge\<close> of \<open>protocol/adapter/stream.rs\<close>: chunks of a Gemini answer become events of the
  client's protocol while they arrive, and when the upstream has finished the parts received are
  translated as one answer. The bytes of an unfinished event are kept beside the record. A handler
  that can panic (see the arguments of function calls) returns an option, \<open>None\<close> being the panic.
\<close>

record GeminiStreamCall =
  gc_id :: string
  gc_item_id :: string
  gc_name :: string
  gc_kind :: ResponsesToolKind
  gc_args :: Value
  gc_output_index :: u64
  gc_thought_signature :: "string option"
  gc_emitted_arguments :: string

datatype GeminiStreamOutput = OutText | OutThinking | OutCall u64

record GeminiStreamBridge =
  gs_request :: GeminiBridgeRequest
  gs_output :: "string list"
  gs_text :: string
  gs_thinking :: string
  gs_calls :: "(u64, GeminiStreamCall) btree_map"
  gs_active_call :: "u64 option"
  gs_order :: "GeminiStreamOutput list"
  gs_usage :: "Value option"
  gs_started :: bool
  gs_text_started :: bool
  gs_text_output_index :: u64
  gs_next_output_index :: u64
  gs_thinking_output_index :: "u64 option"
  gs_finished_upstream :: bool
  gs_finish_reason :: "string option"
  gs_completed :: "MessagesBridgeResponse option"
  gs_terminal :: bool
  gs_upstream_error :: "Value option"

definition gemini_bridge_new :: "GeminiBridgeRequest \<Rightarrow> GeminiStreamBridge" where
  "gemini_bridge_new request = \<lparr>gs_request = request, gs_output = [], gs_text = [], gs_thinking = [], gs_calls = bt_empty,
     gs_active_call = None, gs_order = [], gs_usage = None, gs_started = False, gs_text_started = False,
     gs_text_output_index = 0, gs_next_output_index = 0, gs_thinking_output_index = None, gs_finished_upstream = False,
     gs_finish_reason = None, gs_completed = None, gs_terminal = False, gs_upstream_error = None\<rparr>"

abbreviation gs_response_id :: "GeminiStreamBridge \<Rightarrow> string" where
  "gs_response_id st \<equiv> gq_response_id (gs_request st)"

subsection \<open>Frames\<close>

definition gs_frame :: "adapter_env \<Rightarrow> string \<Rightarrow> (string \<times> Value) list \<Rightarrow> GeminiStreamBridge \<Rightarrow> GeminiStreamBridge" where
  "gs_frame env event payload st =
     (case env_to_string env (json payload) of
        None \<Rightarrow> st\<lparr>gs_terminal := True\<rparr>
      | Some t \<Rightarrow> st\<lparr>gs_output := gs_output st @ [sse_frame event t]\<rparr>)"

definition gs_failed_payload :: "GeminiBridgeRequest \<Rightarrow> AdapterError \<Rightarrow> (string \<times> Value) list" where
  "gs_failed_payload request err =
     [(''type'', String ''response.failed''),
      (''response'', json [(''id'', String (gq_response_id request)), (''object'', String ''response''),
         (''status'', String ''failed''), (''model'', String (gq_model request)), (''output'', Array []),
         (''error'', json [(''type'', String ''invalid_request_error''), (''code'', String (ae_code err)),
            (''message'', String (ae_message err))])])]"

definition gs_fail :: "adapter_env \<Rightarrow> AdapterError \<Rightarrow> GeminiStreamBridge \<Rightarrow> GeminiStreamBridge" where
  "gs_fail env err st =
     (if gs_terminal st then st
      else (gs_frame env ''response.failed'' (gs_failed_payload (gs_request st) err) st)\<lparr>gs_terminal := True\<rparr>)"

abbreviation gs_invalid :: "adapter_env \<Rightarrow> GeminiStreamBridge \<Rightarrow> GeminiStreamBridge" where
  "gs_invalid env st \<equiv> gs_fail env upstream_stream_invalid st"

definition ensure_started :: "adapter_env \<Rightarrow> GeminiStreamBridge \<Rightarrow> GeminiStreamBridge" where
  "ensure_started env st =
     (if gs_started st then st
      else gs_frame env ''response.created'' [(''type'', String ''response.created''),
        (''response'', json [(''id'', String (gs_response_id st)), (''object'', String ''response''),
           (''status'', String ''in_progress''), (''model'', String (gq_model (gs_request st))), (''output'', Array [])])]
        (st\<lparr>gs_started := True\<rparr>))"

definition gs_text_item_id :: "GeminiStreamBridge \<Rightarrow> string" where
  "gs_text_item_id st = numbered_id ''msg'' (gs_response_id st) (unat (gs_text_output_index st))"

definition gs_ensure_text_output :: "adapter_env \<Rightarrow> GeminiStreamBridge \<Rightarrow> GeminiStreamBridge" where
  "gs_ensure_text_output env st =
     (if gs_text_started st then st
      else
        let st = st\<lparr>gs_text_started := True, gs_text_output_index := gs_next_output_index st,
              gs_next_output_index := sat_add (gs_next_output_index st) 1\<rparr>;
            st = gs_frame env ''response.output_item.added'' [(''type'', String ''response.output_item.added''),
              (''output_index'', value_u64 (gs_text_output_index st)),
              (''item'', json [(''id'', String (gs_text_item_id st)), (''type'', String ''message''),
                 (''status'', String ''in_progress''), (''role'', String ''assistant''), (''content'', Array [])])] st
        in gs_frame env ''response.content_part.added'' [(''type'', String ''response.content_part.added''),
             (''item_id'', String (gs_text_item_id st)), (''output_index'', value_u64 (gs_text_output_index st)),
             (''content_index'', value_u64 0),
             (''part'', json [(''type'', String ''output_text''), (''text'', String []), (''annotations'', Array [])])] st)"

subsection \<open>Text and thoughts\<close>

definition opt_u64 :: "u64 option \<Rightarrow> Value" where
  "opt_u64 n = (case n of None \<Rightarrow> Null | Some n \<Rightarrow> value_u64 n)"

text \<open>The result says whether the loop over the parts goes on.\<close>

definition gs_thought :: "adapter_env \<Rightarrow> string \<Rightarrow> GeminiStreamBridge \<Rightarrow> GeminiStreamBridge \<times> bool" where
  "gs_thought env v st0 =
     (let st = ensure_started env st0; delta = incremental_delta (gs_thinking st) v
      in if gs_terminal st then (st, False)
         else if delta = [] then (st, True)
         else
           let st = (if gs_thinking st \<noteq> [] then st
                 else
                   let st = st\<lparr>gs_order := gs_order st @ [OutThinking], gs_thinking_output_index := Some (gs_next_output_index st),
                         gs_next_output_index := sat_add (gs_next_output_index st) 1\<rparr>
                   in gs_frame env ''response.output_item.added'' [(''type'', String ''response.output_item.added''),
                        (''output_index'', opt_u64 (gs_thinking_output_index st)),
                        (''item'', json [(''id'', String (numbered_id ''reasoning'' (gs_response_id st) 0)),
                           (''type'', String ''reasoning''), (''status'', String ''in_progress''), (''summary'', Array [])])] st);
               st = st\<lparr>gs_thinking := gs_thinking st @ delta\<rparr>
           in (gs_frame env ''response.reasoning_summary_text.delta'' [(''type'', String ''response.reasoning_summary_text.delta''),
                (''response_id'', String (gs_response_id st)), (''output_index'', opt_u64 (gs_thinking_output_index st)),
                (''delta'', String delta)] st, True))"

definition gs_text_part :: "adapter_env \<Rightarrow> string \<Rightarrow> GeminiStreamBridge \<Rightarrow> GeminiStreamBridge \<times> bool" where
  "gs_text_part env v st0 =
     (let st = ensure_started env st0; delta = incremental_delta (gs_text st) v
      in if gs_terminal st then (st, False)
         else if delta = [] then (st, True)
         else
           let st = (if gs_text st = [] then st\<lparr>gs_order := gs_order st @ [OutText]\<rparr> else st);
               st = gs_ensure_text_output env st
           in if gs_terminal st then (st, False)
              else
                let st = st\<lparr>gs_text := gs_text st @ delta\<rparr>
                in (gs_frame env ''response.output_text.delta'' [(''type'', String ''response.output_text.delta''),
                      (''response_id'', String (gs_response_id st)), (''item_id'', String (gs_text_item_id st)),
                      (''output_index'', value_u64 (gs_text_output_index st)), (''content_index'', value_u64 0),
                      (''delta'', String delta)] st, True))"

subsection \<open>Function calls\<close>

definition emit_call_arguments_delta :: "adapter_env \<Rightarrow> u64 \<Rightarrow> GeminiStreamBridge \<Rightarrow> GeminiStreamBridge" where
  "emit_call_arguments_delta env key st =
     (case bt_get (gs_calls st) key of
        None \<Rightarrow> st
      | Some call \<Rightarrow>
          (case env_to_string env (gc_args call) of
             None \<Rightarrow> gs_invalid env st
           | Some arguments \<Rightarrow>
               let delta = incremental_delta (gc_emitted_arguments call) arguments
               in if gc_emitted_arguments call = [] \<and> gc_args call = Object [] then st
                  else if delta = [] then st
                  else gs_frame env ''response.function_call_arguments.delta''
                    [(''type'', String ''response.function_call_arguments.delta''), (''response_id'', String (gs_response_id st)),
                     (''item_id'', String (gc_item_id call)), (''output_index'', value_u64 (gc_output_index call)), (''delta'', String delta)]
                    (st\<lparr>gs_calls := bt_insert key (call\<lparr>gc_emitted_arguments := arguments\<rparr>) (gs_calls st)\<rparr>)))"

definition last_key :: "(u64, GeminiStreamCall) btree_map \<Rightarrow> u64 option" where
  "last_key calls = (if bt_keys calls = [] then None else Some (last (bt_keys calls)))"

definition find_call :: "(u64 \<Rightarrow> GeminiStreamCall \<Rightarrow> bool) \<Rightarrow> GeminiStreamBridge \<Rightarrow> u64 option" where
  "find_call P st = map_option fst (find (\<lambda>(key, call). P key call) (bt_entries (gs_calls st)))"

text \<open>The call that a part belongs to: by its identifier, by its name at this position, the call being
  continued, or else a new one.\<close>

definition call_key :: "u64 \<Rightarrow> string option \<Rightarrow> string option \<Rightarrow> GeminiStreamBridge \<Rightarrow> u64 option" where
  "call_key part_index name call_id st =
     (case Option.bind call_id (\<lambda>i. find_call (\<lambda>_ call. gc_id call = i) st) of
        Some key \<Rightarrow> Some key
      | None \<Rightarrow>
          (case Option.bind name (\<lambda>name. find_call (\<lambda>key call. gc_name call = name \<and> key = part_index) st) of
             Some key \<Rightarrow> Some key
           | None \<Rightarrow>
               (case filter_option (\<lambda>active. name = None \<or> map_option gc_name (bt_get (gs_calls st) active) = name) (gs_active_call st) of
                  Some key \<Rightarrow> Some key
                | None \<Rightarrow> map_option (\<lambda>_. if bt_contains (gs_calls st) part_index
                    then sat_add (or_else part_index (last_key (gs_calls st))) 1 else part_index) name)))"

definition gs_new_call :: "adapter_env \<Rightarrow> u64 \<Rightarrow> object \<Rightarrow> object \<Rightarrow> string \<Rightarrow> ClientToolTarget \<Rightarrow> Value \<Rightarrow> GeminiStreamBridge \<Rightarrow> GeminiStreamBridge" where
  "gs_new_call env key part call name target args st0 =
     (let st = ensure_started env st0;
          call_id = or_else (numbered_id ''call'' (gs_response_id st) (unat key)) (filter_option (\<lambda>i. i \<noteq> []) (get_str call ''id''));
          state = \<lparr>gc_id = call_id, gc_item_id = (if ct_kind target = CustomTool then custom_tool_item_id call_id else call_id),
            gc_name = name, gc_kind = ct_kind target, gc_args = args, gc_output_index = gs_next_output_index st,
            gc_thought_signature = get_str part ''thoughtSignature'', gc_emitted_arguments = []\<rparr>;
          st = st\<lparr>gs_next_output_index := sat_add (gs_next_output_index st) 1,
            gs_calls := bt_insert key state (gs_calls st), gs_order := gs_order st @ [OutCall key]\<rparr>;
          item = with_namespace (ct_namespace target) (case gc_kind state of
              CustomTool \<Rightarrow> json [(''id'', String (gc_item_id state)), (''type'', String ''custom_tool_call''),
                (''status'', String ''in_progress''), (''call_id'', String call_id), (''name'', String (ct_name target)), (''input'', String [])]
            | FunctionTool \<Rightarrow> json [(''id'', String call_id), (''type'', String ''function_call''),
                (''status'', String ''in_progress''), (''call_id'', String call_id), (''name'', String (ct_name target)), (''arguments'', String [])]);
          st = gs_frame env ''response.output_item.added'' [(''type'', String ''response.output_item.added''),
            (''output_index'', value_u64 (gc_output_index state)), (''item'', item)] st
      in if gc_kind state = FunctionTool then emit_call_arguments_delta env key st else st)"

definition gs_update_call :: "adapter_env \<Rightarrow> u64 \<Rightarrow> object \<Rightarrow> Value \<Rightarrow> GeminiStreamCall \<Rightarrow> GeminiStreamBridge \<Rightarrow> GeminiStreamBridge" where
  "gs_update_call env key part args call st =
     (let call = call\<lparr>gc_args := args\<rparr>;
          call = (case get_str part ''thoughtSignature'' of None \<Rightarrow> call | Some s \<Rightarrow> call\<lparr>gc_thought_signature := Some s\<rparr>);
          st = st\<lparr>gs_calls := bt_insert key call (gs_calls st)\<rparr>
      in if gc_kind call = FunctionTool then emit_call_arguments_delta env key st else st)"

definition gs_continued_args :: "adapter_env \<Rightarrow> nat \<Rightarrow> Value \<Rightarrow> object \<Rightarrow> Value gemini_result" where
  "gs_continued_args env max_len old call =
     and_then (case obj_get call ''args'' of
         None \<Rightarrow> Inr old
       | Some full \<Rightarrow> if is_object full then Inr full else reject upstream_stream_invalid) (\<lambda>args.
     case obj_get call ''partialArgs'' of
       None \<Rightarrow> Inr args
     | Some partial_args \<Rightarrow> apply_partial_args env max_len args partial_args)"

definition gs_set_active :: "object \<Rightarrow> u64 \<Rightarrow> GeminiStreamBridge \<Rightarrow> GeminiStreamBridge" where
  "gs_set_active call key st =
     (if Option.bind (obj_get call ''willContinue'') as_bool = Some True then st\<lparr>gs_active_call := Some key\<rparr>
      else if gs_active_call st = Some key then st\<lparr>gs_active_call := None\<rparr> else st)"

definition handle_function_call ::
  "adapter_env \<Rightarrow> nat \<Rightarrow> u64 \<Rightarrow> object \<Rightarrow> object \<Rightarrow> GeminiStreamBridge \<Rightarrow> GeminiStreamBridge option" where
  "handle_function_call env max_len part_index part call st =
     (let name = non_blank (get_str call ''name''); call_id = non_blank (get_str call ''id'') in
      case call_key part_index name call_id st of
        None \<Rightarrow> Some (gs_invalid env st)
      | Some key \<Rightarrow>
          (case or_value name (map_option gc_name (bt_get (gs_calls st) key)) of
             None \<Rightarrow> Some (gs_invalid env st)
           | Some name \<Rightarrow>
               (case client_tool (gq_state (gs_request st)) name of
                  None \<Rightarrow> Some (gs_invalid env st)
                | Some target \<Rightarrow>
                    (case (case bt_get (gs_calls st) key of
                        None \<Rightarrow> and_then (function_call_args env max_len call) (\<lambda>args.
                          Inr (gs_new_call env key part call name target args st))
                      | Some state \<Rightarrow> and_then (gs_continued_args env max_len (gc_args state) call) (\<lambda>args.
                          Inr (gs_update_call env key part args state st))) of
                       Inl None \<Rightarrow> None
                     | Inl (Some _) \<Rightarrow> Some (gs_invalid env st)
                     | Inr st \<Rightarrow> Some (gs_set_active call key st)))))"

subsection \<open>Completion\<close>

definition order_part :: "GeminiStreamBridge \<Rightarrow> GeminiStreamOutput \<Rightarrow> Value list" where
  "order_part st item =
     (case item of
        OutThinking \<Rightarrow> if gs_thinking st \<noteq> [] then [json [(''thought'', Bool True), (''text'', String (gs_thinking st))]] else []
      | OutText \<Rightarrow> if gs_text st \<noteq> [] then [json [(''text'', String (gs_text st))]] else []
      | OutCall key \<Rightarrow> (case bt_get (gs_calls st) key of
            None \<Rightarrow> []
          | Some call \<Rightarrow> [json [(''functionCall'', json ([(''name'', String (gc_name call)), (''args'', gc_args call), (''id'', String (gc_id call))]
              @ (case gc_thought_signature call of None \<Rightarrow> [] | Some s \<Rightarrow> [(''thoughtSignature'', String s)])))]]))"

definition received_parts :: "GeminiStreamBridge \<Rightarrow> Value list" where
  "received_parts st = concat (map (order_part st) (gs_order st))"

definition received_message :: "GeminiStreamBridge \<Rightarrow> Value" where
  "received_message st =
     json [(''candidates'', Array [json [(''content'', json [(''parts'', Array (received_parts st))]),
         (''finishReason'', opt_string (gs_finish_reason st))]]),
       (''usageMetadata'', or_else Null (gs_usage st))]"

text \<open>\<open>item["key"]\<close>, and the text of the first content part.\<close>

definition item_field :: "Value \<Rightarrow> string \<Rightarrow> Value" where
  "item_field item key = or_else Null (value_get item key)"

definition item_text :: "Value \<Rightarrow> Value" where
  "item_text item =
     (case value_array item ''content'' of Some (part # _) \<Rightarrow> item_field part ''text'' | _ \<Rightarrow> Null)"

definition item_done_frames :: "adapter_env \<Rightarrow> u64 \<Rightarrow> Value \<Rightarrow> GeminiStreamBridge \<Rightarrow> GeminiStreamBridge" where
  "item_done_frames env output_index item st =
     (let kind = value_str item ''type'';
          head = [(''response_id'', String (gs_response_id st)), (''item_id'', item_field item ''id''), (''output_index'', value_u64 output_index)];
          st = (if kind = Some ''function_call'' then
                  gs_frame env ''response.function_call_arguments.done'' ((''type'', String ''response.function_call_arguments.done'') # head
                    @ [(''call_id'', item_field item ''call_id''), (''name'', item_field item ''name''), (''arguments'', item_field item ''arguments'')]) st
                else if kind = Some ''custom_tool_call'' then
                  gs_frame env ''response.custom_tool_call_input.done'' ((''type'', String ''response.custom_tool_call_input.done'') # head
                    @ [(''input'', item_field item ''input'')]) st
                else if kind = Some ''message'' then
                  gs_frame env ''response.content_part.done'' ((''type'', String ''response.content_part.done'') # head
                    @ [(''content_index'', value_u64 0)])
                    (gs_frame env ''response.output_text.done'' ((''type'', String ''response.output_text.done'') # head
                      @ [(''content_index'', value_u64 0), (''text'', item_text item)]) st)
                else st)
      in gs_frame env ''response.output_item.done'' [(''type'', String ''response.output_item.done''),
           (''response_id'', String (gs_response_id st)), (''output_index'', value_u64 output_index), (''item'', item)] st)"

fun done_frames :: "adapter_env \<Rightarrow> nat \<Rightarrow> Value list \<Rightarrow> GeminiStreamBridge \<Rightarrow> GeminiStreamBridge" where
  "done_frames env i [] st = st"
| "done_frames env i (item # items) st = done_frames env (Suc i) items (item_done_frames env (of_nat i) item st)"

definition gs_complete :: "adapter_env \<Rightarrow> nat \<Rightarrow> GeminiStreamBridge \<Rightarrow> GeminiStreamBridge option" where
  "gs_complete env max_len st =
     (if gs_terminal st then Some st
      else if \<not> gs_started st \<or> (gs_text st = [] \<and> gs_thinking st = [] \<and> bt_len (gs_calls st) = 0)
      then Some (gs_invalid env st)
      else case translate_gemini_response env max_len (gs_request st) (received_message st) of
          Inl None \<Rightarrow> None
        | Inl (Some err) \<Rightarrow> Some (gs_fail env err st)
        | Inr response \<Rightarrow>
            let st = done_frames env 0 (or_else [] (value_array (gp_response_body response) ''output'')) st;
                st = st\<lparr>gs_completed := Some \<lparr>bp_response_body = gp_response_body response,
                  bp_response_id = gp_response_id response, bp_continuation = gp_continuation response\<rparr>\<rparr>;
                st = gs_frame env ''response.completed'' [(''type'', String ''response.completed''),
                  (''response'', gp_response_body response)] st
            in Some (st\<lparr>gs_terminal := True\<rparr>))"

subsection \<open>The stream\<close>

definition sign_last_call :: "object \<Rightarrow> GeminiStreamBridge \<Rightarrow> GeminiStreamBridge" where
  "sign_last_call part st =
     (case last_key (gs_calls st) of
        None \<Rightarrow> st
      | Some key \<Rightarrow> st\<lparr>gs_calls := bt_update key (\<lambda>call. call\<lparr>gc_thought_signature := get_str part ''thoughtSignature''\<rparr>) (gs_calls st)\<rparr>)"

definition gs_part :: "adapter_env \<Rightarrow> nat \<Rightarrow> u64 \<Rightarrow> Value \<Rightarrow> GeminiStreamBridge \<Rightarrow> (GeminiStreamBridge \<times> bool) option" where
  "gs_part env max_len part_index v st =
     (case as_object v of
        None \<Rightarrow> Some (gs_invalid env st, False)
      | Some part \<Rightarrow>
          (case get_str part ''text'' of
             Some t \<Rightarrow> Some (if Option.bind (obj_get part ''thought'') as_bool = Some True then gs_thought env t st else gs_text_part env t st)
           | None \<Rightarrow>
               (case Option.bind (obj_get part ''functionCall'') as_object of
                  Some call \<Rightarrow> Option.bind (handle_function_call env max_len part_index part call st) (\<lambda>st. Some (st, \<not> gs_terminal st))
                | None \<Rightarrow> if obj_get part ''thoughtSignature'' \<noteq> None then Some (sign_last_call part st, True)
                    else Some (gs_invalid env st, False))))"

fun gs_parts :: "adapter_env \<Rightarrow> nat \<Rightarrow> nat \<Rightarrow> Value list \<Rightarrow> GeminiStreamBridge \<Rightarrow> (GeminiStreamBridge \<times> bool) option" where
  "gs_parts env max_len i [] st = Some (st, True)"
| "gs_parts env max_len i (part # parts) st =
     Option.bind (gs_part env max_len (of_nat i) part st) (\<lambda>(st, continue).
       if continue then gs_parts env max_len (Suc i) parts st else Some (st, False))"

definition gs_candidate :: "adapter_env \<Rightarrow> nat \<Rightarrow> Value \<Rightarrow> GeminiStreamBridge \<Rightarrow> GeminiStreamBridge option" where
  "gs_candidate env max_len candidate st =
     (case Option.bind (value_pointer candidate [''content'', ''parts'']) as_array of
        None \<Rightarrow>
          if value_str candidate ''finishReason'' \<noteq> None then gs_complete env max_len (st\<lparr>gs_finished_upstream := True\<rparr>)
          else Some (gs_invalid env st)
      | Some parts \<Rightarrow>
          Option.bind (gs_parts env max_len 0 parts st) (\<lambda>(st, continue).
          if \<not> continue then Some st
          else case value_str candidate ''finishReason'' of
              None \<Rightarrow> Some st
            | Some reason \<Rightarrow> gs_complete env max_len (st\<lparr>gs_finish_reason := Some reason, gs_finished_upstream := True\<rparr>)))"

definition gs_handle_value :: "adapter_env \<Rightarrow> nat \<Rightarrow> Value \<Rightarrow> GeminiStreamBridge \<Rightarrow> GeminiStreamBridge option" where
  "gs_handle_value env max_len v st =
     (if value_get v ''error'' \<noteq> None then Some (gs_invalid env (st\<lparr>gs_upstream_error := Some v\<rparr>))
      else
        let st = (case value_get v ''usageMetadata'' of None \<Rightarrow> st | Some usage \<Rightarrow> st\<lparr>gs_usage := Some usage\<rparr>)
        in case value_array v ''candidates'' of
             Some (candidate # _) \<Rightarrow> gs_candidate env max_len candidate st
           | _ \<Rightarrow> Some st)"

definition gs_finish :: "adapter_env \<Rightarrow> nat \<Rightarrow> GeminiStreamBridge \<Rightarrow> GeminiStreamBridge option" where
  "gs_finish env max_len st =
     (if gs_terminal st then Some st
      else if gs_finished_upstream st then gs_complete env max_len st
      else Some (gs_invalid env st))"

definition gs_handle_event :: "adapter_env \<Rightarrow> nat \<Rightarrow> string \<Rightarrow> GeminiStreamBridge \<Rightarrow> GeminiStreamBridge option" where
  "gs_handle_event env max_len event st =
     (if sse_done event then
        (if gs_finished_upstream st then gs_complete env max_len st else Some (gs_invalid env st))
      else case parse_sse_data env event of
          None \<Rightarrow> Some (if sse_event_has_data event then gs_invalid env st else st)
        | Some v \<Rightarrow> gs_handle_value env max_len v st)"

text \<open>\<open>push\<close>, where a panic ends the loop and the bridge.\<close>

definition gs_push :: "adapter_env \<Rightarrow> nat \<Rightarrow> string \<Rightarrow> string \<times> GeminiStreamBridge option \<Rightarrow> string \<times> GeminiStreamBridge option" where
  "gs_push env max_len bytes bridge =
     push_bytes (\<lambda>event st. Option.bind st (gs_handle_event env max_len event))
       (\<lambda>st. case st of None \<Rightarrow> True | Some st \<Rightarrow> gs_terminal st) bytes bridge"

definition gs_pop_output :: "GeminiStreamBridge \<Rightarrow> GeminiStreamBridge \<times> string option" where
  "gs_pop_output st =
     (case gs_output st of [] \<Rightarrow> (st, None) | frame # frames \<Rightarrow> (st\<lparr>gs_output := frames\<rparr>, Some frame))"

definition gs_take_upstream_error :: "GeminiStreamBridge \<Rightarrow> GeminiStreamBridge \<times> Value option" where
  "gs_take_upstream_error st = (st\<lparr>gs_upstream_error := None\<rparr>, gs_upstream_error st)"

end
