(* ===== verification/Gemini_Stream_Correct.thy ===== *)
theory Gemini_Stream_Correct
  imports Gemini_Stream Messages_Stream_Correct "HOL-Library.Sublist"
begin

section \<open>What the Gemini stream bridge guarantees\<close>

text \<open>
  The bridge panics only on an event that patches an array of function arguments beyond the length a
  vector may have; otherwise every handler is a step of the contract \<open>event_stream\<close>, and the stream is
  closed exactly once.
\<close>

subsection \<open>No panics\<close>

definition segment_within :: "nat \<Rightarrow> JsonPathSegment \<Rightarrow> bool" where
  "segment_within max_len segment = (case segment of Key _ \<Rightarrow> True | Index i \<Rightarrow> unat i < max_len)"

definition patch_within :: "nat \<Rightarrow> Value \<Rightarrow> bool" where
  "patch_within max_len patch =
     (case Option.bind (value_str patch ''jsonPath'') parse_json_path of
        None \<Rightarrow> True | Some segments \<Rightarrow> list_all (segment_within max_len) segments)"

definition part_within :: "nat \<Rightarrow> Value \<Rightarrow> bool" where
  "part_within max_len part =
     (case Option.bind (value_get part ''functionCall'') (\<lambda>call. value_array call ''partialArgs'') of
        None \<Rightarrow> True | Some patches \<Rightarrow> list_all (patch_within max_len) patches)"

definition event_within :: "nat \<Rightarrow> Value \<Rightarrow> bool" where
  "event_within max_len v =
     (case value_array v ''candidates'' of
        Some (candidate # _) \<Rightarrow> (case Option.bind (value_pointer candidate [''content'', ''parts'']) as_array of
            None \<Rightarrow> True | Some parts \<Rightarrow> list_all (part_within max_len) parts)
      | _ \<Rightarrow> True)"

lemma no_panic_then [simp]: "and_then r f = panic \<longleftrightarrow> r = panic \<or> (\<exists>v. r = Inr v \<and> f v = panic)"
  by (cases r) auto

lemma no_panic_ok [simp]: "ok_or (Some e) v \<noteq> panic"
  by (cases v) simp_all

lemma no_panic_map_err [simp]: "map_err e r = panic \<longleftrightarrow> r = panic"
  by (cases "(e, r)" rule: map_err.cases) auto

lemma try_fold_no_panic: "(\<And>s x. x \<in> set xs \<Longrightarrow> f s x \<noteq> panic) \<Longrightarrow> try_fold f s xs \<noteq> panic"
  by (induction xs arbitrary: s) auto

lemma set_no_panic: "list_all (segment_within max_len) segments \<Longrightarrow> set_json_path_segments max_len segments v current \<noteq> panic"
proof (induction segments arbitrary: current)
  case (Cons a segments)
  then show ?case by (cases a) (auto simp: segment_within_def resized_def Let_def)
qed simp

lemma apply_patch_no_panic: "patch_within max_len patch \<Longrightarrow> apply_patch env max_len target patch \<noteq> panic"
  using set_no_panic by (auto simp: apply_patch_def patch_within_def set_json_path_def get_str_def split: option.splits)

lemma apply_partial_args_no_panic:
  "(case v of Array patches \<Rightarrow> list_all (patch_within max_len) patches | _ \<Rightarrow> True) \<Longrightarrow> apply_partial_args env max_len target v \<noteq> panic"
proof (cases v)
  case (Array patches)
  assume "case v of Array patches \<Rightarrow> list_all (patch_within max_len) patches | _ \<Rightarrow> True"
  then have "try_fold (apply_patch env max_len) target patches \<noteq> panic"
    using Array by (intro try_fold_no_panic apply_patch_no_panic) (auto simp: list_all_iff)
  then show ?thesis by (simp add: apply_partial_args_def Array)
qed (simp_all add: apply_partial_args_def)

definition call_within :: "nat \<Rightarrow> object \<Rightarrow> bool" where
  "call_within max_len call =
     (case obj_get call ''partialArgs'' of Some (Array patches) \<Rightarrow> list_all (patch_within max_len) patches | _ \<Rightarrow> True)"

lemma part_within_call:
  "part_within max_len (Object part) \<Longrightarrow> Option.bind (obj_get part ''functionCall'') as_object = Some call \<Longrightarrow> call_within max_len call"
  by (auto simp: part_within_def call_within_def value_array_def bind_eq_Some_conv split: option.splits Value.splits)

lemma function_call_args_no_panic: "call_within max_len call \<Longrightarrow> function_call_args env max_len call \<noteq> panic"
  by (simp add: function_call_args_def call_within_def Let_def apply_partial_args_no_panic split: option.splits)

lemma continued_args_no_panic: "call_within max_len call \<Longrightarrow> gs_continued_args env max_len old call \<noteq> panic"
  by (simp add: gs_continued_args_def call_within_def Let_def apply_partial_args_no_panic split: option.splits)

lemma gemini_part_no_panic:
  assumes "part_within max_len part"
  shows "gemini_part env max_len request acc part \<noteq> panic"
proof -
  have "gemini_call_item env target i args \<noteq> panic" for target i args
    by (auto simp: gemini_call_item_def split: ResponsesToolKind.split)
  then have "gemini_call env max_len request acc call \<noteq> panic" if "call_within max_len call" for acc call
    using function_call_args_no_panic [OF that] by (auto simp: gemini_call_def Let_def)
  then show ?thesis using part_within_call assms by (auto simp: gemini_part_def split: option.split)
qed

lemma received_parts_within:
  assumes "part \<in> set (received_parts st)"
  shows "part_within max_len part"
proof -
  have "part_within max_len part" if "part \<in> set (order_part st item)" for item
  proof (cases item)
    case (OutCall key)
    show ?thesis
    proof (cases "bt_get (gs_calls st) key")
      case (Some call)
      then show ?thesis using that OutCall
        by (cases "gc_thought_signature call") (auto simp: order_part_def part_within_def value_array_def)
    qed (use that OutCall in \<open>simp add: order_part_def\<close>)
  qed (use that in \<open>auto simp: order_part_def part_within_def split: if_splits\<close>)
  then show ?thesis using assms by (auto simp: received_parts_def)
qed

lemma received_no_panic: "translate_gemini_response env max_len (gs_request st) (received_message st) \<noteq> panic"
proof -
  have "try_fold (gemini_part env max_len (gs_request st)) gemini_acc_new (received_parts st) \<noteq> panic"
    using gemini_part_no_panic received_parts_within by (intro try_fold_no_panic) blast
  then show ?thesis
  by (auto simp: translate_gemini_response_def responses_output_from_gemini_parts_def first_candidate_def received_message_def
      value_array_def split: list.split option.split)
qed

lemma gs_complete_returns: "gs_complete env max_len st \<noteq> None"
  using received_no_panic [of env max_len st] by (auto simp: gs_complete_def Let_def split: sum.split option.split)

lemma handle_function_call_returns:
  assumes "call_within max_len call"
  shows "handle_function_call env max_len part_index part call st \<noteq> None"
  using function_call_args_no_panic [OF assms, of env] continued_args_no_panic [OF assms, of env]
  by (auto simp: handle_function_call_def Let_def split: option.split sum.split)

lemma gs_part_returns: "part_within max_len part \<Longrightarrow> gs_part env max_len i part st \<noteq> None"
proof (cases part)
  case (Object m)
  assume "part_within max_len part"
  then have "handle_function_call env max_len i m call st \<noteq> None" if "Option.bind (obj_get m ''functionCall'') as_object = Some call" for call
    using handle_function_call_returns part_within_call [OF _ that] Object by simp
  then show ?thesis by (auto simp: gs_part_def Object bind_eq_None_conv split: option.split)
qed (simp_all add: gs_part_def)

lemma bind_returns: "a \<noteq> None \<Longrightarrow> (\<And>x. f x \<noteq> None) \<Longrightarrow> Option.bind a f \<noteq> None"
  by auto

lemma gs_parts_return: "list_all (part_within max_len) parts \<Longrightarrow> gs_parts env max_len i parts st \<noteq> None"
proof (induction parts arbitrary: i st)
  case (Cons part parts)
  then have "gs_part env max_len (of_nat i) part st \<noteq> None" "\<And>st. gs_parts env max_len (Suc i) parts st \<noteq> None"
    using gs_part_returns by simp_all
  then show ?case unfolding gs_parts.simps by (intro bind_returns) (simp_all split: prod.split)
qed simp

lemma gs_candidate_returns:
  assumes "case Option.bind (value_pointer candidate [''content'', ''parts'']) as_array of
    None \<Rightarrow> True | Some parts \<Rightarrow> list_all (part_within max_len) parts"
  shows "gs_candidate env max_len candidate st \<noteq> None"
proof (cases "Option.bind (value_pointer candidate [''content'', ''parts'']) as_array")
  case None
  then show ?thesis using gs_complete_returns by (simp add: gs_candidate_def)
next
  case (Some parts)
  then have "gs_parts env max_len 0 parts st \<noteq> None" using assms gs_parts_return by simp
  then show ?thesis unfolding gs_candidate_def Some option.case using gs_complete_returns
    by (intro bind_returns) (simp_all split: prod.split option.split)
qed

lemma gs_handle_value_returns: "event_within max_len v \<Longrightarrow> gs_handle_value env max_len v st \<noteq> None"
  using gs_candidate_returns by (auto simp: gs_handle_value_def event_within_def Let_def split: option.splits list.splits)

lemma gs_handle_event_panics:
  assumes "gs_handle_event env max_len event st = None"
  shows "\<exists>v. parse_sse_data env event = Some v \<and> \<not> event_within max_len v"
  using assms gs_complete_returns [of env max_len st]
  by (auto simp: gs_handle_event_def split: if_splits option.splits dest!: gs_handle_value_returns [of max_len _ env st])

lemma gs_finish_returns: "gs_finish env max_len st \<noteq> None"
  using gs_complete_returns by (simp add: gs_finish_def)

subsection \<open>Every handler is a step\<close>

definition gs_open :: "GeminiStreamBridge \<Rightarrow> GeminiStreamBridge \<Rightarrow> bool" where
  "gs_open s st \<longleftrightarrow> \<not> gs_terminal st \<and> gs_completed st = None
     \<and> (\<exists>fs. gs_output st = gs_output s @ fs \<and> list_all (\<lambda>f. \<not> closing_frame f) fs)"

definition gs_good :: "adapter_env \<Rightarrow> GeminiStreamBridge \<Rightarrow> bool" where
  "gs_good env st \<longleftrightarrow> (if gs_terminal st then ms_end env (gs_completed st) (last (gs_output st)) else gs_completed st = None)"

definition gs_ok :: "adapter_env \<Rightarrow> GeminiStreamBridge \<Rightarrow> GeminiStreamBridge \<Rightarrow> bool" where
  "gs_ok env s st \<longleftrightarrow> stream_step gs_output gs_terminal s st \<and> gs_good env st"

lemma gs_open_refl: "\<not> gs_terminal s \<Longrightarrow> gs_completed s = None \<Longrightarrow> gs_open s s"
  by (simp add: gs_open_def)

lemma gs_open_ok: "gs_open s st \<Longrightarrow> gs_ok env s st"
  by (auto simp: gs_open_def gs_ok_def stream_step_def gs_good_def)

lemma gs_open_update [simp]:
  "gs_open s (st\<lparr>gs_text := a\<rparr>) = gs_open s st" "gs_open s (st\<lparr>gs_thinking := a\<rparr>) = gs_open s st"
  "gs_open s (st\<lparr>gs_calls := b\<rparr>) = gs_open s st" "gs_open s (st\<lparr>gs_active_call := c\<rparr>) = gs_open s st"
  "gs_open s (st\<lparr>gs_order := d\<rparr>) = gs_open s st" "gs_open s (st\<lparr>gs_usage := e\<rparr>) = gs_open s st"
  "gs_open s (st\<lparr>gs_started := f\<rparr>) = gs_open s st" "gs_open s (st\<lparr>gs_text_started := f\<rparr>) = gs_open s st"
  "gs_open s (st\<lparr>gs_text_output_index := g\<rparr>) = gs_open s st" "gs_open s (st\<lparr>gs_next_output_index := g\<rparr>) = gs_open s st"
  "gs_open s (st\<lparr>gs_thinking_output_index := h\<rparr>) = gs_open s st" "gs_open s (st\<lparr>gs_finished_upstream := f\<rparr>) = gs_open s st"
  "gs_open s (st\<lparr>gs_finish_reason := i\<rparr>) = gs_open s st" "gs_open s (st\<lparr>gs_upstream_error := e\<rparr>) = gs_open s st"
  by (simp_all add: gs_open_def)

lemma gs_open_frame:
  assumes "prints_all env" "quiet_event event" "gs_open s st"
  shows "gs_open s (gs_frame env event payload st)"
proof -
  obtain t where "env_to_string env (json payload) = Some t" using assms(1) by (auto simp: prints_all_def)
  moreover obtain fs where "gs_output st = gs_output s @ fs" "list_all (\<lambda>f. \<not> closing_frame f) fs"
    using assms(3) by (auto simp: gs_open_def)
  ultimately show ?thesis using assms(2,3) by (simp add: gs_frame_def gs_open_def quiet_event_def)
qed

lemma gs_close:
  assumes "gs_open s st" "ms_end env completed f" "closing_frame f"
    "gs_output st' = gs_output st @ [f]" "gs_terminal st'" "gs_completed st' = completed"
  shows "gs_ok env s st'"
proof -
  obtain fs where "gs_output st = gs_output s @ fs" "list_all (\<lambda>f. \<not> closing_frame f) fs"
    using assms(1) by (auto simp: gs_open_def)
  then show ?thesis using assms by (auto simp: gs_ok_def stream_step_def gs_good_def)
qed

lemma gs_fail_ok:
  assumes "prints_all env" "gs_open s st"
  shows "gs_ok env s (gs_fail env err st)"
proof -
  obtain t where "env_to_string env (json (gs_failed_payload (gs_request st) err)) = Some t" using assms(1) by (auto simp: prints_all_def)
  then show ?thesis using assms(2)
    by (intro gs_close [of s st env None "sse_frame ''response.failed'' t"])
      (auto simp: gs_fail_def gs_frame_def gs_open_def ms_end_def)
qed

lemma gs_ok_open: "gs_ok env s st \<Longrightarrow> \<not> gs_terminal st \<Longrightarrow> gs_open s st"
  by (auto simp: gs_ok_def gs_open_def stream_step_def gs_good_def)

lemma ensure_started_open: "prints_all env \<Longrightarrow> gs_open s st \<Longrightarrow> gs_open s (ensure_started env st)"
  by (simp add: ensure_started_def gs_open_frame)

lemma gs_ensure_text_output_open: "prints_all env \<Longrightarrow> gs_open s st \<Longrightarrow> gs_open s (gs_ensure_text_output env st)"
  by (simp add: gs_ensure_text_output_def Let_def gs_open_frame)

lemma gs_thought_open: "prints_all env \<Longrightarrow> gs_open s st \<Longrightarrow> gs_open s (fst (gs_thought env t st))"
  using ensure_started_open [of env s st] by (simp add: gs_thought_def Let_def gs_open_frame)

lemma gs_text_part_open: "prints_all env \<Longrightarrow> gs_open s st \<Longrightarrow> gs_open s (fst (gs_text_part env t st))"
  using ensure_started_open [of env s st] by (simp add: gs_text_part_def Let_def gs_open_frame gs_ensure_text_output_open)

lemma emit_open: "prints_all env \<Longrightarrow> gs_open s st \<Longrightarrow> gs_open s (emit_call_arguments_delta env key st)"
proof (cases "bt_get (gs_calls st) key")
  case (Some call)
  assume "prints_all env" "gs_open s st"
  moreover from this obtain t where "env_to_string env (gc_args call) = Some t" by (auto simp: prints_all_def)
  ultimately show ?thesis by (simp add: emit_call_arguments_delta_def Some Let_def gs_open_frame)
qed (simp add: emit_call_arguments_delta_def)

lemma gs_new_call_open: "prints_all env \<Longrightarrow> gs_open s st \<Longrightarrow> gs_open s (gs_new_call env key part call name target args st)"
  using ensure_started_open [of env s st] by (simp add: gs_new_call_def Let_def gs_open_frame emit_open)

lemma gs_update_call_open: "prints_all env \<Longrightarrow> gs_open s st \<Longrightarrow> gs_open s (gs_update_call env key part args call st)"
  by (simp add: gs_update_call_def Let_def emit_open)

lemma gs_set_active_open [simp]: "gs_open s (gs_set_active call key st) = gs_open s st"
  by (simp add: gs_set_active_def)

lemma handle_function_call_ok:
  assumes "prints_all env" "gs_open s st" "handle_function_call env max_len i part call st = Some st'"
  shows "gs_ok env s st'"
  using assms gs_fail_ok [OF assms(1,2)] gs_open_ok [of s st' env]
  by (auto simp: handle_function_call_def Let_def and_then_Inr gs_new_call_open gs_update_call_open
      split: option.splits sum.splits)

lemma gs_part_ok:
  assumes "prints_all env" "gs_open s st" "gs_part env max_len i part st = Some (st', continue)"
  shows "gs_ok env s st' \<and> (continue \<longrightarrow> \<not> gs_terminal st')"
proof -
  have texts: "gs_ok env s st' \<and> \<not> gs_terminal st'" if "fst (gs_thought env t st) = st' \<or> fst (gs_text_part env t st) = st'" for t
    using that gs_thought_open [OF assms(1,2)] gs_text_part_open [OF assms(1,2)] gs_open_ok by (auto simp: gs_open_def)
  have sign: "gs_ok env s (sign_last_call p st) \<and> \<not> gs_terminal (sign_last_call p st)" for p
    using gs_open_ok [of s "sign_last_call p st"] assms(2) by (auto simp: sign_last_call_def gs_open_def split: option.splits)
  show ?thesis using assms(3) texts sign gs_fail_ok [OF assms(1,2)] handle_function_call_ok [OF assms(1,2)]
    by (auto simp: gs_part_def bind_eq_Some_conv split: option.splits if_splits) (metis fst_conv)+
qed

lemma gs_parts_ok:
  assumes "prints_all env"
  shows "gs_open s st \<Longrightarrow> gs_parts env max_len i parts st = Some (st', continue) \<Longrightarrow> gs_ok env s st' \<and> (continue \<longrightarrow> \<not> gs_terminal st')"
proof (induction parts arbitrary: i st)
  case Nil
  then show ?case using gs_open_ok by (auto simp: gs_open_def)
next
  case (Cons part parts)
  obtain st1 c where p: "gs_part env max_len (of_nat i) part st = Some (st1, c)"
    and r: "if c then gs_parts env max_len (Suc i) parts st1 = Some (st', continue) else st' = st1 \<and> \<not> continue"
    using Cons.prems(2) by (auto simp: bind_eq_Some_conv split: if_splits)
  have "gs_ok env s st1 \<and> (c \<longrightarrow> \<not> gs_terminal st1)" by (rule gs_part_ok [OF assms Cons.prems(1) p])
  then show ?case using r Cons.IH [OF gs_ok_open [of env s st1], of "Suc i"] by (cases c) simp_all
qed

lemma done_frames_open: "prints_all env \<Longrightarrow> gs_open s st \<Longrightarrow> gs_open s (done_frames env i items st)"
  by (induction items arbitrary: i st) (simp_all add: item_done_frames_def Let_def gs_open_frame)

lemma gs_complete_ok:
  assumes "prints_all env" "gs_open s st" "gs_complete env max_len st = Some st'"
  shows "gs_ok env s st' \<and> gs_terminal st'"
proof -
  have fail: "gs_ok env s (gs_fail env err st) \<and> gs_terminal (gs_fail env err st)" for err
    using gs_fail_ok [OF assms(1,2)] assms(2) by (simp add: gs_fail_def)
  have closed: "gs_ok env s st' \<and> gs_terminal st'"
    if "st' = (gs_frame env ''response.completed'' [(''type'', String ''response.completed''), (''response'', bp_response_body r)]
        ((done_frames env 0 items st)\<lparr>gs_completed := Some r\<rparr>))\<lparr>gs_terminal := True\<rparr>" for r items
  proof -
    obtain t where t: "env_to_string env (json [(''type'', String ''response.completed''), (''response'', bp_response_body r)]) = Some t"
      using assms(1) by (auto simp: prints_all_def)
    have "gs_ok env s st'"
      by (rule gs_close [OF done_frames_open [OF assms(1,2), of 0 items], of env "Some r" "sse_frame ''response.completed'' t"])
        (simp_all add: that gs_frame_def t ms_end_def)
    then show ?thesis using that by simp
  qed
  show ?thesis
  proof (cases "\<not> gs_started st \<or> (gs_text st = [] \<and> gs_thinking st = [] \<and> bt_len (gs_calls st) = 0)")
    case True
    then show ?thesis using assms(2,3) fail by (simp add: gs_complete_def gs_open_def) blast
  next
    case False
    note complete = assms(3) [unfolded gs_complete_def if_not_P [OF False]]
    have open_st: "\<not> gs_terminal st" using assms(2) by (simp add: gs_open_def)
    show ?thesis
    proof (cases "translate_gemini_response env max_len (gs_request st) (received_message st)")
      case (Inl err)
      then show ?thesis using complete open_st fail by (cases err) auto
    next
      case (Inr response)
      show ?thesis
        using complete open_st closed [of "\<lparr>bp_response_body = gp_response_body response, bp_response_id = gp_response_id response,
            bp_continuation = gp_continuation response\<rparr>" "or_else [] (value_array (gp_response_body response) ''output'')"]
        by (auto simp: Inr Let_def)
    qed
  qed
qed

lemma gs_handle_event_ok:
  assumes "prints_all env" "\<not> gs_terminal st" "gs_completed st = None" "gs_handle_event env max_len event st = Some st'"
  shows "gs_ok env st st'"
proof -
  have ok: "gs_ok env st st'" if "gs_open st s" "gs_complete env max_len s = Some st' \<or> st' = gs_fail env err s \<or> st' = s" for s err
    using that gs_complete_ok [OF assms(1) that(1)] gs_fail_ok [OF assms(1) that(1)] gs_open_ok by blast
  have candidate: "gs_ok env st st'" if o: "gs_open st s" and h: "gs_candidate env max_len c s = Some st'" for s c
  proof (cases "Option.bind (value_pointer c [''content'', ''parts'']) as_array")
    case None
    then show ?thesis using h ok [of "s\<lparr>gs_finished_upstream := True\<rparr>"] ok [OF o] o
      by (auto simp: gs_candidate_def split: if_splits)
  next
    case (Some parts)
    obtain s1 go where p: "gs_parts env max_len 0 parts s = Some (s1, go)"
      and r: "if \<not> go then st' = s1 else case value_str c ''finishReason'' of None \<Rightarrow> st' = s1
        | Some reason \<Rightarrow> gs_complete env max_len (s1\<lparr>gs_finish_reason := Some reason, gs_finished_upstream := True\<rparr>) = Some st'"
      using h unfolding gs_candidate_def Some by (auto simp: bind_eq_Some_conv split: if_splits option.splits)
    have s1: "gs_ok env st s1" "go \<Longrightarrow> gs_open st s1"
      using gs_parts_ok [OF assms(1) o p] gs_ok_open by blast+
    then show ?thesis using r ok [of "s1\<lparr>gs_finish_reason := value_str c ''finishReason'', gs_finished_upstream := True\<rparr>"]
      by (auto split: if_splits option.splits)
  qed
  have "gs_ok env st st'" if o: "gs_open st s" and h: "gs_handle_value env max_len v s = Some st'" for s v
  proof (cases "value_get v ''error''")
    case None
    let ?s = "case value_get v ''usageMetadata'' of None \<Rightarrow> s | Some usage \<Rightarrow> s\<lparr>gs_usage := Some usage\<rparr>"
    have open_s: "gs_open st ?s" using o by (simp split: option.split)
    have h: "(case value_array v ''candidates'' of Some (candidate # _) \<Rightarrow> gs_candidate env max_len candidate ?s | _ \<Rightarrow> Some ?s) = Some st'"
      using h None by (simp add: gs_handle_value_def Let_def)
    show ?thesis
    proof (cases "\<exists>candidate rest. value_array v ''candidates'' = Some (candidate # rest)")
      case True
      then obtain candidate rest where "value_array v ''candidates'' = Some (candidate # rest)" by blast
      then show ?thesis using h candidate [OF open_s] by simp
    next
      case False
      then have "st' = ?s" using h by (auto split: option.splits list.splits)
      then show ?thesis using ok [OF open_s] by blast
    qed
  next
    case (Some e)
    then show ?thesis using ok [of "s\<lparr>gs_upstream_error := Some v\<rparr>" upstream_stream_invalid] o h
      by (auto simp: gs_handle_value_def)
  qed
  then show ?thesis using assms(4) gs_open_refl [OF assms(2,3)] ok [OF gs_open_refl [OF assms(2,3)]]
    by (auto simp: gs_handle_event_def split: if_splits option.splits)
qed

subsection \<open>The stream is closed exactly once\<close>

text \<open>The handler of events, with a failure in place of a panic.\<close>

definition total_handler :: "('e \<Rightarrow> 's \<Rightarrow> 's option) \<Rightarrow> ('s \<Rightarrow> 's) \<Rightarrow> 'e \<Rightarrow> 's \<Rightarrow> 's" where
  "total_handler h failed e s = (case h e s of None \<Rightarrow> failed s | Some t \<Rightarrow> t)"

abbreviation gs_event :: "adapter_env \<Rightarrow> nat \<Rightarrow> string \<Rightarrow> GeminiStreamBridge \<Rightarrow> GeminiStreamBridge" where
  "gs_event env max_len \<equiv> total_handler (gs_handle_event env max_len) (gs_invalid env)"

abbreviation gs_end :: "adapter_env \<Rightarrow> nat \<Rightarrow> GeminiStreamBridge \<Rightarrow> GeminiStreamBridge" where
  "gs_end env max_len st \<equiv> the (gs_finish env max_len st)"

interpretation gemini: event_stream "gs_event env max_len" gs_terminal gs_output "gs_good env" "prints_all env" for env max_len
proof
  fix s e
  assume a: "prints_all env" "\<not> gs_terminal s" "gs_good env s"
  have none: "gs_completed s = None" using a(2,3) by (simp add: gs_good_def)
  have "gs_ok env s (gs_event env max_len e s)"
    using gs_fail_ok [OF a(1) gs_open_refl [OF a(2) none]] gs_handle_event_ok [OF a(1,2) none, of max_len e]
    by (auto simp: total_handler_def split: option.split)
  then show "stream_step gs_output gs_terminal s (gs_event env max_len e s) \<and> gs_good env (gs_event env max_len e s)"
    by (simp add: gs_ok_def)
qed

interpretation gemini_bridge: stream_bridge "gs_event env max_len" gs_terminal gs_output "gs_good env"
  "prints_all env" gs_pop_output "gs_end env max_len" "\<lambda>st. ms_end env (gs_completed st)" for env max_len
proof
  fix s
  assume a: "prints_all env" "\<not> gs_terminal s" "gs_good env s"
  have o: "gs_open s s" using gs_open_refl a(2,3) by (simp add: gs_good_def)
  have inv: "gs_ok env s (gs_invalid env s)" by (rule gs_fail_ok [OF a(1) o])
  have closed: "gs_terminal (gs_invalid env s)" by (simp add: gs_fail_def)
  obtain t where "gs_complete env max_len s = Some t" using gs_complete_returns by blast
  moreover have "gs_ok env s t \<and> gs_terminal t" using gs_complete_ok o a(1) calculation by blast
  ultimately show "stream_step gs_output gs_terminal s (gs_end env max_len s) \<and> gs_good env (gs_end env max_len s)
      \<and> gs_terminal (gs_end env max_len s)"
    using inv closed a(2) by (simp add: gs_finish_def gs_ok_def)
qed (auto simp: gs_finish_def gs_pop_output_def gs_good_def split: list.splits)

text \<open>The run of a bridge that may panic, and the same run as long as nothing panics.\<close>

definition lift_pop :: "('s \<Rightarrow> 's \<times> string option) \<Rightarrow> 's option \<Rightarrow> 's option \<times> string option" where
  "lift_pop pop st = (case st of None \<Rightarrow> (None, None) | Some s \<Rightarrow> (case pop s of (s', f) \<Rightarrow> (Some s', f)))"

abbreviation panicked_or :: "('s \<Rightarrow> bool) \<Rightarrow> 's option \<Rightarrow> bool" where
  "panicked_or terminal \<equiv> \<lambda>st. case st of None \<Rightarrow> True | Some s \<Rightarrow> terminal s"

definition gs_run :: "adapter_env \<Rightarrow> nat \<Rightarrow> GeminiBridgeRequest \<Rightarrow> bridge_call list \<Rightarrow> string list \<times> string \<times> GeminiStreamBridge option" where
  "gs_run env max_len request calls =
     run_bridge (\<lambda>event st. Option.bind st (gs_handle_event env max_len event)) (\<lambda>st. case st of None \<Rightarrow> True | Some st \<Rightarrow> gs_terminal st)
       (lift_pop gs_pop_output) (\<lambda>st. Option.bind st (gs_finish env max_len)) (Some (gemini_bridge_new request)) calls"

definition pushed_bytes :: "bridge_call list \<Rightarrow> string" where
  "pushed_bytes calls = concat (map (\<lambda>call. case call of Push bytes \<Rightarrow> bytes | _ \<Rightarrow> []) calls)"

lemma pushed_append: "pushed_bytes (cs @ ds) = pushed_bytes cs @ pushed_bytes ds"
  by (simp add: pushed_bytes_def)

definition panics_within :: "(string \<Rightarrow> 's \<Rightarrow> 's option) \<Rightarrow> string \<Rightarrow> bool" where
  "panics_within h bytes \<longleftrightarrow> (\<exists>e s. sublist e bytes \<and> h e s = None)"

lemma panics_within_mono: "panics_within h p \<Longrightarrow> sublist p q \<Longrightarrow> panics_within h q"
  unfolding panics_within_def using sublist_order.order.trans by blast

lemma drain_suffix: "suffix (fst (drain_events handle terminal p s)) p"
proof (induction handle terminal p s rule: drain_events.induct)
  case (1 handle terminal p s)
  show ?case
  proof (cases "event_end p")
    case (Some e)
    have "suffix (fst (drain_events handle terminal (drop e p) (handle (take e p) s))) p" if "\<not> terminal (handle (take e p) s)"
      using suffix_order.trans [OF "1.IH" [OF Some refl that] suffix_drop] .
    then show ?thesis using Some by (subst drain_events.simps) (simp add: Let_def)
  qed (simp add: drain_events.simps)
qed

lemma drain_some:
  "drain_events (\<lambda>e st. Option.bind st (h e)) (panicked_or T) p (Some s)
      = map_prod id Some (drain_events (total_handler h failed) T p s)
   \<or> snd (drain_events (\<lambda>e st. Option.bind st (h e)) (panicked_or T) p (Some s)) = None \<and> panics_within h p"
proof (induction p arbitrary: s rule: length_induct)
  case (1 p)
  show ?case
  proof (cases "event_end p")
    case None
    then show ?thesis by (simp add: drain_events.simps)
  next
    case (Some e)
    show ?thesis
    proof (cases "h (take e p) s")
      case None
      then show ?thesis using Some
        by (subst (3) drain_events.simps) (auto simp: Let_def panics_within_def intro!: exI [of _ "take e p"] prefix_imp_sublist take_is_prefix)
    next
      case t: (Some t)
      have "length (drop e p) < length p" using event_end_bound [OF Some] by auto
      then have IH: "drain_events (\<lambda>e st. Option.bind st (h e)) (panicked_or T) (drop e p) (Some t)
            = map_prod id Some (drain_events (total_handler h failed) T (drop e p) t)
          \<or> snd (drain_events (\<lambda>e st. Option.bind st (h e)) (panicked_or T) (drop e p) (Some t)) = None \<and> panics_within h (drop e p)"
        using "1.IH" by blast
      have sub: "panics_within h (drop e p) \<Longrightarrow> panics_within h p"
        by (rule panics_within_mono [OF _ suffix_imp_sublist [OF suffix_drop]])
      have opt: "drain_events (\<lambda>e st. Option.bind st (h e)) (panicked_or T) p (Some s) = (if T t then ([], Some t)
          else drain_events (\<lambda>e st. Option.bind st (h e)) (panicked_or T) (drop e p) (Some t))"
        using Some t by (subst drain_events.simps) (simp add: Let_def)
      have tot: "drain_events (total_handler h failed) T p s = (if T t then ([], t)
          else drain_events (total_handler h failed) T (drop e p) t)"
        using Some t by (subst drain_events.simps) (simp add: Let_def total_handler_def)
      show ?thesis
      proof (cases "T t")
        case False
        then show ?thesis using IH sub unfolding opt tot by (simp only: if_False) blast
      qed (simp add: opt tot)
    qed
  qed
qed

text \<open>The bytes that are waiting are the last ones pushed, as long as the bridge is open.\<close>

definition waiting :: "('s \<Rightarrow> bool) \<Rightarrow> bridge_call list \<Rightarrow> string list \<times> string \<times> 's \<Rightarrow> bool" where
  "waiting terminal calls rs \<longleftrightarrow> terminal (snd (snd rs)) \<or> suffix (fst (snd rs)) (pushed_bytes calls)"

lemma bridge_step_some:
  assumes "\<And>s. fin s \<noteq> None" "\<And>s. T (fst (pop s)) = T s" "\<And>s. T s \<longrightarrow> T (the (fin s))" "waiting T calls rs"
    and opt: "opt = bridge_step (\<lambda>e st. Option.bind st (h e)) (panicked_or T) (lift_pop pop) (\<lambda>st. Option.bind st fin)"
    and tot: "tot = bridge_step (total_handler h failed) T pop (\<lambda>s. the (fin s))"
  shows "waiting T (calls @ [call]) (tot rs call) \<and> opt (map_prod id (map_prod id Some) rs) call = map_prod id (map_prod id Some) (tot rs call)
    \<or> \<not> T (snd (snd rs)) \<and> fst (opt (map_prod id (map_prod id Some) rs) call) = fst rs
        \<and> snd (snd (opt (map_prod id (map_prod id Some) rs) call)) = None \<and> panics_within h (pushed_bytes (calls @ [call]))"
proof -
  obtain read p s where rs: "rs = (read, p, s)" by (metis prod.collapse)
  show ?thesis
  proof (cases call)
    case (Push bytes)
    show ?thesis
    proof (cases "T s")
      case True
      then show ?thesis by (simp add: opt tot rs Push push_bytes_def waiting_def)
    next
      case False
      have suf: "suffix (p @ bytes) (pushed_bytes (calls @ [call]))"
        using assms(4) False by (simp add: rs waiting_def pushed_append Push pushed_bytes_def [of "[_]"])
      have "suffix (fst (drain_events (total_handler h failed) T (p @ bytes) s)) (pushed_bytes (calls @ [call]))"
        using suffix_order.trans [OF drain_suffix suf] .
      moreover have "panics_within h (p @ bytes) \<Longrightarrow> panics_within h (pushed_bytes (calls @ [call]))"
        by (rule panics_within_mono [OF _ suffix_imp_sublist [OF suf]])
      ultimately show ?thesis
        using drain_some [of h T "p @ bytes" s failed] False
        by (auto simp: opt tot rs Push push_bytes_def waiting_def)
    qed
  next
    case Pop
    then show ?thesis using assms(2) [of s] assms(4)
      by (auto simp: opt tot rs lift_pop_def waiting_def pushed_append pushed_bytes_def [of "[_]"] split: prod.split option.split)
  next
    case Finish
    then show ?thesis using assms(1) [of s] assms(3) [of s] assms(4)
      by (auto simp: opt tot rs waiting_def pushed_append pushed_bytes_def [of "[_]"])
  qed
qed

lemma panicked_run:
  assumes "opt = bridge_step (\<lambda>e st. Option.bind st (h e)) (panicked_or T) (lift_pop pop) (\<lambda>st. Option.bind st fin)"
    and "snd (snd rs) = None"
  shows "fst (foldl opt rs calls) = fst rs \<and> snd (snd (foldl opt rs calls)) = None"
  using assms(2)
proof (induction calls arbitrary: rs)
  case (Cons call calls)
  obtain read p where rs: "rs = (read, p, None)" using Cons.prems by (metis prod.collapse)
  have "fst (opt rs call) = fst rs \<and> snd (snd (opt rs call)) = None"
    by (cases call) (simp_all add: assms(1) rs push_bytes_def lift_pop_def)
  then show ?case using Cons.IH [of "opt rs call"] by simp
qed simp

lemma run_some:
  assumes "\<And>s. fin s \<noteq> None" "\<And>s. T (fst (pop s)) = T s" "\<And>s. T s \<longrightarrow> T (the (fin s))"
    and opt: "opt = bridge_step (\<lambda>e st. Option.bind st (h e)) (panicked_or T) (lift_pop pop) (\<lambda>st. Option.bind st fin)"
    and tot: "tot = bridge_step (total_handler h failed) T pop (\<lambda>s. the (fin s))"
  shows "waiting T calls (foldl tot ([], [], s) calls)
      \<and> foldl opt ([], [], Some s) calls = map_prod id (map_prod id Some) (foldl tot ([], [], s) calls)
    \<or> snd (snd (foldl opt ([], [], Some s) calls)) = None \<and> panics_within h (pushed_bytes calls)
      \<and> (\<exists>cs. \<not> T (snd (snd (foldl tot ([], [], s) cs))) \<and> fst (foldl tot ([], [], s) cs) = fst (foldl opt ([], [], Some s) calls))"
proof (induction calls rule: rev_induct)
  case Nil
  then show ?case by (simp add: waiting_def)
next
  case (snoc call calls)
  from snoc.IH show ?case
  proof (elim disjE conjE)
    assume w: "waiting T calls (foldl tot ([], [], s) calls)"
      and eq: "foldl opt ([], [], Some s) calls = map_prod id (map_prod id Some) (foldl tot ([], [], s) calls)"
    from bridge_step_some [of fin T pop, OF assms(1-3) w opt tot, of call] show ?thesis
      unfolding foldl_append foldl.simps eq by (elim disjE) (rule disjI1, assumption, rule disjI2, auto intro!: exI [of _ calls])
  next
    assume n: "snd (snd (foldl opt ([], [], Some s) calls)) = None" and p: "panics_within h (pushed_bytes calls)"
      and c: "\<exists>cs. \<not> T (snd (snd (foldl tot ([], [], s) cs))) \<and> fst (foldl tot ([], [], s) cs) = fst (foldl opt ([], [], Some s) calls)"
    have "panics_within h (pushed_bytes (calls @ [call]))"
      using panics_within_mono [OF p, of "pushed_bytes (calls @ [call])"] by (simp add: pushed_append)
    then show ?thesis using panicked_run [OF opt n, of "[call]"] c unfolding foldl_append by auto
  qed
qed

lemma gs_run_some:
  assumes "gs_run env max_len request calls = (read, pending, bridge)"
  shows "case bridge of
      None \<Rightarrow> panics_within (gs_handle_event env max_len) (pushed_bytes calls)
        \<and> (\<exists>cs p st. run_bridge (gs_event env max_len) gs_terminal gs_pop_output (gs_end env max_len) (gemini_bridge_new request) cs
            = (read, p, st) \<and> \<not> gs_terminal st)
    | Some st \<Rightarrow> run_bridge (gs_event env max_len) gs_terminal gs_pop_output (gs_end env max_len) (gemini_bridge_new request) calls
        = (read, pending, st)"
proof -
  have "gs_finish env max_len s \<noteq> None" "gs_terminal (fst (gs_pop_output s)) = gs_terminal s"
    "gs_terminal s \<longrightarrow> gs_terminal (the (gs_finish env max_len s))" for s
    using gs_finish_returns [of env max_len s] by (auto simp: gs_pop_output_def gs_finish_def split: list.split)
  from run_some [where fin = "gs_finish env max_len" and T = gs_terminal and pop = gs_pop_output and h = "gs_handle_event env max_len"
      and failed = "gs_invalid env" and s = "gemini_bridge_new request", OF this refl refl, of calls] assms show ?thesis
    unfolding gs_run_def run_bridge_def by (cases bridge) (auto simp: prod_eq_iff)
qed

text \<open>
  C32 (safety). However the upstream bytes are cut and whenever the client reads, the frames of a Gemini
  bridge contain at most one that closes the response, it is the last one, and once the end of the
  input is reported there is exactly one: the completion with the stored response when there is one,
  otherwise a failure. The bridge panics only when the bytes pushed contain an event that patches an
  array of function arguments at an index beyond the length a vector may have, and then no frame that
  the client has read closes the response. The hypothesis is that every document can be printed.
\<close>

theorem gemini_stream_closed_once:
  assumes "\<forall>v. env_to_string env v \<noteq> None" and "gs_run env max_len request calls = (read, pending, bridge)"
  shows "case bridge of
      None \<Rightarrow> (\<exists>event v. sublist event (pushed_bytes calls) \<and> parse_sse_data env event = Some v \<and> \<not> event_within max_len v)
        \<and> (\<forall>f \<in> set read. \<not> closing_frame f)
    | Some st \<Rightarrow>
        (\<forall>i. Suc i < length (read @ gs_output st) \<longrightarrow> \<not> closing_frame ((read @ gs_output st) ! i))
        \<and> (gs_terminal st \<longleftrightarrow> (\<exists>f \<in> set (read @ gs_output st). closing_frame f))
        \<and> (Finish \<in> set calls \<longrightarrow> gs_terminal st)
        \<and> (gs_terminal st \<longrightarrow> (case gs_completed st of
             None \<Rightarrow> \<exists>t. last (read @ gs_output st) = sse_frame ''response.failed'' t
           | Some r \<Rightarrow> \<exists>t. env_to_string env (json [(''type'', String ''response.completed''), (''response'', bp_response_body r)]) = Some t
               \<and> last (read @ gs_output st) = sse_frame ''response.completed'' t))"
proof -
  have p: "prints_all env" using assms(1) by (simp add: prints_all_def)
  have new: "gs_good env (gemini_bridge_new request)" "\<not> gs_terminal (gemini_bridge_new request)"
    "gs_output (gemini_bridge_new request) = []" by (simp_all add: gs_good_def gemini_bridge_new_def)
  show ?thesis
  proof (cases bridge)
    case None
    obtain cs q st where run: "run_bridge (gs_event env max_len) gs_terminal gs_pop_output (gs_end env max_len)
        (gemini_bridge_new request) cs = (read, q, st)" and "\<not> gs_terminal st"
      and "panics_within (gs_handle_event env max_len) (pushed_bytes calls)"
      using gs_run_some [OF assms(2)] None by auto
    moreover have "closed_once (read @ gs_output st) (gs_terminal st)" by (rule gemini_bridge.run_closed(1) [OF p new run])
    ultimately show ?thesis using gs_handle_event_panics unfolding None panics_within_def by (auto simp: closed_once_def list_all_iff)
  next
    case (Some st)
    then have run: "run_bridge (gs_event env max_len) gs_terminal gs_pop_output (gs_end env max_len)
        (gemini_bridge_new request) calls = (read, pending, st)" using gs_run_some [OF assms(2)] by simp
    note closed = gemini_bridge.run_closed [OF p new run]
    show ?thesis unfolding Some option.case
      using closed_once_nth [OF closed(1)] closed_once_iff [OF closed(1)] closed(2,3) unfolding ms_end_def by blast
  qed
qed

definition wit_gemini_request :: GeminiBridgeRequest where
  "wit_gemini_request = \<lparr>gq_upstream_body = Null, gq_model = ''m'', gq_response_id = ''g'',
     gq_state = bridge_state_new ''m'' ReasoningDisabled\<rparr>"

definition wit_gemini_env :: adapter_env where
  "wit_gemini_env = wit_env\<lparr>env_from_slice := \<lambda>t. if t = ''x'' then
     Some (json [(''candidates'', Array [json [(''content'', json [(''parts'', Array [json [(''text'', String ''hi'')]])]),
       (''finishReason'', String ''STOP'')]])]) else None\<rparr>"

theorem gemini_stream_closed_once_witness:
  "\<exists>read pending st. gs_run wit_gemini_env 0 wit_gemini_request [Push (''data: x'' @ [LF]), Push [LF], Pop, Finish] = (read, pending, Some st)
     \<and> gs_terminal st \<and> (\<exists>t. last (read @ gs_output st) = sse_frame ''response.completed'' t)"
proof -
  let ?calls = "[Push (''data: x'' @ [LF]), Push [LF], Pop, Finish]"
  obtain read p b where r: "gs_run wit_gemini_env 0 wit_gemini_request ?calls = (read, p, b)" by (metis prod.collapse)
  have "case snd (snd (gs_run wit_gemini_env 0 wit_gemini_request ?calls)) of
      None \<Rightarrow> False | Some st \<Rightarrow> \<not> Option.is_none (gs_completed st)" by code_simp
  then obtain st c where st: "b = Some st" "gs_completed st = Some c"
    using r by (cases b) (auto simp: Option.is_none_def)
  have "\<forall>v. env_to_string wit_gemini_env v \<noteq> None" by (simp add: wit_gemini_env_def wit_env_def)
  from gemini_stream_closed_once [OF this r] show ?thesis using r st by auto
qed

end
