(* ===== verification/Gemini_Request.thy ===== *)
theory Gemini_Request
  imports Gemini_Response Messages_Request
begin

section \<open>From a Responses request to a Gemini request\<close>

text \<open>
  The half of \<open>protocol/adapter/gemini.rs\<close> that prepares a request: content becomes parts, the client's
  tools become function declarations with a reduced schema, and the items of the input extend the
  conversation. \<open>stream\<close> is not used by the code and has no argument here.
\<close>

definition MAX_INLINE_MEDIA_BYTES :: nat where "MAX_INLINE_MEDIA_BYTES = 20 * 1024 * 1024"

subsection \<open>Content\<close>

definition text_part :: "string \<Rightarrow> Value" where "text_part t = json [(''text'', String t)]"

definition is_web_url :: "string \<Rightarrow> bool" where
  "is_web_url url \<longleftrightarrow> starts_with url ''https://'' \<or> starts_with url ''http://''"

definition image_part :: "adapter_env \<Rightarrow> object \<Rightarrow> Value adapter_result" where
  "image_part env part =
     and_then (ok_or invalid_request (Option.bind (or_value (obj_get part ''image_url'') (obj_get part ''url'')) as_str)) (\<lambda>url.
     case split_once (\<lambda>c. c = CHR '','') url of
       Some (header, data) \<Rightarrow>
         and_then (ok_or invalid_request (filter_option
             (\<lambda>mime. mime \<in> {''image/gif'', ''image/jpeg'', ''image/png'', ''image/webp''})
             (Option.bind (strip_prefix ''data:'' header) (strip_suffix '';base64'')))) (\<lambda>mime.
         and_then (ok_or invalid_request (env_base64 env data)) (\<lambda>decoded.
         if length decoded > MAX_INLINE_MEDIA_BYTES then Inl invalid_request
         else Inr (json [(''inlineData'', json [(''mimeType'', String mime), (''data'', String data)])])))
     | None \<Rightarrow>
         if \<not> is_web_url url then Inl invalid_request
         else Inr (json [(''fileData'', json [(''fileUri'', String url), (''mimeType'', String ''image/*'')])]))"

definition file_part :: "object \<Rightarrow> Value adapter_result" where
  "file_part part =
     and_then (ok_or invalid_request (filter_option is_web_url (Option.bind
         (or_value (obj_get part ''file_url'') (or_value (obj_get part ''file_uri'') (obj_get part ''url''))) as_str))) (\<lambda>url.
     let mime = or_else ''application/octet-stream''
           (Option.bind (or_value (obj_get part ''mime_type'') (obj_get part ''mimeType'')) as_str)
     in Inr (json [(''fileData'', json [(''fileUri'', String url), (''mimeType'', String mime)])]))"

definition gemini_content_part :: "adapter_env \<Rightarrow> Value \<Rightarrow> Value adapter_result" where
  "gemini_content_part env v =
     and_then (ok_or invalid_request (as_object v)) (\<lambda>part.
     let kind = get_str part ''type'' in
     if is_text_part part then ok_or invalid_request (map_option text_part (filter_option (\<lambda>t. t \<noteq> []) (get_str part ''text'')))
     else if kind = Some ''input_image'' \<or> kind = Some ''output_image'' then image_part env part
     else if kind = Some ''input_file'' \<or> kind = Some ''output_file'' then file_part part
     else Inl unsupported_binding)"

fun content_parts :: "adapter_env \<Rightarrow> Value \<Rightarrow> Value list adapter_result" where
  "content_parts env (String t) = Inr (if t \<noteq> [] then [text_part t] else [])"
| "content_parts env (Array parts) = try_map (gemini_content_part env) parts"
| "content_parts env _ = Inl invalid_request"

definition append_system_parts :: "Value list \<Rightarrow> MessagesBridgeState \<Rightarrow> MessagesBridgeState adapter_result" where
  "append_system_parts parts state =
     (if parts = [] then Inr state
      else case mb_system state of
          None \<Rightarrow> Inr (state\<lparr>mb_system := Some (json [(''parts'', Array parts)])\<rparr>)
        | Some (Object m) \<Rightarrow> (case or_else (Array []) (obj_get m ''parts'') of
              Array existing \<Rightarrow> Inr (state\<lparr>mb_system := Some (Object (obj_insert ''parts'' (Array (existing @ parts)) m))\<rparr>)
            | _ \<Rightarrow> Inl invalid_request)
        | Some _ \<Rightarrow> Inl invalid_request)"

subsection \<open>Tool results\<close>

fun gemini_output_text :: "Value \<Rightarrow> string adapter_result" where
  "gemini_output_text (String s) = Inr s"
| "gemini_output_text (Array parts) =
     (let texts = List.map_filter (\<lambda>part. value_str part ''text'') parts
      in if texts = [] then Inl invalid_request else Inr (concat texts))"
| "gemini_output_text _ = Inl invalid_request"

definition is_media_part :: "object \<Rightarrow> bool" where
  "is_media_part part \<longleftrightarrow> get_str part ''type''
     \<in> {Some ''input_image'', Some ''output_image'', Some ''input_file'', Some ''output_file''}"

definition output_value_part :: "adapter_env \<Rightarrow> string list \<times> Value list \<Rightarrow> Value \<Rightarrow> (string list \<times> Value list) adapter_result" where
  "output_value_part env acc part =
     (case acc of (texts, media) \<Rightarrow>
        and_then (ok_or invalid_request (as_object part)) (\<lambda>object.
        if is_text_part object then and_then (ok_or invalid_request (get_str object ''text'')) (\<lambda>t. Inr (texts @ [t], media))
        else if is_media_part object then and_then (gemini_content_part env part) (\<lambda>p. Inr (texts, media @ [p]))
        else and_then (ok_or invalid_request (env_to_string env part)) (\<lambda>t. Inr (texts @ [t], media))))"

text \<open>\<open>text.join("\n")\<close>.\<close>

fun join_lines :: "string list \<Rightarrow> string" where
  "join_lines [] = []"
| "join_lines [t] = t"
| "join_lines (t # ts) = t @ [LF] @ join_lines ts"

fun output_value :: "adapter_env \<Rightarrow> Value \<Rightarrow> Value adapter_result" where
  "output_value env (String t) = Inr (or_else (json [(''output'', String t)]) (env_from_slice env t))"
| "output_value env (Object m) = Inr (Object m)"
| "output_value env (Array parts) =
     and_then (try_fold (output_value_part env) ([], []) parts) (\<lambda>(texts, media).
     let response = (if texts \<noteq> [] then obj_of [(''output'', String (join_lines texts))] else []);
         response = (if media \<noteq> [] then obj_insert ''parts'' (Array media) response else response)
     in Inr (Object (if response = [] then obj_of [(''output'', String [])] else response)))"
| "output_value env _ = Inl invalid_request"

text \<open>The name of the last call with an identifier, from the end of the conversation.\<close>

definition call_name_in :: "string \<Rightarrow> Value \<Rightarrow> string option" where
  "call_name_in call_id part =
     Option.bind (Option.bind (value_get part ''functionCall'') as_object) (\<lambda>call.
       if get_str call ''id'' = Some call_id then get_str call ''name'' else None)"

fun find_map :: "('a \<Rightarrow> 'b option) \<Rightarrow> 'a list \<Rightarrow> 'b option" where
  "find_map f [] = None"
| "find_map f (x # xs) = (case f x of None \<Rightarrow> find_map f xs | Some y \<Rightarrow> Some y)"

definition find_call_name :: "MessagesBridgeState \<Rightarrow> string \<Rightarrow> string option" where
  "find_call_name state call_id =
     find_map (\<lambda>message. Option.bind (value_array message ''parts'') (\<lambda>parts. find_map (call_name_in call_id) (rev parts)))
       (rev (mb_messages state))"

subsection \<open>Input\<close>

definition item_call_ref :: "object \<Rightarrow> string option" where
  "item_call_ref item = Option.bind (or_value (obj_get item ''call_id'') (obj_get item ''id'')) as_str"

definition gemini_output_item :: "adapter_env \<Rightarrow> MessagesBridgeState \<Rightarrow> object \<Rightarrow> MessagesBridgeState adapter_result" where
  "gemini_output_item env state item =
     and_then (ok_or invalid_request (item_call_ref item)) (\<lambda>call_id.
     and_then (ok_or invalid_request (case find_call_name state call_id of Some name \<Rightarrow> Some name | None \<Rightarrow> get_str item ''name'')) (\<lambda>name.
     and_then (ok_or invalid_request (obj_get item ''output'')) (\<lambda>v.
     and_then (if get_str item ''type'' = Some ''custom_tool_call_output''
         then and_then (gemini_output_text v) (\<lambda>t. Inr (json [(''input'', String t)]))
         else output_value env v) (\<lambda>response.
     Inr (append_message ''user'' [json [(''functionResponse'', json [(''name'', String name), (''response'', response),
        (''id'', String call_id)])]] state)))))"

definition gemini_call_args :: "adapter_env \<Rightarrow> object \<Rightarrow> Value adapter_result" where
  "gemini_call_args env item =
     (if get_str item ''type'' = Some ''custom_tool_call''
      then and_then (ok_or invalid_request (obj_get item ''input'')) (\<lambda>v.
        and_then (gemini_output_text v) (\<lambda>t. Inr (json [(''input'', String t)])))
      else ok_or invalid_request (env_from_slice env (or_else ''{}'' (get_str item ''arguments''))))"

definition gemini_call_input :: "adapter_env \<Rightarrow> MessagesBridgeState \<Rightarrow> object \<Rightarrow> MessagesBridgeState adapter_result" where
  "gemini_call_input env state item =
     and_then (ok_or invalid_request (get_str item ''name'')) (\<lambda>name.
     and_then (ok_or invalid_request (upstream_tool_name state (non_blank (get_str item ''namespace'')) name)) (\<lambda>upstream_name.
     and_then (ok_or invalid_request (item_call_ref item)) (\<lambda>call_id.
     and_then (gemini_call_args env item) (\<lambda>args.
     if \<not> is_object args then Inl invalid_request
     else Inr (append_message ''model'' [json [(''functionCall'', json [(''name'', String upstream_name), (''args'', args),
        (''id'', String call_id)])]] state)))))"

definition gemini_role :: "string \<Rightarrow> string option" where
  "gemini_role role =
     (if role = ''user'' then Some ''user'' else if role = ''assistant'' then Some ''model''
      else if role = ''developer'' \<or> role = ''system'' then Some ''system'' else None)"

definition gemini_message_item :: "adapter_env \<Rightarrow> MessagesBridgeState \<Rightarrow> object \<Rightarrow> MessagesBridgeState adapter_result" where
  "gemini_message_item env state item =
     and_then (ok_or invalid_request (get_str item ''role'')) (\<lambda>role.
     and_then (ok_or invalid_request (gemini_role role)) (\<lambda>role.
     and_then (ok_or invalid_request (obj_get item ''content'')) (\<lambda>content.
     and_then (content_parts env content) (\<lambda>parts.
     if parts = [] then Inr state
     else if role = ''system'' then append_system_parts parts state
     else Inr (append_message role parts state)))))"

definition gemini_input_item :: "adapter_env \<Rightarrow> MessagesBridgeState \<Rightarrow> Value \<Rightarrow> MessagesBridgeState adapter_result" where
  "gemini_input_item env state v =
     and_then (ok_or invalid_request (as_object v)) (\<lambda>item.
     let kind = get_str item ''type'' in
     if kind = Some ''additional_tools'' then Inr state
     else if is_output_item item then gemini_output_item env state item
     else if kind = Some ''function_call'' \<or> kind = Some ''custom_tool_call'' then gemini_call_input env state item
     else if kind = Some ''reasoning'' then (if mb_messages state = [] then Inl continuation_missing else Inr state)
     else if kind = Some ''message'' \<or> kind = None then gemini_message_item env state item
     else Inl invalid_request)"

fun gemini_responses_input :: "adapter_env \<Rightarrow> MessagesBridgeState \<Rightarrow> Value \<Rightarrow> MessagesBridgeState adapter_result" where
  "gemini_responses_input env state (String t) = Inr (if t \<noteq> [] then append_message ''user'' [text_part t] state else state)"
| "gemini_responses_input env state (Array items) = try_fold (gemini_input_item env) state items"
| "gemini_responses_input env state _ = Inl invalid_request"

subsection \<open>Schemas\<close>

definition SUPPORTED_FIELDS :: "string list" where
  "SUPPORTED_FIELDS = [''type'', ''description'', ''properties'', ''required'', ''items'', ''enum'', ''title'', ''nullable'']"

text \<open>The loop over the supported fields of an object whose values are already reduced.\<close>

definition supported_entries :: "object \<Rightarrow> object" where
  "supported_entries m =
     obj_of (List.map_filter (\<lambda>field. map_option (Pair field) (obj_get m field)) SUPPORTED_FIELDS)"

lemma size_entry [termination_simp]:
  "e \<in> set m \<Longrightarrow> size (snd e) < Suc (size_list (\<lambda>x. Suc (size (snd x))) m)"
  by (induction m) auto

fun sanitize_gemini_schema :: "Value \<Rightarrow> Value" and sanitize_properties :: "Value \<Rightarrow> Value" where
  "sanitize_gemini_schema (Object m) = Object (supported_entries (map (\<lambda>e. (fst e,
     if fst e = ''properties'' then sanitize_properties (snd e)
     else if fst e = ''items'' then sanitize_gemini_schema (snd e) else snd e)) m))"
| "sanitize_gemini_schema v = v"
| "sanitize_properties (Object m) = Object (obj_of (map (\<lambda>e. (fst e, sanitize_gemini_schema (snd e))) m))"
| "sanitize_properties v = v"

subsection \<open>Tools\<close>

definition gemini_namespace_tool_name :: "adapter_env \<Rightarrow> string \<Rightarrow> string \<Rightarrow> string" where
  "gemini_namespace_tool_name env namespace name =
     ''relay_ns_'' @ env_hex env (take 12 (env_sha256 env
       (to_le_bytes (length namespace) @ namespace @ to_le_bytes (length name) @ name)))"

definition gemini_tool_kind :: "object \<Rightarrow> ResponsesToolKind option" where
  "gemini_tool_kind tool =
     (case get_str tool ''type'' of
        None \<Rightarrow> Some FunctionTool
      | Some kind \<Rightarrow> if kind = ''custom'' then Some CustomTool else if kind = ''function'' then Some FunctionTool else None)"

definition gemini_parameters :: "ResponsesToolKind \<Rightarrow> object \<Rightarrow> Value" where
  "gemini_parameters kind tool =
     (case kind of
        CustomTool \<Rightarrow> json [(''type'', String ''object''), (''properties'', json [(''input'', json [(''type'', String ''string'')])]),
          (''required'', Array [String ''input''])]
      | FunctionTool \<Rightarrow> or_else (json [(''type'', String ''object''), (''properties'', json [])])
          (or_value (obj_get tool ''parameters'') (or_value (obj_get tool ''parameters_json_schema'') (obj_get tool ''input_schema''))))"

definition gemini_description :: "object \<Rightarrow> string \<Rightarrow> string option \<Rightarrow> string option" where
  "gemini_description tool name namespace =
     (let own = non_blank (get_str tool ''description'')
      in case namespace of
           Some ns \<Rightarrow> Some (''Codex namespace `'' @ ns @ ''` tool `'' @ name @ ''`.''
             @ (case own of None \<Rightarrow> [] | Some d \<Rightarrow> '' '' @ d))
         | None \<Rightarrow> own)"

definition translate_gemini_tool ::
  "adapter_env \<Rightarrow> string option \<Rightarrow> TranslatedTools \<Rightarrow> object \<Rightarrow> TranslatedTools adapter_result" where
  "translate_gemini_tool env namespace tools tool =
     (case gemini_tool_kind tool of
        None \<Rightarrow> Inr tools
      | Some kind \<Rightarrow>
          and_then (ok_or invalid_request (non_blank (get_str tool ''name''))) (\<lambda>name.
          let upstream_name = (case namespace of None \<Rightarrow> name | Some ns \<Rightarrow> gemini_namespace_tool_name env ns name) in
          if bt_contains (tt_client_tools tools) upstream_name then Inl invalid_request
          else
            let parameters = gemini_parameters kind tool;
                declaration = obj_of [(''name'', String upstream_name)];
                declaration = (case gemini_description tool name namespace of
                    None \<Rightarrow> declaration | Some d \<Rightarrow> obj_insert ''description'' (String d) declaration)
            in if \<not> is_object parameters then Inl invalid_request
               else Inr (tools\<lparr>tt_upstream := tt_upstream tools
                       @ [Object (obj_insert ''parameters'' (sanitize_gemini_schema parameters) declaration)],
                    tt_client_tools := bt_insert upstream_name
                      \<lparr>ct_kind = kind, ct_name = name, ct_namespace = namespace\<rparr> (tt_client_tools tools)\<rparr>)))"

definition gemini_tool_child :: "adapter_env \<Rightarrow> string \<Rightarrow> TranslatedTools \<Rightarrow> Value \<Rightarrow> TranslatedTools adapter_result" where
  "gemini_tool_child env namespace tools child =
     (case as_object child of
        None \<Rightarrow> Inr tools
      | Some child \<Rightarrow>
          if get_str child ''type'' \<in> {Some ''function'', Some ''custom'', None}
          then translate_gemini_tool env (Some namespace) tools child else Inr tools)"

definition gemini_tool :: "adapter_env \<Rightarrow> TranslatedTools \<Rightarrow> Value \<Rightarrow> TranslatedTools adapter_result" where
  "gemini_tool env tools v =
     and_then (ok_or invalid_request (as_object v)) (\<lambda>tool.
     let kind = get_str tool ''type'' in
     if kind = Some ''namespace'' then
       and_then (ok_or invalid_request (namespace_of_choice tool)) (\<lambda>namespace.
       case Option.bind (obj_get tool ''tools'') as_array of
         None \<Rightarrow> Inr tools
       | Some children \<Rightarrow> try_fold (gemini_tool_child env namespace) tools children)
     else if kind \<in> {Some ''function'', Some ''custom'', None} \<and> obj_get tool ''name'' \<noteq> None
     then translate_gemini_tool env None tools tool
     else Inr tools)"

definition gemini_translate_tools :: "adapter_env \<Rightarrow> Value list \<Rightarrow> TranslatedTools adapter_result" where
  "gemini_translate_tools env tools =
     try_fold (gemini_tool env) \<lparr>tt_upstream = [], tt_client_tools = bt_empty\<rparr> tools"

subsection \<open>Tool choice\<close>

definition gemini_selected_tool_name :: "MessagesBridgeState \<Rightarrow> object \<Rightarrow> string option" where
  "gemini_selected_tool_name state tool =
     (case from_definition tool of
        Inl _ \<Rightarrow> None
      | Inr kind \<Rightarrow>
          Option.bind (non_blank (get_str tool ''name'')) (\<lambda>name.
          Option.bind (upstream_tool_name state (non_blank (get_str tool ''namespace'')) name) (\<lambda>upstream_name.
          if client_tool_kind state upstream_name = Some kind then Some upstream_name else None)))"

definition calling_config :: "(string \<times> Value) list \<Rightarrow> Value" where
  "calling_config entries = json [(''functionCallingConfig'', json entries)]"

definition gemini_allowed_names :: "MessagesBridgeState \<Rightarrow> Value \<Rightarrow> string fset" where
  "gemini_allowed_names state tool =
     (case as_object tool of
        None \<Rightarrow> {||}
      | Some tool \<Rightarrow>
          if get_str tool ''type'' = Some ''namespace''
          then (case namespace_of_choice tool of None \<Rightarrow> {||} | Some namespace \<Rightarrow> namespace_tool_names state namespace)
          else (case gemini_selected_tool_name state tool of None \<Rightarrow> {||} | Some name \<Rightarrow> {|name|}))"

definition gemini_allowed_tools :: "MessagesBridgeState \<Rightarrow> object \<Rightarrow> TranslatedToolChoice adapter_result" where
  "gemini_allowed_tools state object =
     (let configured = or_else ''auto'' (get_str object ''mode'');
          mode = (if configured = ''required'' then ''ANY'' else if configured = ''none'' then ''NONE'' else ''AUTO'')
      in and_then (case obj_get object ''tools'' of
             None \<Rightarrow> Inr {||}
           | Some tools \<Rightarrow> and_then (ok_or invalid_request (as_array tools)) (\<lambda>tools.
               Inr (foldl (\<lambda>names tool. names |\<union>| gemini_allowed_names state tool) {||} tools))) (\<lambda>allowed.
         Inr \<lparr>tc_value = Some (calling_config [(''mode'', String mode),
               (''allowedFunctionNames'', Array (map String (sorted_list_of_fset allowed)))]),
            tc_allowed_names = (if allowed = {||} then None else Some allowed)\<rparr>))"

definition gemini_tool_choice :: "Value \<Rightarrow> MessagesBridgeState \<Rightarrow> TranslatedToolChoice adapter_result" where
  "gemini_tool_choice choice state =
     (case (case as_str choice of Some mode \<Rightarrow> Some mode | None \<Rightarrow> value_str choice ''mode'') of
        Some mode \<Rightarrow>
          let mode = to_ascii_lowercase mode;
              mode = (if mode = ''none'' then ''NONE'' else if mode = ''required'' then ''ANY'' else ''AUTO'')
          in Inr \<lparr>tc_value = Some (calling_config [(''mode'', String mode)]), tc_allowed_names = None\<rparr>
      | None \<Rightarrow>
          and_then (ok_or invalid_request (as_object choice)) (\<lambda>object.
          if get_str object ''type'' = Some ''allowed_tools'' then gemini_allowed_tools state object
          else and_then (ok_or invalid_request (gemini_selected_tool_name state object)) (\<lambda>upstream_name.
            Inr \<lparr>tc_value = Some (calling_config [(''mode'', String ''ANY''), (''allowedFunctionNames'', Array [String upstream_name])]),
               tc_allowed_names = Some {|upstream_name|}\<rparr>)))"

subsection \<open>Generation settings\<close>

fun is_number :: "Value \<Rightarrow> bool" where
  "is_number (Number _) = True"
| "is_number _ = False"

definition copy_number :: "object \<Rightarrow> object \<Rightarrow> string \<times> string \<Rightarrow> object adapter_result" where
  "copy_number input generation names =
     (case names of (source, target) \<Rightarrow>
        (case obj_get input source of
           None \<Rightarrow> Inr generation
         | Some v \<Rightarrow> if is_number v then Inr (obj_insert target v generation) else Inl invalid_request))"

definition copied_numbers :: "(string \<times> string) list" where
  "copied_numbers = [(''temperature'', ''temperature''), (''top_p'', ''topP''), (''top_k'', ''topK''),
     (''presence_penalty'', ''presencePenalty''), (''frequency_penalty'', ''frequencyPenalty''), (''seed'', ''seed''),
     (''max_output_tokens'', ''maxOutputTokens'')]"

definition stop_sequences :: "Value \<Rightarrow> Value list adapter_result" where
  "stop_sequences v =
     (case v of
        String s \<Rightarrow> if s \<noteq> [] then Inr [String s] else Inl invalid_request
      | Array vs \<Rightarrow> if list_all (\<lambda>v. case as_str v of None \<Rightarrow> False | Some s \<Rightarrow> s \<noteq> []) vs then Inr vs else Inl invalid_request
      | _ \<Rightarrow> Inl invalid_request)"

definition apply_response_format :: "object \<Rightarrow> object \<Rightarrow> object adapter_result" where
  "apply_response_format object generation =
     (case or_value (Option.bind (obj_get object ''text'') (\<lambda>v. value_get v ''format'')) (obj_get object ''response_format'') of
        None \<Rightarrow> Inr generation
      | Some format \<Rightarrow>
          let kind = or_else ''text'' (value_str format ''type'') in
          if kind = ''json_object'' then Inr (obj_insert ''responseMimeType'' (String ''application/json'') generation)
          else if kind = ''json_schema'' then
            and_then (ok_or invalid_request (or_value (value_get format ''schema'')
              (Option.bind (value_get format ''json_schema'') (\<lambda>v. value_get v ''schema'')))) (\<lambda>schema.
            Inr (obj_insert ''responseSchema'' (sanitize_gemini_schema schema)
              (obj_insert ''responseMimeType'' (String ''application/json'') generation)))
          else if kind = ''text'' then Inr generation
          else Inl unsupported_binding)"

definition gemini_reasoning :: "Value option \<Rightarrow> MessagesReasoningMode \<Rightarrow> object \<Rightarrow> object adapter_result" where
  "gemini_reasoning reasoning mode generation =
     (case filter_option (\<lambda>effort. effort \<noteq> ''none'') (map_option to_ascii_lowercase
          (Option.bind reasoning (\<lambda>reasoning. value_str reasoning ''effort''))) of
        None \<Rightarrow> Inr generation
      | Some effort \<Rightarrow>
          if mode = ReasoningDisabled then Inl reasoning_unsupported
          else and_then (ok_or reasoning_unsupported (budget_tokens_of effort)) (\<lambda>budget.
            let config = obj_of [(''includeThoughts'', Bool True)];
                config = (if mode = ReasoningBudget then obj_insert ''thinkingBudget'' (value_u64 budget) config else config)
            in Inr (obj_insert ''thinkingConfig'' (Object config) generation)))"

definition generation_config :: "object \<Rightarrow> MessagesReasoningMode \<Rightarrow> object adapter_result" where
  "generation_config object reasoning_mode =
     and_then (try_fold (copy_number object) [] copied_numbers) (\<lambda>generation.
     and_then (case obj_get object ''stop'' of
         None \<Rightarrow> Inr generation
       | Some stop \<Rightarrow> and_then (stop_sequences stop) (\<lambda>stops. Inr (obj_insert ''stopSequences'' (Array stops) generation))) (\<lambda>generation.
     and_then (apply_response_format object generation) (\<lambda>generation.
     gemini_reasoning (obj_get object ''reasoning'') reasoning_mode generation)))"

subsection \<open>The request\<close>

definition gemini_instructions :: "adapter_env \<Rightarrow> object \<Rightarrow> string option \<Rightarrow> MessagesBridgeState \<Rightarrow> MessagesBridgeState adapter_result" where
  "gemini_instructions env object previous_response_id state =
     (case (previous_response_id, obj_get object ''instructions'') of
        (None, Some instructions) \<Rightarrow> and_then (content_parts env instructions) (\<lambda>parts. append_system_parts parts state)
      | (Some _, Some _) \<Rightarrow> Inl continuation_mismatch
      | (_, None) \<Rightarrow> Inr state)"

definition gemini_tools :: "adapter_env \<Rightarrow> object \<Rightarrow> MessagesBridgeState \<Rightarrow> MessagesBridgeState adapter_result" where
  "gemini_tools env object state =
     and_then (request_tool_catalog object) (\<lambda>catalog.
     and_then (case catalog of
         None \<Rightarrow> Inr state
       | Some tools \<Rightarrow> and_then (gemini_translate_tools env tools) (\<lambda>translated.
           Inr (state\<lparr>mb_tools := (if tt_upstream translated = [] then None else Some (tt_upstream translated)),
             mb_tool_targets := tt_client_tools translated, mb_tool_choice := None, mb_tool_allow_list := None\<rparr>)))
       (\<lambda>state. case obj_get object ''tool_choice'' of
           None \<Rightarrow> Inr state
         | Some choice \<Rightarrow> and_then (gemini_tool_choice choice state) (\<lambda>translated.
             Inr (state\<lparr>mb_tool_choice := tc_value translated, mb_tool_allow_list := tc_allowed_names translated\<rparr>))))"

definition gemini_body :: "MessagesBridgeState \<Rightarrow> object \<Rightarrow> object" where
  "gemini_body state generation =
     (let body = obj_of [(''contents'', Array (mb_messages state))];
          body = (case mb_system state of None \<Rightarrow> body | Some system \<Rightarrow> obj_insert ''systemInstruction'' system body);
          body = (case upstream_tools state of None \<Rightarrow> body
            | Some tools \<Rightarrow> obj_insert ''tools'' (Array [json [(''functionDeclarations'', Array tools)]]) body);
          body = (case mb_tool_choice state of None \<Rightarrow> body | Some config \<Rightarrow> obj_insert ''toolConfig'' config body)
      in if generation = [] then body else obj_insert ''generationConfig'' (Object generation) body)"

definition gemini_response_id :: "string \<Rightarrow> string \<Rightarrow> string adapter_result" where
  "gemini_response_id response_scope response_id_seed =
     (let seed = filter is_ascii_alphanumeric response_id_seed; route = take 32 (filter is_ascii_alphanumeric response_scope)
      in if seed = [] then Inl invalid_request
         else if route = [] then Inr (''gemini_bridge_'' @ seed)
         else Inr (''gemini_bridge_'' @ route @ ''_'' @ seed))"

definition is_present :: "object \<Rightarrow> string \<Rightarrow> bool" where
  "is_present object key \<longleftrightarrow> (case obj_get object key of None \<Rightarrow> False | Some v \<Rightarrow> v \<noteq> Null)"

definition prepare_responses_to_gemini ::
  "adapter_env \<Rightarrow> Value \<Rightarrow> string \<Rightarrow> MessagesReasoningMode \<Rightarrow> MessagesBridgeState option \<Rightarrow> string \<Rightarrow> string
     \<Rightarrow> GeminiBridgeRequest adapter_result" where
  "prepare_responses_to_gemini env request model reasoning_mode previous response_scope response_id_seed =
     and_then (ok_or invalid_request (as_object request)) (\<lambda>object.
     if is_present object ''background'' \<or> is_present object ''include'' then Inl unsupported_binding
     else
       let previous_response_id = non_blank (get_str object ''previous_response_id'') in
       and_then (initial_state model reasoning_mode previous_response_id previous) (\<lambda>state.
       and_then (gemini_instructions env object previous_response_id state) (\<lambda>state.
       and_then (gemini_tools env object state) (\<lambda>state.
       and_then (ok_or invalid_request (obj_get object ''input'')) (\<lambda>input.
       and_then (gemini_responses_input env state input) (\<lambda>state.
       if mb_messages state = [] then Inl invalid_request
       else
         and_then (generation_config object reasoning_mode) (\<lambda>generation.
         and_then (gemini_response_id response_scope response_id_seed) (\<lambda>response_id.
         Inr \<lparr>gq_upstream_body = Object (gemini_body state generation), gq_model = model,
           gq_response_id = response_id, gq_state = state\<rparr>))))))))"

end
