(* ===== verification/Gemini_Correct.thy ===== *)
theory Gemini_Correct
  imports Gemini_Stream_Correct Gemini_Request
begin

section \<open>What the Gemini adapter does with tools\<close>

text \<open>
  What the reduction of a schema leaves; that a restriction to some tools is dropped when it names a
  mode; and that a streamed call of a tool can take over an earlier call of the same tool.
\<close>

subsection \<open>Schemas\<close>

fun reduced :: "Value \<Rightarrow> bool" and reduced_properties :: "Value \<Rightarrow> bool" where
  "reduced (Object m) \<longleftrightarrow> (\<forall>e \<in> set m. fst e \<in> set SUPPORTED_FIELDS
     \<and> (if fst e = ''properties'' then reduced_properties (snd e) else fst e = ''items'' \<longrightarrow> reduced (snd e)))"
| "reduced _ \<longleftrightarrow> True"
| "reduced_properties (Object m) \<longleftrightarrow> (\<forall>e \<in> set m. reduced (snd e))"
| "reduced_properties _ \<longleftrightarrow> True"

lemma set_ins_entry: "set (ins_entry k v es) \<subseteq> insert (k, v) (set es)"
  by (induction es) auto

lemma set_obj_of: "set (obj_of es) \<subseteq> set es"
proof (induction es rule: rev_induct)
  case (snoc e es)
  then show ?case using set_ins_entry [of "fst e" "snd e" "obj_of es"] by (auto simp: obj_of_snoc obj_insert_def)
qed (simp add: obj_of_def)

lemma set_supported_entries:
  assumes "e \<in> set (supported_entries m)"
  shows "fst e \<in> set SUPPORTED_FIELDS" "e \<in> set m"
proof -
  have "e \<in> set (List.map_filter (\<lambda>field. map_option (Pair field) (obj_get m field)) SUPPORTED_FIELDS)"
    using assms set_obj_of unfolding supported_entries_def by blast
  then show "fst e \<in> set SUPPORTED_FIELDS" "e \<in> set m"
    by (auto simp: List.map_filter_def obj_get_def map_of_SomeD)
qed

lemma sanitize_reduced: "reduced (sanitize_gemini_schema v)" "reduced_properties (sanitize_properties v)"
proof (induction v and v rule: sanitize_gemini_schema_sanitize_properties.induct)
  case (1 m)
  show ?case unfolding sanitize_gemini_schema.simps reduced.simps
  proof
    fix e
    assume e: "e \<in> set (supported_entries (map (\<lambda>e. (fst e, if fst e = ''properties'' then sanitize_properties (snd e)
      else if fst e = ''items'' then sanitize_gemini_schema (snd e) else snd e)) m))"
    show "fst e \<in> set SUPPORTED_FIELDS \<and> (if fst e = ''properties'' then reduced_properties (snd e) else fst e = ''items'' \<longrightarrow> reduced (snd e))"
      using set_supported_entries [OF e] 1 by auto
  qed
next
  case (3 m)
  show ?case using 3 set_obj_of [of "map (\<lambda>e. (fst e, sanitize_gemini_schema (snd e))) m"] by auto
qed simp_all

subsection \<open>Restrictions\<close>

text \<open>The input of a request changes neither its tools nor the choice among them.\<close>

definition same_choice :: "MessagesBridgeState \<Rightarrow> MessagesBridgeState \<Rightarrow> bool" where
  "same_choice s t \<longleftrightarrow> mb_tools t = mb_tools s \<and> mb_tool_choice t = mb_tool_choice s \<and> mb_tool_allow_list t = mb_tool_allow_list s"

lemma same_choice_refl [simp]: "same_choice s s"
  by (simp add: same_choice_def)

lemma same_choice_message [simp]: "same_choice s (append_message role parts s)"
  by (simp add: same_choice_def append_message_def push_message_def)

lemma same_choice_system: "append_system_parts parts s = Inr t \<Longrightarrow> same_choice s t"
  by (auto simp: same_choice_def append_system_parts_def split: if_splits option.splits Value.splits)

lemma same_choice_item: "gemini_input_item env s v = Inr t \<Longrightarrow> same_choice s t"
  by (auto simp: gemini_input_item_def gemini_output_item_def gemini_call_input_def gemini_message_item_def and_then_Inr Let_def
      same_choice_system split: if_splits)

lemma same_choice_input:
  assumes "gemini_responses_input env s v = Inr t"
  shows "same_choice s t"
proof (cases v)
  case (Array items)
  show ?thesis
  proof (rule try_fold_invariant [of "gemini_input_item env" s items t "same_choice s"])
    show "same_choice s u'" if "same_choice s u" "gemini_input_item env u x = Inr u'" for u x u'
      using that(1) same_choice_item [OF that(2)] by (simp add: same_choice_def)
  qed (use assms Array in simp_all)
qed (use assms in auto)

text \<open>The modes a choice can name, as the upstream writes them.\<close>

definition calling_mode :: "string \<Rightarrow> string" where
  "calling_mode mode = (if to_ascii_lowercase mode = ''none'' then ''NONE''
     else if to_ascii_lowercase mode = ''required'' then ''ANY'' else ''AUTO'')"

lemma prepared_with_mode:
  assumes p: "prepare_responses_to_gemini env (Object m) model reasoning previous scope seed = Inr request"
    and c: "obj_get m ''tool_choice'' = Some (Object c)" "get_str c ''mode'' = Some mode"
  shows "mb_tool_allow_list (gq_state request) = None
    \<and> mb_tool_choice (gq_state request) = Some (calling_config [(''mode'', String (calling_mode mode))])
    \<and> (\<exists>generation. gq_upstream_body request = Object (gemini_body (gq_state request) generation))"
proof -
  obtain s s1 s2 input generation where t: "gemini_tools env m s = Inr s1" and i: "gemini_responses_input env s1 input = Inr s2"
    and r: "gq_state request = s2" "gq_upstream_body request = Object (gemini_body s2 generation)"
    using p by (auto simp: prepare_responses_to_gemini_def and_then_Inr Let_def split: if_splits)
  have "gemini_tool_choice (Object c) u = Inr \<lparr>tc_value = Some (calling_config [(''mode'', String (calling_mode mode))]), tc_allowed_names = None\<rparr>" for u
    using c(2) by (simp add: gemini_tool_choice_def value_str_def get_str_def calling_mode_def Let_def)
  then have "mb_tool_allow_list s1 = None \<and> mb_tool_choice s1 = Some (calling_config [(''mode'', String (calling_mode mode))])"
    using t c(1) by (auto simp: gemini_tools_def and_then_Inr)
  then show ?thesis using same_choice_input [OF i] r by (auto simp: same_choice_def)
qed

text \<open>
  C39 (error). A choice that restricts the model to a list of tools and names a mode loses the
  restriction on a Gemini route. Whatever the list and the mode, a request that is accepted is sent with
  the mode alone, all tools of the conversation are declared, and every one of them may be called in
  the answer. The same choice without a mode is sent with the tools of the list that are offered, and
  only these may be called when there is one; and on a Messages route the choice restricts the model to
  the offered tools of the list, if there is one, also when the mode is auto or required.
\<close>

theorem gemini_restriction_dropped:
  assumes "prepare_responses_to_gemini env (Object m) model reasoning previous scope seed = Inr request"
    and "obj_get m ''tool_choice'' = Some (Object c)" "get_str c ''type'' = Some ''allowed_tools''"
    and "obj_get c ''tools'' = Some (Array tools)" "get_str c ''mode'' = Some mode"
  shows "value_get (gq_upstream_body request) ''toolConfig'' = Some (calling_config [(''mode'', String (calling_mode mode))])
    \<and> (\<forall>all. mb_tools (gq_state request) = Some all \<and> all \<noteq> [] \<longrightarrow>
        value_get (gq_upstream_body request) ''tools'' = Some (Array [json [(''functionDeclarations'', Array all)]])
        \<and> (\<forall>tool \<in> set all. \<forall>name. value_str tool ''name'' = Some name \<longrightarrow> allows_tool_name (gq_state request) name))
    \<and> (\<forall>state. let allowed = foldl (\<lambda>names tool. names |\<union>| gemini_allowed_names state tool) {||} tools in
        gemini_tool_choice (Object (obj_remove ''mode'' c)) state = Inr \<lparr>tc_value = Some (calling_config [(''mode'', String ''AUTO''),
            (''allowedFunctionNames'', Array (map String (sorted_list_of_fset allowed)))]),
          tc_allowed_names = (if allowed = {||} then None else Some allowed)\<rparr>)
    \<and> (\<forall>state. let allowed = foldl (\<lambda>names tool. names |\<union>| allowed_tool_names state tool) {||} tools in
        allowed \<noteq> {||} \<and> mode \<in> {''auto'', ''required''} \<longrightarrow>
        translate_tool_choice (Object c) state = Inr \<lparr>tc_value = Some (choice_type (if mode = ''auto'' then ''auto'' else ''any'')),
          tc_allowed_names = Some allowed\<rparr>)"
proof -
  note r = prepared_with_mode [OF assms(1,2,5)]
  have config: "value_get (gq_upstream_body request) ''toolConfig'' = Some (calling_config [(''mode'', String (calling_mode mode))])"
    using r by (auto simp: gemini_body_def Let_def split: option.split)
  have offered: "value_get (gq_upstream_body request) ''tools'' = Some (Array [json [(''functionDeclarations'', Array all)]])
      \<and> (\<forall>tool \<in> set all. \<forall>name. value_str tool ''name'' = Some name \<longrightarrow> allows_tool_name (gq_state request) name)"
    if "mb_tools (gq_state request) = Some all \<and> all \<noteq> []" for all
  proof -
    have "upstream_tools (gq_state request) = Some all" using that r by (simp add: upstream_tools_def)
    then show ?thesis using r by (auto simp: gemini_body_def allows_tool_name_def list_ex_iff Let_def split: option.split)
  qed
  have restricted: "gemini_tool_choice (Object (obj_remove ''mode'' c)) state = gemini_allowed_tools state (obj_remove ''mode'' c)" for state
    using assms(3) by (simp add: gemini_tool_choice_def value_str_def get_str_def)
  show ?thesis
  proof (intro conjI, goal_cases)
    case 3
    show ?case using assms(4) unfolding restricted by (simp add: gemini_allowed_tools_def get_str_def or_else_def Let_def)
  next
    case 4
    show ?case using assms(3-5) by (simp add: translate_tool_choice_def allowed_tools_choice_def Let_def)
  qed (use config offered in blast)+
qed

definition wit_run_tool :: ClientToolTarget where
  "wit_run_tool = \<lparr>ct_kind = FunctionTool, ct_name = ''run'', ct_namespace = None\<rparr>"

definition wit_run_state :: MessagesBridgeState where
  "wit_run_state = (bridge_state_new ''m'' ReasoningDisabled)\<lparr>mb_tools := Some [json [(''name'', String ''run'')]],
     mb_tool_targets := bt_insert ''run'' wit_run_tool bt_empty\<rparr>"

definition wit_choice :: object where
  "wit_choice = obj_of [(''type'', String ''allowed_tools''), (''mode'', String ''required''),
     (''tools'', Array [json [(''type'', String ''function''), (''name'', String ''read'')]])]"

definition wit_choice_body :: object where
  "wit_choice_body = obj_of [(''input'', String ''hi''), (''tool_choice'', Object wit_choice),
     (''tools'', Array [json [(''type'', String ''function''), (''name'', String ''run'')],
        json [(''type'', String ''function''), (''name'', String ''read'')]])]"

theorem gemini_restriction_dropped_witness:
  "\<exists>request. prepare_responses_to_gemini wit_env (Object wit_choice_body) ''m'' ReasoningDisabled None [] ''1'' = Inr request
     \<and> value_get (gq_upstream_body request) ''toolConfig'' = Some (calling_config [(''mode'', String ''ANY'')])
     \<and> allows_tool_name (gq_state request) ''run'' \<and> allows_tool_name (gq_state request) ''read''"
proof -
  let ?p = "prepare_responses_to_gemini wit_env (Object wit_choice_body) ''m'' ReasoningDisabled None [] ''1''"
  have "case ?p of Inl _ \<Rightarrow> False | Inr request \<Rightarrow> (case mb_tools (gq_state request) of None \<Rightarrow> False
      | Some all \<Rightarrow> map (\<lambda>tool. value_str tool ''name'') all = [Some ''run'', Some ''read''])" by code_simp
  then obtain request all where p: "?p = Inr request" and all: "mb_tools (gq_state request) = Some all"
    and names: "map (\<lambda>tool. value_str tool ''name'') all = [Some ''run'', Some ''read'']"
    by (auto split: sum.splits option.splits)
  have c: "obj_get wit_choice_body ''tool_choice'' = Some (Object wit_choice)" "get_str wit_choice ''type'' = Some ''allowed_tools''"
    "obj_get wit_choice ''tools'' = Some (Array [json [(''type'', String ''function''), (''name'', String ''read'')]])"
    "get_str wit_choice ''mode'' = Some ''required''" "calling_mode ''required'' = ''ANY''" by code_simp+
  have "all \<noteq> []" "\<exists>tool \<in> set all. value_str tool ''name'' = Some ''run''" "\<exists>tool \<in> set all. value_str tool ''name'' = Some ''read''"
    using names by (auto simp: map_eq_Cons_conv)
  then show ?thesis using gemini_restriction_dropped [OF p c(1-4)] p all unfolding c(5) by blast
qed

subsection \<open>Calls of the same tool\<close>

lemma find_call_None: "(\<And>k c. bt_get (gs_calls st) k = Some c \<Longrightarrow> \<not> P k c) \<Longrightarrow> find_call P st = None"
  by (auto simp: find_call_def find_None_iff bt_entries_iff)

lemma find_call_at:
  assumes "bt_get (gs_calls st) i = Some c" "P c"
  shows "find_call (\<lambda>k c. P c \<and> k = i) st = Some i"
proof -
  let ?Q = "\<lambda>(k, c). P c \<and> k = i"
  have "find ?Q (bt_entries (gs_calls st)) \<noteq> None"
    using assms bt_entries_iff [of i c "gs_calls st"] by (auto simp: find_None_iff)
  then obtain k d where f: "find ?Q (bt_entries (gs_calls st)) = Some (k, d)" by auto
  then have "?Q (k, d)" unfolding find_Some_iff by metis
  then show ?thesis using f by (simp add: find_call_def)
qed

lemma emit_calls:
  "dom (bt_get (gs_calls (emit_call_arguments_delta env k st))) = dom (bt_get (gs_calls st))"
  "bt_get (gs_calls st) j = Some c \<Longrightarrow> \<exists>d. bt_get (gs_calls (emit_call_arguments_delta env k st)) j = Some d
     \<and> gc_id d = gc_id c \<and> gc_args d = gc_args c"
  by (auto simp: emit_call_arguments_delta_def gs_fail_def gs_frame_def Let_def split: option.splits if_splits)

text \<open>
  C40 (error). A streamed function call with an identifier that no earlier call has is not a new call when
  it comes at the position of an earlier call of the same tool: no call is added, and the earlier
  call keeps its identifier but gets the arguments of the new one. When two calls of one tool come
  in two chunks, the client sees one call.
\<close>

theorem gemini_call_taken_over:
  assumes "bt_get (gs_calls st) i = Some c" "client_tool (gq_state (gs_request st)) (gc_name c) = Some target"
    and "non_blank (get_str call ''name'') = Some (gc_name c)" "non_blank (get_str call ''id'') = Some new_id"
    and "\<forall>k d. bt_get (gs_calls st) k = Some d \<longrightarrow> gc_id d \<noteq> new_id"
    and "obj_get call ''args'' = Some (Object args)" "obj_get call ''partialArgs'' = None"
  shows "\<exists>st' c'. handle_function_call env max_len i part call st = Some st'
    \<and> dom (bt_get (gs_calls st')) = dom (bt_get (gs_calls st))
    \<and> bt_get (gs_calls st') i = Some c' \<and> gc_id c' = gc_id c \<and> gc_args c' = Object args"
proof -
  have unknown: "find_call (\<lambda>_ d. gc_id d = new_id) st = None" using assms(5) by (intro find_call_None) auto
  have key: "call_key i (Some (gc_name c)) (Some new_id) st = Some i"
    using find_call_at [OF assms(1), of "\<lambda>d. gc_name d = gc_name c"] by (simp add: call_key_def unknown)
  let ?st = "gs_update_call env i part (Object args) c st"
  have handle: "handle_function_call env max_len i part call st = Some (gs_set_active call i ?st)"
    using assms by (simp add: handle_function_call_def key or_value_def gs_continued_args_def is_object_def)
  obtain c1 where c1: "gc_id c1 = gc_id c" "gc_args c1 = Object args"
    and u: "?st = (let st = st\<lparr>gs_calls := bt_insert i c1 (gs_calls st)\<rparr> in if gc_kind c1 = FunctionTool then emit_call_arguments_delta env i st else st)"
  proof (rule that)
    let ?c = "case get_str part ''thoughtSignature'' of None \<Rightarrow> c\<lparr>gc_args := Object args\<rparr>
      | Some s \<Rightarrow> c\<lparr>gc_args := Object args, gc_thought_signature := Some s\<rparr>"
    show "gc_id ?c = gc_id c" "gc_args ?c = Object args" by (simp_all split: option.split)
    show "?st = (let st = st\<lparr>gs_calls := bt_insert i ?c (gs_calls st)\<rparr> in if gc_kind ?c = FunctionTool then emit_call_arguments_delta env i st else st)"
      by (simp add: gs_update_call_def Let_def split: option.split)
  qed
  have "dom (bt_get (bt_insert i c1 (gs_calls st))) = dom (bt_get (gs_calls st))" using assms(1) by (auto simp: dom_def)
  then have dom: "dom (bt_get (gs_calls ?st)) = dom (bt_get (gs_calls st))" unfolding u Let_def by (simp add: emit_calls(1))
  have "\<exists>c'. bt_get (gs_calls ?st) i = Some c' \<and> gc_id c' = gc_id c \<and> gc_args c' = Object args"
    unfolding u Let_def using c1 emit_calls(2) [of "st\<lparr>gs_calls := bt_insert i c1 (gs_calls st)\<rparr>" i c1] by auto
  moreover have "gs_calls (gs_set_active call i ?st) = gs_calls ?st" by (simp add: gs_set_active_def)
  ultimately show ?thesis using handle dom by auto
qed

definition wit_call :: "string \<Rightarrow> string \<Rightarrow> object" where
  "wit_call call_id arg = obj_of [(''name'', String ''run''), (''id'', String call_id), (''args'', json [(''command'', String arg)])]"

definition wit_first_call :: GeminiStreamBridge where
  "wit_first_call = the (handle_function_call wit_env 10 0 [] (wit_call ''c1'' ''ls'')
     (gemini_bridge_new (wit_gemini_request\<lparr>gq_state := wit_run_state\<rparr>)))"

lemma wit_first_calls: "bt_entries (gs_calls wit_first_call) = [(0, \<lparr>gc_id = ''c1'', gc_item_id = ''c1'', gc_name = ''run'', gc_kind = FunctionTool,
    gc_args = json [(''command'', String ''ls'')], gc_output_index = 0, gc_thought_signature = None, gc_emitted_arguments = ''{}''\<rparr>)]"
  "client_tool (gq_state (gs_request wit_first_call)) ''run'' = Some wit_run_tool"
  by code_simp+

theorem gemini_call_taken_over_witness:
  "\<exists>st' c'. handle_function_call wit_env 10 0 [] (wit_call ''c2'' ''rm'') wit_first_call = Some st'
     \<and> dom (bt_get (gs_calls st')) = {0} \<and> bt_get (gs_calls st') 0 = Some c' \<and> gc_id c' = ''c1''
     \<and> gc_args c' = json [(''command'', String ''rm'')]"
proof -
  let ?c = "\<lparr>gc_id = ''c1'', gc_item_id = ''c1'', gc_name = ''run'', gc_kind = FunctionTool,
    gc_args = json [(''command'', String ''ls'')], gc_output_index = 0, gc_thought_signature = None, gc_emitted_arguments = ''{}''\<rparr>"
  have get: "bt_get (gs_calls wit_first_call) k = Some d \<longleftrightarrow> k = 0 \<and> d = ?c" for k d
    unfolding bt_entries_iff [symmetric] wit_first_calls by auto
  have dom: "dom (bt_get (gs_calls wit_first_call)) = {0}" using get by auto
  have tool: "client_tool (gq_state (gs_request wit_first_call)) (gc_name ?c) = Some wit_run_tool"
    using wit_first_calls(2) by simp
  have call: "non_blank (get_str (wit_call ''c2'' ''rm'') ''name'') = Some (gc_name ?c)"
    "non_blank (get_str (wit_call ''c2'' ''rm'') ''id'') = Some ''c2''"
    "obj_get (wit_call ''c2'' ''rm'') ''args'' = Some (Object (obj_of [(''command'', String ''rm'')]))"
    "obj_get (wit_call ''c2'' ''rm'') ''partialArgs'' = None" by code_simp+
  have first: "bt_get (gs_calls wit_first_call) 0 = Some ?c" using get by simp
  have new: "\<forall>k d. bt_get (gs_calls wit_first_call) k = Some d \<longrightarrow> gc_id d \<noteq> ''c2''" using get by auto
  show ?thesis
    using gemini_call_taken_over [OF first tool call(1,2) new call(3,4), of wit_env 10 "[]"] dom by (simp add: json_def)
qed

end
