(* ===== verification/Spec2Isabelle.thy ===== *)
theory Spec2Isabelle
  imports Pool_Properties State_Properties Quota_Queue Wake_Correct Turn_State Bridge_Store
    Failure_Cooldown Usage_Estimate Catalog_Loader Token_Authority
    Passive_Quota Messages_Correct Messages_Assembly Gemini_Correct
begin

text \<open>
  This development verifies the core of Zenith Relay, a gateway that spreads requests for language
  models over a pool of API sources and OAuth accounts. All modelled code is the Rust crate
  \<open>src/crates/relay-core/src/\<close>; paths below are relative to it.

  \<^bold>\<open>The program.\<close> A request enters the gateway with a model name, a client key and possibly an
  affinity key. The \<^emph>\<open>pool scheduler\<close> (\<open>scheduler/\<close>) decides which candidate serves it; the
  \<^emph>\<open>runtime\<close> (\<open>runtime/selection.rs\<close>, \<open>runtime.rs\<close>) takes a lease on that candidate under the
  scheduler lock and returns it when the request ends. Failures are classified (\<open>gateway/errors.rs\<close>,
  \<open>gateway/errors/failure.rs\<close>) and feed back as cooldowns (\<open>gateway/errors/cooldown.rs\<close>), health and
  affinity. \<^emph>\<open>Quota\<close> observations (\<open>quota/windows.rs\<close>, \<open>quota/refresh.rs\<close>) are normalised into
  account state (\<open>accounts/\<close>), refreshed on a schedule (\<open>quota/queue.rs\<close>), and a full window wakes
  its account (\<open>automations/quota_wake.rs\<close>). \<^emph>\<open>Prices\<close> (\<open>pricing/\<close>) come from a document that is
  cached and refreshed, and estimate what the measured usage would have cost (\<open>usage/\<close>). A
  \<^emph>\<open>protocol adapter\<close> (\<open>protocol/adapter/\<close>) lets a client that speaks Responses use a source that
  speaks Messages or Gemini: it translates each request, and each answer, whether it comes as one document or as
  a stream of events, and keeps the conversation between turns.

  \<^bold>\<open>Theories.\<close>
  \<^item> \<open>Prelude\<close>, \<open>Rust_Strings\<close>, \<open>Ordered_Maps\<close>: what the code uses of the standard library.
    Machine integers are words with the saturating operations written out; a string is the list of
    its UTF-8 bytes; \<open>BTreeMap\<close> (and \<open>HashMap\<close> where the iteration order cannot be observed) is a
    sorted association list behind a type definition; \<open>max_by\<close>, \<open>min_by\<close> and \<open>then_with\<close> follow
    \<open>Iterator\<close> and \<open>Ordering\<close>. The locales are \<open>keyed_comparison\<close> (a comparator given by a key) and
    \<open>step_invariant\<close> (an invariant of a step relation).
  \<^item> \<open>Model_Rules\<close>: \<open>catalog/rules.rs\<close> and the code filters of \<open>error.rs\<close>.
  \<^item> \<open>Affinity\<close>: \<open>scheduler/affinity.rs\<close>, with its abstraction \<open>owner_at\<close> (who owns a key at a
    time). \<open>Activity\<close>: \<open>scheduler/activity.rs\<close>.
  \<^item> \<open>Quota_Windows\<close>, \<open>Quota_Refresh\<close>, \<open>Accounts\<close>: \<open>quota/windows.rs\<close> (percentages as
    bit-exact doubles), \<open>quota/refresh.rs\<close>, \<open>accounts/record.rs\<close>, \<open>accounts/quota_state.rs\<close>.
    \<open>Passive_Quota\<close>: \<open>providers/chatgpt/passive_quota.rs\<close>, quota reported in response headers.
  \<^item> \<open>Candidate\<close>, \<open>Scheduler\<close>, \<open>Routing_Policy\<close>, \<open>Selection\<close>, \<open>Leases\<close>: the pool scheduler
    (\<open>scheduler/candidate.rs\<close>, \<open>capacity.rs\<close>, \<open>cooldown.rs\<close>, \<open>selection.rs\<close>,
    \<open>selection/routing_policy.rs\<close>, \<open>selection/snapshot.rs\<close>), its state the record
    \<open>PoolScheduler\<close> with the fields of the struct, one definition per method.
  \<^item> \<open>Scheduler_Invariant\<close>: every method as a step \<open>pool_step\<close> and the invariant \<open>pool_wf\<close>.
    \<open>Runtime_Selection\<close>: \<open>runtime/selection.rs\<close> and the affinity part of
    \<open>runtime/session_state.rs\<close>. \<open>Lease_System\<close>: the scheduler together with the multiset of
    outstanding leases, \<open>gateway_step\<close>, and \<open>reachable\<close>. \<open>Selection_Correct\<close>, \<open>Samples\<close>,
    \<open>Pool_Properties\<close>: what selection guarantees, concrete pools, and the properties of probes,
    cooldowns and ranking. \<open>State_Properties\<close>: affinity ownership, quota and account state.
  \<^item> \<open>Quota_Queue\<close>: \<open>quota/queue.rs\<close>, the binary heap as a sorted list with lazily discarded
    entries. \<open>Wake_Policy\<close>, \<open>Quota_Wake\<close>, \<open>Wake_Invariant\<close>, \<open>Wake_Correct\<close>:
    \<open>automations/quota_wake/policy.rs\<close> and \<open>automations/quota_wake.rs\<close>, a restart being a step.
  \<^item> \<open>Token_Authority\<close>: \<open>accounts/token_authority.rs\<close>, each operation together with the durable store
    it writes to; a call to the provider or to the store may answer, fail or be cut off.
    \<open>Model_Order\<close>: \<open>catalog/order.rs\<close>, with the locale \<open>exact_comparison\<close> for comparators that
    are the order of a key.
  \<^item> \<open>Turn_State\<close>: the turn-state store of \<open>runtime/session_state.rs\<close>. \<open>Bridge_Store\<close>: the
    continuation stores of \<open>protocol/adapter/store.rs\<close>.
  \<^item> \<open>Rust_Numbers\<close>: integers and decimals in text, bit-exact doubles. \<open>Upstream_Errors\<close>: the error
    classification, what of an error is shown to the client, and what is retried.
    \<open>Failure_Cooldown\<close>: retry hints, backoff and the cooldown a failure sets on the pool scheduler.
  \<^item> \<open>Decimal_Amounts\<close>: \<open>pricing/decimal.rs\<close>. \<open>Pricing_Catalog\<close>: \<open>pricing/mod.rs\<close>,
    \<open>litellm_parser.rs\<close>, \<open>resolver.rs\<close>. \<open>Catalog_Loader\<close>: \<open>pricing/catalog.rs\<close>, \<open>loader.rs\<close> and
    \<open>schedule.rs\<close>, a refresh being a step whose disk and network are arguments.
    \<open>Usage_Estimate\<close>: \<open>usage/api_equivalent.rs\<close>.
  \<^item> \<open>Json_Values\<close>: \<open>serde_json::Value\<close> (an object is its sorted list of fields) and the fallible
    operations the adapters chain. \<open>Sse_Events\<close>: \<open>protocol/sse.rs\<close>, the event helpers of
    \<open>protocol/adapter/stream.rs\<close>, the read loop, the locale \<open>event_stream\<close> of a bridge whose steps
    close a stream at most once, and its extension \<open>stream_bridge\<close> of a bridge driven by pushes, pops and a finish. \<open>Adapter_Contracts\<close>: \<open>protocol/adapter/contracts.rs\<close>.
    \<open>Messages_Request\<close>, \<open>Messages_Response\<close>: the two halves of \<open>protocol/adapter/messages.rs\<close>.
    \<open>Messages_Stream\<close>: \<open>MessagesStreamBridge\<close> of \<open>stream.rs\<close>, one definition per event handler.
    \<open>Messages_Stream_Correct\<close>, \<open>Messages_Assembly\<close>, \<open>Messages_Correct\<close>: what holds of the stream, of
    the stream against the translation of one document, and of whole conversations.
  \<^item> \<open>Gemini_Request\<close>, \<open>Gemini_Response\<close>, \<open>Gemini_Args\<close>: the two halves of \<open>protocol/adapter/gemini.rs\<close>
    and the patches at JSON paths in which it receives the arguments of a call. \<open>Gemini_Stream\<close>:
    \<open>GeminiStreamBridge\<close> of \<open>stream.rs\<close>. \<open>Gemini_Stream_Correct\<close>, \<open>Gemini_Correct\<close>: what holds of the
    stream, and two places where the adapter does not do what it means to.

  \<^bold>\<open>What is shown.\<close> This theory holds the properties of scheduler and leases together: counters
  equal outstanding leases, nothing outlives its candidate, a selected candidate may serve the
  request, a request gets a lease when one can be had, selection respects the routing class, and
  dropping the last lease completes a removal. The component theories show the invariants of the
  queue and the wake automation over every sequence of steps, that a transition is scheduled and a permit
  settled once for as long as a full store does not evict the completed cycle, that the lazy heap claims
  what sorting would, that a cooldown excludes its candidate and a probe every other one until its mark is
  cleared, that quota reports only lower what is left, and that the affinity cache refines its owner map. They show that a failure keeps its candidate
  out for a bounded time and says nothing confidential to the client, that an
  estimate counts every token once, which texts are prices and how they are rounded, that a failed
  refresh of the prices loses nothing, and that a restart of the wake automation restores its state when all
  cycles name an account; that an access token is durable before it is used, unless an operation that does
  not store left it so, and that a rejected one is not used again before the account is registered anew. For the adapter they show that a stream is closed exactly once, that it does not matter how
  its bytes are cut, that a completed stream gives the response its message would have given at
  once, that a tool call survives the way to the client and back into a later request, that only offered tools
  are called, and that every tool result sent upstream answers a call. For Gemini they show that the
  stream is closed exactly once too, that the bridge panics only on an event that patches an array beyond
  what a \<open>Vec\<close> may hold, and that a patch changes the value at its path and nothing else. Five of them state defects: the
  comparator that \<open>runtime_order\<close> sorts with is cyclic, the release of an older lease clears a running probe, a price too small to
  represent is accepted as zero when it has many digits, the Gemini adapter forgets which tools a request
  allows when the choice names a mode, and it takes a second call of one tool for a continuation of the
  first; and the invariant of the wake automation shows that one cycle of an account with a blank
  identifier makes the saved state unreadable. Two lemmas state further ones: with mixed line endings the
  end of an event depends on when its bytes arrive (\<open>event_end_depends_on_arrival\<close> of \<open>Sse_Events\<close>),
  and a patch with a huge index makes the process panic (\<open>patch_index_panics\<close> of \<open>Gemini_Args\<close>).

  \<^bold>\<open>Errors, bounds and fuel.\<close> A \<open>Result\<close> is a sum with the error on the left, a panic the value
  \<open>None\<close>; where a definition can be \<open>None\<close> a theorem shows that it is not, or when it is. No definition needs fuel:
  loops over collections are recursions on lists. The constants are those of the source.

  \<^bold>\<open>Parameters.\<close> Code outside the repository is an argument: \<open>sha256\<close> (raw and hexadecimal),
  \<open>str::to_lowercase\<close> on non-ASCII text, \<open>slice::sort_by\<close>, \<open>serde_json\<close> (access to values,
  serialisation; for the adapters, the record \<open>adapter_env\<close> of reading and printing JSON text, sha256,
  hexadecimal and base64), the queries of a \<open>reqwest\<close> error, the HTTP date parser, the file system and the
  server the catalog comes from, the refresh and persistence adapters of the tokens, and the affinity
  store of the runtime. The number of values that the allocator grants a \<open>Vec\<close> is the argument \<open>max_len\<close> of
  the Gemini definitions: a longer array is a panic. Hypotheses on them are
  stated where they are used: a hexadecimal digest is not empty, \<open>sort_by\<close> permutes, a stored
  envelope survives its serialisation, every document can be printed, an input survives being printed
  and read.

  \<^bold>\<open>Not modelled.\<close> HTTP, streaming and websocket handling (\<open>gateway/\<close> beside its errors); the
  dispatch between the two adapters (\<open>PreparedAdapterRequest\<close>, \<open>AdapterResponse\<close>);
  the data records of \<open>protocol/management.rs\<close>; provider clients
  (\<open>providers/\<close>, \<open>sources/\<close>), which are asynchronous network code; import and export of accounts;
  the JSON model catalogs (\<open>catalog/codex.rs\<close>, \<open>context.rs\<close>, \<open>registry.rs\<close>); the diagnostics of \<open>usage/mod.rs\<close>; the construction of the runtime; the desktop application
  (\<open>src/src-tauri/\<close>) and the server (\<open>src/relay-server/\<close>), which store and display what the core
  decides. Locks are taken for granted: a step is what runs under one lock.
\<close>

section \<open>The scheduler and its leases\<close>

text \<open>
  C1 (invariant). In every reachable state of the gateway (any interleaving of the pool
  operations with leases being taken and dropped), the number of requests in flight that the
  scheduler keeps for a candidate and a lane is exactly the number of leases handed out for them
  and not yet dropped, and a candidate counts as idle exactly when no lease on it is outstanding.
\<close>

theorem leases_conserved:
  assumes "reachable low (s, leases)"
  shows "unat (in_flight_count s c lane) = leases_on leases c lane
    \<and> (active_request_count s c = 0 \<longleftrightarrow> (\<forall>l. leases_on leases c l = 0))"
proof -
  have match: "counters_match (ps_activity s) leases"
    using reachable_invariant [OF assms] by (simp add: leases_match_def)
  then show ?thesis
    using counters_idle [OF match, of c]
    by (simp add: in_flight_count_def active_request_count_def counters_match_def)
qed

theorem leases_conserved_witness:
  "\<exists>s lease. unat (in_flight_count s ''a'' Text) = 1 \<and> active_request_count s ''a'' \<noteq> 0
     \<and> leases_on {#lease#} ''a'' Text = 1"
proof -
  obtain s lease where r: "reachable id (s, {#lease#})" and l: "cl_candidate_id lease = ''a''" "cl_lane lease = Text"
    using sample_lease by blast
  have on: "leases_on {#lease#} ''a'' Text = 1" using l by (simp add: leases_on_def)
  then have "unat (in_flight_count s ''a'' Text) = 1" "active_request_count s ''a'' \<noteq> 0"
    using leases_conserved [OF r, of "''a''" Text] by (simp, metis zero_neq_one)
  with on show ?thesis by blast
qed

text \<open>
  C2 (invariant). In every reachable state, whatever the scheduler stores beside the candidates
  (retirements, half-open probes, fences, capability blocks, subscription data, the protected
  candidate and both affinity caches) refers to candidates that exist; every recorded cooldown
  reason names a cooldown of its candidate; a retired candidate is draining; a stored fence is
  positive; and both affinity caches hold at most 16384 bindings.
\<close>

theorem nothing_outlives_its_candidate:
  assumes "reachable low (s, leases)"
  shows "referenced_ids s \<subseteq> candidate_ids s \<and> candidates_wf s
    \<and> affinity_len (ps_response_affinity s) \<le> 16384 \<and> affinity_len (ps_prompt_affinity s) \<le> 16384
    \<and> (\<forall>i. bt_get (ps_execution_fences s) i \<noteq> Some 0)"
  using reachable_invariant [OF assms]
  by (simp add: pool_wf_def caches_wf_def affinity_bounded_def scheduler_constants)

theorem nothing_outlives_its_candidate_witness:
  "referenced_ids (sample_pool (sample_candidate ''a'' OAuthAccount QUnknown None)) \<subseteq>
     candidate_ids (sample_pool (sample_candidate ''a'' OAuthAccount QUnknown None))"
  using nothing_outlives_its_candidate [OF sample_reachable] by blast

text \<open>
  C3 (liveness). Dropping an outstanding lease always succeeds, whatever happened to the pool in
  between. When it was the last lease of a candidate that had been removed meanwhile, the drop
  completes the removal.
\<close>

theorem lease_drop_completes:
  assumes "reachable low (s, add_mset lease leases)"
  shows "snd (release_for_lane (cl_candidate_id lease) (Some (cl_model lease)) (cl_lane lease) s)
    \<and> (cl_candidate_id lease |\<in>| ps_retired_candidates s \<longrightarrow> (\<forall>l. leases_on leases (cl_candidate_id lease) l = 0) \<longrightarrow>
       bt_get (ps_candidates (fst (release_for_lane (cl_candidate_id lease) (Some (cl_model lease)) (cl_lane lease) s)))
         (cl_candidate_id lease) = None)"
  using reachable_invariant [OF assms] release_last_lease by (auto intro: leases_match_release(2))

theorem lease_drop_completes_witness:
  "\<exists>s m l. ''a'' |\<in>| ps_retired_candidates s \<and> snd (release_for_lane ''a'' (Some m) l s)
     \<and> bt_get (ps_candidates (fst (release_for_lane ''a'' (Some m) l s))) ''a'' = None"
proof -
  obtain s lease where r: "reachable id (s, {#lease#})" and l: "cl_candidate_id lease = ''a''"
    and ret: "''a'' |\<in>| ps_retired_candidates s" using sample_retired by blast
  have none: "\<forall>l. leases_on {#} ''a'' l = 0" by (simp add: leases_on_def)
  show ?thesis using lease_drop_completes [OF r] ret none unfolding l by blast
qed

text \<open>
  C4 (safety). A selected candidate exists, has not been tried for this request, is not retired,
  fenced or blocked for the model, is enabled, not draining, holds its secret, speaks an allowed
  protocol, serves the model within the key's scope, has an eligible health and no running
  cooldown for the model, and, for an image request on an OAuth account, has no image in flight.
\<close>

theorem selected_candidate_may_serve:
  assumes "reachable low (s, leases)" and "select_for request lane s = (s', Some sel)"
  shows "\<exists>c. bt_get (ps_candidates s) (sl_candidate_id sel) = Some c
    \<and> sl_candidate_id sel |\<notin>| rq_tried request \<and> sl_candidate_id sel |\<notin>| ps_retired_candidates s
    \<and> bt_get (ps_execution_fences s) (sl_candidate_id sel) = None
    \<and> (sl_candidate_id sel, to_ascii_lowercase (rq_model request)) |\<notin>| ps_capability_blocks s
    \<and> is_configured c (rq_model request) (rq_allowed_protocols request) (rq_scope request)
    \<and> health_is_eligible (rc_health c)
    \<and> active_retry_at (rc_cooldowns c) (rq_model request) (rq_now_ms request) = None
    \<and> (rc_kind c = OAuthAccount \<longrightarrow> lane = Image \<longrightarrow> in_flight_count s (sl_candidate_id sel) Image = 0)"
proof -
  have "pool_wf s" using reachable_invariant [OF assms(1)] by simp
  then obtain c where c: "bt_get (ps_candidates s) (sl_candidate_id sel) = Some c" "rc_id c = sl_candidate_id sel"
    and adm: "request_admits s request lane c" using assms(2) by (rule select_admitted)
  have "in_flight_count s (sl_candidate_id sel) Image = 0" if "rc_kind c = OAuthAccount" "lane = Image"
    using adm that c(2) by (simp add: request_admits_def lane_allows_def MAX_OAUTH_IMAGE_IN_FLIGHT_def word_less_1)
  then show ?thesis using c adm
    by (auto simp: request_admits_def is_eligible_def candidate_is_eligible_def is_visible_def is_catalog_visible_def)
qed

theorem selected_candidate_may_serve_witness:
  "\<exists>s' sel c. select_for sample_request Text sample_oauth_pool = (s', Some sel)
     \<and> bt_get (ps_candidates sample_oauth_pool) (sl_candidate_id sel) = Some c \<and> health_is_eligible (rc_health c)"
proof -
  obtain s' sel where sel: "select_for sample_request Text sample_oauth_pool = (s', Some sel)"
    using sample_selected by blast
  show ?thesis using selected_candidate_may_serve [OF sample_oauth_reachable sel] sel by blast
qed

text \<open>
  C5 (liveness). When some candidate of the pool is admitted for a request that is not tied to an
  earlier response, selecting and reserving under the lock returns a lease: no request is refused
  while a candidate could serve it, and a selection is never lost to its own reservation.
\<close>

theorem request_gets_lease:
  assumes "reachable low (s, leases)" and "rq_response_affinity_key request = None"
    and "bt_get (ps_candidates s) i = Some c" and "request_admits s request lane c"
  shows "\<exists>s' sel lease. select_and_reserve_locked request lane s = (s', Some (sel, lease))
    \<and> cl_candidate_id lease = sl_candidate_id sel \<and> cl_lane lease = lane"
  using locked_live [of s i c request lane] reachable_invariant [OF assms(1)] assms(2-4) by blast

theorem request_gets_lease_witness:
  "\<exists>s' sel lease. select_and_reserve_locked sample_request Text sample_oauth_pool = (s', Some (sel, lease))
     \<and> cl_candidate_id lease = sl_candidate_id sel \<and> cl_lane lease = Text"
  by (rule request_gets_lease [OF sample_oauth_reachable _ sample_oauth_get sample_admitted])
    (simp add: sample_request_def)

text \<open>
  C6 (functional). Unless the request continues an earlier response, no admitted candidate is of a
  higher routing class than the selected one: primary API sources before the middle tier before
  reserve sources, within a tier OAuth accounts before API sources, and API sources by their
  configured priority. Prompt-cache affinity may pick another candidate, but only of the same class.
\<close>

theorem selection_respects_routing_class:
  assumes "reachable low (s, leases)" and "select_for request lane s = (s', Some sel)"
    and "\<not> sl_response_affinity_hit sel"
    and "bt_get (ps_candidates s) i = Some d" and "request_admits s request lane d"
  shows "\<exists>c. bt_get (ps_candidates s) (sl_candidate_id sel) = Some c
    \<and> (routing_tier d, candidate_kind_preference d) \<le> (routing_tier c, candidate_kind_preference c)
    \<and> (rc_kind c = ApiSource \<longrightarrow> rc_kind d = ApiSource \<longrightarrow> routing_tier c = routing_tier d \<longrightarrow>
        rc_priority d \<le> rc_priority c)"
  using assms(2)
proof (cases rule: select_for_cases)
  case (policy s1)
  have wf: "pool_wf s" using reachable_invariant [OF assms(1)] by simp
  have same: "ps_candidates s' = ps_candidates s" "request_admits s' = request_admits s"
    using policy(2-4) by (simp_all add: prompt_affinity_owner_frame)
  have d: "d \<in> set (bt_values (ps_candidates s))" using assms(4) by (auto simp: bt_values_iff)
  from policy(1) show ?thesis
  proof (rule policy_best)
    fix c
    assume c: "c \<in> set (bt_values (ps_candidates s'))" "sl_candidate_id sel = rc_id c"
      and best: "\<forall>d \<in> set (bt_values (ps_candidates s')). request_admits s' request lane d \<longrightarrow> source_key d \<le> source_key c"
    have "source_key d \<le> source_key c" using best d assms(5) unfolding same by blast
    moreover have "bt_get (ps_candidates s) (rc_id c) = Some c"
      using values_candidate [OF wf] c(1) unfolding same by blast
    ultimately show ?thesis
      unfolding c(2) by (intro exI [of _ c])
        (auto simp: source_key_def less_eq_prod_def, simp add: candidate_kind_preference_def)
  qed
qed (use assms(3) in simp)

theorem selection_respects_routing_class_witness:
  "\<exists>s' sel c. select_for sample_request Text sample_oauth_pool = (s', Some sel)
     \<and> bt_get (ps_candidates sample_oauth_pool) (sl_candidate_id sel) = Some c
     \<and> (0, 1) \<le> (routing_tier c, candidate_kind_preference c)"
proof -
  obtain s' sel where sel: "select_for sample_request Text sample_oauth_pool = (s', Some sel)"
    "\<not> sl_response_affinity_hit sel" using sample_selected by blast
  have "(routing_tier sample_oauth, candidate_kind_preference sample_oauth) = (0, 1)"
    by (simp add: sample_oauth_def sample_candidate_def routing_tier_def candidate_kind_preference_def)
  then show ?thesis
    using selection_respects_routing_class [OF sample_oauth_reachable sel sample_oauth_get sample_admitted] sel
    by metis
qed

end
